(* ===== verification/Prelude.thy ===== *)
theory Prelude
  imports Main "HOL-Library.List_Lexorder" "HOL-Library.Char_ord" "HOL-Library.Product_Lexorder"
begin

text \<open>
  Shared vocabulary of the development: raised errors as the left side of a sum, the constructor
  checks of frozen dataclasses, the Python string operations the code uses, and generic lemmas on
  lists that several components need.

  A Python \<open>str\<close> is modelled by \<^typ>\<open>string\<close>, a list of 8-bit characters read as the code
  points 0 to 255.  Whitespace and case mapping below are Python's on that range.
\<close>

section \<open>Theorem collections\<close>

named_theorems result_simps \<open>rewriting of results (sums) and of sequenced checks\<close>
named_theorems py_str \<open>facts on the Python string operations\<close>

section \<open>Raised errors\<close>

text \<open>A computation that may raise: \<open>Inl\<close> is the exception, \<open>Inr\<close> the returned value.\<close>

type_synonym ('e, 'a) outcome = "'e + 'a"

definition bindE :: "'e + 'a \<Rightarrow> ('a \<Rightarrow> 'e + 'b) \<Rightarrow> 'e + 'b" where
  "bindE m f = (case m of Inl e \<Rightarrow> Inl e | Inr a \<Rightarrow> f a)"

definition ensureE :: "bool \<Rightarrow> 'e \<Rightarrow> 'e + unit" where
  "ensureE c e = (if c then Inr () else Inl e)"

definition mapErr :: "('e \<Rightarrow> 'f) \<Rightarrow> 'e + 'a \<Rightarrow> 'f + 'a" where
  "mapErr h m = (case m of Inl e \<Rightarrow> Inl (h e) | Inr a \<Rightarrow> Inr a)"

definition from_option :: "'e \<Rightarrow> 'a option \<Rightarrow> 'e + 'a" where
  "from_option e x = (case x of None \<Rightarrow> Inl e | Some a \<Rightarrow> Inr a)"

text \<open>
  The body of a \<open>__post_init__\<close>: a list of (violated, error) checks made in the order of the
  source; the first violated one is raised, otherwise the value is constructed.
\<close>

fun raise_first :: "(bool \<times> 'e) list \<Rightarrow> 'a \<Rightarrow> 'e + 'a" where
  "raise_first [] a = Inr a"
| "raise_first ((bad, e) # cs) a = (if bad then Inl e else raise_first cs a)"

lemma bindE_simps [simp, result_simps]:
  "bindE (Inl e) f = Inl e" "bindE (Inr a) f = f a"
  by (simp_all add: bindE_def)

lemma bindE_Inr_iff [result_simps]: "bindE m f = Inr b \<longleftrightarrow> (\<exists>a. m = Inr a \<and> f a = Inr b)"
  by (cases m) auto

lemma bindE_Inl_iff [result_simps]:
  "bindE m f = Inl e \<longleftrightarrow> m = Inl e \<or> (\<exists>a. m = Inr a \<and> f a = Inl e)"
  by (cases m) auto

lemma bindE_InrE:
  assumes "bindE m f = Inr b"
  obtains a where "m = Inr a" "f a = Inr b"
  using assms by (cases m) auto

lemma if_Inl_InrE:
  assumes "(if c then Inl e else m) = Inr b"
  obtains "\<not> c" "m = Inr b"
  using assms by (cases c) auto

lemmas resultE = bindE_InrE if_Inl_InrE

lemma ensureE_simps [simp, result_simps]:
  "ensureE True e = Inr ()" "ensureE False e = Inl e"
  by (simp_all add: ensureE_def)

lemma ensureE_Inr_iff [simp, result_simps]: "ensureE c e = Inr u \<longleftrightarrow> c"
  by (simp add: ensureE_def)

lemma mapErr_Inr_iff [simp, result_simps]: "mapErr h m = Inr a \<longleftrightarrow> m = Inr a"
  by (cases m) (auto simp: mapErr_def)

lemma mapErr_simps [simp, result_simps]:
  "mapErr h (Inl e) = Inl (h e)" "mapErr h (Inr a) = Inr a"
  by (simp_all add: mapErr_def)

lemma from_option_simps [simp, result_simps]:
  "from_option e None = Inl e" "from_option e (Some a) = Inr a"
  by (simp_all add: from_option_def)

lemma from_option_Inr_iff [simp, result_simps]: "from_option e x = Inr a \<longleftrightarrow> x = Some a"
  by (cases x) auto

lemma raise_first_Inr_iff [result_simps]:
  "raise_first cs a = Inr b \<longleftrightarrow> b = a \<and> (\<forall>c \<in> set cs. \<not> fst c)"
  by (induction cs a rule: raise_first.induct) auto

lemma raise_first_Inl_D: "raise_first cs a = Inl e \<Longrightarrow> \<exists>c \<in> set cs. fst c \<and> snd c = e"
  by (induction cs a rule: raise_first.induct) (auto split: if_splits)

section \<open>Python strings\<close>

definition py_space :: "char \<Rightarrow> bool" where
  "py_space c = (let n = (of_char c :: nat) in
     (9 \<le> n \<and> n \<le> 13) \<or> (28 \<le> n \<and> n \<le> 32) \<or> n = 133 \<or> n = 160)"

definition py_strip :: "string \<Rightarrow> string" where
  "py_strip s = rev (dropWhile py_space (rev (dropWhile py_space s)))"

text \<open>\<open>not value.strip()\<close>: the string is empty or all whitespace.\<close>

definition blank :: "string \<Rightarrow> bool" where
  "blank s = (py_strip s = [])"

definition lower_char :: "char \<Rightarrow> char" where
  "lower_char c = (let n = (of_char c :: nat) in
     if (65 \<le> n \<and> n \<le> 90) \<or> (192 \<le> n \<and> n \<le> 222 \<and> n \<noteq> 215) then char_of (n + 32) else c)"

definition py_lower :: "string \<Rightarrow> string" where
  "py_lower s = map lower_char s"

text \<open>
  \<open>s.upper()\<close>: the sharp s becomes two letters; the micro sign and y with diaeresis, whose upper case
  lies outside the modelled range, are left as they are.
\<close>

definition upper_char :: "char \<Rightarrow> string" where
  "upper_char c = (let n = (of_char c :: nat) in
     if (97 \<le> n \<and> n \<le> 122) \<or> (224 \<le> n \<and> n \<le> 254 \<and> n \<noteq> 247) then [char_of (n - 32)]
     else if n = 223 then ''SS'' else [c])"

definition py_upper :: "string \<Rightarrow> string" where
  "py_upper s = concat (map upper_char s)"

definition py_startswith :: "string \<Rightarrow> string \<Rightarrow> bool" where
  "py_startswith s p = (take (length p) s = p)"

definition py_endswith :: "string \<Rightarrow> string \<Rightarrow> bool" where
  "py_endswith s p = (length p \<le> length s \<and> drop (length s - length p) s = p)"

text \<open>\<open>s.strip(chars)\<close>: drop the given characters at both ends.\<close>

definition py_strip_chars :: "string \<Rightarrow> string \<Rightarrow> string" where
  "py_strip_chars cs s =
     rev (dropWhile (\<lambda>c. c \<in> set cs) (rev (dropWhile (\<lambda>c. c \<in> set cs) s)))"

fun show_nat :: "nat \<Rightarrow> string" where
  "show_nat n = (if n < 10 then [char_of (48 + n)] else show_nat (n div 10) @ [char_of (48 + n mod 10)])"

declare show_nat.simps [simp del]

lemma dropWhile_self: "xs = [] \<or> \<not> P (hd xs) \<Longrightarrow> dropWhile P xs = xs"
  by (cases xs) auto

lemma dropWhile_hd: "dropWhile P xs \<noteq> [] \<Longrightarrow> \<not> P (hd (dropWhile P xs))"
  by (induction xs) (auto split: if_splits)

lemma dropWhile_idem: "dropWhile P (dropWhile P xs) = dropWhile P xs"
  by (induction xs) auto

lemma py_strip_idem [simp, py_str]: "py_strip (py_strip s) = py_strip s"
proof -
  let ?d = "dropWhile py_space s"
  let ?r = "rev (dropWhile py_space (rev ?d))"
  have lead: "dropWhile py_space ?r = ?r"
  proof (cases "?r = []")
    case True
    then show ?thesis by (simp only: dropWhile.simps)
  next
    case False
    obtain zs where "rev ?d = zs @ dropWhile py_space (rev ?d)"
      by (metis takeWhile_dropWhile_id)
    then have "?d = ?r @ rev zs" by (metis rev_append rev_rev_ident)
    with False have "hd ?r = hd ?d" and "?d \<noteq> []"
      by (metis hd_append2, metis append_is_Nil_conv)
    then have "\<not> py_space (hd ?r)" using dropWhile_hd by metis
    then show ?thesis by (simp only: dropWhile_self simp_thms)
  qed
  then show ?thesis by (simp add: py_strip_def dropWhile_idem)
qed

lemma blank_iff_all_space [py_str]: "blank s \<longleftrightarrow> (\<forall>c \<in> set s. py_space c)"
proof -
  have "(dropWhile py_space (rev (dropWhile py_space s)) = []) \<longleftrightarrow>
        (\<forall>c \<in> set (dropWhile py_space s). py_space c)"
    by (simp add: dropWhile_eq_Nil_conv)
  also have "\<dots> \<longleftrightarrow> (\<forall>c \<in> set s. py_space c)"
    by (induction s) auto
  finally show ?thesis by (simp add: blank_def py_strip_def)
qed

lemma blank_Nil [simp]: "blank []"
  by (simp add: blank_def py_strip_def)

lemma blank_strip [simp, py_str]: "blank (py_strip s) = blank s"
  by (simp add: blank_def)

lemma not_blank_appendI: "\<not> blank t \<Longrightarrow> \<not> blank (s @ t)" "\<not> blank s \<Longrightarrow> \<not> blank (s @ t)"
  by (auto simp: blank_iff_all_space)

lemma lower_char_idem [simp]: "lower_char (lower_char c) = lower_char c"
proof (cases "(65 \<le> (of_char c :: nat) \<and> of_char c \<le> (90 :: nat)) \<or>
    (192 \<le> (of_char c :: nat) \<and> of_char c \<le> (222 :: nat) \<and> of_char c \<noteq> (215 :: nat))")
  case True
  then have "(of_char (lower_char c) :: nat) = of_char c + 32"
    by (auto simp: lower_char_def Let_def)
  with True show ?thesis by (auto simp: lower_char_def [of "lower_char c"] Let_def)
next
  case False
  then have "lower_char c = c" unfolding lower_char_def Let_def by (simp only: if_False)
  then show ?thesis by simp
qed

lemma py_lower_idem [simp, py_str]: "py_lower (py_lower s) = py_lower s"
  by (simp add: py_lower_def)

lemma py_startswith_append [simp, py_str]: "py_startswith (p @ s) p"
  by (simp add: py_startswith_def)

lemma py_startswith_iff [py_str]: "py_startswith s p \<longleftrightarrow> (\<exists>t. s = p @ t)"
  by (auto simp: py_startswith_def) (metis append_take_drop_id)

lemma py_endswith_iff [py_str]: "py_endswith s p \<longleftrightarrow> (\<exists>t. s = t @ p)"
  by (auto simp: py_endswith_def) (metis append_take_drop_id)

section \<open>Lists\<close>

lemma find_Some_mem: "find P xs = Some x \<Longrightarrow> x \<in> set xs \<and> P x"
  by (auto simp: find_Some_iff)

lemma find_None_all: "find P xs = None \<longleftrightarrow> (\<forall>x \<in> set xs. \<not> P x)"
  by (auto simp: find_None_iff)

lemma list_all2_set2D: "list_all2 P xs ys \<Longrightarrow> y \<in> set ys \<Longrightarrow> \<exists>x \<in> set xs. P x y"
  by (induction xs ys rule: list_all2_induct) auto

lemma list_all2_set1D: "list_all2 P xs ys \<Longrightarrow> x \<in> set xs \<Longrightarrow> \<exists>y \<in> set ys. P x y"
  by (induction xs ys rule: list_all2_induct) auto

text \<open>\<open>tuple(dict.fromkeys(xs))\<close>: the distinct elements in the order of their first occurrence.\<close>

fun dedup_from :: "'a list \<Rightarrow> 'a list \<Rightarrow> 'a list" where
  "dedup_from seen [] = []"
| "dedup_from seen (x # xs) =
     (if x \<in> set seen then dedup_from seen xs else x # dedup_from (x # seen) xs)"

definition dedup :: "'a list \<Rightarrow> 'a list" where
  "dedup xs = dedup_from [] xs"

lemma set_dedup_from: "set (dedup_from seen xs) = set xs - set seen"
  by (induction seen xs rule: dedup_from.induct) auto

lemma set_dedup [simp]: "set (dedup xs) = set xs"
  by (simp add: dedup_def set_dedup_from)

lemma distinct_dedup [simp]: "distinct (dedup xs)"
proof -
  have "distinct (dedup_from seen xs)" for seen
    by (induction seen xs rule: dedup_from.induct) (auto simp: set_dedup_from)
  then show ?thesis by (simp add: dedup_def)
qed

end
