(* ===== verification/Core_Types.thy ===== *)
theory Core_Types
  imports Prelude
begin

text \<open>
  Core vocabulary: the enums of \<open>core/enums.py\<close>, the error classes of \<open>core/errors.py\<close> and the
  opaque-id check of \<open>core/identity.py\<close>.  \<open>CoreInputError\<close> is a schema bug, never a policy DENY, so
  it is the left side of a sum and the policy decision is the right side.
\<close>

section \<open>Enums\<close>

datatype actor_type = HUMAN_OPERATOR | CONTROL_PLANE | WORKER | INTEGRATION

fun actor_type_value :: "actor_type \<Rightarrow> string" where
  "actor_type_value HUMAN_OPERATOR = ''HUMAN_OPERATOR''"
| "actor_type_value CONTROL_PLANE = ''CONTROL_PLANE''"
| "actor_type_value WORKER = ''WORKER''"
| "actor_type_value INTEGRATION = ''INTEGRATION''"

datatype authorization_source_state = AS_ACTIVE | AS_EXPIRED | AS_REVOKED

datatype scope_decision = SD_ALLOW | SD_DENY | SD_REQUIRE_HUMAN_REVIEW

datatype scope_classification = SC_IN_SCOPE | SC_UNKNOWN | SC_OUT_OF_SCOPE

datatype scope_rule_effect = SRE_ALLOW | SRE_DENY | SRE_OUT_OF_SCOPE | SRE_UNKNOWN

datatype side_effect_level = LEVEL_0 | LEVEL_1 | LEVEL_2 | LEVEL_3

datatype approval_decision = AD_APPROVE | AD_REJECT

fun approval_decision_value :: "approval_decision \<Rightarrow> string" where
  "approval_decision_value AD_APPROVE = ''APPROVE''"
| "approval_decision_value AD_REJECT = ''REJECT''"

datatype execution_decision_kind = ED_ALLOW | ED_DENY | ED_REQUIRE_HUMAN_REVIEW

datatype reason_code =
    RC_ALLOWED
  | RC_AUTHORIZATION_MISSING
  | RC_AUTHORIZATION_INACTIVE
  | RC_SCOPE_DENIED
  | RC_SCOPE_NOT_EXPLICITLY_ALLOWED
  | RC_SCOPE_AMBIGUOUS
  | RC_BUDGET_EXHAUSTED
  | RC_BUDGET_MISMATCH
  | RC_APPROVAL_REQUIRED
  | RC_APPROVAL_REJECTED
  | RC_APPROVAL_INVALID_ACTOR
  | RC_APPROVAL_SUBJECT_MISMATCH
  | RC_APPROVAL_NOT_RECORDED
  | RC_SIDE_EFFECT_LEVEL_DENIED
  | RC_CAPABILITY_AUTHORIZATION_MISSING
  | RC_UNKNOWN_CAPABILITY
  | RC_UNKNOWN_ACTION
  | RC_UNSUPPORTED_CAPABILITY_VERSION
  | RC_DEFINITION_FINGERPRINT_MISMATCH
  | RC_RISK_UNDERSTATEMENT
  | RC_RISK_EXCEEDS_CAPABILITY
  | RC_SIDE_EFFECT_BINDING_MISMATCH
  | RC_SCHEMA_MISMATCH
  | RC_SCOPE_PATH_AMBIGUOUS
  | RC_SCOPE_NORMALIZATION_INVALID
  | RC_SCOPE_USERINFO_DENIED
  | RC_SCOPE_WILDCARD_REJECTED
  | RC_SCOPE_UNKNOWN_CLASSIFICATION
  | RC_SCOPE_EXPIRED
  | RC_PROGRAM_POLICY_DENIED
  | RC_RATE_LIMIT_DENIED
  | RC_SENSOR_TIMEOUT
  | RC_SENSOR_FAILED
  | RC_CENSUS_ALLOWED
  | RC_CENSUS_DENIED
  | RC_IMPACT_CHAIN_MISSING
  | RC_IMPACT_CHAIN_CROSS_RUN
  | RC_CROSS_RUN_PROOF

text \<open>
  \<open>SideEffectLevel\<close> is an \<open>IntEnum\<close>: its members compare as their integer values, which is the
  linear order instantiated here.
\<close>

fun side_effect_int :: "side_effect_level \<Rightarrow> int" where
  "side_effect_int LEVEL_0 = 0"
| "side_effect_int LEVEL_1 = 1"
| "side_effect_int LEVEL_2 = 2"
| "side_effect_int LEVEL_3 = 3"

lemma side_effect_int_inject [simp]: "side_effect_int a = side_effect_int b \<longleftrightarrow> a = b"
  by (cases a; cases b) simp_all

lemma side_effect_int_range: "side_effect_int a \<in> {0..3}"
  by (cases a) simp_all

instantiation side_effect_level :: linorder
begin

definition less_eq_side_effect_level :: "side_effect_level \<Rightarrow> side_effect_level \<Rightarrow> bool" where
  "a \<le> b \<longleftrightarrow> side_effect_int a \<le> side_effect_int b"

definition less_side_effect_level :: "side_effect_level \<Rightarrow> side_effect_level \<Rightarrow> bool" where
  "a < b \<longleftrightarrow> side_effect_int a < side_effect_int b"

instance
proof
  fix a b c :: side_effect_level
  show "a < b \<longleftrightarrow> a \<le> b \<and> \<not> b \<le> a"
    by (auto simp: less_eq_side_effect_level_def less_side_effect_level_def)
  show "a \<le> a" by (simp add: less_eq_side_effect_level_def)
  show "a \<le> b \<Longrightarrow> b \<le> c \<Longrightarrow> a \<le> c" by (simp add: less_eq_side_effect_level_def)
  show "a \<le> b \<Longrightarrow> b \<le> a \<Longrightarrow> a = b"
    by (cases a; cases b) (simp_all add: less_eq_side_effect_level_def)
  show "a \<le> b \<or> b \<le> a" by (auto simp: less_eq_side_effect_level_def)
qed

end

section \<open>Errors and opaque ids\<close>

datatype core_error =
    CoreInputError string
  | InvalidBudgetError string
  | BudgetAllocationError string
  | UnknownModelPriceError string

definition opaque_id_message :: "string \<Rightarrow> string" where
  "opaque_id_message field = field @ '' must be a non-empty opaque id''"

definition require_opaque_id :: "string \<Rightarrow> string \<Rightarrow> core_error + string" where
  "require_opaque_id v field =
     (if blank v then Inl (CoreInputError (opaque_id_message field)) else Inr v)"

lemma require_opaque_id_Inr_iff [simp, result_simps]:
  "require_opaque_id v f = Inr w \<longleftrightarrow> w = v \<and> \<not> blank v"
  by (auto simp: require_opaque_id_def)

text \<open>The same check as an entry of a \<open>__post_init__\<close>.\<close>

definition id_check :: "string \<Rightarrow> string \<Rightarrow> bool \<times> core_error" where
  "id_check v field = (blank v, CoreInputError (opaque_id_message field))"

lemma fst_id_check [simp]: "fst (id_check v f) = blank v"
  by (simp add: id_check_def)

record actor =
  actor_id :: string
  actor_kind :: actor_type

definition post_init_actor :: "actor \<Rightarrow> core_error + actor" where
  "post_init_actor a = raise_first [id_check (actor_id a) ''actor_id''] a"

end
