(* ===== verification/Core_Approval.thy ===== *)
theory Core_Approval
  imports Core_Types
begin

text \<open>
  Authorization-source eligibility (\<open>core/authorization.py\<close>) and human Approval eligibility
  (\<open>core/approval.py\<close>).
\<close>

section \<open>Authorization sources\<close>

record authorization_source_view =
  asv_authorization_source_id :: string
  asv_program_id :: string
  asv_state :: authorization_source_state

definition post_init_authorization_source_view ::
    "authorization_source_view \<Rightarrow> core_error + authorization_source_view" where
  "post_init_authorization_source_view v = raise_first
     [id_check (asv_authorization_source_id v) ''authorization_source_id'',
      id_check (asv_program_id v) ''program_id''] v"

record authorization_check =
  azc_allowed_to_continue :: bool
  azc_reason_code :: reason_code
  azc_authorization_source_id :: "string option"

definition check_authorization :: "authorization_source_view option \<Rightarrow> authorization_check" where
  "check_authorization source =
     (case source of
        None \<Rightarrow> \<lparr>azc_allowed_to_continue = False, azc_reason_code = RC_AUTHORIZATION_MISSING,
                 azc_authorization_source_id = None\<rparr>
      | Some s \<Rightarrow>
          if asv_state s \<noteq> AS_ACTIVE
          then \<lparr>azc_allowed_to_continue = False, azc_reason_code = RC_AUTHORIZATION_INACTIVE,
                azc_authorization_source_id = Some (asv_authorization_source_id s)\<rparr>
          else \<lparr>azc_allowed_to_continue = True, azc_reason_code = RC_ALLOWED,
                azc_authorization_source_id = Some (asv_authorization_source_id s)\<rparr>)"

definition source_active :: "authorization_source_view option \<Rightarrow> bool" where
  "source_active source = (case source of None \<Rightarrow> False | Some s \<Rightarrow> asv_state s = AS_ACTIVE)"

lemma check_authorization_allowed [simp]:
  "azc_allowed_to_continue (check_authorization s) = source_active s"
  by (simp add: check_authorization_def source_active_def split: option.splits)

section \<open>Approvals\<close>

record approval_view =
  av_approval_id :: string
  av_subject_reference :: string
  av_decision :: approval_decision
  av_decided_by :: string
  av_actor_type :: actor_type
  av_recorded :: bool

definition post_init_approval_view :: "approval_view \<Rightarrow> core_error + approval_view" where
  "post_init_approval_view v = raise_first
     [id_check (av_approval_id v) ''approval_id'',
      id_check (av_subject_reference v) ''subject_reference'',
      id_check (av_decided_by v) ''decided_by''] v"

record approval_check =
  ac_authorizes :: bool
  ac_require_human_review :: bool
  ac_reason_code :: reason_code
  ac_approval_id :: "string option"

definition check_approval :: "approval_view option \<Rightarrow> string \<Rightarrow> core_error + approval_check" where
  "check_approval approval requested_subject =
     bindE (require_opaque_id requested_subject ''requested_subject'') (\<lambda>_.
     Inr (case approval of
        None \<Rightarrow> \<lparr>ac_authorizes = False, ac_require_human_review = True,
                 ac_reason_code = RC_APPROVAL_REQUIRED, ac_approval_id = None\<rparr>
      | Some a \<Rightarrow>
          let deny = (\<lambda>rc. \<lparr>ac_authorizes = False, ac_require_human_review = False,
                            ac_reason_code = rc, ac_approval_id = Some (av_approval_id a)\<rparr>)
          in if \<not> av_recorded a then deny RC_APPROVAL_NOT_RECORDED
             else if av_actor_type a \<noteq> HUMAN_OPERATOR then deny RC_APPROVAL_INVALID_ACTOR
             else if av_subject_reference a \<noteq> requested_subject then deny RC_APPROVAL_SUBJECT_MISMATCH
             else if av_decision a = AD_REJECT then deny RC_APPROVAL_REJECTED
             else \<lparr>ac_authorizes = True, ac_require_human_review = False,
                   ac_reason_code = RC_ALLOWED, ac_approval_id = Some (av_approval_id a)\<rparr>))"

record recorded_approval_evaluation =
  rae_valid_record :: bool
  rae_authorizes :: bool
  rae_reason_code :: reason_code
  rae_approval_id :: "string option"

definition evaluate_recorded_approval ::
    "approval_view option \<Rightarrow> string \<Rightarrow> core_error + recorded_approval_evaluation" where
  "evaluate_recorded_approval approval requested_subject =
     bindE (check_approval approval requested_subject) (\<lambda>check.
     Inr (case approval of
        None \<Rightarrow> \<lparr>rae_valid_record = False, rae_authorizes = False,
                 rae_reason_code = ac_reason_code check, rae_approval_id = None\<rparr>
      | Some a \<Rightarrow>
          if ac_reason_code check = RC_APPROVAL_REJECTED
          then \<lparr>rae_valid_record = True, rae_authorizes = False,
                rae_reason_code = ac_reason_code check, rae_approval_id = Some (av_approval_id a)\<rparr>
          else if ac_authorizes check
          then \<lparr>rae_valid_record = True, rae_authorizes = True,
                rae_reason_code = ac_reason_code check, rae_approval_id = Some (av_approval_id a)\<rparr>
          else \<lparr>rae_valid_record = False, rae_authorizes = False,
                rae_reason_code = ac_reason_code check, rae_approval_id = Some (av_approval_id a)\<rparr>))"

text \<open>What an approval has to be: recorded, by a human, for exactly this subject.\<close>

definition human_record_for :: "string \<Rightarrow> approval_view \<Rightarrow> bool" where
  "human_record_for subject a \<longleftrightarrow>
     av_recorded a \<and> av_actor_type a = HUMAN_OPERATOR \<and> av_subject_reference a = subject"

definition approved_for :: "string \<Rightarrow> approval_view option \<Rightarrow> bool" where
  "approved_for subject approval =
     (case approval of None \<Rightarrow> False
      | Some a \<Rightarrow> human_record_for subject a \<and> av_decision a = AD_APPROVE)"

lemma check_approval_total: "\<not> blank subject \<Longrightarrow> \<exists>c. check_approval a subject = Inr c"
  by (simp add: check_approval_def require_opaque_id_def)

lemma check_approval_authorizes:
  "check_approval a subject = Inr c \<Longrightarrow> ac_authorizes c = approved_for subject a"
  by (cases "case a of None \<Rightarrow> AD_REJECT | Some v \<Rightarrow> av_decision v")
     (auto simp: check_approval_def approved_for_def human_record_for_def Let_def result_simps
        split: option.splits if_splits)

lemma check_approval_review:
  "check_approval a subject = Inr c \<Longrightarrow> ac_require_human_review c \<longleftrightarrow> a = None"
  by (auto simp: check_approval_def Let_def result_simps split: option.splits if_splits)

lemma check_approval_reason_allowed:
  "check_approval a subject = Inr c \<Longrightarrow> ac_reason_code c = RC_ALLOWED \<longleftrightarrow> ac_authorizes c"
  by (auto simp: check_approval_def Let_def result_simps split: option.splits if_splits)

lemma evaluate_recorded_approval_valid:
  assumes "evaluate_recorded_approval a subject = Inr e"
  shows "rae_valid_record e \<longleftrightarrow> (\<exists>v. a = Some v \<and> human_record_for subject v)"
  using assms
  by (cases a; cases "case a of None \<Rightarrow> AD_REJECT | Some v \<Rightarrow> av_decision v")
     (auto simp: evaluate_recorded_approval_def check_approval_def human_record_for_def Let_def
        result_simps split: if_splits)

lemma evaluate_recorded_approval_authorizes:
  assumes "evaluate_recorded_approval a subject = Inr e"
  shows "rae_authorizes e = approved_for subject a"
  using assms
  by (cases a; cases "case a of None \<Rightarrow> AD_REJECT | Some v \<Rightarrow> av_decision v")
     (auto simp: evaluate_recorded_approval_def check_approval_def approved_for_def
        human_record_for_def Let_def result_simps split: if_splits)

lemma evaluate_recorded_approval_total:
  "\<not> blank subject \<Longrightarrow> \<exists>e. evaluate_recorded_approval a subject = Inr e"
  by (simp add: evaluate_recorded_approval_def check_approval_def require_opaque_id_def)

end
