(* ===== verification/Core_Budget.thy ===== *)
theory Core_Budget
  imports Core_Types
begin

text \<open>
  Issued budgets, their eligibility checks and the allocation of an experiment inside its run
  (\<open>core/budget.py\<close>), and the deterministic model price table (\<open>core/pricing.py\<close>).  Python
  integers are unbounded, so they are \<^typ>\<open>int\<close>; zero is "no allowance", never "unlimited".
\<close>

section \<open>Budgets\<close>

definition require_non_negative :: "string \<Rightarrow> int \<Rightarrow> bool \<times> core_error" where
  "require_non_negative name v =
     (v < 0, InvalidBudgetError (name @ '' must be a non-negative int; 0 is not unlimited''))"

record issued_budget =
  ib_budget_id :: string
  ib_max_requests :: int
  ib_max_tool_calls :: int
  ib_max_runtime_ms :: int
  ib_max_concurrency :: int

definition post_init_issued_budget :: "issued_budget \<Rightarrow> core_error + issued_budget" where
  "post_init_issued_budget b = raise_first
     [id_check (ib_budget_id b) ''budget_id'',
      require_non_negative ''max_requests'' (ib_max_requests b),
      require_non_negative ''max_tool_calls'' (ib_max_tool_calls b),
      require_non_negative ''max_runtime_ms'' (ib_max_runtime_ms b),
      require_non_negative ''max_concurrency'' (ib_max_concurrency b)] b"

record budget_usage =
  bu_requests :: int
  bu_tool_calls :: int
  bu_runtime_ms :: int
  bu_concurrency :: int

definition post_init_budget_usage :: "budget_usage \<Rightarrow> core_error + budget_usage" where
  "post_init_budget_usage u = raise_first
     [require_non_negative ''requests'' (bu_requests u),
      require_non_negative ''tool_calls'' (bu_tool_calls u),
      require_non_negative ''runtime_ms'' (bu_runtime_ms u),
      require_non_negative ''concurrency'' (bu_concurrency u)] u"

record budget_check =
  bc_allowed_to_continue :: bool
  bc_reason_code :: reason_code
  bc_budget_id :: string

record program_daily_budget =
  pdb_program_id :: string
  pdb_date :: string
  pdb_limit_microdollars :: int
  pdb_spent_microdollars :: int

definition post_init_program_daily_budget ::
    "program_daily_budget \<Rightarrow> core_error + program_daily_budget" where
  "post_init_program_daily_budget b = raise_first
     [id_check (pdb_program_id b) ''program_id'',
      (blank (pdb_date b), InvalidBudgetError ''date must be a non-empty string''),
      require_non_negative ''limit_microdollars'' (pdb_limit_microdollars b),
      require_non_negative ''spent_microdollars'' (pdb_spent_microdollars b)] b"

definition check_program_daily_budget ::
    "program_daily_budget \<Rightarrow> string \<Rightarrow> core_error + budget_check" where
  "check_program_daily_budget budget requested_program_id =
     bindE (require_opaque_id requested_program_id ''requested_program_id'') (\<lambda>_. Inr (
       if requested_program_id \<noteq> pdb_program_id budget
       then \<lparr>bc_allowed_to_continue = False, bc_reason_code = RC_BUDGET_MISMATCH,
             bc_budget_id = pdb_program_id budget\<rparr>
       else if pdb_spent_microdollars budget \<ge> pdb_limit_microdollars budget
       then \<lparr>bc_allowed_to_continue = False, bc_reason_code = RC_BUDGET_EXHAUSTED,
             bc_budget_id = pdb_program_id budget\<rparr>
       else \<lparr>bc_allowed_to_continue = True, bc_reason_code = RC_ALLOWED,
             bc_budget_id = pdb_program_id budget\<rparr>))"

definition allocate_experiment_budget ::
    "issued_budget \<Rightarrow> string \<Rightarrow> int \<Rightarrow> int \<Rightarrow> int \<Rightarrow> int \<Rightarrow> core_error + issued_budget" where
  "allocate_experiment_budget parent bid max_requests max_tool_calls max_runtime_ms max_concurrency =
     bindE (post_init_issued_budget
        \<lparr>ib_budget_id = bid, ib_max_requests = max_requests, ib_max_tool_calls = max_tool_calls,
         ib_max_runtime_ms = max_runtime_ms, ib_max_concurrency = max_concurrency\<rparr>) (\<lambda>child.
     if ib_max_requests child > ib_max_requests parent
        \<or> ib_max_tool_calls child > ib_max_tool_calls parent
        \<or> ib_max_runtime_ms child > ib_max_runtime_ms parent
        \<or> ib_max_concurrency child > ib_max_concurrency parent
     then Inl (BudgetAllocationError
            ''Experiment allocation cannot exceed the parent ResearchRun envelope'')
     else Inr child)"

definition check_budget :: "issued_budget \<Rightarrow> budget_usage \<Rightarrow> string \<Rightarrow> core_error + budget_check" where
  "check_budget issued usage requested_budget_id =
     bindE (require_opaque_id requested_budget_id ''requested_budget_id'') (\<lambda>_. Inr (
       if requested_budget_id \<noteq> ib_budget_id issued
       then \<lparr>bc_allowed_to_continue = False, bc_reason_code = RC_BUDGET_MISMATCH,
             bc_budget_id = ib_budget_id issued\<rparr>
       else if bu_requests usage \<ge> ib_max_requests issued
               \<or> bu_tool_calls usage \<ge> ib_max_tool_calls issued
               \<or> bu_runtime_ms usage \<ge> ib_max_runtime_ms issued
               \<or> bu_concurrency usage \<ge> ib_max_concurrency issued
       then \<lparr>bc_allowed_to_continue = False, bc_reason_code = RC_BUDGET_EXHAUSTED,
             bc_budget_id = ib_budget_id issued\<rparr>
       else \<lparr>bc_allowed_to_continue = True, bc_reason_code = RC_ALLOWED,
             bc_budget_id = ib_budget_id issued\<rparr>))"

text \<open>Every dimension has room left.\<close>

definition budget_room :: "issued_budget \<Rightarrow> budget_usage \<Rightarrow> bool" where
  "budget_room b u \<longleftrightarrow> bu_requests u < ib_max_requests b \<and> bu_tool_calls u < ib_max_tool_calls b
     \<and> bu_runtime_ms u < ib_max_runtime_ms b \<and> bu_concurrency u < ib_max_concurrency b"

lemma check_budget_total:
  "\<not> blank rid \<Longrightarrow> \<exists>c. check_budget b u rid = Inr c"
  by (simp add: check_budget_def require_opaque_id_def)

lemma check_budget_allowed:
  "check_budget b u rid = Inr c \<Longrightarrow>
   bc_allowed_to_continue c \<longleftrightarrow> rid = ib_budget_id b \<and> budget_room b u"
  by (auto simp: check_budget_def budget_room_def result_simps split: if_splits)

lemma check_budget_reason:
  "check_budget b u rid = Inr c \<Longrightarrow> bc_reason_code c = RC_ALLOWED \<longleftrightarrow> bc_allowed_to_continue c"
  by (auto simp: check_budget_def result_simps split: if_splits)

lemma allocate_within:
  "allocate_experiment_budget p bid a b c d = Inr child \<Longrightarrow>
   ib_budget_id child = bid \<and>
   ib_max_requests child \<le> ib_max_requests p \<and> ib_max_tool_calls child \<le> ib_max_tool_calls p \<and>
   ib_max_runtime_ms child \<le> ib_max_runtime_ms p \<and> ib_max_concurrency child \<le> ib_max_concurrency p"
  by (auto simp: allocate_experiment_budget_def post_init_issued_budget_def result_simps
      split: if_splits)

lemma budget_room_allocate:
  "allocate_experiment_budget p bid a b c d = Inr child \<Longrightarrow> budget_room child u \<Longrightarrow> budget_room p u"
  by (drule allocate_within) (auto simp: budget_room_def)

section \<open>Pricing\<close>

definition MODEL_PRICE_TABLE :: "(string \<times> (int \<times> int)) list" where
  "MODEL_PRICE_TABLE =
     [(''gpt-4o-mini'', (150000, 600000)),
      (''gpt-4o'', (2500000, 10000000)),
      (''claude-3-5-sonnet'', (3000000, 15000000)),
      (''local-fixture'', (0, 0))]"

definition estimate_cost :: "string option \<Rightarrow> int option \<Rightarrow> int option \<Rightarrow> core_error + int" where
  "estimate_cost model_id tokens_in tokens_out =
     (case model_id of
        None \<Rightarrow> Inl (UnknownModelPriceError ''model_id is required to estimate cost'')
      | Some m \<Rightarrow> (case map_of MODEL_PRICE_TABLE m of
          None \<Rightarrow> Inl (UnknownModelPriceError (''no price table entry for model_id='' @ m))
        | Some (input_rate, output_rate) \<Rightarrow>
            let in_tokens = (case tokens_in of None \<Rightarrow> 0 | Some n \<Rightarrow> n);
                out_tokens = (case tokens_out of None \<Rightarrow> 0 | Some n \<Rightarrow> n)
            in if in_tokens < 0 \<or> out_tokens < 0
               then Inl (UnknownModelPriceError ''token counts must be non-negative'')
               else Inr ((in_tokens * input_rate + out_tokens * output_rate) div 1000000)))"

lemma price_table_rates:
  "map_of MODEL_PRICE_TABLE m = Some (i, j) \<Longrightarrow> 0 \<le> i \<and> 0 \<le> j"
  by (auto simp: MODEL_PRICE_TABLE_def split: if_splits)

lemma estimate_cost_InrE:
  assumes "estimate_cost (Some m) (Some a) (Some b) = Inr c"
  obtains i j where "map_of MODEL_PRICE_TABLE m = Some (i, j)" "0 \<le> a" "0 \<le> b" "0 \<le> i" "0 \<le> j"
    "c = (a * i + b * j) div 1000000"
  using assms price_table_rates
  by (auto simp: estimate_cost_def Let_def split: option.splits if_splits)

lemma div_add_bounds:
  fixes x y k :: int
  assumes "0 < k"
  shows "x div k + y div k \<le> (x + y) div k" "(x + y) div k \<le> x div k + y div k + 1"
proof -
  have eq: "(x + y) div k = x div k + y div k + (x mod k + y mod k) div k"
    by (rule div_add1_eq)
  have "0 \<le> x mod k" "0 \<le> y mod k" "x mod k < k" "y mod k < k" using assms by simp_all
  then have s: "0 \<le> x mod k + y mod k" "x mod k + y mod k < 2 * k" by linarith+
  let ?q = "(x mod k + y mod k) div k"
  have "?q * k \<le> x mod k + y mod k"
    using assms by (metis div_mult_mod_eq le_add_same_cancel1 pos_mod_sign)
  with s have "?q * k < 2 * k" by linarith
  with assms have "?q < 2" by (simp only: mult_less_cancel_right)
  moreover have "0 \<le> ?q" using s assms by (simp add: pos_imp_zdiv_nonneg_iff)
  ultimately show "x div k + y div k \<le> (x + y) div k" "(x + y) div k \<le> x div k + y div k + 1"
    using eq by linarith+
qed

section \<open>Properties\<close>

text \<open>
  C23. An experiment allocation is a sub-envelope: whenever the experiment's own budget check lets a
  usage continue, the check of the parent run envelope on the same usage also does.
\<close>

theorem allocated_budget_check_implies_parent_check:
  assumes "allocate_experiment_budget parent bid a b c d = Inr child"
    and "\<not> blank (ib_budget_id parent)"
    and "check_budget child usage rid = Inr r" "bc_allowed_to_continue r"
  shows "rid = bid \<and> check_budget parent usage (ib_budget_id parent) =
    Inr \<lparr>bc_allowed_to_continue = True, bc_reason_code = RC_ALLOWED,
         bc_budget_id = ib_budget_id parent\<rparr>"
proof -
  have "rid = ib_budget_id child" and "budget_room child usage"
    using assms(3,4) by (simp_all add: check_budget_allowed)
  then have room: "budget_room parent usage" and "rid = bid"
    using assms(1) allocate_within budget_room_allocate by metis+
  then show ?thesis
    using assms(2) by (simp add: check_budget_def budget_room_def require_opaque_id_def)
qed

theorem allocated_budget_check_implies_parent_check_witness:
  "check_budget \<lparr>ib_budget_id = ''run'', ib_max_requests = 10, ib_max_tool_calls = 4,
       ib_max_runtime_ms = 5000, ib_max_concurrency = 2\<rparr>
     \<lparr>bu_requests = 2, bu_tool_calls = 1, bu_runtime_ms = 300, bu_concurrency = 0\<rparr> ''run'' =
   Inr \<lparr>bc_allowed_to_continue = True, bc_reason_code = RC_ALLOWED, bc_budget_id = ''run''\<rparr>"
  using allocated_budget_check_implies_parent_check
    [of "\<lparr>ib_budget_id = ''run'', ib_max_requests = 10, ib_max_tool_calls = 4,
       ib_max_runtime_ms = 5000, ib_max_concurrency = 2\<rparr>" "''exp''" 3 2 1000 1
       "\<lparr>ib_budget_id = ''exp'', ib_max_requests = 3, ib_max_tool_calls = 2,
       ib_max_runtime_ms = 1000, ib_max_concurrency = 1\<rparr>"
       "\<lparr>bu_requests = 2, bu_tool_calls = 1, bu_runtime_ms = 300, bu_concurrency = 0\<rparr>" "''exp''"
       "\<lparr>bc_allowed_to_continue = True, bc_reason_code = RC_ALLOWED, bc_budget_id = ''exp''\<rparr>"]
  by (simp add: allocate_experiment_budget_def post_init_issued_budget_def check_budget_def
      require_opaque_id_def require_non_negative_def blank_iff_all_space py_space_def)

text \<open>
  Metering one model call as two never under-bills by more than a rounding unit and never
  over-bills: the price of the parts is at most the price of the whole and short of it by at most
  one microdollar.
\<close>

lemma estimate_cost_split:
  assumes "estimate_cost (Some m) (Some a) (Some b) = Inr x"
    and "estimate_cost (Some m) (Some c) (Some d) = Inr y"
  shows "\<exists>z. estimate_cost (Some m) (Some (a + c)) (Some (b + d)) = Inr z \<and> x + y \<le> z \<and> z \<le> x + y + 1"
proof -
  obtain i j where r: "map_of MODEL_PRICE_TABLE m = Some (i, j)" "0 \<le> a" "0 \<le> b" "0 \<le> i" "0 \<le> j"
      and x: "x = (a * i + b * j) div 1000000"
    using assms(1) by (rule estimate_cost_InrE)
  obtain i' j' where r': "map_of MODEL_PRICE_TABLE m = Some (i', j')" "0 \<le> c" "0 \<le> d"
      and y': "y = (c * i' + d * j') div 1000000"
    using assms(2) by (rule estimate_cost_InrE)
  have y: "y = (c * i + d * j) div 1000000" using r r' y' by simp
  have "estimate_cost (Some m) (Some (a + c)) (Some (b + d))
      = Inr (((a * i + b * j) + (c * i + d * j)) div 1000000)"
    using r r' by (simp add: estimate_cost_def algebra_simps)
  then show ?thesis using div_add_bounds [of 1000000] x y by simp
qed

lemma estimate_cost_split_witness:
  "\<exists>z. estimate_cost (Some ''gpt-4o'') (Some 4) (Some 0) = Inr z \<and> 9 \<le> z \<and> z \<le> 10"
  using estimate_cost_split [of "''gpt-4o''" 3 0 7 1 0 2]
  by (simp add: estimate_cost_def MODEL_PRICE_TABLE_def)

end
