(* ===== verification/Core_Scope.thy ===== *)
theory Core_Scope
  imports Core_Types
begin

text \<open>
  Scope decisions: over rule matches evaluated elsewhere (\<open>core/scope.py\<close>), and over a normalised
  candidate and compiled rules (\<open>core/scope_compiler.py\<close>).  A timezone-aware instant is an
  \<^typ>\<open>int\<close> (microseconds), so the code's timezone checks hold by construction.
\<close>

section \<open>Decisions over evaluated rule matches\<close>

record scope_rule_match =
  srm_rule_id :: string
  srm_effect :: scope_rule_effect
  srm_matched :: bool
  srm_source_reference :: string

definition post_init_scope_rule_match :: "scope_rule_match \<Rightarrow> core_error + scope_rule_match" where
  "post_init_scope_rule_match m = raise_first
     [id_check (srm_rule_id m) ''rule_id'',
      id_check (srm_source_reference m) ''source_reference''] m"

record scope_evaluation_input =
  sei_matches :: "scope_rule_match list"
  sei_ambiguous :: bool

record scope_check =
  sc_decision :: scope_decision
  sc_reason_code :: reason_code
  sc_matched_rule_ids :: "string list"
  sc_classification :: scope_classification

definition check_scope :: "scope_evaluation_input \<Rightarrow> scope_check" where
  "check_scope evaluation =
     (let matched = filter srm_matched (sei_matches evaluation);
          matched_ids = map srm_rule_id matched
      in if list_ex (\<lambda>item. srm_effect item \<in> {SRE_DENY, SRE_OUT_OF_SCOPE}) matched
         then \<lparr>sc_decision = SD_DENY, sc_reason_code = RC_SCOPE_DENIED,
               sc_matched_rule_ids = matched_ids, sc_classification = SC_OUT_OF_SCOPE\<rparr>
         else if sei_ambiguous evaluation
         then \<lparr>sc_decision = SD_REQUIRE_HUMAN_REVIEW, sc_reason_code = RC_SCOPE_AMBIGUOUS,
               sc_matched_rule_ids = matched_ids, sc_classification = SC_OUT_OF_SCOPE\<rparr>
         else if list_ex (\<lambda>item. srm_effect item = SRE_ALLOW) matched
         then \<lparr>sc_decision = SD_ALLOW, sc_reason_code = RC_ALLOWED,
               sc_matched_rule_ids = matched_ids, sc_classification = SC_IN_SCOPE\<rparr>
         else if list_ex (\<lambda>item. srm_effect item = SRE_UNKNOWN) matched
         then \<lparr>sc_decision = SD_DENY, sc_reason_code = RC_SCOPE_UNKNOWN_CLASSIFICATION,
               sc_matched_rule_ids = matched_ids, sc_classification = SC_UNKNOWN\<rparr>
         else \<lparr>sc_decision = SD_DENY, sc_reason_code = RC_SCOPE_NOT_EXPLICITLY_ALLOWED,
               sc_matched_rule_ids = matched_ids, sc_classification = SC_OUT_OF_SCOPE\<rparr>)"

text \<open>The abstract policy: only the set of matched effects matters.\<close>

definition matched_effects :: "scope_evaluation_input \<Rightarrow> scope_rule_effect set" where
  "matched_effects e = srm_effect ` set (filter srm_matched (sei_matches e))"

definition excluded_effects :: "scope_rule_effect set \<Rightarrow> bool" where
  "excluded_effects E \<longleftrightarrow> SRE_DENY \<in> E \<or> SRE_OUT_OF_SCOPE \<in> E"

definition scope_policy ::
    "scope_rule_effect set \<Rightarrow> bool \<Rightarrow> scope_decision \<times> reason_code \<times> scope_classification" where
  "scope_policy E ambiguous =
     (if excluded_effects E then (SD_DENY, RC_SCOPE_DENIED, SC_OUT_OF_SCOPE)
      else if ambiguous then (SD_REQUIRE_HUMAN_REVIEW, RC_SCOPE_AMBIGUOUS, SC_OUT_OF_SCOPE)
      else if SRE_ALLOW \<in> E then (SD_ALLOW, RC_ALLOWED, SC_IN_SCOPE)
      else if SRE_UNKNOWN \<in> E then (SD_DENY, RC_SCOPE_UNKNOWN_CLASSIFICATION, SC_UNKNOWN)
      else (SD_DENY, RC_SCOPE_NOT_EXPLICITLY_ALLOWED, SC_OUT_OF_SCOPE))"

lemma check_scope_refines_policy:
  "(sc_decision (check_scope e), sc_reason_code (check_scope e), sc_classification (check_scope e))
   = scope_policy (matched_effects e) (sei_ambiguous e)"
proof -
  have eq: "list_ex (\<lambda>item. srm_effect item = x) (filter srm_matched (sei_matches e))
      \<longleftrightarrow> x \<in> matched_effects e" for x
    by (auto simp: matched_effects_def list_ex_iff)
  have ex: "list_ex (\<lambda>item. srm_effect item \<in> {SRE_DENY, SRE_OUT_OF_SCOPE})
        (filter srm_matched (sei_matches e)) \<longleftrightarrow> excluded_effects (matched_effects e)"
    by (auto simp: matched_effects_def list_ex_iff excluded_effects_def image_iff)
  show ?thesis
    by (simp only: check_scope_def scope_policy_def Let_def ex eq) (simp split: if_splits)
qed

lemma check_scope_allow_iff:
  "sc_decision (check_scope e) = SD_ALLOW \<longleftrightarrow>
   \<not> excluded_effects (matched_effects e) \<and> \<not> sei_ambiguous e \<and> SRE_ALLOW \<in> matched_effects e"
  using check_scope_refines_policy [of e] by (auto simp: scope_policy_def split: if_splits)

lemma check_scope_review_iff:
  "sc_decision (check_scope e) = SD_REQUIRE_HUMAN_REVIEW \<longleftrightarrow>
   \<not> excluded_effects (matched_effects e) \<and> sei_ambiguous e"
  using check_scope_refines_policy [of e] by (auto simp: scope_policy_def split: if_splits)

section \<open>Scope rules and their compilation\<close>

definition DEFAULT_SCHEME_PORTS :: "(string \<times> int) list" where
  "DEFAULT_SCHEME_PORTS = [(''http'', 80), (''https'', 443)]"

definition NORMALIZATION_USERINFO :: string where "NORMALIZATION_USERINFO = ''USERINFO''"
definition NORMALIZATION_WILDCARD :: string where "NORMALIZATION_WILDCARD = ''WILDCARD''"
definition NORMALIZATION_PATH_AMBIGUOUS :: string where
  "NORMALIZATION_PATH_AMBIGUOUS = ''PATH_AMBIGUOUS''"

lemmas normalization_codes =
  NORMALIZATION_USERINFO_def NORMALIZATION_WILDCARD_def NORMALIZATION_PATH_AMBIGUOUS_def

record scope_candidate =
  scn_raw_target :: string
  scn_normalized_scheme :: "string option"
  scn_normalized_host :: "string option"
  scn_normalized_port :: "int option"
  scn_raw_path :: string
  scn_scope_match_path :: "string option"
  scn_normalization_error :: "string option"

record scope_rule_definition =
  srd_rule_id :: string
  srd_effect :: scope_rule_effect
  srd_scheme :: string
  srd_host :: "string option"
  srd_port :: "int option"
  srd_path_prefix :: "string option"
  srd_source_reference :: string
  srd_host_pattern :: "string option"
  srd_expires_at :: "int option"

definition has_star :: "string \<Rightarrow> bool" where
  "has_star s = (CHR ''*'' \<in> set s)"

text \<open>\<open>CoreInputError\<close> checks of the optional fields; the guard \<open>is not None\<close> is the \<open>case\<close>.\<close>

definition post_init_scope_rule_definition ::
    "scope_rule_definition \<Rightarrow> core_error + scope_rule_definition" where
  "post_init_scope_rule_definition r = raise_first
     [id_check (srd_rule_id r) ''rule_id'',
      id_check (srd_source_reference r) ''source_reference'',
      (blank (srd_scheme r), CoreInputError ''scheme must be a non-empty string''),
      (srd_host r \<noteq> None \<and> srd_host_pattern r \<noteq> None,
         CoreInputError ''host and host_pattern are mutually exclusive''),
      (srd_host r = None \<and> srd_host_pattern r = None,
         CoreInputError ''host or host_pattern is required''),
      (case srd_host r of None \<Rightarrow> False | Some h \<Rightarrow> blank h,
         CoreInputError ''host must be a non-empty string''),
      (case srd_host r of None \<Rightarrow> False | Some h \<Rightarrow> has_star h,
         CoreInputError ''wildcard is not allowed in exact host''),
      (case srd_host_pattern r of None \<Rightarrow> False | Some p \<Rightarrow> \<not> py_startswith p ''*.'',
         CoreInputError (''host_pattern must start with '*.'' @ [CHR 0x27])),
      (case srd_host_pattern r of None \<Rightarrow> False
         | Some p \<Rightarrow> (let apex = py_lower (py_strip (drop 2 p)) in apex = [] \<or> has_star apex),
         CoreInputError ''host_pattern apex must be a non-empty literal host''),
      (has_star (srd_scheme r), CoreInputError ''wildcard scheme is not allowed''),
      (case srd_port r of None \<Rightarrow> False | Some p \<Rightarrow> p < 1,
         CoreInputError ''port must be a positive integer or None''),
      (case srd_path_prefix r of None \<Rightarrow> False | Some p \<Rightarrow> \<not> py_startswith p ''/'',
         CoreInputError ''path_prefix must be an absolute path or None'')] r"

record compiled_scope_rule =
  csr_rule_id :: string
  csr_effect :: scope_rule_effect
  csr_scheme :: string
  csr_host :: "string option"
  csr_host_pattern :: "string option"
  csr_port :: int
  csr_path_prefix :: "string option"
  csr_source_reference :: string
  csr_expires_at :: "int option"

text \<open>\<open>CompiledScope\<close> has one field, the tuple of rules.\<close>

type_synonym compiled_scope = "compiled_scope_rule list"

text \<open>One iteration of the loop of \<open>compile_scope_rules\<close>, and the loop.\<close>

definition compile_scope_rule :: "scope_rule_definition \<Rightarrow> core_error + compiled_scope_rule" where
  "compile_scope_rule rule =
     (let scheme = py_strip (py_lower (srd_scheme rule)) in
      case map_of DEFAULT_SCHEME_PORTS scheme of
        None \<Rightarrow> Inl (CoreInputError ''scheme must be http or https'')
      | Some default_port \<Rightarrow>
          Inr \<lparr>csr_rule_id = srd_rule_id rule, csr_effect = srd_effect rule, csr_scheme = scheme,
               csr_host = (case srd_host rule of None \<Rightarrow> None
                  | Some h \<Rightarrow> Some (py_lower (py_strip_chars ''[]'' h))),
               csr_host_pattern = (case srd_host rule of Some h \<Rightarrow> None
                  | None \<Rightarrow> (case srd_host_pattern rule of None \<Rightarrow> None
                     | Some p \<Rightarrow> if p = [] then None else Some (py_lower (py_strip p)))),
               csr_port = (case srd_port rule of None \<Rightarrow> default_port | Some p \<Rightarrow> p),
               csr_path_prefix = srd_path_prefix rule,
               csr_source_reference = srd_source_reference rule,
               csr_expires_at = srd_expires_at rule\<rparr>)"

fun compile_scope_rules :: "scope_rule_definition list \<Rightarrow> core_error + compiled_scope" where
  "compile_scope_rules [] = Inr []"
| "compile_scope_rules (r # rs) =
     bindE (compile_scope_rule r) (\<lambda>c. bindE (compile_scope_rules rs) (\<lambda>cs. Inr (c # cs)))"

section \<open>Evaluation of a candidate\<close>

definition deny_scope :: "reason_code \<Rightarrow> scope_check" where
  "deny_scope reason = \<lparr>sc_decision = SD_DENY, sc_reason_code = reason,
     sc_matched_rule_ids = [], sc_classification = SC_OUT_OF_SCOPE\<rparr>"

definition host_matches :: "string option \<Rightarrow> compiled_scope_rule \<Rightarrow> bool" where
  "host_matches host rule =
     (case host of None \<Rightarrow> False
      | Some h \<Rightarrow> (case csr_host rule of
          Some rh \<Rightarrow> h = rh
        | None \<Rightarrow> (case csr_host_pattern rule of
            Some p \<Rightarrow> (let apex = drop 2 p in h \<noteq> apex \<and> py_endswith h (''.'' @ apex))
          | None \<Rightarrow> False)))"

definition origin_matches :: "scope_candidate \<Rightarrow> compiled_scope_rule \<Rightarrow> bool" where
  "origin_matches candidate rule =
     (if scn_normalized_scheme candidate \<noteq> Some (csr_scheme rule) then False
      else if \<not> host_matches (scn_normalized_host candidate) rule then False
      else scn_normalized_port candidate = Some (csr_port rule))"

definition path_prefix_matches :: "string \<Rightarrow> string \<Rightarrow> bool" where
  "path_prefix_matches path prefix =
     (if path = prefix then True
      else let prefix' = (if py_endswith prefix ''/'' then prefix else prefix @ ''/'')
           in py_startswith path prefix')"

definition rule_applies :: "scope_candidate \<Rightarrow> string \<Rightarrow> compiled_scope_rule \<Rightarrow> bool" where
  "rule_applies candidate path rule =
     (origin_matches candidate rule \<and>
      (case csr_path_prefix rule of None \<Rightarrow> True | Some p \<Rightarrow> path_prefix_matches path p))"

definition rule_expired :: "int \<Rightarrow> compiled_scope_rule \<Rightarrow> bool" where
  "rule_expired t rule = (case csr_expires_at rule of None \<Rightarrow> False | Some e \<Rightarrow> e \<le> t)"

text \<open>
  The loop over the rules with its three accumulators: \<open>Inl\<close> is the early return of an expired
  rule, \<open>Inr\<close> the three lists at the end of the loop.
\<close>

fun scope_loop ::
    "(compiled_scope_rule \<Rightarrow> bool) \<Rightarrow> int \<Rightarrow> compiled_scope_rule list
     \<Rightarrow> compiled_scope_rule list \<Rightarrow> compiled_scope_rule list \<Rightarrow> compiled_scope_rule list
     \<Rightarrow> string + (compiled_scope_rule list \<times> compiled_scope_rule list \<times> compiled_scope_rule list)" where
  "scope_loop app t [] ex al un = Inr (ex, al, un)"
| "scope_loop app t (r # rs) ex al un =
     (if \<not> app r then scope_loop app t rs ex al un
      else if rule_expired t r then Inl (csr_rule_id r)
      else (case csr_effect r of
          SRE_DENY \<Rightarrow> scope_loop app t rs (ex @ [r]) al un
        | SRE_OUT_OF_SCOPE \<Rightarrow> scope_loop app t rs (ex @ [r]) al un
        | SRE_ALLOW \<Rightarrow> scope_loop app t rs ex (al @ [r]) un
        | SRE_UNKNOWN \<Rightarrow> scope_loop app t rs ex al (un @ [r])))"

text \<open>\<open>clock\<close> is what \<open>datetime.now(timezone.utc)\<close> returns when no \<open>now\<close> is given.\<close>

definition evaluate_scope_candidate ::
    "scope_candidate \<Rightarrow> compiled_scope \<Rightarrow> int option \<Rightarrow> int \<Rightarrow> scope_check" where
  "evaluate_scope_candidate candidate compiled now clock =
     (case scn_normalization_error candidate of
        Some err \<Rightarrow>
          if err = NORMALIZATION_USERINFO then deny_scope RC_SCOPE_USERINFO_DENIED
          else if err = NORMALIZATION_WILDCARD then deny_scope RC_SCOPE_WILDCARD_REJECTED
          else if err = NORMALIZATION_PATH_AMBIGUOUS then deny_scope RC_SCOPE_PATH_AMBIGUOUS
          else deny_scope RC_SCOPE_NORMALIZATION_INVALID
      | None \<Rightarrow> (case scn_scope_match_path candidate of
          None \<Rightarrow> deny_scope RC_SCOPE_PATH_AMBIGUOUS
        | Some path \<Rightarrow>
            let evaluated_at = (case now of None \<Rightarrow> clock | Some t \<Rightarrow> t) in
            case scope_loop (rule_applies candidate path) evaluated_at compiled [] [] [] of
              Inl rid \<Rightarrow> \<lparr>sc_decision = SD_REQUIRE_HUMAN_REVIEW, sc_reason_code = RC_SCOPE_EXPIRED,
                          sc_matched_rule_ids = [rid], sc_classification = SC_OUT_OF_SCOPE\<rparr>
            | Inr (exclusions, allows, unknown) \<Rightarrow>
                if exclusions \<noteq> []
                then \<lparr>sc_decision = SD_DENY, sc_reason_code = RC_SCOPE_DENIED,
                      sc_matched_rule_ids = map csr_rule_id exclusions,
                      sc_classification = SC_OUT_OF_SCOPE\<rparr>
                else if allows \<noteq> []
                then \<lparr>sc_decision = SD_ALLOW, sc_reason_code = RC_ALLOWED,
                      sc_matched_rule_ids = map csr_rule_id allows,
                      sc_classification = SC_IN_SCOPE\<rparr>
                else if unknown \<noteq> []
                then \<lparr>sc_decision = SD_DENY, sc_reason_code = RC_SCOPE_UNKNOWN_CLASSIFICATION,
                      sc_matched_rule_ids = map csr_rule_id unknown,
                      sc_classification = SC_UNKNOWN\<rparr>
                else \<lparr>sc_decision = SD_DENY, sc_reason_code = RC_SCOPE_NOT_EXPLICITLY_ALLOWED,
                      sc_matched_rule_ids = [], sc_classification = SC_UNKNOWN\<rparr>))"

section \<open>What the loop computes\<close>

lemma scope_loop_find:
  "scope_loop app t rs ex al un =
     (case find (\<lambda>r. app r \<and> rule_expired t r) rs of
        Some r \<Rightarrow> Inl (csr_rule_id r)
      | None \<Rightarrow> Inr (ex @ filter (\<lambda>r. app r \<and> csr_effect r \<in> {SRE_DENY, SRE_OUT_OF_SCOPE}) rs,
                    al @ filter (\<lambda>r. app r \<and> csr_effect r = SRE_ALLOW) rs,
                    un @ filter (\<lambda>r. app r \<and> csr_effect r = SRE_UNKNOWN) rs))"
  by (induction app t rs ex al un rule: scope_loop.induct)
     (auto split: option.splits scope_rule_effect.splits)

text \<open>The rules of a compiled scope that apply to a candidate which normalised cleanly.\<close>

definition applicable :: "scope_candidate \<Rightarrow> compiled_scope \<Rightarrow> compiled_scope_rule set" where
  "applicable candidate compiled =
     (case (scn_normalization_error candidate, scn_scope_match_path candidate) of
        (None, Some path) \<Rightarrow> set (filter (rule_applies candidate path) compiled)
      | _ \<Rightarrow> set [])"

lemma deny_scope_decision [simp]: "sc_decision (deny_scope r) = SD_DENY"
  by (simp add: deny_scope_def)

lemma evaluate_scope_allow_iff:
  "sc_decision (evaluate_scope_candidate c rules now clock) = SD_ALLOW \<longleftrightarrow>
     (let t = (case now of None \<Rightarrow> clock | Some t \<Rightarrow> t) in
      (\<exists>r \<in> applicable c rules. csr_effect r = SRE_ALLOW) \<and>
      (\<forall>r \<in> applicable c rules. \<not> rule_expired t r \<and> csr_effect r \<notin> {SRE_DENY, SRE_OUT_OF_SCOPE}))"
proof (cases "(scn_normalization_error c, scn_scope_match_path c)")
  case (Pair err path)
  let ?t = "case now of None \<Rightarrow> clock | Some t \<Rightarrow> t"
  show ?thesis
  proof (cases "err = None \<and> path \<noteq> None")
    case False
    with Pair show ?thesis
      by (cases err; cases path) (simp_all add: evaluate_scope_candidate_def applicable_def Let_def)
  next
    case True
    then obtain p where p: "err = None" "path = Some p" by auto
    with Pair have app: "applicable c rules = {r \<in> set rules. rule_applies c p r}"
      by (simp add: applicable_def)
    show ?thesis
    proof (cases "find (\<lambda>r. rule_applies c p r \<and> rule_expired ?t r) rules")
      case None
      have loop: "scope_loop (rule_applies c p) ?t rules [] [] [] = Inr
          (filter (\<lambda>r. rule_applies c p r \<and> csr_effect r \<in> {SRE_DENY, SRE_OUT_OF_SCOPE}) rules,
           filter (\<lambda>r. rule_applies c p r \<and> csr_effect r = SRE_ALLOW) rules,
           filter (\<lambda>r. rule_applies c p r \<and> csr_effect r = SRE_UNKNOWN) rules)"
        by (simp add: scope_loop_find None)
      show ?thesis using None [unfolded find_None_all] Pair p
        by (auto simp: evaluate_scope_candidate_def app loop Let_def filter_empty_conv)
    next
      case (Some r)
      have loop: "scope_loop (rule_applies c p) ?t rules [] [] [] = Inl (csr_rule_id r)"
        by (simp add: scope_loop_find Some)
      show ?thesis using find_Some_mem [OF Some] Pair p
        by (auto simp: evaluate_scope_candidate_def app loop Let_def)
    qed
  qed
qed

lemma path_prefix_matches_iff:
  "path_prefix_matches path prefix \<longleftrightarrow>
   path = prefix \<or> (\<exists>rest. path = (if py_endswith prefix ''/'' then prefix else prefix @ ''/'') @ rest)"
  by (simp add: path_prefix_matches_def Let_def py_startswith_iff)

lemma compile_scope_rules_Inr:
  "compile_scope_rules rs = Inr cs \<longleftrightarrow> list_all2 (\<lambda>r c. compile_scope_rule r = Inr c) rs cs"
  by (induction rs arbitrary: cs) (auto simp: result_simps list_all2_Cons1)

lemma compile_scope_rule_Inr:
  assumes "compile_scope_rule r = Inr c"
  shows "csr_rule_id c = srd_rule_id r" "csr_effect c = srd_effect r"
    "csr_expires_at c = srd_expires_at r" "csr_path_prefix c = srd_path_prefix r"
    "csr_scheme c \<in> {''http'', ''https''}"
    "csr_port c = (case srd_port r of Some p \<Rightarrow> p | None \<Rightarrow> if csr_scheme c = ''http'' then 80 else 443)"
    "srd_host r = Some h \<Longrightarrow> csr_host c = Some (py_lower (py_strip_chars ''[]'' h))"
  using assms
  by (auto simp: compile_scope_rule_def Let_def DEFAULT_SCHEME_PORTS_def split: if_splits option.splits)

section \<open>Properties\<close>

text \<open>
  C24. The scope decision is a function of the set of matched effects and the ambiguity flag: two
  evaluations with the same ones agree on decision, reason and classification, whatever the order or
  multiplicity of the rules; and a matched exclusion denies, wherever it stands.
\<close>

theorem check_scope_order_insensitive:
  assumes "matched_effects e = matched_effects f" "sei_ambiguous e = sei_ambiguous f"
  shows "sc_decision (check_scope e) = sc_decision (check_scope f) \<and>
    sc_reason_code (check_scope e) = sc_reason_code (check_scope f) \<and>
    sc_classification (check_scope e) = sc_classification (check_scope f) \<and>
    (excluded_effects (matched_effects e) \<longrightarrow>
       sc_decision (check_scope e) = SD_DENY \<and> sc_reason_code (check_scope e) = RC_SCOPE_DENIED)"
  using check_scope_refines_policy [of e] check_scope_refines_policy [of f] assms
  by (simp add: scope_policy_def split: if_splits)

definition example_match :: "string \<Rightarrow> scope_rule_effect \<Rightarrow> scope_rule_match" where
  "example_match i e = \<lparr>srm_rule_id = i, srm_effect = e, srm_matched = True, srm_source_reference = ''s''\<rparr>"

theorem check_scope_order_insensitive_witness:
  "sc_decision (check_scope \<lparr>sei_matches = [example_match ''a'' SRE_ALLOW, example_match ''d'' SRE_DENY],
      sei_ambiguous = True\<rparr>) = SD_DENY"
proof -
  let ?e = "\<lparr>sei_matches = [example_match ''a'' SRE_ALLOW, example_match ''d'' SRE_DENY], sei_ambiguous = True\<rparr>"
  let ?f = "\<lparr>sei_matches = [example_match ''d'' SRE_DENY, example_match ''a'' SRE_ALLOW], sei_ambiguous = True\<rparr>"
  have e: "matched_effects ?e = {SRE_ALLOW, SRE_DENY}" and f: "matched_effects ?f = {SRE_ALLOW, SRE_DENY}"
    by (auto simp: matched_effects_def example_match_def)
  have "excluded_effects (matched_effects ?e)" by (simp add: e excluded_effects_def)
  with check_scope_order_insensitive [of ?e ?f, unfolded e f] e show ?thesis by force
qed

text \<open>
  C17. A candidate is in scope of a compiled rule set exactly when it normalised cleanly, an ALLOW
  rule applies to it, and no applicable rule is an exclusion or has expired; and an applicable
  exact-host rule speaks of exactly the candidate's scheme, host and port.
\<close>

theorem evaluate_scope_allow_characterised:
  assumes "compile_scope_rules rules = Inr compiled"
  shows "(sc_decision (evaluate_scope_candidate c compiled (Some t) clock) = SD_ALLOW \<longleftrightarrow>
     (\<exists>r \<in> applicable c compiled. csr_effect r = SRE_ALLOW) \<and>
     (\<forall>r \<in> applicable c compiled. \<not> rule_expired t r \<and> csr_effect r \<notin> {SRE_DENY, SRE_OUT_OF_SCOPE})) \<and>
   (\<forall>r \<in> applicable c compiled. \<exists>d \<in> set rules. csr_effect r = srd_effect d \<and> csr_rule_id r = srd_rule_id d \<and>
      scn_normalized_scheme c \<in> {Some ''http'', Some ''https''} \<and>
      scn_normalized_port c = Some (case srd_port d of Some p \<Rightarrow> p
         | None \<Rightarrow> if scn_normalized_scheme c = Some ''http'' then 80 else 443) \<and>
      (\<forall>h. srd_host d = Some h \<longrightarrow> scn_normalized_host c = Some (py_lower (py_strip_chars ''[]'' h))))"
proof (intro conjI ballI)
  show "sc_decision (evaluate_scope_candidate c compiled (Some t) clock) = SD_ALLOW \<longleftrightarrow>
     (\<exists>r \<in> applicable c compiled. csr_effect r = SRE_ALLOW) \<and>
     (\<forall>r \<in> applicable c compiled. \<not> rule_expired t r \<and> csr_effect r \<notin> {SRE_DENY, SRE_OUT_OF_SCOPE})"
    by (simp add: evaluate_scope_allow_iff)
next
  fix r assume "r \<in> applicable c compiled"
  then have mem: "r \<in> set compiled" and org: "origin_matches c r"
    by (auto simp: applicable_def rule_applies_def split: option.splits)
  from list_all2_set2D [OF assms [unfolded compile_scope_rules_Inr] mem]
  obtain d where d: "d \<in> set rules" "compile_scope_rule d = Inr r" by blast
  from org have o: "scn_normalized_scheme c = Some (csr_scheme r)" "host_matches (scn_normalized_host c) r"
      "scn_normalized_port c = Some (csr_port r)"
    by (auto simp: origin_matches_def split: if_splits)
  have "scn_normalized_host c = Some (py_lower (py_strip_chars ''[]'' h))" if "srd_host d = Some h" for h
    using o(2) compile_scope_rule_Inr(7) [OF d(2) that] by (auto simp: host_matches_def split: option.splits)
  with d o compile_scope_rule_Inr(1-6) [OF d(2)] show "\<exists>d \<in> set rules. csr_effect r = srd_effect d \<and>
      csr_rule_id r = srd_rule_id d \<and> scn_normalized_scheme c \<in> {Some ''http'', Some ''https''} \<and>
      scn_normalized_port c = Some (case srd_port d of Some p \<Rightarrow> p
         | None \<Rightarrow> if scn_normalized_scheme c = Some ''http'' then 80 else 443) \<and>
      (\<forall>h. srd_host d = Some h \<longrightarrow> scn_normalized_host c = Some (py_lower (py_strip_chars ''[]'' h)))"
    by (intro bexI [of _ d]) auto
qed

definition example_rules :: "scope_rule_definition list" where
  "example_rules =
     [\<lparr>srd_rule_id = ''allow'', srd_effect = SRE_ALLOW, srd_scheme = ''HTTPS'', srd_host = Some ''App.io'',
       srd_port = None, srd_path_prefix = Some ''/v1'', srd_source_reference = ''policy'',
       srd_host_pattern = None, srd_expires_at = Some 10\<rparr>,
      \<lparr>srd_rule_id = ''no-admin'', srd_effect = SRE_DENY, srd_scheme = ''https'', srd_host = Some ''app.io'',
       srd_port = None, srd_path_prefix = Some ''/v1/admin'', srd_source_reference = ''policy'',
       srd_host_pattern = None, srd_expires_at = None\<rparr>]"

definition example_candidate :: "string \<Rightarrow> scope_candidate" where
  "example_candidate path = \<lparr>scn_raw_target = ''https://app.io'' @ path, scn_normalized_scheme = Some ''https'',
     scn_normalized_host = Some ''app.io'', scn_normalized_port = Some 443, scn_raw_path = path,
     scn_scope_match_path = Some path, scn_normalization_error = None\<rparr>"

definition example_scope :: compiled_scope where
  "example_scope = (case compile_scope_rules example_rules of Inl _ \<Rightarrow> [] | Inr cs \<Rightarrow> cs)"

lemma example_scope_compiled: "compile_scope_rules example_rules = Inr example_scope"
  by code_simp

theorem evaluate_scope_allow_characterised_witness:
  "sc_decision (evaluate_scope_candidate (example_candidate ''/v1/x'') example_scope (Some 9) 0) = SD_ALLOW"
proof -
  have "(\<exists>r \<in> applicable (example_candidate ''/v1/x'') example_scope. csr_effect r = SRE_ALLOW) \<and>
     (\<forall>r \<in> applicable (example_candidate ''/v1/x'') example_scope.
        \<not> rule_expired 9 r \<and> csr_effect r \<notin> {SRE_DENY, SRE_OUT_OF_SCOPE})"
    by code_simp
  with evaluate_scope_allow_characterised [OF example_scope_compiled, of "example_candidate ''/v1/x''" 9 0]
  show ?thesis by blast
qed

text \<open>
  An expired rule that applies is returned as soon as the loop meets it: an exclusion that also
  applies does not win over it, in whatever position it stands.
\<close>

lemma expired_rule_masks_exclusion:
  "(\<exists>r \<in> applicable (example_candidate ''/v1/admin'') example_scope. csr_effect r = SRE_DENY) \<and>
   sc_decision (evaluate_scope_candidate (example_candidate ''/v1/admin'') example_scope (Some 9) 0) = SD_DENY \<and>
   sc_decision (evaluate_scope_candidate (example_candidate ''/v1/admin'') example_scope (Some 11) 0) =
     SD_REQUIRE_HUMAN_REVIEW"
  by code_simp

end
