(* ===== verification/Py_Json.thy ===== *)
theory Py_Json
  imports Prelude
begin

text \<open>
  JSON values and the canonical encoder behind every content fingerprint of the repository:
  \<open>json.dumps(payload, sort_keys=True, separators=(",", ":"))\<close> with either value of
  \<open>ensure_ascii\<close>, followed by \<open>encode("utf-8")\<close>.  Numbers are Python integers; the documents and
  payloads modelled here hold no floats.  A \<open>dict\<close> is an association list with distinct keys.
\<close>

datatype json =
    JNull
  | JBool bool
  | JInt int
  | JStr string
  | JArr "json list"
  | JObj "(string \<times> json) list"

section \<open>Dictionary access and truth\<close>

text \<open>\<open>mapping.get(key)\<close>, where a missing key and an explicit null are both \<open>None\<close>.\<close>

definition jget :: "(string \<times> json) list \<Rightarrow> string \<Rightarrow> json" where
  "jget kvs k = (case map_of kvs k of None \<Rightarrow> JNull | Some v \<Rightarrow> v)"

definition jget_default :: "(string \<times> json) list \<Rightarrow> string \<Rightarrow> json \<Rightarrow> json" where
  "jget_default kvs k d = (case map_of kvs k of None \<Rightarrow> d | Some v \<Rightarrow> v)"

fun truthy :: "json \<Rightarrow> bool" where
  "truthy JNull = False"
| "truthy (JBool b) = b"
| "truthy (JInt n) = (n \<noteq> 0)"
| "truthy (JStr s) = (s \<noteq> [])"
| "truthy (JArr xs) = (xs \<noteq> [])"
| "truthy (JObj kvs) = (kvs \<noteq> [])"

section \<open>The encoder\<close>

definition hex_digit :: "nat \<Rightarrow> char" where
  "hex_digit n = ''0123456789abcdef'' ! (n mod 16)"

definition esc_char :: "bool \<Rightarrow> char \<Rightarrow> string" where
  "esc_char ensure_ascii c = (let n = (of_char c :: nat) in
     if n = 34 then [CHR 0x5C, CHR 0x22]
     else if n = 92 then [CHR 0x5C, CHR 0x5C]
     else if n = 8 then [CHR 0x5C, CHR ''b'']
     else if n = 9 then [CHR 0x5C, CHR ''t'']
     else if n = 10 then [CHR 0x5C, CHR ''n'']
     else if n = 12 then [CHR 0x5C, CHR ''f'']
     else if n = 13 then [CHR 0x5C, CHR ''r'']
     else if n < 32 \<or> (ensure_ascii \<and> 127 \<le> n)
     then [CHR 0x5C, CHR ''u'', CHR ''0'', CHR ''0'', hex_digit (n div 16), hex_digit n]
     else [c])"

definition esc_str :: "bool \<Rightarrow> string \<Rightarrow> string" where
  "esc_str ensure_ascii s = CHR 0x22 # concat (map (esc_char ensure_ascii) s) @ [CHR 0x22]"

definition show_int :: "int \<Rightarrow> string" where
  "show_int n = (if n < 0 then CHR ''-'' # show_nat (nat (- n)) else show_nat (nat n))"

fun sep_by :: "char \<Rightarrow> string list \<Rightarrow> string" where
  "sep_by c [] = []"
| "sep_by c [x] = x"
| "sep_by c (x # xs) = x @ c # sep_by c xs"

definition obj_str :: "bool \<Rightarrow> (string \<times> string) list \<Rightarrow> string" where
  "obj_str ea kvs = CHR 0x7B # sep_by (CHR 0x2C)
     (map (\<lambda>(k, v). esc_str ea k @ CHR 0x3A # v) (sort_key fst kvs)) @ [CHR 0x7D]"

primrec dumps :: "bool \<Rightarrow> json \<Rightarrow> string" where
  "dumps ea JNull = ''null''"
| "dumps ea (JBool b) = (if b then ''true'' else ''false'')"
| "dumps ea (JInt n) = show_int n"
| "dumps ea (JStr s) = esc_str ea s"
| "dumps ea (JArr xs) = CHR 0x5B # sep_by (CHR 0x2C) (map (dumps ea) xs) @ [CHR 0x5D]"
| "dumps ea (JObj kvs) = obj_str ea (map (map_prod id (dumps ea)) kvs)"

definition utf8_char :: "char \<Rightarrow> string" where
  "utf8_char c = (let n = (of_char c :: nat) in
     if n < 128 then [c] else [char_of (192 + n div 64), char_of (128 + n mod 64)])"

definition utf8 :: "string \<Rightarrow> string" where
  "utf8 s = concat (map utf8_char s)"

lemma dumps_example: "dumps True (JObj [(''b'', JArr [JInt (-12), JNull]), (''a'', JStr ''x'')]) =
  CHR 0x7B # (CHR 0x22 # ''a'' @ [CHR 0x22]) @ CHR 0x3A # (CHR 0x22 # ''x'' @ [CHR 0x22]) @ CHR 0x2C #
    (CHR 0x22 # ''b'' @ [CHR 0x22]) @ CHR 0x3A # ''[-12,null]'' @ [CHR 0x7D]"
  by code_simp

section \<open>Equal encodings come from equal values\<close>

text \<open>The value with the keys of every object sorted, and the encoder that does not sort.\<close>

primrec canon :: "json \<Rightarrow> json" where
  "canon JNull = JNull"
| "canon (JBool b) = JBool b"
| "canon (JInt n) = JInt n"
| "canon (JStr s) = JStr s"
| "canon (JArr xs) = JArr (map canon xs)"
| "canon (JObj kvs) = JObj (sort_key fst (map (map_prod id canon) kvs))"

definition enc_pair :: "bool \<Rightarrow> (json \<Rightarrow> string) \<Rightarrow> string \<times> json \<Rightarrow> string" where
  "enc_pair ea f kv = esc_str ea (fst kv) @ CHR 0x3A # f (snd kv)"

primrec encode_raw :: "bool \<Rightarrow> json \<Rightarrow> string" where
  "encode_raw ea JNull = ''null''"
| "encode_raw ea (JBool b) = (if b then ''true'' else ''false'')"
| "encode_raw ea (JInt n) = show_int n"
| "encode_raw ea (JStr s) = esc_str ea s"
| "encode_raw ea (JArr xs) = CHR 0x5B # sep_by (CHR 0x2C) (map (encode_raw ea) xs) @ [CHR 0x5D]"
| "encode_raw ea (JObj kvs) = CHR 0x7B # sep_by (CHR 0x2C)
     (map (\<lambda>(k, v). esc_str ea k @ CHR 0x3A # v) (map (map_prod id (encode_raw ea)) kvs)) @ [CHR 0x7D]"

lemma insort_map_snd:
  "insort_key fst (map_prod id f x) (map (map_prod id f) ys) = map (map_prod id f) (insort_key fst x ys)"
  by (induction ys) auto

lemma sort_map_snd: "sort_key fst (map (map_prod id f) kvs) = map (map_prod id f) (sort_key fst kvs)"
  by (induction kvs) (simp_all add: insort_map_snd [unfolded id_def])

lemma sort_key_mem [simp]: "x \<in> set (sort_key f xs) \<longleftrightarrow> x \<in> set xs"
  by simp

lemma dumps_raw: "dumps ea j = encode_raw ea (canon j)"
proof (induction j)
  case (JArr xs)
  then have "map (dumps ea) xs = map (encode_raw ea) (map canon xs)" by simp
  then show ?case by (simp only: dumps.simps encode_raw.simps canon.simps)
next
  case (JObj kvs)
  have "map_prod id (dumps ea) kv = map_prod id (encode_raw ea) (map_prod id canon kv)" if "kv \<in> set kvs" for kv
    using JObj [OF that, of "snd kv"] by (cases kv) auto
  then have "map (map_prod id (dumps ea)) kvs = map (map_prod id (encode_raw ea)) (map (map_prod id canon) kvs)"
    by simp
  then show ?case
    by (simp only: dumps.simps encode_raw.simps canon.simps obj_str_def sort_map_snd)
qed simp_all

text \<open>Escaped characters form a prefix code.\<close>

definition hex_value :: "char \<Rightarrow> nat" where
  "hex_value c = (let n = (of_char c :: nat) in if n < 58 then n - 48 else n - 87)"

definition unesc :: "string \<Rightarrow> char" where
  "unesc s =
     (if hd s \<noteq> CHR 0x5C then hd s
      else let c = hd (tl s) in
        if c = CHR ''b'' then CHR 0x08 else if c = CHR ''t'' then CHR 0x09
        else if c = CHR ''n'' then CHR 0x0A else if c = CHR ''f'' then CHR 0x0C
        else if c = CHR ''r'' then CHR 0x0D
        else if c = CHR ''u'' then char_of (16 * hex_value (s ! 4) + hex_value (s ! 5)) else c)"

definition esc_len :: "string \<Rightarrow> nat" where
  "esc_len s = (if hd s \<noteq> CHR 0x5C then 1 else if hd (tl s) = CHR ''u'' then 6 else 2)"

lemma hex_value_digit: "hex_value (hex_digit k) = k mod 16"
proof -
  have "k mod 16 < 16" by simp
  then have "k mod 16 \<in> {0, 1, 2, 3, 4, 5, 6, 7, 8, 9, 10, 11, 12, 13, 14, 15}"
    unfolding numeral_nat less_Suc_eq by simp
  then show ?thesis by (auto simp: hex_value_def hex_digit_def)
qed

lemma unesc_esc: "unesc (esc_char ea c) = c"
proof -
  let ?n = "of_char c :: nat"
  have small: "?n < 256" by simp
  have hex: "16 * (?n div 16 mod 16) + ?n mod 16 = ?n"
    using small by (simp add: less_mult_imp_div_less)
  consider "?n \<in> {34, 92, 8, 9, 10, 12, 13}"
    | "?n \<notin> {34, 92, 8, 9, 10, 12, 13}" "?n < 32 \<or> (ea \<and> 127 \<le> ?n)"
    | "?n \<notin> {34, 92, 8, 9, 10, 12, 13}" "\<not> (?n < 32 \<or> (ea \<and> 127 \<le> ?n))" by blast
  then show ?thesis
  proof cases
    case 1
    then have "?n \<in> of_char ` {CHR 0x22, CHR 0x5C, CHR 0x08, CHR 0x09, CHR 0x0A, CHR 0x0C, CHR 0x0D}"
      by simp
    then have "c \<in> {CHR 0x22, CHR 0x5C, CHR 0x08, CHR 0x09, CHR 0x0A, CHR 0x0C, CHR 0x0D}"
      by (elim imageE) (simp only: of_char_eq_iff)
    then show ?thesis by (elim insertE emptyE) (simp_all add: unesc_def esc_char_def)
  next
    case 2
    then show ?thesis using hex by (simp add: unesc_def esc_char_def Let_def hex_value_digit)
  next
    case 3
    then have "c \<noteq> CHR 0x5C" by auto
    with 3 show ?thesis by (auto simp: unesc_def esc_char_def Let_def)
  qed
qed

lemma esc_len_esc: "esc_len (esc_char ea c @ u) = length (esc_char ea c)"
  by (auto simp: esc_len_def esc_char_def Let_def)

lemma esc_char_inj:
  assumes "esc_char ea c @ u = esc_char ea d @ v"
  shows "c = d \<and> u = v"
proof -
  have "length (esc_char ea c) = length (esc_char ea d)"
    using esc_len_esc [of ea c u] esc_len_esc [of ea d v] assms by simp
  with assms have "esc_char ea c = esc_char ea d" "u = v" by simp_all
  then show ?thesis using unesc_esc by metis
qed

lemma esc_char_hd: "esc_char ea c \<noteq> [] \<and> hd (esc_char ea c) \<noteq> CHR 0x22"
  by (auto simp: esc_char_def Let_def)

lemma esc_body_inj:
  "concat (map (esc_char ea) s) @ CHR 0x22 # u = concat (map (esc_char ea) t) @ CHR 0x22 # v \<Longrightarrow> s = t \<and> u = v"
proof (induction s arbitrary: t)
  case Nil
  show ?case
  proof (cases t)
    case Nil
    with Nil.prems show ?thesis by simp
  next
    case (Cons d t')
    with Nil.prems esc_char_hd [of ea d] show ?thesis by (cases "esc_char ea d") auto
  qed
next
  case (Cons c s)
  show ?case
  proof (cases t)
    case Nil
    with Cons.prems esc_char_hd [of ea c] show ?thesis by (cases "esc_char ea c") auto
  next
    case (Cons d t')
    with Cons.prems have "esc_char ea c @ (concat (map (esc_char ea) s) @ CHR 0x22 # u)
        = esc_char ea d @ (concat (map (esc_char ea) t') @ CHR 0x22 # v)" by simp
    from esc_char_inj [OF this] Cons.IH Cons show ?thesis by blast
  qed
qed

lemma esc_str_inj: "esc_str ea s @ u = esc_str ea t @ v \<Longrightarrow> s = t \<and> u = v"
  using esc_body_inj [of ea s u t v] by (simp add: esc_str_def)

text \<open>Decimal integers, read up to the first character that is not a digit.\<close>

definition digit :: "char \<Rightarrow> bool" where
  "digit c \<longleftrightarrow> (48 \<le> (of_char c :: nat) \<and> of_char c \<le> (57 :: nat))"

definition digits_value :: "string \<Rightarrow> nat" where
  "digits_value s = foldl (\<lambda>a c. 10 * a + (of_char c - 48)) 0 s"

lemma show_nat_digits: "(\<forall>c \<in> set (show_nat n). digit c) \<and> digits_value (show_nat n) = n \<and> show_nat n \<noteq> []"
proof (induction n rule: show_nat.induct)
  case (1 n)
  show ?case
  proof (cases "n < 10")
    case True
    then show ?thesis by (simp add: show_nat.simps [of n] digit_def digits_value_def)
  next
    case False
    then show ?thesis using 1 [OF False]
      by (subst (1 2 3) show_nat.simps) (auto simp: digit_def digits_value_def)
  qed
qed

definition delim :: "string \<Rightarrow> bool" where
  "delim x \<longleftrightarrow> x = [] \<or> hd x \<in> {CHR 0x2C, CHR 0x5D, CHR 0x7D}"

lemma delim_not_digit: "delim x \<Longrightarrow> x = [] \<or> \<not> digit (hd x)"
  by (auto simp: delim_def digit_def)

lemma takeWhile_prefix:
  "\<forall>c \<in> set p. P c \<Longrightarrow> x = [] \<or> \<not> P (hd x) \<Longrightarrow> takeWhile P (p @ x) = p"
  by (induction p) (cases x; auto)+

lemma show_nat_inj:
  assumes "show_nat n @ x = show_nat m @ y" "delim x" "delim y"
  shows "n = m \<and> x = y"
proof -
  have "takeWhile digit (show_nat n @ x) = show_nat n"
    using show_nat_digits [of n] delim_not_digit [OF assms(2)] by (intro takeWhile_prefix) blast+
  moreover have "takeWhile digit (show_nat m @ y) = show_nat m"
    using show_nat_digits [of m] delim_not_digit [OF assms(3)] by (intro takeWhile_prefix) blast+
  ultimately have "show_nat n = show_nat m" using assms(1) by simp
  then show ?thesis using assms(1) show_nat_digits by (metis same_append_eq)
qed

lemma show_nat_hd: "hd (show_nat n @ x) = hd (show_nat n) \<and> digit (hd (show_nat n)) \<and> show_nat n \<noteq> []"
  using show_nat_digits [of n] by auto

lemma show_int_hd: "hd (show_int n @ x) = CHR ''-'' \<longleftrightarrow> n < 0"
proof (cases "n < 0")
  case False
  have "digit (hd (show_nat (nat n) @ x))" using show_nat_hd [of "nat n" x] by simp
  then have "hd (show_nat (nat n) @ x) \<noteq> CHR ''-''" by (auto simp: digit_def)
  with False show ?thesis by (simp add: show_int_def)
qed (simp add: show_int_def)

lemma show_int_inj:
  assumes "show_int n @ x = show_int m @ y" "delim x" "delim y"
  shows "n = m \<and> x = y"
proof -
  have "n < 0 \<longleftrightarrow> m < 0"
    using assms(1) show_int_hd by metis
  then consider "n < 0" "m < 0" | "0 \<le> n" "0 \<le> m" by linarith
  then show ?thesis
  proof cases
    case 1
    with assms(1) have "show_nat (nat (- n)) @ x = show_nat (nat (- m)) @ y" by (simp add: show_int_def)
    from show_nat_inj [OF this assms(2,3)] 1 show ?thesis by linarith
  next
    case 2
    with assms(1) have "show_nat (nat n) @ x = show_nat (nat m) @ y" by (simp add: show_int_def)
    from show_nat_inj [OF this assms(2,3)] 2 show ?thesis by linarith
  qed
qed

text \<open>Sequences: what follows an element is a separator or the closing bracket.\<close>

fun seq_tail :: "char \<Rightarrow> ('a \<Rightarrow> string) \<Rightarrow> 'a list \<Rightarrow> string \<Rightarrow> string" where
  "seq_tail e f [] x = e # x"
| "seq_tail e f (z # zs) x = CHR 0x2C # f z @ seq_tail e f zs x"

lemma sep_by_tail: "sep_by (CHR 0x2C) (map f (z # zs)) @ e # x = f z @ seq_tail e f zs x"
  by (induction zs arbitrary: z) auto

lemma seq_tail_inj:
  assumes "\<And>a b x y. a \<in> set as \<Longrightarrow> f a @ x = f b @ y \<Longrightarrow> delim x \<Longrightarrow> delim y \<Longrightarrow> a = b \<and> x = y"
    and "e \<in> {CHR 0x5D, CHR 0x7D}"
  shows "seq_tail e f as x = seq_tail e f bs y \<Longrightarrow> as = bs \<and> x = y"
  using assms(1)
proof (induction as arbitrary: bs)
  case Nil
  then show ?case using assms(2) by (cases bs) auto
next
  case (Cons a as)
  then obtain b bs' where bs: "bs = b # bs'" using assms(2) by (cases bs) auto
  have d: "delim (seq_tail e f zs w)" for zs w using assms(2) by (cases zs) (auto simp: delim_def)
  have "a = b \<and> seq_tail e f as x = seq_tail e f bs' y"
    using Cons.prems(1) d by (intro Cons.prems(2)) (auto simp: bs)
  moreover from this have "as = bs' \<and> x = y"
    by (intro Cons.IH) (use Cons.prems(2) in auto)
  ultimately show ?case by (simp add: bs)
qed

lemma seq_inj:
  assumes "\<And>a b x y. a \<in> set as \<Longrightarrow> f a @ x = f b @ y \<Longrightarrow> delim x \<Longrightarrow> delim y \<Longrightarrow> a = b \<and> x = y"
    and "e \<in> {CHR 0x5D, CHR 0x7D}" "\<And>a. f a \<noteq> [] \<and> hd (f a) \<noteq> e"
    and "sep_by (CHR 0x2C) (map f as) @ e # x = sep_by (CHR 0x2C) (map f bs) @ e # y"
  shows "as = bs \<and> x = y"
proof (cases as)
  case Nil
  show ?thesis
  proof (cases bs)
    case (Cons b bs')
    with Nil assms(4) have "e # x = f b @ seq_tail e f bs' y" by (simp only: sep_by_tail) simp
    then show ?thesis using assms(3) [of b] by (cases "f b") auto
  qed (use Nil assms(4) in simp)
next
  case (Cons a as')
  show ?thesis
  proof (cases bs)
    case Nil
    with Cons assms(4) have "e # y = f a @ seq_tail e f as' x" by (simp only: sep_by_tail) simp
    then show ?thesis using assms(3) [of a] by (cases "f a") auto
  next
    case (Cons b bs')
    with \<open>as = a # as'\<close> assms(4) have "seq_tail e f as x = seq_tail e f bs y"
      by (simp only: sep_by_tail) simp
    then show ?thesis using seq_tail_inj [OF assms(1,2)] by blast
  qed
qed

text \<open>Every value starts with a character that tells its kind, none of them a closing bracket.\<close>

lemma raw_hd: "encode_raw ea j \<noteq> [] \<and> hd (encode_raw ea j) \<notin> {CHR 0x2C, CHR 0x5D, CHR 0x7D}"
proof (cases j)
  case (JInt n)
  then show ?thesis using show_nat_hd [of "nat n" "[]"] by (auto simp: show_int_def digit_def)
qed (auto simp: esc_str_def)

fun kind_char :: "json \<Rightarrow> char \<Rightarrow> bool" where
  "kind_char JNull c = (c = CHR ''n'')"
| "kind_char (JBool b) c = (c = (if b then CHR ''t'' else CHR ''f''))"
| "kind_char (JInt n) c = (digit c \<or> c = CHR ''-'')"
| "kind_char (JStr s) c = (c = CHR 0x22)"
| "kind_char (JArr xs) c = (c = CHR 0x5B)"
| "kind_char (JObj kvs) c = (c = CHR 0x7B)"

lemma raw_kind: "kind_char j (hd (encode_raw ea j @ x))"
proof (cases j)
  case (JInt n)
  then show ?thesis using show_nat_hd [of "nat n" x] by (auto simp: show_int_def)
qed (auto simp: esc_str_def)

lemma raw_inj: "encode_raw ea j @ x = encode_raw ea k @ y \<Longrightarrow> delim x \<Longrightarrow> delim y \<Longrightarrow> j = k \<and> x = y"
proof (induction j arbitrary: k x y)
  case JNull
  have "kind_char k (CHR ''n'')" using raw_kind [of k ea y] JNull.prems(1) [symmetric] by simp
  then show ?case using JNull.prems(1) by (cases k) (auto simp: digit_def split: if_splits)
next
  case (JBool b)
  have "kind_char k (if b then CHR ''t'' else CHR ''f'')"
    using raw_kind [of k ea y] JBool.prems(1) [symmetric] by (auto split: if_splits)
  then show ?case using JBool.prems(1) by (cases k) (auto simp: digit_def split: if_splits)
next
  case (JInt n)
  have "kind_char k (hd (show_int n @ x))" using raw_kind [of k ea y] JInt.prems(1) [symmetric] by simp
  moreover have "kind_char (JInt n) (hd (show_int n @ x))" using raw_kind [of "JInt n" ea x] by simp
  ultimately obtain m where k: "k = JInt m" by (cases k) (auto simp: digit_def split: if_splits)
  from JInt.prems(1) k have "show_int n @ x = show_int m @ y" by simp
  from show_int_inj [OF this JInt.prems(2,3)] show ?case by (simp add: k)
next
  case (JStr s)
  have "kind_char k (CHR 0x22)"
    using raw_kind [of k ea y] JStr.prems(1) [symmetric] by (simp add: esc_str_def)
  then obtain t where k: "k = JStr t" by (cases k) (auto simp: digit_def split: if_splits)
  from JStr.prems(1) k have "esc_str ea s @ x = esc_str ea t @ y" by simp
  from esc_str_inj [OF this] show ?case by (simp add: k)
next
  case (JArr xs)
  have "kind_char k (CHR 0x5B)" using raw_kind [of k ea y] JArr.prems(1) [symmetric] by simp
  then obtain ys where k: "k = JArr ys" by (cases k) (auto simp: digit_def split: if_splits)
  have "xs = ys \<and> x = y"
  proof (rule seq_inj [where f = "encode_raw ea"])
    show "sep_by (CHR 0x2C) (map (encode_raw ea) xs) @ CHR 0x5D # x = sep_by (CHR 0x2C) (map (encode_raw ea) ys) @ CHR 0x5D # y"
      using JArr.prems(1) k by simp
  qed (use JArr.IH raw_hd in auto)
  then show ?case by (simp add: k)
next
  case (JObj kvs)
  have "kind_char k (CHR 0x7B)" using raw_kind [of k ea y] JObj.prems(1) [symmetric] by simp
  then obtain kvs' where k: "k = JObj kvs'" by (cases k) (auto simp: digit_def split: if_splits)
  have enc: "map (\<lambda>(k, v). esc_str ea k @ CHR 0x3A # v) (map (map_prod id (encode_raw ea)) l) = map (enc_pair ea (encode_raw ea)) l" for l
    by (auto simp: enc_pair_def)
  have "kvs = kvs' \<and> x = y"
  proof (rule seq_inj [where f = "enc_pair ea (encode_raw ea)"])
    show "sep_by (CHR 0x2C) (map (enc_pair ea (encode_raw ea)) kvs) @ CHR 0x7D # x
        = sep_by (CHR 0x2C) (map (enc_pair ea (encode_raw ea)) kvs') @ CHR 0x7D # y"
      using JObj.prems(1) unfolding k encode_raw.simps enc by simp
  next
    fix a b u v
    assume a: "a \<in> set kvs" "enc_pair ea (encode_raw ea) a @ u = enc_pair ea (encode_raw ea) b @ v" "delim u" "delim v"
    have "esc_str ea (fst a) @ (CHR 0x3A # encode_raw ea (snd a) @ u) = esc_str ea (fst b) @ (CHR 0x3A # encode_raw ea (snd b) @ v)"
      using a(2) by (simp add: enc_pair_def)
    from esc_str_inj [OF this] have "fst a = fst b \<and> encode_raw ea (snd a) @ u = encode_raw ea (snd b) @ v" by simp
    moreover from this have "snd a = snd b \<and> u = v"
      using JObj.IH [OF a(1), of "snd a"] a(3,4) by (cases a) auto
    ultimately show "a = b \<and> u = v" by (simp add: prod_eq_iff)
  qed (auto simp: enc_pair_def esc_str_def)
  then show ?case by (simp add: k)
qed

lemma dumps_eq_iff: "dumps ea j = dumps ea k \<longleftrightarrow> canon j = canon k"
  using raw_inj [of ea "canon j" "[]" "canon k" "[]"] by (auto simp: dumps_raw delim_def)

text \<open>UTF-8 of the modelled range: one or two bytes, read back from the first.\<close>

lemma utf8_char_inj:
  assumes "utf8_char c @ u = utf8_char d @ v"
  shows "c = d \<and> u = v"
proof -
  have small: "(of_char a :: nat) < 256" for a by simp
  have hi: "of_char (char_of (192 + (of_char a :: nat) div 64)) = (192 + of_char a div 64 :: nat)" for a :: char
  proof -
    have "(of_char a :: nat) div 64 < 4" using small [of a] by (intro less_mult_imp_div_less) simp
    then show ?thesis by simp
  qed
  have lo: "of_char (char_of (128 + (of_char a :: nat) mod 64)) = (128 + of_char a mod 64 :: nat)" for a :: char
    by (simp add: less_trans [OF mod_less_divisor])
  show ?thesis
  proof (cases "(of_char c :: nat) < 128"; cases "(of_char d :: nat) < 128")
    assume "\<not> (of_char c :: nat) < 128" "\<not> (of_char d :: nat) < 128"
    with assms have "char_of (192 + (of_char c :: nat) div 64) = (char_of (192 + (of_char d :: nat) div 64) :: char)"
      and "char_of (128 + (of_char c :: nat) mod 64) = (char_of (128 + (of_char d :: nat) mod 64) :: char)" and "u = v"
      by (simp_all add: utf8_char_def Let_def)
    then have "(of_char c :: nat) div 64 = of_char d div 64" "(of_char c :: nat) mod 64 = of_char d mod 64"
      using hi lo by (metis add_left_cancel)+
    then have "(of_char c :: nat) = of_char d" by (metis div_mult_mod_eq)
    with \<open>u = v\<close> show ?thesis by simp
  next
    assume c: "(of_char c :: nat) < 128" and d: "\<not> (of_char d :: nat) < 128"
    with assms have "c = char_of (192 + (of_char d :: nat) div 64)" by (simp add: utf8_char_def Let_def)
    with c hi [of d] show ?thesis by simp
  next
    assume c: "\<not> (of_char c :: nat) < 128" and d: "(of_char d :: nat) < 128"
    with assms have "d = char_of (192 + (of_char c :: nat) div 64)" by (simp add: utf8_char_def Let_def)
    with d hi [of c] show ?thesis by simp
  qed (use assms in \<open>simp add: utf8_char_def Let_def\<close>)
qed

lemma utf8_inj: "utf8 s = utf8 t \<longleftrightarrow> s = t"
proof -
  have ne: "utf8_char c \<noteq> []" for c by (simp add: utf8_char_def Let_def)
  have "utf8 s = utf8 t \<Longrightarrow> s = t"
  proof (induction s arbitrary: t)
    case Nil
    then show ?case using ne by (cases t) (auto simp: utf8_def)
  next
    case (Cons c s)
    then obtain d t' where t: "t = d # t'" using ne by (cases t) (auto simp: utf8_def)
    with Cons.prems have "utf8_char c @ utf8 s = utf8_char d @ utf8 t'" by (simp add: utf8_def)
    from utf8_char_inj [OF this] Cons.IH t show ?case by simp
  qed
  then show ?thesis by blast
qed

end
