(* ===== verification/Capability.thy ===== *)
theory Capability
  imports Core_Types Py_Json
begin

text \<open>
  The capability catalog (\<open>tools/registry.py\<close>, \<open>tools/fingerprint.py\<close>,
  \<open>tools/integration_allowlist.py\<close>) and the authorization of a claim against it
  (\<open>core/capability.py\<close>).  Error messages leave out the interpolated values.  \<open>sha\<close> is
  \<open>hashlib.sha256(...).hexdigest()\<close>; \<open>validate\<close> is the third-party JSON-schema validator.
\<close>

section \<open>Fingerprints\<close>

definition ACTION_POLICY_FIELDS :: "string list" where
  "ACTION_POLICY_FIELDS =
     [''action_id'', ''argument_schema'', ''result_schema'', ''minimum_side_effect_level'',
      ''maximum_side_effect_level'', ''target_types'', ''network_policy'', ''requirements'',
      ''supports_reproduction'', ''supports_negative_control'', ''normalizer_reference'']"

definition canonical_json_bytes :: "json \<Rightarrow> string" where
  "canonical_json_bytes payload = utf8 (dumps False payload)"

datatype registry_error = CapabilityRegistryError string | PyValueError string

text \<open>
  \<open>list(value)\<close> of a value that is already a JSON array is the array itself, so the two
  conversions of the source are the identity here.
\<close>

definition action_payload :: "(string \<times> json) list \<Rightarrow> json" where
  "action_payload raw_action = JObj (map (\<lambda>field. (field, jget raw_action field)) ACTION_POLICY_FIELDS)"

fun action_payloads :: "(string \<times> json) list \<Rightarrow> registry_error + (string \<times> json) list" where
  "action_payloads [] = Inr []"
| "action_payloads ((action_id, raw_action) # rest) =
     (case raw_action of
        JObj raw \<Rightarrow> bindE (action_payloads rest) (\<lambda>ps. Inr ((action_id, action_payload raw) # ps))
      | _ \<Rightarrow> Inl (PyValueError ''action must be a mapping''))"

definition allowlisted_policy_payload :: "(string \<times> json) list \<Rightarrow> registry_error + json" where
  "allowlisted_policy_payload document =
     (case jget document ''actions'' of
        JObj actions_in \<Rightarrow>
          bindE (action_payloads (sort_key fst actions_in)) (\<lambda>actions.
          Inr (JObj
            [(''capability_id'', jget document ''capability_id''),
             (''version'', jget document ''version''),
             (''implementation_reference'', jget document ''implementation_reference''),
             (''executor_class'', jget document ''executor_class''),
             (''actions'', JObj actions)]))
      | _ \<Rightarrow> Inl (PyValueError ''capability definition actions must be a mapping''))"

definition fingerprint_capability_document ::
    "(string \<Rightarrow> string) \<Rightarrow> (string \<times> json) list \<Rightarrow> registry_error + string" where
  "fingerprint_capability_document sha document =
     bindE (allowlisted_policy_payload document) (\<lambda>payload. Inr (sha (canonical_json_bytes payload)))"

section \<open>The registry\<close>

definition SUPPORTED_EXECUTOR_CLASSES :: "string list" where
  "SUPPORTED_EXECUTOR_CLASSES = [''WORKER'']"

definition SUPPORTED_REQUIREMENTS :: "string list" where
  "SUPPORTED_REQUIREMENTS = [''loopback'', ''scope_derived'']"

definition WORKER_EXECUTOR_CLASS :: string where
  "WORKER_EXECUTOR_CLASS = ''WORKER''"

record capability_action_definition =
  cad_action_id :: string
  cad_argument_schema :: "(string \<times> json) list"
  cad_result_schema :: "(string \<times> json) list"
  cad_minimum_side_effect_level :: int
  cad_maximum_side_effect_level :: int
  cad_target_types :: "string list"
  cad_network_policy :: "(string \<times> json) list option"
  cad_requirements :: "string list"
  cad_supports_reproduction :: bool
  cad_supports_negative_control :: bool
  cad_normalizer_reference :: "string option"

record capability_definition =
  cd_capability_id :: string
  cd_version :: string
  cd_implementation_reference :: string
  cd_executor_class :: string
  cd_actions :: "(string \<times> capability_action_definition) list"
  cd_definition_fingerprint :: string

definition definition_action :: "capability_definition \<Rightarrow> string \<Rightarrow> capability_action_definition option" where
  "definition_action d action_id = map_of (cd_actions d) action_id"

type_synonym capability_registry = "(string \<times> capability_definition) list"

definition registry_get :: "capability_registry \<Rightarrow> string \<Rightarrow> capability_definition option" where
  "registry_get reg capability_id = map_of reg capability_id"

definition registry_contains :: "capability_registry \<Rightarrow> string \<Rightarrow> bool" where
  "registry_contains reg capability_id = (capability_id \<in> set (map fst reg))"

definition registry_ids :: "capability_registry \<Rightarrow> string list" where
  "registry_ids reg = sort (map fst reg)"

definition registry_definitions :: "capability_registry \<Rightarrow> capability_definition list" where
  "registry_definitions reg = List.map_filter (registry_get reg) (sort (map fst reg))"

definition worker_definitions :: "capability_registry \<Rightarrow> capability_definition list" where
  "worker_definitions reg =
     filter (\<lambda>item. cd_executor_class item = WORKER_EXECUTOR_CLASS) (registry_definitions reg)"

definition registry_lookup ::
    "capability_registry \<Rightarrow> string \<Rightarrow> string \<Rightarrow> (capability_definition \<times> capability_action_definition) option" where
  "registry_lookup reg capability_id action_id =
     (case registry_get reg capability_id of None \<Rightarrow> None
      | Some d \<Rightarrow> (case definition_action d action_id of None \<Rightarrow> None | Some a \<Rightarrow> Some (d, a)))"

definition require_text :: "json \<Rightarrow> string \<Rightarrow> registry_error + string" where
  "require_text value field_name =
     (case value of
        JStr s \<Rightarrow> if blank s then Inl (CapabilityRegistryError (field_name @ '' must be a non-empty string''))
                  else Inr (py_strip s)
      | _ \<Rightarrow> Inl (CapabilityRegistryError (field_name @ '' must be a non-empty string'')))"

text \<open>\<open>value not in (0, 1, 2, 3)\<close> compares by equality, so \<open>False\<close> and \<open>True\<close> pass as 0 and 1.\<close>

definition require_side_effect :: "json \<Rightarrow> string \<Rightarrow> registry_error + int" where
  "require_side_effect value field_name =
     (case value of
        JInt n \<Rightarrow> if n \<in> {0, 1, 2, 3} then Inr n
                  else Inl (CapabilityRegistryError (field_name @ '' must be 0, 1, 2, or 3''))
      | JBool b \<Rightarrow> Inr (if b then 1 else 0)
      | _ \<Rightarrow> Inl (CapabilityRegistryError (field_name @ '' must be 0, 1, 2, or 3'')))"

fun string_items :: "json list \<Rightarrow> string \<Rightarrow> registry_error + string list" where
  "string_items [] field_name = Inr []"
| "string_items (x # xs) field_name =
     (case x of
        JStr s \<Rightarrow> if blank s then Inl (CapabilityRegistryError (field_name @ '' must contain non-empty strings''))
                  else bindE (string_items xs field_name) (\<lambda>r. Inr (py_strip s # r))
      | _ \<Rightarrow> Inl (CapabilityRegistryError (field_name @ '' must contain non-empty strings'')))"

definition require_string_tuple :: "json \<Rightarrow> string \<Rightarrow> registry_error + string list" where
  "require_string_tuple value field_name =
     (case value of
        JArr xs \<Rightarrow> string_items xs field_name
      | JObj kvs \<Rightarrow> string_items (map (\<lambda>(k, _). JStr k) kvs) field_name
      | _ \<Rightarrow> Inl (CapabilityRegistryError (field_name @ '' must be a list of strings'')))"

definition opt_text :: "json \<Rightarrow> string \<Rightarrow> registry_error + string option" where
  "opt_text value field_name =
     (if value = JNull then Inr None else bindE (require_text value field_name) (\<lambda>s. Inr (Some s)))"

definition action_from_document ::
    "string \<Rightarrow> (string \<times> json) list \<Rightarrow> registry_error + capability_action_definition" where
  "action_from_document action_id raw =
     (case (jget raw ''argument_schema'') of
        JObj argument_schema \<Rightarrow>
          if jget argument_schema ''additionalProperties'' \<noteq> JBool False
          then Inl (CapabilityRegistryError ''argument_schema must set additionalProperties false'')
          else (case jget raw ''result_schema'' of
            JObj result_schema \<Rightarrow>
              bindE (require_side_effect (jget raw ''minimum_side_effect_level'') ''minimum_side_effect_level'') (\<lambda>minimum.
              bindE (require_side_effect (jget raw ''maximum_side_effect_level'') ''maximum_side_effect_level'') (\<lambda>maximum.
              if minimum > maximum
              then Inl (CapabilityRegistryError ''minimum_side_effect_level exceeds maximum'')
              else bindE (require_string_tuple (jget raw ''target_types'') ''target_types'') (\<lambda>target_types.
              if target_types = [] then Inl (CapabilityRegistryError ''target_types must not be empty'')
              else bindE (case jget raw ''network_policy'' of
                     JNull \<Rightarrow> Inr None
                   | JObj np \<Rightarrow> Inr (Some np)
                   | _ \<Rightarrow> Inl (CapabilityRegistryError ''network_policy must be object or null'')) (\<lambda>network_policy.
              bindE (require_string_tuple
                  (if truthy (jget raw ''requirements'') then jget raw ''requirements'' else JArr []) ''requirements'') (\<lambda>requirements.
              if list_ex (\<lambda>r. r \<notin> set SUPPORTED_REQUIREMENTS) requirements
              then Inl (CapabilityRegistryError ''unsupported requirement'')
              else (case (jget raw ''supports_reproduction'', jget raw ''supports_negative_control'') of
                (JBool supports_reproduction, JBool supports_negative_control) \<Rightarrow>
                  bindE (opt_text (jget raw ''normalizer_reference'') ''normalizer_reference'') (\<lambda>normalizer_reference.
                  Inr \<lparr>cad_action_id = action_id, cad_argument_schema = argument_schema,
                       cad_result_schema = result_schema, cad_minimum_side_effect_level = minimum,
                       cad_maximum_side_effect_level = maximum, cad_target_types = target_types,
                       cad_network_policy = network_policy, cad_requirements = requirements,
                       cad_supports_reproduction = supports_reproduction,
                       cad_supports_negative_control = supports_negative_control,
                       cad_normalizer_reference = normalizer_reference\<rparr>)
              | _ \<Rightarrow> Inl (CapabilityRegistryError ''reproduction flags must be bool'')))))))
          | _ \<Rightarrow> Inl (CapabilityRegistryError ''result_schema is required''))
      | _ \<Rightarrow> Inl (CapabilityRegistryError ''argument_schema is required''))"

text \<open>The loop over \<open>actions_in.items()\<close>; \<open>seen\<close> is the dictionary built so far.\<close>

fun actions_from_items ::
    "(string \<times> json) list \<Rightarrow> (string \<times> capability_action_definition) list
     \<Rightarrow> registry_error + (string \<times> capability_action_definition) list" where
  "actions_from_items [] seen = Inr seen"
| "actions_from_items ((action_id, raw_action) # rest) seen =
     (if blank action_id then Inl (CapabilityRegistryError ''action id must be a non-empty string'')
      else if action_id \<in> set (map fst seen) then Inl (CapabilityRegistryError ''duplicate action id'')
      else (case raw_action of
         JObj raw \<Rightarrow>
           if jget_default raw ''action_id'' (JStr action_id) \<noteq> JStr action_id
           then Inl (CapabilityRegistryError ''action id mismatch'')
           else bindE (action_from_document action_id raw) (\<lambda>a.
                actions_from_items rest (seen @ [(action_id, a)]))
       | _ \<Rightarrow> Inl (CapabilityRegistryError ''action must be an object'')))"

definition definition_from_document ::
    "(string \<Rightarrow> string) \<Rightarrow> (string \<times> json) list \<Rightarrow> registry_error + capability_definition" where
  "definition_from_document sha document =
     bindE (require_text (jget document ''capability_id'') ''capability_id'') (\<lambda>capability_id.
     bindE (require_text (jget document ''version'') ''version'') (\<lambda>version.
     bindE (require_text (jget document ''implementation_reference'') ''implementation_reference'') (\<lambda>implementation_reference.
     bindE (require_text (jget document ''executor_class'') ''executor_class'') (\<lambda>executor_class.
     if executor_class \<notin> set SUPPORTED_EXECUTOR_CLASSES
     then Inl (CapabilityRegistryError ''unsupported executor_class'')
     else (case jget document ''actions'' of
        JObj actions_in \<Rightarrow>
          if actions_in = [] then Inl (CapabilityRegistryError ''must declare actions'')
          else bindE (actions_from_items actions_in []) (\<lambda>actions.
               bindE (fingerprint_capability_document sha document) (\<lambda>fingerprint.
               Inr \<lparr>cd_capability_id = capability_id, cd_version = version,
                    cd_implementation_reference = implementation_reference,
                    cd_executor_class = executor_class, cd_actions = actions,
                    cd_definition_fingerprint = fingerprint\<rparr>))
      | _ \<Rightarrow> Inl (CapabilityRegistryError ''must declare actions''))))))"

fun registry_loop ::
    "(string \<Rightarrow> string) \<Rightarrow> (string \<times> json) list list \<Rightarrow> capability_registry \<Rightarrow> registry_error + capability_registry" where
  "registry_loop sha [] defs = Inr defs"
| "registry_loop sha (document # documents) defs =
     bindE (definition_from_document sha document) (\<lambda>d.
     if cd_capability_id d \<in> set (map fst defs)
     then Inl (CapabilityRegistryError ''duplicate capability_id'')
     else registry_loop sha documents (defs @ [(cd_capability_id d, d)]))"

definition registry_from_documents ::
    "(string \<Rightarrow> string) \<Rightarrow> (string \<times> json) list list \<Rightarrow> registry_error + capability_registry" where
  "registry_from_documents sha documents = registry_loop sha documents []"

text \<open>
  \<open>load_capability_documents\<close> over the listing of the resource directory: (file name, parsed JSON).
\<close>

fun load_documents_loop :: "(string \<times> json) list \<Rightarrow> registry_error + (string \<times> json) list list" where
  "load_documents_loop [] = Inr []"
| "load_documents_loop ((name, loaded) # rest) =
     (if py_endswith name ''.json''
      then (case loaded of
          JObj doc \<Rightarrow>
            if jget doc ''executor_class'' \<noteq> JStr WORKER_EXECUTOR_CLASS
            then Inl (CapabilityRegistryError (name @ '' is not a Worker capability definition''))
            else bindE (load_documents_loop rest) (\<lambda>ds. Inr (doc # ds))
        | _ \<Rightarrow> Inl (CapabilityRegistryError (''capability document '' @ name @ '' must be a JSON object'')))
      else load_documents_loop rest)"

definition load_capability_documents :: "(string \<times> json) list \<Rightarrow> registry_error + (string \<times> json) list list" where
  "load_capability_documents listing = load_documents_loop (sort_key fst listing)"

definition load_capability_registry ::
    "(string \<Rightarrow> string) \<Rightarrow> (string \<times> json) list \<Rightarrow> registry_error + capability_registry" where
  "load_capability_registry sha listing =
     bindE (load_capability_documents listing) (registry_from_documents sha)"

record argument_validation_issue =
  avi_reason_code :: string
  avi_message :: string

definition issue_from_jsonschema :: "string \<Rightarrow> string \<Rightarrow> argument_validation_issue" where
  "issue_from_jsonschema validator message =
     (if validator = ''required''
      then \<lparr>avi_reason_code = ''MISSING_REQUIRED_ARGUMENT'', avi_message = message\<rparr>
      else if validator = ''additionalProperties''
      then \<lparr>avi_reason_code = ''UNEXPECTED_ARGUMENT'', avi_message = message\<rparr>
      else if validator \<in> {''type'', ''enum'', ''const'', ''minLength'', ''maxLength'', ''minimum'', ''maximum''}
      then \<lparr>avi_reason_code = ''INVALID_ARGUMENT_TYPE'', avi_message = message\<rparr>
      else \<lparr>avi_reason_code = ''INVALID_ARGUMENT_TYPE'', avi_message = message\<rparr>)"

text \<open>
  \<open>validate schema arguments\<close> stands for the JSON-schema library: \<open>None\<close> when it accepts, else the
  failed keyword and its message.
\<close>

definition validate_action_arguments ::
    "((string \<times> json) list \<Rightarrow> (string \<times> json) list \<Rightarrow> (string \<times> string) option)
     \<Rightarrow> (string \<times> json) list \<Rightarrow> json \<Rightarrow> argument_validation_issue option" where
  "validate_action_arguments validate schema arguments =
     (case arguments of
        JObj args \<Rightarrow> (case validate schema args of None \<Rightarrow> None
          | Some (kw, msg) \<Rightarrow> Some (issue_from_jsonschema kw msg))
      | _ \<Rightarrow> Some \<lparr>avi_reason_code = ''INVALID_ARGUMENT_TYPE'', avi_message = ''arguments must be an object''\<rparr>)"

section \<open>The integration allowlist\<close>

record integration_allowlist_entry =
  iae_capability_id :: string
  iae_action :: string
  iae_minimum_side_effect_level :: int
  iae_maximum_side_effect_level :: int

definition STRIX_DIAGNOSTIC_PING_ACTION :: string where
  "STRIX_DIAGNOSTIC_PING_ACTION = ''ping''"

definition STRIX_PING :: integration_allowlist_entry where
  "STRIX_PING = \<lparr>iae_capability_id = ''strix.diagnostic.ping'', iae_action = STRIX_DIAGNOSTIC_PING_ACTION,
     iae_minimum_side_effect_level = 0, iae_maximum_side_effect_level = 0\<rparr>"

definition INTEGRATION_CAPABILITY_ALLOWLIST :: "((string \<times> string) \<times> integration_allowlist_entry) list" where
  "INTEGRATION_CAPABILITY_ALLOWLIST = [((iae_capability_id STRIX_PING, iae_action STRIX_PING), STRIX_PING)]"

definition integration_capability_ids :: "string list" where
  "integration_capability_ids = map (\<lambda>((capability_id, _), _). capability_id) INTEGRATION_CAPABILITY_ALLOWLIST"

definition lookup_integration_capability :: "string \<Rightarrow> string \<Rightarrow> integration_allowlist_entry option" where
  "lookup_integration_capability capability_id action =
     map_of INTEGRATION_CAPABILITY_ALLOWLIST (capability_id, action)"

definition integration_definition_fingerprint :: "string \<Rightarrow> string" where
  "integration_definition_fingerprint capability_id = ''integration.'' @ capability_id"

section \<open>Capability authorization\<close>

record capability_authorization_view =
  cav_capability_id :: string
  cav_action :: string
  cav_capability_version :: string
  cav_definition_fingerprint :: string
  cav_authoritative_minimum_side_effect :: int
  cav_effective_side_effect :: int

definition post_init_capability_authorization_view ::
    "capability_authorization_view \<Rightarrow> core_error + capability_authorization_view" where
  "post_init_capability_authorization_view v = raise_first
     [id_check (cav_capability_id v) ''capability_id'',
      id_check (cav_action v) ''action'',
      id_check (cav_capability_version v) ''capability_version'',
      id_check (cav_definition_fingerprint v) ''definition_fingerprint'',
      (cav_authoritative_minimum_side_effect v \<notin> {0, 1, 2, 3},
         CoreInputError ''authoritative_minimum_side_effect must be 0, 1, 2, or 3''),
      (cav_effective_side_effect v \<notin> {0, 1, 2, 3},
         CoreInputError ''effective_side_effect must be 0, 1, 2, or 3'')] v"

record capability_authorization_check =
  cac_allowed_to_continue :: bool
  cac_reason_code :: reason_code

abbreviation cap_deny :: "reason_code \<Rightarrow> capability_authorization_check" where
  "cap_deny rc \<equiv> \<lparr>cac_allowed_to_continue = False, cac_reason_code = rc\<rparr>"

definition check_integration_allowlist ::
    "capability_authorization_view \<Rightarrow> side_effect_level \<Rightarrow> capability_authorization_check" where
  "check_integration_allowlist view request_side_effect =
     (case lookup_integration_capability (cav_capability_id view) (cav_action view) of
        None \<Rightarrow> if cav_capability_id view \<in> set integration_capability_ids
                then cap_deny RC_UNKNOWN_ACTION else cap_deny RC_UNKNOWN_CAPABILITY
      | Some entry \<Rightarrow>
          if cav_authoritative_minimum_side_effect view \<noteq> iae_minimum_side_effect_level entry
          then cap_deny RC_RISK_UNDERSTATEMENT
          else if cav_effective_side_effect view < iae_minimum_side_effect_level entry
          then cap_deny RC_RISK_UNDERSTATEMENT
          else if cav_effective_side_effect view > iae_maximum_side_effect_level entry
          then cap_deny RC_RISK_EXCEEDS_CAPABILITY
          else if side_effect_int request_side_effect \<noteq> cav_effective_side_effect view
          then cap_deny RC_SIDE_EFFECT_BINDING_MISMATCH
          else \<lparr>cac_allowed_to_continue = True, cac_reason_code = RC_ALLOWED\<rparr>)"

text \<open>\<open>registry\<close> is the catalog the caller passes, or the loaded one when it passes none.\<close>

definition check_capability_authorization ::
    "capability_authorization_view option \<Rightarrow> side_effect_level \<Rightarrow> capability_registry
     \<Rightarrow> capability_authorization_check" where
  "check_capability_authorization view request_side_effect registry =
     (case view of
        None \<Rightarrow> cap_deny RC_CAPABILITY_AUTHORIZATION_MISSING
      | Some v \<Rightarrow> (case registry_get registry (cav_capability_id v) of
          None \<Rightarrow> check_integration_allowlist v request_side_effect
        | Some d \<Rightarrow>
            if cd_executor_class d \<noteq> WORKER_EXECUTOR_CLASS then cap_deny RC_UNKNOWN_CAPABILITY
            else (case definition_action d (cav_action v) of
               None \<Rightarrow> cap_deny RC_UNKNOWN_ACTION
             | Some action \<Rightarrow>
                 if cav_capability_version v \<noteq> cd_version d
                 then cap_deny RC_UNSUPPORTED_CAPABILITY_VERSION
                 else if cav_definition_fingerprint v \<noteq> cd_definition_fingerprint d
                 then cap_deny RC_DEFINITION_FINGERPRINT_MISMATCH
                 else if cav_authoritative_minimum_side_effect v \<noteq> cad_minimum_side_effect_level action
                 then cap_deny RC_RISK_UNDERSTATEMENT
                 else if cav_effective_side_effect v < cad_minimum_side_effect_level action
                 then cap_deny RC_RISK_UNDERSTATEMENT
                 else if cav_effective_side_effect v > cad_maximum_side_effect_level action
                 then cap_deny RC_RISK_EXCEEDS_CAPABILITY
                 else if side_effect_int request_side_effect \<noteq> cav_effective_side_effect v
                 then cap_deny RC_SIDE_EFFECT_BINDING_MISMATCH
                 else \<lparr>cac_allowed_to_continue = True, cac_reason_code = RC_ALLOWED\<rparr>)))"

text \<open>What a claim has to match in a catalog: the policy the check implements.\<close>

definition catalog_backs ::
    "capability_registry \<Rightarrow> capability_authorization_view \<Rightarrow> side_effect_level \<Rightarrow> bool" where
  "catalog_backs reg v level =
     (case registry_get reg (cav_capability_id v) of
        Some d \<Rightarrow> cd_executor_class d = WORKER_EXECUTOR_CLASS
          \<and> cav_capability_version v = cd_version d
          \<and> cav_definition_fingerprint v = cd_definition_fingerprint d
          \<and> (case definition_action d (cav_action v) of None \<Rightarrow> False
             | Some a \<Rightarrow> cav_authoritative_minimum_side_effect v = cad_minimum_side_effect_level a
                 \<and> cad_minimum_side_effect_level a \<le> side_effect_int level
                 \<and> side_effect_int level \<le> cad_maximum_side_effect_level a)
          \<and> cav_effective_side_effect v = side_effect_int level
      | None \<Rightarrow> cav_capability_id v = ''strix.diagnostic.ping'' \<and> cav_action v = ''ping''
          \<and> cav_authoritative_minimum_side_effect v = 0 \<and> cav_effective_side_effect v = 0
          \<and> level = LEVEL_0)"

lemma side_effect_int_0 [simp]: "side_effect_int l = 0 \<longleftrightarrow> l = LEVEL_0" "0 = side_effect_int l \<longleftrightarrow> l = LEVEL_0"
  by (cases l; simp)+

lemma check_integration_allowlist_iff:
  "cac_allowed_to_continue (check_integration_allowlist v level) \<longleftrightarrow>
     cav_capability_id v = ''strix.diagnostic.ping'' \<and> cav_action v = ''ping''
     \<and> cav_authoritative_minimum_side_effect v = 0 \<and> cav_effective_side_effect v = 0 \<and> level = LEVEL_0"
  by (auto simp: check_integration_allowlist_def lookup_integration_capability_def
      INTEGRATION_CAPABILITY_ALLOWLIST_def STRIX_PING_def STRIX_DIAGNOSTIC_PING_ACTION_def
      split: if_splits)

lemma check_capability_iff:
  "cac_allowed_to_continue (check_capability_authorization view level reg) \<longleftrightarrow>
     (\<exists>v. view = Some v \<and> catalog_backs reg v level)"
proof (cases view)
  case (Some v)
  show ?thesis
  proof (cases "registry_get reg (cav_capability_id v)")
    case None
    with Some show ?thesis
      by (simp add: check_capability_authorization_def catalog_backs_def check_integration_allowlist_iff)
  next
    case d: (Some d)
    show ?thesis
      by (cases "definition_action d (cav_action v)")
         (auto simp: Some d check_capability_authorization_def catalog_backs_def split: if_splits)
  qed
qed (simp add: check_capability_authorization_def)

lemma check_capability_reason:
  "cac_reason_code (check_capability_authorization view level reg) = RC_ALLOWED \<longleftrightarrow>
   cac_allowed_to_continue (check_capability_authorization view level reg)"
  by (auto simp: check_capability_authorization_def check_integration_allowlist_def split: option.splits if_splits)

section \<open>The invariant of a constructed registry\<close>

definition action_ok :: "capability_action_definition \<Rightarrow> bool" where
  "action_ok a \<longleftrightarrow> 0 \<le> cad_minimum_side_effect_level a
     \<and> cad_minimum_side_effect_level a \<le> cad_maximum_side_effect_level a
     \<and> cad_maximum_side_effect_level a \<le> 3
     \<and> cad_target_types a \<noteq> [] \<and> set (cad_requirements a) \<subseteq> set SUPPORTED_REQUIREMENTS"

definition definition_ok :: "capability_definition \<Rightarrow> bool" where
  "definition_ok d \<longleftrightarrow> cd_executor_class d = WORKER_EXECUTOR_CLASS \<and> distinct (map fst (cd_actions d))
     \<and> (\<forall>(i, a) \<in> set (cd_actions d). i = cad_action_id a \<and> \<not> blank i \<and> action_ok a)"

definition registry_ok :: "capability_registry \<Rightarrow> bool" where
  "registry_ok reg \<longleftrightarrow> distinct (map fst reg) \<and> (\<forall>(i, d) \<in> set reg. i = cd_capability_id d \<and> definition_ok d)"

lemma require_side_effect_range: "require_side_effect v f = Inr n \<Longrightarrow> 0 \<le> n \<and> n \<le> 3"
  by (auto simp: require_side_effect_def split: json.splits if_splits)

lemma action_from_document_ok:
  assumes "action_from_document i raw = Inr a"
  shows "cad_action_id a = i" "action_ok a"
proof -
  obtain as where as: "jget raw ''argument_schema'' = JObj as"
    using assms unfolding action_from_document_def
    by (cases "jget raw ''argument_schema''") simp_all
  obtain rs where rs: "jget raw ''result_schema'' = JObj rs"
    using assms unfolding action_from_document_def as json.case
    by (elim if_Inl_InrE) (cases "jget raw ''result_schema''"; simp)
  from assms show "cad_action_id a = i" "action_ok a"
    unfolding action_from_document_def as rs json.case
    by (elim resultE; cases "jget raw ''supports_reproduction''"; simp;
        cases "jget raw ''supports_negative_control''";
        force simp: action_ok_def list_ex_iff elim: bindE_InrE dest!: require_side_effect_range)+
qed

lemma actions_from_items_ok:
  assumes "actions_from_items items seen = Inr acts"
    and "distinct (map fst seen)" "\<forall>(i, a) \<in> set seen. i = cad_action_id a \<and> \<not> blank i \<and> action_ok a"
  shows "distinct (map fst acts) \<and> (\<forall>(i, a) \<in> set acts. i = cad_action_id a \<and> \<not> blank i \<and> action_ok a)"
  using assms
proof (induction items arbitrary: seen)
  case (Cons item rest)
  obtain i raw_action where item: "item = (i, raw_action)" by (cases item)
  with Cons.prems(1) obtain raw a where "action_from_document i raw = Inr a"
      "\<not> blank i" "i \<notin> fst ` set seen" and rest: "actions_from_items rest (seen @ [(i, a)]) = Inr acts"
    by (auto simp: result_simps split: json.splits if_splits)
  with action_from_document_ok Cons.prems(2,3) show ?case by (intro Cons.IH [OF rest]) auto
qed simp

lemma definition_from_document_ok:
  assumes "definition_from_document sha doc = Inr d"
  shows "definition_ok d" "fingerprint_capability_document sha doc = Inr (cd_definition_fingerprint d)"
proof -
  obtain items acts where acts: "actions_from_items items [] = Inr acts"
    and d: "cd_actions d = acts" "cd_executor_class d \<in> set SUPPORTED_EXECUTOR_CLASSES"
      "fingerprint_capability_document sha doc = Inr (cd_definition_fingerprint d)"
    using assms unfolding definition_from_document_def
    by (elim resultE; cases "jget doc ''actions''"; simp) (elim resultE; force elim: bindE_InrE)
  from actions_from_items_ok [OF acts] d show "definition_ok d"
    "fingerprint_capability_document sha doc = Inr (cd_definition_fingerprint d)"
    by (auto simp: definition_ok_def SUPPORTED_EXECUTOR_CLASSES_def WORKER_EXECUTOR_CLASS_def)
qed

lemma registry_loop_ok:
  assumes "registry_loop sha docs defs = Inr reg" "registry_ok defs"
    and "\<forall>(i, d) \<in> set defs. \<exists>doc \<in> D. definition_from_document sha doc = Inr d" "set docs \<subseteq> D"
  shows "registry_ok reg \<and> (\<forall>(i, d) \<in> set reg. \<exists>doc \<in> D. definition_from_document sha doc = Inr d)"
  using assms
proof (induction docs arbitrary: defs)
  case (Cons doc docs)
  from Cons.prems(1) obtain d where d: "definition_from_document sha doc = Inr d" "cd_capability_id d \<notin> fst ` set defs"
      and rest: "registry_loop sha docs (defs @ [(cd_capability_id d, d)]) = Inr reg"
    by (auto simp: result_simps split: if_splits)
  have "registry_ok (defs @ [(cd_capability_id d, d)])"
    using Cons.prems(2) d definition_from_document_ok(1) by (auto simp: registry_ok_def)
  with Cons.prems(3,4) d(1) show ?case by (intro Cons.IH [OF rest]) auto
qed simp

lemma registry_from_documents_ok:
  assumes "registry_from_documents sha docs = Inr reg"
  shows "registry_ok reg" "(i, d) \<in> set reg \<Longrightarrow> \<exists>doc \<in> set docs. definition_from_document sha doc = Inr d"
  using registry_loop_ok [OF assms [unfolded registry_from_documents_def], of "set docs"]
  by (auto simp: registry_ok_def)

lemma registry_get_mem: "registry_get reg i = Some d \<Longrightarrow> (i, d) \<in> set reg"
  by (simp add: registry_get_def map_of_SomeD)

section \<open>Properties\<close>

text \<open>
  C25. A catalog built from documents is well formed: its ids are distinct, every entry is keyed by
  its own capability id, is a Worker capability with distinct, non-blank, correctly keyed actions,
  and every action has levels \<open>0 <= minimum <= maximum <= 3\<close>, at least one target type and only
  supported requirements.
\<close>

theorem registry_construction_well_formed:
  assumes "registry_from_documents sha docs = Inr reg"
  shows "registry_ok reg \<and> registry_definitions reg = worker_definitions reg"
proof
  show ok: "registry_ok reg" by (rule registry_from_documents_ok [OF assms])
  have "cd_executor_class d = WORKER_EXECUTOR_CLASS" if "d \<in> set (registry_definitions reg)" for d
  proof -
    from that obtain i where "registry_get reg i = Some d"
      by (auto simp: registry_definitions_def map_filter_def)
    with ok show ?thesis by (auto simp: registry_ok_def definition_ok_def dest!: registry_get_mem)
  qed
  then show "registry_definitions reg = worker_definitions reg"
    by (simp add: worker_definitions_def)
qed

definition example_document :: "(string \<times> json) list" where
  "example_document =
     [(''capability_id'', JStr ''diagnostic.echo''), (''version'', JStr ''1''),
      (''implementation_reference'', JStr ''echo''), (''executor_class'', JStr ''WORKER''),
      (''actions'', JObj [(''echo'', JObj
         [(''argument_schema'', JObj [(''additionalProperties'', JBool False)]),
          (''result_schema'', JObj []), (''minimum_side_effect_level'', JInt 0),
          (''maximum_side_effect_level'', JInt 1), (''target_types'', JArr [JStr ''none'']),
          (''requirements'', JArr [JStr ''loopback'']), (''supports_reproduction'', JBool True),
          (''supports_negative_control'', JBool True)])])]"

definition example_registry :: capability_registry where
  "example_registry = [(''diagnostic.echo'',
     \<lparr>cd_capability_id = ''diagnostic.echo'', cd_version = ''1'', cd_implementation_reference = ''echo'',
      cd_executor_class = ''WORKER'', cd_actions =
        [(''echo'', \<lparr>cad_action_id = ''echo'', cad_argument_schema = [(''additionalProperties'', JBool False)],
           cad_result_schema = [], cad_minimum_side_effect_level = 0, cad_maximum_side_effect_level = 1,
           cad_target_types = [''none''], cad_network_policy = None, cad_requirements = [''loopback''],
           cad_supports_reproduction = True, cad_supports_negative_control = True,
           cad_normalizer_reference = None\<rparr>)],
      cd_definition_fingerprint = ''fp''\<rparr>)]"

lemma example_registry_built: "registry_from_documents (\<lambda>_. ''fp'') [example_document] = Inr example_registry"
  by code_simp

theorem registry_construction_well_formed_witness:
  "registry_ok example_registry \<and> registry_definitions example_registry = worker_definitions example_registry"
  by (rule registry_construction_well_formed [OF example_registry_built])

text \<open>
  C18. The check treats the claim as a claim: it passes exactly when the catalog backs it (Worker
  definition, same version and fingerprint, authoritative minimum, requested level between the
  action's levels and equal to the claimed one) or it is the one allowlisted integration call at
  level 0.  Over a catalog built from documents the fingerprint is that of one of the documents.
\<close>

theorem capability_check_is_catalog_policy:
  assumes "registry_from_documents sha docs = Inr reg"
  shows "(cac_allowed_to_continue (check_capability_authorization (Some v) level reg) \<longleftrightarrow>
      catalog_backs reg v level) \<and>
    (catalog_backs reg v level \<longrightarrow>
      (cav_capability_id v = ''strix.diagnostic.ping'' \<and> level = LEVEL_0) \<or>
      (\<exists>doc \<in> set docs. fingerprint_capability_document sha doc = Inr (cav_definition_fingerprint v)))"
proof (intro conjI impI)
  show "cac_allowed_to_continue (check_capability_authorization (Some v) level reg) \<longleftrightarrow> catalog_backs reg v level"
    by (simp add: check_capability_iff)
  assume backs: "catalog_backs reg v level"
  show "(cav_capability_id v = ''strix.diagnostic.ping'' \<and> level = LEVEL_0) \<or>
      (\<exists>doc \<in> set docs. fingerprint_capability_document sha doc = Inr (cav_definition_fingerprint v))"
  proof (cases "registry_get reg (cav_capability_id v)")
    case None
    with backs show ?thesis by (simp add: catalog_backs_def)
  next
    case (Some d)
    with registry_from_documents_ok(2) [OF assms registry_get_mem [OF Some]] backs
    show ?thesis by (auto simp: catalog_backs_def dest: definition_from_document_ok(2))
  qed
qed

definition example_view :: capability_authorization_view where
  "example_view = \<lparr>cav_capability_id = ''diagnostic.echo'', cav_action = ''echo'', cav_capability_version = ''1'',
     cav_definition_fingerprint = ''fp'',
     cav_authoritative_minimum_side_effect = 0, cav_effective_side_effect = 1\<rparr>"

lemma example_view_backed: "catalog_backs example_registry example_view LEVEL_1"
  by code_simp

theorem capability_check_is_catalog_policy_witness:
  "cac_allowed_to_continue (check_capability_authorization (Some example_view) LEVEL_1 example_registry)"
  using capability_check_is_catalog_policy [OF example_registry_built, of example_view LEVEL_1] example_view_backed
  by blast

text \<open>
  A definition fingerprint binds the policy: it depends only on the allowlisted policy fields up
  to key order (so reformatting or extra fields of a document do not change it), and two documents
  with the same fingerprint have the same policy payload unless the hash collides on them.
\<close>

lemma fingerprint_binds_policy:
  assumes "allowlisted_policy_payload d = Inr p" "allowlisted_policy_payload e = Inr q"
  shows "(canon p = canon q \<longrightarrow> fingerprint_capability_document sha d = fingerprint_capability_document sha e) \<and>
    (fingerprint_capability_document sha d = fingerprint_capability_document sha e \<longrightarrow>
       canon p = canon q \<or>
       (canonical_json_bytes p \<noteq> canonical_json_bytes q \<and> sha (canonical_json_bytes p) = sha (canonical_json_bytes q)))"
  using assms dumps_eq_iff [of False p q]
  by (auto simp: fingerprint_capability_document_def canonical_json_bytes_def utf8_inj)

definition tiny_document :: "string \<Rightarrow> (string \<times> json) list" where
  "tiny_document note = [(''note'', JStr note), (''version'', JStr ''1''), (''actions'', JObj [])]"

lemma fingerprint_binds_policy_witness:
  "fingerprint_capability_document (take 8) (tiny_document ''a'') = fingerprint_capability_document (take 8) (tiny_document ''b'')"
proof -
  have "allowlisted_policy_payload (tiny_document ''a'') = allowlisted_policy_payload (tiny_document ''b'')"
    and "\<exists>p. allowlisted_policy_payload (tiny_document ''a'') = Inr p"
    by (simp_all add: allowlisted_policy_payload_def tiny_document_def jget_def)
  then show ?thesis using fingerprint_binds_policy by metis
qed

end
