(* ===== verification/Core_Execution.thy ===== *)
theory Core_Execution
  imports Core_Approval Core_Budget Core_Scope Capability
begin

text \<open>
  The pure execution authorization (\<open>core/execution.py\<close>): capability registry, authorization source,
  scope, budget, side-effect level, approval.
\<close>

section \<open>Model\<close>

definition side_effect_of_int :: "int \<Rightarrow> side_effect_level option" where
  "side_effect_of_int n =
     (if n = 0 then Some LEVEL_0 else if n = 1 then Some LEVEL_1
      else if n = 2 then Some LEVEL_2 else if n = 3 then Some LEVEL_3 else None)"

definition parse_side_effect_level :: "side_effect_level + int \<Rightarrow> core_error + side_effect_level" where
  "parse_side_effect_level value =
     (case value of
        Inl level \<Rightarrow> Inr level
      | Inr n \<Rightarrow> (case side_effect_of_int n of
          None \<Rightarrow> Inl (CoreInputError ''side_effect_level must be 0, 1, 2, or 3'')
        | Some level \<Rightarrow> Inr level))"

record execution_request =
  er_authorization_source :: "authorization_source_view option"
  er_scope :: scope_evaluation_input
  er_issued_budget :: issued_budget
  er_budget_usage :: budget_usage
  er_requested_budget_id :: string
  er_side_effect_level :: "side_effect_level + int"
  er_requested_subject :: string
  er_capability :: "capability_authorization_view option"
  er_approval :: "approval_view option"

record execution_decision =
  ed_decision :: execution_decision_kind
  ed_reason_code :: reason_code
  ed_authorization_source_id :: "string option"
  ed_matched_scope_rule_ids :: "string list"
  ed_budget_id :: "string option"
  ed_side_effect_level :: side_effect_level
  ed_approval_id :: "string option"

definition make_decision ::
    "execution_decision_kind \<Rightarrow> reason_code \<Rightarrow> string option \<Rightarrow> string list \<Rightarrow> string option
     \<Rightarrow> side_effect_level \<Rightarrow> string option \<Rightarrow> execution_decision" where
  "make_decision kind reason asid rules bid level aid =
     \<lparr>ed_decision = kind, ed_reason_code = reason, ed_authorization_source_id = asid,
      ed_matched_scope_rule_ids = rules, ed_budget_id = bid, ed_side_effect_level = level,
      ed_approval_id = aid\<rparr>"

definition evaluate_execution ::
    "execution_request \<Rightarrow> capability_registry \<Rightarrow> core_error + execution_decision" where
  "evaluate_execution request capability_registry =
     bindE (parse_side_effect_level (er_side_effect_level request)) (\<lambda>level.
     bindE (require_opaque_id (er_requested_subject request) ''requested_subject'') (\<lambda>_.
     bindE (require_opaque_id (er_requested_budget_id request) ''requested_budget_id'') (\<lambda>_.
     let capability = check_capability_authorization (er_capability request) level capability_registry;
         auth = check_authorization (er_authorization_source request);
         scope = check_scope (er_scope request)
     in bindE (check_budget (er_issued_budget request) (er_budget_usage request) (er_requested_budget_id request)) (\<lambda>budget.
     let finish = (\<lambda>kind reason approval_id. make_decision kind reason (azc_authorization_source_id auth)
                     (sc_matched_rule_ids scope) (Some (bc_budget_id budget)) level approval_id)
     in if \<not> cac_allowed_to_continue capability then Inr (finish ED_DENY (cac_reason_code capability) None)
        else if \<not> azc_allowed_to_continue auth then Inr (finish ED_DENY (azc_reason_code auth) None)
        else if sc_decision scope = SD_DENY then Inr (finish ED_DENY (sc_reason_code scope) None)
        else if \<not> bc_allowed_to_continue budget then Inr (finish ED_DENY (bc_reason_code budget) None)
        else if level = LEVEL_3 then Inr (finish ED_DENY RC_SIDE_EFFECT_LEVEL_DENIED None)
        else if sc_decision scope = SD_REQUIRE_HUMAN_REVIEW
        then Inr (finish ED_REQUIRE_HUMAN_REVIEW (sc_reason_code scope) None)
        else if level \<in> {LEVEL_0, LEVEL_1} then Inr (finish ED_ALLOW RC_ALLOWED None)
        else bindE (check_approval (er_approval request) (er_requested_subject request)) (\<lambda>approval.
          if ac_require_human_review approval
          then Inr (finish ED_REQUIRE_HUMAN_REVIEW (ac_reason_code approval) (ac_approval_id approval))
          else if \<not> ac_authorizes approval
          then Inr (finish ED_DENY (ac_reason_code approval) (ac_approval_id approval))
          else Inr (finish ED_ALLOW RC_ALLOWED (ac_approval_id approval)))))))"

section \<open>The policy it implements\<close>

definition well_formed_request :: "execution_request \<Rightarrow> side_effect_level \<Rightarrow> bool" where
  "well_formed_request r level \<longleftrightarrow> parse_side_effect_level (er_side_effect_level r) = Inr level
     \<and> \<not> blank (er_requested_subject r) \<and> \<not> blank (er_requested_budget_id r)"

text \<open>The unconditional gates, which no approval and no review can open.\<close>

definition hard_gates :: "execution_request \<Rightarrow> side_effect_level \<Rightarrow> capability_registry \<Rightarrow> bool" where
  "hard_gates r level reg \<longleftrightarrow>
     (\<exists>v. er_capability r = Some v \<and> catalog_backs reg v level)
     \<and> source_active (er_authorization_source r)
     \<and> sc_decision (check_scope (er_scope r)) \<noteq> SD_DENY
     \<and> er_requested_budget_id r = ib_budget_id (er_issued_budget r)
     \<and> budget_room (er_issued_budget r) (er_budget_usage r)
     \<and> level \<noteq> LEVEL_3"

definition execution_policy ::
    "execution_request \<Rightarrow> side_effect_level \<Rightarrow> capability_registry \<Rightarrow> execution_decision_kind" where
  "execution_policy r level reg =
     (if \<not> hard_gates r level reg then ED_DENY
      else if sei_ambiguous (er_scope r) then ED_REQUIRE_HUMAN_REVIEW
      else if level \<le> LEVEL_1 then ED_ALLOW
      else (case er_approval r of None \<Rightarrow> ED_REQUIRE_HUMAN_REVIEW
        | Some _ \<Rightarrow> if approved_for (er_requested_subject r) (er_approval r) then ED_ALLOW else ED_DENY))"

lemma level_le_1: "level \<le> LEVEL_1 \<longleftrightarrow> level \<in> {LEVEL_0, LEVEL_1}"
  by (cases level) (simp_all add: less_eq_side_effect_level_def)

lemma make_decision_sel [simp]:
  "ed_decision (make_decision k r a m b l p) = k" "ed_reason_code (make_decision k r a m b l p) = r"
  "ed_side_effect_level (make_decision k r a m b l p) = l" "ed_approval_id (make_decision k r a m b l p) = p"
  by (simp_all add: make_decision_def)

lemma evaluate_execution_Inr_iff:
  "(\<exists>d. evaluate_execution r reg = Inr d) \<longleftrightarrow> (\<exists>level. well_formed_request r level)"
proof
  assume "\<exists>d. evaluate_execution r reg = Inr d"
  then show "\<exists>level. well_formed_request r level"
    by (auto simp: evaluate_execution_def well_formed_request_def result_simps)
next
  assume "\<exists>level. well_formed_request r level"
  then obtain level where w: "parse_side_effect_level (er_side_effect_level r) = Inr level"
      "\<not> blank (er_requested_subject r)" "\<not> blank (er_requested_budget_id r)"
    by (auto simp: well_formed_request_def)
  obtain b where b: "check_budget (er_issued_budget r) (er_budget_usage r) (er_requested_budget_id r) = Inr b"
    using check_budget_total [OF w(3)] by blast
  obtain a where a: "check_approval (er_approval r) (er_requested_subject r) = Inr a"
    using check_approval_total [OF w(2)] by blast
  show "\<exists>d. evaluate_execution r reg = Inr d"
    using w by (simp add: evaluate_execution_def require_opaque_id_def Let_def a b)
qed

lemma evaluate_execution_policy:
  assumes "evaluate_execution r reg = Inr d" "well_formed_request r level"
  shows "ed_decision d = execution_policy r level reg" "ed_side_effect_level d = level"
proof -
  from assms(2) have w: "parse_side_effect_level (er_side_effect_level r) = Inr level"
      "\<not> blank (er_requested_subject r)" "\<not> blank (er_requested_budget_id r)"
    by (auto simp: well_formed_request_def)
  obtain b where b: "check_budget (er_issued_budget r) (er_budget_usage r) (er_requested_budget_id r) = Inr b"
    using check_budget_total [OF w(3)] by blast
  obtain a where a: "check_approval (er_approval r) (er_requested_subject r) = Inr a"
    using check_approval_total [OF w(2)] by blast
  let ?s = "check_scope (er_scope r)"
  have review: "sc_decision ?s \<noteq> SD_DENY \<Longrightarrow>
      sc_decision ?s = SD_REQUIRE_HUMAN_REVIEW \<longleftrightarrow> sei_ambiguous (er_scope r)"
    using check_scope_review_iff [of "er_scope r"] check_scope_allow_iff [of "er_scope r"]
    by (cases "sc_decision ?s") auto
  have unreviewed: "ac_require_human_review a \<longleftrightarrow> er_approval r = None"
    and auth: "ac_authorizes a = approved_for (er_requested_subject r) (er_approval r)"
    using check_approval_review [OF a] check_approval_authorizes [OF a] by auto
  show "ed_decision d = execution_policy r level reg" "ed_side_effect_level d = level"
    using assms(1) w review
    by (auto simp: evaluate_execution_def require_opaque_id_def Let_def a b check_capability_iff
        check_budget_allowed [OF b] execution_policy_def hard_gates_def level_le_1 unreviewed auth
        split: if_splits option.splits)
qed

lemma evaluate_execution_reason:
  assumes "evaluate_execution r reg = Inr d"
  shows "ed_reason_code d = RC_ALLOWED \<longleftrightarrow> ed_decision d = ED_ALLOW"
proof -
  obtain level where w: "parse_side_effect_level (er_side_effect_level r) = Inr level"
      "\<not> blank (er_requested_subject r)" "\<not> blank (er_requested_budget_id r)"
    using evaluate_execution_Inr_iff [of r reg] assms by (auto simp: well_formed_request_def)
  obtain b where b: "check_budget (er_issued_budget r) (er_budget_usage r) (er_requested_budget_id r) = Inr b"
    using check_budget_total [OF w(3)] by blast
  obtain a where a: "check_approval (er_approval r) (er_requested_subject r) = Inr a"
    using check_approval_total [OF w(2)] by blast
  have auth: "azc_reason_code (check_authorization s) = RC_ALLOWED \<longleftrightarrow> azc_allowed_to_continue (check_authorization s)" for s
    by (simp add: check_authorization_def split: option.splits)
  have scope: "sc_reason_code (check_scope e) = RC_ALLOWED \<longleftrightarrow> sc_decision (check_scope e) = SD_ALLOW" for e
    using check_scope_refines_policy [of e] by (auto simp: scope_policy_def split: if_splits)
  have "ac_require_human_review a \<Longrightarrow> \<not> ac_authorizes a"
    using check_approval_review [OF a] check_approval_authorizes [OF a] by (simp add: approved_for_def)
  then show ?thesis
    using assms w check_capability_reason auth scope check_budget_reason [OF b] check_approval_reason_allowed [OF a]
    by (auto simp: evaluate_execution_def require_opaque_id_def Let_def a b split: if_splits)
qed

section \<open>Properties\<close>

text \<open>
  C14. \<open>evaluate_execution\<close> raises exactly on malformed requests, and otherwise implements the policy:
  DENY unless every hard gate is open; REQUIRE_HUMAN_REVIEW for an ambiguous scope or a missing
  approval at level 2; ALLOW otherwise, at level 2 only with a recorded human approval of exactly the
  requested subject.  The reason is ALLOWED exactly for ALLOW.
\<close>

theorem evaluate_execution_implements_policy:
  shows "((\<exists>d. evaluate_execution r reg = Inr d) \<longleftrightarrow> (\<exists>level. well_formed_request r level)) \<and>
    (evaluate_execution r reg = Inr d \<and> well_formed_request r level \<longrightarrow>
       ed_decision d = execution_policy r level reg \<and> ed_side_effect_level d = level \<and>
       (ed_reason_code d = RC_ALLOWED \<longleftrightarrow> ed_decision d = ED_ALLOW))"
  using evaluate_execution_Inr_iff evaluate_execution_policy evaluate_execution_reason by blast

definition level2_view :: capability_authorization_view where
  "level2_view = \<lparr>cav_capability_id = ''c'', cav_action = ''go'', cav_capability_version = ''1'',
     cav_definition_fingerprint = ''f'', cav_authoritative_minimum_side_effect = 1,
     cav_effective_side_effect = 2\<rparr>"

definition level2_registry :: capability_registry where
  "level2_registry = [(''c'', \<lparr>cd_capability_id = ''c'', cd_version = ''1'', cd_implementation_reference = ''i'',
     cd_executor_class = ''WORKER'', cd_actions =
      [(''go'', \<lparr>cad_action_id = ''go'', cad_argument_schema = [], cad_result_schema = [],
         cad_minimum_side_effect_level = 1, cad_maximum_side_effect_level = 2, cad_target_types = [''url''],
         cad_network_policy = None, cad_requirements = [], cad_supports_reproduction = True,
         cad_supports_negative_control = True, cad_normalizer_reference = None\<rparr>)],
     cd_definition_fingerprint = ''f''\<rparr>)]"

definition example_request :: "approval_view option \<Rightarrow> bool \<Rightarrow> execution_request" where
  "example_request approval ambiguous =
     \<lparr>er_authorization_source = Some \<lparr>asv_authorization_source_id = ''s'', asv_program_id = ''p'', asv_state = AS_ACTIVE\<rparr>,
      er_scope = \<lparr>sei_matches = [example_match ''a'' SRE_ALLOW], sei_ambiguous = ambiguous\<rparr>,
      er_issued_budget = \<lparr>ib_budget_id = ''b'', ib_max_requests = 2, ib_max_tool_calls = 2,
         ib_max_runtime_ms = 9, ib_max_concurrency = 1\<rparr>,
      er_budget_usage = \<lparr>bu_requests = 0, bu_tool_calls = 0, bu_runtime_ms = 0, bu_concurrency = 0\<rparr>,
      er_requested_budget_id = ''b'', er_side_effect_level = Inr 2, er_requested_subject = ''subject'',
      er_capability = Some level2_view, er_approval = approval\<rparr>"

definition example_approval :: "approval_decision \<Rightarrow> approval_view" where
  "example_approval decision = \<lparr>av_approval_id = ''ap'', av_subject_reference = ''subject'', av_decision = decision,
     av_decided_by = ''alice'', av_actor_type = HUMAN_OPERATOR, av_recorded = True\<rparr>"

definition decide :: "core_error + execution_decision \<Rightarrow> execution_decision_kind option" where
  "decide x = (case x of Inl _ \<Rightarrow> None | Inr d \<Rightarrow> Some (ed_decision d))"

lemma example_decisions:
  "decide (evaluate_execution (example_request (Some (example_approval AD_APPROVE)) False) level2_registry) = Some ED_ALLOW"
  "decide (evaluate_execution (example_request (Some (example_approval AD_REJECT)) False) level2_registry) = Some ED_DENY"
  "decide (evaluate_execution (example_request None False) level2_registry) = Some ED_REQUIRE_HUMAN_REVIEW"
  by code_simp+

lemma example_request_well_formed: "well_formed_request (example_request a b) LEVEL_2"
  by (simp add: well_formed_request_def example_request_def parse_side_effect_level_def side_effect_of_int_def
      blank_iff_all_space py_space_def)

theorem evaluate_execution_implements_policy_witness:
  "execution_policy (example_request (Some (example_approval AD_APPROVE)) False) LEVEL_2 level2_registry = ED_ALLOW"
proof -
  obtain d where "evaluate_execution (example_request (Some (example_approval AD_APPROVE)) False) level2_registry = Inr d"
      "ed_decision d = ED_ALLOW"
    using example_decisions(1) by (auto simp: decide_def split: sum.splits)
  then show ?thesis
    using evaluate_execution_implements_policy example_request_well_formed by metis
qed

text \<open>
  The approval is the last gate and opens only itself: replacing the approval of a request by
  any other never turns a denial by capability, authorization, scope, budget or level 3 into
  anything else, and never matters below level 2.
\<close>

lemma approval_opens_no_other_gate:
  assumes "well_formed_request r level"
    and "evaluate_execution r reg = Inr d" "evaluate_execution (r\<lparr>er_approval := a\<rparr>) reg = Inr d'"
  shows "(\<not> hard_gates r level reg \<longrightarrow> ed_decision d' = ED_DENY) \<and>
    (level \<le> LEVEL_1 \<longrightarrow> ed_decision d' = ed_decision d) \<and>
    (ed_decision d' = ED_ALLOW \<and> \<not> level \<le> LEVEL_1 \<longrightarrow>
       level = LEVEL_2 \<and> approved_for (er_requested_subject r) a)"
proof -
  have w: "well_formed_request (r\<lparr>er_approval := a\<rparr>) level"
    using assms(1) by (simp add: well_formed_request_def)
  have gates: "hard_gates (r\<lparr>er_approval := a\<rparr>) level reg = hard_gates r level reg"
    by (simp add: hard_gates_def)
  have d: "ed_decision d = execution_policy r level reg"
    and d': "ed_decision d' = execution_policy (r\<lparr>er_approval := a\<rparr>) level reg"
    using evaluate_execution_policy assms w by blast+
  show ?thesis
    by (cases level) (auto simp: d d' execution_policy_def gates level_le_1 hard_gates_def split: option.splits)
qed

lemma approval_opens_no_other_gate_witness:
  "\<exists>d'. evaluate_execution (example_request (Some (example_approval AD_APPROVE)) False) level2_registry = Inr d' \<and>
     approved_for ''subject'' (Some (example_approval AD_APPROVE))"
proof -
  let ?a = "Some (example_approval AD_APPROVE)"
  obtain d d' where d: "evaluate_execution (example_request None False) level2_registry = Inr d"
    and d': "evaluate_execution (example_request ?a False) level2_registry = Inr d'" "ed_decision d' = ED_ALLOW"
    using example_decisions by (auto simp: decide_def split: sum.splits)
  have eq: "(example_request None False)\<lparr>er_approval := ?a\<rparr> = example_request ?a False"
    by (simp add: example_request_def)
  show ?thesis
    using approval_opens_no_other_gate [OF example_request_well_formed d, of ?a d', unfolded eq] d'
    by (simp add: less_eq_side_effect_level_def example_request_def)
qed

text \<open>
  An ambiguous scope is answered before the approval is looked at, so a rejected level-2 request is
  sent to human review rather than denied.
\<close>

lemma ambiguous_scope_outranks_rejection:
  "decide (evaluate_execution (example_request (Some (example_approval AD_REJECT)) True) level2_registry) =
     Some ED_REQUIRE_HUMAN_REVIEW"
  by code_simp

end
