(* ===== verification/Core_RateLimit.thy ===== *)
theory Core_RateLimit
  imports Core_Types
begin

text \<open>
  The rolling-window rate limit (\<open>core/rate_limit.py\<close>).  Instants are integers in microseconds, so a
  window of \<open>w\<close> seconds is \<open>w * 1000000\<close>.  The locale \<open>sliding_window\<close> is the contract a caller
  relies on: an admitted request finds fewer than \<open>limit\<close> attempts in the window that ends now.
\<close>

record rate_limit_profile =
  rlp_profile_id :: string
  rlp_program_id :: string
  rlp_max_requests_per_window :: int
  rlp_window_seconds :: int

definition post_init_rate_limit_profile :: "rate_limit_profile \<Rightarrow> core_error + rate_limit_profile" where
  "post_init_rate_limit_profile p = raise_first
     [id_check (rlp_profile_id p) ''profile_id'',
      id_check (rlp_program_id p) ''program_id'',
      (rlp_max_requests_per_window p < 0,
         CoreInputError ''max_requests_per_window must be a non-negative int''),
      (rlp_window_seconds p < 0, CoreInputError ''window_seconds must be a non-negative int'')] p"

record rate_limit_check =
  rlc_allowed :: bool
  rlc_reason_code :: reason_code
  rlc_next_allowed_at :: "int option"

definition window_us :: "rate_limit_profile \<Rightarrow> int" where
  "window_us p = rlp_window_seconds p * 1000000"

definition in_window :: "int \<Rightarrow> int \<Rightarrow> int list \<Rightarrow> int list" where
  "in_window width now ts = filter (\<lambda>t. t > now - width \<and> t \<le> now) ts"

definition check_rate_limit :: "rate_limit_profile \<Rightarrow> int list \<Rightarrow> int \<Rightarrow> rate_limit_check" where
  "check_rate_limit profile attempt_times now =
     (if rlp_max_requests_per_window profile = 0 \<or> rlp_window_seconds profile = 0
      then \<lparr>rlc_allowed = False, rlc_reason_code = RC_RATE_LIMIT_DENIED, rlc_next_allowed_at = None\<rparr>
      else let recent = in_window (window_us profile) now attempt_times in
        if int (length recent) \<ge> rlp_max_requests_per_window profile
        then let oldest_in_window = fold min (tl recent) (hd recent) in
             \<lparr>rlc_allowed = False, rlc_reason_code = RC_RATE_LIMIT_DENIED,
              rlc_next_allowed_at = Some (oldest_in_window + window_us profile)\<rparr>
        else \<lparr>rlc_allowed = True, rlc_reason_code = RC_ALLOWED, rlc_next_allowed_at = None\<rparr>)"

text \<open>
  The attempts recorded by a caller that asks at each of the given instants and records the allowed
  requests.
\<close>

fun admitted :: "rate_limit_profile \<Rightarrow> int list \<Rightarrow> int list \<Rightarrow> int list" where
  "admitted p ts [] = ts"
| "admitted p ts (now # nows) =
     admitted p (if rlc_allowed (check_rate_limit p ts now) then ts @ [now] else ts) nows"

section \<open>The window contract\<close>

locale sliding_window =
  fixes width :: int
    and limit :: int
    and admit :: "int list \<Rightarrow> int \<Rightarrow> bool"
  assumes admit_room: "admit ts now \<Longrightarrow> int (length (in_window width now ts)) < limit"
begin

lemma window_after_admit:
  assumes adm: "admit ts now" and past: "\<forall>t \<in> set ts. t \<le> now"
    and inv: "\<forall>x. int (length (in_window width x ts)) \<le> limit"
  shows "int (length (in_window width x (ts @ [now]))) \<le> limit"
proof (cases "now \<le> x")
  case False
  then have "in_window width x (ts @ [now]) = in_window width x ts"
    by (simp add: in_window_def)
  then show ?thesis using inv by simp
next
  case True
  have "length (in_window width x ts) \<le> length (in_window width now ts)"
    using past True unfolding in_window_def
    by (induction ts) auto
  with admit_room [OF adm] show ?thesis
    by (auto simp: in_window_def)
qed

end

lemma fold_min_le: "fold min xs (a :: int) \<le> a \<and> (\<forall>x \<in> set xs. fold min xs a \<le> x) \<and>
   fold min xs a \<in> insert a (set xs)"
proof (induction xs arbitrary: a)
  case (Cons y ys)
  show ?case using Cons [of "min y a"] by (auto simp: min_def split: if_splits)
qed simp

lemma fold_min_list:
  assumes "xs \<noteq> []"
  shows "fold min (tl xs) (hd xs :: int) \<in> set xs" "x \<in> set xs \<Longrightarrow> fold min (tl xs) (hd xs) \<le> x"
  using assms fold_min_le [of "tl xs" "hd xs"] by (cases xs; auto)+

lemma check_rate_limit_allowed:
  "rlc_allowed (check_rate_limit p ts now) \<longleftrightarrow>
   rlp_max_requests_per_window p \<noteq> 0 \<and> rlp_window_seconds p \<noteq> 0 \<and>
   int (length (in_window (window_us p) now ts)) < rlp_max_requests_per_window p"
  by (auto simp: check_rate_limit_def Let_def)

interpretation rate: sliding_window "window_us p" "rlp_max_requests_per_window p"
    "\<lambda>ts now. rlc_allowed (check_rate_limit p ts now)" for p
  by unfold_locales (simp add: check_rate_limit_allowed)

lemma admitted_invariant:
  assumes "sorted nows" "\<forall>t \<in> set ts. \<forall>n \<in> set nows. t \<le> n"
    and "\<forall>x. int (length (in_window (window_us p) x ts)) \<le> rlp_max_requests_per_window p"
  shows "int (length (in_window (window_us p) x (admitted p ts nows))) \<le> rlp_max_requests_per_window p"
  using assms
proof (induction p ts nows rule: admitted.induct)
  case (2 p ts now nows)
  show ?case
  proof (cases "rlc_allowed (check_rate_limit p ts now)")
    case True
    then have "\<forall>x. int (length (in_window (window_us p) x (ts @ [now]))) \<le> rlp_max_requests_per_window p"
      using rate.window_after_admit [OF True] 2(3,4) by simp
    with 2 True show ?thesis by auto
  next
    case False
    with 2 show ?thesis by simp
  qed
qed simp

section \<open>Properties\<close>

text \<open>
  C16. Whatever the instants (in order) at which requests are made, no rolling window, ending at any
  instant whatsoever, ever holds more admitted requests than the profile allows.
\<close>

theorem rate_limit_window_never_exceeded:
  assumes "post_init_rate_limit_profile p = Inr q" "sorted nows"
  shows "int (length (in_window (window_us p) x (admitted p [] nows))) \<le> rlp_max_requests_per_window p"
  using assms by (intro admitted_invariant)
    (auto simp: post_init_rate_limit_profile_def result_simps in_window_def)

definition example_profile :: rate_limit_profile where
  "example_profile = \<lparr>rlp_profile_id = ''p'', rlp_program_id = ''g'',
     rlp_max_requests_per_window = 2, rlp_window_seconds = 10\<rparr>"

theorem rate_limit_window_never_exceeded_witness:
  "int (length (in_window (window_us example_profile) 12000000
     (admitted example_profile [] [0, 1000000, 2000000, 10000001, 12000000]))) \<le> 2"
proof -
  have "post_init_rate_limit_profile example_profile = Inr example_profile" by code_simp
  from rate_limit_window_never_exceeded [OF this, of "[0, 1000000, 2000000, 10000001, 12000000]" 12000000]
  show ?thesis by (simp add: example_profile_def del: admitted.simps)
qed

text \<open>
  The reported \<open>next_allowed_at\<close> is exact: with no further attempts, every check from now until
  just before that instant is denied, and the check at that instant is allowed when the window held
  no more than the limit.
\<close>

lemma next_allowed_at_exact:
  assumes "check_rate_limit p ts now =
      \<lparr>rlc_allowed = False, rlc_reason_code = RC_RATE_LIMIT_DENIED, rlc_next_allowed_at = Some n\<rparr>"
    and "0 < rlp_max_requests_per_window p" "0 < rlp_window_seconds p"
    and "\<forall>t \<in> set ts. t \<le> now"
  shows "now < n \<and>
    (\<forall>m. now \<le> m \<and> m < n \<longrightarrow> \<not> rlc_allowed (check_rate_limit p ts m)) \<and>
    (int (length (in_window (window_us p) now ts)) = rlp_max_requests_per_window p \<longrightarrow>
       rlc_allowed (check_rate_limit p ts n))"
proof -
  let ?w = "window_us p" and ?k = "rlp_max_requests_per_window p"
  let ?r = "in_window ?w now ts" and ?o = "fold min (tl (in_window (window_us p) now ts)) (hd (in_window (window_us p) now ts))"
  have full: "int (length ?r) \<ge> ?k" and n: "n = ?o + ?w"
    using assms(1-3) by (auto simp: check_rate_limit_def Let_def split: if_splits)
  then have ne: "?r \<noteq> []" using assms(2) by auto
  note o = fold_min_list [OF ne]
  have now: "now < n" using o(1) n by (auto simp: in_window_def)
  have denied: "\<not> rlc_allowed (check_rate_limit p ts m)" if m: "now \<le> m" "m < n" for m
  proof -
    have "t > m - ?w" if "t \<in> set ?r" for t using o(2) [OF that] m n by simp
    then have "in_window ?w m ts = ?r"
      using m(1) assms(4) unfolding in_window_def by (intro filter_cong) auto
    then show ?thesis using full by (simp add: check_rate_limit_allowed)
  qed
  have "rlc_allowed (check_rate_limit p ts n)" if eq: "int (length ?r) = ?k"
  proof -
    have sub: "in_window ?w n ts = filter (\<lambda>t. t > ?o) ?r"
      using now n o(1) assms(4) unfolding in_window_def filter_filter by (intro filter_cong) auto
    have "length (filter (\<lambda>t. t > ?o) ?r) < length ?r"
      using o(1) by (intro length_filter_less) auto
    then show ?thesis using eq assms(2,3) by (simp add: check_rate_limit_allowed sub)
  qed
  with now denied show ?thesis by blast
qed

lemma next_allowed_at_exact_witness:
  "rlc_allowed (check_rate_limit example_profile [4000000, 6000000] 14000000) \<and>
   \<not> rlc_allowed (check_rate_limit example_profile [4000000, 6000000] 13999999)"
  using next_allowed_at_exact [of example_profile "[4000000, 6000000]" 7000000 14000000]
  by (simp add: check_rate_limit_def in_window_def window_us_def example_profile_def)

end
