(* ===== verification/Research_Types.thy ===== *)
theory Research_Types
  imports Core_Types Py_Json
begin

text \<open>
  Research-layer input checks shared by the proposal modules: \<open>ResearchInputError\<close>, the stripping
  \<open>_require_text\<close> and \<open>_require_ids\<close>, the forbidden payload keys, the drafts of \<open>research/types.py\<close>;
  and the contract every persisted lifecycle of the program satisfies, as the locale \<open>lifecycle\<close>.
  Messages leave out interpolated values other than the field name.
\<close>

section \<open>Input checks\<close>

datatype research_error = ResearchInputError string | PyTypeError string

definition nonempty_message :: "string \<Rightarrow> string" where
  "nonempty_message f = f @ '' must be a non-empty string''"

text \<open>The variant that returns the text unchanged, and the one that strips it.\<close>

definition keep_text :: "string \<Rightarrow> string \<Rightarrow> research_error + string" where
  "keep_text v f = (if blank v then Inl (ResearchInputError (nonempty_message f)) else Inr v)"

definition strip_text :: "string \<Rightarrow> string \<Rightarrow> research_error + string" where
  "strip_text v f = (if blank v then Inl (ResearchInputError (nonempty_message f)) else Inr (py_strip v))"

definition strip_text_opt :: "string option \<Rightarrow> string \<Rightarrow> research_error + string option" where
  "strip_text_opt v f = (case v of None \<Rightarrow> Inr None | Some s \<Rightarrow> bindE (strip_text s f) (\<lambda>t. Inr (Some t)))"

definition keep_text_opt :: "string option \<Rightarrow> string \<Rightarrow> research_error + string option" where
  "keep_text_opt v f = (case v of None \<Rightarrow> Inr None | Some s \<Rightarrow> bindE (keep_text s f) (\<lambda>t. Inr (Some t)))"

fun strip_ids_from :: "nat \<Rightarrow> string list \<Rightarrow> string \<Rightarrow> research_error + string list" where
  "strip_ids_from i [] f = Inr []"
| "strip_ids_from i (x # xs) f =
     bindE (strip_text x (f @ ''['' @ show_nat i @ '']'')) (\<lambda>y.
     bindE (strip_ids_from (Suc i) xs f) (\<lambda>ys. Inr (y # ys)))"

definition strip_ids :: "string list \<Rightarrow> string \<Rightarrow> research_error + string list" where
  "strip_ids xs f = strip_ids_from 0 xs f"

type_synonym payload = "(string \<times> json) list"

definition reject_forbidden :: "string list \<Rightarrow> payload \<Rightarrow> string \<Rightarrow> research_error + payload" where
  "reject_forbidden forbidden p f =
     (if list_ex (\<lambda>k. k \<in> set forbidden) (map fst p)
      then Inl (ResearchInputError (f @ '' must not contain forbidden keys'')) else Inr p)"

lemma strip_text_Inr_iff [simp, result_simps]:
  "strip_text v f = Inr w \<longleftrightarrow> \<not> blank v \<and> w = py_strip v"
  by (auto simp: strip_text_def)

lemma keep_text_Inr_iff [simp, result_simps]:
  "keep_text v f = Inr w \<longleftrightarrow> \<not> blank v \<and> w = v"
  by (auto simp: keep_text_def)

lemma strip_text_opt_Inr_iff [simp, result_simps]:
  "strip_text_opt v f = Inr w \<longleftrightarrow> w = map_option py_strip v \<and> (\<forall>s. v = Some s \<longrightarrow> \<not> blank s)"
  by (cases v) (auto simp: strip_text_opt_def result_simps)

lemma keep_text_opt_Inr_iff [simp, result_simps]:
  "keep_text_opt v f = Inr w \<longleftrightarrow> w = v \<and> (\<forall>s. v = Some s \<longrightarrow> \<not> blank s)"
  by (cases v) (auto simp: keep_text_opt_def result_simps)

lemma strip_ids_Inr_iff [simp, result_simps]:
  "strip_ids xs f = Inr ys \<longleftrightarrow> (\<forall>x \<in> set xs. \<not> blank x) \<and> ys = map py_strip xs"
proof -
  have "strip_ids_from i xs f = Inr ys \<longleftrightarrow> (\<forall>x \<in> set xs. \<not> blank x) \<and> ys = map py_strip xs" for i
    by (induction xs arbitrary: i ys) (auto simp: result_simps)
  then show ?thesis by (simp add: strip_ids_def)
qed

lemma reject_forbidden_Inr_iff [simp, result_simps]:
  "reject_forbidden fs p f = Inr q \<longleftrightarrow> q = p \<and> set fs \<inter> fst ` set p = {}"
  by (auto simp: reject_forbidden_def list_ex_iff)

text \<open>A text that construction left normalised.\<close>

definition norm_text :: "string \<Rightarrow> bool" where
  "norm_text s \<longleftrightarrow> \<not> blank s \<and> py_strip s = s"

lemma norm_text_strip [simp]: "\<not> blank s \<Longrightarrow> norm_text (py_strip s)"
  by (simp add: norm_text_def)

section \<open>Drafts\<close>

record hypothesis_draft =
  hd_statement :: string
  hd_origin :: string

definition post_init_hypothesis_draft :: "hypothesis_draft \<Rightarrow> research_error + hypothesis_draft" where
  "post_init_hypothesis_draft d =
     bindE (keep_text (hd_statement d) ''statement'') (\<lambda>statement.
     bindE (keep_text (hd_origin d) ''origin'') (\<lambda>origin.
     Inr (d\<lparr>hd_statement := statement, hd_origin := origin\<rparr>)))"

definition require_side_effect_level :: "int \<Rightarrow> research_error + int" where
  "require_side_effect_level v =
     (if v \<in> {0, 1, 2, 3} then Inr v else Inl (ResearchInputError ''side_effect_level must be 0, 1, 2, or 3''))"

record experiment_plan =
  ep_hypothesis_id :: string
  ep_required_capability :: string
  ep_action :: string
  ep_target_reference :: string
  ep_side_effect_level :: int
  ep_arguments :: payload
  ep_requested_budget_id :: string
  ep_expected_observation :: string
  ep_disconfirming_observation :: string
  ep_evaluation_strategy :: string
  ep_capability_version :: "string option"
  ep_capability_definition_fingerprint :: "string option"

definition post_init_experiment_plan :: "experiment_plan \<Rightarrow> research_error + experiment_plan" where
  "post_init_experiment_plan p =
     bindE (keep_text (ep_hypothesis_id p) ''hypothesis_id'') (\<lambda>_.
     bindE (keep_text (ep_required_capability p) ''required_capability'') (\<lambda>_.
     bindE (keep_text (ep_action p) ''action'') (\<lambda>_.
     bindE (keep_text (ep_target_reference p) ''target_reference'') (\<lambda>_.
     bindE (keep_text (ep_requested_budget_id p) ''requested_budget_id'') (\<lambda>_.
     bindE (require_side_effect_level (ep_side_effect_level p)) (\<lambda>_.
     bindE (keep_text (ep_expected_observation p) ''expected_observation'') (\<lambda>_.
     bindE (keep_text (ep_disconfirming_observation p) ''disconfirming_observation'') (\<lambda>_.
     bindE (keep_text (ep_evaluation_strategy p) ''evaluation_strategy'') (\<lambda>_.
     bindE (keep_text_opt (ep_capability_version p) ''capability_version'') (\<lambda>_.
     bindE (keep_text_opt (ep_capability_definition_fingerprint p) ''capability_definition_fingerprint'') (\<lambda>_.
     Inr p)))))))))))"

section \<open>Lifecycles\<close>

text \<open>
  The contract of a persisted lifecycle: no transition leaves a terminal state, and every legal
  transition lowers a rank.
\<close>

fun legal_path :: "('s \<Rightarrow> 's \<Rightarrow> bool) \<Rightarrow> 's \<Rightarrow> 's list \<Rightarrow> bool" where
  "legal_path legal s [] = True"
| "legal_path legal s (t # ts) = (legal s t \<and> legal_path legal t ts)"

locale lifecycle =
  fixes legal :: "'s \<Rightarrow> 's \<Rightarrow> bool"
    and terminal :: "'s \<Rightarrow> bool"
    and rank :: "'s \<Rightarrow> nat"
  assumes terminal_final: "terminal s \<Longrightarrow> \<not> legal s t"
    and rank_decreases: "legal s t \<Longrightarrow> rank t < rank s"
begin

lemma path_length: "legal_path legal s ts \<Longrightarrow> length ts \<le> rank s"
proof (induction ts arbitrary: s)
  case (Cons t ts)
  then have "length ts \<le> rank t" "rank t < rank s" using rank_decreases by auto
  then show ?case by simp
qed simp

lemma terminal_path: "terminal s \<Longrightarrow> legal_path legal s ts \<longleftrightarrow> ts = []"
  using terminal_final by (cases ts) auto

lemma path_rank: "legal_path legal s ts \<Longrightarrow> t \<in> set ts \<Longrightarrow> rank t < rank s"
proof (induction ts arbitrary: s)
  case (Cons u us)
  then have "rank u < rank s" using rank_decreases by simp
  with Cons show ?case by (cases "t = u") (auto dest: less_trans)
qed simp

lemma no_return: "legal_path legal s ts \<Longrightarrow> s \<notin> set ts"
  using path_rank by blast

lemma path_distinct: "legal_path legal s ts \<Longrightarrow> distinct (s # ts)"
proof (induction ts arbitrary: s)
  case (Cons u us)
  then have "distinct (u # us)" "s \<notin> set (u # us)" using no_return [of s "u # us"] by auto
  then show ?case by simp
qed simp

end

end
