(* ===== verification/Safe_Data.thy ===== *)
theory Safe_Data
  imports Py_Json
begin

text \<open>
  Recursive secret protection of payloads (\<open>safe_data.py\<close>): detection, rejection and redaction of
  secret-bearing keys in JSON values, and the clean-up of exception messages.  The source also walks
  sets and opaque \<open>SecretReference\<close>/\<open>SessionReference\<close> handles; a JSON value has neither.
\<close>

section \<open>Keys\<close>

definition REDACTED :: string where
  "REDACTED = ''[REDACTED]''"

definition SENSITIVE_KEYS :: "string list" where
  "SENSITIVE_KEYS =
     [''authorization'', ''proxy_authorization'', ''api_key'', ''apikey'', ''access_token'', ''refresh_token'',
      ''token'', ''secret'', ''password'', ''cookie'', ''set_cookie'', ''session'', ''client_secret'',
      ''session_token'', ''raw_secret'', ''secret_value'', ''credential'', ''openai_api_key'', ''anthropic_api_key'']"

definition normalize_secret_key :: "string \<Rightarrow> string" where
  "normalize_secret_key key = map (\<lambda>c. if c = CHR ''-'' then CHR ''_'' else c) (py_lower (py_strip key))"

definition is_sensitive_key :: "string \<Rightarrow> bool" where
  "is_sensitive_key key =
     (let normalized = normalize_secret_key key in
      if normalized = [] then False else normalized \<in> set SENSITIVE_KEYS)"

section \<open>Walking a payload\<close>

text \<open>
  The paths of the sensitive keys and the value without them (or, when redacting, with their values
  replaced).  The two auxiliary functions are the loops over a list and over the items of a mapping.
\<close>

fun collect_sensitive :: "bool \<Rightarrow> json \<Rightarrow> string \<Rightarrow> string list \<times> json"
and collect_list :: "bool \<Rightarrow> nat \<Rightarrow> json list \<Rightarrow> string \<Rightarrow> string list \<times> json list"
and collect_items :: "bool \<Rightarrow> (string \<times> json) list \<Rightarrow> string \<Rightarrow> string list \<times> (string \<times> json) list" where
  "collect_sensitive redact (JObj kvs) path =
     (let r = collect_items redact kvs path in (fst r, JObj (snd r)))"
| "collect_sensitive redact (JArr xs) path =
     (let r = collect_list redact 0 xs path in (fst r, JArr (snd r)))"
| "collect_sensitive redact value path = ([], value)"
| "collect_list redact i [] path = ([], [])"
| "collect_list redact i (item # items) path =
     (let r = collect_sensitive redact item (path @ ''['' @ show_nat i @ '']'');
          rest = collect_list redact (Suc i) items path
      in (fst r @ fst rest, snd r # snd rest))"
| "collect_items redact [] path = ([], [])"
| "collect_items redact ((key, item) # items) path =
     (let child_path = (if path \<noteq> [] then path @ ''.'' @ key else key);
          rest = collect_items redact items path
      in if is_sensitive_key key
         then (child_path # fst rest, if redact then (key, JStr REDACTED) # snd rest else snd rest)
         else let r = collect_sensitive redact item child_path
              in (fst r @ fst rest, (key, snd r) # snd rest))"

definition walk_sensitive_keys :: "json \<Rightarrow> string \<Rightarrow> string list" where
  "walk_sensitive_keys value path = fst (collect_sensitive False value path)"

datatype secret_error = SecretMaterialError string

definition reject_secret_keys :: "json \<Rightarrow> string \<Rightarrow> secret_error + json" where
  "reject_secret_keys payload field_name =
     (let r = collect_sensitive False payload field_name in
      if fst r \<noteq> [] then Inl (SecretMaterialError (field_name @ '' must not contain secret keys''))
      else Inr (snd r))"

definition redact_secret_keys :: "json \<Rightarrow> string \<Rightarrow> json" where
  "redact_secret_keys payload field_name = snd (collect_sensitive True payload field_name)"

definition require_mapping_without_secrets :: "(string \<times> json) list \<Rightarrow> string \<Rightarrow> secret_error + json" where
  "require_mapping_without_secrets payload field_name = reject_secret_keys (JObj payload) field_name"

section \<open>Exception messages\<close>

text \<open>\<open>message.replace(secret, REDACTED)\<close>: leftmost occurrences first, without overlap.\<close>

function replace_all :: "string \<Rightarrow> string \<Rightarrow> string \<Rightarrow> string" where
  "replace_all s r m =
     (case m of [] \<Rightarrow> []
      | c # cs \<Rightarrow> if s \<noteq> [] \<and> py_startswith m s then r @ replace_all s r (drop (length s) m)
                 else c # replace_all s r cs)"
  by pat_completeness auto
termination by (relation "measure (\<lambda>(s, r, m). length m)") (auto simp: length_greater_0_conv)

declare replace_all.simps [simp del]

definition redact_secret :: "string \<Rightarrow> string option \<Rightarrow> string" where
  "redact_secret message secret =
     (case secret of None \<Rightarrow> message
      | Some s \<Rightarrow> if s = [] then message else replace_all s REDACTED message)"

text \<open>\<open>lowered.find(marker)\<close>, as an option.\<close>

fun find_from :: "nat \<Rightarrow> string \<Rightarrow> string \<Rightarrow> nat option" where
  "find_from i marker [] = (if marker = [] then Some i else None)"
| "find_from i marker (c # cs) =
     (if py_startswith (c # cs) marker then Some i else find_from (Suc i) marker cs)"

definition py_find :: "string \<Rightarrow> string \<Rightarrow> nat option" where
  "py_find s marker = find_from 0 marker s"

definition HEADER_MARKERS :: "string list" where
  "HEADER_MARKERS = [''authorization:'', ''api-key:'', ''api_key='', ''bearer '', ''cookie:'']"

fun strip_markers :: "string list \<Rightarrow> string \<Rightarrow> string" where
  "strip_markers [] message = message"
| "strip_markers (marker # markers) message =
     (case py_find (py_lower message) marker of
        Some index \<Rightarrow> take index message @ REDACTED
      | None \<Rightarrow> strip_markers markers message)"

definition strip_header_like_text :: "string \<Rightarrow> string" where
  "strip_header_like_text message = strip_markers HEADER_MARKERS message"

text \<open>The message field of \<open>sanitize_exception\<close>, with its default limit of 500 characters as argument.\<close>

definition sanitize_message :: "string \<Rightarrow> string option \<Rightarrow> nat \<Rightarrow> string" where
  "sanitize_message text secret max_message_chars =
     (let message = strip_header_like_text (redact_secret text secret) in
      if length message > max_message_chars then take max_message_chars message else message)"

section \<open>Facts\<close>

text \<open>Specification: a payload without sensitive keys, and one whose sensitive values are redacted.\<close>

fun secret_free :: "json \<Rightarrow> bool" where
  "secret_free (JObj kvs) = (\<forall>kv \<in> set kvs. \<not> is_sensitive_key (fst kv) \<and> secret_free (snd kv))"
| "secret_free (JArr xs) = (\<forall>x \<in> set xs. secret_free x)"
| "secret_free _ = True"

fun secrets_redacted :: "json \<Rightarrow> bool" where
  "secrets_redacted (JObj kvs) = (\<forall>kv \<in> set kvs.
     if is_sensitive_key (fst kv) then snd kv = JStr REDACTED else secrets_redacted (snd kv))"
| "secrets_redacted (JArr xs) = (\<forall>x \<in> set xs. secrets_redacted x)"
| "secrets_redacted _ = True"

text \<open>Two payloads that differ at most in the values under sensitive keys.\<close>

fun same_public :: "json \<Rightarrow> json \<Rightarrow> bool"
and same_public_list :: "json list \<Rightarrow> json list \<Rightarrow> bool"
and same_public_items :: "(string \<times> json) list \<Rightarrow> (string \<times> json) list \<Rightarrow> bool" where
  "same_public (JObj kvs) (JObj kvs') = same_public_items kvs kvs'"
| "same_public (JArr xs) (JArr ys) = same_public_list xs ys"
| "same_public u v = (u = v)"
| "same_public_list [] [] = True"
| "same_public_list (x # xs) (y # ys) = (same_public x y \<and> same_public_list xs ys)"
| "same_public_list _ _ = False"
| "same_public_items [] [] = True"
| "same_public_items ((k, x) # kvs) ((l, y) # kvs') =
     (k = l \<and> (is_sensitive_key k \<or> same_public x y) \<and> same_public_items kvs kvs')"
| "same_public_items _ _ = False"

lemma collect_found_iff:
  "fst (collect_sensitive b v p) = [] \<longleftrightarrow> secret_free v"
  "fst (collect_list b i xs p) = [] \<longleftrightarrow> (\<forall>x \<in> set xs. secret_free x)"
  "fst (collect_items b kvs p) = [] \<longleftrightarrow> (\<forall>kv \<in> set kvs. \<not> is_sensitive_key (fst kv) \<and> secret_free (snd kv))"
  by (induction b v p and b i xs p and b kvs p rule: collect_sensitive_collect_list_collect_items.induct)
     (simp_all add: Let_def)

lemma collect_clean:
  "secret_free v \<Longrightarrow> snd (collect_sensitive b v p) = v"
  "(\<forall>x \<in> set xs. secret_free x) \<Longrightarrow> snd (collect_list b i xs p) = xs"
  "(\<forall>kv \<in> set kvs. \<not> is_sensitive_key (fst kv) \<and> secret_free (snd kv)) \<Longrightarrow> snd (collect_items b kvs p) = kvs"
  by (induction b v p and b i xs p and b kvs p rule: collect_sensitive_collect_list_collect_items.induct)
     (simp_all add: Let_def)

lemma reject_secret_keys_Inr_iff:
  "reject_secret_keys v f = Inr w \<longleftrightarrow> secret_free v \<and> w = v"
  using collect_found_iff(1) [of False v f] collect_clean(1) [of v False f]
  by (auto simp: reject_secret_keys_def Let_def)

lemma redact_redacted:
  "secrets_redacted (snd (collect_sensitive True v p))"
  "\<forall>x \<in> set (snd (collect_list True i xs p)). secrets_redacted x"
  "\<forall>kv \<in> set (snd (collect_items True kvs p)).
     if is_sensitive_key (fst kv) then snd kv = JStr REDACTED else secrets_redacted (snd kv)"
  by (induction True v p and True i xs p and True kvs p rule: collect_sensitive_collect_list_collect_items.induct)
     (simp_all add: Let_def)

lemma redacted_fixed:
  "secrets_redacted v \<Longrightarrow> snd (collect_sensitive True v p) = v"
  "(\<forall>x \<in> set xs. secrets_redacted x) \<Longrightarrow> snd (collect_list True i xs p) = xs"
  "(\<forall>kv \<in> set kvs. if is_sensitive_key (fst kv) then snd kv = JStr REDACTED else secrets_redacted (snd kv)) \<Longrightarrow>
     snd (collect_items True kvs p) = kvs"
  by (induction True v p and True i xs p and True kvs p rule: collect_sensitive_collect_list_collect_items.induct)
     (simp_all add: Let_def split: if_split_asm, case_tac "path = []", simp_all)

text \<open>A value of one kind is redacted to a value of that kind.\<close>

lemma collect_shape [simp]:
  "snd (collect_sensitive b v p) = JNull \<longleftrightarrow> v = JNull" "JNull = snd (collect_sensitive b v p) \<longleftrightarrow> JNull = v"
  "snd (collect_sensitive b v p) = JBool t \<longleftrightarrow> v = JBool t" "JBool t = snd (collect_sensitive b v p) \<longleftrightarrow> JBool t = v"
  "snd (collect_sensitive b v p) = JInt n \<longleftrightarrow> v = JInt n" "JInt n = snd (collect_sensitive b v p) \<longleftrightarrow> JInt n = v"
  "snd (collect_sensitive b v p) = JStr s \<longleftrightarrow> v = JStr s" "JStr s = snd (collect_sensitive b v p) \<longleftrightarrow> JStr s = v"
  by (cases v; auto simp: Let_def)+

lemma redact_same_public:
  "same_public v w \<longleftrightarrow> snd (collect_sensitive True v p) = snd (collect_sensitive True w q)"
  "same_public_list xs ys \<longleftrightarrow> snd (collect_list True i xs p) = snd (collect_list True j ys q)"
  "same_public_items kvs kvs' \<longleftrightarrow> snd (collect_items True kvs p) = snd (collect_items True kvs' q)"
proof (induction v w and xs ys and kvs kvs' arbitrary: p q and i j p q and p q rule: same_public_same_public_list_same_public_items.induct)
qed (auto simp: Let_def split: if_splits)

section \<open>Properties\<close>

text \<open>
  C21. Redaction is exact and does not leak: no sensitive key of the result has a value other than the
  marker, redacting again changes nothing, a payload without sensitive keys is returned as it is, and
  two payloads have the same redaction exactly when they differ at most in the values stored under
  sensitive keys, whatever those values are.
\<close>

theorem redaction_noninterference:
  "secrets_redacted (redact_secret_keys v f) \<and>
   redact_secret_keys (redact_secret_keys v f) g = redact_secret_keys v f \<and>
   (secret_free v \<longrightarrow> redact_secret_keys v f = v) \<and>
   (redact_secret_keys v f = redact_secret_keys w g \<longleftrightarrow> same_public v w)"
  unfolding redact_secret_keys_def
  using redact_redacted(1) redacted_fixed(1) collect_clean(1) redact_same_public(1) by blast

definition login_payload :: "string \<Rightarrow> json" where
  "login_payload pw = JObj [(''user'', JStr ''a''), (''Password '', JStr pw), (''items'', JArr [JObj [(''api-key'', JInt 7)]])]"

theorem redaction_noninterference_witness:
  "redact_secret_keys (login_payload ''x'') ''p'' = redact_secret_keys (login_payload ''hunter2'') ''p'' \<and>
   redact_secret_keys (JObj [(''user'', JStr ''a'')]) ''p'' = JObj [(''user'', JStr ''a'')]"
proof -
  have "same_public (login_payload ''x'') (login_payload ''hunter2'')" "secret_free (JObj [(''user'', JStr ''a'')])"
    by code_simp+
  then show ?thesis
    using redaction_noninterference [of "login_payload ''x''" "''p''" "''p''" "login_payload ''hunter2''"]
      redaction_noninterference [of "JObj [(''user'', JStr ''a'')]" "''p''" "''p''" JNull] by blast
qed

text \<open>
  C31. Rejection of secret material: a payload is accepted exactly when no object at any depth has a
  sensitive key, it is then returned unchanged, and otherwise the only error is the secret material error.
\<close>

theorem reject_secret_keys_exact:
  "reject_secret_keys v f = (if secret_free v then Inr v
     else Inl (SecretMaterialError (f @ '' must not contain secret keys'')))"
  using collect_found_iff(1) [of False v f] collect_clean(1) [of v False f]
  by (simp add: reject_secret_keys_def Let_def)

end
