(* ===== verification/Records.thy ===== *)
theory Records
  imports Core_Types Research_Types Safe_Data
begin

text \<open>
  The persistence records of the discovery spine (\<open>data/records.py\<close>) with the checks of their
  constructors.  Records keep their fields unchanged; instants carry a time zone by type; the index
  of a list element is left out of error messages.
\<close>

section \<open>Errors and checks\<close>

text \<open>The exception classes of \<open>data/errors.py\<close>.\<close>

datatype persistence_error =
    PersistenceError string
  | PersistenceConflictError string
  | PersistenceInputError string
  | BudgetOverspendError string

text \<open>One check each of a constructor: whether it is violated, and the error raised then.\<close>

definition bad_id :: "string \<Rightarrow> string \<Rightarrow> bool \<times> persistence_error" where
  "bad_id v f = (blank v, PersistenceInputError (f @ '' must be a non-empty opaque id''))"

definition bad_opt_id :: "string option \<Rightarrow> string \<Rightarrow> bool \<times> persistence_error" where
  "bad_opt_id v f = (case v of None \<Rightarrow> False | Some s \<Rightarrow> blank s, PersistenceInputError (f @ '' must be a non-empty opaque id''))"

definition bad_ids :: "string list \<Rightarrow> string \<Rightarrow> bool \<times> persistence_error" where
  "bad_ids xs f = (list_ex blank xs, PersistenceInputError (f @ ''[] must be a non-empty opaque id''))"

definition bad_text :: "string \<Rightarrow> string \<Rightarrow> bool \<times> persistence_error" where
  "bad_text v f = (blank v, PersistenceInputError (f @ '' must be a non-empty string''))"

definition bad_opt_text :: "string option \<Rightarrow> string \<Rightarrow> bool \<times> persistence_error" where
  "bad_opt_text v f =
     (case v of None \<Rightarrow> False | Some s \<Rightarrow> blank s, PersistenceInputError (f @ '' must be a non-empty string when set''))"

definition bad_member :: "string \<Rightarrow> string list \<Rightarrow> string \<Rightarrow> bool \<times> persistence_error" where
  "bad_member v allowed message = (v \<notin> set allowed, PersistenceInputError message)"

definition bad_empty :: "'a list \<Rightarrow> string \<Rightarrow> bool \<times> persistence_error" where
  "bad_empty xs f = (xs = [], PersistenceInputError (f @ '' must be a non-empty tuple''))"

definition bad_secrets :: "payload \<Rightarrow> string \<Rightarrow> bool \<times> persistence_error" where
  "bad_secrets p f = (case reject_secret_keys (JObj p) f of
     Inl (SecretMaterialError m) \<Rightarrow> (True, PersistenceInputError m) | Inr _ \<Rightarrow> (False, PersistenceInputError []))"

definition bad_keys :: "payload \<Rightarrow> string list \<Rightarrow> string \<Rightarrow> bool \<times> persistence_error" where
  "bad_keys p forbidden message = (list_ex (\<lambda>k. k \<in> set forbidden) (map fst p), PersistenceInputError message)"

definition bad_int :: "int \<Rightarrow> string \<Rightarrow> bool \<times> persistence_error" where
  "bad_int n f = (n < 0, PersistenceInputError (f @ '' must be a non-negative int; 0 is not unlimited''))"

named_theorems record_checks \<open>the checks of record constructors, as predicates\<close>

lemma fst_bad [simp, record_checks]:
  "fst (bad_id v f) = blank v"
  "fst (bad_ids xs f) = list_ex blank xs"
  "fst (bad_text v f) = blank v"
  "fst (bad_member v vs m) = (v \<notin> set vs)"
  "fst (bad_empty ys f) = (ys = [])"
  "fst (bad_int n f) = (n < 0)"
  by (simp_all add: bad_id_def bad_ids_def bad_text_def bad_member_def bad_empty_def bad_int_def)

lemma fst_bad_opt [simp, record_checks]:
  "fst (bad_opt_id w f) = (\<exists>s. w = Some s \<and> blank s)"
  "fst (bad_opt_text w f) = (\<exists>s. w = Some s \<and> blank s)"
  by (auto simp: bad_opt_id_def bad_opt_text_def split: option.splits)

lemma fst_bad_payload [simp, record_checks]:
  "fst (bad_secrets p f) = (\<not> secret_free (JObj p))"
  "fst (bad_keys p ks m) = list_ex (\<lambda>k. k \<in> set ks) (map fst p)"
  by (auto simp: bad_secrets_def bad_keys_def reject_secret_keys_exact split: sum.splits secret_error.splits)

section \<open>Allowed values\<close>

definition ALLOWED_ACTOR_TYPES :: "string list" where
  "ALLOWED_ACTOR_TYPES = map actor_type_value [HUMAN_OPERATOR, CONTROL_PLANE, WORKER, INTEGRATION]"

definition ALLOWED_EXPERIMENT_STATES :: "string list" where
  "ALLOWED_EXPERIMENT_STATES =
     [''PLANNED'', ''AUTHORIZATION_CHECK'', ''READY'', ''RUNNING'', ''EXECUTION_SUCCEEDED'', ''EXECUTION_FAILED'',
      ''BLOCKED'', ''CANCELLED'', ''BUDGET_EXHAUSTED'']"

definition ALLOWED_WORKER_RESULT_STATUSES :: "string list" where
  "ALLOWED_WORKER_RESULT_STATUSES =
     [''SUCCEEDED'', ''EXECUTION_FAILED'', ''BLOCKED'', ''CANCELLED'', ''TIMED_OUT'', ''BUDGET_EXHAUSTED'',
      ''REAUTHORIZATION_REQUIRED'']"

definition ALLOWED_EXECUTION_ATTEMPT_STATES :: "string list" where
  "ALLOWED_EXECUTION_ATTEMPT_STATES =
     [''AUTHORIZED'', ''DISPATCHING'', ''COMPLETED'', ''FAILED'', ''TIMED_OUT'', ''CANCELLED'', ''UNKNOWN_OUTCOME'']"

definition ALLOWED_ASSESSMENT_OUTCOMES :: "string list" where
  "ALLOWED_ASSESSMENT_OUTCOMES =
     [''CONSISTENT_WITH_PREDICTION'', ''CONTRADICTS_PREDICTION'', ''INCONCLUSIVE'', ''EXECUTION_UNUSABLE'',
      ''NEEDS_MORE_CONTEXT'']"

definition ALLOWED_EVALUATOR_KINDS :: "string list" where
  "ALLOWED_EVALUATOR_KINDS = [''DETERMINISTIC'']"

definition ASSESSMENT_RATIONALE_FORBIDDEN_KEYS :: "string list" where
  "ASSESSMENT_RATIONALE_FORBIDDEN_KEYS = [''severity'', ''evidence'', ''finding'', ''confidence'', ''candidate'']"

definition ALLOWED_EVIDENCE_POLARITIES :: "string list" where
  "ALLOWED_EVIDENCE_POLARITIES = [''SUPPORTING'', ''CONTRADICTING'', ''NEUTRAL'']"

definition ALLOWED_EVIDENCE_ADMISSION_OUTCOMES :: "string list" where
  "ALLOWED_EVIDENCE_ADMISSION_OUTCOMES =
     [''ADMITTED'', ''REJECTED_INSUFFICIENT_SUPPORT'', ''REJECTED_BROKEN_PROVENANCE'',
      ''REJECTED_EXECUTION_UNUSABLE'', ''REJECTED_POLICY_CONFLICT'', ''NEEDS_VERIFICATION'']"

definition ALLOWED_CANDIDATE_STATES :: "string list" where
  "ALLOWED_CANDIDATE_STATES =
     [''OPEN'', ''VERIFYING'', ''VALIDATED'', ''REJECTED'', ''INCONCLUSIVE'', ''DUPLICATE'', ''OUT_OF_SCOPE'']"

definition ALLOWED_RECORD_CLASSIFICATIONS :: "string list" where
  "ALLOWED_RECORD_CLASSIFICATIONS =
     [''DIAGNOSTIC_PLUMBING'', ''HTTP_AUTHORIZATION_DIFFERENTIAL'', ''HTTP_STATE_TRANSITION_AUTHORIZATION'']"

definition ALLOWED_CANDIDATE_ADMISSION_OUTCOMES :: "string list" where
  "ALLOWED_CANDIDATE_ADMISSION_OUTCOMES =
     [''ADMITTED'', ''REJECTED_INSUFFICIENT_SUPPORT'', ''REJECTED_BROKEN_PROVENANCE'',
      ''REJECTED_CLAIM_EXCEEDS_EVIDENCE'', ''REJECTED_NOT_TESTABLE'', ''REJECTED_POLICY_CONFLICT'']"

definition ALLOWED_VERIFICATION_OUTCOMES :: "string list" where
  "ALLOWED_VERIFICATION_OUTCOMES = [''VALIDATED'', ''REJECTED'', ''INCONCLUSIVE'', ''DUPLICATE'', ''OUT_OF_SCOPE'']"

definition ALLOWED_VERIFIER_KINDS :: "string list" where
  "ALLOWED_VERIFIER_KINDS = [''DETERMINISTIC'']"

definition ALLOWED_FINDING_PROPOSAL_STATES :: "string list" where
  "ALLOWED_FINDING_PROPOSAL_STATES = [''PROPOSED'', ''HUMAN_REVIEW'', ''APPROVED'', ''REJECTED'']"

definition ALLOWED_HUMAN_REVIEW_DECISIONS :: "string list" where
  "ALLOWED_HUMAN_REVIEW_DECISIONS = [''APPROVE'', ''REJECT'']"

definition ALLOWED_RECORDED_APPROVAL_DECISIONS :: "string list" where
  "ALLOWED_RECORDED_APPROVAL_DECISIONS = [''APPROVE'', ''REJECT'']"

definition CANDIDATE_FORBIDDEN_KEYS :: "string list" where
  "CANDIDATE_FORBIDDEN_KEYS =
     [''severity'', ''cvss'', ''finding'', ''finding_proposal'', ''exploitability'', ''authorization'', ''confidence'']"

section \<open>Runs, hypotheses and executions\<close>

record research_run_record =
  rr_research_run_id :: string
  rr_program_id :: string
  rr_authorization_source_id :: string
  rr_initiated_by_actor_id :: string
  rr_initiated_by_actor_type :: string
  rr_started_at :: int

definition post_init_research_run_record :: "research_run_record \<Rightarrow> persistence_error + research_run_record" where
  "post_init_research_run_record r = raise_first
     [bad_id (rr_research_run_id r) ''research_run_id'', bad_id (rr_program_id r) ''program_id'',
      bad_id (rr_authorization_source_id r) ''authorization_source_id'',
      bad_id (rr_initiated_by_actor_id r) ''initiated_by_actor_id'',
      bad_member (rr_initiated_by_actor_type r) ALLOWED_ACTOR_TYPES
        ''initiated_by_actor_type must be a locked identity class; MODEL is not an actor''] r"

record hypothesis_record =
  hyr_hypothesis_id :: string
  hyr_research_run_id :: string
  hyr_claim :: string
  hyr_created_at :: int
  hyr_origin_reference :: "string option"
  hyr_identity_id :: "string option"

definition post_init_hypothesis_record :: "hypothesis_record \<Rightarrow> persistence_error + hypothesis_record" where
  "post_init_hypothesis_record r = raise_first
     [bad_id (hyr_hypothesis_id r) ''hypothesis_id'', bad_id (hyr_research_run_id r) ''research_run_id'',
      bad_text (hyr_claim r) ''claim'', bad_opt_id (hyr_origin_reference r) ''origin_reference'',
      bad_opt_id (hyr_identity_id r) ''identity_id''] r"

record experiment_record =
  xr_experiment_id :: string
  xr_research_run_id :: string
  xr_hypothesis_id :: string
  xr_budget_id :: string
  xr_execution_state :: string
  xr_created_at :: int

definition post_init_experiment_record :: "experiment_record \<Rightarrow> persistence_error + experiment_record" where
  "post_init_experiment_record r = raise_first
     [bad_id (xr_experiment_id r) ''experiment_id'', bad_id (xr_research_run_id r) ''research_run_id'',
      bad_id (xr_hypothesis_id r) ''hypothesis_id'', bad_id (xr_budget_id r) ''budget_id'',
      bad_member (xr_execution_state r) ALLOWED_EXPERIMENT_STATES ''execution_state is not a domain execution state''] r"

record execution_attempt_record =
  ear_attempt_id :: string
  ear_request_id :: string
  ear_experiment_id :: string
  ear_research_run_id :: string
  ear_correlation_id :: string
  ear_worker_capability :: string
  ear_action :: string
  ear_target_reference :: string
  ear_budget_id :: string
  ear_side_effect_level :: int
  ear_authorization_decision_reference :: string
  ear_state :: string
  ear_created_at :: int
  ear_authorized_at :: "int option"
  ear_dispatch_started_at :: "int option"
  ear_completed_at :: "int option"

definition post_init_execution_attempt_record ::
    "execution_attempt_record \<Rightarrow> persistence_error + execution_attempt_record" where
  "post_init_execution_attempt_record r = raise_first
     [bad_id (ear_attempt_id r) ''attempt_id'', bad_id (ear_request_id r) ''request_id'',
      bad_id (ear_experiment_id r) ''experiment_id'', bad_id (ear_research_run_id r) ''research_run_id'',
      bad_id (ear_correlation_id r) ''correlation_id'', bad_id (ear_worker_capability r) ''worker_capability'',
      bad_id (ear_action r) ''action'', bad_id (ear_target_reference r) ''target_reference'',
      bad_id (ear_budget_id r) ''budget_id'',
      bad_id (ear_authorization_decision_reference r) ''authorization_decision_reference'',
      (ear_side_effect_level r \<notin> {0, 1, 2, 3}, PersistenceInputError ''side_effect_level must be 0, 1, 2, or 3''),
      bad_member (ear_state r) ALLOWED_EXECUTION_ATTEMPT_STATES ''state is not an ExecutionAttempt state''] r"

record worker_result_record =
  wr_worker_result_id :: string
  wr_experiment_id :: string
  wr_research_run_id :: string
  wr_request_id :: string
  wr_correlation_id :: string
  wr_worker_capability :: string
  wr_action :: string
  wr_authorization_decision_reference :: string
  wr_budget_id :: string
  wr_side_effect_level :: int
  wr_contract_version :: string
  wr_worker_id :: string
  wr_status :: string
  wr_received_at :: int
  wr_started_at :: "int option"
  wr_completed_at :: "int option"
  wr_parent_request_id :: "string option"
  wr_raw_result :: "payload option"
  wr_raw_artifact_descriptors :: "payload list option"
  wr_diagnostics :: "payload option"
  wr_control_signal :: "payload option"

definition bad_opt_secrets :: "payload option \<Rightarrow> string \<Rightarrow> bool \<times> persistence_error" where
  "bad_opt_secrets p f = (case p of None \<Rightarrow> (False, PersistenceInputError []) | Some q \<Rightarrow> bad_secrets q f)"

definition post_init_worker_result_record :: "worker_result_record \<Rightarrow> persistence_error + worker_result_record" where
  "post_init_worker_result_record r = raise_first
     ([bad_id (wr_worker_result_id r) ''worker_result_id'', bad_id (wr_experiment_id r) ''experiment_id'',
      bad_id (wr_research_run_id r) ''research_run_id'', bad_id (wr_request_id r) ''request_id'',
      bad_id (wr_correlation_id r) ''correlation_id'', bad_id (wr_worker_capability r) ''worker_capability'',
      bad_id (wr_action r) ''action'',
      bad_id (wr_authorization_decision_reference r) ''authorization_decision_reference'',
      bad_id (wr_budget_id r) ''budget_id'', bad_id (wr_worker_id r) ''worker_id'',
      bad_text (wr_contract_version r) ''contract_version'',
      bad_member (wr_status r) ALLOWED_WORKER_RESULT_STATUSES ''status is not a WorkerResult execution status'',
      (wr_side_effect_level r \<notin> {0, 1, 2, 3}, PersistenceInputError ''side_effect_level must be 0, 1, 2, or 3''),
      bad_opt_id (wr_parent_request_id r) ''parent_request_id'',
      bad_opt_secrets (wr_raw_result r) ''raw_result'', bad_opt_secrets (wr_diagnostics r) ''diagnostics'',
      bad_opt_secrets (wr_control_signal r) ''control_signal''] @
      (case wr_raw_artifact_descriptors r of None \<Rightarrow> []
       | Some ds \<Rightarrow> map (\<lambda>d. bad_secrets d ''raw_artifact_descriptors[]'') ds)) r"

record observation_record =
  or_observation_id :: string
  or_worker_result_id :: string
  or_observation_kind :: string
  or_payload :: payload
  or_normalization_version :: string
  or_observed_at :: int
  or_created_at :: int

definition post_init_observation_record :: "observation_record \<Rightarrow> persistence_error + observation_record" where
  "post_init_observation_record r = raise_first
     [bad_id (or_observation_id r) ''observation_id'', bad_id (or_worker_result_id r) ''worker_result_id'',
      bad_text (or_observation_kind r) ''observation_kind'',
      bad_text (or_normalization_version r) ''normalization_version'', bad_secrets (or_payload r) ''payload''] r"

record hypothesis_assessment_record =
  har_assessment_id :: string
  har_hypothesis_id :: string
  har_experiment_id :: string
  har_research_run_id :: string
  har_assessment_outcome :: string
  har_observation_ids :: "string list"
  har_evaluator_kind :: string
  har_evaluator_version :: string
  har_rationale :: payload
  har_evaluation_strategy :: string
  har_created_at :: int

definition post_init_hypothesis_assessment_record ::
    "hypothesis_assessment_record \<Rightarrow> persistence_error + hypothesis_assessment_record" where
  "post_init_hypothesis_assessment_record r = raise_first
     [bad_id (har_assessment_id r) ''assessment_id'', bad_id (har_hypothesis_id r) ''hypothesis_id'',
      bad_id (har_experiment_id r) ''experiment_id'', bad_id (har_research_run_id r) ''research_run_id'',
      bad_member (har_assessment_outcome r) ALLOWED_ASSESSMENT_OUTCOMES
        ''assessment_outcome is not a HypothesisAssessment outcome'',
      bad_member (har_evaluator_kind r) ALLOWED_EVALUATOR_KINDS ''evaluator_kind is not a supported evaluator kind'',
      bad_text (har_evaluator_version r) ''evaluator_version'',
      bad_text (har_evaluation_strategy r) ''evaluation_strategy'',
      bad_ids (har_observation_ids r) ''observation_ids'',
      bad_keys (har_rationale r) ASSESSMENT_RATIONALE_FORBIDDEN_KEYS ''assessment rationale must not contain forbidden keys'',
      bad_secrets (har_rationale r) ''rationale''] r"

section \<open>Evidence, candidates and verifications\<close>

record evidence_record =
  er_evidence_id :: string
  er_research_run_id :: string
  er_hypothesis_id :: string
  er_experiment_id :: string
  er_admission_record_id :: string
  er_polarity :: string
  er_claim_scope :: string
  er_observation_ids :: "string list"
  er_assessment_ids :: "string list"
  er_created_at :: int

definition post_init_evidence_record :: "evidence_record \<Rightarrow> persistence_error + evidence_record" where
  "post_init_evidence_record r = raise_first
     [bad_id (er_evidence_id r) ''evidence_id'', bad_id (er_research_run_id r) ''research_run_id'',
      bad_id (er_hypothesis_id r) ''hypothesis_id'', bad_id (er_experiment_id r) ''experiment_id'',
      bad_id (er_admission_record_id r) ''admission_record_id'',
      bad_member (er_polarity r) ALLOWED_EVIDENCE_POLARITIES ''polarity is not an Evidence polarity'',
      bad_text (er_claim_scope r) ''claim_scope'', bad_empty (er_observation_ids r) ''observation_ids'',
      bad_ids (er_observation_ids r) ''observation_ids'', bad_empty (er_assessment_ids r) ''assessment_ids'',
      bad_ids (er_assessment_ids r) ''assessment_ids''] r"

record evidence_admission_record =
  evar_admission_record_id :: string
  evar_proposal_id :: string
  evar_research_run_id :: string
  evar_outcome :: string
  evar_reason_codes :: "string list"
  evar_observation_ids :: "string list"
  evar_assessment_ids :: "string list"
  evar_admission_policy_version :: string
  evar_evaluator_version :: string
  evar_created_at :: int
  evar_admitted_evidence_id :: "string option"
  evar_claim_scope :: "string option"
  evar_polarity :: "string option"

text \<open>The id of an admitted row: required when the outcome is ADMITTED, forbidden otherwise.\<close>

definition bad_admitted_id :: "string \<Rightarrow> string option \<Rightarrow> string \<Rightarrow> string \<Rightarrow> bool \<times> persistence_error" where
  "bad_admitted_id outcome v f message =
     (if outcome = ''ADMITTED''
      then (case v of None \<Rightarrow> True | Some s \<Rightarrow> blank s, PersistenceInputError (f @ '' must be a non-empty opaque id''))
      else (v \<noteq> None, PersistenceInputError message))"

definition post_init_evidence_admission_record ::
    "evidence_admission_record \<Rightarrow> persistence_error + evidence_admission_record" where
  "post_init_evidence_admission_record r = raise_first
     [bad_id (evar_admission_record_id r) ''admission_record_id'', bad_id (evar_proposal_id r) ''proposal_id'',
      bad_id (evar_research_run_id r) ''research_run_id'',
      bad_member (evar_outcome r) ALLOWED_EVIDENCE_ADMISSION_OUTCOMES ''outcome is not an Evidence admission outcome'',
      bad_empty (evar_reason_codes r) ''reason_codes'',
      bad_text (evar_admission_policy_version r) ''admission_policy_version'',
      bad_text (evar_evaluator_version r) ''evaluator_version'',
      bad_admitted_id (evar_outcome r) (evar_admitted_evidence_id r) ''admitted_evidence_id''
        ''admitted_evidence_id must be null when Evidence is not admitted'',
      (case evar_polarity r of None \<Rightarrow> False | Some p \<Rightarrow> p \<notin> set ALLOWED_EVIDENCE_POLARITIES,
         PersistenceInputError ''polarity is not an Evidence polarity''),
      bad_opt_text (evar_claim_scope r) ''claim_scope''] r"

record candidate_record =
  cr_candidate_id :: string
  cr_research_run_id :: string
  cr_hypothesis_id :: string
  cr_claim :: string
  cr_classification :: string
  cr_state :: string
  cr_evidence_ids :: "string list"
  cr_created_at :: int
  cr_admission_record_id :: string

definition post_init_candidate_record :: "candidate_record \<Rightarrow> persistence_error + candidate_record" where
  "post_init_candidate_record r = raise_first
     [bad_id (cr_candidate_id r) ''candidate_id'', bad_id (cr_research_run_id r) ''research_run_id'',
      bad_id (cr_hypothesis_id r) ''hypothesis_id'', bad_id (cr_admission_record_id r) ''admission_record_id'',
      bad_text (cr_claim r) ''claim'',
      bad_member (cr_classification r) ALLOWED_RECORD_CLASSIFICATIONS ''classification is not an allowed Candidate class'',
      bad_member (cr_state r) ALLOWED_CANDIDATE_STATES ''state is not a Candidate lifecycle state'',
      bad_empty (cr_evidence_ids r) ''evidence_ids'', bad_ids (cr_evidence_ids r) ''evidence_ids''] r"

record candidate_admission_record =
  car_admission_record_id :: string
  car_proposal_id :: string
  car_research_run_id :: string
  car_outcome :: string
  car_reason_codes :: "string list"
  car_evidence_ids :: "string list"
  car_admission_policy_version :: string
  car_created_at :: int
  car_admitted_candidate_id :: "string option"
  car_claim :: "string option"
  car_classification :: "string option"

definition post_init_candidate_admission_record ::
    "candidate_admission_record \<Rightarrow> persistence_error + candidate_admission_record" where
  "post_init_candidate_admission_record r = raise_first
     [bad_id (car_admission_record_id r) ''admission_record_id'', bad_id (car_proposal_id r) ''proposal_id'',
      bad_id (car_research_run_id r) ''research_run_id'',
      bad_member (car_outcome r) ALLOWED_CANDIDATE_ADMISSION_OUTCOMES ''outcome is not a Candidate admission outcome'',
      bad_empty (car_reason_codes r) ''reason_codes'', bad_ids (car_evidence_ids r) ''evidence_ids'',
      bad_text (car_admission_policy_version r) ''admission_policy_version'',
      bad_admitted_id (car_outcome r) (car_admitted_candidate_id r) ''admitted_candidate_id''
        ''admitted_candidate_id must be null when Candidate is not admitted'',
      (case car_classification r of None \<Rightarrow> False | Some k \<Rightarrow> k \<notin> set ALLOWED_RECORD_CLASSIFICATIONS,
         PersistenceInputError ''classification is not an allowed Candidate class''),
      bad_opt_text (car_claim r) ''claim''] r"

record verification_record =
  vrec_verification_id :: string
  vrec_candidate_id :: string
  vrec_research_run_id :: string
  vrec_strategy :: string
  vrec_outcome :: string
  vrec_proposed_candidate_state :: string
  vrec_original_evidence_ids :: "string list"
  vrec_reproduction_evidence_ids :: "string list"
  vrec_negative_control_evidence_ids :: "string list"
  vrec_alternative_explanation_checks :: payload
  vrec_verifier_kind :: string
  vrec_verifier_identity :: string
  vrec_created_at :: int

definition post_init_verification_record :: "verification_record \<Rightarrow> persistence_error + verification_record" where
  "post_init_verification_record r = raise_first
     [bad_id (vrec_verification_id r) ''verification_id'', bad_id (vrec_candidate_id r) ''candidate_id'',
      bad_id (vrec_research_run_id r) ''research_run_id'', bad_text (vrec_strategy r) ''strategy'',
      bad_member (vrec_outcome r) ALLOWED_VERIFICATION_OUTCOMES ''outcome is not a Verification outcome'',
      bad_member (vrec_proposed_candidate_state r) ALLOWED_CANDIDATE_STATES
        ''proposed_candidate_state is not a Candidate state'',
      (vrec_proposed_candidate_state r \<noteq> vrec_outcome r,
         PersistenceInputError ''proposed_candidate_state must match outcome''),
      bad_member (vrec_verifier_kind r) ALLOWED_VERIFIER_KINDS ''verifier_kind is not an allowed verifier kind'',
      bad_text (vrec_verifier_identity r) ''verifier_identity'',
      bad_empty (vrec_original_evidence_ids r) ''original_evidence_ids'',
      bad_ids (vrec_original_evidence_ids r) ''original_evidence_ids'',
      bad_ids (vrec_reproduction_evidence_ids r) ''reproduction_evidence_ids'',
      bad_ids (vrec_negative_control_evidence_ids r) ''negative_control_evidence_ids'',
      bad_keys (vrec_alternative_explanation_checks r) CANDIDATE_FORBIDDEN_KEYS
        ''alternative_explanation_checks must not contain forbidden keys'',
      bad_secrets (vrec_alternative_explanation_checks r) ''alternative_explanation_checks''] r"

section \<open>Proposals, reviews, approvals, findings\<close>

record finding_proposal_record =
  fpr_proposal_id :: string
  fpr_candidate_id :: string
  fpr_research_run_id :: string
  fpr_title :: string
  fpr_claim :: string
  fpr_classification :: string
  fpr_state :: string
  fpr_evidence_ids :: "string list"
  fpr_verification_ids :: "string list"
  fpr_content_fingerprint :: string
  fpr_created_at :: int
  fpr_impact_chain_ids :: "string list"

definition post_init_finding_proposal_record ::
    "finding_proposal_record \<Rightarrow> persistence_error + finding_proposal_record" where
  "post_init_finding_proposal_record r = raise_first
     [bad_id (fpr_proposal_id r) ''proposal_id'', bad_id (fpr_candidate_id r) ''candidate_id'',
      bad_id (fpr_research_run_id r) ''research_run_id'', bad_text (fpr_title r) ''title'',
      bad_text (fpr_claim r) ''claim'',
      bad_member (fpr_classification r) ALLOWED_RECORD_CLASSIFICATIONS ''classification is not an allowed Finding class'',
      bad_member (fpr_state r) ALLOWED_FINDING_PROPOSAL_STATES ''state is not a FindingProposal lifecycle state'',
      bad_empty (fpr_evidence_ids r) ''evidence_ids'', bad_ids (fpr_evidence_ids r) ''evidence_ids'',
      bad_empty (fpr_verification_ids r) ''verification_ids'', bad_ids (fpr_verification_ids r) ''verification_ids'',
      bad_text (fpr_content_fingerprint r) ''content_fingerprint'',
      bad_ids (fpr_impact_chain_ids r) ''impact_chain_ids''] r"

record human_review_record =
  hrr_review_id :: string
  hrr_proposal_id :: string
  hrr_content_fingerprint :: string
  hrr_decision :: string
  hrr_reviewer_id :: string
  hrr_actor_type :: string
  hrr_reason_codes :: "string list"
  hrr_created_at :: int
  hrr_note :: "string option"

definition post_init_human_review_record :: "human_review_record \<Rightarrow> persistence_error + human_review_record" where
  "post_init_human_review_record r = raise_first
     [bad_id (hrr_review_id r) ''review_id'', bad_id (hrr_proposal_id r) ''proposal_id'',
      bad_id (hrr_reviewer_id r) ''reviewer_id'', bad_text (hrr_content_fingerprint r) ''content_fingerprint'',
      bad_member (hrr_decision r) ALLOWED_HUMAN_REVIEW_DECISIONS ''decision is not a HumanReview decision'',
      bad_member (hrr_actor_type r) ALLOWED_ACTOR_TYPES ''actor_type must be a locked identity class'',
      bad_empty (hrr_reason_codes r) ''reason_codes'', bad_opt_text (hrr_note r) ''note''] r"

record approval_record =
  apr_approval_id :: string
  apr_subject_reference :: string
  apr_decision :: string
  apr_decided_by :: string
  apr_actor_type :: string
  apr_recorded :: bool
  apr_created_at :: int
  apr_research_run_id :: string
  apr_proposal_id :: string
  apr_human_review_id :: string

definition post_init_approval_record :: "approval_record \<Rightarrow> persistence_error + approval_record" where
  "post_init_approval_record r = raise_first
     [bad_id (apr_approval_id r) ''approval_id'', bad_id (apr_subject_reference r) ''subject_reference'',
      bad_id (apr_decided_by r) ''decided_by'', bad_id (apr_research_run_id r) ''research_run_id'',
      bad_id (apr_proposal_id r) ''proposal_id'', bad_id (apr_human_review_id r) ''human_review_id'',
      bad_member (apr_decision r) ALLOWED_RECORDED_APPROVAL_DECISIONS ''decision is not an Approval decision'',
      bad_member (apr_actor_type r) ALLOWED_ACTOR_TYPES ''actor_type must be a locked identity class'',
      (\<not> apr_recorded r, PersistenceInputError ''persisted Approval must be recorded'')] r"

record finding_record =
  fr_finding_id :: string
  fr_finding_proposal_id :: string
  fr_candidate_id :: string
  fr_research_run_id :: string
  fr_approval_id :: string
  fr_human_review_id :: string
  fr_title :: string
  fr_claim :: string
  fr_classification :: string
  fr_evidence_ids :: "string list"
  fr_verification_ids :: "string list"
  fr_created_at :: int

definition post_init_finding_record :: "finding_record \<Rightarrow> persistence_error + finding_record" where
  "post_init_finding_record r = raise_first
     [bad_id (fr_finding_id r) ''finding_id'', bad_id (fr_finding_proposal_id r) ''finding_proposal_id'',
      bad_id (fr_candidate_id r) ''candidate_id'', bad_id (fr_research_run_id r) ''research_run_id'',
      bad_id (fr_approval_id r) ''approval_id'', bad_id (fr_human_review_id r) ''human_review_id'',
      bad_text (fr_title r) ''title'', bad_text (fr_claim r) ''claim'',
      bad_member (fr_classification r) ALLOWED_RECORD_CLASSIFICATIONS ''classification is not an allowed Finding class'',
      bad_empty (fr_evidence_ids r) ''evidence_ids'', bad_ids (fr_evidence_ids r) ''evidence_ids'',
      bad_empty (fr_verification_ids r) ''verification_ids'', bad_ids (fr_verification_ids r) ''verification_ids''] r"

record audit_event_record =
  aer_audit_event_id :: string
  aer_occurred_at :: int
  aer_actor_id :: string
  aer_actor_type :: string
  aer_event_type :: string
  aer_subject_type :: string
  aer_subject_id :: string
  aer_payload :: payload
  aer_correlation_id :: "string option"

definition post_init_audit_event_record :: "audit_event_record \<Rightarrow> persistence_error + audit_event_record" where
  "post_init_audit_event_record r = raise_first
     [bad_id (aer_audit_event_id r) ''audit_event_id'', bad_id (aer_actor_id r) ''actor_id'',
      bad_id (aer_subject_id r) ''subject_id'',
      bad_member (aer_actor_type r) ALLOWED_ACTOR_TYPES ''actor_type must be a locked identity class'',
      bad_text (aer_event_type r) ''event_type'', bad_text (aer_subject_type r) ''subject_type'',
      bad_secrets (aer_payload r) ''payload'', bad_opt_id (aer_correlation_id r) ''correlation_id''] r"

section \<open>Impact chains\<close>

record impact_chain_record =
  icr_chain_id :: string
  icr_research_run_id :: string
  icr_program_id :: string
  icr_graph_hash :: "string option"
  icr_created_at :: int

definition post_init_impact_chain_record :: "impact_chain_record \<Rightarrow> persistence_error + impact_chain_record" where
  "post_init_impact_chain_record r = raise_first
     [bad_id (icr_chain_id r) ''chain_id'', bad_id (icr_research_run_id r) ''research_run_id'',
      bad_id (icr_program_id r) ''program_id'',
      (case icr_graph_hash r of None \<Rightarrow> False | Some h \<Rightarrow> length h \<noteq> 64,
         PersistenceInputError ''graph_hash must be a SHA-256 hex digest or None'')] r"

record impact_chain_node_record =
  icn_node_id :: string
  icn_chain_id :: string
  icn_impact_kind :: string
  icn_claim_text :: string
  icn_scope_ref :: payload
  icn_proof_refs :: "string list"
  icn_ordering :: int
  icn_created_at :: int

definition post_init_impact_chain_node_record ::
    "impact_chain_node_record \<Rightarrow> persistence_error + impact_chain_node_record" where
  "post_init_impact_chain_node_record r = raise_first
     [bad_id (icn_node_id r) ''node_id'', bad_id (icn_chain_id r) ''chain_id'',
      bad_text (icn_impact_kind r) ''impact_kind'', bad_text (icn_claim_text r) ''claim_text'',
      bad_secrets (icn_scope_ref r) ''scope_ref'', bad_empty (icn_proof_refs r) ''proof_refs'',
      bad_ids (icn_proof_refs r) ''proof_refs'',
      (icn_ordering r < 0, PersistenceInputError ''ordering must be a non-negative int'')] r"

record impact_chain_edge_record =
  ice_edge_id :: string
  ice_chain_id :: string
  ice_from_node_id :: string
  ice_to_node_id :: string
  ice_relation :: string
  ice_created_at :: int

definition post_init_impact_chain_edge_record ::
    "impact_chain_edge_record \<Rightarrow> persistence_error + impact_chain_edge_record" where
  "post_init_impact_chain_edge_record r = raise_first
     [bad_id (ice_edge_id r) ''edge_id'', bad_id (ice_chain_id r) ''chain_id'',
      bad_id (ice_from_node_id r) ''from_node_id'', bad_id (ice_to_node_id r) ''to_node_id'',
      bad_text (ice_relation r) ''relation''] r"

end
