(* ===== verification/Store.thy ===== *)
theory Store
  imports Records
begin

text \<open>
  The database behind a unit of work: one list of records per table in insertion order
  (\<open>data/postgres/tables.py\<close>), and the repository operations (\<open>data/postgres/repositories.py\<close>) as
  state transformers.  The declared constraints decide a write: a duplicate primary or unique key is a
  \<open>PersistenceConflictError\<close>, a dangling foreign key a \<open>PersistenceError\<close>; the CHECK constraints repeat
  checks the record constructors make.  A transaction that raises leaves the database as it was.  Rows are
  kept as the records they were written from; text keys are ordered by code point.
\<close>

section \<open>Tables\<close>

record db =
  db_research_runs :: "research_run_record list"
  db_hypotheses :: "hypothesis_record list"
  db_experiments :: "experiment_record list"
  db_attempts :: "execution_attempt_record list"
  db_worker_results :: "worker_result_record list"
  db_observations :: "observation_record list"
  db_assessments :: "hypothesis_assessment_record list"
  db_evidence :: "evidence_record list"
  db_candidates :: "candidate_record list"
  db_candidate_evidence :: "(string \<times> string) list"
  db_candidate_admissions :: "candidate_admission_record list"
  db_verifications :: "verification_record list"
  db_proposals :: "finding_proposal_record list"
  db_reviews :: "human_review_record list"
  db_approvals :: "approval_record list"
  db_findings :: "finding_record list"
  db_audit_events :: "audit_event_record list"
  db_impact_chains :: "impact_chain_record list"
  db_impact_nodes :: "impact_chain_node_record list"
  db_impact_edges :: "impact_chain_edge_record list"

definition empty_db :: db where
  "empty_db = \<lparr>db_research_runs = [], db_hypotheses = [], db_experiments = [], db_attempts = [],
     db_worker_results = [], db_observations = [], db_assessments = [], db_evidence = [], db_candidates = [],
     db_candidate_evidence = [], db_candidate_admissions = [], db_verifications = [], db_proposals = [],
     db_reviews = [], db_approvals = [], db_findings = [], db_audit_events = [], db_impact_chains = [],
     db_impact_nodes = [], db_impact_edges = []\<rparr>"

section \<open>Reads\<close>

definition read_failed :: persistence_error where
  "read_failed = PersistenceError ''persistence read failed''"

text \<open>\<open>.one_or_none()\<close>: more than one row is an error of the read.\<close>

definition one_or_none :: "'r list \<Rightarrow> persistence_error + 'r option" where
  "one_or_none rs = (case rs of [] \<Rightarrow> Inr None | [r] \<Rightarrow> Inr (Some r) | _ \<Rightarrow> Inl read_failed)"

definition id_error :: "string \<Rightarrow> persistence_error" where
  "id_error f = PersistenceInputError (f @ '' must be a non-empty opaque id'')"

definition fetch_one :: "('r \<Rightarrow> string) \<Rightarrow> string \<Rightarrow> 'r list \<Rightarrow> string \<Rightarrow> persistence_error + 'r option" where
  "fetch_one column field rows v =
     (if blank v then Inl (id_error field) else one_or_none (filter (\<lambda>r. column r = v) rows))"

definition fetch_list :: "('r \<Rightarrow> string) \<Rightarrow> ('r \<Rightarrow> string) \<Rightarrow> string \<Rightarrow> 'r list \<Rightarrow> string \<Rightarrow> persistence_error + 'r list" where
  "fetch_list order column field rows v =
     (if blank v then Inl (id_error field) else Inr (sort_key order (filter (\<lambda>r. column r = v) rows)))"

definition get_evidence :: "string \<Rightarrow> db \<Rightarrow> persistence_error + evidence_record option" where
  "get_evidence i d = fetch_one er_evidence_id ''evidence_id'' (db_evidence d) i"

definition list_evidence_for_experiment :: "string \<Rightarrow> db \<Rightarrow> persistence_error + evidence_record list" where
  "list_evidence_for_experiment x d = fetch_list er_evidence_id er_experiment_id ''experiment_id'' (db_evidence d) x"

definition get_experiment :: "string \<Rightarrow> db \<Rightarrow> persistence_error + experiment_record option" where
  "get_experiment i d = fetch_one xr_experiment_id ''experiment_id'' (db_experiments d) i"

text \<open>Attempts are listed without an order clause: in insertion order.\<close>

definition list_attempts_for_experiment :: "string \<Rightarrow> db \<Rightarrow> persistence_error + execution_attempt_record list" where
  "list_attempts_for_experiment x d = fetch_list (\<lambda>_. []) ear_experiment_id ''experiment_id'' (db_attempts d) x"

definition get_worker_result :: "string \<Rightarrow> db \<Rightarrow> persistence_error + worker_result_record option" where
  "get_worker_result i d = fetch_one wr_worker_result_id ''worker_result_id'' (db_worker_results d) i"

definition list_worker_results_for_experiment :: "string \<Rightarrow> db \<Rightarrow> persistence_error + worker_result_record list" where
  "list_worker_results_for_experiment x d =
     fetch_list wr_worker_result_id wr_experiment_id ''experiment_id'' (db_worker_results d) x"

definition get_observation :: "string \<Rightarrow> db \<Rightarrow> persistence_error + observation_record option" where
  "get_observation i d = fetch_one or_observation_id ''observation_id'' (db_observations d) i"

text \<open>The join with \<open>worker_result\<close>: an observation belongs to the experiment of its worker result.\<close>

definition list_observations_for_experiment :: "string \<Rightarrow> db \<Rightarrow> persistence_error + observation_record list" where
  "list_observations_for_experiment x d =
     (if blank x then Inl (id_error ''experiment_id'')
      else Inr (sort_key or_observation_id
        (filter (\<lambda>o'. list_ex (\<lambda>w. wr_worker_result_id w = or_worker_result_id o' \<and> wr_experiment_id w = x)
           (db_worker_results d)) (db_observations d))))"

definition list_assessments_for_experiment :: "string \<Rightarrow> db \<Rightarrow> persistence_error + hypothesis_assessment_record list" where
  "list_assessments_for_experiment x d =
     fetch_list har_assessment_id har_experiment_id ''experiment_id'' (db_assessments d) x"

definition get_candidate :: "string \<Rightarrow> db \<Rightarrow> persistence_error + candidate_record option" where
  "get_candidate i d = fetch_one cr_candidate_id ''candidate_id'' (db_candidates d) i"

definition list_verifications_for_candidate :: "string \<Rightarrow> db \<Rightarrow> persistence_error + verification_record list" where
  "list_verifications_for_candidate c d =
     fetch_list vrec_verification_id vrec_candidate_id ''candidate_id'' (db_verifications d) c"

definition get_proposal :: "string \<Rightarrow> db \<Rightarrow> persistence_error + finding_proposal_record option" where
  "get_proposal i d = fetch_one fpr_proposal_id ''proposal_id'' (db_proposals d) i"

definition get_review_for_proposal :: "string \<Rightarrow> db \<Rightarrow> persistence_error + human_review_record option" where
  "get_review_for_proposal p d = fetch_one hrr_proposal_id ''proposal_id'' (db_reviews d) p"

definition get_approval_by_subject :: "string \<Rightarrow> db \<Rightarrow> persistence_error + approval_record option" where
  "get_approval_by_subject s d = fetch_one apr_subject_reference ''subject_reference'' (db_approvals d) s"

definition get_finding_by_proposal :: "string \<Rightarrow> db \<Rightarrow> persistence_error + finding_record option" where
  "get_finding_by_proposal p d = fetch_one fr_finding_proposal_id ''finding_proposal_id'' (db_findings d) p"

definition list_audit_events_for_subject_type :: "string \<Rightarrow> db \<Rightarrow> persistence_error + audit_event_record list" where
  "list_audit_events_for_subject_type t d =
     (if blank t then Inl (PersistenceInputError ''subject_type must be a non-empty string'')
      else Inr (sort_key aer_occurred_at (filter (\<lambda>e. aer_subject_type e = t) (db_audit_events d))))"

definition get_impact_chain :: "string \<Rightarrow> db \<Rightarrow> persistence_error + impact_chain_record option" where
  "get_impact_chain i d = fetch_one icr_chain_id ''chain_id'' (db_impact_chains d) i"

definition get_impact_nodes :: "string \<Rightarrow> db \<Rightarrow> persistence_error + impact_chain_node_record list" where
  "get_impact_nodes i d = (if blank i then Inl (id_error ''chain_id'')
     else Inr (sort_key icn_ordering (filter (\<lambda>n. icn_chain_id n = i) (db_impact_nodes d))))"

definition get_impact_edges :: "string \<Rightarrow> db \<Rightarrow> persistence_error + impact_chain_edge_record list" where
  "get_impact_edges i d = (if blank i then Inl (id_error ''chain_id'')
     else Inr (filter (\<lambda>n. ice_chain_id n = i) (db_impact_edges d)))"

section \<open>Writes\<close>

definition unique_failed :: persistence_error where
  "unique_failed = PersistenceConflictError ''persistence unique constraint failed''"

definition integrity_failed :: persistence_error where
  "integrity_failed = PersistenceError ''persistence integrity constraint failed''"

text \<open>Foreign keys: the referenced row exists.\<close>

definition has_run :: "string \<Rightarrow> db \<Rightarrow> bool" where
  "has_run run d = list_ex (\<lambda>r. rr_research_run_id r = run) (db_research_runs d)"

definition has_hypothesis :: "string \<Rightarrow> string \<Rightarrow> db \<Rightarrow> bool" where
  "has_hypothesis h run d = list_ex (\<lambda>r. hyr_hypothesis_id r = h \<and> hyr_research_run_id r = run) (db_hypotheses d)"

definition has_key :: "('r \<Rightarrow> 'k) \<Rightarrow> 'k \<Rightarrow> 'r list \<Rightarrow> bool" where
  "has_key key k rows = list_ex (\<lambda>r. key r = k) rows"

text \<open>The link rows of a candidate, one per evidence id.\<close>

fun insert_candidate_evidence :: "string \<Rightarrow> string list \<Rightarrow> db \<Rightarrow> persistence_error + db" where
  "insert_candidate_evidence c [] d = Inr d"
| "insert_candidate_evidence c (e # es) d =
     (if (c, e) \<in> set (db_candidate_evidence d) then Inl unique_failed
      else if \<not> has_key er_evidence_id e (db_evidence d) then Inl integrity_failed
      else insert_candidate_evidence c es (d\<lparr>db_candidate_evidence := db_candidate_evidence d @ [(c, e)]\<rparr>))"

definition insert_candidate :: "candidate_record \<Rightarrow> db \<Rightarrow> persistence_error + db" where
  "insert_candidate r d =
     (if has_key cr_candidate_id (cr_candidate_id r) (db_candidates d) then Inl unique_failed
      else if \<not> has_run (cr_research_run_id r) d \<or> \<not> has_hypothesis (cr_hypothesis_id r) (cr_research_run_id r) d
      then Inl integrity_failed
      else insert_candidate_evidence (cr_candidate_id r) (cr_evidence_ids r)
             (d\<lparr>db_candidates := db_candidates d @ [r]\<rparr>))"

definition insert_candidate_admission :: "candidate_admission_record \<Rightarrow> db \<Rightarrow> persistence_error + db" where
  "insert_candidate_admission r d =
     (if has_key car_admission_record_id (car_admission_record_id r) (db_candidate_admissions d) then Inl unique_failed
      else if \<not> has_run (car_research_run_id r) d
          \<or> (case car_admitted_candidate_id r of None \<Rightarrow> False | Some c \<Rightarrow> \<not> has_key cr_candidate_id c (db_candidates d))
      then Inl integrity_failed
      else Inr (d\<lparr>db_candidate_admissions := db_candidate_admissions d @ [r]\<rparr>))"

definition insert_verification :: "verification_record \<Rightarrow> db \<Rightarrow> persistence_error + db" where
  "insert_verification r d =
     (if has_key vrec_verification_id (vrec_verification_id r) (db_verifications d) then Inl unique_failed
      else if \<not> has_key cr_candidate_id (vrec_candidate_id r) (db_candidates d) \<or> \<not> has_run (vrec_research_run_id r) d
      then Inl integrity_failed
      else Inr (d\<lparr>db_verifications := db_verifications d @ [r]\<rparr>))"

definition insert_proposal :: "finding_proposal_record \<Rightarrow> db \<Rightarrow> persistence_error + db" where
  "insert_proposal r d =
     (if has_key fpr_proposal_id (fpr_proposal_id r) (db_proposals d) then Inl unique_failed
      else if \<not> has_key cr_candidate_id (fpr_candidate_id r) (db_candidates d) \<or> \<not> has_run (fpr_research_run_id r) d
      then Inl integrity_failed
      else Inr (d\<lparr>db_proposals := db_proposals d @ [r]\<rparr>))"

definition insert_review :: "human_review_record \<Rightarrow> db \<Rightarrow> persistence_error + db" where
  "insert_review r d =
     (if has_key hrr_review_id (hrr_review_id r) (db_reviews d)
         \<or> has_key (\<lambda>x. (hrr_proposal_id x, hrr_content_fingerprint x)) (hrr_proposal_id r, hrr_content_fingerprint r)
             (db_reviews d) then Inl unique_failed
      else if \<not> has_key fpr_proposal_id (hrr_proposal_id r) (db_proposals d) then Inl integrity_failed
      else Inr (d\<lparr>db_reviews := db_reviews d @ [r]\<rparr>))"

definition insert_approval :: "approval_record \<Rightarrow> db \<Rightarrow> persistence_error + db" where
  "insert_approval r d =
     (if has_key apr_approval_id (apr_approval_id r) (db_approvals d)
         \<or> has_key apr_subject_reference (apr_subject_reference r) (db_approvals d) then Inl unique_failed
      else if \<not> has_run (apr_research_run_id r) d \<or> \<not> has_key fpr_proposal_id (apr_proposal_id r) (db_proposals d)
          \<or> \<not> has_key hrr_review_id (apr_human_review_id r) (db_reviews d) then Inl integrity_failed
      else Inr (d\<lparr>db_approvals := db_approvals d @ [r]\<rparr>))"

definition insert_finding :: "finding_record \<Rightarrow> db \<Rightarrow> persistence_error + db" where
  "insert_finding r d =
     (if has_key fr_finding_id (fr_finding_id r) (db_findings d)
         \<or> has_key fr_finding_proposal_id (fr_finding_proposal_id r) (db_findings d) then Inl unique_failed
      else if \<not> has_key fpr_proposal_id (fr_finding_proposal_id r) (db_proposals d)
          \<or> \<not> has_key cr_candidate_id (fr_candidate_id r) (db_candidates d) \<or> \<not> has_run (fr_research_run_id r) d
          \<or> \<not> has_key apr_approval_id (fr_approval_id r) (db_approvals d)
          \<or> \<not> has_key hrr_review_id (fr_human_review_id r) (db_reviews d) then Inl integrity_failed
      else Inr (d\<lparr>db_findings := db_findings d @ [r]\<rparr>))"

definition insert_audit_event :: "audit_event_record \<Rightarrow> db \<Rightarrow> persistence_error + db" where
  "insert_audit_event r d =
     (if has_key aer_audit_event_id (aer_audit_event_id r) (db_audit_events d) then Inl unique_failed
      else Inr (d\<lparr>db_audit_events := db_audit_events d @ [r]\<rparr>))"

definition set_candidate_state :: "string \<Rightarrow> string \<Rightarrow> db \<Rightarrow> persistence_error + db" where
  "set_candidate_state i state d =
     (if blank i then Inl (id_error ''candidate_id'')
      else if state \<notin> set ALLOWED_CANDIDATE_STATES
      then Inl (PersistenceInputError ''state is not a Candidate lifecycle state'')
      else if length (filter (\<lambda>r. cr_candidate_id r = i) (db_candidates d)) \<noteq> 1
      then Inl (PersistenceError ''candidate not found for state update'')
      else Inr (d\<lparr>db_candidates := map (\<lambda>r. if cr_candidate_id r = i then r\<lparr>cr_state := state\<rparr> else r) (db_candidates d)\<rparr>))"

definition set_proposal_state :: "string \<Rightarrow> string \<Rightarrow> db \<Rightarrow> persistence_error + db" where
  "set_proposal_state i state d =
     (if blank i then Inl (id_error ''proposal_id'')
      else if state \<notin> set ALLOWED_FINDING_PROPOSAL_STATES
      then Inl (PersistenceInputError ''state is not a FindingProposal lifecycle state'')
      else if length (filter (\<lambda>r. fpr_proposal_id r = i) (db_proposals d)) \<noteq> 1
      then Inl (PersistenceError ''finding_proposal not found for state update'')
      else Inr (d\<lparr>db_proposals := map (\<lambda>r. if fpr_proposal_id r = i then r\<lparr>fpr_state := state\<rparr> else r) (db_proposals d)\<rparr>))"

section \<open>The contract of a table\<close>

lemma has_key_iff: "has_key key k rows \<longleftrightarrow> k \<in> key ` set rows"
  by (auto simp: has_key_def list_ex_iff)

lemma one_or_none_Some: "one_or_none rs = Inr (Some r) \<longleftrightarrow> rs = [r]"
  by (auto simp: one_or_none_def split: list.splits)

lemma one_or_none_None: "one_or_none rs = Inr None \<longleftrightarrow> rs = []"
  by (auto simp: one_or_none_def split: list.splits)

lemma fetch_one_Some: "fetch_one col f rows v = Inr (Some r) \<Longrightarrow> r \<in> set rows \<and> col r = v \<and> \<not> blank v"
  by (auto simp: fetch_one_def one_or_none_Some split: if_splits dest!: arg_cong [where f = set])

lemma sort_key_Nil_iff: "sort_key f xs = [] \<longleftrightarrow> xs = []"
  by (metis length_0_conv length_sort)

lemma fetch_one_None: "fetch_one col f rows v = Inr None \<Longrightarrow> v \<notin> col ` set rows"
  by (auto simp: fetch_one_def one_or_none_None filter_empty_conv split: if_splits)

text \<open>
  What a client relies on: an accepted insert adds the row at the end and its key was not in use; from
  that, keys stay unique, the row is found under its key and the other rows as before.
\<close>

locale keyed_table =
  fixes key :: "'r \<Rightarrow> 'k" and rows :: "'d \<Rightarrow> 'r list" and insert_row :: "'r \<Rightarrow> 'd \<Rightarrow> persistence_error + 'd"
  assumes insert_rows: "insert_row r d = Inr d' \<Longrightarrow> rows d' = rows d @ [r]"
    and insert_fresh: "insert_row r d = Inr d' \<Longrightarrow> key r \<notin> key ` set (rows d)"
begin

lemma keys_distinct: "insert_row r d = Inr d' \<Longrightarrow> distinct (map key (rows d)) \<Longrightarrow> distinct (map key (rows d'))"
  using insert_rows insert_fresh by fastforce

lemma lookup_inserted: "insert_row r d = Inr d' \<Longrightarrow> filter (\<lambda>x. key x = key r) (rows d') = [r]"
proof -
  assume ins: "insert_row r d = Inr d'"
  then have "filter (\<lambda>x. key x = key r) (rows d) = []" using insert_fresh [OF ins] by (auto simp: filter_empty_conv) (metis imageI)
  then show ?thesis using insert_rows [OF ins] by simp
qed

lemma lookup_other: "insert_row r d = Inr d' \<Longrightarrow> k \<noteq> key r \<Longrightarrow>
    filter (\<lambda>x. key x = k) (rows d') = filter (\<lambda>x. key x = k) (rows d)"
  using insert_rows by fastforce

lemma append_only: "insert_row r d = Inr d' \<Longrightarrow> set (rows d) \<subseteq> set (rows d')"
  using insert_rows by fastforce

end

lemma insert_candidate_evidence_Inr:
  "insert_candidate_evidence c es d = Inr d' \<Longrightarrow>
     d' = d\<lparr>db_candidate_evidence := db_candidate_evidence d @ map (Pair c) es\<rparr> \<and>
     set es \<subseteq> er_evidence_id ` set (db_evidence d) \<and> distinct es"
proof (induction c es d rule: insert_candidate_evidence.induct)
  case (2 c e es d)
  then have "(c, e) \<notin> set (db_candidate_evidence d)" "e \<in> er_evidence_id ` set (db_evidence d)"
    and rest: "d' = d\<lparr>db_candidate_evidence := (db_candidate_evidence d @ [(c, e)]) @ map (Pair c) es\<rparr>"
      "set es \<subseteq> er_evidence_id ` set (db_evidence d)" "distinct es"
      "insert_candidate_evidence c es (d\<lparr>db_candidate_evidence := db_candidate_evidence d @ [(c, e)]\<rparr>) = Inr d'"
    by (auto simp: has_key_iff split: if_splits)
  have "e \<notin> set es"
  proof
    have clash: "insert_candidate_evidence c xs d1 \<noteq> Inr d2" if "e \<in> set xs" "(c, e) \<in> set (db_candidate_evidence d1)" for xs d1 d2
      using that by (induction c xs d1 rule: insert_candidate_evidence.induct) (auto split: if_splits)
    assume "e \<in> set es"
    with clash [OF this, of "d\<lparr>db_candidate_evidence := db_candidate_evidence d @ [(c, e)]\<rparr>" d'] rest(4) show False by simp
  qed
  then show ?case using rest \<open>e \<in> er_evidence_id ` set (db_evidence d)\<close> by simp
qed simp

lemma insert_candidate_Inr:
  "insert_candidate r d = Inr d' \<Longrightarrow>
     cr_candidate_id r \<notin> cr_candidate_id ` set (db_candidates d) \<and> has_run (cr_research_run_id r) d \<and>
     has_hypothesis (cr_hypothesis_id r) (cr_research_run_id r) d \<and>
     set (cr_evidence_ids r) \<subseteq> er_evidence_id ` set (db_evidence d) \<and>
     d' = d\<lparr>db_candidates := db_candidates d @ [r],
            db_candidate_evidence := db_candidate_evidence d @ map (Pair (cr_candidate_id r)) (cr_evidence_ids r)\<rparr>"
  by (auto simp: insert_candidate_def has_key_iff split: if_splits dest!: insert_candidate_evidence_Inr)

lemma insert_candidate_admission_Inr:
  "insert_candidate_admission r d = Inr d' \<longleftrightarrow>
     car_admission_record_id r \<notin> car_admission_record_id ` set (db_candidate_admissions d) \<and> has_run (car_research_run_id r) d \<and>
     (\<forall>c. car_admitted_candidate_id r = Some c \<longrightarrow> c \<in> cr_candidate_id ` set (db_candidates d)) \<and>
     d' = d\<lparr>db_candidate_admissions := db_candidate_admissions d @ [r]\<rparr>"
  by (auto simp: insert_candidate_admission_def has_key_iff split: option.splits)

lemma insert_verification_Inr:
  "insert_verification r d = Inr d' \<longleftrightarrow>
     vrec_verification_id r \<notin> vrec_verification_id ` set (db_verifications d) \<and>
     vrec_candidate_id r \<in> cr_candidate_id ` set (db_candidates d) \<and> has_run (vrec_research_run_id r) d \<and>
     d' = d\<lparr>db_verifications := db_verifications d @ [r]\<rparr>"
  by (auto simp: insert_verification_def has_key_iff)

lemma insert_proposal_Inr:
  "insert_proposal r d = Inr d' \<longleftrightarrow>
     fpr_proposal_id r \<notin> fpr_proposal_id ` set (db_proposals d) \<and>
     fpr_candidate_id r \<in> cr_candidate_id ` set (db_candidates d) \<and> has_run (fpr_research_run_id r) d \<and>
     d' = d\<lparr>db_proposals := db_proposals d @ [r]\<rparr>"
  by (auto simp: insert_proposal_def has_key_iff)

lemma insert_review_Inr:
  "insert_review r d = Inr d' \<longleftrightarrow>
     hrr_review_id r \<notin> hrr_review_id ` set (db_reviews d) \<and>
     (hrr_proposal_id r, hrr_content_fingerprint r) \<notin> (\<lambda>x. (hrr_proposal_id x, hrr_content_fingerprint x)) ` set (db_reviews d) \<and>
     hrr_proposal_id r \<in> fpr_proposal_id ` set (db_proposals d) \<and> d' = d\<lparr>db_reviews := db_reviews d @ [r]\<rparr>"
  by (auto simp: insert_review_def has_key_iff)

lemma insert_approval_Inr:
  "insert_approval r d = Inr d' \<longleftrightarrow>
     apr_approval_id r \<notin> apr_approval_id ` set (db_approvals d) \<and>
     apr_subject_reference r \<notin> apr_subject_reference ` set (db_approvals d) \<and> has_run (apr_research_run_id r) d \<and>
     apr_proposal_id r \<in> fpr_proposal_id ` set (db_proposals d) \<and>
     apr_human_review_id r \<in> hrr_review_id ` set (db_reviews d) \<and> d' = d\<lparr>db_approvals := db_approvals d @ [r]\<rparr>"
  by (auto simp: insert_approval_def has_key_iff)

lemma insert_finding_Inr:
  "insert_finding r d = Inr d' \<longleftrightarrow>
     fr_finding_id r \<notin> fr_finding_id ` set (db_findings d) \<and>
     fr_finding_proposal_id r \<notin> fr_finding_proposal_id ` set (db_findings d) \<and>
     fr_finding_proposal_id r \<in> fpr_proposal_id ` set (db_proposals d) \<and>
     fr_candidate_id r \<in> cr_candidate_id ` set (db_candidates d) \<and> has_run (fr_research_run_id r) d \<and>
     fr_approval_id r \<in> apr_approval_id ` set (db_approvals d) \<and>
     fr_human_review_id r \<in> hrr_review_id ` set (db_reviews d) \<and> d' = d\<lparr>db_findings := db_findings d @ [r]\<rparr>"
  by (auto simp: insert_finding_def has_key_iff)

lemma insert_audit_event_Inr:
  "insert_audit_event r d = Inr d' \<longleftrightarrow>
     aer_audit_event_id r \<notin> aer_audit_event_id ` set (db_audit_events d) \<and>
     d' = d\<lparr>db_audit_events := db_audit_events d @ [r]\<rparr>"
  by (auto simp: insert_audit_event_def has_key_iff)

lemmas insert_Inr = insert_candidate_admission_Inr insert_verification_Inr insert_proposal_Inr insert_review_Inr
  insert_approval_Inr insert_finding_Inr insert_audit_event_Inr

interpretation candidates: keyed_table cr_candidate_id db_candidates insert_candidate
  by unfold_locales (auto dest!: insert_candidate_Inr)

interpretation candidate_admissions: keyed_table car_admission_record_id db_candidate_admissions insert_candidate_admission
  by unfold_locales (auto simp: insert_Inr)

interpretation verifications: keyed_table vrec_verification_id db_verifications insert_verification
  by unfold_locales (auto simp: insert_Inr)

interpretation proposals: keyed_table fpr_proposal_id db_proposals insert_proposal
  by unfold_locales (auto simp: insert_Inr)

interpretation reviews: keyed_table hrr_review_id db_reviews insert_review
  by unfold_locales (auto simp: insert_Inr)

interpretation approvals: keyed_table apr_approval_id db_approvals insert_approval
  by unfold_locales (auto simp: insert_Inr)

interpretation approval_subjects: keyed_table apr_subject_reference db_approvals insert_approval
  by unfold_locales (auto simp: insert_Inr)

interpretation findings: keyed_table fr_finding_id db_findings insert_finding
  by unfold_locales (auto simp: insert_Inr)

interpretation finding_proposals: keyed_table fr_finding_proposal_id db_findings insert_finding
  by unfold_locales (auto simp: insert_Inr)

interpretation audit_events: keyed_table aer_audit_event_id db_audit_events insert_audit_event
  by unfold_locales (auto simp: insert_Inr)

lemma set_candidate_state_Inr:
  "set_candidate_state i s d = Inr d' \<Longrightarrow>
     \<not> blank i \<and> s \<in> set ALLOWED_CANDIDATE_STATES \<and> (\<exists>r \<in> set (db_candidates d). cr_candidate_id r = i) \<and>
     d' = d\<lparr>db_candidates := map (\<lambda>r. if cr_candidate_id r = i then r\<lparr>cr_state := s\<rparr> else r) (db_candidates d)\<rparr>"
  by (auto simp: set_candidate_state_def length_Suc_conv split: if_splits dest!: arg_cong [where f = set]) blast

lemma set_proposal_state_Inr:
  "set_proposal_state i s d = Inr d' \<Longrightarrow>
     \<not> blank i \<and> s \<in> set ALLOWED_FINDING_PROPOSAL_STATES \<and> (\<exists>r \<in> set (db_proposals d). fpr_proposal_id r = i) \<and>
     d' = d\<lparr>db_proposals := map (\<lambda>r. if fpr_proposal_id r = i then r\<lparr>fpr_state := s\<rparr> else r) (db_proposals d)\<rparr>"
  by (auto simp: set_proposal_state_def length_Suc_conv split: if_splits dest!: arg_cong [where f = set]) blast

end
