(* ===== verification/Evidence.thy ===== *)
theory Evidence
  imports Research_Types
begin

text \<open>
  Evidence proposals and their admission (\<open>research/evidence.py\<close>, with the assessment vocabulary of
  \<open>research/assessment.py\<close>).
\<close>

section \<open>Assessments\<close>

datatype assessment_outcome =
    AO_CONSISTENT_WITH_PREDICTION
  | AO_CONTRADICTS_PREDICTION
  | AO_INCONCLUSIVE
  | AO_EXECUTION_UNUSABLE
  | AO_NEEDS_MORE_CONTEXT

datatype evaluator_kind = EK_DETERMINISTIC

definition DIAGNOSTIC_ECHO_EVALUATION_STRATEGY :: string where
  "DIAGNOSTIC_ECHO_EVALUATION_STRATEGY = ''diagnostic.echo.v1''"

definition HTTP_AUTHORIZATION_DIFFERENTIAL_EVALUATION_STRATEGY :: string where
  "HTTP_AUTHORIZATION_DIFFERENTIAL_EVALUATION_STRATEGY = ''http.authorization.differential.v1''"

definition HTTP_STATE_TRANSITION_EVALUATION_STRATEGY :: string where
  "HTTP_STATE_TRANSITION_EVALUATION_STRATEGY = ''http.state_transition.v1''"

lemmas strategy_defs = DIAGNOSTIC_ECHO_EVALUATION_STRATEGY_def
  HTTP_AUTHORIZATION_DIFFERENTIAL_EVALUATION_STRATEGY_def HTTP_STATE_TRANSITION_EVALUATION_STRATEGY_def

definition UNUSABLE_EXECUTION_OUTCOMES :: "string list" where
  "UNUSABLE_EXECUTION_OUTCOMES =
     [''INVOCATION_FAILED'', ''UNKNOWN_OUTCOME'', ''DISPATCH_DENIED'', ''HUMAN_REVIEW_REQUIRED'',
      ''AUTHORIZED_NOT_DISPATCHED'']"

definition UNUSABLE_ATTEMPT_STATES :: "string list" where
  "UNUSABLE_ATTEMPT_STATES = [''FAILED'', ''TIMED_OUT'', ''CANCELLED'', ''UNKNOWN_OUTCOME'']"

definition UNUSABLE_EXPERIMENT_STATES :: "string list" where
  "UNUSABLE_EXPERIMENT_STATES = [''EXECUTION_FAILED'', ''BLOCKED'', ''CANCELLED'', ''BUDGET_EXHAUSTED'']"

record hypothesis_assessment =
  ha_outcome :: assessment_outcome
  ha_evaluator_kind :: evaluator_kind
  ha_evaluator_version :: string
  ha_rationale :: payload
  ha_hypothesis_id :: string
  ha_experiment_id :: string
  ha_research_run_id :: string
  ha_observation_ids :: "string list"
  ha_evaluation_strategy :: string

definition post_init_hypothesis_assessment ::
    "hypothesis_assessment \<Rightarrow> research_error + hypothesis_assessment" where
  "post_init_hypothesis_assessment a =
     bindE (keep_text (ha_evaluator_version a) ''evaluator_version'') (\<lambda>_.
     bindE (if list_ex (\<lambda>k. k \<in> {''severity'', ''evidence'', ''finding'', ''confidence'', ''candidate''})
                (map fst (ha_rationale a))
            then Inl (ResearchInputError ''assessment rationale must not contain forbidden keys'')
            else Inr ()) (\<lambda>_.
     bindE (keep_text (ha_hypothesis_id a) ''hypothesis_id'') (\<lambda>_.
     bindE (keep_text (ha_experiment_id a) ''experiment_id'') (\<lambda>_.
     bindE (keep_text (ha_research_run_id a) ''research_run_id'') (\<lambda>_.
     bindE (keep_text (ha_evaluation_strategy a) ''evaluation_strategy'') (\<lambda>_.
     Inr a))))))"

definition assessment_execution_usable :: "hypothesis_assessment \<Rightarrow> bool" where
  "assessment_execution_usable a = (ha_outcome a \<noteq> AO_EXECUTION_UNUSABLE)"

section \<open>Claims and policy tables\<close>

definition DIAGNOSTIC_ECHO_MATCHED_CLAIM :: string where
  "DIAGNOSTIC_ECHO_MATCHED_CLAIM = ''diagnostic echo observation matched the executed plan''"

definition DIAGNOSTIC_ECHO_MISMATCHED_CLAIM :: string where
  "DIAGNOSTIC_ECHO_MISMATCHED_CLAIM = ''diagnostic echo observation did not match the executed plan''"

definition HTTP_AUTHORIZATION_DIFFERENTIAL_CLAIM :: string where
  "HTTP_AUTHORIZATION_DIFFERENTIAL_CLAIM =
     ''Authenticated actor can read another actor's account object because object '' @
     ''authorization is missing on the vulnerable endpoint.''"

definition HTTP_AUTHORIZATION_CONTROL_HELD_CLAIM :: string where
  "HTTP_AUTHORIZATION_CONTROL_HELD_CLAIM =
     ''observed HTTP differential does not establish missing object access control''"

definition HTTP_STATE_TRANSITION_CLAIM :: string where
  "HTTP_STATE_TRANSITION_CLAIM =
     ''Authenticated requester performed an unauthorized workflow state transition '' @
     ''because role or sequence authorization is missing on the workflow endpoint.''"

definition HTTP_STATE_TRANSITION_CONTROL_HELD_CLAIM :: string where
  "HTTP_STATE_TRANSITION_CONTROL_HELD_CLAIM =
     ''observed HTTP state transition does not establish unauthorized workflow bypass''"

lemma claims_distinct [simp]:
  "HTTP_AUTHORIZATION_DIFFERENTIAL_CLAIM \<noteq> HTTP_STATE_TRANSITION_CLAIM"
  "HTTP_STATE_TRANSITION_CLAIM \<noteq> HTTP_AUTHORIZATION_DIFFERENTIAL_CLAIM"
  "DIAGNOSTIC_ECHO_MATCHED_CLAIM \<noteq> HTTP_AUTHORIZATION_DIFFERENTIAL_CLAIM"
  "DIAGNOSTIC_ECHO_MATCHED_CLAIM \<noteq> HTTP_STATE_TRANSITION_CLAIM"
  "DIAGNOSTIC_ECHO_MATCHED_CLAIM \<noteq> DIAGNOSTIC_ECHO_MISMATCHED_CLAIM"
  by (simp_all add: HTTP_AUTHORIZATION_DIFFERENTIAL_CLAIM_def HTTP_STATE_TRANSITION_CLAIM_def
      DIAGNOSTIC_ECHO_MATCHED_CLAIM_def DIAGNOSTIC_ECHO_MISMATCHED_CLAIM_def)

definition SUPPORTED_EVIDENCE_STRATEGIES :: "string list" where
  "SUPPORTED_EVIDENCE_STRATEGIES =
     [DIAGNOSTIC_ECHO_EVALUATION_STRATEGY, HTTP_AUTHORIZATION_DIFFERENTIAL_EVALUATION_STRATEGY,
      HTTP_STATE_TRANSITION_EVALUATION_STRATEGY]"

definition FORBIDDEN_EVIDENCE_KEYS :: "string list" where
  "FORBIDDEN_EVIDENCE_KEYS =
     [''severity'', ''finding'', ''candidate'', ''exploitability'', ''authorization'', ''confidence'',
      ''verification'']"

datatype evidence_polarity = EP_SUPPORTING | EP_CONTRADICTING | EP_NEUTRAL

fun evidence_polarity_value :: "evidence_polarity \<Rightarrow> string" where
  "evidence_polarity_value EP_SUPPORTING = ''SUPPORTING''"
| "evidence_polarity_value EP_CONTRADICTING = ''CONTRADICTING''"
| "evidence_polarity_value EP_NEUTRAL = ''NEUTRAL''"

datatype evidence_admission_outcome =
    EA_ADMITTED
  | EA_REJECTED_INSUFFICIENT_SUPPORT
  | EA_REJECTED_BROKEN_PROVENANCE
  | EA_REJECTED_EXECUTION_UNUSABLE
  | EA_REJECTED_POLICY_CONFLICT
  | EA_NEEDS_VERIFICATION

section \<open>Proposals and contexts\<close>

record evidence_observation_ref =
  eor_observation_id :: string
  eor_research_run_id :: string
  eor_worker_result_id :: string
  eor_observation_kind :: string

definition post_init_evidence_observation_ref ::
    "evidence_observation_ref \<Rightarrow> research_error + evidence_observation_ref" where
  "post_init_evidence_observation_ref r =
     bindE (strip_text (eor_observation_id r) ''observation_id'') (\<lambda>observation_id.
     bindE (strip_text (eor_research_run_id r) ''research_run_id'') (\<lambda>research_run_id.
     bindE (strip_text (eor_worker_result_id r) ''worker_result_id'') (\<lambda>worker_result_id.
     bindE (strip_text (eor_observation_kind r) ''observation_kind'') (\<lambda>observation_kind.
     Inr \<lparr>eor_observation_id = observation_id, eor_research_run_id = research_run_id,
          eor_worker_result_id = worker_result_id, eor_observation_kind = observation_kind\<rparr>))))"

record evidence_admission_context =
  eac_research_run_id :: string
  eac_hypothesis_id :: string
  eac_experiment_id :: string
  eac_evaluation_strategy :: string
  eac_observations :: "evidence_observation_ref list"
  eac_missing_source_ids :: "string list"
  eac_assessment_id :: "string option"
  eac_assessment_outcome :: "assessment_outcome option"
  eac_attempt_state :: "string option"
  eac_worker_status :: "string option"
  eac_invocation_status :: "string option"
  eac_execution_outcome :: "string option"
  eac_experiment_execution_state :: "string option"

definition post_init_evidence_admission_context ::
    "evidence_admission_context \<Rightarrow> research_error + evidence_admission_context" where
  "post_init_evidence_admission_context c =
     bindE (strip_text (eac_research_run_id c) ''research_run_id'') (\<lambda>research_run_id.
     bindE (strip_text (eac_hypothesis_id c) ''hypothesis_id'') (\<lambda>hypothesis_id.
     bindE (strip_text (eac_experiment_id c) ''experiment_id'') (\<lambda>experiment_id.
     bindE (strip_text (eac_evaluation_strategy c) ''evaluation_strategy'') (\<lambda>evaluation_strategy.
     Inr (c\<lparr>eac_research_run_id := research_run_id, eac_hypothesis_id := hypothesis_id,
            eac_experiment_id := experiment_id, eac_evaluation_strategy := evaluation_strategy\<rparr>)))))"

definition eac_observation_ids :: "evidence_admission_context \<Rightarrow> string list" where
  "eac_observation_ids c = map eor_observation_id (eac_observations c)"

definition opt_in :: "'a option \<Rightarrow> 'a list \<Rightarrow> bool" where
  "opt_in x xs = (case x of None \<Rightarrow> False | Some v \<Rightarrow> v \<in> set xs)"

definition execution_unusable :: "evidence_admission_context \<Rightarrow> bool" where
  "execution_unusable c =
     (if eac_assessment_outcome c = Some AO_EXECUTION_UNUSABLE then True
      else if opt_in (eac_execution_outcome c) UNUSABLE_EXECUTION_OUTCOMES then True
      else if opt_in (eac_attempt_state c) UNUSABLE_ATTEMPT_STATES then True
      else if opt_in (eac_experiment_execution_state c) UNUSABLE_EXPERIMENT_STATES then True
      else if opt_in (eac_invocation_status c)
          [''TIMED_OUT'', ''START_FAILED'', ''PROCESS_FAILED'', ''PROTOCOL_ERROR'', ''CONTRACT_INVALID'', ''CANCELLED'']
      then True
      else if opt_in (eac_worker_status c) [''TIMED_OUT'', ''CANCELLED'', ''EXECUTION_FAILED''] then True
      else False)"

record evidence_proposal =
  evp_proposal_id :: string
  evp_research_run_id :: string
  evp_hypothesis_id :: string
  evp_experiment_id :: string
  evp_observation_ids :: "string list"
  evp_assessment_ids :: "string list"
  evp_polarity :: evidence_polarity
  evp_claim_scope :: string
  evp_rationale :: payload
  evp_provenance :: payload

definition post_init_evidence_proposal :: "evidence_proposal \<Rightarrow> research_error + evidence_proposal" where
  "post_init_evidence_proposal p =
     bindE (strip_text (evp_proposal_id p) ''proposal_id'') (\<lambda>proposal_id.
     bindE (strip_text (evp_research_run_id p) ''research_run_id'') (\<lambda>research_run_id.
     bindE (strip_text (evp_hypothesis_id p) ''hypothesis_id'') (\<lambda>hypothesis_id.
     bindE (strip_text (evp_experiment_id p) ''experiment_id'') (\<lambda>experiment_id.
     bindE (strip_ids (evp_observation_ids p) ''observation_ids'') (\<lambda>observation_ids.
     bindE (strip_ids (evp_assessment_ids p) ''assessment_ids'') (\<lambda>assessment_ids.
     bindE (strip_text (evp_claim_scope p) ''claim_scope'') (\<lambda>claim_scope.
     bindE (reject_forbidden FORBIDDEN_EVIDENCE_KEYS (evp_rationale p) ''rationale'') (\<lambda>rationale.
     bindE (reject_forbidden FORBIDDEN_EVIDENCE_KEYS (evp_provenance p) ''provenance'') (\<lambda>provenance.
     Inr \<lparr>evp_proposal_id = proposal_id, evp_research_run_id = research_run_id,
          evp_hypothesis_id = hypothesis_id, evp_experiment_id = experiment_id,
          evp_observation_ids = observation_ids, evp_assessment_ids = assessment_ids,
          evp_polarity = evp_polarity p, evp_claim_scope = claim_scope,
          evp_rationale = rationale, evp_provenance = provenance\<rparr>)))))))))"

record evidence_admission_decision =
  ead_outcome :: evidence_admission_outcome
  ead_reason_codes :: "string list"
  ead_proposal :: evidence_proposal
  ead_admitted :: bool

definition creates_evidence :: "evidence_admission_decision \<Rightarrow> bool" where
  "creates_evidence d = (ead_outcome d = EA_ADMITTED \<and> ead_admitted d)"

section \<open>Deterministic proposals\<close>

definition evidence_proposal_of ::
    "evidence_admission_context \<Rightarrow> string \<Rightarrow> string \<Rightarrow> evidence_polarity \<Rightarrow> string \<Rightarrow> payload \<Rightarrow> string
     \<Rightarrow> research_error + evidence_proposal" where
  "evidence_proposal_of c proposal_id aid polarity claim rationale source =
     post_init_evidence_proposal
       \<lparr>evp_proposal_id = proposal_id, evp_research_run_id = eac_research_run_id c,
        evp_hypothesis_id = eac_hypothesis_id c, evp_experiment_id = eac_experiment_id c,
        evp_observation_ids = map eor_observation_id (eac_observations c),
        evp_assessment_ids = [aid], evp_polarity = polarity, evp_claim_scope = claim,
        evp_rationale = rationale,
        evp_provenance = [(''source'', JStr source), (''assessment_id'', JStr aid),
          (''experiment_id'', JStr (eac_experiment_id c))]\<rparr>"

definition propose_diagnostic_echo_evidence ::
    "evidence_admission_context \<Rightarrow> string \<Rightarrow> research_error + evidence_proposal option" where
  "propose_diagnostic_echo_evidence c proposal_id =
     (if eac_evaluation_strategy c \<noteq> DIAGNOSTIC_ECHO_EVALUATION_STRATEGY then Inr None
      else if execution_unusable c then Inr None
      else (case (eac_assessment_id c, eac_assessment_outcome c) of
          (Some aid, Some outcome) \<Rightarrow>
            if eac_observations c = [] then Inr None
            else let rationale = (\<lambda>reason. [(''reason_code'', JStr reason),
                       (''evaluation_strategy'', JStr (eac_evaluation_strategy c)),
                       (''not_vulnerability_evidence'', JBool True)]);
                     go = (\<lambda>polarity claim reason. bindE (evidence_proposal_of c proposal_id aid polarity claim
                       (rationale reason) ''diagnostic.echo.deterministic'') (\<lambda>p. Inr (Some p)))
                 in if outcome = AO_CONSISTENT_WITH_PREDICTION
                    then go EP_SUPPORTING DIAGNOSTIC_ECHO_MATCHED_CLAIM ''ECHO_MATCHED''
                    else if outcome = AO_CONTRADICTS_PREDICTION
                    then go EP_CONTRADICTING DIAGNOSTIC_ECHO_MISMATCHED_CLAIM ''ECHO_MISMATCHED''
                    else Inr None
        | _ \<Rightarrow> Inr None))"

definition propose_authorization_differential_evidence ::
    "evidence_admission_context \<Rightarrow> string \<Rightarrow> research_error + evidence_proposal option" where
  "propose_authorization_differential_evidence c proposal_id =
     (if eac_evaluation_strategy c \<noteq> HTTP_AUTHORIZATION_DIFFERENTIAL_EVALUATION_STRATEGY then Inr None
      else if execution_unusable c then Inr None
      else (case (eac_assessment_id c, eac_assessment_outcome c) of
          (Some aid, Some outcome) \<Rightarrow>
            if eac_observations c = [] then Inr None
            else if outcome \<noteq> AO_CONSISTENT_WITH_PREDICTION then Inr None
            else bindE (evidence_proposal_of c proposal_id aid EP_SUPPORTING HTTP_AUTHORIZATION_DIFFERENTIAL_CLAIM
                   [(''reason_code'', JStr ''AUTHORIZATION_DIFFERENTIAL_ESTABLISHED''),
                    (''evaluation_strategy'', JStr (eac_evaluation_strategy c))]
                   ''http.authorization.differential.deterministic'') (\<lambda>p. Inr (Some p))
        | _ \<Rightarrow> Inr None))"

definition propose_state_transition_evidence ::
    "evidence_admission_context \<Rightarrow> string \<Rightarrow> research_error + evidence_proposal option" where
  "propose_state_transition_evidence c proposal_id =
     (if eac_evaluation_strategy c \<noteq> HTTP_STATE_TRANSITION_EVALUATION_STRATEGY then Inr None
      else if execution_unusable c then Inr None
      else (case (eac_assessment_id c, eac_assessment_outcome c) of
          (Some aid, Some outcome) \<Rightarrow>
            if eac_observations c = [] then Inr None
            else if outcome \<noteq> AO_CONSISTENT_WITH_PREDICTION then Inr None
            else bindE (evidence_proposal_of c proposal_id aid EP_SUPPORTING HTTP_STATE_TRANSITION_CLAIM
                   [(''reason_code'', JStr ''UNAUTHORIZED_STATE_TRANSITION_ESTABLISHED''),
                    (''evaluation_strategy'', JStr (eac_evaluation_strategy c))]
                   ''http.state_transition.deterministic'') (\<lambda>p. Inr (Some p))
        | _ \<Rightarrow> Inr None))"

section \<open>Admission\<close>

text \<open>The reason codes collected before any decision, in the order of the source.\<close>

definition evidence_codes :: "evidence_proposal \<Rightarrow> evidence_admission_context \<Rightarrow> string list" where
  "evidence_codes proposal context =
     (if evp_research_run_id proposal \<noteq> eac_research_run_id context then [''WRONG_RESEARCH_RUN''] else []) @
     (if evp_hypothesis_id proposal \<noteq> eac_hypothesis_id context then [''WRONG_HYPOTHESIS''] else []) @
     (if evp_experiment_id proposal \<noteq> eac_experiment_id context then [''WRONG_EXPERIMENT''] else []) @
     (if eac_missing_source_ids context \<noteq> [] then [''MISSING_SOURCE''] else []) @
     (if filter (\<lambda>i. i \<notin> set (eac_observation_ids context)) (evp_observation_ids proposal) \<noteq> []
         \<or> evp_observation_ids proposal = [] then [''HALLUCINATED_OR_ABSENT_SOURCE''] else []) @
     (if list_ex (\<lambda>ob. eor_research_run_id ob \<noteq> eac_research_run_id context) (eac_observations context)
      then [''OBSERVATION_WRONG_RUN''] else []) @
     (case eac_assessment_id context of
        None \<Rightarrow> [''ASSESSMENT_REQUIRED'']
      | Some aid \<Rightarrow> if aid \<notin> set (evp_assessment_ids proposal) then [''ASSESSMENT_NOT_REFERENCED''] else [])"

definition evidence_decision ::
    "evidence_admission_outcome \<Rightarrow> string list \<Rightarrow> evidence_proposal \<Rightarrow> bool \<Rightarrow> evidence_admission_decision" where
  "evidence_decision outcome reason_codes proposal admitted =
     \<lparr>ead_outcome = outcome, ead_reason_codes = reason_codes, ead_proposal = proposal, ead_admitted = admitted\<rparr>"

definition admit_http_authorization_evidence ::
    "evidence_proposal \<Rightarrow> evidence_admission_context \<Rightarrow> string list \<Rightarrow> evidence_admission_decision" where
  "admit_http_authorization_evidence proposal context codes =
     (if eac_assessment_outcome context \<noteq> Some AO_CONSISTENT_WITH_PREDICTION
      then evidence_decision EA_REJECTED_INSUFFICIENT_SUPPORT
             (''DIFFERENTIAL_DOES_NOT_ESTABLISH_MISSING_OBJECT_ACCESS_CONTROL'' # codes) proposal False
      else if evp_claim_scope proposal \<noteq> HTTP_AUTHORIZATION_DIFFERENTIAL_CLAIM
      then evidence_decision EA_REJECTED_POLICY_CONFLICT (''CLAIM_EXCEEDS_SOURCES'' # codes) proposal False
      else if evp_claim_scope proposal = HTTP_STATE_TRANSITION_CLAIM
      then evidence_decision EA_REJECTED_POLICY_CONFLICT (''CROSS_CLASS_CLAIM_REJECTED'' # codes) proposal False
      else if evp_polarity proposal \<noteq> EP_SUPPORTING
      then evidence_decision EA_REJECTED_INSUFFICIENT_SUPPORT (''POLARITY_DOES_NOT_SUPPORT_CLAIM'' # codes) proposal False
      else if codes \<noteq> []
      then evidence_decision EA_REJECTED_INSUFFICIENT_SUPPORT codes proposal False
      else evidence_decision EA_ADMITTED [''HTTP_AUTHORIZATION_DIFFERENTIAL_PROVENANCE_INTACT''] proposal True)"

definition admit_state_transition_evidence ::
    "evidence_proposal \<Rightarrow> evidence_admission_context \<Rightarrow> string list \<Rightarrow> evidence_admission_decision" where
  "admit_state_transition_evidence proposal context codes =
     (if eac_assessment_outcome context \<noteq> Some AO_CONSISTENT_WITH_PREDICTION
      then evidence_decision EA_REJECTED_INSUFFICIENT_SUPPORT
             (''STATE_TRANSITION_DOES_NOT_ESTABLISH_WORKFLOW_BYPASS'' # codes) proposal False
      else if evp_claim_scope proposal \<noteq> HTTP_STATE_TRANSITION_CLAIM
      then evidence_decision EA_REJECTED_POLICY_CONFLICT (''CLAIM_EXCEEDS_SOURCES'' # codes) proposal False
      else if evp_claim_scope proposal = HTTP_AUTHORIZATION_DIFFERENTIAL_CLAIM
      then evidence_decision EA_REJECTED_POLICY_CONFLICT (''CROSS_CLASS_CLAIM_REJECTED'' # codes) proposal False
      else if evp_polarity proposal \<noteq> EP_SUPPORTING
      then evidence_decision EA_REJECTED_INSUFFICIENT_SUPPORT (''POLARITY_DOES_NOT_SUPPORT_CLAIM'' # codes) proposal False
      else if codes \<noteq> []
      then evidence_decision EA_REJECTED_INSUFFICIENT_SUPPORT codes proposal False
      else evidence_decision EA_ADMITTED [''HTTP_STATE_TRANSITION_AUTHORIZATION_PROVENANCE_INTACT''] proposal True)"

definition admit_evidence ::
    "evidence_proposal \<Rightarrow> evidence_admission_context \<Rightarrow> evidence_admission_decision" where
  "admit_evidence proposal context =
     (let codes = evidence_codes proposal context in
      if execution_unusable context
      then evidence_decision EA_REJECTED_EXECUTION_UNUSABLE (''EXECUTION_UNUSABLE'' # codes) proposal False
      else if ''WRONG_RESEARCH_RUN'' \<in> set codes \<or> ''OBSERVATION_WRONG_RUN'' \<in> set codes \<or> ''MISSING_SOURCE'' \<in> set codes
      then evidence_decision EA_REJECTED_BROKEN_PROVENANCE codes proposal False
      else if ''HALLUCINATED_OR_ABSENT_SOURCE'' \<in> set codes
      then evidence_decision EA_REJECTED_BROKEN_PROVENANCE codes proposal False
      else if eac_evaluation_strategy context \<notin> set SUPPORTED_EVIDENCE_STRATEGIES
      then evidence_decision EA_REJECTED_POLICY_CONFLICT (''UNSUPPORTED_EVALUATION_STRATEGY'' # codes) proposal False
      else if eac_evaluation_strategy context = HTTP_AUTHORIZATION_DIFFERENTIAL_EVALUATION_STRATEGY
      then admit_http_authorization_evidence proposal context codes
      else if eac_evaluation_strategy context = HTTP_STATE_TRANSITION_EVALUATION_STRATEGY
      then admit_state_transition_evidence proposal context codes
      else if eac_assessment_outcome context \<notin> {Some AO_CONSISTENT_WITH_PREDICTION, Some AO_CONTRADICTS_PREDICTION}
      then evidence_decision EA_REJECTED_INSUFFICIENT_SUPPORT (''ASSESSMENT_DOES_NOT_SUPPORT_EVIDENCE'' # codes) proposal False
      else let expected_claim = (if eac_assessment_outcome context = Some AO_CONSISTENT_WITH_PREDICTION
                 then DIAGNOSTIC_ECHO_MATCHED_CLAIM else DIAGNOSTIC_ECHO_MISMATCHED_CLAIM)
        in if evp_claim_scope proposal \<noteq> expected_claim
           then evidence_decision EA_REJECTED_POLICY_CONFLICT (''CLAIM_EXCEEDS_SOURCES'' # codes) proposal False
           else if codes \<noteq> []
           then evidence_decision EA_REJECTED_INSUFFICIENT_SUPPORT codes proposal False
           else evidence_decision EA_ADMITTED [''DIAGNOSTIC_ECHO_PROVENANCE_INTACT''] proposal True)"

section \<open>The admission policy\<close>

text \<open>Provenance: the proposal speaks of exactly the loaded run, and every source it cites was loaded.\<close>

definition evidence_provenance_intact :: "evidence_proposal \<Rightarrow> evidence_admission_context \<Rightarrow> bool" where
  "evidence_provenance_intact p c \<longleftrightarrow>
     evp_research_run_id p = eac_research_run_id c \<and> evp_hypothesis_id p = eac_hypothesis_id c
     \<and> evp_experiment_id p = eac_experiment_id c \<and> eac_missing_source_ids c = []
     \<and> evp_observation_ids p \<noteq> [] \<and> set (evp_observation_ids p) \<subseteq> set (eac_observation_ids c)
     \<and> (\<forall>ob \<in> set (eac_observations c). eor_research_run_id ob = eac_research_run_id c)
     \<and> (\<exists>aid. eac_assessment_id c = Some aid \<and> aid \<in> set (evp_assessment_ids p))"

definition evidence_claim_supported :: "evidence_proposal \<Rightarrow> evidence_admission_context \<Rightarrow> bool" where
  "evidence_claim_supported p c \<longleftrightarrow>
     (if eac_evaluation_strategy c = HTTP_AUTHORIZATION_DIFFERENTIAL_EVALUATION_STRATEGY
      then eac_assessment_outcome c = Some AO_CONSISTENT_WITH_PREDICTION
        \<and> evp_claim_scope p = HTTP_AUTHORIZATION_DIFFERENTIAL_CLAIM \<and> evp_polarity p = EP_SUPPORTING
      else if eac_evaluation_strategy c = HTTP_STATE_TRANSITION_EVALUATION_STRATEGY
      then eac_assessment_outcome c = Some AO_CONSISTENT_WITH_PREDICTION
        \<and> evp_claim_scope p = HTTP_STATE_TRANSITION_CLAIM \<and> evp_polarity p = EP_SUPPORTING
      else eac_evaluation_strategy c = DIAGNOSTIC_ECHO_EVALUATION_STRATEGY
        \<and> ((eac_assessment_outcome c = Some AO_CONSISTENT_WITH_PREDICTION \<and> evp_claim_scope p = DIAGNOSTIC_ECHO_MATCHED_CLAIM)
         \<or> (eac_assessment_outcome c = Some AO_CONTRADICTS_PREDICTION \<and> evp_claim_scope p = DIAGNOSTIC_ECHO_MISMATCHED_CLAIM)))"

lemma evidence_decision_sel [simp]:
  "ead_outcome (evidence_decision oc r p a) = oc" "ead_admitted (evidence_decision oc r p a) = a"
  "ead_proposal (evidence_decision oc r p a) = p" "ead_reason_codes (evidence_decision oc r p a) = r"
  by (simp_all add: evidence_decision_def)

lemma evidence_codes_Nil_iff: "evidence_codes p c = [] \<longleftrightarrow> evidence_provenance_intact p c"
  by (cases "eac_assessment_id c")
     (auto simp: evidence_codes_def evidence_provenance_intact_def filter_empty_conv list_ex_iff)

lemma admit_evidence_iff:
  "creates_evidence (admit_evidence p c) \<longleftrightarrow>
     \<not> execution_unusable c \<and> evidence_provenance_intact p c \<and> evidence_claim_supported p c"
  unfolding evidence_codes_Nil_iff [symmetric]
  by (auto simp: creates_evidence_def admit_evidence_def admit_http_authorization_evidence_def
      admit_state_transition_evidence_def evidence_claim_supported_def SUPPORTED_EVIDENCE_STRATEGIES_def
      Let_def)

lemma evidence_proposal_of_Inr:
  assumes "evidence_proposal_of c pid aid pol claim rat src = Inr p"
  shows "evp_research_run_id p = py_strip (eac_research_run_id c)" "evp_hypothesis_id p = py_strip (eac_hypothesis_id c)"
    "evp_experiment_id p = py_strip (eac_experiment_id c)" "evp_polarity p = pol" "evp_claim_scope p = py_strip claim"
    "evp_observation_ids p = map (py_strip \<circ> eor_observation_id) (eac_observations c)"
    "evp_assessment_ids p = [py_strip aid]"
  using assms unfolding evidence_proposal_of_def post_init_evidence_proposal_def
  by (auto simp: result_simps)

lemma strip_claims [simp]:
  "py_strip DIAGNOSTIC_ECHO_MATCHED_CLAIM = DIAGNOSTIC_ECHO_MATCHED_CLAIM"
  "py_strip DIAGNOSTIC_ECHO_MISMATCHED_CLAIM = DIAGNOSTIC_ECHO_MISMATCHED_CLAIM"
  "py_strip HTTP_AUTHORIZATION_DIFFERENTIAL_CLAIM = HTTP_AUTHORIZATION_DIFFERENTIAL_CLAIM"
  "py_strip HTTP_STATE_TRANSITION_CLAIM = HTTP_STATE_TRANSITION_CLAIM"
  by (simp_all add: py_strip_def py_space_def DIAGNOSTIC_ECHO_MATCHED_CLAIM_def
      DIAGNOSTIC_ECHO_MISMATCHED_CLAIM_def HTTP_AUTHORIZATION_DIFFERENTIAL_CLAIM_def HTTP_STATE_TRANSITION_CLAIM_def)

definition evidence_proposers ::
    "(evidence_admission_context \<Rightarrow> string \<Rightarrow> research_error + evidence_proposal option) list" where
  "evidence_proposers = [propose_diagnostic_echo_evidence, propose_authorization_differential_evidence,
     propose_state_transition_evidence]"

lemma strategies_distinct [simp]:
  "HTTP_AUTHORIZATION_DIFFERENTIAL_EVALUATION_STRATEGY \<noteq> HTTP_STATE_TRANSITION_EVALUATION_STRATEGY"
  "HTTP_STATE_TRANSITION_EVALUATION_STRATEGY \<noteq> HTTP_AUTHORIZATION_DIFFERENTIAL_EVALUATION_STRATEGY"
  "DIAGNOSTIC_ECHO_EVALUATION_STRATEGY \<noteq> HTTP_AUTHORIZATION_DIFFERENTIAL_EVALUATION_STRATEGY"
  "DIAGNOSTIC_ECHO_EVALUATION_STRATEGY \<noteq> HTTP_STATE_TRANSITION_EVALUATION_STRATEGY"
  "HTTP_AUTHORIZATION_DIFFERENTIAL_EVALUATION_STRATEGY \<noteq> DIAGNOSTIC_ECHO_EVALUATION_STRATEGY"
  "HTTP_STATE_TRANSITION_EVALUATION_STRATEGY \<noteq> DIAGNOSTIC_ECHO_EVALUATION_STRATEGY"
  by (simp_all add: strategy_defs)

lemma proposed_evidence:
  assumes "propose \<in> set evidence_proposers" "propose c pid = Inr (Some p)"
  obtains aid pol claim rat src where "evidence_proposal_of c pid aid pol claim rat src = Inr p"
    "eac_assessment_id c = Some aid" "eac_observations c \<noteq> []" "\<not> execution_unusable c"
    "evidence_claim_supported p c"
proof -
  have "\<exists>aid pol claim rat src. evidence_proposal_of c pid aid pol claim rat src = Inr p \<and>
      eac_assessment_id c = Some aid \<and> eac_observations c \<noteq> [] \<and> \<not> execution_unusable c \<and>
      evidence_claim_supported p c"
    using assms unfolding evidence_proposers_def
    by (auto simp: propose_diagnostic_echo_evidence_def propose_authorization_differential_evidence_def
        propose_state_transition_evidence_def evidence_claim_supported_def Let_def result_simps
        evidence_proposal_of_Inr split: if_splits option.splits; blast)
  then show ?thesis using that by blast
qed

section \<open>Properties\<close>

text \<open>
  C22. Evidence is created exactly when the execution was usable, the provenance is intact (same run,
  hypothesis and experiment, every cited observation loaded and of this run, none missing, the
  assessment referenced) and the claim is the one the strategy's assessment supports.
\<close>

theorem admit_evidence_characterised:
  "creates_evidence (admit_evidence p c) \<longleftrightarrow>
     \<not> execution_unusable c \<and> evidence_provenance_intact p c \<and> evidence_claim_supported p c"
  by (rule admit_evidence_iff)

text \<open>
  The deterministic proposers and the admission policy agree: over a constructed context, every
  proposal they make is admitted unless a source is missing or an observation is of another run.
\<close>

lemma proposed_evidence_admitted:
  assumes "propose \<in> set evidence_proposers" "propose c pid = Inr (Some p)"
    and "post_init_evidence_admission_context c0 = Inr c"
    and "\<forall>ob \<in> set (eac_observations c). \<exists>ob0. post_init_evidence_observation_ref ob0 = Inr ob"
    and "\<forall>aid. eac_assessment_id c = Some aid \<longrightarrow> py_strip aid = aid"
  shows "creates_evidence (admit_evidence p c) \<longleftrightarrow>
    eac_missing_source_ids c = [] \<and> (\<forall>ob \<in> set (eac_observations c). eor_research_run_id ob = eac_research_run_id c)"
proof -
  obtain aid pol claim rat src where e: "evidence_proposal_of c pid aid pol claim rat src = Inr p"
      "eac_assessment_id c = Some aid" "eac_observations c \<noteq> []" "\<not> execution_unusable c"
      "evidence_claim_supported p c"
    using proposed_evidence [OF assms(1,2)] by blast
  have ids: "py_strip (eac_research_run_id c) = eac_research_run_id c"
      "py_strip (eac_hypothesis_id c) = eac_hypothesis_id c" "py_strip (eac_experiment_id c) = eac_experiment_id c"
    using assms(3) by (auto simp: post_init_evidence_admission_context_def result_simps)
  have "py_strip (eor_observation_id ob) = eor_observation_id ob" if ob: "ob \<in> set (eac_observations c)" for ob
    using assms(4) ob by (auto simp: post_init_evidence_observation_ref_def result_simps)
  then have "evp_observation_ids p = eac_observation_ids c"
    by (simp add: evidence_proposal_of_Inr(6) [OF e(1)] eac_observation_ids_def)
  then show ?thesis
    using e(2-5) assms(5) ids evidence_proposal_of_Inr [OF e(1)]
    by (auto simp: admit_evidence_iff evidence_provenance_intact_def eac_observation_ids_def)
qed

definition example_observation :: evidence_observation_ref where
  "example_observation = \<lparr>eor_observation_id = ''obs'', eor_research_run_id = ''run'',
     eor_worker_result_id = ''wr'', eor_observation_kind = ''HTTP''\<rparr>"

definition example_evidence_context :: evidence_admission_context where
  "example_evidence_context = \<lparr>eac_research_run_id = ''run'', eac_hypothesis_id = ''hyp'',
     eac_experiment_id = ''exp'', eac_evaluation_strategy = ''http.authorization.differential.v1'',
     eac_observations = [example_observation], eac_missing_source_ids = [], eac_assessment_id = Some ''as'',
     eac_assessment_outcome = Some AO_CONSISTENT_WITH_PREDICTION, eac_attempt_state = Some ''COMPLETED'',
     eac_worker_status = None, eac_invocation_status = None, eac_execution_outcome = None,
     eac_experiment_execution_state = None\<rparr>"

definition example_evidence_proposal :: evidence_proposal where
  "example_evidence_proposal = \<lparr>evp_proposal_id = ''p'', evp_research_run_id = ''run'', evp_hypothesis_id = ''hyp'',
     evp_experiment_id = ''exp'', evp_observation_ids = [''obs''], evp_assessment_ids = [''as''],
     evp_polarity = EP_SUPPORTING, evp_claim_scope = HTTP_AUTHORIZATION_DIFFERENTIAL_CLAIM,
     evp_rationale = [(''reason_code'', JStr ''AUTHORIZATION_DIFFERENTIAL_ESTABLISHED''),
       (''evaluation_strategy'', JStr ''http.authorization.differential.v1'')],
     evp_provenance = [(''source'', JStr ''http.authorization.differential.deterministic''),
       (''assessment_id'', JStr ''as''), (''experiment_id'', JStr ''exp'')]\<rparr>"

lemma example_evidence_constructed:
  "propose_authorization_differential_evidence example_evidence_context ''p'' = Inr (Some example_evidence_proposal)"
  "post_init_evidence_admission_context example_evidence_context = Inr example_evidence_context"
  "post_init_evidence_observation_ref example_observation = Inr example_observation"
  by code_simp+

lemma proposed_evidence_admitted_witness:
  "creates_evidence (admit_evidence example_evidence_proposal example_evidence_context)"
proof -
  have "\<forall>ob \<in> set (eac_observations example_evidence_context). \<exists>ob0. post_init_evidence_observation_ref ob0 = Inr ob"
    using example_evidence_constructed(3) by (auto simp: example_evidence_context_def)
  moreover have "py_strip ''as'' = ''as''" by code_simp
  ultimately show ?thesis
    using proposed_evidence_admitted [of propose_authorization_differential_evidence example_evidence_context "''p''"
        example_evidence_proposal example_evidence_context] example_evidence_constructed(1,2)
    by (auto simp: evidence_proposers_def example_evidence_context_def example_observation_def)
qed

text \<open>
  The diagnostic path does not look at the polarity: a proposal that calls a matched echo
  CONTRADICTING is admitted, while the HTTP paths refuse anything but SUPPORTING.
\<close>

lemma diagnostic_admission_ignores_polarity:
  "creates_evidence (admit_evidence
     (example_evidence_proposal\<lparr>evp_polarity := EP_CONTRADICTING, evp_claim_scope := DIAGNOSTIC_ECHO_MATCHED_CLAIM\<rparr>)
     (example_evidence_context\<lparr>eac_evaluation_strategy := DIAGNOSTIC_ECHO_EVALUATION_STRATEGY\<rparr>))"
  by code_simp

end
