(* ===== verification/Candidate.thy ===== *)
theory Candidate
  imports Evidence
begin

text \<open>
  Candidate proposals, their admission and the Candidate lifecycle (\<open>research/candidate.py\<close>).
\<close>

section \<open>Vocabulary\<close>

definition DIAGNOSTIC_CANDIDATE_CLASSIFICATION :: string where
  "DIAGNOSTIC_CANDIDATE_CLASSIFICATION = ''DIAGNOSTIC_PLUMBING''"

definition DIAGNOSTIC_CANDIDATE_CLAIM :: string where
  "DIAGNOSTIC_CANDIDATE_CLAIM = DIAGNOSTIC_ECHO_MATCHED_CLAIM"

definition HTTP_AUTHORIZATION_DIFFERENTIAL_CLASSIFICATION :: string where
  "HTTP_AUTHORIZATION_DIFFERENTIAL_CLASSIFICATION = ''HTTP_AUTHORIZATION_DIFFERENTIAL''"

definition HTTP_AUTHORIZATION_DIFFERENTIAL_CANDIDATE_CLAIM :: string where
  "HTTP_AUTHORIZATION_DIFFERENTIAL_CANDIDATE_CLAIM = HTTP_AUTHORIZATION_DIFFERENTIAL_CLAIM"

definition HTTP_STATE_TRANSITION_CLASSIFICATION :: string where
  "HTTP_STATE_TRANSITION_CLASSIFICATION = ''HTTP_STATE_TRANSITION_AUTHORIZATION''"

definition HTTP_STATE_TRANSITION_CANDIDATE_CLAIM :: string where
  "HTTP_STATE_TRANSITION_CANDIDATE_CLAIM = HTTP_STATE_TRANSITION_CLAIM"

lemmas classification_defs = DIAGNOSTIC_CANDIDATE_CLASSIFICATION_def
  HTTP_AUTHORIZATION_DIFFERENTIAL_CLASSIFICATION_def HTTP_STATE_TRANSITION_CLASSIFICATION_def

lemma classifications_distinct [simp]:
  "DIAGNOSTIC_CANDIDATE_CLASSIFICATION \<noteq> HTTP_AUTHORIZATION_DIFFERENTIAL_CLASSIFICATION"
  "DIAGNOSTIC_CANDIDATE_CLASSIFICATION \<noteq> HTTP_STATE_TRANSITION_CLASSIFICATION"
  "HTTP_AUTHORIZATION_DIFFERENTIAL_CLASSIFICATION \<noteq> DIAGNOSTIC_CANDIDATE_CLASSIFICATION"
  "HTTP_AUTHORIZATION_DIFFERENTIAL_CLASSIFICATION \<noteq> HTTP_STATE_TRANSITION_CLASSIFICATION"
  "HTTP_STATE_TRANSITION_CLASSIFICATION \<noteq> DIAGNOSTIC_CANDIDATE_CLASSIFICATION"
  "HTTP_STATE_TRANSITION_CLASSIFICATION \<noteq> HTTP_AUTHORIZATION_DIFFERENTIAL_CLASSIFICATION"
  by (simp_all add: classification_defs)

definition FORBIDDEN_CANDIDATE_KEYS :: "string list" where
  "FORBIDDEN_CANDIDATE_KEYS =
     [''severity'', ''cvss'', ''finding'', ''finding_proposal'', ''exploitability'', ''authorization'',
      ''confidence'', ''verification'']"

definition ALLOWED_CANDIDATE_CLASSIFICATIONS :: "string list" where
  "ALLOWED_CANDIDATE_CLASSIFICATIONS =
     [DIAGNOSTIC_CANDIDATE_CLASSIFICATION, HTTP_AUTHORIZATION_DIFFERENTIAL_CLASSIFICATION,
      HTTP_STATE_TRANSITION_CLASSIFICATION]"

datatype candidate_state =
    CS_OPEN | CS_VERIFYING | CS_VALIDATED | CS_REJECTED | CS_INCONCLUSIVE | CS_DUPLICATE | CS_OUT_OF_SCOPE

fun candidate_state_value :: "candidate_state \<Rightarrow> string" where
  "candidate_state_value CS_OPEN = ''OPEN''"
| "candidate_state_value CS_VERIFYING = ''VERIFYING''"
| "candidate_state_value CS_VALIDATED = ''VALIDATED''"
| "candidate_state_value CS_REJECTED = ''REJECTED''"
| "candidate_state_value CS_INCONCLUSIVE = ''INCONCLUSIVE''"
| "candidate_state_value CS_DUPLICATE = ''DUPLICATE''"
| "candidate_state_value CS_OUT_OF_SCOPE = ''OUT_OF_SCOPE''"

definition all_candidate_states :: "candidate_state list" where
  "all_candidate_states =
     [CS_OPEN, CS_VERIFYING, CS_VALIDATED, CS_REJECTED, CS_INCONCLUSIVE, CS_DUPLICATE, CS_OUT_OF_SCOPE]"

text \<open>\<open>CandidateState(value)\<close>: \<open>None\<close> is the \<open>ValueError\<close> of an unknown value.\<close>

definition candidate_state_of :: "string \<Rightarrow> candidate_state option" where
  "candidate_state_of v = find (\<lambda>s. candidate_state_value s = v) all_candidate_states"

lemma candidate_state_round_trip [simp]: "candidate_state_of (candidate_state_value s) = Some s"
  by (cases s) (simp_all add: candidate_state_of_def all_candidate_states_def)

lemma candidate_state_of_Some: "candidate_state_of v = Some s \<longleftrightarrow> v = candidate_state_value s"
  by (auto simp: candidate_state_of_def find_Some_iff) (metis candidate_state_round_trip candidate_state_of_def find_Some_iff)

datatype candidate_admission_outcome =
    CA_ADMITTED
  | CA_REJECTED_INSUFFICIENT_SUPPORT
  | CA_REJECTED_BROKEN_PROVENANCE
  | CA_REJECTED_CLAIM_EXCEEDS_EVIDENCE
  | CA_REJECTED_NOT_TESTABLE
  | CA_REJECTED_POLICY_CONFLICT

definition LEGAL_CANDIDATE_TRANSITIONS :: "(candidate_state \<times> candidate_state) list" where
  "LEGAL_CANDIDATE_TRANSITIONS =
     [(CS_OPEN, CS_VERIFYING), (CS_VERIFYING, CS_VALIDATED), (CS_VERIFYING, CS_REJECTED),
      (CS_VERIFYING, CS_INCONCLUSIVE), (CS_OPEN, CS_OUT_OF_SCOPE), (CS_VERIFYING, CS_OUT_OF_SCOPE),
      (CS_OPEN, CS_DUPLICATE), (CS_VERIFYING, CS_DUPLICATE)]"

definition TERMINAL_CANDIDATE_STATES :: "candidate_state list" where
  "TERMINAL_CANDIDATE_STATES = [CS_VALIDATED, CS_REJECTED, CS_INCONCLUSIVE, CS_DUPLICATE, CS_OUT_OF_SCOPE]"

section \<open>Proposals and contexts\<close>

record candidate_evidence_ref =
  cer_evidence_id :: string
  cer_research_run_id :: string
  cer_hypothesis_id :: string
  cer_experiment_id :: string
  cer_polarity :: string
  cer_claim_scope :: string

definition post_init_candidate_evidence_ref ::
    "candidate_evidence_ref \<Rightarrow> research_error + candidate_evidence_ref" where
  "post_init_candidate_evidence_ref r =
     bindE (strip_text (cer_evidence_id r) ''evidence_id'') (\<lambda>evidence_id.
     bindE (strip_text (cer_research_run_id r) ''research_run_id'') (\<lambda>research_run_id.
     bindE (strip_text (cer_hypothesis_id r) ''hypothesis_id'') (\<lambda>hypothesis_id.
     bindE (strip_text (cer_experiment_id r) ''experiment_id'') (\<lambda>experiment_id.
     bindE (strip_text (cer_polarity r) ''polarity'') (\<lambda>polarity.
     bindE (strip_text (cer_claim_scope r) ''claim_scope'') (\<lambda>claim_scope.
     Inr \<lparr>cer_evidence_id = evidence_id, cer_research_run_id = research_run_id,
          cer_hypothesis_id = hypothesis_id, cer_experiment_id = experiment_id,
          cer_polarity = polarity, cer_claim_scope = claim_scope\<rparr>))))))"

record candidate_proposal =
  cp_proposal_id :: string
  cp_research_run_id :: string
  cp_hypothesis_id :: string
  cp_evidence_ids :: "string list"
  cp_claim :: string
  cp_classification :: string
  cp_rationale :: payload
  cp_provenance :: payload
  cp_duplicate_of_candidate_id :: "string option"

definition post_init_candidate_proposal :: "candidate_proposal \<Rightarrow> research_error + candidate_proposal" where
  "post_init_candidate_proposal p =
     bindE (strip_text (cp_proposal_id p) ''proposal_id'') (\<lambda>proposal_id.
     bindE (strip_text (cp_research_run_id p) ''research_run_id'') (\<lambda>research_run_id.
     bindE (strip_text (cp_hypothesis_id p) ''hypothesis_id'') (\<lambda>hypothesis_id.
     bindE (strip_ids (cp_evidence_ids p) ''evidence_ids'') (\<lambda>evidence_ids.
     bindE (strip_text (cp_claim p) ''claim'') (\<lambda>claim.
     bindE (strip_text (cp_classification p) ''classification'') (\<lambda>classification.
     bindE (reject_forbidden FORBIDDEN_CANDIDATE_KEYS (cp_rationale p) ''rationale'') (\<lambda>rationale.
     bindE (reject_forbidden FORBIDDEN_CANDIDATE_KEYS (cp_provenance p) ''provenance'') (\<lambda>provenance.
     bindE (strip_text_opt (cp_duplicate_of_candidate_id p) ''duplicate_of_candidate_id'') (\<lambda>duplicate_of.
     Inr \<lparr>cp_proposal_id = proposal_id, cp_research_run_id = research_run_id,
          cp_hypothesis_id = hypothesis_id, cp_evidence_ids = evidence_ids, cp_claim = claim,
          cp_classification = classification, cp_rationale = rationale, cp_provenance = provenance,
          cp_duplicate_of_candidate_id = duplicate_of\<rparr>)))))))))"

record candidate_admission_context =
  ccx_research_run_id :: string
  ccx_hypothesis_id :: string
  ccx_evidence :: "candidate_evidence_ref list"
  ccx_missing_evidence_ids :: "string list"
  ccx_authoritative_out_of_scope :: bool
  ccx_known_duplicate_candidate_id :: "string option"

definition post_init_candidate_admission_context ::
    "candidate_admission_context \<Rightarrow> research_error + candidate_admission_context" where
  "post_init_candidate_admission_context c =
     bindE (strip_text (ccx_research_run_id c) ''research_run_id'') (\<lambda>research_run_id.
     bindE (strip_text (ccx_hypothesis_id c) ''hypothesis_id'') (\<lambda>hypothesis_id.
     Inr (c\<lparr>ccx_research_run_id := research_run_id, ccx_hypothesis_id := hypothesis_id\<rparr>)))"

definition ccx_evidence_ids :: "candidate_admission_context \<Rightarrow> string list" where
  "ccx_evidence_ids c = map cer_evidence_id (ccx_evidence c)"

record candidate_admission_decision =
  cadm_outcome :: candidate_admission_outcome
  cadm_reason_codes :: "string list"
  cadm_proposal :: candidate_proposal
  cadm_admitted :: bool
  cadm_initial_state :: "candidate_state option"

definition creates_candidate :: "candidate_admission_decision \<Rightarrow> bool" where
  "creates_candidate d = (cadm_outcome d = CA_ADMITTED \<and> cadm_admitted d)"

section \<open>Deterministic proposals\<close>

definition candidate_proposal_of ::
    "candidate_admission_context \<Rightarrow> string \<Rightarrow> candidate_evidence_ref \<Rightarrow> string \<Rightarrow> string \<Rightarrow> payload \<Rightarrow> string
     \<Rightarrow> research_error + candidate_proposal option" where
  "candidate_proposal_of c proposal_id evidence claim classification rationale source =
     bindE (post_init_candidate_proposal
       \<lparr>cp_proposal_id = proposal_id, cp_research_run_id = ccx_research_run_id c,
        cp_hypothesis_id = ccx_hypothesis_id c, cp_evidence_ids = [cer_evidence_id evidence],
        cp_claim = claim, cp_classification = classification, cp_rationale = rationale,
        cp_provenance = [(''source'', JStr source), (''evidence_id'', JStr (cer_evidence_id evidence))],
        cp_duplicate_of_candidate_id = None\<rparr>) (\<lambda>p. Inr (Some p))"

definition propose_diagnostic_candidate ::
    "candidate_admission_context \<Rightarrow> string \<Rightarrow> research_error + candidate_proposal option" where
  "propose_diagnostic_candidate c proposal_id =
     (case ccx_evidence c of
        [evidence] \<Rightarrow>
          if cer_polarity evidence \<noteq> evidence_polarity_value EP_SUPPORTING then Inr None
          else if cer_claim_scope evidence \<noteq> DIAGNOSTIC_ECHO_MATCHED_CLAIM then Inr None
          else if cer_research_run_id evidence \<noteq> ccx_research_run_id c then Inr None
          else candidate_proposal_of c proposal_id evidence DIAGNOSTIC_CANDIDATE_CLAIM
                 DIAGNOSTIC_CANDIDATE_CLASSIFICATION
                 [(''reason_code'', JStr ''DIAGNOSTIC_ECHO_EVIDENCE_SEEDED''),
                  (''not_a_vulnerability'', JBool True), (''not_a_finding'', JBool True)]
                 ''diagnostic.echo.candidate''
      | _ \<Rightarrow> Inr None)"

definition propose_authorization_differential_candidate ::
    "candidate_admission_context \<Rightarrow> string \<Rightarrow> research_error + candidate_proposal option" where
  "propose_authorization_differential_candidate c proposal_id =
     (case ccx_evidence c of
        [evidence] \<Rightarrow>
          if cer_polarity evidence \<noteq> evidence_polarity_value EP_SUPPORTING then Inr None
          else if cer_claim_scope evidence \<noteq> HTTP_AUTHORIZATION_DIFFERENTIAL_CLAIM then Inr None
          else if cer_research_run_id evidence \<noteq> ccx_research_run_id c then Inr None
          else candidate_proposal_of c proposal_id evidence HTTP_AUTHORIZATION_DIFFERENTIAL_CANDIDATE_CLAIM
                 HTTP_AUTHORIZATION_DIFFERENTIAL_CLASSIFICATION
                 [(''reason_code'', JStr ''HTTP_AUTHORIZATION_DIFFERENTIAL_EVIDENCE_SEEDED''),
                  (''not_a_finding'', JBool True)]
                 ''http.authorization.differential.candidate''
      | _ \<Rightarrow> Inr None)"

definition propose_state_transition_candidate ::
    "candidate_admission_context \<Rightarrow> string \<Rightarrow> research_error + candidate_proposal option" where
  "propose_state_transition_candidate c proposal_id =
     (case ccx_evidence c of
        [evidence] \<Rightarrow>
          if cer_polarity evidence \<noteq> evidence_polarity_value EP_SUPPORTING then Inr None
          else if cer_claim_scope evidence \<noteq> HTTP_STATE_TRANSITION_CLAIM then Inr None
          else if cer_claim_scope evidence = HTTP_AUTHORIZATION_DIFFERENTIAL_CLAIM then Inr None
          else if cer_research_run_id evidence \<noteq> ccx_research_run_id c then Inr None
          else candidate_proposal_of c proposal_id evidence HTTP_STATE_TRANSITION_CANDIDATE_CLAIM
                 HTTP_STATE_TRANSITION_CLASSIFICATION
                 [(''reason_code'', JStr ''HTTP_STATE_TRANSITION_AUTHORIZATION_EVIDENCE_SEEDED''),
                  (''not_a_finding'', JBool True)]
                 ''http.state_transition.candidate''
      | _ \<Rightarrow> Inr None)"

section \<open>Admission\<close>

definition candidate_decision ::
    "candidate_admission_outcome \<Rightarrow> string list \<Rightarrow> candidate_proposal \<Rightarrow> candidate_admission_decision" where
  "candidate_decision outcome reason_codes proposal =
     \<lparr>cadm_outcome = outcome, cadm_reason_codes = reason_codes, cadm_proposal = proposal,
      cadm_admitted = False, cadm_initial_state = None\<rparr>"

text \<open>The loop over the evidence stops at the first item of another run or another hypothesis.\<close>

fun evidence_loop_code :: "candidate_admission_context \<Rightarrow> candidate_evidence_ref list \<Rightarrow> string list" where
  "evidence_loop_code c [] = []"
| "evidence_loop_code c (item # items) =
     (if cer_research_run_id item \<noteq> ccx_research_run_id c then [''EVIDENCE_WRONG_RUN'']
      else if cer_hypothesis_id item \<noteq> ccx_hypothesis_id c then [''EVIDENCE_WRONG_HYPOTHESIS'']
      else evidence_loop_code c items)"

definition candidate_codes :: "candidate_proposal \<Rightarrow> candidate_admission_context \<Rightarrow> string list" where
  "candidate_codes proposal context =
     (if cp_research_run_id proposal \<noteq> ccx_research_run_id context then [''WRONG_RESEARCH_RUN''] else []) @
     (if cp_hypothesis_id proposal \<noteq> ccx_hypothesis_id context then [''WRONG_HYPOTHESIS''] else []) @
     (if ccx_missing_evidence_ids context \<noteq> [] then [''MISSING_EVIDENCE''] else []) @
     (if filter (\<lambda>i. i \<notin> set (ccx_evidence_ids context)) (cp_evidence_ids proposal) \<noteq> []
         \<or> cp_evidence_ids proposal = [] then [''HALLUCINATED_OR_ABSENT_EVIDENCE''] else []) @
     evidence_loop_code context (ccx_evidence context)"

definition expected_claims :: "string \<Rightarrow> string \<times> string" where
  "expected_claims classification =
     (if classification = HTTP_AUTHORIZATION_DIFFERENTIAL_CLASSIFICATION
      then (HTTP_AUTHORIZATION_DIFFERENTIAL_CANDIDATE_CLAIM, HTTP_AUTHORIZATION_DIFFERENTIAL_CLAIM)
      else if classification = HTTP_STATE_TRANSITION_CLASSIFICATION
      then (HTTP_STATE_TRANSITION_CANDIDATE_CLAIM, HTTP_STATE_TRANSITION_CLAIM)
      else (DIAGNOSTIC_CANDIDATE_CLAIM, DIAGNOSTIC_ECHO_MATCHED_CLAIM))"

definition admitted_reason :: "string \<Rightarrow> string" where
  "admitted_reason classification =
     (if classification = HTTP_STATE_TRANSITION_CLASSIFICATION
      then ''HTTP_STATE_TRANSITION_AUTHORIZATION_CANDIDATE_SEEDED_FROM_EVIDENCE''
      else if classification = HTTP_AUTHORIZATION_DIFFERENTIAL_CLASSIFICATION
      then ''HTTP_AUTHORIZATION_DIFFERENTIAL_CANDIDATE_SEEDED_FROM_EVIDENCE''
      else ''DIAGNOSTIC_CANDIDATE_SEEDED_FROM_EVIDENCE'')"

definition admit_candidate ::
    "candidate_proposal \<Rightarrow> candidate_admission_context \<Rightarrow> candidate_admission_decision" where
  "admit_candidate proposal context =
     (let codes = candidate_codes proposal context in
      if ccx_authoritative_out_of_scope context
      then candidate_decision CA_REJECTED_POLICY_CONFLICT (''AUTHORITATIVE_OUT_OF_SCOPE'' # codes) proposal
      else if ''WRONG_RESEARCH_RUN'' \<in> set codes \<or> ''EVIDENCE_WRONG_RUN'' \<in> set codes \<or> ''MISSING_EVIDENCE'' \<in> set codes
      then candidate_decision CA_REJECTED_BROKEN_PROVENANCE codes proposal
      else if ''HALLUCINATED_OR_ABSENT_EVIDENCE'' \<in> set codes
      then candidate_decision CA_REJECTED_BROKEN_PROVENANCE codes proposal
      else if cp_classification proposal \<notin> set ALLOWED_CANDIDATE_CLASSIFICATIONS
      then candidate_decision CA_REJECTED_NOT_TESTABLE (''UNSUPPORTED_CANDIDATE_CLASSIFICATION'' # codes) proposal
      else let evidence_claims = map cer_claim_scope
                 (filter (\<lambda>item. cer_evidence_id item \<in> set (cp_evidence_ids proposal)) (ccx_evidence context))
      in if (cp_classification proposal = HTTP_STATE_TRANSITION_CLASSIFICATION
               \<and> HTTP_AUTHORIZATION_DIFFERENTIAL_CLAIM \<in> set evidence_claims)
          \<or> (cp_classification proposal = HTTP_AUTHORIZATION_DIFFERENTIAL_CLASSIFICATION
               \<and> HTTP_STATE_TRANSITION_CLAIM \<in> set evidence_claims)
      then candidate_decision CA_REJECTED_NOT_TESTABLE (''CROSS_CLASS_EVIDENCE_REJECTED'' # codes) proposal
      else case expected_claims (cp_classification proposal) of (expected_claim, expected_evidence_claim) \<Rightarrow>
      if cp_claim proposal \<noteq> expected_claim
      then candidate_decision CA_REJECTED_NOT_TESTABLE (''CLAIM_NOT_TESTABLE_FOR_CLASSIFICATION'' # codes) proposal
      else case filter (\<lambda>item. cer_evidence_id item \<in> set (cp_evidence_ids proposal)
               \<and> cer_polarity item = evidence_polarity_value EP_SUPPORTING
               \<and> cer_claim_scope item = expected_evidence_claim) (ccx_evidence context) of
          [] \<Rightarrow> candidate_decision CA_REJECTED_INSUFFICIENT_SUPPORT (''EVIDENCE_DOES_NOT_SUPPORT_CLAIM'' # codes) proposal
        | first # _ \<Rightarrow>
            if cp_claim proposal \<noteq> cer_claim_scope first
            then candidate_decision CA_REJECTED_CLAIM_EXCEEDS_EVIDENCE (''CLAIM_EXCEEDS_EVIDENCE_SCOPE'' # codes) proposal
            else if cp_duplicate_of_candidate_id proposal \<noteq> None
                 \<and> cp_duplicate_of_candidate_id proposal \<noteq> ccx_known_duplicate_candidate_id context
            then candidate_decision CA_REJECTED_BROKEN_PROVENANCE (''UNKNOWN_DUPLICATE_REFERENCE'' # codes) proposal
            else if codes \<noteq> []
            then candidate_decision CA_REJECTED_INSUFFICIENT_SUPPORT codes proposal
            else \<lparr>cadm_outcome = CA_ADMITTED, cadm_reason_codes = [admitted_reason (cp_classification proposal)],
                  cadm_proposal = proposal, cadm_admitted = True, cadm_initial_state = Some CS_OPEN\<rparr>)"

section \<open>Lifecycle\<close>

definition transition_candidate :: "candidate_state \<Rightarrow> candidate_state \<Rightarrow> research_error + candidate_state" where
  "transition_candidate current target =
     (if (current, target) \<notin> set LEGAL_CANDIDATE_TRANSITIONS
      then Inl (ResearchInputError ''illegal Candidate transition'')
      else Inr target)"

definition start_candidate_verification :: "candidate_state \<Rightarrow> research_error + candidate_state" where
  "start_candidate_verification current = transition_candidate current CS_VERIFYING"

text \<open>A sequence of requested transitions, stopping at the first that raises.\<close>

fun run_candidate :: "candidate_state \<Rightarrow> candidate_state list \<Rightarrow> research_error + candidate_state" where
  "run_candidate s [] = Inr s"
| "run_candidate s (t # ts) = bindE (transition_candidate s t) (\<lambda>s'. run_candidate s' ts)"

definition legal_candidate :: "candidate_state \<Rightarrow> candidate_state \<Rightarrow> bool" where
  "legal_candidate s t \<longleftrightarrow> transition_candidate s t = Inr t"

fun candidate_rank :: "candidate_state \<Rightarrow> nat" where
  "candidate_rank CS_OPEN = 2"
| "candidate_rank CS_VERIFYING = 1"
| "candidate_rank _ = 0"

lemma transition_candidate_Inr_iff:
  "transition_candidate s t = Inr u \<longleftrightarrow> u = t \<and> (s, t) \<in> set LEGAL_CANDIDATE_TRANSITIONS"
  by (auto simp: transition_candidate_def)

interpretation candidate: lifecycle legal_candidate "\<lambda>s. s \<in> set TERMINAL_CANDIDATE_STATES" candidate_rank
  by unfold_locales
     (auto simp: legal_candidate_def transition_candidate_Inr_iff LEGAL_CANDIDATE_TRANSITIONS_def
       TERMINAL_CANDIDATE_STATES_def)

lemma run_candidate_path:
  "run_candidate s ts = Inr u \<Longrightarrow> legal_path legal_candidate s ts \<and> u = last (s # ts)"
  by (induction ts arbitrary: s)
     (auto simp: result_simps legal_candidate_def transition_candidate_Inr_iff split: if_splits)

section \<open>The admission policy\<close>

definition candidate_provenance_intact :: "candidate_proposal \<Rightarrow> candidate_admission_context \<Rightarrow> bool" where
  "candidate_provenance_intact p c \<longleftrightarrow>
     cp_research_run_id p = ccx_research_run_id c \<and> cp_hypothesis_id p = ccx_hypothesis_id c
     \<and> ccx_missing_evidence_ids c = []
     \<and> cp_evidence_ids p \<noteq> [] \<and> set (cp_evidence_ids p) \<subseteq> set (ccx_evidence_ids c)
     \<and> (\<forall>e \<in> set (ccx_evidence c). cer_research_run_id e = ccx_research_run_id c
                                 \<and> cer_hypothesis_id e = ccx_hypothesis_id c)
     \<and> (cp_duplicate_of_candidate_id p = None
        \<or> cp_duplicate_of_candidate_id p = ccx_known_duplicate_candidate_id c)"

definition cited_evidence :: "candidate_proposal \<Rightarrow> candidate_admission_context \<Rightarrow> candidate_evidence_ref set" where
  "cited_evidence p c = {e \<in> set (ccx_evidence c). cer_evidence_id e \<in> set (cp_evidence_ids p)}"

definition candidate_claim_supported :: "candidate_proposal \<Rightarrow> candidate_admission_context \<Rightarrow> bool" where
  "candidate_claim_supported p c \<longleftrightarrow>
     cp_classification p \<in> set ALLOWED_CANDIDATE_CLASSIFICATIONS
     \<and> cp_claim p = snd (expected_claims (cp_classification p))
     \<and> (\<exists>e \<in> cited_evidence p c. cer_polarity e = ''SUPPORTING'' \<and> cer_claim_scope e = cp_claim p)
     \<and> (cp_classification p = HTTP_STATE_TRANSITION_CLASSIFICATION \<longrightarrow>
          (\<forall>e \<in> cited_evidence p c. cer_claim_scope e \<noteq> HTTP_AUTHORIZATION_DIFFERENTIAL_CLAIM))
     \<and> (cp_classification p = HTTP_AUTHORIZATION_DIFFERENTIAL_CLASSIFICATION \<longrightarrow>
          (\<forall>e \<in> cited_evidence p c. cer_claim_scope e \<noteq> HTTP_STATE_TRANSITION_CLAIM))"

lemma expected_claims_equal: "fst (expected_claims k) = snd (expected_claims k)"
  by (simp add: expected_claims_def DIAGNOSTIC_CANDIDATE_CLAIM_def
      HTTP_AUTHORIZATION_DIFFERENTIAL_CANDIDATE_CLAIM_def HTTP_STATE_TRANSITION_CANDIDATE_CLAIM_def)

lemma evidence_loop_code_Nil:
  "evidence_loop_code c es = [] \<longleftrightarrow> (\<forall>e \<in> set es. cer_research_run_id e = ccx_research_run_id c
     \<and> cer_hypothesis_id e = ccx_hypothesis_id c)"
  by (induction es) auto

lemma candidate_codes_Nil:
  "candidate_codes p c = [] \<and> (cp_duplicate_of_candidate_id p = None
      \<or> cp_duplicate_of_candidate_id p = ccx_known_duplicate_candidate_id c)
   \<longleftrightarrow> candidate_provenance_intact p c"
  by (auto simp: candidate_codes_def candidate_provenance_intact_def evidence_loop_code_Nil filter_empty_conv)

lemma candidate_decision_sel [simp]:
  "cadm_outcome (candidate_decision oc r p) = oc" "cadm_admitted (candidate_decision oc r p) = False"
  by (simp_all add: candidate_decision_def)

lemma creates_candidate_decision [simp]: "\<not> creates_candidate (candidate_decision oc r p)"
  by (simp add: creates_candidate_def)

lemma creates_candidate_if [simp]:
  "creates_candidate (if b then candidate_decision oc r p else d) \<longleftrightarrow> \<not> b \<and> creates_candidate d"
  by simp

lemma admit_candidate_filter:
  assumes "filter P (ccx_evidence c) = x # xs" "P = (\<lambda>e. cer_evidence_id e \<in> set (cp_evidence_ids p)
      \<and> cer_polarity e = evidence_polarity_value EP_SUPPORTING \<and> cer_claim_scope e = k)"
  shows "x \<in> cited_evidence p c \<and> cer_polarity x = ''SUPPORTING'' \<and> cer_claim_scope x = k"
proof -
  have "x \<in> set (filter P (ccx_evidence c))" by (simp add: assms(1))
  then show ?thesis by (auto simp: assms(2) cited_evidence_def)
qed

lemma admit_candidate_iff:
  "creates_candidate (admit_candidate p c) \<longleftrightarrow>
     \<not> ccx_authoritative_out_of_scope c \<and> candidate_provenance_intact p c \<and> candidate_claim_supported p c"
  (is "?L \<longleftrightarrow> ?R")
proof -
  let ?codes = "candidate_codes p c" and ?k = "snd (expected_claims (cp_classification p))"
  let ?P = "\<lambda>e. cer_evidence_id e \<in> set (cp_evidence_ids p)
      \<and> cer_polarity e = evidence_polarity_value EP_SUPPORTING \<and> cer_claim_scope e = ?k"
  have cross: "F \<in> set (map cer_claim_scope (filter (\<lambda>item. cer_evidence_id item \<in> set (cp_evidence_ids p)) (ccx_evidence c)))
      \<longleftrightarrow> (\<exists>e \<in> cited_evidence p c. cer_claim_scope e = F)" for F
    by (auto simp: cited_evidence_def)
  show ?thesis
  proof (cases "filter ?P (ccx_evidence c)")
    case Nil
    then have "\<not> candidate_claim_supported p c"
      by (auto simp: candidate_claim_supported_def cited_evidence_def filter_empty_conv)
    moreover have "\<not> ?L"
      using Nil by (simp add: admit_candidate_def Let_def case_prod_beta)
    ultimately show ?thesis by blast
  next
    case (Cons x xs)
    note x = admit_candidate_filter [OF Cons refl]
    have codes: "?codes = [] \<Longrightarrow> t \<notin> set ?codes" for t by simp
    have "?L \<longleftrightarrow> \<not> ccx_authoritative_out_of_scope c \<and> ?codes = []
        \<and> cp_classification p \<in> set ALLOWED_CANDIDATE_CLASSIFICATIONS
        \<and> \<not> (cp_classification p = HTTP_STATE_TRANSITION_CLASSIFICATION
               \<and> (\<exists>e \<in> cited_evidence p c. cer_claim_scope e = HTTP_AUTHORIZATION_DIFFERENTIAL_CLAIM))
        \<and> \<not> (cp_classification p = HTTP_AUTHORIZATION_DIFFERENTIAL_CLASSIFICATION
               \<and> (\<exists>e \<in> cited_evidence p c. cer_claim_scope e = HTTP_STATE_TRANSITION_CLAIM))
        \<and> cp_claim p = ?k
        \<and> (cp_duplicate_of_candidate_id p = None
           \<or> cp_duplicate_of_candidate_id p = ccx_known_duplicate_candidate_id c)"
      unfolding admit_candidate_def Let_def case_prod_beta Cons list.case cross
        creates_candidate_if expected_claims_equal
      using x by (simp add: creates_candidate_def)
        (rule iffI; elim conjE; intro conjI; (assumption | erule codes))
    moreover have "candidate_claim_supported p c \<longleftrightarrow>
          cp_classification p \<in> set ALLOWED_CANDIDATE_CLASSIFICATIONS
        \<and> \<not> (cp_classification p = HTTP_STATE_TRANSITION_CLASSIFICATION
               \<and> (\<exists>e \<in> cited_evidence p c. cer_claim_scope e = HTTP_AUTHORIZATION_DIFFERENTIAL_CLAIM))
        \<and> \<not> (cp_classification p = HTTP_AUTHORIZATION_DIFFERENTIAL_CLASSIFICATION
               \<and> (\<exists>e \<in> cited_evidence p c. cer_claim_scope e = HTTP_STATE_TRANSITION_CLAIM))
        \<and> cp_claim p = ?k"
      using x by (auto simp: candidate_claim_supported_def)
    ultimately show ?thesis
      unfolding candidate_codes_Nil [symmetric]
      by (simp only:) (rule iffI; elim conjE; intro conjI; assumption)
  qed
qed

section \<open>Properties\<close>

text \<open>
  C26. A Candidate is created exactly when the run is not declared out of scope, the provenance is
  intact and the claim is the one of its classification, carried by a cited SUPPORTING evidence and
  contradicted by no cited evidence of the other HTTP class; the branch for a claim that exceeds its
  evidence is never taken.
\<close>

theorem admit_candidate_characterised:
  "(creates_candidate (admit_candidate p c) \<longleftrightarrow>
     \<not> ccx_authoritative_out_of_scope c \<and> candidate_provenance_intact p c \<and> candidate_claim_supported p c) \<and>
   cadm_outcome (admit_candidate p c) \<noteq> CA_REJECTED_CLAIM_EXCEEDS_EVIDENCE"
proof
  show "creates_candidate (admit_candidate p c) \<longleftrightarrow>
     \<not> ccx_authoritative_out_of_scope c \<and> candidate_provenance_intact p c \<and> candidate_claim_supported p c"
    by (rule admit_candidate_iff)
  show "cadm_outcome (admit_candidate p c) \<noteq> CA_REJECTED_CLAIM_EXCEEDS_EVIDENCE"
  proof (cases "filter (\<lambda>e. cer_evidence_id e \<in> set (cp_evidence_ids p)
      \<and> cer_polarity e = evidence_polarity_value EP_SUPPORTING
      \<and> cer_claim_scope e = snd (expected_claims (cp_classification p))) (ccx_evidence c)")
    case Nil
    then show ?thesis by (simp add: admit_candidate_def Let_def case_prod_beta)
  next
    case (Cons x xs)
    then have "cer_claim_scope x = snd (expected_claims (cp_classification p))"
      using admit_candidate_filter [OF Cons refl] by blast
    then show ?thesis
      unfolding admit_candidate_def Let_def case_prod_beta Cons list.case expected_claims_equal by simp
  qed
qed



end
