(* ===== verification/Verification.thy ===== *)
theory Verification
  imports Candidate
begin

text \<open>
  The deterministic verification engine (\<open>research/verification.py\<close>): plans, the context a verifier may
  consume, the three verifiers and the application of their result to a Candidate.
\<close>

section \<open>Vocabulary\<close>

definition DIAGNOSTIC_VERIFICATION_STRATEGY :: string where
  "DIAGNOSTIC_VERIFICATION_STRATEGY = ''diagnostic.echo.reproduction.v1''"

definition HTTP_AUTHORIZATION_DIFFERENTIAL_VERIFICATION_STRATEGY :: string where
  "HTTP_AUTHORIZATION_DIFFERENTIAL_VERIFICATION_STRATEGY = ''http.authorization.differential.reproduction.v1''"

definition HTTP_STATE_TRANSITION_VERIFICATION_STRATEGY :: string where
  "HTTP_STATE_TRANSITION_VERIFICATION_STRATEGY = ''http.state_transition.reproduction.v1''"

definition DIAGNOSTIC_VERIFIER_KIND :: string where
  "DIAGNOSTIC_VERIFIER_KIND = ''DETERMINISTIC''"

definition DIAGNOSTIC_VERIFIER_IDENTITY :: string where
  "DIAGNOSTIC_VERIFIER_IDENTITY = ''diagnostic.echo.verifier.v1''"

definition HTTP_AUTHORIZATION_DIFFERENTIAL_VERIFIER_IDENTITY :: string where
  "HTTP_AUTHORIZATION_DIFFERENTIAL_VERIFIER_IDENTITY = ''http.authorization.differential.verifier.v1''"

definition HTTP_STATE_TRANSITION_VERIFIER_IDENTITY :: string where
  "HTTP_STATE_TRANSITION_VERIFIER_IDENTITY = ''http.state_transition.verifier.v1''"

definition DIAGNOSTIC_NEGATIVE_CONTROL_TOKEN :: string where
  "DIAGNOSTIC_NEGATIVE_CONTROL_TOKEN = ''__diagnostic_control_fail__''"

definition FORBIDDEN_VERIFICATION_KEYS :: "string list" where
  "FORBIDDEN_VERIFICATION_KEYS =
     [''severity'', ''cvss'', ''finding'', ''finding_proposal'', ''exploitability'', ''authorization'', ''confidence'']"

datatype verification_outcome = VO_VALIDATED | VO_REJECTED | VO_INCONCLUSIVE | VO_DUPLICATE | VO_OUT_OF_SCOPE

fun verification_outcome_value :: "verification_outcome \<Rightarrow> string" where
  "verification_outcome_value VO_VALIDATED = ''VALIDATED''"
| "verification_outcome_value VO_REJECTED = ''REJECTED''"
| "verification_outcome_value VO_INCONCLUSIVE = ''INCONCLUSIVE''"
| "verification_outcome_value VO_DUPLICATE = ''DUPLICATE''"
| "verification_outcome_value VO_OUT_OF_SCOPE = ''OUT_OF_SCOPE''"

section \<open>Evidence, plans, contexts and results\<close>

record verification_evidence_ref =
  ver_evidence_id :: string
  ver_research_run_id :: string
  ver_experiment_id :: string
  ver_request_id :: string
  ver_observation_ids :: "string list"
  ver_polarity :: string
  ver_claim_scope :: string
  ver_observed_echo :: "string option"
  ver_observed_facts :: "payload option"

definition post_init_verification_evidence_ref ::
    "verification_evidence_ref \<Rightarrow> research_error + verification_evidence_ref" where
  "post_init_verification_evidence_ref r =
     bindE (strip_text (ver_evidence_id r) ''evidence_id'') (\<lambda>evidence_id.
     bindE (strip_text (ver_research_run_id r) ''research_run_id'') (\<lambda>research_run_id.
     bindE (strip_text (ver_experiment_id r) ''experiment_id'') (\<lambda>experiment_id.
     bindE (strip_text (ver_request_id r) ''request_id'') (\<lambda>request_id.
     bindE (strip_ids (ver_observation_ids r) ''observation_ids'') (\<lambda>observation_ids.
     bindE (strip_text (ver_polarity r) ''polarity'') (\<lambda>polarity.
     bindE (strip_text (ver_claim_scope r) ''claim_scope'') (\<lambda>claim_scope.
     bindE (strip_text_opt (ver_observed_echo r) ''observed_echo'') (\<lambda>observed_echo.
     bindE (case ver_observed_facts r of None \<Rightarrow> Inr None
            | Some f \<Rightarrow> bindE (reject_forbidden FORBIDDEN_VERIFICATION_KEYS f ''observed_facts'') (\<lambda>g. Inr (Some g))) (\<lambda>observed_facts.
     Inr \<lparr>ver_evidence_id = evidence_id, ver_research_run_id = research_run_id,
          ver_experiment_id = experiment_id, ver_request_id = request_id,
          ver_observation_ids = observation_ids, ver_polarity = polarity, ver_claim_scope = claim_scope,
          ver_observed_echo = observed_echo, ver_observed_facts = observed_facts\<rparr>)))))))))"

record verification_plan =
  vp_candidate_id :: string
  vp_verification_strategy :: string
  vp_expected_security_behavior :: string
  vp_observed_behavior_to_confirm :: string
  vp_negative_control_intent :: string
  vp_alternative_explanations_to_test :: "string list"
  vp_required_original_evidence_ids :: "string list"
  vp_maximum_side_effect_level :: int
  vp_negative_control_token :: string

definition post_init_verification_plan :: "verification_plan \<Rightarrow> research_error + verification_plan" where
  "post_init_verification_plan p =
     bindE (strip_text (vp_candidate_id p) ''candidate_id'') (\<lambda>candidate_id.
     bindE (strip_text (vp_verification_strategy p) ''verification_strategy'') (\<lambda>strategy.
     bindE (strip_text (vp_expected_security_behavior p) ''expected_security_behavior'') (\<lambda>expected.
     bindE (strip_text (vp_observed_behavior_to_confirm p) ''observed_behavior_to_confirm'') (\<lambda>observed.
     bindE (strip_text (vp_negative_control_intent p) ''negative_control_intent'') (\<lambda>intent.
     bindE (strip_ids (vp_required_original_evidence_ids p) ''required_original_evidence_ids'') (\<lambda>ids.
     bindE (if vp_maximum_side_effect_level p \<notin> {0, 1, 2, 3}
            then Inl (ResearchInputError ''maximum_side_effect_level must be 0, 1, 2, or 3'') else Inr ()) (\<lambda>_.
     bindE (strip_text (vp_negative_control_token p) ''negative_control_token'') (\<lambda>token.
     Inr (p\<lparr>vp_candidate_id := candidate_id, vp_verification_strategy := strategy,
            vp_expected_security_behavior := expected, vp_observed_behavior_to_confirm := observed,
            vp_negative_control_intent := intent, vp_required_original_evidence_ids := ids,
            vp_negative_control_token := token\<rparr>)))))))))"

record verification_context =
  vc_candidate_id :: string
  vc_candidate_state :: candidate_state
  vc_research_run_id :: string
  vc_hypothesis_id :: string
  vc_claim :: string
  vc_plan :: verification_plan
  vc_original_evidence :: verification_evidence_ref
  vc_reproduction_evidence :: "verification_evidence_ref option"
  vc_negative_control_evidence :: "verification_evidence_ref option"
  vc_reproduction_execution_unusable :: bool
  vc_authoritative_out_of_scope :: bool
  vc_duplicate_of_candidate_id :: "string option"
  vc_known_duplicate_exists :: bool
  vc_reproduction_assessment_outcome :: "assessment_outcome option"
  vc_reproduction_experiment_id :: "string option"
  vc_reproduction_request_id :: "string option"
  vc_reproduction_observation_ids :: "string list"

definition post_init_verification_context :: "verification_context \<Rightarrow> research_error + verification_context" where
  "post_init_verification_context c =
     bindE (strip_text (vc_candidate_id c) ''candidate_id'') (\<lambda>candidate_id.
     bindE (strip_text (vc_research_run_id c) ''research_run_id'') (\<lambda>research_run_id.
     bindE (strip_text (vc_hypothesis_id c) ''hypothesis_id'') (\<lambda>hypothesis_id.
     bindE (strip_text (vc_claim c) ''claim'') (\<lambda>claim.
     bindE (strip_text_opt (vc_duplicate_of_candidate_id c) ''duplicate_of_candidate_id'') (\<lambda>duplicate_of.
     bindE (strip_text_opt (vc_reproduction_experiment_id c) ''reproduction_experiment_id'') (\<lambda>experiment_id.
     bindE (strip_text_opt (vc_reproduction_request_id c) ''reproduction_request_id'') (\<lambda>request_id.
     Inr (c\<lparr>vc_candidate_id := candidate_id, vc_research_run_id := research_run_id,
            vc_hypothesis_id := hypothesis_id, vc_claim := claim,
            vc_duplicate_of_candidate_id := duplicate_of, vc_reproduction_experiment_id := experiment_id,
            vc_reproduction_request_id := request_id\<rparr>))))))))"

record verification_result =
  vr_outcome :: verification_outcome
  vr_reason_codes :: "string list"
  vr_proposed_candidate_state :: candidate_state
  vr_original_evidence_ids :: "string list"
  vr_reproduction_evidence_ids :: "string list"
  vr_negative_control_evidence_ids :: "string list"
  vr_alternative_explanation_checks :: payload
  vr_verifier_kind :: string
  vr_verifier_identity :: string
  vr_strategy :: string

definition post_init_verification_result :: "verification_result \<Rightarrow> research_error + verification_result" where
  "post_init_verification_result r =
     (if candidate_state_value (vr_proposed_candidate_state r) \<noteq> verification_outcome_value (vr_outcome r)
      then Inl (ResearchInputError ''proposed_candidate_state must match outcome'')
      else bindE (strip_ids (vr_reason_codes r) ''reason_codes'') (\<lambda>reason_codes.
      bindE (strip_ids (vr_original_evidence_ids r) ''original_evidence_ids'') (\<lambda>original_ids.
      bindE (reject_forbidden FORBIDDEN_VERIFICATION_KEYS (vr_alternative_explanation_checks r)
          ''alternative_explanation_checks'') (\<lambda>checks.
      bindE (strip_text (vr_verifier_kind r) ''verifier_kind'') (\<lambda>kind.
      bindE (strip_text (vr_verifier_identity r) ''verifier_identity'') (\<lambda>identity.
      bindE (strip_text (vr_strategy r) ''strategy'') (\<lambda>strategy.
      Inr (r\<lparr>vr_reason_codes := reason_codes, vr_original_evidence_ids := original_ids,
             vr_alternative_explanation_checks := checks, vr_verifier_kind := kind,
             vr_verifier_identity := identity, vr_strategy := strategy\<rparr>))))))))"

section \<open>Plans\<close>

definition plan_diagnostic_verification :: "string \<Rightarrow> string list \<Rightarrow> research_error + verification_plan" where
  "plan_diagnostic_verification candidate_id original_evidence_ids = post_init_verification_plan
     \<lparr>vp_candidate_id = candidate_id, vp_verification_strategy = DIAGNOSTIC_VERIFICATION_STRATEGY,
      vp_expected_security_behavior = ''diagnostic echo returns the submitted value of a NEW experiment plan'',
      vp_observed_behavior_to_confirm = ''echoed value equals the reproduction submitted value'',
      vp_negative_control_intent = ''echo must not equal the diagnostic negative-control fail token'',
      vp_alternative_explanations_to_test =
        [''original observation reused as sole proof'', ''control fail token would satisfy the claim''],
      vp_required_original_evidence_ids = original_evidence_ids, vp_maximum_side_effect_level = 0,
      vp_negative_control_token = DIAGNOSTIC_NEGATIVE_CONTROL_TOKEN\<rparr>"

definition plan_authorization_differential_verification ::
    "string \<Rightarrow> string list \<Rightarrow> research_error + verification_plan" where
  "plan_authorization_differential_verification candidate_id original_evidence_ids = post_init_verification_plan
     \<lparr>vp_candidate_id = candidate_id,
      vp_verification_strategy = HTTP_AUTHORIZATION_DIFFERENTIAL_VERIFICATION_STRATEGY,
      vp_expected_security_behavior =
        ''object access control prevents an authenticated actor from reading another '' @ ''actor's account object'',
      vp_observed_behavior_to_confirm =
        ''fresh independent experiment reproduces cross-object account read with the '' @ ''returned object owner proven'',
      vp_negative_control_intent = ''secure-control and unauthenticated requests remain denied'',
      vp_alternative_explanations_to_test =
        [''original observation reused as sole proof'', ''HTTP 200 without proven object owner'',
         ''secure control would also return the other actor's object''],
      vp_required_original_evidence_ids = original_evidence_ids, vp_maximum_side_effect_level = 0,
      vp_negative_control_token = DIAGNOSTIC_NEGATIVE_CONTROL_TOKEN\<rparr>"

definition plan_state_transition_verification ::
    "string \<Rightarrow> string list \<Rightarrow> research_error + verification_plan" where
  "plan_state_transition_verification candidate_id original_evidence_ids = post_init_verification_plan
     \<lparr>vp_candidate_id = candidate_id, vp_verification_strategy = HTTP_STATE_TRANSITION_VERIFICATION_STRATEGY,
      vp_expected_security_behavior =
        ''workflow authorization prevents a requester from approving or skipping '' @ ''required states'',
      vp_observed_behavior_to_confirm =
        ''fresh independent experiment reproduces an unauthorized workflow state '' @
        ''transition with authoritative pre-state and post-state'',
      vp_negative_control_intent = ''control-path transition remains denied or conflicted'',
      vp_alternative_explanations_to_test =
        [''original observation reused as sole proof'', ''HTTP 200 without authoritative state change'',
         ''explicit delegated reviewer authority'', ''idempotent repeat of an already completed transition''],
      vp_required_original_evidence_ids = original_evidence_ids, vp_maximum_side_effect_level = 1,
      vp_negative_control_token = DIAGNOSTIC_NEGATIVE_CONTROL_TOKEN\<rparr>"

section \<open>Independence and controls\<close>

definition disjoint_ids :: "string list \<Rightarrow> string list \<Rightarrow> bool" where
  "disjoint_ids xs ys = (\<not> list_ex (\<lambda>x. x \<in> set ys) xs)"

definition independent :: "verification_evidence_ref \<Rightarrow> verification_evidence_ref \<Rightarrow> bool" where
  "independent original reproduction =
     (if ver_evidence_id original = ver_evidence_id reproduction then False
      else if ver_experiment_id original = ver_experiment_id reproduction then False
      else if ver_request_id original = ver_request_id reproduction then False
      else disjoint_ids (ver_observation_ids original) (ver_observation_ids reproduction))"

definition reproduction_ids :: "verification_context \<Rightarrow> string list" where
  "reproduction_ids c =
     (case vc_reproduction_evidence c of None \<Rightarrow> [] | Some r \<Rightarrow> [ver_evidence_id r])"

definition reproduction_independent_of_original :: "verification_context \<Rightarrow> bool" where
  "reproduction_independent_of_original c =
     (let original = vc_original_evidence c;
          (experiment_id, request_id, observation_ids) =
            (case vc_reproduction_evidence c of
               None \<Rightarrow> (vc_reproduction_experiment_id c, vc_reproduction_request_id c, vc_reproduction_observation_ids c)
             | Some r \<Rightarrow> (Some (ver_experiment_id r), Some (ver_request_id r), ver_observation_ids r))
      in if (case vc_reproduction_evidence c of None \<Rightarrow> False
             | Some r \<Rightarrow> ver_evidence_id original = ver_evidence_id r) then False
         else if experiment_id \<in> {None, Some []} \<or> request_id \<in> {None, Some []} then False
         else if Some (ver_experiment_id original) = experiment_id then False
         else if Some (ver_request_id original) = request_id then False
         else disjoint_ids (ver_observation_ids original) observation_ids)"

definition str_is :: "json \<Rightarrow> (string \<Rightarrow> bool) \<Rightarrow> bool" where
  "str_is j P = (case j of JStr s \<Rightarrow> P s | _ \<Rightarrow> False)"

definition actor_in_readers :: "json \<Rightarrow> json \<Rightarrow> bool" where
  "actor_in_readers actor readers =
     (case readers of JArr rs \<Rightarrow> str_is actor (\<lambda>a. JStr a \<in> set rs) | _ \<Rightarrow> False)"

text \<open>\<open>value in {401, ...}\<close>: a list or a dict is not hashable, so the test raises.\<close>

definition in_int_set :: "json \<Rightarrow> int list \<Rightarrow> research_error + bool" where
  "in_int_set v ns =
     (case v of
        JArr _ \<Rightarrow> Inl (PyTypeError ''unhashable type'')
      | JObj _ \<Rightarrow> Inl (PyTypeError ''unhashable type'')
      | JInt n \<Rightarrow> Inr (n \<in> set ns)
      | _ \<Rightarrow> Inr False)"

definition controls_held :: "payload option \<Rightarrow> research_error + bool" where
  "controls_held facts =
     (case facts of
        None \<Rightarrow> Inr False
      | Some f \<Rightarrow>
          let secure = jget f ''secure_control_status'';
              unauth = jget f ''unauthenticated_control_status'';
              cross_owner = jget f ''cross_object_request_object_owner'';
              cross_status = jget f ''cross_object_request_status'';
              actor = jget f ''actor'';
              visibility = jget f ''cross_object_request_visibility'';
              kind = jget f ''cross_object_request_resource_kind'';
              readers = jget f ''cross_object_request_authorized_readers''
          in if str_is visibility (\<lambda>s. py_upper (py_strip s) = ''PUBLIC'') then Inr False
             else if str_is kind (\<lambda>s. py_upper (py_strip s) = ''SHARED'') then Inr False
             else if actor_in_readers actor readers then Inr False
             else if secure \<noteq> JInt 403 then Inr False
             else bindE (in_int_set unauth [401, 403]) (\<lambda>denied.
               Inr (denied \<and> cross_status = JInt 200 \<and> str_is cross_owner (\<lambda>s. \<not> blank s)
                    \<and> str_is actor (\<lambda>s. \<not> blank s) \<and> cross_owner \<noteq> actor)))"

definition workflow_controls_held :: "payload option \<Rightarrow> research_error + bool" where
  "workflow_controls_held facts =
     (case facts of
        None \<Rightarrow> Inr False
      | Some f \<Rightarrow>
          let control = jget f ''control_status'';
              post_state = jget f ''post_state'';
              pre_state = jget f ''pre_state'';
              actor = jget f ''actor'';
              actor_role = jget f ''actor_role'';
              approved_by = jget f ''approved_by'';
              readers = jget f ''delegated_reviewers''
          in if actor_in_readers actor readers then Inr False
             else bindE (in_int_set control [401, 403, 409]) (\<lambda>denied.
               Inr (denied \<and> post_state = JStr ''APPROVED'' \<and> pre_state \<noteq> post_state
                    \<and> actor_role = JStr ''requester'' \<and> str_is actor (\<lambda>s. \<not> blank s)
                    \<and> approved_by = actor)))"

section \<open>The verifiers\<close>

text \<open>\<open>CandidateState(outcome.value)\<close>.\<close>

fun state_of_outcome :: "verification_outcome \<Rightarrow> candidate_state" where
  "state_of_outcome VO_VALIDATED = CS_VALIDATED"
| "state_of_outcome VO_REJECTED = CS_REJECTED"
| "state_of_outcome VO_INCONCLUSIVE = CS_INCONCLUSIVE"
| "state_of_outcome VO_DUPLICATE = CS_DUPLICATE"
| "state_of_outcome VO_OUT_OF_SCOPE = CS_OUT_OF_SCOPE"

lemma state_of_outcome_value: "candidate_state_of (verification_outcome_value oc) = Some (state_of_outcome oc)"
  by (cases oc) (simp_all add: candidate_state_of_def all_candidate_states_def)

definition verification_result_of ::
    "verification_outcome \<Rightarrow> verification_context \<Rightarrow> string list \<Rightarrow> string list \<Rightarrow> string list \<Rightarrow> payload \<Rightarrow> string
     \<Rightarrow> research_error + verification_result" where
  "verification_result_of oc c reason_codes reproduction control checks identity =
     post_init_verification_result
       \<lparr>vr_outcome = oc, vr_reason_codes = reason_codes, vr_proposed_candidate_state = state_of_outcome oc,
        vr_original_evidence_ids = [ver_evidence_id (vc_original_evidence c)],
        vr_reproduction_evidence_ids = reproduction, vr_negative_control_evidence_ids = control,
        vr_alternative_explanation_checks = checks, vr_verifier_kind = DIAGNOSTIC_VERIFIER_KIND,
        vr_verifier_identity = identity, vr_strategy = vp_verification_strategy (vc_plan c)\<rparr>"

definition diagnostic_checks :: "string \<Rightarrow> string option \<Rightarrow> bool \<Rightarrow> payload" where
  "diagnostic_checks token observed control_held =
     [(''negative_control_token'', JStr token),
      (''reproduction_observed_echo'', case observed of None \<Rightarrow> JNull | Some s \<Rightarrow> JStr s),
      (''negative_control_held'', JBool control_held), (''not_a_vulnerability'', JBool True),
      (''not_a_finding'', JBool True)]"

definition evaluate_diagnostic_verification ::
    "verification_context \<Rightarrow> research_error + verification_result" where
  "evaluate_diagnostic_verification c =
     (if vp_candidate_id (vc_plan c) \<noteq> vc_candidate_id c
      then Inl (ResearchInputError ''VerificationPlan candidate_id mismatch'')
      else if vp_verification_strategy (vc_plan c) \<noteq> DIAGNOSTIC_VERIFICATION_STRATEGY
      then Inl (ResearchInputError ''unsupported verification strategy'')
      else if ver_research_run_id (vc_original_evidence c) \<noteq> vc_research_run_id c
      then Inl (ResearchInputError ''original evidence is not in the Candidate research run'')
      else let result = (\<lambda>oc codes ids control checks. verification_result_of oc c codes ids control checks
             DIAGNOSTIC_VERIFIER_IDENTITY) in
      if vc_authoritative_out_of_scope c
      then result VO_OUT_OF_SCOPE [''AUTHORITATIVE_OUT_OF_SCOPE''] [] [] []
      else if vc_duplicate_of_candidate_id c \<noteq> None
      then (if \<not> vc_known_duplicate_exists c
            then result VO_INCONCLUSIVE [''UNKNOWN_DUPLICATE_REFERENCE''] [] [] []
            else result VO_DUPLICATE [''EXPLICIT_DUPLICATE_REFERENCE''] [] [] [])
      else if vc_reproduction_execution_unusable c
      then result VO_INCONCLUSIVE [''REPRODUCTION_UNUSABLE'', ''FAILURE_TO_VERIFY_IS_NOT_REJECTION''] [] [] []
      else case vc_reproduction_evidence c of
        None \<Rightarrow> result VO_INCONCLUSIVE [''MISSING_REPRODUCTION_EVIDENCE'', ''CANNOT_SELF_VALIDATE''] [] [] []
      | Some r \<Rightarrow>
          let rid = [ver_evidence_id r] in
          if \<not> independent (vc_original_evidence c) r
          then result VO_INCONCLUSIVE [''REPRODUCTION_NOT_INDEPENDENT'', ''CANNOT_SELF_VALIDATE''] rid [] []
          else if ver_research_run_id r \<noteq> vc_research_run_id c
          then result VO_INCONCLUSIVE [''REPRODUCTION_WRONG_RUN''] rid [] []
          else let control_ids = (case vc_negative_control_evidence c of None \<Rightarrow> [] | Some n \<Rightarrow> [ver_evidence_id n]) in
          if ver_polarity r = evidence_polarity_value EP_CONTRADICTING \<and> ver_claim_scope r = DIAGNOSTIC_ECHO_MISMATCHED_CLAIM
          then result VO_REJECTED [''REPRODUCTION_CONTRADICTS_CLAIM''] rid control_ids []
          else if \<not> (ver_polarity r = evidence_polarity_value EP_SUPPORTING \<and> ver_claim_scope r = DIAGNOSTIC_ECHO_MATCHED_CLAIM)
          then result VO_INCONCLUSIVE [''REPRODUCTION_DOES_NOT_SUPPORT_CLAIM''] rid control_ids []
          else let observed = ver_observed_echo r;
                   token = vp_negative_control_token (vc_plan c);
                   control_held = (observed \<noteq> None \<and> observed \<noteq> Some token);
                   checks = diagnostic_checks token observed control_held;
                   finish = (\<lambda>checks. if \<not> control_held
                     then result VO_INCONCLUSIVE [''NEGATIVE_CONTROL_DID_NOT_HOLD''] rid control_ids checks
                     else result VO_VALIDATED
                       [''REPRODUCTION_INDEPENDENT'', ''NEGATIVE_CONTROL_HELD'', ''DIAGNOSTIC_PLUMBING_ONLY''] rid control_ids checks)
            in case vc_negative_control_evidence c of
                 None \<Rightarrow> finish checks
               | Some control \<Rightarrow>
                   if ver_polarity control = evidence_polarity_value EP_CONTRADICTING
                      \<and> ver_claim_scope control = DIAGNOSTIC_ECHO_MISMATCHED_CLAIM
                      \<and> independent (vc_original_evidence c) control
                      \<and> ver_evidence_id control \<noteq> ver_evidence_id r
                   then finish (checks @ [(''mismatch_fixture_held'', JBool True)])
                   else result VO_INCONCLUSIVE [''NEGATIVE_CONTROL_EVIDENCE_UNUSABLE''] rid control_ids checks)"

text \<open>
  The two HTTP verifiers have the same body up to their strategy, claim, control check, reason codes
  and identity.
\<close>

definition http_reproduction_verifier ::
    "string \<Rightarrow> string \<Rightarrow> (payload option \<Rightarrow> research_error + bool) \<Rightarrow> string \<Rightarrow> string \<Rightarrow> string
     \<Rightarrow> verification_context \<Rightarrow> research_error + verification_result" where
  "http_reproduction_verifier strategy claim controls validated_code rejected_code identity c =
     (if vp_candidate_id (vc_plan c) \<noteq> vc_candidate_id c
      then Inl (ResearchInputError ''VerificationPlan candidate_id mismatch'')
      else if vp_verification_strategy (vc_plan c) \<noteq> strategy
      then Inl (ResearchInputError ''unsupported verification strategy'')
      else if ver_research_run_id (vc_original_evidence c) \<noteq> vc_research_run_id c
      then Inl (ResearchInputError ''original evidence is not in the Candidate research run'')
      else let result = (\<lambda>oc codes ids checks. verification_result_of oc c codes ids [] checks identity) in
      if vc_authoritative_out_of_scope c
      then result VO_OUT_OF_SCOPE [''AUTHORITATIVE_OUT_OF_SCOPE''] [] []
      else if vc_reproduction_execution_unusable c
      then result VO_INCONCLUSIVE [''REPRODUCTION_UNUSABLE'', ''FAILURE_TO_VERIFY_IS_NOT_REJECTION''] [] []
      else if \<not> reproduction_independent_of_original c
      then result VO_INCONCLUSIVE [''REPRODUCTION_NOT_INDEPENDENT'', ''CANNOT_SELF_VALIDATE''] (reproduction_ids c) []
      else bindE (case vc_reproduction_evidence c of None \<Rightarrow> Inr False
          | Some r \<Rightarrow> if ver_polarity r = evidence_polarity_value EP_SUPPORTING
                        \<and> ver_claim_scope r = claim
                     then controls (ver_observed_facts r) else Inr False) (\<lambda>reproduced.
      if reproduced
      then result VO_VALIDATED
             [''REPRODUCTION_INDEPENDENT'', ''NEGATIVE_CONTROL_HELD'', validated_code]
             (reproduction_ids c) [(''negative_control_held'', JBool True), (''not_a_finding'', JBool True)]
      else if vc_reproduction_assessment_outcome c = Some AO_CONTRADICTS_PREDICTION
      then result VO_REJECTED [''REPRODUCTION_CONTRADICTS_CLAIM'', rejected_code] (reproduction_ids c) []
      else result VO_INCONCLUSIVE [''REPRODUCTION_DOES_NOT_SUPPORT_CLAIM''] (reproduction_ids c) []))"

definition evaluate_authorization_differential_verification ::
    "verification_context \<Rightarrow> research_error + verification_result" where
  "evaluate_authorization_differential_verification =
     http_reproduction_verifier HTTP_AUTHORIZATION_DIFFERENTIAL_VERIFICATION_STRATEGY
       HTTP_AUTHORIZATION_DIFFERENTIAL_CLAIM controls_held ''HTTP_AUTHORIZATION_DIFFERENTIAL_REPRODUCED''
       ''OBJECT_ACCESS_CONTROL_HELD'' HTTP_AUTHORIZATION_DIFFERENTIAL_VERIFIER_IDENTITY"

definition evaluate_state_transition_verification ::
    "verification_context \<Rightarrow> research_error + verification_result" where
  "evaluate_state_transition_verification =
     http_reproduction_verifier HTTP_STATE_TRANSITION_VERIFICATION_STRATEGY
       HTTP_STATE_TRANSITION_CLAIM workflow_controls_held ''HTTP_STATE_TRANSITION_AUTHORIZATION_REPRODUCED''
       ''WORKFLOW_CONTROL_HELD'' HTTP_STATE_TRANSITION_VERIFIER_IDENTITY"

definition apply_verification_to_candidate ::
    "candidate_state \<Rightarrow> verification_result \<Rightarrow> research_error + candidate_state" where
  "apply_verification_to_candidate current result = transition_candidate current (vr_proposed_candidate_state result)"

section \<open>What VALIDATED means\<close>

text \<open>A second execution: a different evidence, experiment and request, and no shared observation.\<close>

definition separate_execution :: "verification_evidence_ref \<Rightarrow> verification_evidence_ref \<Rightarrow> bool" where
  "separate_execution a b \<longleftrightarrow> ver_evidence_id a \<noteq> ver_evidence_id b \<and> ver_experiment_id a \<noteq> ver_experiment_id b
     \<and> ver_request_id a \<noteq> ver_request_id b \<and> set (ver_observation_ids a) \<inter> set (ver_observation_ids b) = {}"

lemma disjoint_ids_iff: "disjoint_ids xs ys \<longleftrightarrow> set xs \<inter> set ys = {}"
  by (auto simp: disjoint_ids_def list_ex_iff)

lemma independent_iff: "independent a b \<longleftrightarrow> separate_execution a b"
  by (simp add: independent_def separate_execution_def disjoint_ids_iff)

lemma reproduction_independent_Some:
  "vc_reproduction_evidence c = Some r \<Longrightarrow>
   reproduction_independent_of_original c \<longleftrightarrow>
     separate_execution (vc_original_evidence c) r \<and> ver_experiment_id r \<noteq> [] \<and> ver_request_id r \<noteq> []"
  by (auto simp: reproduction_independent_of_original_def separate_execution_def disjoint_ids_iff Let_def)

lemma verification_result_of_Inr:
  "verification_result_of oc c codes ids ctl checks ident = Inr v \<Longrightarrow>
   vr_outcome v = oc \<and> vr_proposed_candidate_state v = state_of_outcome oc \<and>
   vr_reproduction_evidence_ids v = ids"
  by (auto simp: verification_result_of_def post_init_verification_result_def result_simps split: if_splits)

definition supports :: "string \<Rightarrow> verification_evidence_ref \<Rightarrow> bool" where
  "supports claim r \<longleftrightarrow> ver_polarity r = ''SUPPORTING'' \<and> ver_claim_scope r = claim"

lemma diagnostic_validated:
  assumes "evaluate_diagnostic_verification c = Inr v" "vr_outcome v = VO_VALIDATED"
  obtains r where "vc_reproduction_evidence c = Some r" "separate_execution (vc_original_evidence c) r"
    "supports DIAGNOSTIC_ECHO_MATCHED_CLAIM r" "vr_reproduction_evidence_ids v = [ver_evidence_id r]"
    "ver_research_run_id r = vc_research_run_id c"
    "ver_observed_echo r \<noteq> None" "ver_observed_echo r \<noteq> Some (vp_negative_control_token (vc_plan c))"
  using assms
  by (auto simp: evaluate_diagnostic_verification_def Let_def independent_iff supports_def
      dest!: verification_result_of_Inr split: if_splits option.splits)

lemma http_validated:
  assumes "http_reproduction_verifier strategy claim controls vcode rcode ident c = Inr v" "vr_outcome v = VO_VALIDATED"
  obtains r where "vc_reproduction_evidence c = Some r" "separate_execution (vc_original_evidence c) r"
    "supports claim r" "vr_reproduction_evidence_ids v = [ver_evidence_id r]"
    "controls (ver_observed_facts r) = Inr True"
proof -
  have ind: "reproduction_independent_of_original c"
    using assms unfolding http_reproduction_verifier_def Let_def
    by (auto dest: verification_result_of_Inr split: if_splits)
  then obtain r where r: "vc_reproduction_evidence c = Some r" "supports claim r"
      "controls (ver_observed_facts r) = Inr True" "vr_reproduction_evidence_ids v = reproduction_ids c"
    using assms unfolding http_reproduction_verifier_def Let_def
    by (auto simp: result_simps supports_def dest!: verification_result_of_Inr split: option.splits if_splits)
  with ind that show ?thesis by (simp add: reproduction_independent_Some [OF r(1)] reproduction_ids_def)
qed

lemma http_rejected:
  assumes "http_reproduction_verifier strategy claim controls vcode rcode ident c = Inr v" "vr_outcome v = VO_REJECTED"
  shows "\<not> vc_reproduction_execution_unusable c \<and> reproduction_independent_of_original c \<and>
    vc_reproduction_assessment_outcome c = Some AO_CONTRADICTS_PREDICTION"
  using assms unfolding http_reproduction_verifier_def Let_def
  by (auto simp: result_simps dest!: verification_result_of_Inr split: option.splits if_splits)

lemma diagnostic_rejected:
  assumes "evaluate_diagnostic_verification c = Inr v" "vr_outcome v = VO_REJECTED"
  shows "\<not> vc_reproduction_execution_unusable c \<and> (\<exists>r. vc_reproduction_evidence c = Some r \<and>
    separate_execution (vc_original_evidence c) r \<and> ver_polarity r = ''CONTRADICTING'' \<and>
    ver_claim_scope r = DIAGNOSTIC_ECHO_MISMATCHED_CLAIM)"
  using assms
  by (auto simp: evaluate_diagnostic_verification_def Let_def independent_iff
      dest!: verification_result_of_Inr split: if_splits option.splits)

lemma verifier_state:
  "evaluate_diagnostic_verification c = Inr v \<Longrightarrow> vr_proposed_candidate_state v = state_of_outcome (vr_outcome v)"
  "http_reproduction_verifier strategy claim controls vcode rcode ident c = Inr v \<Longrightarrow>
     vr_proposed_candidate_state v = state_of_outcome (vr_outcome v)"
  unfolding evaluate_diagnostic_verification_def http_reproduction_verifier_def
  by (auto simp: Let_def result_simps dest!: verification_result_of_Inr split: if_splits option.splits)

text \<open>The verifiers, each with the claim it reproduces.\<close>

definition verifiers :: "((verification_context \<Rightarrow> research_error + verification_result) \<times> string) list" where
  "verifiers =
     [(evaluate_diagnostic_verification, DIAGNOSTIC_ECHO_MATCHED_CLAIM),
      (evaluate_authorization_differential_verification, HTTP_AUTHORIZATION_DIFFERENTIAL_CLAIM),
      (evaluate_state_transition_verification, HTTP_STATE_TRANSITION_CLAIM)]"

definition controls_for :: "string \<Rightarrow> verification_context \<Rightarrow> verification_evidence_ref \<Rightarrow> bool" where
  "controls_for claim c r =
     (if claim = HTTP_AUTHORIZATION_DIFFERENTIAL_CLAIM then controls_held (ver_observed_facts r) = Inr True
      else if claim = HTTP_STATE_TRANSITION_CLAIM then workflow_controls_held (ver_observed_facts r) = Inr True
      else ver_observed_echo r \<noteq> None \<and> ver_observed_echo r \<noteq> Some (vp_negative_control_token (vc_plan c)))"

lemma verifiers_cases:
  assumes "(verify, claim) \<in> set verifiers"
  obtains "verify = evaluate_diagnostic_verification" "claim = DIAGNOSTIC_ECHO_MATCHED_CLAIM"
  | "verify = evaluate_authorization_differential_verification" "claim = HTTP_AUTHORIZATION_DIFFERENTIAL_CLAIM"
  | "verify = evaluate_state_transition_verification" "claim = HTTP_STATE_TRANSITION_CLAIM"
  using assms by (auto simp: verifiers_def)

section \<open>Properties\<close>

text \<open>
  C12. Nothing validates itself: whichever verifier returns VALIDATED, there is a reproduction evidence
  from another experiment and request, sharing no observation with the original, SUPPORTING the
  verifier's claim, whose negative controls held; and that evidence is the one the result cites.
\<close>

theorem validated_needs_independent_reproduction:
  assumes "(verify, claim) \<in> set verifiers" "verify c = Inr v" "vr_outcome v = VO_VALIDATED"
  shows "\<exists>r. vc_reproduction_evidence c = Some r \<and> separate_execution (vc_original_evidence c) r \<and>
    supports claim r \<and> controls_for claim c r \<and> vr_reproduction_evidence_ids v = [ver_evidence_id r]"
  using assms(1)
proof (cases rule: verifiers_cases)
  case 1
  with assms(2) have "evaluate_diagnostic_verification c = Inr v" by simp
  from this assms(3) obtain r where "vc_reproduction_evidence c = Some r"
      "separate_execution (vc_original_evidence c) r" "supports DIAGNOSTIC_ECHO_MATCHED_CLAIM r"
      "vr_reproduction_evidence_ids v = [ver_evidence_id r]" "ver_observed_echo r \<noteq> None"
      "ver_observed_echo r \<noteq> Some (vp_negative_control_token (vc_plan c))"
    by (rule diagnostic_validated)
  then show ?thesis by (auto simp: 1 controls_for_def)
next
  case 2
  with assms(2) have "evaluate_authorization_differential_verification c = Inr v" by simp
  from http_validated [OF this [unfolded evaluate_authorization_differential_verification_def] assms(3)]
  show ?thesis by (metis 2(2) controls_for_def claims_distinct)
next
  case 3
  with assms(2) have "evaluate_state_transition_verification c = Inr v" by simp
  from http_validated [OF this [unfolded evaluate_state_transition_verification_def] assms(3)]
  show ?thesis by (metis 3(2) controls_for_def claims_distinct)
qed

definition example_original :: verification_evidence_ref where
  "example_original = \<lparr>ver_evidence_id = ''e1'', ver_research_run_id = ''run'', ver_experiment_id = ''x1'',
     ver_request_id = ''q1'', ver_observation_ids = [''o1''], ver_polarity = ''SUPPORTING'',
     ver_claim_scope = HTTP_AUTHORIZATION_DIFFERENTIAL_CLAIM, ver_observed_echo = None, ver_observed_facts = None\<rparr>"

definition example_facts :: payload where
  "example_facts = [(''secure_control_status'', JInt 403), (''unauthenticated_control_status'', JInt 401),
     (''cross_object_request_object_owner'', JStr ''bob''), (''cross_object_request_status'', JInt 200),
     (''actor'', JStr ''alice'')]"

definition example_reproduction :: verification_evidence_ref where
  "example_reproduction = example_original\<lparr>ver_evidence_id := ''e2'', ver_experiment_id := ''x2'',
     ver_request_id := ''q2'', ver_observation_ids := [''o2''], ver_observed_facts := Some example_facts\<rparr>"

definition example_verification :: verification_context where
  "example_verification = \<lparr>vc_candidate_id = ''cand'', vc_candidate_state = CS_VERIFYING,
     vc_research_run_id = ''run'', vc_hypothesis_id = ''h'', vc_claim = HTTP_AUTHORIZATION_DIFFERENTIAL_CLAIM,
     vc_plan = (case plan_authorization_differential_verification ''cand'' [''e1''] of Inr p \<Rightarrow> p),
     vc_original_evidence = example_original, vc_reproduction_evidence = Some example_reproduction,
     vc_negative_control_evidence = None, vc_reproduction_execution_unusable = False,
     vc_authoritative_out_of_scope = False, vc_duplicate_of_candidate_id = None, vc_known_duplicate_exists = False,
     vc_reproduction_assessment_outcome = Some AO_CONSISTENT_WITH_PREDICTION, vc_reproduction_experiment_id = None,
     vc_reproduction_request_id = None, vc_reproduction_observation_ids = []\<rparr>"

definition outcome_of :: "research_error + verification_result \<Rightarrow> verification_outcome option" where
  "outcome_of x = (case x of Inl _ \<Rightarrow> None | Inr v \<Rightarrow> Some (vr_outcome v))"

lemma example_verification_validated:
  "outcome_of (evaluate_authorization_differential_verification example_verification) = Some VO_VALIDATED"
  "outcome_of (evaluate_authorization_differential_verification
     (example_verification\<lparr>vc_reproduction_evidence := Some example_original\<rparr>)) = Some VO_INCONCLUSIVE"
  by code_simp+

theorem validated_needs_independent_reproduction_witness:
  "separate_execution example_original example_reproduction"
proof -
  obtain v where "evaluate_authorization_differential_verification example_verification = Inr v" "vr_outcome v = VO_VALIDATED"
    using example_verification_validated(1) by (auto simp: outcome_of_def split: sum.splits)
  then show ?thesis
    using validated_needs_independent_reproduction [of evaluate_authorization_differential_verification
        HTTP_AUTHORIZATION_DIFFERENTIAL_CLAIM example_verification v]
    by (auto simp: verifiers_def example_verification_def)
qed

text \<open>
  C28. Failure to verify is not rejection: a REJECTED result needs a usable, independent reproduction
  that contradicts the claim, and applied to a Candidate any result changes the state only of one
  under verification (or, for OUT_OF_SCOPE and DUPLICATE, an open one), to the state of the outcome.
\<close>

theorem rejection_needs_contradiction:
  assumes "(verify, claim) \<in> set verifiers" "verify c = Inr v"
  shows "(vr_outcome v = VO_REJECTED \<longrightarrow> \<not> vc_reproduction_execution_unusable c \<and>
      (vc_reproduction_assessment_outcome c = Some AO_CONTRADICTS_PREDICTION \<and> reproduction_independent_of_original c \<or>
       (\<exists>r. vc_reproduction_evidence c = Some r \<and> separate_execution (vc_original_evidence c) r \<and>
            ver_polarity r = ''CONTRADICTING''))) \<and>
    (\<forall>s t. apply_verification_to_candidate s v = Inr t \<longrightarrow> t = state_of_outcome (vr_outcome v) \<and>
       (s = CS_VERIFYING \<or> s = CS_OPEN \<and> vr_outcome v \<in> {VO_DUPLICATE, VO_OUT_OF_SCOPE}))"
proof
  from assms(1) show "vr_outcome v = VO_REJECTED \<longrightarrow> \<not> vc_reproduction_execution_unusable c \<and>
      (vc_reproduction_assessment_outcome c = Some AO_CONTRADICTS_PREDICTION \<and> reproduction_independent_of_original c \<or>
       (\<exists>r. vc_reproduction_evidence c = Some r \<and> separate_execution (vc_original_evidence c) r \<and>
            ver_polarity r = ''CONTRADICTING''))"
  proof (cases rule: verifiers_cases)
    case 1
    with assms(2) diagnostic_rejected [of c v] show ?thesis by auto
  next
    case 2
    with assms(2) http_rejected show ?thesis
      unfolding evaluate_authorization_differential_verification_def by blast
  next
    case 3
    with assms(2) http_rejected show ?thesis
      unfolding evaluate_state_transition_verification_def by blast
  qed
  from assms(1) have "vr_proposed_candidate_state v = state_of_outcome (vr_outcome v)"
  proof (cases rule: verifiers_cases)
    case 1
    with assms(2) verifier_state(1) show ?thesis by simp
  next
    case 2
    with assms(2) verifier_state(2) show ?thesis
      unfolding evaluate_authorization_differential_verification_def by simp
  next
    case 3
    with assms(2) verifier_state(2) show ?thesis
      unfolding evaluate_state_transition_verification_def by simp
  qed
  then show "\<forall>s t. apply_verification_to_candidate s v = Inr t \<longrightarrow> t = state_of_outcome (vr_outcome v) \<and>
       (s = CS_VERIFYING \<or> s = CS_OPEN \<and> vr_outcome v \<in> {VO_DUPLICATE, VO_OUT_OF_SCOPE})"
    by (cases "vr_outcome v") (auto simp: apply_verification_to_candidate_def transition_candidate_Inr_iff LEGAL_CANDIDATE_TRANSITIONS_def)
qed

theorem rejection_needs_contradiction_witness:
  "\<exists>v. evaluate_authorization_differential_verification example_verification = Inr v \<and>
     (\<forall>t. apply_verification_to_candidate CS_OPEN v \<noteq> Inr t)"
proof -
  obtain v where v: "evaluate_authorization_differential_verification example_verification = Inr v" "vr_outcome v = VO_VALIDATED"
    using example_verification_validated(1) by (auto simp: outcome_of_def split: sum.splits)
  then show ?thesis
    using rejection_needs_contradiction [of evaluate_authorization_differential_verification
        HTTP_AUTHORIZATION_DIFFERENTIAL_CLAIM example_verification v]
    by (auto simp: verifiers_def)
qed

end
