(* ===== verification/App_Candidate.thy ===== *)
theory App_Candidate
  imports Store Verification
begin

text \<open>
  The use cases that move a Candidate (\<open>application/propose_candidate.py\<close>,
  \<open>start_candidate_verification.py\<close>, \<open>complete_candidate_verification.py\<close>).  A use case is one
  transaction: it returns its result and the new database, or raises and leaves the database as it was.
  \<open>new_id\<close> and \<open>clock\<close> are the identity generator and the clock, indexed by their call sites.
\<close>

section \<open>Errors of the application layer\<close>

datatype app_error =
    ApplicationError string
  | AppResearch research_error
  | AppPersistence persistence_error
  | AppCore core_error
  | AppValueError string
  | AppTypeError
  | AppKeyError string
  | ContractValidationError string
  | AppAssertionError
  | BudgetConsumptionRejected string

text \<open>\<open>except ResearchInputError as exc: raise ApplicationError(str(exc))\<close>; other exceptions pass.\<close>

fun as_application :: "research_error \<Rightarrow> app_error" where
  "as_application (ResearchInputError m) = ApplicationError m"
| "as_application e = AppResearch e"

type_synonym 'a use_case = "(string \<Rightarrow> string) \<Rightarrow> (string \<Rightarrow> int) \<Rightarrow> db \<Rightarrow> app_error + 'a \<times> db"

abbreviation stored :: "persistence_error + 'a \<Rightarrow> app_error + 'a" where
  "stored m \<equiv> mapErr AppPersistence m"

abbreviation researched :: "research_error + 'a \<Rightarrow> app_error + 'a" where
  "researched m \<equiv> mapErr AppResearch m"

section \<open>Proposing a Candidate\<close>

definition CANDIDATE_ADMISSION_POLICY_VERSION :: string where
  "CANDIDATE_ADMISSION_POLICY_VERSION = ''candidate.admission.v1''"

fun candidate_admission_outcome_value :: "candidate_admission_outcome \<Rightarrow> string" where
  "candidate_admission_outcome_value CA_ADMITTED = ''ADMITTED''"
| "candidate_admission_outcome_value CA_REJECTED_INSUFFICIENT_SUPPORT = ''REJECTED_INSUFFICIENT_SUPPORT''"
| "candidate_admission_outcome_value CA_REJECTED_BROKEN_PROVENANCE = ''REJECTED_BROKEN_PROVENANCE''"
| "candidate_admission_outcome_value CA_REJECTED_CLAIM_EXCEEDS_EVIDENCE = ''REJECTED_CLAIM_EXCEEDS_EVIDENCE''"
| "candidate_admission_outcome_value CA_REJECTED_NOT_TESTABLE = ''REJECTED_NOT_TESTABLE''"
| "candidate_admission_outcome_value CA_REJECTED_POLICY_CONFLICT = ''REJECTED_POLICY_CONFLICT''"

record propose_candidate_command =
  pcc_evidence_id :: string
  pcc_proposal :: "candidate_proposal option"
  pcc_authoritative_out_of_scope :: bool
  pcc_known_duplicate_candidate_id :: "string option"

record propose_candidate_result =
  pcr_outcome :: candidate_admission_outcome
  pcr_admission_record_id :: string
  pcr_candidate_id :: "string option"
  pcr_reason_codes :: "string list"
  pcr_proposal_id :: string
  pcr_state :: "candidate_state option"

definition candidate_context_for ::
    "evidence_record \<Rightarrow> string list \<Rightarrow> bool \<Rightarrow> string option \<Rightarrow> research_error + candidate_admission_context" where
  "candidate_context_for evidence requested out_of_scope known_duplicate =
     bindE (post_init_candidate_evidence_ref
       \<lparr>cer_evidence_id = er_evidence_id evidence, cer_research_run_id = er_research_run_id evidence,
        cer_hypothesis_id = er_hypothesis_id evidence, cer_experiment_id = er_experiment_id evidence,
        cer_polarity = er_polarity evidence, cer_claim_scope = er_claim_scope evidence\<rparr>) (\<lambda>ref.
     post_init_candidate_admission_context
       \<lparr>ccx_research_run_id = er_research_run_id evidence, ccx_hypothesis_id = er_hypothesis_id evidence,
        ccx_evidence = [ref],
        ccx_missing_evidence_ids = filter (\<lambda>i. i \<noteq> er_evidence_id evidence) requested,
        ccx_authoritative_out_of_scope = out_of_scope, ccx_known_duplicate_candidate_id = known_duplicate\<rparr>)"

text \<open>The proposers tried in turn when the command brings no proposal.\<close>

definition or_else :: "'e + 'a option \<Rightarrow> 'e + 'a option \<Rightarrow> 'e + 'a option" where
  "or_else m n = bindE m (\<lambda>x. case x of None \<Rightarrow> n | Some a \<Rightarrow> Inr (Some a))"

definition candidate_proposal_for ::
    "(string \<Rightarrow> string) \<Rightarrow> candidate_admission_context \<Rightarrow> candidate_proposal option \<Rightarrow> app_error + candidate_proposal" where
  "candidate_proposal_for new_id context given =
     bindE (researched (or_else (Inr given)
       (or_else (propose_diagnostic_candidate context (new_id ''diagnostic proposal''))
       (or_else (propose_authorization_differential_candidate context (new_id ''authorization proposal''))
         (propose_state_transition_candidate context (new_id ''transition proposal'')))))) (\<lambda>found.
     from_option (ApplicationError ''no CandidateProposal can be built from this Evidence'') found)"

definition candidate_admission_record_of ::
    "string \<Rightarrow> string option \<Rightarrow> candidate_admission_decision \<Rightarrow> int \<Rightarrow> persistence_error + candidate_admission_record" where
  "candidate_admission_record_of admission_record_id candidate_id decision created_at =
     (let proposal = cadm_proposal decision in post_init_candidate_admission_record
       \<lparr>car_admission_record_id = admission_record_id, car_proposal_id = cp_proposal_id proposal,
        car_research_run_id = cp_research_run_id proposal,
        car_outcome = candidate_admission_outcome_value (cadm_outcome decision),
        car_reason_codes = cadm_reason_codes decision, car_evidence_ids = cp_evidence_ids proposal,
        car_admission_policy_version = CANDIDATE_ADMISSION_POLICY_VERSION, car_created_at = created_at,
        car_admitted_candidate_id = candidate_id, car_claim = Some (cp_claim proposal),
        car_classification = Some (cp_classification proposal)\<rparr>)"

text \<open>The branch that stores an admitted Candidate, in state OPEN.\<close>

definition store_candidate ::
    "string \<Rightarrow> string \<Rightarrow> candidate_admission_decision \<Rightarrow> candidate_proposal \<Rightarrow> int \<Rightarrow> db \<Rightarrow> app_error + db" where
  "store_candidate candidate_id admission_record_id decision proposal created_at d =
     (if cadm_initial_state decision \<noteq> Some CS_OPEN then Inl AppAssertionError
      else bindE (stored (post_init_candidate_record
        \<lparr>cr_candidate_id = candidate_id, cr_research_run_id = cp_research_run_id proposal,
         cr_hypothesis_id = cp_hypothesis_id proposal, cr_claim = cp_claim proposal,
         cr_classification = cp_classification proposal, cr_state = candidate_state_value CS_OPEN,
         cr_evidence_ids = cp_evidence_ids proposal, cr_created_at = created_at,
         cr_admission_record_id = admission_record_id\<rparr>)) (\<lambda>r. stored (insert_candidate r d)))"

definition propose_candidate :: "propose_candidate_command \<Rightarrow> propose_candidate_result use_case" where
  "propose_candidate command new_id clock d =
     bindE (stored (get_evidence (pcc_evidence_id command) d)) (\<lambda>row.
     bindE (from_option (ApplicationError ''evidence not found'') row) (\<lambda>evidence.
     bindE (researched (candidate_context_for evidence
         (case pcc_proposal command of None \<Rightarrow> [] | Some p \<Rightarrow> cp_evidence_ids p)
         (pcc_authoritative_out_of_scope command) (pcc_known_duplicate_candidate_id command))) (\<lambda>context.
     bindE (candidate_proposal_for new_id context (pcc_proposal command)) (\<lambda>proposal.
     let decision = admit_candidate proposal context;
         admission_record_id = new_id ''admission record'';
         candidate_id = (if creates_candidate decision then Some (new_id ''candidate'') else None)
     in bindE (case candidate_id of None \<Rightarrow> Inr d
          | Some i \<Rightarrow> store_candidate i admission_record_id decision proposal (clock ''candidate'') d) (\<lambda>d.
     bindE (stored (candidate_admission_record_of admission_record_id candidate_id decision (clock ''admission''))) (\<lambda>r.
     bindE (stored (insert_candidate_admission r d)) (\<lambda>d.
     Inr (\<lparr>pcr_outcome = cadm_outcome decision, pcr_admission_record_id = admission_record_id,
           pcr_candidate_id = candidate_id, pcr_reason_codes = cadm_reason_codes decision,
           pcr_proposal_id = cp_proposal_id proposal, pcr_state = cadm_initial_state decision\<rparr>, d))))))))"

section \<open>Starting verification\<close>

record start_verification_result =
  svr_candidate_id :: string
  svr_state :: candidate_state
  svr_plan :: verification_plan

text \<open>The plan and the verifier of a classification.\<close>

definition verification_of ::
    "string \<Rightarrow> (string \<Rightarrow> string list \<Rightarrow> research_error + verification_plan)
       \<times> (verification_context \<Rightarrow> research_error + verification_result)" where
  "verification_of classification =
     (if classification = HTTP_AUTHORIZATION_DIFFERENTIAL_CLASSIFICATION
      then (plan_authorization_differential_verification, evaluate_authorization_differential_verification)
      else if classification = HTTP_STATE_TRANSITION_CLASSIFICATION
      then (plan_state_transition_verification, evaluate_state_transition_verification)
      else (plan_diagnostic_verification, evaluate_diagnostic_verification))"

definition start_verification :: "string \<Rightarrow> start_verification_result use_case" where
  "start_verification candidate_id new_id clock d =
     bindE (stored (get_candidate candidate_id d)) (\<lambda>row.
     bindE (from_option (ApplicationError ''candidate not found'') row) (\<lambda>candidate.
     bindE (from_option (ApplicationError ''not a valid CandidateState'') (candidate_state_of (cr_state candidate))) (\<lambda>current.
     bindE (mapErr as_application (start_candidate_verification current)) (\<lambda>next_state.
     bindE (researched (fst (verification_of (cr_classification candidate))
         (cr_candidate_id candidate) (cr_evidence_ids candidate))) (\<lambda>plan.
     bindE (stored (set_candidate_state (cr_candidate_id candidate) (candidate_state_value next_state) d)) (\<lambda>d.
     Inr (\<lparr>svr_candidate_id = cr_candidate_id candidate, svr_state = next_state, svr_plan = plan\<rparr>, d)))))))"

section \<open>Completing verification\<close>

record complete_verification_command =
  cvc_candidate_id :: string
  cvc_reproduction_experiment_id :: "string option"
  cvc_negative_control_experiment_id :: "string option"
  cvc_authoritative_out_of_scope :: bool
  cvc_duplicate_of_candidate_id :: "string option"

record complete_verification_result =
  cvr_candidate_id :: string
  cvr_verification_id :: string
  cvr_outcome :: verification_outcome
  cvr_state :: candidate_state
  cvr_reason_codes :: "string list"

definition originating_evidence :: "string list \<Rightarrow> db \<Rightarrow> app_error + evidence_record" where
  "originating_evidence evidence_ids d =
     (case evidence_ids of
        [] \<Rightarrow> Inl (ApplicationError ''candidate has no originating Evidence'')
      | i # _ \<Rightarrow> bindE (stored (get_evidence i d)) (\<lambda>row.
          from_option (ApplicationError ''originating Evidence not found'') row))"

text \<open>The payload of the first wanted HTTP observation, and the first wanted non-blank echo.\<close>

fun observation_facts :: "observation_record list \<Rightarrow> string list \<Rightarrow> payload" where
  "observation_facts [] wanted = []"
| "observation_facts (item # items) wanted =
     (if or_observation_id item \<in> set wanted
         \<and> or_observation_kind item \<in> {''HTTP_AUTHORIZATION_DIFFERENTIAL'', ''HTTP_STATE_TRANSITION_AUTHORIZATION''}
      then or_payload item else observation_facts items wanted)"

fun echoed_value :: "observation_record list \<Rightarrow> string list \<Rightarrow> string option" where
  "echoed_value [] wanted = None"
| "echoed_value (item # items) wanted =
     (if or_observation_id item \<in> set wanted
      then case jget (or_payload item) ''echoed'' of
             JStr s \<Rightarrow> if \<not> blank s then Some s else echoed_value items wanted
           | _ \<Rightarrow> echoed_value items wanted
      else echoed_value items wanted)"

definition evidence_ref_of :: "evidence_record \<Rightarrow> db \<Rightarrow> app_error + verification_evidence_ref" where
  "evidence_ref_of evidence d =
     bindE (stored (list_attempts_for_experiment (er_experiment_id evidence) d)) (\<lambda>attempts.
     bindE (stored (list_worker_results_for_experiment (er_experiment_id evidence) d)) (\<lambda>results.
     bindE (from_option (ApplicationError ''cannot resolve request_id for Evidence experiment'')
       (case attempts of a # _ \<Rightarrow> Some (ear_request_id a)
        | [] \<Rightarrow> (case results of w # _ \<Rightarrow> Some (wr_request_id w) | [] \<Rightarrow> None))) (\<lambda>request_id.
     bindE (stored (list_observations_for_experiment (er_experiment_id evidence) d)) (\<lambda>observations.
     let facts = observation_facts observations (er_observation_ids evidence)
     in researched (post_init_verification_evidence_ref
       \<lparr>ver_evidence_id = er_evidence_id evidence, ver_research_run_id = er_research_run_id evidence,
        ver_experiment_id = er_experiment_id evidence, ver_request_id = request_id,
        ver_observation_ids = er_observation_ids evidence, ver_polarity = er_polarity evidence,
        ver_claim_scope = er_claim_scope evidence,
        ver_observed_echo = echoed_value observations (er_observation_ids evidence),
        ver_observed_facts = (if facts = [] then None else Some facts)\<rparr>)))))"

definition first_evidence_ref :: "evidence_record list \<Rightarrow> db \<Rightarrow> app_error + verification_evidence_ref option" where
  "first_evidence_ref items d =
     (case items of [] \<Rightarrow> Inr None | e # _ \<Rightarrow> bindE (evidence_ref_of e d) (\<lambda>r. Inr (Some r)))"

definition reproduction_unusable ::
    "experiment_record \<Rightarrow> execution_attempt_record list \<Rightarrow> worker_result_record list \<Rightarrow> bool" where
  "reproduction_unusable experiment attempts worker_results =
     (if xr_execution_state experiment \<in> set UNUSABLE_EXPERIMENT_STATES then True
      else if attempts \<noteq> [] \<and> ear_state (hd attempts) \<in> set UNUSABLE_ATTEMPT_STATES then True
      else worker_results \<noteq> [] \<and> wr_status (hd worker_results) \<in> {''EXECUTION_FAILED'', ''TIMED_OUT'', ''CANCELLED''})"

definition assessment_outcome_of :: "string \<Rightarrow> assessment_outcome option" where
  "assessment_outcome_of v = map_of
     [(''CONSISTENT_WITH_PREDICTION'', AO_CONSISTENT_WITH_PREDICTION),
      (''CONTRADICTS_PREDICTION'', AO_CONTRADICTS_PREDICTION), (''INCONCLUSIVE'', AO_INCONCLUSIVE),
      (''EXECUTION_UNUSABLE'', AO_EXECUTION_UNUSABLE), (''NEEDS_MORE_CONTEXT'', AO_NEEDS_MORE_CONTEXT)] v"

text \<open>What the reproduction experiment contributes to the verification context.\<close>

record reproduction_view =
  rv_evidence :: "verification_evidence_ref option"
  rv_unusable :: bool
  rv_assessment_outcome :: "assessment_outcome option"
  rv_experiment_id :: "string option"
  rv_request_id :: "string option"
  rv_observation_ids :: "string list"

definition reproduction_view_of :: "string option \<Rightarrow> string \<Rightarrow> db \<Rightarrow> app_error + reproduction_view" where
  "reproduction_view_of experiment_id run_id d =
     (case experiment_id of
        None \<Rightarrow> Inr \<lparr>rv_evidence = None, rv_unusable = False, rv_assessment_outcome = None,
                    rv_experiment_id = None, rv_request_id = None, rv_observation_ids = []\<rparr>
      | Some x \<Rightarrow>
          bindE (stored (get_experiment x d)) (\<lambda>row.
          bindE (from_option (ApplicationError ''reproduction experiment not found'') row) (\<lambda>experiment.
          if xr_research_run_id experiment \<noteq> run_id
          then Inl (ApplicationError ''reproduction experiment is not in this research run'') else
          bindE (stored (list_evidence_for_experiment x d)) (\<lambda>items.
          bindE (stored (list_attempts_for_experiment x d)) (\<lambda>attempts.
          bindE (stored (list_worker_results_for_experiment x d)) (\<lambda>worker_results.
          bindE (stored (list_observations_for_experiment x d)) (\<lambda>observations.
          bindE (stored (list_assessments_for_experiment x d)) (\<lambda>assessments.
          bindE (if assessments = [] then Inr None
                 else bindE (from_option (AppValueError ''not a valid AssessmentOutcome'')
                        (assessment_outcome_of (har_assessment_outcome (last assessments)))) (\<lambda>oc. Inr (Some oc))) (\<lambda>outcome.
          bindE (first_evidence_ref items d) (\<lambda>reproduction.
          Inr \<lparr>rv_evidence = reproduction, rv_unusable = reproduction_unusable experiment attempts worker_results,
               rv_assessment_outcome = outcome, rv_experiment_id = Some (xr_experiment_id experiment),
               rv_request_id = (case attempts of a # _ \<Rightarrow> Some (ear_request_id a)
                  | [] \<Rightarrow> (case worker_results of w # _ \<Rightarrow> Some (wr_request_id w) | [] \<Rightarrow> None)),
               rv_observation_ids = map or_observation_id observations\<rparr>))))))))))"

definition control_ref :: "string option \<Rightarrow> db \<Rightarrow> app_error + verification_evidence_ref option" where
  "control_ref experiment_id d =
     (case experiment_id of None \<Rightarrow> Inr None
      | Some x \<Rightarrow> bindE (stored (list_evidence_for_experiment x d)) (\<lambda>items. first_evidence_ref items d))"

definition verification_context_for ::
    "complete_verification_command \<Rightarrow> candidate_record \<Rightarrow> candidate_state \<Rightarrow> db \<Rightarrow> app_error + verification_context" where
  "verification_context_for command candidate current d =
     bindE (originating_evidence (cr_evidence_ids candidate) d) (\<lambda>original.
     bindE (evidence_ref_of original d) (\<lambda>original_ref.
     bindE (reproduction_view_of (cvc_reproduction_experiment_id command) (cr_research_run_id candidate) d) (\<lambda>reproduction.
     bindE (control_ref (cvc_negative_control_experiment_id command) d) (\<lambda>control.
     bindE (case cvc_duplicate_of_candidate_id command of None \<Rightarrow> Inr False
            | Some i \<Rightarrow> bindE (stored (get_candidate i d)) (\<lambda>known. Inr (known \<noteq> None))) (\<lambda>known_duplicate_exists.
     bindE (researched (fst (verification_of (cr_classification candidate))
         (cr_candidate_id candidate) (cr_evidence_ids candidate))) (\<lambda>plan.
     researched (post_init_verification_context
       \<lparr>vc_candidate_id = cr_candidate_id candidate, vc_candidate_state = current,
        vc_research_run_id = cr_research_run_id candidate, vc_hypothesis_id = cr_hypothesis_id candidate,
        vc_claim = cr_claim candidate, vc_plan = plan, vc_original_evidence = original_ref,
        vc_reproduction_evidence = rv_evidence reproduction, vc_negative_control_evidence = control,
        vc_reproduction_execution_unusable = rv_unusable reproduction,
        vc_authoritative_out_of_scope = cvc_authoritative_out_of_scope command,
        vc_duplicate_of_candidate_id = cvc_duplicate_of_candidate_id command,
        vc_known_duplicate_exists = known_duplicate_exists,
        vc_reproduction_assessment_outcome = rv_assessment_outcome reproduction,
        vc_reproduction_experiment_id = rv_experiment_id reproduction,
        vc_reproduction_request_id = rv_request_id reproduction,
        vc_reproduction_observation_ids = rv_observation_ids reproduction\<rparr>)))))))"

definition verification_record_of ::
    "string \<Rightarrow> candidate_record \<Rightarrow> verification_result \<Rightarrow> int \<Rightarrow> persistence_error + verification_record" where
  "verification_record_of verification_id candidate result created_at = post_init_verification_record
     \<lparr>vrec_verification_id = verification_id, vrec_candidate_id = cr_candidate_id candidate,
      vrec_research_run_id = cr_research_run_id candidate, vrec_strategy = vr_strategy result,
      vrec_outcome = verification_outcome_value (vr_outcome result),
      vrec_proposed_candidate_state = candidate_state_value (vr_proposed_candidate_state result),
      vrec_original_evidence_ids = vr_original_evidence_ids result,
      vrec_reproduction_evidence_ids = vr_reproduction_evidence_ids result,
      vrec_negative_control_evidence_ids = vr_negative_control_evidence_ids result,
      vrec_alternative_explanation_checks = vr_alternative_explanation_checks result,
      vrec_verifier_kind = vr_verifier_kind result, vrec_verifier_identity = vr_verifier_identity result,
      vrec_created_at = created_at\<rparr>"

definition complete_verification :: "complete_verification_command \<Rightarrow> complete_verification_result use_case" where
  "complete_verification command new_id clock d =
     bindE (stored (get_candidate (cvc_candidate_id command) d)) (\<lambda>row.
     bindE (from_option (ApplicationError ''candidate not found'') row) (\<lambda>candidate.
     bindE (from_option (ApplicationError ''candidate state is not a CandidateState'')
       (candidate_state_of (cr_state candidate))) (\<lambda>current.
     bindE (verification_context_for command candidate current d) (\<lambda>context.
     bindE (researched (snd (verification_of (cr_classification candidate)) context)) (\<lambda>result.
     bindE (mapErr as_application (apply_verification_to_candidate current result)) (\<lambda>next_state.
     let verification_id = new_id ''verification'' in
     bindE (stored (verification_record_of verification_id candidate result (clock ''verification''))) (\<lambda>r.
     bindE (stored (insert_verification r d)) (\<lambda>d.
     bindE (stored (set_candidate_state (cr_candidate_id candidate) (candidate_state_value next_state) d)) (\<lambda>d.
     Inr (\<lparr>cvr_candidate_id = cr_candidate_id candidate, cvr_verification_id = verification_id,
           cvr_outcome = vr_outcome result, cvr_state = next_state,
           cvr_reason_codes = vr_reason_codes result\<rparr>, d))))))))))"

end
