(* ===== verification/Finding_Proposal.thy ===== *)
theory Finding_Proposal
  imports Verification
begin

text \<open>
  Finding proposals, their admission and lifecycle, the recorded human review and the Finding
  creation gate (\<open>research/finding_proposal.py\<close>).  \<open>sha\<close> is
  \<open>hashlib.sha256(...).hexdigest()\<close>, a function from bytes to text.
\<close>

section \<open>Vocabulary\<close>

definition DIAGNOSTIC_FINDING_PROPOSAL_TITLE :: string where
  "DIAGNOSTIC_FINDING_PROPOSAL_TITLE = ''Diagnostic echo verification proposal''"

definition HTTP_AUTHORIZATION_DIFFERENTIAL_FINDING_TITLE :: string where
  "HTTP_AUTHORIZATION_DIFFERENTIAL_FINDING_TITLE = ''Local lab missing object authorization on account read''"

definition HTTP_STATE_TRANSITION_FINDING_TITLE :: string where
  "HTTP_STATE_TRANSITION_FINDING_TITLE = ''Local lab unauthorized workflow state transition''"

definition HUMAN_OPERATOR_ACTOR :: string where
  "HUMAN_OPERATOR_ACTOR = ''HUMAN_OPERATOR''"

definition FORBIDDEN_FINDING_KEYS :: "string list" where
  "FORBIDDEN_FINDING_KEYS =
     [''severity'', ''cvss'', ''cve'', ''bounty'', ''exploitability'', ''confidence'', ''vulnerability'',
      ''authorization'']"

datatype finding_proposal_state = FPS_PROPOSED | FPS_HUMAN_REVIEW | FPS_APPROVED | FPS_REJECTED

fun finding_proposal_state_value :: "finding_proposal_state \<Rightarrow> string" where
  "finding_proposal_state_value FPS_PROPOSED = ''PROPOSED''"
| "finding_proposal_state_value FPS_HUMAN_REVIEW = ''HUMAN_REVIEW''"
| "finding_proposal_state_value FPS_APPROVED = ''APPROVED''"
| "finding_proposal_state_value FPS_REJECTED = ''REJECTED''"

definition finding_proposal_state_of :: "string \<Rightarrow> finding_proposal_state option" where
  "finding_proposal_state_of v =
     find (\<lambda>s. finding_proposal_state_value s = v) [FPS_PROPOSED, FPS_HUMAN_REVIEW, FPS_APPROVED, FPS_REJECTED]"

lemma finding_proposal_state_round_trip [simp]:
  "finding_proposal_state_of (finding_proposal_state_value s) = Some s"
  by (cases s) (simp_all add: finding_proposal_state_of_def)

lemma finding_proposal_state_of_Some:
  "finding_proposal_state_of v = Some s \<longleftrightarrow> v = finding_proposal_state_value s"
proof
  assume "finding_proposal_state_of v = Some s"
  then show "v = finding_proposal_state_value s"
    unfolding finding_proposal_state_of_def by (blast dest: find_Some_mem)
qed simp

datatype finding_proposal_admission_outcome =
    FPA_ADMITTED
  | FPA_REJECTED_CANDIDATE_NOT_VALIDATED
  | FPA_REJECTED_BROKEN_PROVENANCE
  | FPA_REJECTED_POLICY_CONFLICT
  | FPA_REJECTED_VALIDATION_NOT_PASSED

record impact_claim =
  ic_claim_text :: string
  ic_impact_kind :: string
  ic_chain_id :: string

definition post_init_impact_claim :: "impact_claim \<Rightarrow> research_error + impact_claim" where
  "post_init_impact_claim c =
     bindE (strip_text (ic_claim_text c) ''claim_text'') (\<lambda>claim_text.
     bindE (strip_text (ic_impact_kind c) ''impact_kind'') (\<lambda>impact_kind.
     bindE (strip_text (ic_chain_id c) ''chain_id'') (\<lambda>chain_id.
     Inr \<lparr>ic_claim_text = claim_text, ic_impact_kind = impact_kind, ic_chain_id = chain_id\<rparr>)))"

datatype human_review_decision = HR_APPROVE | HR_REJECT

fun human_review_decision_value :: "human_review_decision \<Rightarrow> string" where
  "human_review_decision_value HR_APPROVE = ''APPROVE''"
| "human_review_decision_value HR_REJECT = ''REJECT''"

datatype finding_creation_outcome =
    FC_CREATED
  | FC_REJECTED_PROPOSAL
  | FC_REJECTED_MISSING_REVIEW
  | FC_REJECTED_MISSING_APPROVAL
  | FC_REJECTED_ACTOR
  | FC_REJECTED_SUBJECT_MISMATCH
  | FC_REJECTED_INCONSISTENT_DECISIONS
  | FC_REJECTED_CANDIDATE_NOT_VALIDATED
  | FC_REJECTED_ILLEGAL_STATE

definition LEGAL_FINDING_PROPOSAL_TRANSITIONS :: "(finding_proposal_state \<times> finding_proposal_state) list" where
  "LEGAL_FINDING_PROPOSAL_TRANSITIONS =
     [(FPS_PROPOSED, FPS_HUMAN_REVIEW), (FPS_HUMAN_REVIEW, FPS_APPROVED), (FPS_HUMAN_REVIEW, FPS_REJECTED)]"

section \<open>Content fingerprint and approval subject\<close>

definition content_payload :: "string \<Rightarrow> string \<Rightarrow> string \<Rightarrow> string list \<Rightarrow> string list \<Rightarrow> json" where
  "content_payload candidate_id title claim evidence_ids verification_ids =
     JObj [(''candidate_id'', JStr candidate_id), (''title'', JStr title), (''claim'', JStr claim),
           (''evidence_ids'', JArr (map JStr evidence_ids)),
           (''verification_ids'', JArr (map JStr verification_ids))]"

definition finding_proposal_content_fingerprint ::
    "(string \<Rightarrow> string) \<Rightarrow> string \<Rightarrow> string \<Rightarrow> string \<Rightarrow> string list \<Rightarrow> string list \<Rightarrow> string" where
  "finding_proposal_content_fingerprint sha candidate_id title claim evidence_ids verification_ids =
     sha (utf8 (dumps True (content_payload candidate_id title claim evidence_ids verification_ids)))"

definition approval_subject_for :: "string \<Rightarrow> string \<Rightarrow> string" where
  "approval_subject_for proposal_id content_fingerprint =
     ''finding-proposal:'' @ proposal_id @ '':'' @ content_fingerprint"

section \<open>Drafts, contexts and decisions\<close>

record finding_proposal_draft =
  fpd_proposal_id :: string
  fpd_candidate_id :: string
  fpd_research_run_id :: string
  fpd_title :: string
  fpd_claim :: string
  fpd_evidence_ids :: "string list"
  fpd_verification_ids :: "string list"
  fpd_rationale :: payload
  fpd_provenance :: payload
  fpd_impact_claims :: "impact_claim list"

definition post_init_finding_proposal_draft ::
    "finding_proposal_draft \<Rightarrow> research_error + finding_proposal_draft" where
  "post_init_finding_proposal_draft d =
     bindE (strip_text (fpd_proposal_id d) ''proposal_id'') (\<lambda>proposal_id.
     bindE (strip_text (fpd_candidate_id d) ''candidate_id'') (\<lambda>candidate_id.
     bindE (strip_text (fpd_research_run_id d) ''research_run_id'') (\<lambda>research_run_id.
     bindE (strip_text (fpd_title d) ''title'') (\<lambda>title.
     bindE (strip_text (fpd_claim d) ''claim'') (\<lambda>claim.
     bindE (strip_ids (fpd_evidence_ids d) ''evidence_ids'') (\<lambda>evidence_ids.
     bindE (strip_ids (fpd_verification_ids d) ''verification_ids'') (\<lambda>verification_ids.
     bindE (reject_forbidden FORBIDDEN_FINDING_KEYS (fpd_rationale d) ''rationale'') (\<lambda>rationale.
     bindE (reject_forbidden FORBIDDEN_FINDING_KEYS (fpd_provenance d) ''provenance'') (\<lambda>provenance.
     Inr \<lparr>fpd_proposal_id = proposal_id, fpd_candidate_id = candidate_id,
          fpd_research_run_id = research_run_id, fpd_title = title, fpd_claim = claim,
          fpd_evidence_ids = evidence_ids, fpd_verification_ids = verification_ids,
          fpd_rationale = rationale, fpd_provenance = provenance,
          fpd_impact_claims = fpd_impact_claims d\<rparr>)))))))))"

definition draft_content_fingerprint :: "(string \<Rightarrow> string) \<Rightarrow> finding_proposal_draft \<Rightarrow> string" where
  "draft_content_fingerprint sha d = finding_proposal_content_fingerprint sha
     (fpd_candidate_id d) (fpd_title d) (fpd_claim d) (fpd_evidence_ids d) (fpd_verification_ids d)"

definition draft_approval_subject :: "(string \<Rightarrow> string) \<Rightarrow> finding_proposal_draft \<Rightarrow> string" where
  "draft_approval_subject sha d = approval_subject_for (fpd_proposal_id d) (draft_content_fingerprint sha d)"

record finding_proposal_admission_context =
  fpx_candidate_id :: string
  fpx_candidate_state :: candidate_state
  fpx_research_run_id :: string
  fpx_evidence_ids :: "string list"
  fpx_verification_ids :: "string list"
  fpx_classification :: string

definition post_init_finding_proposal_admission_context ::
    "finding_proposal_admission_context \<Rightarrow> research_error + finding_proposal_admission_context" where
  "post_init_finding_proposal_admission_context c =
     bindE (strip_text (fpx_candidate_id c) ''candidate_id'') (\<lambda>candidate_id.
     bindE (strip_text (fpx_research_run_id c) ''research_run_id'') (\<lambda>research_run_id.
     bindE (strip_ids (fpx_evidence_ids c) ''evidence_ids'') (\<lambda>evidence_ids.
     bindE (strip_ids (fpx_verification_ids c) ''verification_ids'') (\<lambda>verification_ids.
     bindE (strip_text (fpx_classification c) ''classification'') (\<lambda>classification.
     Inr \<lparr>fpx_candidate_id = candidate_id, fpx_candidate_state = fpx_candidate_state c,
          fpx_research_run_id = research_run_id, fpx_evidence_ids = evidence_ids,
          fpx_verification_ids = verification_ids, fpx_classification = classification\<rparr>)))))"

record finding_proposal_admission_decision =
  fpad_outcome :: finding_proposal_admission_outcome
  fpad_reason_codes :: "string list"
  fpad_draft :: finding_proposal_draft
  fpad_admitted :: bool
  fpad_initial_state :: "finding_proposal_state option"

definition creates_proposal :: "finding_proposal_admission_decision \<Rightarrow> bool" where
  "creates_proposal d = (fpad_outcome d = FPA_ADMITTED \<and> fpad_admitted d)"

record human_review_view =
  hrv_review_id :: string
  hrv_proposal_id :: string
  hrv_content_fingerprint :: string
  hrv_decision :: human_review_decision
  hrv_reviewer_id :: string
  hrv_actor_type :: string
  hrv_reason_codes :: "string list"
  hrv_note :: "string option"

definition post_init_human_review_view :: "human_review_view \<Rightarrow> research_error + human_review_view" where
  "post_init_human_review_view r =
     bindE (strip_text (hrv_review_id r) ''review_id'') (\<lambda>review_id.
     bindE (strip_text (hrv_proposal_id r) ''proposal_id'') (\<lambda>proposal_id.
     bindE (strip_text (hrv_content_fingerprint r) ''content_fingerprint'') (\<lambda>content_fingerprint.
     bindE (strip_text (hrv_reviewer_id r) ''reviewer_id'') (\<lambda>reviewer_id.
     bindE (strip_text (hrv_actor_type r) ''actor_type'') (\<lambda>actor_type.
     bindE (strip_ids (hrv_reason_codes r) ''reason_codes'') (\<lambda>reason_codes.
     bindE (strip_text_opt (hrv_note r) ''note'') (\<lambda>note.
     Inr \<lparr>hrv_review_id = review_id, hrv_proposal_id = proposal_id,
          hrv_content_fingerprint = content_fingerprint, hrv_decision = hrv_decision r,
          hrv_reviewer_id = reviewer_id, hrv_actor_type = actor_type, hrv_reason_codes = reason_codes,
          hrv_note = note\<rparr>)))))))"

record finding_creation_context =
  fcx_candidate_id :: string
  fcx_candidate_state :: candidate_state
  fcx_research_run_id :: string
  fcx_proposal_id :: string
  fcx_proposal_state :: finding_proposal_state
  fcx_title :: string
  fcx_claim :: string
  fcx_evidence_ids :: "string list"
  fcx_verification_ids :: "string list"
  fcx_content_fingerprint :: string
  fcx_approval_subject :: string
  fcx_human_review :: "human_review_view option"
  fcx_approval_valid_record :: bool
  fcx_approval_authorizes :: bool
  fcx_approval_subject_matches :: bool
  fcx_approval_decision :: "human_review_decision option"
  fcx_approval_actor_type :: "string option"

definition post_init_finding_creation_context ::
    "finding_creation_context \<Rightarrow> research_error + finding_creation_context" where
  "post_init_finding_creation_context c =
     bindE (strip_text (fcx_candidate_id c) ''candidate_id'') (\<lambda>candidate_id.
     bindE (strip_text (fcx_research_run_id c) ''research_run_id'') (\<lambda>research_run_id.
     bindE (strip_text (fcx_proposal_id c) ''proposal_id'') (\<lambda>proposal_id.
     bindE (strip_text (fcx_title c) ''title'') (\<lambda>title.
     bindE (strip_text (fcx_claim c) ''claim'') (\<lambda>claim.
     bindE (strip_ids (fcx_evidence_ids c) ''evidence_ids'') (\<lambda>evidence_ids.
     bindE (strip_ids (fcx_verification_ids c) ''verification_ids'') (\<lambda>verification_ids.
     bindE (strip_text (fcx_content_fingerprint c) ''content_fingerprint'') (\<lambda>content_fingerprint.
     bindE (strip_text (fcx_approval_subject c) ''approval_subject'') (\<lambda>approval_subject.
     Inr (c\<lparr>fcx_candidate_id := candidate_id, fcx_research_run_id := research_run_id,
            fcx_proposal_id := proposal_id, fcx_title := title, fcx_claim := claim,
            fcx_evidence_ids := evidence_ids, fcx_verification_ids := verification_ids,
            fcx_content_fingerprint := content_fingerprint, fcx_approval_subject := approval_subject\<rparr>))))))))))"

record finding_creation_decision =
  fcd_outcome :: finding_creation_outcome
  fcd_reason_codes :: "string list"
  fcd_proposal_state :: finding_proposal_state
  fcd_creates_finding :: bool

section \<open>Deterministic proposals\<close>

definition finding_draft_of ::
    "finding_proposal_admission_context \<Rightarrow> string \<Rightarrow> string \<Rightarrow> string \<Rightarrow> string \<Rightarrow> payload \<Rightarrow> string
     \<Rightarrow> research_error + finding_proposal_draft option" where
  "finding_draft_of c proposal_id classification title claim rationale source =
     (if fpx_candidate_state c \<noteq> CS_VALIDATED then Inr None
      else if fpx_classification c \<noteq> classification then Inr None
      else if fpx_evidence_ids c = [] \<or> fpx_verification_ids c = [] then Inr None
      else bindE (post_init_finding_proposal_draft
        \<lparr>fpd_proposal_id = proposal_id, fpd_candidate_id = fpx_candidate_id c,
         fpd_research_run_id = fpx_research_run_id c, fpd_title = title, fpd_claim = claim,
         fpd_evidence_ids = fpx_evidence_ids c, fpd_verification_ids = fpx_verification_ids c,
         fpd_rationale = rationale, fpd_provenance = [(''source'', JStr source)],
         fpd_impact_claims = []\<rparr>) (\<lambda>d. Inr (Some d)))"

definition propose_diagnostic_finding_proposal ::
    "finding_proposal_admission_context \<Rightarrow> string \<Rightarrow> research_error + finding_proposal_draft option" where
  "propose_diagnostic_finding_proposal c proposal_id =
     finding_draft_of c proposal_id DIAGNOSTIC_CANDIDATE_CLASSIFICATION
       DIAGNOSTIC_FINDING_PROPOSAL_TITLE DIAGNOSTIC_CANDIDATE_CLAIM
       [(''reason_code'', JStr ''DIAGNOSTIC_PLUMBING_PROPOSAL''), (''not_a_vulnerability'', JBool True),
        (''not_a_finding'', JBool True)] ''diagnostic.echo.finding_proposal''"

definition propose_authorization_differential_finding_proposal ::
    "finding_proposal_admission_context \<Rightarrow> string \<Rightarrow> research_error + finding_proposal_draft option" where
  "propose_authorization_differential_finding_proposal c proposal_id =
     finding_draft_of c proposal_id HTTP_AUTHORIZATION_DIFFERENTIAL_CLASSIFICATION
       HTTP_AUTHORIZATION_DIFFERENTIAL_FINDING_TITLE HTTP_AUTHORIZATION_DIFFERENTIAL_CANDIDATE_CLAIM
       [(''reason_code'', JStr ''AUTHORIZED_LOCAL_LAB_PROPOSAL''), (''not_a_finding'', JBool True)]
       ''http.authorization.differential.finding_proposal''"

definition propose_state_transition_finding_proposal ::
    "finding_proposal_admission_context \<Rightarrow> string \<Rightarrow> research_error + finding_proposal_draft option" where
  "propose_state_transition_finding_proposal c proposal_id =
     finding_draft_of c proposal_id HTTP_STATE_TRANSITION_CLASSIFICATION
       HTTP_STATE_TRANSITION_FINDING_TITLE HTTP_STATE_TRANSITION_CANDIDATE_CLAIM
       [(''reason_code'', JStr ''AUTHORIZED_LOCAL_LAB_PROPOSAL''), (''not_a_finding'', JBool True)]
       ''http.state_transition.finding_proposal''"

section \<open>Admission\<close>

definition finding_decision ::
    "finding_proposal_admission_outcome \<Rightarrow> string list \<Rightarrow> finding_proposal_draft \<Rightarrow> finding_proposal_admission_decision" where
  "finding_decision outcome reason_codes draft =
     \<lparr>fpad_outcome = outcome, fpad_reason_codes = reason_codes, fpad_draft = draft,
      fpad_admitted = False, fpad_initial_state = None\<rparr>"

definition finding_codes :: "finding_proposal_draft \<Rightarrow> finding_proposal_admission_context \<Rightarrow> string list" where
  "finding_codes draft context =
     (if fpd_candidate_id draft \<noteq> fpx_candidate_id context then [''WRONG_CANDIDATE''] else []) @
     (if fpd_research_run_id draft \<noteq> fpx_research_run_id context then [''WRONG_RESEARCH_RUN''] else []) @
     (if set (fpd_evidence_ids draft) \<noteq> set (fpx_evidence_ids context) then [''EVIDENCE_SET_MISMATCH''] else []) @
     (if set (fpd_verification_ids draft) \<noteq> set (fpx_verification_ids context) then [''VERIFICATION_SET_MISMATCH''] else [])"

text \<open>Expected title, claim and classification, the admitted reason and the two mismatch codes.\<close>

definition finding_expectations :: "string \<Rightarrow> string \<times> string \<times> string \<times> string \<times> string \<times> string" where
  "finding_expectations classification =
     (if classification = HTTP_AUTHORIZATION_DIFFERENTIAL_CLASSIFICATION
      then (HTTP_AUTHORIZATION_DIFFERENTIAL_FINDING_TITLE, HTTP_AUTHORIZATION_DIFFERENTIAL_CANDIDATE_CLAIM,
            HTTP_AUTHORIZATION_DIFFERENTIAL_CLASSIFICATION,
            ''HTTP_AUTHORIZATION_DIFFERENTIAL_FINDING_PROPOSAL_FROM_VALIDATED_CANDIDATE'',
            ''TITLE_NOT_HTTP_AUTHORIZATION_DIFFERENTIAL'', ''CLAIM_NOT_HTTP_AUTHORIZATION_DIFFERENTIAL'')
      else if classification = HTTP_STATE_TRANSITION_CLASSIFICATION
      then (HTTP_STATE_TRANSITION_FINDING_TITLE, HTTP_STATE_TRANSITION_CANDIDATE_CLAIM,
            HTTP_STATE_TRANSITION_CLASSIFICATION,
            ''HTTP_STATE_TRANSITION_AUTHORIZATION_FINDING_PROPOSAL_FROM_VALIDATED_CANDIDATE'',
            ''TITLE_NOT_HTTP_STATE_TRANSITION_AUTHORIZATION'', ''CLAIM_NOT_HTTP_STATE_TRANSITION_AUTHORIZATION'')
      else (DIAGNOSTIC_FINDING_PROPOSAL_TITLE, DIAGNOSTIC_CANDIDATE_CLAIM, DIAGNOSTIC_CANDIDATE_CLASSIFICATION,
            ''DIAGNOSTIC_FINDING_PROPOSAL_FROM_VALIDATED_CANDIDATE'', ''TITLE_NOT_DIAGNOSTIC'', ''CLAIM_NOT_DIAGNOSTIC''))"

definition admit_finding_proposal ::
    "finding_proposal_draft \<Rightarrow> finding_proposal_admission_context \<Rightarrow> finding_proposal_admission_decision" where
  "admit_finding_proposal draft context =
     (let codes = finding_codes draft context in
      if fpx_candidate_state context \<noteq> CS_VALIDATED
      then finding_decision FPA_REJECTED_CANDIDATE_NOT_VALIDATED (''CANDIDATE_NOT_VALIDATED'' # codes) draft
      else if list_ex (\<lambda>claim. blank (ic_chain_id claim)) (fpd_impact_claims draft)
      then finding_decision FPA_REJECTED_POLICY_CONFLICT (''IMPACT_CHAIN_MISSING'' # codes) draft
      else if ''WRONG_CANDIDATE'' \<in> set codes \<or> ''WRONG_RESEARCH_RUN'' \<in> set codes
      then finding_decision FPA_REJECTED_BROKEN_PROVENANCE codes draft
      else if ''EVIDENCE_SET_MISMATCH'' \<in> set codes \<or> ''VERIFICATION_SET_MISMATCH'' \<in> set codes
      then finding_decision FPA_REJECTED_BROKEN_PROVENANCE codes draft
      else case finding_expectations (fpx_classification context) of
        (expected_title, expected_claim, expected_classification, reason, title_code, claim_code) \<Rightarrow>
      if fpd_title draft \<noteq> expected_title
      then finding_decision FPA_REJECTED_POLICY_CONFLICT (title_code # codes) draft
      else if fpd_claim draft \<noteq> expected_claim
      then finding_decision FPA_REJECTED_POLICY_CONFLICT (claim_code # codes) draft
      else if fpx_classification context \<noteq> expected_classification
      then finding_decision FPA_REJECTED_POLICY_CONFLICT (''UNSUPPORTED_CLASSIFICATION'' # codes) draft
      else if codes \<noteq> [] then finding_decision FPA_REJECTED_BROKEN_PROVENANCE codes draft
      else \<lparr>fpad_outcome = FPA_ADMITTED, fpad_reason_codes = [reason], fpad_draft = draft,
            fpad_admitted = True, fpad_initial_state = Some FPS_PROPOSED\<rparr>)"

section \<open>Lifecycle, review and creation gate\<close>

definition transition_finding_proposal ::
    "finding_proposal_state \<Rightarrow> finding_proposal_state \<Rightarrow> research_error + finding_proposal_state" where
  "transition_finding_proposal current target =
     (if (current, target) \<notin> set LEGAL_FINDING_PROPOSAL_TRANSITIONS
      then Inl (ResearchInputError ''illegal FindingProposal transition'') else Inr target)"

definition start_finding_proposal_review :: "finding_proposal_state \<Rightarrow> research_error + finding_proposal_state" where
  "start_finding_proposal_review current = transition_finding_proposal current FPS_HUMAN_REVIEW"

definition admit_human_review :: "human_review_view \<Rightarrow> string \<Rightarrow> string \<Rightarrow> research_error + unit" where
  "admit_human_review review proposal_id content_fingerprint = raise_first
     [(hrv_proposal_id review \<noteq> proposal_id, ResearchInputError ''human review proposal_id mismatch''),
      (hrv_content_fingerprint review \<noteq> content_fingerprint,
         ResearchInputError ''human review content_fingerprint mismatch''),
      (hrv_actor_type review \<noteq> HUMAN_OPERATOR_ACTOR, ResearchInputError ''human review requires HUMAN_OPERATOR''),
      (hrv_decision review \<notin> {HR_APPROVE, HR_REJECT},
         ResearchInputError ''human review decision must be APPROVE or REJECT'')] ()"

definition evaluate_finding_creation :: "finding_creation_context \<Rightarrow> finding_creation_decision" where
  "evaluate_finding_creation c =
     (let reject = (\<lambda>oc codes. \<lparr>fcd_outcome = oc, fcd_reason_codes = codes,
                      fcd_proposal_state = fcx_proposal_state c, fcd_creates_finding = False\<rparr>) in
      if fcx_candidate_state c \<noteq> CS_VALIDATED
      then reject FC_REJECTED_CANDIDATE_NOT_VALIDATED [''CANDIDATE_NOT_VALIDATED'']
      else if fcx_proposal_state c \<noteq> FPS_HUMAN_REVIEW
      then reject FC_REJECTED_ILLEGAL_STATE [''PROPOSAL_NOT_IN_HUMAN_REVIEW'']
      else case fcx_human_review c of
        None \<Rightarrow> reject FC_REJECTED_MISSING_REVIEW [''HUMAN_REVIEW_REQUIRED'']
      | Some review \<Rightarrow>
          if hrv_actor_type review \<noteq> HUMAN_OPERATOR_ACTOR
             \<or> (fcx_approval_actor_type c \<noteq> None \<and> fcx_approval_actor_type c \<noteq> Some HUMAN_OPERATOR_ACTOR)
          then reject FC_REJECTED_ACTOR [''NON_HUMAN_ACTOR'']
          else if hrv_proposal_id review \<noteq> fcx_proposal_id c
             \<or> hrv_content_fingerprint review \<noteq> fcx_content_fingerprint c
          then reject FC_REJECTED_SUBJECT_MISMATCH [''REVIEW_CONTENT_MISMATCH'']
          else if \<not> fcx_approval_subject_matches c \<or> \<not> fcx_approval_valid_record c
          then reject (if \<not> fcx_approval_valid_record c then FC_REJECTED_MISSING_APPROVAL
                       else FC_REJECTED_SUBJECT_MISMATCH)
                 (if \<not> fcx_approval_valid_record c then [''APPROVAL_REQUIRED''] else [''APPROVAL_SUBJECT_MISMATCH''])
          else if fcx_approval_decision c \<noteq> Some (hrv_decision review)
          then reject FC_REJECTED_INCONSISTENT_DECISIONS [''REVIEW_APPROVAL_DECISION_MISMATCH'']
          else if hrv_decision review = HR_REJECT
          then \<lparr>fcd_outcome = FC_REJECTED_PROPOSAL,
                fcd_reason_codes = [''HUMAN_REJECTED_PROPOSAL'', ''CANDIDATE_REMAINS_VALIDATED''],
                fcd_proposal_state = FPS_REJECTED, fcd_creates_finding = False\<rparr>
          else if \<not> fcx_approval_authorizes c
          then \<lparr>fcd_outcome = FC_REJECTED_PROPOSAL,
                fcd_reason_codes = [''CORE_APPROVAL_REJECTED'', ''CANDIDATE_REMAINS_VALIDATED''],
                fcd_proposal_state = FPS_REJECTED, fcd_creates_finding = False\<rparr>
          else \<lparr>fcd_outcome = FC_CREATED,
                fcd_reason_codes =
                  (if (fcx_title c = HTTP_AUTHORIZATION_DIFFERENTIAL_FINDING_TITLE
                         \<and> fcx_claim c = HTTP_AUTHORIZATION_DIFFERENTIAL_CANDIDATE_CLAIM)
                      \<or> (fcx_title c = HTTP_STATE_TRANSITION_FINDING_TITLE
                         \<and> fcx_claim c = HTTP_STATE_TRANSITION_CANDIDATE_CLAIM)
                   then [''AUTHORIZED_LOCAL_LAB_FINDING'']
                   else [''DIAGNOSTIC_PLUMBING_FINDING'', ''NOT_A_VULNERABILITY'']),
                fcd_proposal_state = FPS_APPROVED, fcd_creates_finding = True\<rparr>)"

section \<open>Facts\<close>

lemma finding_decision_not_admitted [simp]: "\<not> creates_proposal (finding_decision oc r d)"
  by (simp add: creates_proposal_def finding_decision_def)

lemma creates_proposal_if [simp]:
  "creates_proposal (if b then finding_decision oc r d else e) \<longleftrightarrow> \<not> b \<and> creates_proposal e"
  by simp

definition proposal_provenance_intact :: "finding_proposal_draft \<Rightarrow> finding_proposal_admission_context \<Rightarrow> bool" where
  "proposal_provenance_intact d c \<longleftrightarrow>
     fpd_candidate_id d = fpx_candidate_id c \<and> fpd_research_run_id d = fpx_research_run_id c
     \<and> set (fpd_evidence_ids d) = set (fpx_evidence_ids c)
     \<and> set (fpd_verification_ids d) = set (fpx_verification_ids c)"

definition proposal_content_expected :: "finding_proposal_draft \<Rightarrow> finding_proposal_admission_context \<Rightarrow> bool" where
  "proposal_content_expected d c \<longleftrightarrow>
     (fpd_title d, fpd_claim d, fpx_classification c) \<in>
       {(DIAGNOSTIC_FINDING_PROPOSAL_TITLE, DIAGNOSTIC_ECHO_MATCHED_CLAIM, DIAGNOSTIC_CANDIDATE_CLASSIFICATION),
        (HTTP_AUTHORIZATION_DIFFERENTIAL_FINDING_TITLE, HTTP_AUTHORIZATION_DIFFERENTIAL_CLAIM,
           HTTP_AUTHORIZATION_DIFFERENTIAL_CLASSIFICATION),
        (HTTP_STATE_TRANSITION_FINDING_TITLE, HTTP_STATE_TRANSITION_CLAIM, HTTP_STATE_TRANSITION_CLASSIFICATION)}"

lemma finding_codes_Nil: "finding_codes d c = [] \<longleftrightarrow> proposal_provenance_intact d c"
  by (auto simp: finding_codes_def proposal_provenance_intact_def)

lemmas candidate_claim_defs = DIAGNOSTIC_CANDIDATE_CLAIM_def
  HTTP_AUTHORIZATION_DIFFERENTIAL_CANDIDATE_CLAIM_def HTTP_STATE_TRANSITION_CANDIDATE_CLAIM_def

lemma admit_finding_proposal_iff:
  "creates_proposal (admit_finding_proposal d c) \<longleftrightarrow>
     fpx_candidate_state c = CS_VALIDATED \<and> (\<forall>i \<in> set (fpd_impact_claims d). \<not> blank (ic_chain_id i)) \<and>
     proposal_provenance_intact d c \<and> proposal_content_expected d c"
proof (cases "finding_codes d c = []")
  case True
  then have "proposal_provenance_intact d c" by (simp add: finding_codes_Nil)
  then show ?thesis
    using True unfolding admit_finding_proposal_def Let_def proposal_content_expected_def
    by (cases "fpx_classification c = HTTP_AUTHORIZATION_DIFFERENTIAL_CLASSIFICATION";
        cases "fpx_classification c = HTTP_STATE_TRANSITION_CLASSIFICATION")
       (auto simp: finding_expectations_def candidate_claim_defs list_ex_iff creates_proposal_def finding_decision_def)
next
  case False
  then have "\<not> proposal_provenance_intact d c" by (simp add: finding_codes_Nil)
  then show ?thesis
    using False unfolding admit_finding_proposal_def Let_def by (simp add: case_prod_beta)
qed

definition legal_proposal :: "finding_proposal_state \<Rightarrow> finding_proposal_state \<Rightarrow> bool" where
  "legal_proposal s t \<longleftrightarrow> transition_finding_proposal s t = Inr t"

fun proposal_rank :: "finding_proposal_state \<Rightarrow> nat" where
  "proposal_rank FPS_PROPOSED = 2"
| "proposal_rank FPS_HUMAN_REVIEW = 1"
| "proposal_rank _ = 0"

lemma transition_finding_proposal_Inr_iff:
  "transition_finding_proposal s t = Inr u \<longleftrightarrow> u = t \<and> (s, t) \<in> set LEGAL_FINDING_PROPOSAL_TRANSITIONS"
  by (auto simp: transition_finding_proposal_def)

interpretation finding_proposal: lifecycle legal_proposal "\<lambda>s. s \<in> {FPS_APPROVED, FPS_REJECTED}" proposal_rank
  by unfold_locales
     (auto simp: legal_proposal_def transition_finding_proposal_Inr_iff LEGAL_FINDING_PROPOSAL_TRANSITIONS_def)

lemma admit_human_review_ok:
  "admit_human_review r pid fp = Inr u \<longleftrightarrow>
   hrv_proposal_id r = pid \<and> hrv_content_fingerprint r = fp \<and> hrv_actor_type r = ''HUMAN_OPERATOR''"
  by (cases "hrv_decision r") (auto simp: admit_human_review_def raise_first_Inr_iff HUMAN_OPERATOR_ACTOR_def)

definition human_approved :: "finding_creation_context \<Rightarrow> bool" where
  "human_approved c \<longleftrightarrow>
     (\<exists>r. fcx_human_review c = Some r \<and> hrv_actor_type r = HUMAN_OPERATOR_ACTOR \<and> hrv_decision r = HR_APPROVE
        \<and> hrv_proposal_id r = fcx_proposal_id c \<and> hrv_content_fingerprint r = fcx_content_fingerprint c)
     \<and> fcx_approval_valid_record c \<and> fcx_approval_subject_matches c \<and> fcx_approval_authorizes c
     \<and> fcx_approval_decision c = Some HR_APPROVE
     \<and> fcx_approval_actor_type c \<in> {None, Some HUMAN_OPERATOR_ACTOR}"

lemma evaluate_finding_creation_iff:
  "fcd_creates_finding (evaluate_finding_creation c) \<longleftrightarrow>
     fcx_candidate_state c = CS_VALIDATED \<and> fcx_proposal_state c = FPS_HUMAN_REVIEW \<and> human_approved c"
proof (cases "fcx_human_review c")
  case None
  then show ?thesis by (simp add: evaluate_finding_creation_def Let_def human_approved_def)
next
  case (Some r)
  then show ?thesis
    unfolding evaluate_finding_creation_def Let_def human_approved_def
    by (cases "hrv_decision r"; simp; blast)
qed

lemma evaluate_finding_creation_state:
  "fcd_proposal_state (evaluate_finding_creation c) \<noteq> fcx_proposal_state c \<Longrightarrow>
   legal_proposal (fcx_proposal_state c) (fcd_proposal_state (evaluate_finding_creation c)) \<and>
   (fcd_proposal_state (evaluate_finding_creation c) = FPS_APPROVED \<longleftrightarrow>
      fcd_creates_finding (evaluate_finding_creation c))"
  unfolding evaluate_finding_creation_def Let_def legal_proposal_def transition_finding_proposal_Inr_iff
    LEGAL_FINDING_PROPOSAL_TRANSITIONS_def
  by (cases "fcx_human_review c"; simp split: if_split_asm)

lemma content_payload_inj:
  "canon (content_payload a b c d e) = canon (content_payload a' b' c' d' e') \<longleftrightarrow>
   a = a' \<and> b = b' \<and> c = c' \<and> d = d' \<and> e = e'"
proof -
  have map_str: "map (canon \<circ> JStr) xs = map JStr xs" for xs by (simp add: comp_def)
  have inj: "map JStr xs = map JStr ys \<longleftrightarrow> xs = ys" for xs ys
    by (simp add: inj_on_def inj_map_eq_map)
  have "sort_key fst (map (map_prod id canon) [(''candidate_id'', JStr a), (''title'', JStr b), (''claim'', JStr c),
           (''evidence_ids'', JArr (map JStr d)), (''verification_ids'', JArr (map JStr e))]) =
      [(''candidate_id'', JStr a), (''claim'', JStr c), (''evidence_ids'', JArr (map JStr d)),
       (''title'', JStr b), (''verification_ids'', JArr (map JStr e))]" for a b c d e
    by (simp add: map_str less_char_def less_eq_char_def)
  then show ?thesis by (auto simp: content_payload_def inj map_str)
qed

definition content_bytes :: "finding_proposal_draft \<Rightarrow> string" where
  "content_bytes d = utf8 (dumps True (content_payload (fpd_candidate_id d) (fpd_title d) (fpd_claim d)
     (fpd_evidence_ids d) (fpd_verification_ids d)))"

lemma draft_content_fingerprint_bytes: "draft_content_fingerprint sha d = sha (content_bytes d)"
  by (simp add: draft_content_fingerprint_def finding_proposal_content_fingerprint_def content_bytes_def)

lemma content_bytes_inj:
  "content_bytes d = content_bytes e \<longleftrightarrow>
   fpd_candidate_id d = fpd_candidate_id e \<and> fpd_title d = fpd_title e \<and> fpd_claim d = fpd_claim e \<and>
   fpd_evidence_ids d = fpd_evidence_ids e \<and> fpd_verification_ids d = fpd_verification_ids e"
  by (simp add: content_bytes_def utf8_inj dumps_eq_iff content_payload_inj)

lemma approval_subject_eq_iff:
  assumes "length f = length g"
  shows "approval_subject_for p f = approval_subject_for q g \<longleftrightarrow> p = q \<and> f = g"
  using assms by (simp add: approval_subject_for_def)

section \<open>Properties\<close>

text \<open>
  C30. A finding proposal is created exactly for a VALIDATED candidate, with the same candidate, run,
  evidence set and verification set as the loaded ones, with the title and claim of the candidate's
  classification, and with a chain behind every impact claim.
\<close>

theorem admit_finding_proposal_characterised:
  "creates_proposal (admit_finding_proposal d c) \<longleftrightarrow>
     fpx_candidate_state c = CS_VALIDATED \<and> (\<forall>i \<in> set (fpd_impact_claims d). \<not> blank (ic_chain_id i)) \<and>
     proposal_provenance_intact d c \<and> proposal_content_expected d c"
  by (rule admit_finding_proposal_iff)

definition example_finding_context :: finding_proposal_admission_context where
  "example_finding_context = \<lparr>fpx_candidate_id = ''cand'', fpx_candidate_state = CS_VALIDATED,
     fpx_research_run_id = ''run'', fpx_evidence_ids = [''e1'', ''e2''], fpx_verification_ids = [''v1''],
     fpx_classification = ''HTTP_AUTHORIZATION_DIFFERENTIAL''\<rparr>"

theorem admit_finding_proposal_characterised_witness:
  "\<exists>d. propose_authorization_differential_finding_proposal example_finding_context ''p'' = Inr (Some d) \<and>
     creates_proposal (admit_finding_proposal d example_finding_context)"
proof -
  have ok: "\<not> blank ''p'' \<and> \<not> blank ''cand'' \<and> \<not> blank ''run'' \<and> \<not> blank ''e1'' \<and> \<not> blank ''e2'' \<and> \<not> blank ''v1''"
    "py_strip ''cand'' = ''cand''" "py_strip ''run'' = ''run''" "py_strip ''e1'' = ''e1''" "py_strip ''e2'' = ''e2''"
    "py_strip ''v1'' = ''v1''" "py_strip HTTP_AUTHORIZATION_DIFFERENTIAL_FINDING_TITLE = HTTP_AUTHORIZATION_DIFFERENTIAL_FINDING_TITLE"
    "\<not> blank HTTP_AUTHORIZATION_DIFFERENTIAL_FINDING_TITLE" "\<not> blank HTTP_AUTHORIZATION_DIFFERENTIAL_CLAIM"
    by code_simp+
  obtain d where d: "propose_authorization_differential_finding_proposal example_finding_context ''p'' = Inr (Some d)"
      "fpd_candidate_id d = ''cand''" "fpd_research_run_id d = ''run''" "fpd_evidence_ids d = [''e1'', ''e2'']"
      "fpd_verification_ids d = [''v1'']" "fpd_title d = HTTP_AUTHORIZATION_DIFFERENTIAL_FINDING_TITLE"
      "fpd_claim d = HTTP_AUTHORIZATION_DIFFERENTIAL_CLAIM" "fpd_impact_claims d = []"
    using ok by (auto simp: propose_authorization_differential_finding_proposal_def finding_draft_of_def
        post_init_finding_proposal_draft_def example_finding_context_def classification_defs
        candidate_claim_defs result_simps FORBIDDEN_FINDING_KEYS_def)
  then show ?thesis
    using admit_finding_proposal_characterised [of d example_finding_context]
    by (auto simp: example_finding_context_def proposal_provenance_intact_def proposal_content_expected_def classification_defs)
qed

text \<open>
  C11. The creation gate: a Finding is created exactly for a VALIDATED candidate and a proposal under
  human review whose recorded review by a human operator approves exactly this proposal and content,
  together with a valid, authorizing Core approval of the same subject and decision; the proposal
  state changes only along its lifecycle, and to APPROVED exactly when a Finding is created.
\<close>

theorem finding_creation_gate:
  "(fcd_creates_finding (evaluate_finding_creation c) \<longleftrightarrow>
     fcx_candidate_state c = CS_VALIDATED \<and> fcx_proposal_state c = FPS_HUMAN_REVIEW \<and> human_approved c) \<and>
   (fcd_proposal_state (evaluate_finding_creation c) = fcx_proposal_state c \<or>
    (fcx_proposal_state c, fcd_proposal_state (evaluate_finding_creation c)) \<in> set LEGAL_FINDING_PROPOSAL_TRANSITIONS \<and>
    (fcd_proposal_state (evaluate_finding_creation c) = FPS_APPROVED \<longleftrightarrow>
       fcd_creates_finding (evaluate_finding_creation c)))"
  using evaluate_finding_creation_iff [of c] evaluate_finding_creation_state [of c]
  unfolding legal_proposal_def transition_finding_proposal_Inr_iff by argo

text \<open>
  C29. An approval subject binds a proposal to its content: with digests of one length, two drafts
  have the same approval subject exactly when they are the same proposal and their content digests
  agree; so, unless the hash collides on the encodings of these two drafts, they have the same
  candidate, title, claim, evidence and verifications.  Rationale and provenance are not bound.
\<close>

theorem approval_subject_binds_content:
  assumes "\<forall>x y. length (sha x) = length (sha y)"
    and "sha (content_bytes d) = sha (content_bytes e) \<longrightarrow> content_bytes d = content_bytes e"
  shows "draft_approval_subject sha d = draft_approval_subject sha e \<longleftrightarrow>
    fpd_proposal_id d = fpd_proposal_id e \<and> fpd_candidate_id d = fpd_candidate_id e \<and>
    fpd_title d = fpd_title e \<and> fpd_claim d = fpd_claim e \<and>
    fpd_evidence_ids d = fpd_evidence_ids e \<and> fpd_verification_ids d = fpd_verification_ids e"
proof -
  have "length (sha (content_bytes d)) = length (sha (content_bytes e))" using assms(1) by blast
  then have "draft_approval_subject sha d = draft_approval_subject sha e \<longleftrightarrow>
      fpd_proposal_id d = fpd_proposal_id e \<and> sha (content_bytes d) = sha (content_bytes e)"
    unfolding draft_approval_subject_def draft_content_fingerprint_bytes by (rule approval_subject_eq_iff)
  then show ?thesis using assms(2) content_bytes_inj [of d e] by argo
qed

definition example_draft :: "string \<Rightarrow> payload \<Rightarrow> finding_proposal_draft" where
  "example_draft title rationale = \<lparr>fpd_proposal_id = ''p'', fpd_candidate_id = ''cand'', fpd_research_run_id = ''run'',
     fpd_title = title, fpd_claim = ''c'', fpd_evidence_ids = [''e1''], fpd_verification_ids = [''v1''],
     fpd_rationale = rationale, fpd_provenance = [], fpd_impact_claims = []\<rparr>"

text \<open>A digest of length one that tells apart the two encodings below.\<close>

definition toy_digest :: "string \<Rightarrow> string" where
  "toy_digest x = (if x = content_bytes (example_draft ''t'' []) then ''a'' else ''b'')"

theorem approval_subject_binds_content_witness:
  "draft_approval_subject toy_digest (example_draft ''t'' []) = draft_approval_subject toy_digest (example_draft ''t'' [(''k'', JNull)]) \<and>
   draft_approval_subject toy_digest (example_draft ''t'' []) \<noteq> draft_approval_subject toy_digest (example_draft ''u'' [])"
  using approval_subject_binds_content [of toy_digest "example_draft ''t'' []" "example_draft ''t'' [(''k'', JNull)]"]
    approval_subject_binds_content [of toy_digest "example_draft ''t'' []" "example_draft ''u'' []"]
    content_bytes_inj [of "example_draft ''t'' []" "example_draft ''u'' []"]
    content_bytes_inj [of "example_draft ''t'' []" "example_draft ''t'' [(''k'', JNull)]"]
  by (simp add: toy_digest_def) (simp add: example_draft_def)

end
