(* ===== verification/Impact.thy ===== *)
theory Impact
  imports Research_Types
begin

text \<open>
  Impact chains: construction with structural integrity (\<open>research/impact/chain.py\<close>), the proof
  check (\<open>validator.py\<close>) and the capability rule (\<open>capability_map.py\<close>, \<open>types.py\<close>).  A proof
  resolver is a port of the source and an argument here; it may raise.  Python sets are lists; the
  cycle search is proved independent of their order.
\<close>

section \<open>Vocabulary\<close>

datatype impact_kind = IK_DATA_READ | IK_DATA_WRITE | IK_AUTH_BYPASS | IK_STATE_CORRUPTION
  | IK_ACCOUNT_TAKEOVER_PATH | IK_EXTERNAL_CALLBACK

fun impact_kind_value :: "impact_kind \<Rightarrow> string" where
  "impact_kind_value IK_DATA_READ = ''DATA_READ''"
| "impact_kind_value IK_DATA_WRITE = ''DATA_WRITE''"
| "impact_kind_value IK_AUTH_BYPASS = ''AUTH_BYPASS''"
| "impact_kind_value IK_STATE_CORRUPTION = ''STATE_CORRUPTION''"
| "impact_kind_value IK_ACCOUNT_TAKEOVER_PATH = ''ACCOUNT_TAKEOVER_PATH''"
| "impact_kind_value IK_EXTERNAL_CALLBACK = ''EXTERNAL_CALLBACK''"

definition impact_kind_of :: "string \<Rightarrow> impact_kind option" where
  "impact_kind_of v = find (\<lambda>k. impact_kind_value k = v)
     [IK_DATA_READ, IK_DATA_WRITE, IK_AUTH_BYPASS, IK_STATE_CORRUPTION, IK_ACCOUNT_TAKEOVER_PATH,
      IK_EXTERNAL_CALLBACK]"

datatype impact_relation = IR_ENABLES | IR_ESCALATES | IR_CONFIRMS

fun impact_relation_value :: "impact_relation \<Rightarrow> string" where
  "impact_relation_value IR_ENABLES = ''ENABLES''"
| "impact_relation_value IR_ESCALATES = ''ESCALATES''"
| "impact_relation_value IR_CONFIRMS = ''CONFIRMS''"

definition impact_relation_of :: "string \<Rightarrow> impact_relation option" where
  "impact_relation_of v = find (\<lambda>k. impact_relation_value k = v) [IR_ENABLES, IR_ESCALATES, IR_CONFIRMS]"

datatype impact_error = ImpactInput research_error | ImpactGraphError string | ImpactValueError string

record chain_validation =
  cv_valid :: bool
  cv_reason_codes :: "string list"

record proof_record =
  pr_proof_id :: string
  pr_research_run_id :: string
  pr_target_reference :: string
  pr_demonstrated_capabilities :: "string list"

definition post_init_proof_record :: "proof_record \<Rightarrow> research_error + proof_record" where
  "post_init_proof_record r =
     bindE (strip_text (pr_proof_id r) ''proof_id'') (\<lambda>proof_id.
     bindE (strip_text (pr_research_run_id r) ''research_run_id'') (\<lambda>research_run_id.
     bindE (strip_text (pr_target_reference r) ''target_reference'') (\<lambda>target_reference.
     Inr \<lparr>pr_proof_id = proof_id, pr_research_run_id = research_run_id,
          pr_target_reference = target_reference,
          pr_demonstrated_capabilities = pr_demonstrated_capabilities r\<rparr>)))"

type_synonym 'e resolver = "string \<Rightarrow> string \<Rightarrow> 'e + proof_record option"

section \<open>Chains\<close>

record impact_scope_ref =
  isr_research_run_id :: string
  isr_program_id :: string
  isr_target_reference :: string

definition post_init_impact_scope_ref :: "impact_scope_ref \<Rightarrow> research_error + impact_scope_ref" where
  "post_init_impact_scope_ref r =
     bindE (strip_text (isr_research_run_id r) ''research_run_id'') (\<lambda>research_run_id.
     bindE (strip_text (isr_program_id r) ''program_id'') (\<lambda>program_id.
     bindE (strip_text (isr_target_reference r) ''target_reference'') (\<lambda>target_reference.
     Inr \<lparr>isr_research_run_id = research_run_id, isr_program_id = program_id,
          isr_target_reference = target_reference\<rparr>)))"

record impact_node =
  in_node_id :: string
  in_proof_refs :: "string list"
  in_impact_kind :: impact_kind
  in_claim_text :: string
  in_scope_ref :: impact_scope_ref
  in_provenance :: payload

definition post_init_impact_node :: "impact_node \<Rightarrow> impact_error + impact_node" where
  "post_init_impact_node n =
     bindE (mapErr ImpactInput (strip_text (in_node_id n) ''node_id'')) (\<lambda>node_id.
     bindE (mapErr ImpactInput (strip_ids (in_proof_refs n) ''proof_refs'')) (\<lambda>proof_refs.
     if proof_refs = [] then Inl (ImpactGraphError ''EMPTY_PROOF_REFS'') else
     bindE (mapErr ImpactInput (strip_text (in_claim_text n) ''claim_text'')) (\<lambda>claim_text.
     Inr \<lparr>in_node_id = node_id, in_proof_refs = proof_refs, in_impact_kind = in_impact_kind n,
          in_claim_text = claim_text, in_scope_ref = in_scope_ref n, in_provenance = in_provenance n\<rparr>)))"

record impact_edge =
  ie_from_node_id :: string
  ie_to_node_id :: string
  ie_relation :: impact_relation

definition post_init_impact_edge :: "impact_edge \<Rightarrow> research_error + impact_edge" where
  "post_init_impact_edge e =
     bindE (strip_text (ie_from_node_id e) ''from_node_id'') (\<lambda>from_node_id.
     bindE (strip_text (ie_to_node_id e) ''to_node_id'') (\<lambda>to_node_id.
     Inr \<lparr>ie_from_node_id = from_node_id, ie_to_node_id = to_node_id, ie_relation = ie_relation e\<rparr>))"

record impact_chain =
  ich_chain_id :: string
  ich_nodes :: "impact_node list"
  ich_edges :: "impact_edge list"

section \<open>Cycle search\<close>

text \<open>
  The depth-first search of \<open>_has_cycle\<close>: the state is the visited set and the recursion stack; the
  Boolean is the returned value.  \<open>visit_neighbors\<close> is the loop over the neighbours.  \<open>None\<close> is running
  out of fuel, which stands for a search that does not return; it is kept apart from both answers.
\<close>

type_synonym dfs = "string list \<times> string list"

function visit :: "nat \<Rightarrow> (string \<Rightarrow> string list) \<Rightarrow> string \<Rightarrow> dfs \<Rightarrow> (bool \<times> dfs) option"
and visit_neighbors :: "nat \<Rightarrow> (string \<Rightarrow> string list) \<Rightarrow> string list \<Rightarrow> dfs \<Rightarrow> (bool \<times> dfs) option" where
  "visit 0 adjacency node_id s = None"
| "visit (Suc n) adjacency node_id (visited, rec_stack) =
     (case visit_neighbors n adjacency (adjacency node_id) (node_id # visited, node_id # rec_stack) of
        None \<Rightarrow> None
      | Some (True, s) \<Rightarrow> Some (True, s)
      | Some (False, (visited', rec_stack')) \<Rightarrow> Some (False, (visited', remove1 node_id rec_stack')))"
| "visit_neighbors n adjacency [] s = Some (False, s)"
| "visit_neighbors n adjacency (neighbor # neighbors) (visited, rec_stack) =
     (if neighbor \<notin> set visited
      then case visit n adjacency neighbor (visited, rec_stack) of
             None \<Rightarrow> None
           | Some (True, s) \<Rightarrow> Some (True, s)
           | Some (False, s) \<Rightarrow> visit_neighbors n adjacency neighbors s
      else if neighbor \<in> set rec_stack then Some (True, (visited, rec_stack))
      else visit_neighbors n adjacency neighbors (visited, rec_stack))"
  by pat_completeness auto
termination
  by (relation "measures [case_sum (\<lambda>(n, _). 2 * n) (\<lambda>(n, _). 2 * n + 1),
        case_sum (\<lambda>_. 0) (\<lambda>(_, _, ns, _). length ns)]") auto

fun visit_roots :: "nat \<Rightarrow> (string \<Rightarrow> string list) \<Rightarrow> string list \<Rightarrow> dfs \<Rightarrow> bool option" where
  "visit_roots n adjacency [] s = Some False"
| "visit_roots n adjacency (node_id # node_ids) (visited, rec_stack) =
     (if node_id \<notin> set visited
      then case visit n adjacency node_id (visited, rec_stack) of
             None \<Rightarrow> None
           | Some (True, s) \<Rightarrow> Some True
           | Some (False, s) \<Rightarrow> visit_roots n adjacency node_ids s
      else visit_roots n adjacency node_ids (visited, rec_stack))"

definition adjacency_of :: "impact_edge list \<Rightarrow> string \<Rightarrow> string list" where
  "adjacency_of edges node_id = dedup (map ie_to_node_id (filter (\<lambda>e. ie_from_node_id e = node_id) edges))"

definition has_cycle :: "string list \<Rightarrow> impact_edge list \<Rightarrow> bool option" where
  "has_cycle node_ids edges = visit_roots (length node_ids) (adjacency_of edges) node_ids ([], [])"

fun check_edges :: "string list \<Rightarrow> impact_edge list \<Rightarrow> impact_error + unit" where
  "check_edges node_ids [] = Inr ()"
| "check_edges node_ids (e # es) =
     (if ie_from_node_id e \<notin> set node_ids then Inl (ImpactGraphError ''DANGLING_EDGE_FROM_NODE'')
      else if ie_to_node_id e \<notin> set node_ids then Inl (ImpactGraphError ''DANGLING_EDGE_TO_NODE'')
      else if ie_from_node_id e = ie_to_node_id e then Inl (ImpactGraphError ''SELF_LOOP_NOT_ALLOWED'')
      else check_edges node_ids es)"

text \<open>
  A search that does not return is no error of the source.  It gets a code of its own here, so that a
  statement about the constructor shows whether it can happen.
\<close>

definition search_diverges :: impact_error where
  "search_diverges = ImpactGraphError ''(the search does not return)''"

definition post_init_impact_chain :: "impact_chain \<Rightarrow> impact_error + impact_chain" where
  "post_init_impact_chain c =
     bindE (mapErr ImpactInput (strip_text (ich_chain_id c) ''chain_id'')) (\<lambda>chain_id.
     if ich_nodes c = [] then Inl (ImpactGraphError ''CHAIN_HAS_NO_NODES'') else
     (let node_ids = dedup (map in_node_id (ich_nodes c)) in
      bindE (check_edges node_ids (ich_edges c)) (\<lambda>_.
      case has_cycle node_ids (ich_edges c) of
        None \<Rightarrow> Inl search_diverges
      | Some True \<Rightarrow> Inl (ImpactGraphError ''CHAIN_CONTAINS_CYCLE'')
      | Some False \<Rightarrow> Inr (c\<lparr>ich_chain_id := chain_id\<rparr>))))"

section \<open>Proof and capability checks\<close>

fun proof_codes :: "'e resolver \<Rightarrow> string \<Rightarrow> string list \<Rightarrow> 'e + string list" where
  "proof_codes resolve run_id [] = Inr []"
| "proof_codes resolve run_id (proof_id # proof_ids) =
     bindE (resolve proof_id run_id) (\<lambda>found.
     bindE (proof_codes resolve run_id proof_ids) (\<lambda>codes.
     Inr ((case found of None \<Rightarrow> [''HALLUCINATED_OR_ABSENT_PROOF'']
           | Some r \<Rightarrow> if pr_research_run_id r \<noteq> run_id then [''CROSS_RUN_PROOF''] else []) @ codes)))"

fun chain_codes :: "'e resolver \<Rightarrow> string \<Rightarrow> impact_node list \<Rightarrow> 'e + string list" where
  "chain_codes resolve run_id [] = Inr []"
| "chain_codes resolve run_id (node # nodes) =
     bindE (if in_proof_refs node = [] then Inr [''EMPTY_PROOF_REFS'']
            else proof_codes resolve run_id (in_proof_refs node)) (\<lambda>codes.
     bindE (chain_codes resolve run_id nodes) (\<lambda>codes'. Inr (codes @ codes')))"

definition validate_chain :: "impact_chain \<Rightarrow> 'e resolver \<Rightarrow> string \<Rightarrow> 'e + chain_validation" where
  "validate_chain chain resolve expected_run_id =
     bindE (chain_codes resolve expected_run_id (ich_nodes chain)) (\<lambda>reason_codes.
     Inr (if reason_codes \<noteq> [] then \<lparr>cv_valid = False, cv_reason_codes = reason_codes\<rparr>
          else \<lparr>cv_valid = True, cv_reason_codes = [''IMPACT_CHAIN_PROOFS_RESOLVED'']\<rparr>))"

definition DEMONSTRATED_CAPABILITY_TO_IMPACT_KIND :: "(string \<times> string list) list" where
  "DEMONSTRATED_CAPABILITY_TO_IMPACT_KIND =
     [(''READ_OTHER_OBJECT'', [''DATA_READ'', ''AUTH_BYPASS'']),
      (''WORKFLOW_TRANSITION_WITHOUT_AUTH'', [''STATE_CORRUPTION'', ''AUTH_BYPASS'']),
      (''OAST_CALLBACK_RECEIVED'', [''EXTERNAL_CALLBACK'']),
      (''AUTHENTICATED_AS_USER'', [''AUTH_BYPASS'']),
      (''PRIVILEGE_ESCALATION_EVIDENCE'', [''AUTH_BYPASS'']),
      (''WRITE_OTHER_OBJECT'', [''DATA_WRITE'', ''STATE_CORRUPTION'']),
      (''CROSS_ACCOUNT_SESSION_ASSUMPTION'', [])]"

definition COMPOSITE_CAPABILITY_REQUIREMENTS :: "(string \<times> string list list) list" where
  "COMPOSITE_CAPABILITY_REQUIREMENTS =
     [(''ACCOUNT_TAKEOVER_PATH'',
       [[''AUTHENTICATED_AS_USER'', ''PRIVILEGE_ESCALATION_EVIDENCE''],
        [''AUTHENTICATED_AS_USER'', ''CROSS_ACCOUNT_SESSION_ASSUMPTION'']])]"

definition allowed_kinds :: "string list \<Rightarrow> string list" where
  "allowed_kinds capabilities =
     concat (map (\<lambda>c. case map_of DEMONSTRATED_CAPABILITY_TO_IMPACT_KIND c of None \<Rightarrow> [] | Some ks \<Rightarrow> ks) capabilities) @
     map fst (filter (\<lambda>(impact_kind, options).
       list_ex (\<lambda>required_set. set required_set \<subseteq> set capabilities) options) COMPOSITE_CAPABILITY_REQUIREMENTS)"

text \<open>The loop over the proofs of a node: the collected capabilities, or the verdict it returns early.\<close>

fun node_capabilities :: "'e resolver \<Rightarrow> string \<Rightarrow> string list \<Rightarrow> 'e + (chain_validation + string list)" where
  "node_capabilities resolve run_id [] = Inr (Inr [])"
| "node_capabilities resolve run_id (proof_id # proof_ids) =
     bindE (resolve proof_id run_id) (\<lambda>found. case found of
       None \<Rightarrow> Inr (Inl \<lparr>cv_valid = False, cv_reason_codes = [''HALLUCINATED_OR_ABSENT_PROOF'']\<rparr>)
     | Some r \<Rightarrow>
         if pr_research_run_id r \<noteq> run_id
         then Inr (Inl \<lparr>cv_valid = False, cv_reason_codes = [''CROSS_RUN_PROOF'']\<rparr>)
         else bindE (node_capabilities resolve run_id proof_ids) (\<lambda>rest. Inr (case rest of
                Inl v \<Rightarrow> Inl v | Inr caps \<Rightarrow> Inr (pr_demonstrated_capabilities r @ caps))))"

definition validate_impact_scope :: "impact_node \<Rightarrow> 'e resolver \<Rightarrow> string \<Rightarrow> 'e + chain_validation" where
  "validate_impact_scope node resolve expected_run_id =
     bindE (node_capabilities resolve expected_run_id (in_proof_refs node)) (\<lambda>res. Inr (case res of
       Inl v \<Rightarrow> v
     | Inr capabilities \<Rightarrow>
         if impact_kind_value (in_impact_kind node) \<notin> set (allowed_kinds capabilities)
         then \<lparr>cv_valid = False, cv_reason_codes = [''IMPACT_EXCEEDS_DEMONSTRATED_CAPABILITY'']\<rparr>
         else \<lparr>cv_valid = True, cv_reason_codes = [''IMPACT_KIND_WITHIN_DEMONSTRATED_CAPABILITY'']\<rparr>))"

fun scope_codes :: "'e resolver \<Rightarrow> string \<Rightarrow> impact_node list \<Rightarrow> 'e + string list" where
  "scope_codes resolve run_id [] = Inr []"
| "scope_codes resolve run_id (node # nodes) =
     bindE (validate_impact_scope node resolve run_id) (\<lambda>v.
     bindE (scope_codes resolve run_id nodes) (\<lambda>codes.
     Inr ((if cv_valid v then [] else cv_reason_codes v) @ codes)))"

definition validate_chain_impact_scope :: "impact_chain \<Rightarrow> 'e resolver \<Rightarrow> string \<Rightarrow> 'e + chain_validation" where
  "validate_chain_impact_scope chain resolve expected_run_id =
     bindE (scope_codes resolve expected_run_id (ich_nodes chain)) (\<lambda>reason_codes.
     Inr (if reason_codes \<noteq> [] then \<lparr>cv_valid = False, cv_reason_codes = reason_codes\<rparr>
          else \<lparr>cv_valid = True, cv_reason_codes = [''IMPACT_SCOPE_VALIDATED'']\<rparr>))"

section \<open>The cycle search is exact\<close>

text \<open>A finished set: closed under successors and without a cycle inside.\<close>

definition succ_rel :: "(string \<Rightarrow> string list) \<Rightarrow> (string \<times> string) set" where
  "succ_rel adj = {(u, v). v \<in> set (adj u)}"

definition finished :: "(string \<Rightarrow> string list) \<Rightarrow> string set \<Rightarrow> bool" where
  "finished adj D \<longleftrightarrow> (\<forall>u \<in> D. set (adj u) \<subseteq> D) \<and> (\<forall>u \<in> D. (u, u) \<notin> (succ_rel adj)\<^sup>+)"

lemma finished_reach:
  assumes "(u, v) \<in> (succ_rel adj)\<^sup>*" "finished adj D" "u \<in> D"
  shows "v \<in> D"
  using assms by (induction rule: rtrancl_induct) (auto simp: finished_def succ_rel_def)

lemma finished_insert:
  assumes "finished adj D" "n \<notin> D" "set (adj n) \<subseteq> D"
  shows "finished adj (insert n D)"
proof -
  have "(n, n) \<notin> (succ_rel adj)\<^sup>+"
  proof
    assume "(n, n) \<in> (succ_rel adj)\<^sup>+"
    then obtain m where "(n, m) \<in> succ_rel adj" "(m, n) \<in> (succ_rel adj)\<^sup>*"
      by (meson tranclD)
    then have "n \<in> D" using finished_reach [OF _ assms(1)] assms(3) by (auto simp: succ_rel_def)
    with assms(2) show False by contradiction
  qed
  with assms show ?thesis by (auto simp: finished_def)
qed

lemmas visit_splits = option.splits prod.splits bool.splits if_splits

lemma visit_stack_mono:
  "visit n adj u (vis, stk) = Some (b, (vis', stk')) \<Longrightarrow>
     (\<not> b \<longrightarrow> stk' = stk) \<and> insert u (set vis) \<subseteq> set vis'"
  "visit_neighbors n adj us (vis, stk) = Some (b, (vis', stk')) \<Longrightarrow>
     (\<not> b \<longrightarrow> stk' = stk) \<and> set vis \<subseteq> set vis'"
proof (induction n adj u "(vis, stk)" and n adj us "(vis, stk)" arbitrary: b vis stk vis' stk' and b vis stk vis' stk'
    rule: visit_visit_neighbors.induct)
  case (2 n adj u vis stk)
  from "2.prems" obtain stk1 where
      nb: "visit_neighbors n adj (adj u) (u # vis, u # stk) = Some (b, (vis', stk1))"
      and stk1: "\<not> b \<longrightarrow> stk' = remove1 u stk1"
    by (auto split: visit_splits)
  show ?case using "2.hyps" [OF nb] stk1 by simp
next
  case (4 n adj u us vis stk)
  consider "visit_neighbors n adj us (vis, stk) = Some (b, (vis', stk'))" "u \<in> set vis" "u \<notin> set stk"
    | "b" "vis' = vis"
    | "visit n adj u (vis, stk) = Some (b, (vis', stk'))" "u \<notin> set vis" "b"
    | vis1 stk1 where "visit n adj u (vis, stk) = Some (False, (vis1, stk1))" "u \<notin> set vis"
        "visit_neighbors n adj us (vis1, stk1) = Some (b, (vis', stk'))"
    using "4.prems" by (auto split: visit_splits)
  then show ?case
  proof cases
    case 1
    then show ?thesis using "4.hyps"(3) by blast
  next
    case 3
    then show ?thesis using "4.hyps"(1) by blast
  next
    case (4 vis1 stk1)
    then show ?thesis using "4.hyps"(1) [OF 4(2,1)] "4.hyps"(2) [OF 4(2,1) refl refl 4(3)] by auto
  qed auto
qed auto

lemmas visit_stack = visit_stack_mono [where b = False, simplified, THEN conjunct1]

lemma visit_mono:
  "visit n adj u (vis, stk) = Some (b, (vis', stk')) \<Longrightarrow> insert u (set vis) \<subseteq> set vis'"
  "visit_neighbors n adj us (vis, stk) = Some (b, (vis', stk')) \<Longrightarrow> set vis \<subseteq> set vis'"
  by (drule visit_stack_mono(1), simp) (drule visit_stack_mono(2), simp)

text \<open>A search that finds no cycle extends the finished set.\<close>

lemma visit_False:
  "visit n adj u (vis, stk) = Some (False, (vis', stk')) \<Longrightarrow> u \<notin> set vis \<Longrightarrow> set stk \<subseteq> set vis \<Longrightarrow>
     finished adj (set vis - set stk) \<Longrightarrow> finished adj (set vis' - set stk)"
  "visit_neighbors n adj us (vis, stk) = Some (False, (vis', stk')) \<Longrightarrow> set stk \<subseteq> set vis \<Longrightarrow>
     finished adj (set vis - set stk) \<Longrightarrow> set us \<subseteq> set vis' - set stk \<and> finished adj (set vis' - set stk)"
proof (induction n adj u "(vis, stk)" and n adj us "(vis, stk)" arbitrary: vis stk vis' stk' and vis stk vis' stk'
    rule: visit_visit_neighbors.induct)
  case (2 n adj u vis stk)
  from "2.prems"(1) obtain stk1 where
      nb: "visit_neighbors n adj (adj u) (u # vis, u # stk) = Some (False, (vis', stk1))"
    by (auto split: visit_splits)
  have eq: "set (u # vis) - set (u # stk) = set vis - set stk" using "2.prems"(2,3) by auto
  then have ih: "set (adj u) \<subseteq> set vis' - set (u # stk)" "finished adj (set vis' - set (u # stk))"
    using "2.hyps" [OF nb] "2.prems"(3,4) by auto
  have "u \<notin> set stk" "u \<in> set vis'" using "2.prems"(2,3) visit_mono(2) [OF nb] by auto
  then have "set vis' - set stk = insert u (set vis' - set (u # stk))" by auto
  then show ?case using finished_insert [OF ih(2) _ ih(1)] by simp
next
  case (4 n adj u us vis stk)
  show ?case
  proof (cases "u \<in> set vis")
    case True
    then have nb: "u \<notin> set stk" "visit_neighbors n adj us (vis, stk) = Some (False, (vis', stk'))"
      using "4.prems"(1) by (auto split: if_splits)
    have "set us \<subseteq> set vis' - set stk \<and> finished adj (set vis' - set stk)"
      using "4.hyps"(3) [OF _ nb(1) nb(2)] True "4.prems"(2,3) by simp
    then show ?thesis using True nb(1) visit_mono(2) [OF nb(2)] by auto
  next
    case False
    then obtain vis1 where v: "visit n adj u (vis, stk) = Some (False, (vis1, stk))"
        and rest: "visit_neighbors n adj us (vis1, stk) = Some (False, (vis', stk'))"
      using "4.prems"(1) visit_stack(1) by (fastforce split: visit_splits)
    have sub: "insert u (set vis) \<subseteq> set vis1" "set vis1 \<subseteq> set vis'"
      using visit_mono(1) [OF v] visit_mono(2) [OF rest] by auto
    have "finished adj (set vis1 - set stk)" using "4.hyps"(1) [OF False v False "4.prems"(2,3)] .
    then have "set us \<subseteq> set vis' - set stk \<and> finished adj (set vis' - set stk)"
      using "4.hyps"(2) [OF False v refl refl rest] "4.prems"(2) sub by auto
    then show ?thesis using sub False "4.prems"(2) by auto
  qed
qed auto

lemma visit_True:
  "visit n adj u (vis, stk) = Some (True, s) \<Longrightarrow> \<forall>w \<in> set stk. (w, u) \<in> (succ_rel adj)\<^sup>+ \<Longrightarrow>
     \<exists>x. (x, x) \<in> (succ_rel adj)\<^sup>+"
  "visit_neighbors n adj us (vis, stk) = Some (True, s) \<Longrightarrow> set us \<subseteq> set (adj v) \<Longrightarrow>
     \<forall>w \<in> set stk. (w, v) \<in> (succ_rel adj)\<^sup>* \<Longrightarrow> \<exists>x. (x, x) \<in> (succ_rel adj)\<^sup>+"
proof (induction n adj u "(vis, stk)" and n adj us "(vis, stk)" arbitrary: vis stk s and vis stk s v
    rule: visit_visit_neighbors.induct)
  case (2 n adj u vis stk)
  from "2.prems"(1) have nb: "visit_neighbors n adj (adj u) (u # vis, u # stk) = Some (True, s)"
    by (auto split: visit_splits)
  show ?case by (rule "2.hyps" [OF nb, of u]) (use "2.prems"(2) in \<open>auto dest: trancl_into_rtrancl\<close>)
next
  case (4 n adj u us vis stk)
  have edge: "(v, u) \<in> succ_rel adj" using "4.prems"(2) by (simp add: succ_rel_def)
  then have down: "\<forall>w \<in> set stk. (w, u) \<in> (succ_rel adj)\<^sup>+"
    using "4.prems"(3) by (meson rtrancl_into_trancl1)
  show ?case
  proof (cases "u \<in> set vis")
    case True
    show ?thesis
    proof (cases "u \<in> set stk")
      case True
      then show ?thesis using down by blast
    next
      case out: False
      then have nb: "visit_neighbors n adj us (vis, stk) = Some (True, s)" using True "4.prems"(1) by auto
      show ?thesis by (rule "4.hyps"(3) [OF _ out nb]) (use True "4.prems"(2,3) in auto)
    qed
  next
    case False
    then consider "visit n adj u (vis, stk) = Some (True, s)"
      | vis1 where "visit n adj u (vis, stk) = Some (False, (vis1, stk))"
          "visit_neighbors n adj us (vis1, stk) = Some (True, s)"
      using "4.prems"(1) visit_stack(1) by (fastforce split: visit_splits)
    then show ?thesis
    proof cases
      case 1
      then show ?thesis using "4.hyps"(1) [OF False 1 down] by blast
    next
      case 2
      show ?thesis by (rule "4.hyps"(2) [OF False 2(1) refl refl 2(2)]) (use "4.prems"(2,3) in auto)
    qed
  qed
qed auto

text \<open>Fuel: the unvisited nodes bound the depth.\<close>

lemma visit_total:
  "u \<in> N \<Longrightarrow> u \<notin> set vis \<Longrightarrow> card (N - set vis) \<le> n \<Longrightarrow> finite N \<Longrightarrow> \<forall>x \<in> N. set (adj x) \<subseteq> N \<Longrightarrow>
     visit n adj u (vis, stk) \<noteq> None"
  "set us \<subseteq> N \<Longrightarrow> card (N - set vis) \<le> n \<Longrightarrow> finite N \<Longrightarrow> \<forall>x \<in> N. set (adj x) \<subseteq> N \<Longrightarrow>
     visit_neighbors n adj us (vis, stk) \<noteq> None"
proof (induction n adj u "(vis, stk)" and n adj us "(vis, stk)" arbitrary: vis stk and vis stk
    rule: visit_visit_neighbors.induct)
  case (1 adj u)
  then show ?case by (metis DiffI card_0_eq emptyE finite_Diff le_zero_eq)
next
  case (2 n adj u vis stk)
  have "N - set (u # vis) = (N - set vis) - {u}" by auto
  then have "card (N - set (u # vis)) < card (N - set vis)"
    using "2.prems" by (metis DiffI card_Diff1_less finite_Diff)
  then have "card (N - set (u # vis)) \<le> n" using "2.prems"(3) by simp
  then have "visit_neighbors n adj (adj u) (u # vis, u # stk) \<noteq> None" using "2.hyps" "2.prems" by blast
  then show ?case by (auto split: visit_splits)
next
  case (4 n adj u us vis stk)
  have smaller: "card (N - set vis1) \<le> n" if "set vis \<subseteq> set vis1" for vis1
    using "4.prems"(2,3) that by (meson Diff_mono card_mono dual_order.trans finite_Diff order_refl)
  show ?case
  proof (cases "u \<in> set vis")
    case True
    then show ?thesis using 4 by auto
  next
    case False
    then have "visit n adj u (vis, stk) \<noteq> None" using 4 by auto
    then obtain b vis1 stk1 where v: "visit n adj u (vis, stk) = Some (b, (vis1, stk1))" by fastforce
    show ?thesis
    proof (cases b)
      case True
      then show ?thesis using v False by simp
    next
      case no: False
      have "card (N - set vis1) \<le> n" using smaller visit_mono(1) [OF v] by auto
      then have "visit_neighbors n adj us (vis1, stk1) \<noteq> None"
        using "4.hyps"(2) [OF False, of "(False, vis1, stk1)" False vis1 stk1] v "4.prems" no by auto
      then show ?thesis using v False no by simp
    qed
  qed
qed auto

lemma visit_roots_False:
  "visit_roots n adj us (vis, []) = Some False \<Longrightarrow> finished adj (set vis) \<Longrightarrow>
     \<exists>V. finished adj V \<and> set vis \<subseteq> V \<and> set us \<subseteq> V"
proof (induction n adj us "(vis, [] :: string list)" arbitrary: vis rule: visit_roots.induct)
  case (2 n adj u us vis)
  show ?case
  proof (cases "u \<in> set vis")
    case True
    then show ?thesis using 2 by auto
  next
    case False
    then obtain vis1 where v: "visit n adj u (vis, []) = Some (False, (vis1, []))"
        and rest: "visit_roots n adj us (vis1, []) = Some False"
      using "2.prems"(1) visit_stack(1) by (fastforce split: visit_splits)
    have "finished adj (set vis1)" using visit_False(1) [OF v False] "2.prems"(2) by simp
    then obtain V where V: "finished adj V" "set vis1 \<subseteq> V" "set us \<subseteq> V"
      using "2.hyps"(1) [OF False v refl refl rest] by blast
    then show ?thesis using visit_mono(1) [OF v] by (metis insert_subset list.simps(15) subset_trans)
  qed
qed auto

lemma visit_roots_True:
  "visit_roots n adj us (vis, []) = Some True \<Longrightarrow> \<exists>x. (x, x) \<in> (succ_rel adj)\<^sup>+"
proof (induction n adj us "(vis, [] :: string list)" arbitrary: vis rule: visit_roots.induct)
  case (2 n adj u us vis)
  show ?case
  proof (cases "u \<in> set vis")
    case True
    then show ?thesis using 2 by auto
  next
    case False
    then consider s where "visit n adj u (vis, []) = Some (True, s)"
      | vis1 where "visit n adj u (vis, []) = Some (False, (vis1, []))" "visit_roots n adj us (vis1, []) = Some True"
      using "2.prems"(1) visit_stack(1) by (fastforce split: visit_splits)
    then show ?thesis
    proof cases
      case 1
      then show ?thesis using visit_True(1) by fastforce
    next
      case 2
      then show ?thesis using "2.hyps"(1) [OF False 2(1) refl refl 2(2)] by blast
    qed
  qed
qed auto

lemma visit_roots_total:
  assumes "finite N" "\<forall>x \<in> N. set (adj x) \<subseteq> N"
  shows "set us \<subseteq> N \<Longrightarrow> card (N - set vis) \<le> n \<Longrightarrow> visit_roots n adj us (vis, stk) \<noteq> None"
proof (induction us arbitrary: vis stk)
  case (Cons u us)
  show ?case
  proof (cases "u \<in> set vis")
    case True
    then show ?thesis using Cons by auto
  next
    case False
    then have "visit n adj u (vis, stk) \<noteq> None" using visit_total(1) assms Cons.prems by auto
    then obtain b vis1 stk1 where v: "visit n adj u (vis, stk) = Some (b, (vis1, stk1))" by fastforce
    have "N - set vis1 \<subseteq> N - set vis" using visit_mono(1) [OF v] by auto
    then have "card (N - set vis1) \<le> n"
      using Cons.prems(2) assms(1) by (meson card_mono dual_order.trans finite_Diff)
    then have "visit_roots n adj us (vis1, stk1) \<noteq> None" using Cons by auto
    then show ?thesis using v False by (cases b) auto
  qed
qed auto

definition edge_rel :: "impact_edge list \<Rightarrow> (string \<times> string) set" where
  "edge_rel edges = {(ie_from_node_id e, ie_to_node_id e) | e. e \<in> set edges}"

lemma succ_rel_adjacency: "succ_rel (adjacency_of edges) = edge_rel edges"
  by (auto simp: succ_rel_def adjacency_of_def edge_rel_def)

lemma has_cycle_exact:
  assumes "edge_rel edges \<subseteq> set node_ids \<times> set node_ids"
  shows "has_cycle node_ids edges = Some (\<not> acyclic (edge_rel edges))"
proof -
  let ?adj = "adjacency_of edges"
  have closed: "\<forall>x \<in> set node_ids. set (?adj x) \<subseteq> set node_ids"
    using assms by (auto simp: adjacency_of_def edge_rel_def)
  have "has_cycle node_ids edges \<noteq> None"
    unfolding has_cycle_def using closed by (intro visit_roots_total) (auto simp: card_length)
  then obtain b where b: "has_cycle node_ids edges = Some b" by blast
  show ?thesis
  proof (cases b)
    case True
    then have "\<exists>x. (x, x) \<in> (edge_rel edges)\<^sup>+"
      using b visit_roots_True [of "length node_ids" ?adj node_ids "[]"]
      unfolding has_cycle_def succ_rel_adjacency by simp
    then show ?thesis using b True by (auto simp: acyclic_def)
  next
    case False
    then obtain V where V: "finished ?adj V" "set node_ids \<subseteq> V"
      using b visit_roots_False unfolding has_cycle_def by (metis empty_set empty_iff finished_def)
    have "(x, x) \<notin> (edge_rel edges)\<^sup>+" for x
    proof
      assume cyc: "(x, x) \<in> (edge_rel edges)\<^sup>+"
      then have "x \<in> set node_ids" using assms by (meson mem_Sigma_iff subsetD tranclD)
      with V cyc show False unfolding finished_def succ_rel_adjacency by blast
    qed
    then show ?thesis using b False by (auto simp: acyclic_def)
  qed
qed

lemma check_edges_Inr_iff:
  "check_edges ns es = Inr u \<longleftrightarrow>
   edge_rel es \<subseteq> set ns \<times> set ns \<and> (\<forall>e \<in> set es. ie_from_node_id e \<noteq> ie_to_node_id e)"
  by (induction ns es rule: check_edges.induct) (auto simp: edge_rel_def)

section \<open>Capability bounds\<close>

text \<open>Specification of the capability rule for a resolver that does not raise.\<close>

abbreviation total_resolver :: "(string \<Rightarrow> string \<Rightarrow> proof_record option) \<Rightarrow> unit resolver" where
  "total_resolver res \<equiv> (\<lambda>p r. Inr (res p r))"

definition proof_in_run :: "(string \<Rightarrow> string \<Rightarrow> proof_record option) \<Rightarrow> string \<Rightarrow> string \<Rightarrow> bool" where
  "proof_in_run res run_id p \<longleftrightarrow> (\<exists>r. res p run_id = Some r \<and> pr_research_run_id r = run_id)"

definition shown_capabilities :: "(string \<Rightarrow> string \<Rightarrow> proof_record option) \<Rightarrow> string \<Rightarrow> impact_node \<Rightarrow> string set" where
  "shown_capabilities res run_id node =
     (\<Union>p \<in> set (in_proof_refs node). case res p run_id of None \<Rightarrow> {} | Some r \<Rightarrow> set (pr_demonstrated_capabilities r))"

definition kind_supported :: "string set \<Rightarrow> impact_kind \<Rightarrow> bool" where
  "kind_supported C k \<longleftrightarrow> (case k of
     IK_DATA_READ \<Rightarrow> ''READ_OTHER_OBJECT'' \<in> C
   | IK_DATA_WRITE \<Rightarrow> ''WRITE_OTHER_OBJECT'' \<in> C
   | IK_AUTH_BYPASS \<Rightarrow> C \<inter> {''READ_OTHER_OBJECT'', ''WORKFLOW_TRANSITION_WITHOUT_AUTH'',
        ''AUTHENTICATED_AS_USER'', ''PRIVILEGE_ESCALATION_EVIDENCE''} \<noteq> {}
   | IK_STATE_CORRUPTION \<Rightarrow> C \<inter> {''WORKFLOW_TRANSITION_WITHOUT_AUTH'', ''WRITE_OTHER_OBJECT''} \<noteq> {}
   | IK_ACCOUNT_TAKEOVER_PATH \<Rightarrow> ''AUTHENTICATED_AS_USER'' \<in> C \<and>
        C \<inter> {''PRIVILEGE_ESCALATION_EVIDENCE'', ''CROSS_ACCOUNT_SESSION_ASSUMPTION''} \<noteq> {}
   | IK_EXTERNAL_CALLBACK \<Rightarrow> ''OAST_CALLBACK_RECEIVED'' \<in> C)"

text \<open>The capabilities that alone show a kind.\<close>

fun kind_sources :: "impact_kind \<Rightarrow> string list" where
  "kind_sources IK_DATA_READ = [''READ_OTHER_OBJECT'']"
| "kind_sources IK_DATA_WRITE = [''WRITE_OTHER_OBJECT'']"
| "kind_sources IK_AUTH_BYPASS = [''READ_OTHER_OBJECT'', ''WORKFLOW_TRANSITION_WITHOUT_AUTH'',
     ''AUTHENTICATED_AS_USER'', ''PRIVILEGE_ESCALATION_EVIDENCE'']"
| "kind_sources IK_STATE_CORRUPTION = [''WORKFLOW_TRANSITION_WITHOUT_AUTH'', ''WRITE_OTHER_OBJECT'']"
| "kind_sources IK_ACCOUNT_TAKEOVER_PATH = []"
| "kind_sources IK_EXTERNAL_CALLBACK = [''OAST_CALLBACK_RECEIVED'']"

lemma capability_row:
  "impact_kind_value k \<in> set (case map_of DEMONSTRATED_CAPABILITY_TO_IMPACT_KIND c of None \<Rightarrow> [] | Some ks \<Rightarrow> ks)
   \<longleftrightarrow> c \<in> set (kind_sources k)"
  by (cases k; simp add: DEMONSTRATED_CAPABILITY_TO_IMPACT_KIND_def)

lemma composite_row:
  "impact_kind_value k \<in> fst ` {x \<in> set COMPOSITE_CAPABILITY_REQUIREMENTS. list_ex (\<lambda>s. set s \<subseteq> C) (snd x)} \<longleftrightarrow>
   k = IK_ACCOUNT_TAKEOVER_PATH \<and> ''AUTHENTICATED_AS_USER'' \<in> C \<and>
   (''PRIVILEGE_ESCALATION_EVIDENCE'' \<in> C \<or> ''CROSS_ACCOUNT_SESSION_ASSUMPTION'' \<in> C)"
proof -
  have "impact_kind_value k = ''ACCOUNT_TAKEOVER_PATH'' \<longleftrightarrow> k = IK_ACCOUNT_TAKEOVER_PATH" by (cases k) simp_all
  then show ?thesis by (auto simp: COMPOSITE_CAPABILITY_REQUIREMENTS_def)
qed

lemma allowed_kinds_iff: "impact_kind_value k \<in> set (allowed_kinds caps) \<longleftrightarrow> kind_supported (set caps) k"
proof -
  have "impact_kind_value k \<in> set (allowed_kinds caps) \<longleftrightarrow>
      set (kind_sources k) \<inter> set caps \<noteq> {} \<or> (k = IK_ACCOUNT_TAKEOVER_PATH \<and> ''AUTHENTICATED_AS_USER'' \<in> set caps \<and>
      (''PRIVILEGE_ESCALATION_EVIDENCE'' \<in> set caps \<or> ''CROSS_ACCOUNT_SESSION_ASSUMPTION'' \<in> set caps))"
    using capability_row [of k] composite_row [of k "set caps"]
    by (simp add: allowed_kinds_def case_prod_beta) blast
  then show ?thesis by (cases k) (auto simp: kind_supported_def)
qed

lemma node_capabilities_pure:
  "(\<exists>caps. node_capabilities (total_resolver res) run_id ps = Inr (Inr caps) \<and>
      set caps = (\<Union>p \<in> set ps. case res p run_id of None \<Rightarrow> {} | Some r \<Rightarrow> set (pr_demonstrated_capabilities r)) \<and>
      (\<forall>p \<in> set ps. proof_in_run res run_id p)) \<or>
   (\<exists>v. node_capabilities (total_resolver res) run_id ps = Inr (Inl v) \<and> \<not> cv_valid v \<and> cv_reason_codes v \<noteq> [] \<and>
      (\<exists>p \<in> set ps. \<not> proof_in_run res run_id p))"
  by (induction ps) (auto simp: proof_in_run_def split: option.split, metis)

lemma validate_impact_scope_pure:
  "\<exists>v. validate_impact_scope node (total_resolver res) run_id = Inr v \<and> (cv_valid v \<or> cv_reason_codes v \<noteq> []) \<and>
     (cv_valid v \<longleftrightarrow> (\<forall>p \<in> set (in_proof_refs node). proof_in_run res run_id p) \<and>
        kind_supported (shown_capabilities res run_id node) (in_impact_kind node))"
proof -
  let ?nc = "node_capabilities (total_resolver res) run_id (in_proof_refs node)"
  consider caps where "?nc = Inr (Inr caps)" "set caps = shown_capabilities res run_id node"
      "\<forall>p \<in> set (in_proof_refs node). proof_in_run res run_id p"
    | v where "?nc = Inr (Inl v)" "\<not> cv_valid v" "cv_reason_codes v \<noteq> []"
      "\<exists>p \<in> set (in_proof_refs node). \<not> proof_in_run res run_id p"
    using node_capabilities_pure [of res run_id "in_proof_refs node"] unfolding shown_capabilities_def by metis
  then show ?thesis
    by cases (auto simp: validate_impact_scope_def allowed_kinds_iff)
qed

lemma scope_codes_pure:
  "\<exists>codes. scope_codes (total_resolver res) run_id nodes = Inr codes \<and>
     (codes = [] \<longleftrightarrow> (\<forall>node \<in> set nodes. (\<forall>p \<in> set (in_proof_refs node). proof_in_run res run_id p) \<and>
        kind_supported (shown_capabilities res run_id node) (in_impact_kind node)))"
proof (induction nodes)
  case (Cons node nodes)
  then obtain codes where codes: "scope_codes (total_resolver res) run_id nodes = Inr codes"
    "codes = [] \<longleftrightarrow> (\<forall>node \<in> set nodes. (\<forall>p \<in> set (in_proof_refs node). proof_in_run res run_id p) \<and>
        kind_supported (shown_capabilities res run_id node) (in_impact_kind node))" by blast
  obtain v where "validate_impact_scope node (total_resolver res) run_id = Inr v"
      "cv_valid v \<or> cv_reason_codes v \<noteq> []"
      "cv_valid v \<longleftrightarrow> (\<forall>p \<in> set (in_proof_refs node). proof_in_run res run_id p) \<and>
        kind_supported (shown_capabilities res run_id node) (in_impact_kind node)"
    using validate_impact_scope_pure [of node res run_id] by blast
  with codes show ?case by auto
qed simp

lemma check_edges_Inl:
  "check_edges node_ids edges = Inl e \<Longrightarrow> e \<in> ImpactGraphError ` {''DANGLING_EDGE_FROM_NODE'', ''DANGLING_EDGE_TO_NODE'', ''SELF_LOOP_NOT_ALLOWED''}"
  by (induction node_ids edges rule: check_edges.induct) (auto split: if_splits)

section \<open>Properties\<close>

text \<open>
  C19. Construction of an impact chain: it succeeds exactly for a chain with a non-blank id, at least one
  node, edges between its own nodes and no directed cycle of any length, and then only the id is normalised;
  CHAIN_CONTAINS_CYCLE is raised exactly for such a chain with a cycle and no self-loop; and the
  depth-first search returns on every chain it is called for (a search that does not would be the error
  \<open>search_diverges\<close>).
\<close>

theorem impact_chain_construction:
  "(post_init_impact_chain c = Inr d \<longleftrightarrow>
     \<not> blank (ich_chain_id c) \<and> ich_nodes c \<noteq> [] \<and>
     edge_rel (ich_edges c) \<subseteq> (in_node_id ` set (ich_nodes c)) \<times> (in_node_id ` set (ich_nodes c)) \<and>
     acyclic (edge_rel (ich_edges c)) \<and> d = c\<lparr>ich_chain_id := py_strip (ich_chain_id c)\<rparr>) \<and>
   (post_init_impact_chain c = Inl (ImpactGraphError ''CHAIN_CONTAINS_CYCLE'') \<longleftrightarrow>
     \<not> blank (ich_chain_id c) \<and> ich_nodes c \<noteq> [] \<and>
     edge_rel (ich_edges c) \<subseteq> (in_node_id ` set (ich_nodes c)) \<times> (in_node_id ` set (ich_nodes c)) \<and>
     irrefl (edge_rel (ich_edges c)) \<and> \<not> acyclic (edge_rel (ich_edges c))) \<and>
   post_init_impact_chain c \<noteq> Inl search_diverges"
proof -
  let ?ids = "dedup (map in_node_id (ich_nodes c))" and ?r = "edge_rel (ich_edges c)"
  let ?closed = "?r \<subseteq> (in_node_id ` set (ich_nodes c)) \<times> (in_node_id ` set (ich_nodes c))"
  have edges: "check_edges ?ids (ich_edges c) = Inr () \<longleftrightarrow> ?closed \<and> irrefl ?r"
    by (auto simp: check_edges_Inr_iff irrefl_def edge_rel_def)
  have proper: "irrefl ?r" if "acyclic ?r"
    using that unfolding acyclic_def irrefl_def by blast
  have search: "has_cycle ?ids (ich_edges c) = Some (\<not> acyclic ?r)" if ?closed
    using has_cycle_exact [of "ich_edges c" ?ids] that by simp
  consider "blank (ich_chain_id c)" | "\<not> blank (ich_chain_id c)" "ich_nodes c = []"
    | e where "\<not> blank (ich_chain_id c)" "ich_nodes c \<noteq> []" "check_edges ?ids (ich_edges c) = Inl e"
    | "\<not> blank (ich_chain_id c)" "ich_nodes c \<noteq> []" "check_edges ?ids (ich_edges c) = Inr ()"
    by (metis old.unit.exhaust sum.exhaust)
  then show ?thesis
  proof cases
    case 1
    then show ?thesis by (simp add: post_init_impact_chain_def strip_text_def search_diverges_def)
  next
    case 2
    then show ?thesis by (simp add: post_init_impact_chain_def strip_text_def search_diverges_def)
  next
    case 3
    then have "post_init_impact_chain c = Inl e" by (simp add: post_init_impact_chain_def strip_text_def Let_def)
    moreover have "\<not> (?closed \<and> irrefl ?r)" using 3 edges by simp
    ultimately show ?thesis using check_edges_Inl [OF 3(3)] proper by (auto simp: search_diverges_def)
  next
    case 4
    then have "?closed" "irrefl ?r" using edges by simp_all
    with 4 search show ?thesis
      by (cases "acyclic ?r") (auto simp: post_init_impact_chain_def strip_text_def Let_def search_diverges_def)
  qed
qed

text \<open>
  C20. A claimed impact never exceeds what was shown: the scope check passes exactly when every proof of
  every node resolves in the chain's own research run and the capabilities demonstrated by a node's
  proofs support the kind the node claims.  A kind with composite requirements is supported as soon as one of
  its capability sets is shown: an account takeover by AUTHENTICATED_AS_USER with either one of
  PRIVILEGE_ESCALATION_EVIDENCE and CROSS_ACCOUNT_SESSION_ASSUMPTION.  (The comment of the table asks for
  every set; see \<open>takeover_without_escalation\<close>.)
\<close>

theorem impact_bounded_by_capabilities:
  "(\<exists>v. validate_chain_impact_scope chain (total_resolver res) run_id = Inr v \<and> cv_valid v) \<longleftrightarrow>
     (\<forall>node \<in> set (ich_nodes chain). (\<forall>p \<in> set (in_proof_refs node). proof_in_run res run_id p) \<and>
        kind_supported (shown_capabilities res run_id node) (in_impact_kind node))"
proof -
  obtain codes where codes: "scope_codes (total_resolver res) run_id (ich_nodes chain) = Inr codes"
    "codes = [] \<longleftrightarrow> (\<forall>node \<in> set (ich_nodes chain). (\<forall>p \<in> set (in_proof_refs node). proof_in_run res run_id p) \<and>
        kind_supported (shown_capabilities res run_id node) (in_impact_kind node))"
    using scope_codes_pure [of res run_id "ich_nodes chain"] by blast
  then show ?thesis by (auto simp: validate_chain_impact_scope_def)
qed

definition example_impact_chain :: "impact_kind \<Rightarrow> impact_chain" where
  "example_impact_chain kind = \<lparr>ich_chain_id = ''ch'', ich_nodes = [\<lparr>in_node_id = ''n'', in_proof_refs = [''e1''],
     in_impact_kind = kind, in_claim_text = ''c'',
     in_scope_ref = \<lparr>isr_research_run_id = ''run'', isr_program_id = ''p'', isr_target_reference = ''t''\<rparr>,
     in_provenance = []\<rparr>], ich_edges = []\<rparr>"

definition example_resolver :: "string \<Rightarrow> string \<Rightarrow> proof_record option" where
  "example_resolver p r = (if p = ''e1'' then Some \<lparr>pr_proof_id = p, pr_research_run_id = ''run'',
     pr_target_reference = ''x'', pr_demonstrated_capabilities = [''READ_OTHER_OBJECT'']\<rparr> else None)"

text \<open>
  A composite kind needs one of its sets of capabilities, where the comment of the table asks for every
  one of them and the plan of the gate for the first.
\<close>

definition scope_accepted :: "string list \<Rightarrow> impact_kind \<Rightarrow> bool" where
  "scope_accepted capabilities kind =
     (case validate_chain_impact_scope (example_impact_chain kind) (total_resolver (\<lambda>p r. Some \<lparr>pr_proof_id = p,
         pr_research_run_id = ''run'', pr_target_reference = ''x'', pr_demonstrated_capabilities = capabilities\<rparr>)) ''run'' of
       Inl (e :: unit) \<Rightarrow> False | Inr v \<Rightarrow> cv_valid v)"

lemma takeover_without_escalation:
  "scope_accepted [''AUTHENTICATED_AS_USER'', ''CROSS_ACCOUNT_SESSION_ASSUMPTION''] IK_ACCOUNT_TAKEOVER_PATH"
  by code_simp

theorem impact_bounded_by_capabilities_witness:
  "(\<exists>v. validate_chain_impact_scope (example_impact_chain IK_DATA_READ)
      (total_resolver example_resolver) ''run'' = Inr v \<and> cv_valid v) \<and>
   \<not> (\<exists>v. validate_chain_impact_scope (example_impact_chain IK_ACCOUNT_TAKEOVER_PATH)
      (total_resolver example_resolver) ''run'' = Inr v \<and> cv_valid v)"
  unfolding impact_bounded_by_capabilities
  by (simp add: example_impact_chain_def proof_in_run_def example_resolver_def kind_supported_def shown_capabilities_def)

end
