(* ===== verification/Tier_Gate.thy ===== *)
theory Tier_Gate
  imports Research_Types "HOL-Library.AList"
begin

text \<open>
  The independent validator tier gate (\<open>research/validation/tier_gate.py\<close>): which recorded tier
  outcomes admit a security candidate.  A tier or an outcome is passed as its text, which is how an enum
  member is coerced too; a mapping is an association list in which a later entry replaces an earlier one.
\<close>

datatype validation_tier = VT_V1 | VT_V2 | VT_V3

fun validation_tier_value :: "validation_tier \<Rightarrow> string" where
  "validation_tier_value VT_V1 = ''V1''"
| "validation_tier_value VT_V2 = ''V2''"
| "validation_tier_value VT_V3 = ''V3''"

datatype validation_tier_outcome = VTO_PASSED | VTO_REJECTED | VTO_INCONCLUSIVE | VTO_QUEUED

fun validation_tier_outcome_value :: "validation_tier_outcome \<Rightarrow> string" where
  "validation_tier_outcome_value VTO_PASSED = ''PASSED''"
| "validation_tier_outcome_value VTO_REJECTED = ''REJECTED''"
| "validation_tier_outcome_value VTO_INCONCLUSIVE = ''INCONCLUSIVE''"
| "validation_tier_outcome_value VTO_QUEUED = ''QUEUED''"

datatype validation_admission_outcome =
    VA_ADMITTED
  | VA_REJECTED_MISSING_REQUIRED_TIER
  | VA_REJECTED_TIER_NOT_PASSED
  | VA_REJECTED_UNKNOWN_REQUIRED_TIER

fun validation_admission_outcome_value :: "validation_admission_outcome \<Rightarrow> string" where
  "validation_admission_outcome_value VA_ADMITTED = ''ADMITTED''"
| "validation_admission_outcome_value VA_REJECTED_MISSING_REQUIRED_TIER = ''REJECTED_MISSING_REQUIRED_TIER''"
| "validation_admission_outcome_value VA_REJECTED_TIER_NOT_PASSED = ''REJECTED_TIER_NOT_PASSED''"
| "validation_admission_outcome_value VA_REJECTED_UNKNOWN_REQUIRED_TIER = ''REJECTED_UNKNOWN_REQUIRED_TIER''"

fun required_chain :: "validation_tier \<Rightarrow> validation_tier list" where
  "required_chain VT_V1 = [VT_V1]"
| "required_chain VT_V2 = [VT_V1, VT_V2]"
| "required_chain VT_V3 = [VT_V1, VT_V2, VT_V3]"

record validation_admission_decision =
  vad_outcome :: validation_admission_outcome
  vad_admitted :: bool
  vad_required_tiers :: "validation_tier list"
  vad_reason_codes :: "string list"

definition coerce_tier :: "string \<Rightarrow> research_error + validation_tier" where
  "coerce_tier v = from_option (ResearchInputError ''unknown validation tier'')
     (find (\<lambda>t. validation_tier_value t = v) [VT_V1, VT_V2, VT_V3])"

definition coerce_outcome :: "string \<Rightarrow> research_error + validation_tier_outcome" where
  "coerce_outcome v = from_option (ResearchInputError ''unknown validation tier outcome'')
     (find (\<lambda>t. validation_tier_outcome_value t = v) [VTO_PASSED, VTO_REJECTED, VTO_INCONCLUSIVE, VTO_QUEUED])"

text \<open>The dictionary comprehension that coerces keys and values.\<close>

fun normalize_outcomes ::
    "(string \<times> string) list \<Rightarrow> (validation_tier \<times> validation_tier_outcome) list
     \<Rightarrow> research_error + (validation_tier \<times> validation_tier_outcome) list" where
  "normalize_outcomes [] acc = Inr acc"
| "normalize_outcomes ((k, v) # kvs) acc =
     bindE (coerce_tier k) (\<lambda>tier. bindE (coerce_outcome v) (\<lambda>oc.
     normalize_outcomes kvs (AList.update tier oc acc)))"

definition validate_required_tiers ::
    "string \<Rightarrow> (string \<times> string) list \<Rightarrow> research_error + validation_admission_decision" where
  "validate_required_tiers required_tier observed_outcomes =
     bindE (coerce_tier required_tier) (\<lambda>tier.
     bindE (normalize_outcomes observed_outcomes []) (\<lambda>normalized.
     let required = required_chain tier;
         missing = filter (\<lambda>t. map_of normalized t = None) required;
         not_passed = filter (\<lambda>t. map_of normalized t \<noteq> Some VTO_PASSED) required
     in Inr (if missing \<noteq> []
        then \<lparr>vad_outcome = VA_REJECTED_MISSING_REQUIRED_TIER, vad_admitted = False, vad_required_tiers = required,
              vad_reason_codes = map (\<lambda>t. validation_tier_value t @ ''_MISSING'') missing\<rparr>
        else if not_passed \<noteq> []
        then \<lparr>vad_outcome = VA_REJECTED_TIER_NOT_PASSED, vad_admitted = False, vad_required_tiers = required,
              vad_reason_codes = map (\<lambda>t. validation_tier_value t @ ''_'' @
                (case map_of normalized t of None \<Rightarrow> [] | Some oc \<Rightarrow> validation_tier_outcome_value oc)) not_passed\<rparr>
        else \<lparr>vad_outcome = VA_ADMITTED, vad_admitted = True, vad_required_tiers = required,
              vad_reason_codes = [''VALIDATION_TIERS_PASSED'']\<rparr>)))"

lemma coerce_tier_Inr [result_simps]: "coerce_tier v = Inr t \<longleftrightarrow> v = validation_tier_value t"
  by (cases t) (auto simp: coerce_tier_def split: if_splits)

lemma coerce_outcome_Inr [result_simps]: "coerce_outcome v = Inr t \<longleftrightarrow> v = validation_tier_outcome_value t"
  by (cases t) (auto simp: coerce_outcome_def split: if_splits)

text \<open>What was recorded last for each tier.\<close>

definition last_outcome :: "(string \<times> string) list \<Rightarrow> validation_tier \<Rightarrow> string option" where
  "last_outcome observed t = map_of (rev observed) (validation_tier_value t)"

lemma validation_tier_value_inj [simp]: "validation_tier_value s = validation_tier_value t \<longleftrightarrow> s = t"
  by (cases s; cases t) simp_all

lemma validation_tier_outcome_value_inj [simp]:
  "validation_tier_outcome_value s = validation_tier_outcome_value t \<longleftrightarrow> s = t"
  by (cases s; cases t) simp_all

lemma normalize_outcomes_lookup:
  "normalize_outcomes kvs acc = Inr norm \<Longrightarrow>
   map_option validation_tier_outcome_value (map_of norm t) =
     (case last_outcome kvs t of Some v \<Rightarrow> Some v | None \<Rightarrow> map_option validation_tier_outcome_value (map_of acc t))"
proof (induction kvs acc rule: normalize_outcomes.induct)
  case (2 k v kvs acc)
  then obtain tier oc where "k = validation_tier_value tier" "v = validation_tier_outcome_value oc"
      "normalize_outcomes kvs (AList.update tier oc acc) = Inr norm"
    by (auto simp: result_simps)
  then show ?case
    using 2(1) [of tier oc]
    by (auto simp: last_outcome_def map_add_def update_conv' result_simps split: option.split)
qed (simp add: last_outcome_def)

lemma validate_required_tiers_admits:
  assumes "validate_required_tiers (validation_tier_value tier) observed = Inr decision"
  shows "vad_admitted decision \<longleftrightarrow> (\<forall>t \<in> set (required_chain tier). last_outcome observed t = Some ''PASSED'')"
proof -
  obtain norm where norm: "normalize_outcomes observed [] = Inr norm"
    using assms by (auto simp: validate_required_tiers_def result_simps)
  have look: "map_of norm t = Some VTO_PASSED \<longleftrightarrow> last_outcome observed t = Some ''PASSED''" for t
    using normalize_outcomes_lookup [OF norm, of t] validation_tier_outcome_value_inj [of _ VTO_PASSED]
    by (cases "map_of norm t"; cases "last_outcome observed t") auto
  have "coerce_tier (validation_tier_value tier) = Inr tier" by (simp add: result_simps)
  then have "vad_admitted decision \<longleftrightarrow> (\<forall>t \<in> set (required_chain tier). map_of norm t = Some VTO_PASSED)"
    using assms norm by (auto simp: validate_required_tiers_def Let_def filter_empty_conv split: if_splits)
  then show ?thesis by (simp only: look)
qed

text \<open>
  C32. Validation admission is fail-closed: a decision admits exactly when the outcome recorded last for
  every tier up to the required one is PASSED; a queued, rejected, inconclusive or absent tier never admits.
\<close>

theorem tiers_admit_only_passed:
  assumes "validate_required_tiers (validation_tier_value tier) observed = Inr decision"
  shows "vad_admitted decision \<longleftrightarrow> (\<forall>t \<in> set (required_chain tier). last_outcome observed t = Some ''PASSED'')"
  by (rule validate_required_tiers_admits [OF assms])

theorem tiers_admit_only_passed_witness:
  "\<not> (\<forall>t \<in> set (required_chain VT_V3). last_outcome [(''V1'', ''PASSED''), (''V2'', ''PASSED''), (''V3'', ''QUEUED'')] t = Some ''PASSED'')"
proof -
  obtain d where d: "validate_required_tiers (validation_tier_value VT_V3)
      [(''V1'', ''PASSED''), (''V2'', ''PASSED''), (''V3'', ''QUEUED'')] = Inr d" "\<not> vad_admitted d"
    by (auto simp: validate_required_tiers_def coerce_tier_def coerce_outcome_def)
  show ?thesis using tiers_admit_only_passed [OF d(1)] d(2) by blast
qed

end
