(* ===== verification/App_Finding.thy ===== *)
theory App_Finding
  imports App_Candidate Finding_Proposal Impact Tier_Gate Core_Approval
begin

text \<open>
  The use cases that lead from a validated Candidate to a Finding
  (\<open>application/submit_finding_proposal.py\<close>, \<open>validation_audit.py\<close>, \<open>start_human_review.py\<close>,
  \<open>record_human_review.py\<close>, \<open>finalize_finding.py\<close>) and the ledger-backed proof resolver
  (\<open>application/impact/proof_resolver.py\<close>).  The conventions are those of \<open>App_Candidate\<close>; \<open>sha\<close> is
  \<open>hashlib.sha256(...).hexdigest()\<close>.
\<close>

section \<open>Audit events\<close>

definition store_audit_event ::
    "string \<Rightarrow> int \<Rightarrow> string \<Rightarrow> string \<Rightarrow> string \<Rightarrow> string \<Rightarrow> string \<Rightarrow> string option \<Rightarrow> payload \<Rightarrow> db \<Rightarrow> app_error + db" where
  "store_audit_event event_id at who actor_type event_type subject_type subject_id correlation_id payload d =
     bindE (stored (post_init_audit_event_record
       \<lparr>aer_audit_event_id = event_id, aer_occurred_at = at, aer_actor_id = who, aer_actor_type = actor_type,
        aer_event_type = event_type, aer_subject_type = subject_type, aer_subject_id = subject_id,
        aer_payload = payload, aer_correlation_id = correlation_id\<rparr>)) (\<lambda>r. stored (insert_audit_event r d))"

section \<open>Validation audit\<close>

definition SECURITY_CANDIDATE_REQUIRED_TIER :: "(string \<times> validation_tier) list" where
  "SECURITY_CANDIDATE_REQUIRED_TIER =
     [(HTTP_AUTHORIZATION_DIFFERENTIAL_CLASSIFICATION, VT_V3), (HTTP_STATE_TRANSITION_CLASSIFICATION, VT_V3)]"

record validation_audit_view =
  vav_decision :: "validation_admission_decision option"
  vav_latest_events :: "(validation_tier \<times> audit_event_record) list"

text \<open>\<open>value in {...}\<close> on a JSON value: a list or an object is not hashable.\<close>

definition in_str_set :: "json \<Rightarrow> string list \<Rightarrow> research_error + bool" where
  "in_str_set v allowed =
     (case v of
        JArr _ \<Rightarrow> Inl (PyTypeError ''unhashable type'')
      | JObj _ \<Rightarrow> Inl (PyTypeError ''unhashable type'')
      | JStr s \<Rightarrow> Inr (s \<in> set allowed)
      | _ \<Rightarrow> Inr False)"

definition tier_event :: "string \<Rightarrow> string \<Rightarrow> audit_event_record \<Rightarrow> research_error + bool" where
  "tier_event research_run_id hypothesis_id event =
     (if aer_subject_id event \<noteq> hypothesis_id \<or> aer_correlation_id event \<noteq> Some research_run_id then Inr False
      else bindE (in_str_set (jget (aer_payload event) ''tier'') [''V1'', ''V2'', ''V3'']) (\<lambda>tier.
        if \<not> tier then Inr False
        else in_str_set (jget (aer_payload event) ''outcome'') [''PASSED'', ''REJECTED'', ''INCONCLUSIVE'', ''QUEUED'']))"

fun filterE :: "('a \<Rightarrow> 'e + bool) \<Rightarrow> 'a list \<Rightarrow> 'e + 'a list" where
  "filterE p [] = Inr []"
| "filterE p (x # xs) =
     bindE (p x) (\<lambda>b. bindE (filterE p xs) (\<lambda>ys. Inr (if b then x # ys else ys)))"

text \<open>\<open>str(payload[key])\<close>; the filter above leaves only texts.\<close>

definition payload_text :: "payload \<Rightarrow> string \<Rightarrow> string" where
  "payload_text p k = (case jget p k of JStr s \<Rightarrow> s | _ \<Rightarrow> [])"

fun record_latest ::
    "audit_event_record list \<Rightarrow> (validation_tier \<times> audit_event_record) list
     \<Rightarrow> research_error + (validation_tier \<times> audit_event_record) list" where
  "record_latest [] latest = Inr latest"
| "record_latest (event # events) latest =
     bindE (coerce_tier (payload_text (aer_payload event) ''tier'')) (\<lambda>tier.
     record_latest events (AList.update tier event latest))"

definition latest_tier_events ::
    "string \<Rightarrow> string \<Rightarrow> db \<Rightarrow> app_error + (validation_tier \<times> audit_event_record) list" where
  "latest_tier_events research_run_id hypothesis_id d =
     bindE (stored (list_audit_events_for_subject_type ''hypothesis'' d)) (\<lambda>all_events.
     bindE (researched (filterE (tier_event research_run_id hypothesis_id) all_events)) (\<lambda>events.
     researched (record_latest (sort_key (\<lambda>e. (aer_occurred_at e, aer_audit_event_id e)) events) [])))"

definition read_validation_audit_view :: "candidate_record \<Rightarrow> db \<Rightarrow> app_error + validation_audit_view" where
  "read_validation_audit_view candidate d =
     (if cr_classification candidate = DIAGNOSTIC_CANDIDATE_CLASSIFICATION
      then Inr \<lparr>vav_decision = None, vav_latest_events = []\<rparr>
      else bindE (latest_tier_events (cr_research_run_id candidate) (cr_hypothesis_id candidate) d) (\<lambda>latest.
        let observed = map (\<lambda>(tier, event). (validation_tier_value tier, payload_text (aer_payload event) ''outcome'')) latest
        in bindE (researched (case map_of SECURITY_CANDIDATE_REQUIRED_TIER (cr_classification candidate) of
               None \<Rightarrow> validate_required_tiers (validation_tier_value VT_V3) []
             | Some required \<Rightarrow> validate_required_tiers (validation_tier_value required) observed)) (\<lambda>decision.
           Inr \<lparr>vav_decision = Some decision, vav_latest_events = latest\<rparr>)))"

section \<open>Impact claims\<close>

definition CLAIM_SCOPE_TO_CAPABILITIES :: "(string \<times> string list) list" where
  "CLAIM_SCOPE_TO_CAPABILITIES =
     [(''Authenticated actor can read another actor's account object because object '' @
       ''authorization is missing on the vulnerable endpoint.'', [''READ_OTHER_OBJECT'']),
      (''Authenticated requester performed an unauthorized workflow state transition '' @
       ''because role or sequence authorization is missing on the workflow endpoint.'',
       [''WORKFLOW_TRANSITION_WITHOUT_AUTH''])]"

definition resolve_evidence :: "evidence_record \<Rightarrow> app_error + proof_record" where
  "resolve_evidence evidence = researched (post_init_proof_record
     \<lparr>pr_proof_id = er_evidence_id evidence, pr_research_run_id = er_research_run_id evidence,
      pr_target_reference = er_experiment_id evidence,
      pr_demonstrated_capabilities =
        (case map_of CLAIM_SCOPE_TO_CAPABILITIES (er_claim_scope evidence) of None \<Rightarrow> [] | Some cs \<Rightarrow> cs)\<rparr>)"

definition ledger_resolver :: "db \<Rightarrow> app_error resolver" where
  "ledger_resolver d proof_id expected_run_id =
     bindE (stored (get_evidence proof_id d)) (\<lambda>evidence. case evidence of
       Some e \<Rightarrow> bindE (resolve_evidence e) (\<lambda>r. Inr (Some r))
     | None \<Rightarrow> bindE (stored (get_observation proof_id d)) (\<lambda>observation. case observation of
         Some ob \<Rightarrow> bindE (stored (get_worker_result (or_worker_result_id ob) d)) (\<lambda>worker_result. case worker_result of
             None \<Rightarrow> Inr None
           | Some w \<Rightarrow> bindE (researched (post_init_proof_record
               \<lparr>pr_proof_id = proof_id, pr_research_run_id = wr_research_run_id w,
                pr_target_reference = or_observation_kind ob, pr_demonstrated_capabilities = []\<rparr>)) (\<lambda>r. Inr (Some r)))
       | None \<Rightarrow> bindE (stored (get_experiment proof_id d)) (\<lambda>experiment. case experiment of
             None \<Rightarrow> Inr None
           | Some x \<Rightarrow> bindE (researched (post_init_proof_record
               \<lparr>pr_proof_id = proof_id, pr_research_run_id = xr_research_run_id x,
                pr_target_reference = xr_experiment_id x, pr_demonstrated_capabilities = []\<rparr>)) (\<lambda>r. Inr (Some r)))))"

definition impact_failure :: "impact_error \<Rightarrow> app_error" where
  "impact_failure e = (case e of ImpactInput r \<Rightarrow> AppResearch r | ImpactGraphError m \<Rightarrow> AppValueError m
     | ImpactValueError m \<Rightarrow> AppValueError m)"

text \<open>\<open>ImpactScopeRef(**node.scope_ref)\<close>: exactly the three fields, each a text.\<close>

definition scope_ref_from :: "payload \<Rightarrow> research_error + impact_scope_ref" where
  "scope_ref_from p =
     (if set (map fst p) \<noteq> {''research_run_id'', ''program_id'', ''target_reference''}
      then Inl (PyTypeError ''unexpected or missing arguments'')
      else case (jget p ''research_run_id'', jget p ''program_id'', jget p ''target_reference'') of
        (JStr run, JStr program, JStr target) \<Rightarrow> post_init_impact_scope_ref
          \<lparr>isr_research_run_id = run, isr_program_id = program, isr_target_reference = target\<rparr>
      | (JStr run, JStr program, _) \<Rightarrow>
          bindE (strip_text run ''research_run_id'') (\<lambda>_. bindE (strip_text program ''program_id'') (\<lambda>_.
          Inl (ResearchInputError (nonempty_message ''target_reference''))))
      | (JStr run, _, _) \<Rightarrow>
          bindE (strip_text run ''research_run_id'') (\<lambda>_. Inl (ResearchInputError (nonempty_message ''program_id'')))
      | _ \<Rightarrow> Inl (ResearchInputError (nonempty_message ''research_run_id'')))"

fun mapE :: "('a \<Rightarrow> 'e + 'b) \<Rightarrow> 'a list \<Rightarrow> 'e + 'b list" where
  "mapE f [] = Inr []"
| "mapE f (x # xs) = bindE (f x) (\<lambda>y. bindE (mapE f xs) (\<lambda>ys. Inr (y # ys)))"

definition rebuild_node :: "string \<Rightarrow> impact_chain_node_record \<Rightarrow> impact_error + impact_node" where
  "rebuild_node chain_id node =
     bindE (from_option (ImpactValueError ''not a valid ImpactKind'') (impact_kind_of (icn_impact_kind node))) (\<lambda>kind.
     bindE (mapErr ImpactInput (scope_ref_from (icn_scope_ref node))) (\<lambda>scope_ref.
     post_init_impact_node
       \<lparr>in_node_id = icn_node_id node, in_proof_refs = icn_proof_refs node, in_impact_kind = kind,
        in_claim_text = icn_claim_text node, in_scope_ref = scope_ref,
        in_provenance = [(''source'', JStr ''impact_chain.rebuild''), (''chain_id'', JStr chain_id)]\<rparr>))"

definition rebuild_edge :: "impact_chain_edge_record \<Rightarrow> impact_error + impact_edge" where
  "rebuild_edge edge =
     bindE (from_option (ImpactValueError ''not a valid ImpactRelation'') (impact_relation_of (ice_relation edge))) (\<lambda>relation.
     mapErr ImpactInput (post_init_impact_edge
       \<lparr>ie_from_node_id = ice_from_node_id edge, ie_to_node_id = ice_to_node_id edge, ie_relation = relation\<rparr>))"

definition rebuild_impact_chain :: "impact_chain_record \<Rightarrow> db \<Rightarrow> app_error + impact_chain" where
  "rebuild_impact_chain record d =
     bindE (stored (get_impact_nodes (icr_chain_id record) d)) (\<lambda>node_records.
     bindE (stored (get_impact_edges (icr_chain_id record) d)) (\<lambda>edge_records.
     bindE (mapErr impact_failure (mapE (rebuild_node (icr_chain_id record)) node_records)) (\<lambda>nodes.
     bindE (mapErr impact_failure (mapE rebuild_edge edge_records)) (\<lambda>edges.
     mapErr impact_failure (post_init_impact_chain
       \<lparr>ich_chain_id = icr_chain_id record, ich_nodes = nodes, ich_edges = edges\<rparr>)))))"

definition validate_impact_claim :: "string \<Rightarrow> db \<Rightarrow> impact_claim \<Rightarrow> app_error + string" where
  "validate_impact_claim expected_run_id d claim =
     bindE (stored (get_impact_chain (ic_chain_id claim) d)) (\<lambda>row.
     bindE (from_option (ApplicationError ''impact chain not found'') row) (\<lambda>record.
     if icr_research_run_id record \<noteq> expected_run_id then Inl (ApplicationError ''impact chain cross-run'') else
     bindE (rebuild_impact_chain record d) (\<lambda>chain.
     bindE (validate_chain chain (ledger_resolver d) expected_run_id) (\<lambda>structural.
     if \<not> cv_valid structural then Inl (ApplicationError ''impact chain validation failed'') else
     bindE (validate_chain_impact_scope chain (ledger_resolver d) expected_run_id) (\<lambda>scope.
     if \<not> cv_valid scope then Inl (ApplicationError ''impact scope validation failed'')
     else Inr (ic_chain_id claim))))))"

definition validate_impact_claims :: "finding_proposal_draft \<Rightarrow> string \<Rightarrow> db \<Rightarrow> app_error + string list" where
  "validate_impact_claims draft expected_run_id d = mapE (validate_impact_claim expected_run_id d) (fpd_impact_claims draft)"

section \<open>Submitting a proposal\<close>

record submit_finding_proposal_command =
  sfc_candidate_id :: string
  sfc_draft :: "finding_proposal_draft option"

record submit_finding_proposal_result =
  sfr_outcome :: finding_proposal_admission_outcome
  sfr_proposal_id :: "string option"
  sfr_state :: "finding_proposal_state option"
  sfr_reason_codes :: "string list"

definition finding_draft_for ::
    "(string \<Rightarrow> string) \<Rightarrow> finding_proposal_admission_context \<Rightarrow> finding_proposal_draft option
     \<Rightarrow> app_error + finding_proposal_draft" where
  "finding_draft_for new_id context given =
     bindE (researched (or_else (Inr given)
       (or_else (propose_diagnostic_finding_proposal context (new_id ''diagnostic finding''))
       (or_else (propose_authorization_differential_finding_proposal context (new_id ''authorization finding''))
         (propose_state_transition_finding_proposal context (new_id ''transition finding'')))))) (\<lambda>found.
     from_option (ApplicationError ''no FindingProposal can be built from this Candidate'') found)"

definition proposal_record_of ::
    "(string \<Rightarrow> string) \<Rightarrow> finding_proposal_draft \<Rightarrow> string \<Rightarrow> string list \<Rightarrow> int \<Rightarrow> persistence_error + finding_proposal_record" where
  "proposal_record_of sha draft classification impact_chain_ids created_at = post_init_finding_proposal_record
     \<lparr>fpr_proposal_id = fpd_proposal_id draft, fpr_candidate_id = fpd_candidate_id draft,
      fpr_research_run_id = fpd_research_run_id draft, fpr_title = fpd_title draft, fpr_claim = fpd_claim draft,
      fpr_classification = classification, fpr_state = finding_proposal_state_value FPS_PROPOSED,
      fpr_evidence_ids = fpd_evidence_ids draft, fpr_verification_ids = fpd_verification_ids draft,
      fpr_content_fingerprint = draft_content_fingerprint sha draft, fpr_created_at = created_at,
      fpr_impact_chain_ids = impact_chain_ids\<rparr>"

text \<open>The branch that stores an admitted proposal with its audit event.\<close>

definition store_proposal ::
    "(string \<Rightarrow> string) \<Rightarrow> string \<Rightarrow> (string \<Rightarrow> string) \<Rightarrow> (string \<Rightarrow> int) \<Rightarrow> candidate_record \<Rightarrow> finding_proposal_draft
     \<Rightarrow> db \<Rightarrow> app_error + db" where
  "store_proposal sha who new_id clock candidate draft d =
     bindE (validate_impact_claims draft (fpd_research_run_id draft) d) (\<lambda>impact_chain_ids.
     bindE (stored (proposal_record_of sha draft (cr_classification candidate) impact_chain_ids (clock ''proposal''))) (\<lambda>r.
     bindE (stored (insert_proposal r d)) (\<lambda>d.
     store_audit_event (new_id ''proposal event'') (clock ''proposal event'') who
       (actor_type_value CONTROL_PLANE) ''FINDING_PROPOSAL_CREATED'' ''finding_proposal'' (fpd_proposal_id draft) None
       [(''candidate_id'', JStr (cr_candidate_id candidate)), (''not_a_vulnerability'', JBool True)] d)))"

definition validation_rejection_payload :: "candidate_record \<Rightarrow> validation_admission_decision \<Rightarrow> payload" where
  "validation_rejection_payload candidate validation =
     [(''hypothesis_id'', JStr (cr_hypothesis_id candidate)), (''classification'', JStr (cr_classification candidate)),
      (''outcome'', JStr (validation_admission_outcome_value (vad_outcome validation))),
      (''reason_codes'', JArr (map JStr (vad_reason_codes validation))),
      (''required_tiers'', JArr (map (JStr \<circ> validation_tier_value) (vad_required_tiers validation))),
      (''not_a_finding'', JBool True)]"

text \<open>What follows the admission decision: nothing, a recorded validation rejection, or the new proposal.\<close>

definition settle_submission ::
    "(string \<Rightarrow> string) \<Rightarrow> string \<Rightarrow> candidate_record \<Rightarrow> finding_proposal_admission_decision
     \<Rightarrow> submit_finding_proposal_result use_case" where
  "settle_submission sha who candidate decision new_id clock d =
     (let draft = fpad_draft decision;
          result = (\<lambda>proposal_id. \<lparr>sfr_outcome = fpad_outcome decision, sfr_proposal_id = proposal_id,
                      sfr_state = fpad_initial_state decision, sfr_reason_codes = fpad_reason_codes decision\<rparr>)
      in if \<not> creates_proposal decision then Inr (result None, d)
         else if fpad_initial_state decision \<noteq> Some FPS_PROPOSED then Inl AppAssertionError
         else bindE (read_validation_audit_view candidate d) (\<lambda>view.
           case vav_decision view of
             Some validation \<Rightarrow>
               if \<not> vad_admitted validation
               then bindE (store_audit_event (new_id ''rejection event'') (clock ''rejection event'') who
                      (actor_type_value CONTROL_PLANE) ''FINDING_PROPOSAL_VALIDATION_REJECTED'' ''candidate''
                      (cr_candidate_id candidate) (Some (cr_research_run_id candidate))
                      (validation_rejection_payload candidate validation) d) (\<lambda>d.
                    Inr (\<lparr>sfr_outcome = FPA_REJECTED_VALIDATION_NOT_PASSED, sfr_proposal_id = None,
                          sfr_state = None, sfr_reason_codes = vad_reason_codes validation\<rparr>, d))
               else bindE (store_proposal sha who new_id clock candidate draft d) (\<lambda>d.
                    Inr (result (Some (fpd_proposal_id draft)), d))
           | None \<Rightarrow> bindE (store_proposal sha who new_id clock candidate draft d) (\<lambda>d.
               Inr (result (Some (fpd_proposal_id draft)), d))))"

definition submit_finding_proposal ::
    "(string \<Rightarrow> string) \<Rightarrow> string \<Rightarrow> submit_finding_proposal_command \<Rightarrow> submit_finding_proposal_result use_case" where
  "submit_finding_proposal sha who command new_id clock d =
     bindE (stored (get_candidate (sfc_candidate_id command) d)) (\<lambda>row.
     bindE (from_option (ApplicationError ''candidate not found'') row) (\<lambda>candidate.
     bindE (from_option (ApplicationError ''candidate state is not a CandidateState'')
       (candidate_state_of (cr_state candidate))) (\<lambda>state.
     bindE (stored (list_verifications_for_candidate (cr_candidate_id candidate) d)) (\<lambda>verifications.
     bindE (researched (post_init_finding_proposal_admission_context
       \<lparr>fpx_candidate_id = cr_candidate_id candidate, fpx_candidate_state = state,
        fpx_research_run_id = cr_research_run_id candidate, fpx_evidence_ids = cr_evidence_ids candidate,
        fpx_verification_ids = map vrec_verification_id verifications,
        fpx_classification = cr_classification candidate\<rparr>)) (\<lambda>context.
     bindE (finding_draft_for new_id context (sfc_draft command)) (\<lambda>draft.
     settle_submission sha who candidate (admit_finding_proposal draft context) new_id clock d))))))"

section \<open>Human review\<close>

definition start_human_review :: "string \<Rightarrow> (string \<times> finding_proposal_state) use_case" where
  "start_human_review proposal_id new_id clock d =
     bindE (stored (get_proposal proposal_id d)) (\<lambda>row.
     bindE (from_option (ApplicationError ''finding proposal not found'') row) (\<lambda>proposal.
     bindE (from_option (ApplicationError ''not a valid FindingProposalState'')
       (finding_proposal_state_of (fpr_state proposal))) (\<lambda>current.
     bindE (mapErr as_application (start_finding_proposal_review current)) (\<lambda>next_state.
     bindE (stored (set_proposal_state (fpr_proposal_id proposal) (finding_proposal_state_value next_state) d)) (\<lambda>d.
     Inr ((fpr_proposal_id proposal, next_state), d))))))"

record record_human_review_command =
  rhc_proposal_id :: string
  rhc_reviewer_id :: string
  rhc_actor_type :: actor_type
  rhc_decision :: human_review_decision
  rhc_reason_codes :: "string list"
  rhc_note :: "string option"

record record_human_review_result =
  rhr_review_id :: string
  rhr_proposal_id :: string
  rhr_decision :: human_review_decision

definition human_review_decision_of :: "string \<Rightarrow> human_review_decision option" where
  "human_review_decision_of v = find (\<lambda>x. human_review_decision_value x = v) [HR_APPROVE, HR_REJECT]"

text \<open>\<open>except PersistenceConflictError: raise ApplicationError(...)\<close>.\<close>

definition conflict_as :: "string \<Rightarrow> persistence_error \<Rightarrow> app_error" where
  "conflict_as m e = (case e of PersistenceConflictError _ \<Rightarrow> ApplicationError m | _ \<Rightarrow> AppPersistence e)"

definition store_review ::
    "record_human_review_command \<Rightarrow> finding_proposal_record \<Rightarrow> string \<Rightarrow> int \<Rightarrow> db \<Rightarrow> app_error + db" where
  "store_review command proposal review_id created_at d =
     mapErr (conflict_as ''human review already recorded'')
       (bindE (post_init_human_review_record
         \<lparr>hrr_review_id = review_id, hrr_proposal_id = fpr_proposal_id proposal,
          hrr_content_fingerprint = fpr_content_fingerprint proposal,
          hrr_decision = human_review_decision_value (rhc_decision command),
          hrr_reviewer_id = rhc_reviewer_id command, hrr_actor_type = actor_type_value (rhc_actor_type command),
          hrr_reason_codes = rhc_reason_codes command, hrr_created_at = created_at, hrr_note = rhc_note command\<rparr>)
        (\<lambda>r. insert_review r d))"

definition record_human_review :: "record_human_review_command \<Rightarrow> record_human_review_result use_case" where
  "record_human_review command new_id clock d =
     bindE (stored (get_proposal (rhc_proposal_id command) d)) (\<lambda>row.
     bindE (from_option (ApplicationError ''finding proposal not found'') row) (\<lambda>proposal.
     if fpr_state proposal \<noteq> finding_proposal_state_value FPS_HUMAN_REVIEW
     then Inl (ApplicationError ''finding proposal is not in HUMAN_REVIEW'') else
     bindE (stored (get_review_for_proposal (fpr_proposal_id proposal) d)) (\<lambda>existing.
     case existing of
       Some r \<Rightarrow>
         if hrr_content_fingerprint r \<noteq> fpr_content_fingerprint proposal
         then Inl (ApplicationError ''existing review fingerprint mismatch'')
         else bindE (from_option (AppValueError ''not a valid HumanReviewDecision'')
           (human_review_decision_of (hrr_decision r))) (\<lambda>decision.
           Inr (\<lparr>rhr_review_id = hrr_review_id r, rhr_proposal_id = hrr_proposal_id r, rhr_decision = decision\<rparr>, d))
     | None \<Rightarrow>
         let review_id = new_id ''review'' in
         bindE (researched (post_init_human_review_view
           \<lparr>hrv_review_id = review_id, hrv_proposal_id = fpr_proposal_id proposal,
            hrv_content_fingerprint = fpr_content_fingerprint proposal, hrv_decision = rhc_decision command,
            hrv_reviewer_id = rhc_reviewer_id command, hrv_actor_type = actor_type_value (rhc_actor_type command),
            hrv_reason_codes = rhc_reason_codes command, hrv_note = rhc_note command\<rparr>)) (\<lambda>view.
         bindE (mapErr as_application (admit_human_review view (fpr_proposal_id proposal)
           (fpr_content_fingerprint proposal))) (\<lambda>_.
         bindE (store_review command proposal review_id (clock ''review'') d) (\<lambda>d.
         bindE (store_audit_event (new_id ''review event'') (clock ''review event'') (rhc_reviewer_id command)
           (actor_type_value (rhc_actor_type command)) ''HUMAN_REVIEW_RECORDED'' ''finding_proposal''
           (fpr_proposal_id proposal) None
           [(''review_id'', JStr review_id), (''decision'', JStr (human_review_decision_value (rhc_decision command)))] d) (\<lambda>d.
         Inr (\<lparr>rhr_review_id = review_id, rhr_proposal_id = fpr_proposal_id proposal,
               rhr_decision = rhc_decision command\<rparr>, d))))))))"

section \<open>Finalizing\<close>

record finalize_finding_command =
  ffc_proposal_id :: string
  ffc_decided_by :: string
  ffc_actor_type :: actor_type

record finalize_finding_result =
  ffr_outcome :: finding_creation_outcome
  ffr_proposal_id :: string
  ffr_proposal_state :: finding_proposal_state
  ffr_finding_id :: "string option"
  ffr_approval_id :: "string option"
  ffr_reason_codes :: "string list"

fun approval_decision_of_review :: "human_review_decision \<Rightarrow> approval_decision" where
  "approval_decision_of_review HR_APPROVE = AD_APPROVE"
| "approval_decision_of_review HR_REJECT = AD_REJECT"

definition review_view_of :: "human_review_record \<Rightarrow> app_error + human_review_view" where
  "review_view_of r =
     bindE (from_option (AppValueError ''not a valid HumanReviewDecision'') (human_review_decision_of (hrr_decision r))) (\<lambda>decision.
     researched (post_init_human_review_view
       \<lparr>hrv_review_id = hrr_review_id r, hrv_proposal_id = hrr_proposal_id r,
        hrv_content_fingerprint = hrr_content_fingerprint r, hrv_decision = decision,
        hrv_reviewer_id = hrr_reviewer_id r, hrv_actor_type = hrr_actor_type r,
        hrv_reason_codes = hrr_reason_codes r, hrv_note = hrr_note r\<rparr>))"

text \<open>The Core approval built for a review: its decision is the review's.\<close>

definition approval_view_for ::
    "finalize_finding_command \<Rightarrow> string \<Rightarrow> string \<Rightarrow> human_review_view option \<Rightarrow> core_error + approval_view option" where
  "approval_view_for command approval_id subject review =
     (case review of None \<Rightarrow> Inr None
      | Some v \<Rightarrow> bindE (post_init_approval_view
          \<lparr>av_approval_id = approval_id, av_subject_reference = subject,
           av_decision = approval_decision_of_review (hrv_decision v), av_decided_by = ffc_decided_by command,
           av_actor_type = ffc_actor_type command, av_recorded = True\<rparr>) (\<lambda>a. Inr (Some a)))"

definition creation_context_for ::
    "finalize_finding_command \<Rightarrow> candidate_record \<Rightarrow> candidate_state \<Rightarrow> finding_proposal_record \<Rightarrow> finding_proposal_state
     \<Rightarrow> string \<Rightarrow> human_review_view option \<Rightarrow> approval_view option \<Rightarrow> recorded_approval_evaluation
     \<Rightarrow> research_error + finding_creation_context" where
  "creation_context_for command candidate candidate_state proposal proposal_state subject review approval evaluation =
     post_init_finding_creation_context
       \<lparr>fcx_candidate_id = cr_candidate_id candidate, fcx_candidate_state = candidate_state,
        fcx_research_run_id = cr_research_run_id candidate, fcx_proposal_id = fpr_proposal_id proposal,
        fcx_proposal_state = proposal_state, fcx_title = fpr_title proposal, fcx_claim = fpr_claim proposal,
        fcx_evidence_ids = fpr_evidence_ids proposal, fcx_verification_ids = fpr_verification_ids proposal,
        fcx_content_fingerprint = fpr_content_fingerprint proposal, fcx_approval_subject = subject,
        fcx_human_review = review, fcx_approval_valid_record = rae_valid_record evaluation,
        fcx_approval_authorizes = rae_authorizes evaluation,
        fcx_approval_subject_matches = (case approval of None \<Rightarrow> False | Some a \<Rightarrow> av_subject_reference a = subject),
        fcx_approval_decision = map_option hrv_decision review,
        fcx_approval_actor_type = Some (actor_type_value (ffc_actor_type command))\<rparr>"

definition REJECTING_OUTCOMES :: "finding_creation_outcome list" where
  "REJECTING_OUTCOMES =
     [FC_REJECTED_MISSING_REVIEW, FC_REJECTED_MISSING_APPROVAL, FC_REJECTED_ACTOR, FC_REJECTED_SUBJECT_MISMATCH,
      FC_REJECTED_INCONSISTENT_DECISIONS, FC_REJECTED_CANDIDATE_NOT_VALIDATED, FC_REJECTED_ILLEGAL_STATE]"

definition store_approval ::
    "finalize_finding_command \<Rightarrow> finding_proposal_record \<Rightarrow> human_review_view \<Rightarrow> approval_view
     \<Rightarrow> (string \<Rightarrow> string) \<Rightarrow> (string \<Rightarrow> int) \<Rightarrow> db \<Rightarrow> app_error + db" where
  "store_approval command proposal review approval new_id clock d =
     bindE (stored (post_init_approval_record
       \<lparr>apr_approval_id = av_approval_id approval, apr_subject_reference = av_subject_reference approval,
        apr_decision = approval_decision_value (av_decision approval), apr_decided_by = ffc_decided_by command,
        apr_actor_type = actor_type_value (ffc_actor_type command), apr_recorded = True,
        apr_created_at = clock ''approval'', apr_research_run_id = fpr_research_run_id proposal,
        apr_proposal_id = fpr_proposal_id proposal, apr_human_review_id = hrv_review_id review\<rparr>)) (\<lambda>r.
     bindE (stored (insert_approval r d)) (\<lambda>d.
     store_audit_event (new_id ''approval event'') (clock ''approval event'') (ffc_decided_by command)
       (actor_type_value (ffc_actor_type command)) ''CORE_APPROVAL_RECORDED'' ''finding_proposal''
       (fpr_proposal_id proposal) None
       [(''approval_id'', JStr (av_approval_id approval)),
        (''decision'', JStr (approval_decision_value (av_decision approval)))] d))"

definition store_finding ::
    "candidate_record \<Rightarrow> finding_proposal_record \<Rightarrow> human_review_view \<Rightarrow> string \<Rightarrow> string
     \<Rightarrow> (string \<Rightarrow> string) \<Rightarrow> (string \<Rightarrow> int) \<Rightarrow> db \<Rightarrow> app_error + db" where
  "store_finding candidate proposal review approval_id finding_id new_id clock d =
     bindE (stored (post_init_finding_record
       \<lparr>fr_finding_id = finding_id, fr_finding_proposal_id = fpr_proposal_id proposal,
        fr_candidate_id = cr_candidate_id candidate, fr_research_run_id = fpr_research_run_id proposal,
        fr_approval_id = approval_id, fr_human_review_id = hrv_review_id review, fr_title = fpr_title proposal,
        fr_claim = fpr_claim proposal, fr_classification = fpr_classification proposal,
        fr_evidence_ids = fpr_evidence_ids proposal, fr_verification_ids = fpr_verification_ids proposal,
        fr_created_at = clock ''finding''\<rparr>)) (\<lambda>r.
     bindE (stored (insert_finding r d)) (\<lambda>d.
     store_audit_event (new_id ''finding event'') (clock ''finding event'') ''control-plane''
       (actor_type_value CONTROL_PLANE) ''FINDING_CREATED'' ''finding'' finding_id None
       [(''proposal_id'', JStr (fpr_proposal_id proposal)), (''candidate_id'', JStr (cr_candidate_id candidate)),
        (''not_a_finding_until_approval'', JBool True), (''classification'', JStr (fpr_classification proposal))] d))"

text \<open>The part of the transaction after the idempotent returns: the proposal awaits its decision.\<close>

definition decide_proposal ::
    "finalize_finding_command \<Rightarrow> finding_proposal_record \<Rightarrow> finding_proposal_state \<Rightarrow> finalize_finding_result use_case" where
  "decide_proposal command proposal proposal_state new_id clock d =
     bindE (stored (get_candidate (fpr_candidate_id proposal) d)) (\<lambda>candidate_row.
     bindE (from_option (ApplicationError ''candidate not found'') candidate_row) (\<lambda>candidate.
     bindE (from_option (ApplicationError ''candidate state is invalid'') (candidate_state_of (cr_state candidate))) (\<lambda>candidate_state.
     bindE (stored (get_review_for_proposal (fpr_proposal_id proposal) d)) (\<lambda>review_row.
     bindE (case review_row of None \<Rightarrow> Inr None
            | Some r \<Rightarrow> bindE (review_view_of r) (\<lambda>v. Inr (Some v))) (\<lambda>review.
     let subject = approval_subject_for (fpr_proposal_id proposal) (fpr_content_fingerprint proposal);
         approval_id = new_id ''approval''
     in bindE (mapErr AppCore (approval_view_for command approval_id subject review)) (\<lambda>approval.
     bindE (mapErr AppCore (evaluate_recorded_approval approval subject)) (\<lambda>evaluation.
     bindE (researched (creation_context_for command candidate candidate_state proposal proposal_state subject
       review approval evaluation)) (\<lambda>context.
     let creation = evaluate_finding_creation context in
     if fcd_outcome creation \<in> set REJECTING_OUTCOMES
     then Inl (ApplicationError ''finding finalization rejected'')
     else case (review, approval) of
       (Some v, Some a) \<Rightarrow>
         bindE (mapErr as_application (transition_finding_proposal proposal_state (fcd_proposal_state creation))) (\<lambda>next_state.
         bindE (store_approval command proposal v a new_id clock d) (\<lambda>d.
         bindE (stored (set_proposal_state (fpr_proposal_id proposal) (finding_proposal_state_value next_state) d)) (\<lambda>d.
         let finding_id = (if fcd_creates_finding creation then Some (new_id ''finding'') else None) in
         bindE (case finding_id of None \<Rightarrow> Inr d
                | Some i \<Rightarrow> store_finding candidate proposal v approval_id i new_id clock d) (\<lambda>d.
         Inr (\<lparr>ffr_outcome = fcd_outcome creation, ffr_proposal_id = fpr_proposal_id proposal,
               ffr_proposal_state = next_state, ffr_finding_id = finding_id, ffr_approval_id = Some approval_id,
               ffr_reason_codes = fcd_reason_codes creation\<rparr>, d)))))
     | _ \<Rightarrow> Inl (ApplicationError ''finding finalization rejected: missing review'')))))))))"

definition finalize_finding :: "finalize_finding_command \<Rightarrow> finalize_finding_result use_case" where
  "finalize_finding command new_id clock d =
     bindE (stored (get_proposal (ffc_proposal_id command) d)) (\<lambda>row.
     bindE (from_option (ApplicationError ''finding proposal not found'') row) (\<lambda>proposal.
     bindE (stored (get_finding_by_proposal (fpr_proposal_id proposal) d)) (\<lambda>existing.
     case existing of
       Some f \<Rightarrow> Inr (\<lparr>ffr_outcome = FC_CREATED, ffr_proposal_id = fpr_proposal_id proposal,
           ffr_proposal_state = FPS_APPROVED, ffr_finding_id = Some (fr_finding_id f),
           ffr_approval_id = Some (fr_approval_id f), ffr_reason_codes = [''IDEMPOTENT_EXISTING_FINDING'']\<rparr>, d)
     | None \<Rightarrow>
         bindE (from_option (ApplicationError ''finding proposal state is invalid'')
           (finding_proposal_state_of (fpr_state proposal))) (\<lambda>proposal_state.
         if proposal_state = FPS_REJECTED
         then bindE (stored (get_approval_by_subject
                  (approval_subject_for (fpr_proposal_id proposal) (fpr_content_fingerprint proposal)) d)) (\<lambda>approval.
                Inr (\<lparr>ffr_outcome = FC_REJECTED_PROPOSAL, ffr_proposal_id = fpr_proposal_id proposal,
                      ffr_proposal_state = FPS_REJECTED, ffr_finding_id = None,
                      ffr_approval_id = map_option apr_approval_id approval,
                      ffr_reason_codes = [''IDEMPOTENT_REJECTED_PROPOSAL'']\<rparr>, d))
         else if proposal_state = FPS_APPROVED
         then Inl (ApplicationError ''approved proposal is missing Finding provenance'')
         else decide_proposal command proposal proposal_state new_id clock d))))"

end
