(* ===== verification/Use_Case_Effects.thy ===== *)
theory Use_Case_Effects
  imports App_Finding
begin

text \<open>
  What a successful run of each use case of \<open>App_Candidate\<close> and \<open>App_Finding\<close> does to the database: the rows
  it adds, the state it changes, and what held of the rows it read.
\<close>

section \<open>Effects of the use cases\<close>

lemma stored_bind: "bindE (stored m) f = Inr b \<longleftrightarrow> (\<exists>a. m = Inr a \<and> f a = Inr b)"
  by (cases m) auto

lemma bindE_mapErr_Inr: "bindE (mapErr h m) f = Inr b \<longleftrightarrow> (\<exists>a. m = Inr a \<and> f a = Inr b)"
  by (cases m) auto

lemma bindE_from_option_Inr: "bindE (from_option e x) f = Inr b \<longleftrightarrow> (\<exists>a. x = Some a \<and> f a = Inr b)"
  by (cases x) auto

lemmas use_case_simps = bindE_mapErr_Inr bindE_from_option_Inr

text \<open>For unfolding a run of a use case into its steps.\<close>

lemmas run_steps = Let_def bindE_Inr_iff mapErr_Inr_iff from_option_Inr_iff sum.inject prod.inject

lemma get_candidate_Some: "get_candidate i d = Inr (Some c) \<Longrightarrow> c \<in> set (db_candidates d) \<and> cr_candidate_id c = i"
  by (auto simp: get_candidate_def dest: fetch_one_Some)

lemma get_proposal_Some: "get_proposal i d = Inr (Some p) \<Longrightarrow> p \<in> set (db_proposals d) \<and> fpr_proposal_id p = i"
  by (auto simp: get_proposal_def dest: fetch_one_Some)

lemma get_review_Some: "get_review_for_proposal i d = Inr (Some p) \<Longrightarrow> p \<in> set (db_reviews d) \<and> hrr_proposal_id p = i"
  by (auto simp: get_review_for_proposal_def dest: fetch_one_Some)

lemma get_review_None: "get_review_for_proposal i d = Inr None \<Longrightarrow> i \<notin> hrr_proposal_id ` set (db_reviews d)"
  by (auto simp: get_review_for_proposal_def dest: fetch_one_None)

lemma get_evidence_Some: "get_evidence i d = Inr (Some p) \<Longrightarrow> p \<in> set (db_evidence d) \<and> er_evidence_id p = i"
  by (auto simp: get_evidence_def dest: fetch_one_Some)

lemma post_init_candidate_record_same: "post_init_candidate_record r = Inr s \<Longrightarrow> s = r"
  by (auto simp: post_init_candidate_record_def result_simps)

lemma store_audit_event_effect:
  "store_audit_event i at who k ev st si co p d = Inr d' \<Longrightarrow> \<exists>evs. d' = d\<lparr>db_audit_events := evs\<rparr>"
  by (auto simp: store_audit_event_def use_case_simps insert_Inr)

lemma store_candidate_effect:
  assumes "store_candidate i a decision p at d = Inr d'"
  obtains c links where "d' = d\<lparr>db_candidates := db_candidates d @ [c], db_candidate_evidence := links\<rparr>"
    "cr_candidate_id c = i" "cr_state c = ''OPEN''" "post_init_candidate_record c = Inr c"
    "i \<notin> cr_candidate_id ` set (db_candidates d)" "cr_classification c = cp_classification p"
    "cr_claim c = cp_claim p" "cr_evidence_ids c = cp_evidence_ids p"
proof -
  from assms obtain c where c: "post_init_candidate_record
        \<lparr>cr_candidate_id = i, cr_research_run_id = cp_research_run_id p,
         cr_hypothesis_id = cp_hypothesis_id p, cr_claim = cp_claim p,
         cr_classification = cp_classification p, cr_state = candidate_state_value CS_OPEN,
         cr_evidence_ids = cp_evidence_ids p, cr_created_at = at,
         cr_admission_record_id = a\<rparr> = Inr c" and ins: "insert_candidate c d = Inr d'"
    by (auto simp: store_candidate_def use_case_simps split: if_splits)
  from post_init_candidate_record_same [OF c] insert_candidate_Inr [OF ins] c show ?thesis
    by (intro that [of "db_candidate_evidence d @ map (Pair (cr_candidate_id c)) (cr_evidence_ids c)" c]) simp_all
qed

lemma propose_candidate_effect:
  assumes "propose_candidate command new_id clock d = Inr (res, d')"
  shows "(\<exists>adms. d' = d\<lparr>db_candidate_admissions := adms\<rparr>) \<or>
    (\<exists>c links adms. d' = d\<lparr>db_candidates := db_candidates d @ [c], db_candidate_evidence := links,
                          db_candidate_admissions := adms\<rparr> \<and>
       cr_candidate_id c = new_id ''candidate'' \<and> cr_state c = ''OPEN'' \<and> post_init_candidate_record c = Inr c \<and>
       cr_candidate_id c \<notin> cr_candidate_id ` set (db_candidates d))"
proof -
  from assms obtain ctx proposal d1 r where
      d1': "(case if creates_candidate (admit_candidate proposal ctx) then Some (new_id ''candidate'') else None of
               None \<Rightarrow> Inr d | Some i \<Rightarrow> store_candidate i (new_id ''admission record'')
                 (admit_candidate proposal ctx) proposal (clock ''candidate'') d) = Inr d1"
      and ins: "insert_candidate_admission r d1 = Inr d'"
    unfolding propose_candidate_def run_steps by blast
  define decision where "decision = admit_candidate proposal ctx"
  have d1: "(if creates_candidate decision then store_candidate (new_id ''candidate'') (new_id ''admission record'')
              decision proposal (clock ''candidate'') d else Inr d) = Inr d1"
    using d1' by (simp add: decision_def split: if_splits)
  from ins have d': "d' = d1\<lparr>db_candidate_admissions := db_candidate_admissions d1 @ [r]\<rparr>" by (simp add: insert_Inr)
  show ?thesis
  proof (cases "creates_candidate decision")
    case True
    with d1 have "store_candidate (new_id ''candidate'') (new_id ''admission record'') decision proposal (clock ''candidate'') d = Inr d1"
      by simp
    then obtain c links where "d1 = d\<lparr>db_candidates := db_candidates d @ [c], db_candidate_evidence := links\<rparr>"
      "cr_candidate_id c = new_id ''candidate''" "cr_state c = ''OPEN''" "post_init_candidate_record c = Inr c"
      "new_id ''candidate'' \<notin> cr_candidate_id ` set (db_candidates d)"
      by (rule store_candidate_effect)
    with d' show ?thesis
      by (intro disjI2 exI [of _ c] exI [of _ links] exI [of _ "db_candidate_admissions d @ [r]"]) simp
  next
    case False
    with d1 d' show ?thesis by auto
  qed
qed

text \<open>The candidates with the state of one of them changed.\<close>

definition with_candidate_state :: "string \<Rightarrow> candidate_state \<Rightarrow> candidate_record list \<Rightarrow> candidate_record list" where
  "with_candidate_state i s rows =
     map (\<lambda>r. if cr_candidate_id r = i then r\<lparr>cr_state := candidate_state_value s\<rparr> else r) rows"

definition with_proposal_state :: "string \<Rightarrow> finding_proposal_state \<Rightarrow> finding_proposal_record list \<Rightarrow> finding_proposal_record list" where
  "with_proposal_state i s rows =
     map (\<lambda>r. if fpr_proposal_id r = i then r\<lparr>fpr_state := finding_proposal_state_value s\<rparr> else r) rows"

lemma start_verification_effect:
  assumes "start_verification i new_id clock d = Inr (res, d')"
  shows "\<exists>c \<in> set (db_candidates d). cr_candidate_id c = i \<and> cr_state c = ''OPEN'' \<and>
    d' = d\<lparr>db_candidates := with_candidate_state i CS_VERIFYING (db_candidates d)\<rparr>"
proof -
  from assms obtain c current next_state where c: "get_candidate i d = Inr (Some c)"
      and cur: "candidate_state_of (cr_state c) = Some current" "start_candidate_verification current = Inr next_state"
      and set: "set_candidate_state (cr_candidate_id c) (candidate_state_value next_state) d = Inr d'"
    by (auto simp: start_verification_def use_case_simps)
  have "current = CS_OPEN" "next_state = CS_VERIFYING"
    using cur(2) by (auto simp: start_candidate_verification_def transition_candidate_Inr_iff LEGAL_CANDIDATE_TRANSITIONS_def)
  then show ?thesis
    using c cur(1) set_candidate_state_Inr [OF set] get_candidate_Some [OF c]
    by (auto simp: candidate_state_of_Some with_candidate_state_def)
qed

text \<open>
  Evidence that supports a claim again: other evidence, from another experiment, sharing no observation.
\<close>

definition independent_support :: "string \<Rightarrow> evidence_record \<Rightarrow> evidence_record \<Rightarrow> bool" where
  "independent_support claim e0 e1 \<longleftrightarrow>
     er_evidence_id e0 \<noteq> er_evidence_id e1 \<and> er_experiment_id e0 \<noteq> er_experiment_id e1 \<and>
     set (er_observation_ids e0) \<inter> set (er_observation_ids e1) = {} \<and>
     py_strip (er_polarity e1) = ''SUPPORTING'' \<and> py_strip (er_claim_scope e1) = claim"

definition validated_support :: "evidence_record list \<Rightarrow> candidate_record \<Rightarrow> verification_record \<Rightarrow> bool" where
  "validated_support evidence c v \<longleftrightarrow> (\<exists>e0 \<in> set evidence. \<exists>e1 \<in> set evidence.
     cr_evidence_ids c \<noteq> [] \<and> er_evidence_id e0 = hd (cr_evidence_ids c) \<and>
     independent_support (snd (expected_claims (cr_classification c))) e0 e1 \<and>
     vrec_reproduction_evidence_ids v = [py_strip (er_evidence_id e1)])"

lemma evidence_ref_of_Inr:
  "evidence_ref_of e d = Inr r \<Longrightarrow>
     ver_evidence_id r = py_strip (er_evidence_id e) \<and> ver_experiment_id r = py_strip (er_experiment_id e) \<and>
     ver_observation_ids r = map py_strip (er_observation_ids e) \<and> ver_polarity r = py_strip (er_polarity e) \<and>
     ver_claim_scope r = py_strip (er_claim_scope e)"
  by (auto simp: evidence_ref_of_def post_init_verification_evidence_ref_def run_steps
      keep_text_Inr_iff strip_text_Inr_iff strip_ids_Inr_iff)

lemma first_evidence_ref_Inr:
  "first_evidence_ref items d = Inr (Some r) \<Longrightarrow> \<exists>e \<in> set items. evidence_ref_of e d = Inr r"
  by (auto simp: first_evidence_ref_def run_steps split: list.splits)

lemma list_evidence_subset:
  "list_evidence_for_experiment x d = Inr items \<Longrightarrow> set items \<subseteq> set (db_evidence d)"
  by (auto simp: list_evidence_for_experiment_def fetch_list_def split: if_splits)

lemma reproduction_view_evidence:
  assumes "reproduction_view_of x run d = Inr v" "rv_evidence v = Some r"
  shows "\<exists>e \<in> set (db_evidence d). evidence_ref_of e d = Inr r"
proof (cases x)
  case None
  then show ?thesis using assms by (auto simp: reproduction_view_of_def)
next
  case (Some y)
  with assms(1) obtain items rep where "list_evidence_for_experiment y d = Inr items"
      "first_evidence_ref items d = Inr rep" "rv_evidence v = rep"
    by (auto simp: reproduction_view_of_def use_case_simps bindE_Inr_iff split: if_splits)
  then have "list_evidence_for_experiment y d = Inr items" "first_evidence_ref items d = Inr (Some r)"
    using assms(2) by simp_all
  from this(1) first_evidence_ref_Inr [OF this(2)] show ?thesis using list_evidence_subset by blast
qed

lemma post_init_verification_context_evidence:
  "post_init_verification_context c = Inr c' \<Longrightarrow>
     vc_original_evidence c' = vc_original_evidence c \<and> vc_reproduction_evidence c' = vc_reproduction_evidence c"
  by (auto simp: post_init_verification_context_def run_steps)

lemma originating_evidence_Inr:
  "originating_evidence ids d = Inr e \<Longrightarrow> ids \<noteq> [] \<and> e \<in> set (db_evidence d) \<and> er_evidence_id e = hd ids"
  by (auto simp: originating_evidence_def use_case_simps run_steps split: list.splits dest: get_evidence_Some)

lemma verification_context_evidence:
  assumes "verification_context_for command c current d = Inr ctx" "vc_reproduction_evidence ctx = Some r"
  obtains e0 e1 where "cr_evidence_ids c \<noteq> []" "e0 \<in> set (db_evidence d)" "er_evidence_id e0 = hd (cr_evidence_ids c)"
    "evidence_ref_of e0 d = Inr (vc_original_evidence ctx)"
    "e1 \<in> set (db_evidence d)" "evidence_ref_of e1 d = Inr r"
proof -
  from assms(1) obtain e0 r0 rep ctx0 where e0: "originating_evidence (cr_evidence_ids c) d = Inr e0"
      "evidence_ref_of e0 d = Inr r0"
      "reproduction_view_of (cvc_reproduction_experiment_id command) (cr_research_run_id c) d = Inr rep"
      and ctx: "post_init_verification_context ctx0 = Inr ctx" "vc_original_evidence ctx0 = r0"
        "vc_reproduction_evidence ctx0 = rv_evidence rep"
    by (auto simp: verification_context_for_def run_steps)
  have "rv_evidence rep = Some r" "vc_original_evidence ctx = r0"
    using post_init_verification_context_evidence [OF ctx(1)] ctx(2,3) assms(2) by auto
  with e0 originating_evidence_Inr [OF e0(1)] reproduction_view_evidence [OF e0(3)] that show ?thesis by blast
qed

lemma verification_of_state:
  assumes "snd (verification_of k) ctx = Inr v"
  shows "vr_proposed_candidate_state v = state_of_outcome (vr_outcome v)"
  using assms verifier_state
  by (auto simp: verification_of_def evaluate_authorization_differential_verification_def
      evaluate_state_transition_verification_def split: if_splits)

lemma verification_of_validated:
  assumes "snd (verification_of k) ctx = Inr v" "vr_outcome v = VO_VALIDATED"
  shows "\<exists>r. vc_reproduction_evidence ctx = Some r \<and> separate_execution (vc_original_evidence ctx) r \<and>
    supports (snd (expected_claims k)) r \<and> vr_reproduction_evidence_ids v = [ver_evidence_id r]"
proof -
  consider "k = HTTP_AUTHORIZATION_DIFFERENTIAL_CLASSIFICATION" | "k = HTTP_STATE_TRANSITION_CLASSIFICATION"
    | "k \<noteq> HTTP_AUTHORIZATION_DIFFERENTIAL_CLASSIFICATION" "k \<noteq> HTTP_STATE_TRANSITION_CLASSIFICATION" by blast
  then show ?thesis
  proof cases
    case 1
    then have "evaluate_authorization_differential_verification ctx = Inr v" using assms(1) by (simp add: verification_of_def)
    from http_validated [OF this [unfolded evaluate_authorization_differential_verification_def] assms(2)]
    show ?thesis using 1 by (auto simp: expected_claims_def)
  next
    case 2
    then have "evaluate_state_transition_verification ctx = Inr v" using assms(1) by (simp add: verification_of_def)
    from http_validated [OF this [unfolded evaluate_state_transition_verification_def] assms(2)]
    show ?thesis using 2 by (auto simp: expected_claims_def)
  next
    case 3
    then have "evaluate_diagnostic_verification ctx = Inr v" using assms(1) by (simp add: verification_of_def)
    from diagnostic_validated [OF this assms(2)] show ?thesis using 3 by (auto simp: expected_claims_def)
  qed
qed

lemma validated_support_intro:
  assumes ctx: "verification_context_for command c current d = Inr ctx"
    and v: "snd (verification_of (cr_classification c)) ctx = Inr result" "vr_outcome result = VO_VALIDATED"
    and r: "vrec_reproduction_evidence_ids r = vr_reproduction_evidence_ids result"
  shows "validated_support (db_evidence d) c r"
proof -
  obtain rp where rp: "vc_reproduction_evidence ctx = Some rp" "separate_execution (vc_original_evidence ctx) rp"
      "supports (snd (expected_claims (cr_classification c))) rp" "vr_reproduction_evidence_ids result = [ver_evidence_id rp]"
    using verification_of_validated [OF v] by blast
  obtain e0 e1 where e: "cr_evidence_ids c \<noteq> []" "e0 \<in> set (db_evidence d)" "er_evidence_id e0 = hd (cr_evidence_ids c)"
      "evidence_ref_of e0 d = Inr (vc_original_evidence ctx)" "e1 \<in> set (db_evidence d)" "evidence_ref_of e1 d = Inr rp"
    using verification_context_evidence [OF ctx rp(1)] by blast
  have "independent_support (snd (expected_claims (cr_classification c))) e0 e1"
    using rp(2,3) evidence_ref_of_Inr [OF e(4)] evidence_ref_of_Inr [OF e(6)]
    unfolding independent_support_def separate_execution_def supports_def by (auto simp: disjoint_iff)
  then show ?thesis
    unfolding validated_support_def using e rp(4) r evidence_ref_of_Inr [OF e(6)]
    by (intro bexI [of _ e0] bexI [of _ e1]) simp_all
qed

lemma complete_verification_effect:
  assumes "complete_verification command new_id clock d = Inr (res, d')"
  shows "\<exists>c \<in> set (db_candidates d). \<exists>v s. cr_candidate_id c = cvc_candidate_id command \<and>
    cr_state c \<in> {''OPEN'', ''VERIFYING''} \<and> s \<in> set TERMINAL_CANDIDATE_STATES \<and>
    d' = d\<lparr>db_verifications := db_verifications d @ [v],
           db_candidates := with_candidate_state (cr_candidate_id c) s (db_candidates d)\<rparr> \<and>
    vrec_candidate_id v = cr_candidate_id c \<and> vrec_outcome v = candidate_state_value s \<and>
    (s = CS_VALIDATED \<longrightarrow> validated_support (db_evidence d) c v)"
proof -
  from assms obtain c current ctx result next_state r d1 where
      c: "get_candidate (cvc_candidate_id command) d = Inr (Some c)"
      and current: "candidate_state_of (cr_state c) = Some current"
      and ctx: "verification_context_for command c current d = Inr ctx"
      and result: "snd (verification_of (cr_classification c)) ctx = Inr result"
      and next_state: "apply_verification_to_candidate current result = Inr next_state"
      and r: "verification_record_of (new_id ''verification'') c result (clock ''verification'') = Inr r"
      and ins: "insert_verification r d = Inr d1"
      and set: "set_candidate_state (cr_candidate_id c) (candidate_state_value next_state) d1 = Inr d'"
    unfolding complete_verification_def run_steps by blast
  let ?oc = "vr_outcome result"
  have s: "next_state = state_of_outcome ?oc"
    using next_state verification_of_state [OF result]
    by (auto simp: apply_verification_to_candidate_def transition_candidate_Inr_iff)
  have legal: "(current, next_state) \<in> set LEGAL_CANDIDATE_TRANSITIONS"
    using next_state by (auto simp: apply_verification_to_candidate_def transition_candidate_Inr_iff)
  have final: "next_state \<in> set TERMINAL_CANDIDATE_STATES"
    unfolding s by (cases ?oc) (simp_all add: TERMINAL_CANDIDATE_STATES_def)
  have open_or: "cr_state c \<in> {''OPEN'', ''VERIFYING''}"
    using legal current by (auto simp: candidate_state_of_Some LEGAL_CANDIDATE_TRANSITIONS_def)
  have r': "vrec_candidate_id r = cr_candidate_id c" "vrec_outcome r = candidate_state_value next_state"
      "vrec_reproduction_evidence_ids r = vr_reproduction_evidence_ids result"
    using r by (auto simp: verification_record_of_def post_init_verification_record_def raise_first_Inr_iff s
        verification_of_state [OF result])
  have "validated_support (db_evidence d) c r" if "next_state = CS_VALIDATED"
    using validated_support_intro [OF ctx result _ r'(3)] that s by (cases ?oc) auto
  moreover have "d' = d\<lparr>db_verifications := db_verifications d @ [r],
           db_candidates := with_candidate_state (cr_candidate_id c) next_state (db_candidates d)\<rparr>"
    using ins set_candidate_state_Inr [OF set] by (simp add: insert_Inr with_candidate_state_def)
  ultimately show ?thesis using get_candidate_Some [OF c] r' final open_or by blast
qed

lemma store_proposal_effect:
  assumes "store_proposal sha who new_id clock c draft d = Inr d'"
  obtains p evs where "d' = d\<lparr>db_proposals := db_proposals d @ [p], db_audit_events := evs\<rparr>"
    "validate_impact_claims draft (fpr_research_run_id p) d = Inr (fpr_impact_chain_ids p)"
    "fpr_proposal_id p = fpd_proposal_id draft" "fpr_candidate_id p = fpd_candidate_id draft"
    "fpr_state p = ''PROPOSED''" "fpr_content_fingerprint p = draft_content_fingerprint sha draft"
    "fpr_title p = fpd_title draft" "fpr_claim p = fpd_claim draft" "fpr_evidence_ids p = fpd_evidence_ids draft"
    "fpr_verification_ids p = fpd_verification_ids draft" "fpr_classification p = cr_classification c"
    "post_init_finding_proposal_record p = Inr p" "has_run (fpr_research_run_id p) d"
    "fpr_proposal_id p \<notin> fpr_proposal_id ` set (db_proposals d)"
    "fpr_candidate_id p \<in> cr_candidate_id ` set (db_candidates d)"
proof -
  from assms obtain ids p d1 where ids: "validate_impact_claims draft (fpd_research_run_id draft) d = Inr ids"
      and p: "proposal_record_of sha draft (cr_classification c) ids (clock ''proposal'') = Inr p"
      and ins: "insert_proposal p d = Inr d1"
      and ev: "store_audit_event (new_id ''proposal event'') (clock ''proposal event'') who
        (actor_type_value CONTROL_PLANE) ''FINDING_PROPOSAL_CREATED'' ''finding_proposal'' (fpd_proposal_id draft) None
        [(''candidate_id'', JStr (cr_candidate_id c)), (''not_a_vulnerability'', JBool True)] d1 = Inr d'"
    unfolding store_proposal_def run_steps by blast
  have same: "post_init_finding_proposal_record r = Inr q \<Longrightarrow> q = r" for r q
    by (simp add: post_init_finding_proposal_record_def raise_first_Inr_iff)
  note p' = p [unfolded proposal_record_of_def]
  from same [OF p'] have fields: "fpr_impact_chain_ids p = ids" "fpr_proposal_id p = fpd_proposal_id draft"
    "fpr_candidate_id p = fpd_candidate_id draft" "fpr_state p = ''PROPOSED''"
    "fpr_content_fingerprint p = draft_content_fingerprint sha draft" "fpr_title p = fpd_title draft"
    "fpr_claim p = fpd_claim draft" "fpr_evidence_ids p = fpd_evidence_ids draft"
    "fpr_verification_ids p = fpd_verification_ids draft" "fpr_classification p = cr_classification c"
    "post_init_finding_proposal_record p = Inr p"
    using p' by simp_all
  have row: "fpr_proposal_id p \<notin> fpr_proposal_id ` set (db_proposals d)" "has_run (fpr_research_run_id p) d"
      "fpr_candidate_id p \<in> cr_candidate_id ` set (db_candidates d)" "d1 = d\<lparr>db_proposals := db_proposals d @ [p]\<rparr>"
    using ins unfolding insert_Inr by blast+
  from store_audit_event_effect [OF ev] obtain evs where "d' = d1\<lparr>db_audit_events := evs\<rparr>" ..
  then have "d' = d\<lparr>db_proposals := db_proposals d @ [p], db_audit_events := evs\<rparr>" using row(4) by simp
  moreover have "validate_impact_claims draft (fpr_research_run_id p) d = Inr (fpr_impact_chain_ids p)"
    using ids fields(1) same [OF p'] by simp
  ultimately show ?thesis using fields(2-) row(2,1,3) by (rule that)
qed

definition tiers_allow :: "candidate_record \<Rightarrow> db \<Rightarrow> bool" where
  "tiers_allow c d \<longleftrightarrow> (\<exists>view. read_validation_audit_view c d = Inr view \<and>
     (case vav_decision view of None \<Rightarrow> True | Some v \<Rightarrow> vad_admitted v))"

lemma settle_submission_cases:
  assumes "settle_submission sha who c decision new_id clock d = Inr (res, d')"
  shows "\<not> creates_proposal decision \<or>
    ((\<exists>evs. d' = d\<lparr>db_audit_events := evs\<rparr>) \<and> sfr_proposal_id res = None) \<or>
    (creates_proposal decision \<and> tiers_allow c d \<and> store_proposal sha who new_id clock c (fpad_draft decision) d = Inr d' \<and>
     sfr_proposal_id res = Some (fpd_proposal_id (fpad_draft decision)))"
proof (cases "creates_proposal decision")
  case True
  then obtain view where view: "read_validation_audit_view c d = Inr view"
    using assms by (auto simp: settle_submission_def Let_def bindE_Inr_iff split: if_splits)
  show ?thesis
  proof (cases "case vav_decision view of None \<Rightarrow> True | Some v \<Rightarrow> vad_admitted v")
    case allowed: True
    then have "tiers_allow c d" using view by (auto simp: tiers_allow_def)
    then show ?thesis using assms True view allowed
      by (auto simp: settle_submission_def Let_def bindE_Inr_iff split: if_splits option.splits)
  next
    case False
    then show ?thesis using assms True view
      by (auto simp: settle_submission_def Let_def bindE_Inr_iff split: if_splits option.splits
          dest!: store_audit_event_effect)
  qed
qed simp

lemma admit_finding_proposal_draft: "fpad_draft (admit_finding_proposal draft ctx) = draft"
  by (simp add: admit_finding_proposal_def finding_decision_def Let_def split: prod.split)

lemma submit_finding_proposal_effect:
  assumes "submit_finding_proposal sha who command new_id clock d = Inr (res, d')"
  obtains (not_stored) evs where "d' = d\<lparr>db_audit_events := evs\<rparr>" "sfr_proposal_id res = None"
    | (stored) p evs c draft where
       "d' = d\<lparr>db_proposals := db_proposals d @ [p], db_audit_events := evs\<rparr>"
       "sfr_proposal_id res = Some (fpr_proposal_id p)" "c \<in> set (db_candidates d)"
       "cr_candidate_id c = sfc_candidate_id command"
       "cr_state c = ''VALIDATED''" "tiers_allow c d"
       "fpr_candidate_id p = py_strip (cr_candidate_id c)" "fpr_state p = ''PROPOSED''"
       "fpr_content_fingerprint p = finding_proposal_content_fingerprint sha (fpr_candidate_id p) (fpr_title p)
          (fpr_claim p) (fpr_evidence_ids p) (fpr_verification_ids p)"
       "fpr_classification p = cr_classification c"
       "validate_impact_claims draft (fpr_research_run_id p) d = Inr (fpr_impact_chain_ids p)"
       "post_init_finding_proposal_record p = Inr p" "has_run (fpr_research_run_id p) d"
       "fpr_proposal_id p \<notin> fpr_proposal_id ` set (db_proposals d)"
proof -
  from assms obtain c state vs ctx draft where c: "get_candidate (sfc_candidate_id command) d = Inr (Some c)"
      and state: "candidate_state_of (cr_state c) = Some state"
      and vs: "list_verifications_for_candidate (cr_candidate_id c) d = Inr vs"
      and ctx: "post_init_finding_proposal_admission_context
       \<lparr>fpx_candidate_id = cr_candidate_id c, fpx_candidate_state = state,
        fpx_research_run_id = cr_research_run_id c, fpx_evidence_ids = cr_evidence_ids c,
        fpx_verification_ids = map vrec_verification_id vs, fpx_classification = cr_classification c\<rparr> = Inr ctx"
      and run: "settle_submission sha who c (admit_finding_proposal draft ctx) new_id clock d = Inr (res, d')"
    unfolding submit_finding_proposal_def run_steps by blast
  have ctx': "fpx_candidate_id ctx = py_strip (cr_candidate_id c)" "fpx_candidate_state ctx = state"
    using ctx by (auto simp: post_init_finding_proposal_admission_context_def run_steps)
  consider "\<not> creates_proposal (admit_finding_proposal draft ctx)"
    | "\<exists>evs. d' = d\<lparr>db_audit_events := evs\<rparr>" "sfr_proposal_id res = None"
    | "creates_proposal (admit_finding_proposal draft ctx)" "tiers_allow c d"
        "store_proposal sha who new_id clock c draft d = Inr d'" "sfr_proposal_id res = Some (fpd_proposal_id draft)"
    using settle_submission_cases [OF run, unfolded admit_finding_proposal_draft] by argo
  then show ?thesis
  proof cases
    case 1
    then have "d' = d" "sfr_proposal_id res = None" using run by (auto simp: settle_submission_def Let_def)
    then show ?thesis by (intro not_stored [of "db_audit_events d"]) simp_all
  next
    case 2
    then show ?thesis using not_stored by blast
  next
    case 3
    from 3(1) have "state = CS_VALIDATED" and draft: "fpd_candidate_id draft = py_strip (cr_candidate_id c)"
      using ctx' by (simp_all add: admit_finding_proposal_iff proposal_provenance_intact_def)
    then have validated: "cr_state c = ''VALIDATED''" using state by (simp add: candidate_state_of_Some)
    from 3(3) obtain p evs where p: "d' = d\<lparr>db_proposals := db_proposals d @ [p], db_audit_events := evs\<rparr>"
        "validate_impact_claims draft (fpr_research_run_id p) d = Inr (fpr_impact_chain_ids p)"
        "fpr_proposal_id p = fpd_proposal_id draft" "fpr_candidate_id p = fpd_candidate_id draft"
        "fpr_state p = ''PROPOSED''" "fpr_content_fingerprint p = draft_content_fingerprint sha draft"
        "fpr_title p = fpd_title draft" "fpr_claim p = fpd_claim draft" "fpr_evidence_ids p = fpd_evidence_ids draft"
        "fpr_verification_ids p = fpd_verification_ids draft" "fpr_classification p = cr_classification c"
        "post_init_finding_proposal_record p = Inr p" "has_run (fpr_research_run_id p) d"
        "fpr_proposal_id p \<notin> fpr_proposal_id ` set (db_proposals d)"
      by (rule store_proposal_effect)
    show ?thesis
      using p 3(2,4) validated draft get_candidate_Some [OF c] unfolding draft_content_fingerprint_def
      by (intro stored [where p = p and evs = evs and c = c and draft = draft]) simp_all
  qed
qed

lemma start_human_review_effect:
  assumes "start_human_review i new_id clock d = Inr (res, d')"
  shows "\<exists>p \<in> set (db_proposals d). fpr_proposal_id p = i \<and> fpr_state p = ''PROPOSED'' \<and>
    d' = d\<lparr>db_proposals := with_proposal_state i FPS_HUMAN_REVIEW (db_proposals d)\<rparr>"
proof -
  from assms obtain p current next_state where p: "get_proposal i d = Inr (Some p)"
      and cur: "finding_proposal_state_of (fpr_state p) = Some current"
        "start_finding_proposal_review current = Inr next_state"
      and set: "set_proposal_state (fpr_proposal_id p) (finding_proposal_state_value next_state) d = Inr d'"
    unfolding start_human_review_def run_steps by blast
  have "current = FPS_PROPOSED" "next_state = FPS_HUMAN_REVIEW"
    using cur(2) by (auto simp: start_finding_proposal_review_def transition_finding_proposal_Inr_iff
        LEGAL_FINDING_PROPOSAL_TRANSITIONS_def)
  then show ?thesis
    using cur(1) set_proposal_state_Inr [OF set] get_proposal_Some [OF p]
    by (auto simp: finding_proposal_state_of_Some with_proposal_state_def)
qed

lemma py_strip_actor [simp]: "py_strip (actor_type_value k) = actor_type_value k"
  by (cases k) (simp_all add: py_strip_def py_space_def)

lemma actor_type_value_human [simp]: "actor_type_value k = HUMAN_OPERATOR_ACTOR \<longleftrightarrow> k = HUMAN_OPERATOR"
  by (cases k) (simp_all add: HUMAN_OPERATOR_ACTOR_def)

lemma human_review_decision_of_Some: "human_review_decision_of v = Some x \<longleftrightarrow> human_review_decision_value x = v"
  by (cases x) (auto simp: human_review_decision_of_def)

lemma human_review_decision_of_value [simp]: "human_review_decision_of (human_review_decision_value x) = Some x"
  by (simp add: human_review_decision_of_Some)

lemma record_human_review_effect:
  assumes "record_human_review command new_id clock d = Inr (res, d')"
  obtains (existing) "d' = d" | (stored) p r evs where "p \<in> set (db_proposals d)"
     "d' = d\<lparr>db_reviews := db_reviews d @ [r], db_audit_events := evs\<rparr>"
     "fpr_proposal_id p = rhc_proposal_id command" "fpr_state p = ''HUMAN_REVIEW''"
     "hrr_proposal_id r = fpr_proposal_id p" "hrr_content_fingerprint r = fpr_content_fingerprint p"
     "hrr_actor_type r = ''HUMAN_OPERATOR''" "hrr_decision r = human_review_decision_value (rhc_decision command)"
     "hrr_review_id r = new_id ''review''" "hrr_review_id r \<notin> hrr_review_id ` set (db_reviews d)"
     "fpr_proposal_id p \<notin> hrr_proposal_id ` set (db_reviews d)" "post_init_human_review_record r = Inr r"
     "\<exists>v. review_view_of r = Inr v"
proof -
  from assms obtain p found where p: "get_proposal (rhc_proposal_id command) d = Inr (Some p)"
      and state: "fpr_state p = ''HUMAN_REVIEW''"
      and found: "get_review_for_proposal (fpr_proposal_id p) d = Inr found"
    by (auto simp: record_human_review_def run_steps split: if_splits)
  show ?thesis
  proof (cases found)
    case (Some r)
    then have "d' = d" using assms p state found
      by (auto simp: record_human_review_def run_steps split: if_splits)
    then show ?thesis by (rule existing)
  next
    case None
    then obtain view d1 where
        view: "post_init_human_review_view
           \<lparr>hrv_review_id = new_id ''review'', hrv_proposal_id = fpr_proposal_id p,
            hrv_content_fingerprint = fpr_content_fingerprint p, hrv_decision = rhc_decision command,
            hrv_reviewer_id = rhc_reviewer_id command, hrv_actor_type = actor_type_value (rhc_actor_type command),
            hrv_reason_codes = rhc_reason_codes command, hrv_note = rhc_note command\<rparr> = Inr view"
        and admit: "admit_human_review view (fpr_proposal_id p) (fpr_content_fingerprint p) = Inr ()"
        and st: "store_review command p (new_id ''review'') (clock ''review'') d = Inr d1"
        and ev: "\<exists>evs. d' = d1\<lparr>db_audit_events := evs\<rparr>"
      using assms p state found
      by (auto simp: record_human_review_def run_steps dest!: store_audit_event_effect)
    have "hrv_actor_type view = actor_type_value (rhc_actor_type command)"
      using view by (auto simp: post_init_human_review_view_def run_steps)
    then have human: "actor_type_value (rhc_actor_type command) = ''HUMAN_OPERATOR''"
      using admit by (simp add: admit_human_review_ok)
    from st obtain r where r: "post_init_human_review_record
         \<lparr>hrr_review_id = new_id ''review'', hrr_proposal_id = fpr_proposal_id p,
          hrr_content_fingerprint = fpr_content_fingerprint p,
          hrr_decision = human_review_decision_value (rhc_decision command),
          hrr_reviewer_id = rhc_reviewer_id command, hrr_actor_type = actor_type_value (rhc_actor_type command),
          hrr_reason_codes = rhc_reason_codes command, hrr_created_at = clock ''review'', hrr_note = rhc_note command\<rparr> = Inr r"
        and ins: "insert_review r d = Inr d1"
      unfolding store_review_def run_steps by blast
    from r have r': "r = \<lparr>hrr_review_id = new_id ''review'', hrr_proposal_id = fpr_proposal_id p,
          hrr_content_fingerprint = fpr_content_fingerprint p,
          hrr_decision = human_review_decision_value (rhc_decision command),
          hrr_reviewer_id = rhc_reviewer_id command, hrr_actor_type = actor_type_value (rhc_actor_type command),
          hrr_reason_codes = rhc_reason_codes command, hrr_created_at = clock ''review'', hrr_note = rhc_note command\<rparr>"
      by (simp add: post_init_human_review_record_def raise_first_Inr_iff)
    from ins have d1: "hrr_review_id r \<notin> hrr_review_id ` set (db_reviews d)" "d1 = d\<lparr>db_reviews := db_reviews d @ [r]\<rparr>"
      by (simp_all add: insert_Inr)
    from ev obtain evs where "d' = d1\<lparr>db_audit_events := evs\<rparr>" by blast
    with d1 have d': "d' = d\<lparr>db_reviews := db_reviews d @ [r], db_audit_events := evs\<rparr>" by simp
    have none: "fpr_proposal_id p \<notin> hrr_proposal_id ` set (db_reviews d)"
      using found None get_review_None by blast
    have "review_view_of r = Inr view" unfolding r' review_view_of_def using view
      by (simp add: human_review_decision_of_value)
    moreover have "post_init_human_review_record r = Inr r" using r r' by simp
    ultimately show ?thesis using d1 d' none r' human state get_proposal_Some [OF p]
      by (intro stored [where p = p and r = r and evs = evs]) simp_all
  qed
qed

definition records_approval ::
    "finding_proposal_record \<Rightarrow> human_review_record \<Rightarrow> human_review_decision \<Rightarrow> approval_record \<Rightarrow> bool" where
  "records_approval p r decision a \<longleftrightarrow>
     apr_proposal_id a = fpr_proposal_id p \<and> apr_human_review_id a = py_strip (hrr_review_id r) \<and>
     apr_subject_reference a = approval_subject_for (fpr_proposal_id p) (fpr_content_fingerprint p) \<and>
     apr_decision a = human_review_decision_value decision \<and> apr_actor_type a = ''HUMAN_OPERATOR'' \<and> apr_recorded a"

definition records_finding :: "finding_proposal_record \<Rightarrow> approval_record \<Rightarrow> finding_record \<Rightarrow> bool" where
  "records_finding p a f \<longleftrightarrow>
     fr_finding_proposal_id f = fpr_proposal_id p \<and> fr_candidate_id f = fpr_candidate_id p \<and>
     fr_research_run_id f = fpr_research_run_id p \<and> fr_approval_id f = apr_approval_id a \<and>
     fr_human_review_id f = apr_human_review_id a \<and> fr_title f = fpr_title p \<and> fr_claim f = fpr_claim p \<and>
     fr_classification f = fpr_classification p \<and> fr_evidence_ids f = fpr_evidence_ids p \<and>
     fr_verification_ids f = fpr_verification_ids p"

definition decided_state :: "human_review_decision \<Rightarrow> finding_proposal_state" where
  "decided_state decision = (if decision = HR_APPROVE then FPS_APPROVED else FPS_REJECTED)"

lemma evaluate_finding_creation_decided:
  assumes "fcd_outcome (evaluate_finding_creation c) \<notin> set REJECTING_OUTCOMES"
  obtains r where "fcx_candidate_state c = CS_VALIDATED" "fcx_proposal_state c = FPS_HUMAN_REVIEW"
    "fcx_human_review c = Some r" "hrv_actor_type r = HUMAN_OPERATOR_ACTOR"
    "fcx_approval_actor_type c \<in> {None, Some HUMAN_OPERATOR_ACTOR}"
    "hrv_proposal_id r = fcx_proposal_id c" "hrv_content_fingerprint r = fcx_content_fingerprint c"
    "fcx_approval_valid_record c" "fcx_approval_subject_matches c"
    "fcd_creates_finding (evaluate_finding_creation c) \<longleftrightarrow> hrv_decision r = HR_APPROVE \<and> fcx_approval_authorizes c"
    "fcd_proposal_state (evaluate_finding_creation c) =
       (if hrv_decision r = HR_APPROVE \<and> fcx_approval_authorizes c then FPS_APPROVED else FPS_REJECTED)"
proof (cases "fcx_human_review c")
  case None
  then show ?thesis using assms
    by (simp add: evaluate_finding_creation_def Let_def REJECTING_OUTCOMES_def split: if_splits)
next
  case (Some r)
  show ?thesis
  proof (rule that [of r])
    show "fcd_creates_finding (evaluate_finding_creation c) \<longleftrightarrow> hrv_decision r = HR_APPROVE \<and> fcx_approval_authorizes c"
      "fcd_proposal_state (evaluate_finding_creation c) =
       (if hrv_decision r = HR_APPROVE \<and> fcx_approval_authorizes c then FPS_APPROVED else FPS_REJECTED)"
      using assms Some
      by (cases "hrv_decision r"; simp add: evaluate_finding_creation_def Let_def REJECTING_OUTCOMES_def split: if_splits)+
  qed (use assms Some in \<open>auto simp: evaluate_finding_creation_def Let_def REJECTING_OUTCOMES_def split: if_splits\<close>)
qed

lemma store_approval_effect:
  assumes "store_approval command p v a new_id clock d = Inr d'"
  obtains r evs where "d' = d\<lparr>db_approvals := db_approvals d @ [r], db_audit_events := evs\<rparr>"
    "apr_approval_id r = av_approval_id a" "apr_subject_reference r = av_subject_reference a"
    "apr_decision r = approval_decision_value (av_decision a)"
    "apr_actor_type r = actor_type_value (ffc_actor_type command)" "apr_recorded r"
    "apr_proposal_id r = fpr_proposal_id p" "apr_human_review_id r = hrv_review_id v"
    "apr_approval_id r \<notin> apr_approval_id ` set (db_approvals d)"
    "apr_subject_reference r \<notin> apr_subject_reference ` set (db_approvals d)"
proof -
  from assms obtain r d1 where r: "post_init_approval_record
       \<lparr>apr_approval_id = av_approval_id a, apr_subject_reference = av_subject_reference a,
        apr_decision = approval_decision_value (av_decision a), apr_decided_by = ffc_decided_by command,
        apr_actor_type = actor_type_value (ffc_actor_type command), apr_recorded = True,
        apr_created_at = clock ''approval'', apr_research_run_id = fpr_research_run_id p,
        apr_proposal_id = fpr_proposal_id p, apr_human_review_id = hrv_review_id v\<rparr> = Inr r"
      and ins: "insert_approval r d = Inr d1" and ev: "\<exists>evs. d' = d1\<lparr>db_audit_events := evs\<rparr>"
    unfolding store_approval_def run_steps by (blast dest: store_audit_event_effect)
  from ins have row: "apr_approval_id r \<notin> apr_approval_id ` set (db_approvals d)"
      "apr_subject_reference r \<notin> apr_subject_reference ` set (db_approvals d)"
      "d1 = d\<lparr>db_approvals := db_approvals d @ [r]\<rparr>"
    unfolding insert_Inr by blast+
  from ev obtain evs where "d' = d1\<lparr>db_audit_events := evs\<rparr>" ..
  with row(3) have d': "d' = d\<lparr>db_approvals := db_approvals d @ [r], db_audit_events := evs\<rparr>" by simp
  show ?thesis
    by (rule that [OF d' _ _ _ _ _ _ _ row(1,2)])
      (use r in \<open>auto simp: post_init_approval_record_def raise_first_Inr_iff\<close>)
qed

lemma store_finding_effect:
  assumes "store_finding c p v i j new_id clock d = Inr d'"
  obtains f evs where "d' = d\<lparr>db_findings := db_findings d @ [f], db_audit_events := evs\<rparr>"
    "fr_finding_id f = j" "fr_finding_proposal_id f = fpr_proposal_id p" "fr_candidate_id f = cr_candidate_id c"
    "fr_research_run_id f = fpr_research_run_id p" "fr_approval_id f = i" "fr_human_review_id f = hrv_review_id v"
    "fr_title f = fpr_title p" "fr_claim f = fpr_claim p" "fr_classification f = fpr_classification p"
    "fr_evidence_ids f = fpr_evidence_ids p" "fr_verification_ids f = fpr_verification_ids p"
    "fr_finding_id f \<notin> fr_finding_id ` set (db_findings d)"
    "fr_finding_proposal_id f \<notin> fr_finding_proposal_id ` set (db_findings d)"
proof -
  from assms obtain f d1 where f: "post_init_finding_record
       \<lparr>fr_finding_id = j, fr_finding_proposal_id = fpr_proposal_id p,
        fr_candidate_id = cr_candidate_id c, fr_research_run_id = fpr_research_run_id p,
        fr_approval_id = i, fr_human_review_id = hrv_review_id v, fr_title = fpr_title p,
        fr_claim = fpr_claim p, fr_classification = fpr_classification p,
        fr_evidence_ids = fpr_evidence_ids p, fr_verification_ids = fpr_verification_ids p,
        fr_created_at = clock ''finding''\<rparr> = Inr f"
      and ins: "insert_finding f d = Inr d1" and ev: "\<exists>evs. d' = d1\<lparr>db_audit_events := evs\<rparr>"
    unfolding store_finding_def run_steps by (blast dest: store_audit_event_effect)
  from ins have row: "fr_finding_id f \<notin> fr_finding_id ` set (db_findings d)"
      "fr_finding_proposal_id f \<notin> fr_finding_proposal_id ` set (db_findings d)"
      "d1 = d\<lparr>db_findings := db_findings d @ [f]\<rparr>"
    unfolding insert_Inr by blast+
  from ev obtain evs where "d' = d1\<lparr>db_audit_events := evs\<rparr>" ..
  with row(3) have d': "d' = d\<lparr>db_findings := db_findings d @ [f], db_audit_events := evs\<rparr>" by simp
  show ?thesis
    by (rule that [OF d' _ _ _ _ _ _ _ _ _ _ _ row(1,2)])
      (use f in \<open>auto simp: post_init_finding_record_def raise_first_Inr_iff\<close>)
qed

lemma review_view_of_Inr:
  "review_view_of r = Inr v \<Longrightarrow>
     hrr_decision r = human_review_decision_value (hrv_decision v) \<and> hrv_review_id v = py_strip (hrr_review_id r) \<and>
     hrv_proposal_id v = py_strip (hrr_proposal_id r) \<and> hrv_content_fingerprint v = py_strip (hrr_content_fingerprint r) \<and>
     hrv_actor_type v = py_strip (hrr_actor_type r)"
  unfolding review_view_of_def post_init_human_review_view_def run_steps
  by (elim exE conjE) (auto simp: human_review_decision_of_Some strip_text_Inr_iff)

lemma approval_decision_of_review_value [simp]:
  "approval_decision_value (approval_decision_of_review x) = human_review_decision_value x"
  by (cases x) simp_all

lemma approval_view_for_Some:
  "approval_view_for command i subject (Some v) = Inr a \<Longrightarrow>
     a = Some \<lparr>av_approval_id = i, av_subject_reference = subject,
       av_decision = approval_decision_of_review (hrv_decision v), av_decided_by = ffc_decided_by command,
       av_actor_type = ffc_actor_type command, av_recorded = True\<rparr>"
  by (auto simp: approval_view_for_def post_init_approval_view_def run_steps raise_first_Inr_iff)

lemma creation_context_for_Inr:
  "creation_context_for command c cs p ps subject review approval evaluation = Inr x \<Longrightarrow>
     fcx_candidate_state x = cs \<and> fcx_proposal_state x = ps \<and> fcx_human_review x = review \<and>
     fcx_proposal_id x = py_strip (fpr_proposal_id p) \<and>
     fcx_content_fingerprint x = py_strip (fpr_content_fingerprint p) \<and>
     fcx_approval_valid_record x = rae_valid_record evaluation \<and>
     fcx_approval_authorizes x = rae_authorizes evaluation \<and>
     fcx_approval_subject_matches x = (case approval of None \<Rightarrow> False | Some a \<Rightarrow> av_subject_reference a = subject) \<and>
     fcx_approval_decision x = map_option hrv_decision review \<and>
     fcx_approval_actor_type x = Some (actor_type_value (ffc_actor_type command))"
  unfolding creation_context_for_def post_init_finding_creation_context_def run_steps
  by (clarsimp simp: strip_text_Inr_iff)

lemma decide_proposal_effect:
  assumes run: "decide_proposal command p state new_id clock d = Inr (res, d')"
  obtains c r decision a evs fs where
    "get_candidate (fpr_candidate_id p) d = Inr (Some c)" "cr_state c = ''VALIDATED''" "state = FPS_HUMAN_REVIEW"
    "get_review_for_proposal (fpr_proposal_id p) d = Inr (Some r)" "py_strip (hrr_actor_type r) = ''HUMAN_OPERATOR''"
    "py_strip (hrr_content_fingerprint r) = py_strip (fpr_content_fingerprint p)"
    "hrr_decision r = human_review_decision_value decision" "records_approval p r decision a"
    "apr_approval_id a \<notin> apr_approval_id ` set (db_approvals d)"
    "apr_subject_reference a \<notin> apr_subject_reference ` set (db_approvals d)"
    "d' = d\<lparr>db_approvals := db_approvals d @ [a],
            db_proposals := with_proposal_state (fpr_proposal_id p) (decided_state decision) (db_proposals d),
            db_findings := db_findings d @ fs, db_audit_events := evs\<rparr>"
    "case fs of [] \<Rightarrow> decision = HR_REJECT
       | f # gs \<Rightarrow> gs = [] \<and> decision = HR_APPROVE \<and> records_finding p a f \<and>
           fr_finding_id f \<notin> fr_finding_id ` set (db_findings d) \<and>
           fr_finding_proposal_id f \<notin> fr_finding_proposal_id ` set (db_findings d)"
    "ffr_proposal_state res = decided_state decision" "ffr_finding_id res = map_option fr_finding_id (find (\<lambda>_. True) fs)"
proof -
  let ?subject = "approval_subject_for (fpr_proposal_id p) (fpr_content_fingerprint p)"
  obtain c cs row review approval evaluation x where
      c: "get_candidate (fpr_candidate_id p) d = Inr (Some c)" and cs: "candidate_state_of (cr_state c) = Some cs"
      and row: "get_review_for_proposal (fpr_proposal_id p) d = Inr row"
      and review: "(case row of None \<Rightarrow> Inr None | Some r \<Rightarrow> bindE (review_view_of r) (\<lambda>v. Inr (Some v))) = Inr review"
      and approval: "approval_view_for command (new_id ''approval'') ?subject review = Inr approval"
      and evaluation: "evaluate_recorded_approval approval ?subject = Inr evaluation"
      and x: "creation_context_for command c cs p state ?subject review approval evaluation = Inr x"
      and rest: "(let creation = evaluate_finding_creation x in
     if fcd_outcome creation \<in> set REJECTING_OUTCOMES
     then Inl (ApplicationError ''finding finalization rejected'')
     else case (review, approval) of
       (Some v, Some a) \<Rightarrow>
         bindE (mapErr as_application (transition_finding_proposal state (fcd_proposal_state creation))) (\<lambda>next_state.
         bindE (store_approval command p v a new_id clock d) (\<lambda>d.
         bindE (stored (set_proposal_state (fpr_proposal_id p) (finding_proposal_state_value next_state) d)) (\<lambda>d.
         let finding_id = (if fcd_creates_finding creation then Some (new_id ''finding'') else None) in
         bindE (case finding_id of None \<Rightarrow> Inr d
                | Some i \<Rightarrow> store_finding c p v (new_id ''approval'') i new_id clock d) (\<lambda>d.
         Inr (\<lparr>ffr_outcome = fcd_outcome creation, ffr_proposal_id = fpr_proposal_id p,
               ffr_proposal_state = next_state, ffr_finding_id = finding_id, ffr_approval_id = Some (new_id ''approval''),
               ffr_reason_codes = fcd_reason_codes creation\<rparr>, d)))))
     | _ \<Rightarrow> Inl (ApplicationError ''finding finalization rejected: missing review'')) = Inr (res, d')"
    using run unfolding decide_proposal_def Let_def [of "approval_subject_for _ _"] Let_def [of "new_id _"]
      bindE_Inr_iff mapErr_Inr_iff from_option_Inr_iff by blast
  note x' = creation_context_for_Inr [OF x]
  have "fcd_outcome (evaluate_finding_creation x) \<notin> set REJECTING_OUTCOMES"
    using rest by (auto simp: Let_def split: if_splits)
  then obtain v where v: "fcx_candidate_state x = CS_VALIDATED" "fcx_proposal_state x = FPS_HUMAN_REVIEW"
      "fcx_human_review x = Some v" "hrv_actor_type v = HUMAN_OPERATOR_ACTOR"
      "hrv_content_fingerprint v = fcx_content_fingerprint x" "fcx_approval_valid_record x"
      and creates: "fcd_creates_finding (evaluate_finding_creation x) \<longleftrightarrow>
        hrv_decision v = HR_APPROVE \<and> fcx_approval_authorizes x"
      and next_state: "fcd_proposal_state (evaluate_finding_creation x) =
        (if hrv_decision v = HR_APPROVE \<and> fcx_approval_authorizes x then FPS_APPROVED else FPS_REJECTED)"
    by (rule evaluate_finding_creation_decided)
  from v x' have review': "review = Some v" by simp
  with review obtain r where r: "row = Some r" "review_view_of r = Inr v" by (auto simp: run_steps split: option.splits)
  note v' = review_view_of_Inr [OF r(2)]
  define a where "a = \<lparr>av_approval_id = new_id ''approval'', av_subject_reference = ?subject,
       av_decision = approval_decision_of_review (hrv_decision v), av_decided_by = ffc_decided_by command,
       av_actor_type = ffc_actor_type command, av_recorded = True\<rparr>"
  have approval': "approval = Some a"
    using approval_view_for_Some [OF approval [unfolded review']] by (simp add: a_def)
  have human: "ffc_actor_type command = HUMAN_OPERATOR"
    using v(6) x' evaluate_recorded_approval_valid [OF evaluation] approval' by (auto simp: human_record_for_def a_def)
  have authorizes: "fcx_approval_authorizes x \<longleftrightarrow> hrv_decision v = HR_APPROVE"
    using x' evaluate_recorded_approval_authorizes [OF evaluation] approval' human
    by (cases "hrv_decision v") (auto simp: approved_for_def human_record_for_def a_def)
  have state: "fcd_proposal_state (evaluate_finding_creation x) = decided_state (hrv_decision v)"
      "fcd_creates_finding (evaluate_finding_creation x) \<longleftrightarrow> hrv_decision v = HR_APPROVE"
    using next_state creates authorizes by (simp_all add: decided_state_def)
  obtain d1 d2 where d1: "store_approval command p v a new_id clock d = Inr d1"
      and d2: "set_proposal_state (fpr_proposal_id p) (finding_proposal_state_value (decided_state (hrv_decision v))) d1 = Inr d2"
      and d': "(if hrv_decision v = HR_APPROVE
                then store_finding c p v (new_id ''approval'') (new_id ''finding'') new_id clock d2 else Inr d2) = Inr d'"
      and res: "ffr_proposal_state res = decided_state (hrv_decision v)"
        "ffr_finding_id res = (if hrv_decision v = HR_APPROVE then Some (new_id ''finding'') else None)"
    using rest by (auto simp: Let_def review' approval' state transition_finding_proposal_Inr_iff use_case_simps
        run_steps split: if_splits)
  from d1 obtain ar evs1 where ar: "d1 = d\<lparr>db_approvals := db_approvals d @ [ar], db_audit_events := evs1\<rparr>"
      "apr_approval_id ar = av_approval_id a" "apr_subject_reference ar = av_subject_reference a"
      "apr_decision ar = approval_decision_value (av_decision a)"
      "apr_actor_type ar = actor_type_value (ffc_actor_type command)" "apr_recorded ar"
      "apr_proposal_id ar = fpr_proposal_id p" "apr_human_review_id ar = hrv_review_id v"
      "apr_approval_id ar \<notin> apr_approval_id ` set (db_approvals d)"
      "apr_subject_reference ar \<notin> apr_subject_reference ` set (db_approvals d)"
    by (rule store_approval_effect)
  have recorded: "records_approval p r (hrv_decision v) ar"
    using ar(2-8) v' human by (simp add: records_approval_def a_def)
  have d2': "d2 = d\<lparr>db_approvals := db_approvals d @ [ar],
      db_proposals := with_proposal_state (fpr_proposal_id p) (decided_state (hrv_decision v)) (db_proposals d),
      db_audit_events := evs1\<rparr>"
    using set_proposal_state_Inr [OF d2] ar(1) by (simp add: with_proposal_state_def)
  note facts = that [OF c _ _ row [unfolded r(1)] _ _ _ recorded ar(9,10)]
  have common: "cr_state c = ''VALIDATED''" "state = FPS_HUMAN_REVIEW" "py_strip (hrr_actor_type r) = ''HUMAN_OPERATOR''"
      "py_strip (hrr_content_fingerprint r) = py_strip (fpr_content_fingerprint p)"
      "hrr_decision r = human_review_decision_value (hrv_decision v)"
    using v x' v' cs by (simp_all add: candidate_state_of_Some HUMAN_OPERATOR_ACTOR_def)
  show ?thesis
  proof (cases "hrv_decision v = HR_APPROVE")
    case False
    then have "hrv_decision v = HR_REJECT" by (cases "hrv_decision v") simp_all
    then show ?thesis using d' d2' res common
      by (intro facts [where fs = "[]" and evs = evs1]) simp_all
  next
    case True
    from d' True have "store_finding c p v (new_id ''approval'') (new_id ''finding'') new_id clock d2 = Inr d'" by simp
    then obtain f evs where f: "d' = d2\<lparr>db_findings := db_findings d2 @ [f], db_audit_events := evs\<rparr>"
      "fr_finding_id f = new_id ''finding''" "fr_finding_proposal_id f = fpr_proposal_id p"
      "fr_candidate_id f = cr_candidate_id c"
      "fr_research_run_id f = fpr_research_run_id p" "fr_approval_id f = new_id ''approval''"
      "fr_human_review_id f = hrv_review_id v" "fr_title f = fpr_title p" "fr_claim f = fpr_claim p"
      "fr_classification f = fpr_classification p" "fr_evidence_ids f = fpr_evidence_ids p"
      "fr_verification_ids f = fpr_verification_ids p"
      "fr_finding_id f \<notin> fr_finding_id ` set (db_findings d2)"
      "fr_finding_proposal_id f \<notin> fr_finding_proposal_id ` set (db_findings d2)"
      by (rule store_finding_effect)
    have "records_finding p ar f"
      using f(2-12) ar(2,8) get_candidate_Some [OF c] by (simp add: records_finding_def a_def)
    then show ?thesis using f d2' res common True
      by (intro facts [where fs = "[f]" and evs = evs]) simp_all
  qed
qed

lemma get_finding_Some:
  "get_finding_by_proposal i d = Inr (Some f) \<Longrightarrow> f \<in> set (db_findings d) \<and> fr_finding_proposal_id f = i"
  by (auto simp: get_finding_by_proposal_def dest: fetch_one_Some)

lemma get_finding_None: "get_finding_by_proposal i d = Inr None \<Longrightarrow> i \<notin> fr_finding_proposal_id ` set (db_findings d)"
  by (auto simp: get_finding_by_proposal_def dest: fetch_one_None)

lemma finalize_finding_effect:
  assumes run: "finalize_finding command new_id clock d = Inr (res, d')"
  obtains (existing) p f where "get_proposal (ffc_proposal_id command) d = Inr (Some p)"
      "get_finding_by_proposal (fpr_proposal_id p) d = Inr (Some f)" "d' = d" "ffr_finding_id res = Some (fr_finding_id f)"
      "ffr_proposal_state res = FPS_APPROVED"
    | (rejected) p where "get_proposal (ffc_proposal_id command) d = Inr (Some p)"
      "get_finding_by_proposal (fpr_proposal_id p) d = Inr None" "fpr_state p = ''REJECTED''" "d' = d"
      "ffr_finding_id res = None" "ffr_proposal_state res = FPS_REJECTED"
    | (decided) p state where "get_proposal (ffc_proposal_id command) d = Inr (Some p)"
      "get_finding_by_proposal (fpr_proposal_id p) d = Inr None" "finding_proposal_state_of (fpr_state p) = Some state"
      "decide_proposal command p state new_id clock d = Inr (res, d')"
proof -
  from run obtain p found where p: "get_proposal (ffc_proposal_id command) d = Inr (Some p)"
      and found: "get_finding_by_proposal (fpr_proposal_id p) d = Inr found"
    unfolding finalize_finding_def run_steps by blast
  show ?thesis
  proof (cases found)
    case (Some f)
    then show ?thesis using run p found by (intro existing) (auto simp: finalize_finding_def)
  next
    case None
    with run p found obtain state where state: "finding_proposal_state_of (fpr_state p) = Some state"
      by (auto simp: finalize_finding_def use_case_simps run_steps)
    have "state \<noteq> FPS_APPROVED" using run p found None state by (auto simp: finalize_finding_def)
    then consider "state = FPS_REJECTED" | "state \<noteq> FPS_REJECTED" "state \<noteq> FPS_APPROVED" by blast
    then show ?thesis
    proof cases
      case 1
      then show ?thesis using run p found None state
        by (intro rejected) (auto simp: finalize_finding_def run_steps finding_proposal_state_of_Some)
    next
      case 2
      then show ?thesis using run p found None state by (intro decided) (auto simp: finalize_finding_def)
    qed
  qed
qed

end
