(* ===== verification/Lab_Run.thy ===== *)
theory Lab_Run
  imports App_Finding
begin

text \<open>
  One run of the whole pipeline on the diagnostic echo: a laboratory database with two executed
  experiments that echoed the same value, and the seven use cases from the Candidate to the Finding.
  The theorems about the pipeline are applied to it.
\<close>

definition lab_experiment :: "string \<Rightarrow> experiment_record" where
  "lab_experiment x = \<lparr>xr_experiment_id = x, xr_research_run_id = ''run'', xr_hypothesis_id = ''h'',
     xr_budget_id = ''b'', xr_execution_state = ''EXECUTION_SUCCEEDED'', xr_created_at = 0\<rparr>"

definition lab_attempt :: "string \<Rightarrow> execution_attempt_record" where
  "lab_attempt x = \<lparr>ear_attempt_id = ''a-'' @ x, ear_request_id = ''q-'' @ x, ear_experiment_id = x,
     ear_research_run_id = ''run'', ear_correlation_id = ''k'', ear_worker_capability = ''diagnostic.echo'',
     ear_action = ''echo'', ear_target_reference = ''lab'', ear_budget_id = ''b'', ear_side_effect_level = 0,
     ear_authorization_decision_reference = ''z'', ear_state = ''COMPLETED'', ear_created_at = 0,
     ear_authorized_at = None, ear_dispatch_started_at = None, ear_completed_at = None\<rparr>"

definition lab_worker_result :: "string \<Rightarrow> worker_result_record" where
  "lab_worker_result x = \<lparr>wr_worker_result_id = ''w-'' @ x, wr_experiment_id = x, wr_research_run_id = ''run'',
     wr_request_id = ''q-'' @ x, wr_correlation_id = ''k'', wr_worker_capability = ''diagnostic.echo'',
     wr_action = ''echo'', wr_authorization_decision_reference = ''z'', wr_budget_id = ''b'',
     wr_side_effect_level = 0, wr_contract_version = ''1'', wr_worker_id = ''worker'', wr_status = ''SUCCEEDED'',
     wr_received_at = 0, wr_started_at = None, wr_completed_at = None, wr_parent_request_id = None,
     wr_raw_result = None, wr_raw_artifact_descriptors = None, wr_diagnostics = None, wr_control_signal = None\<rparr>"

definition lab_observation :: "string \<Rightarrow> observation_record" where
  "lab_observation x = \<lparr>or_observation_id = ''o-'' @ x, or_worker_result_id = ''w-'' @ x,
     or_observation_kind = ''DIAGNOSTIC_ECHO'', or_payload = [(''echoed'', JStr ''ping'')],
     or_normalization_version = ''1'', or_observed_at = 0, or_created_at = 0\<rparr>"

definition lab_evidence :: "string \<Rightarrow> evidence_record" where
  "lab_evidence x = \<lparr>er_evidence_id = ''e-'' @ x, er_research_run_id = ''run'', er_hypothesis_id = ''h'',
     er_experiment_id = x, er_admission_record_id = ''m'', er_polarity = ''SUPPORTING'',
     er_claim_scope = DIAGNOSTIC_ECHO_MATCHED_CLAIM, er_observation_ids = [''o-'' @ x],
     er_assessment_ids = [''s-'' @ x], er_created_at = 0\<rparr>"

definition lab_db :: db where
  "lab_db = empty_db\<lparr>
     db_research_runs := [\<lparr>rr_research_run_id = ''run'', rr_program_id = ''prog'', rr_authorization_source_id = ''src'',
       rr_initiated_by_actor_id = ''op'', rr_initiated_by_actor_type = ''HUMAN_OPERATOR'', rr_started_at = 0\<rparr>],
     db_hypotheses := [\<lparr>hyr_hypothesis_id = ''h'', hyr_research_run_id = ''run'', hyr_claim = ''echo'',
       hyr_created_at = 0, hyr_origin_reference = None, hyr_identity_id = None\<rparr>],
     db_experiments := map lab_experiment [''x1'', ''x2''], db_attempts := map lab_attempt [''x1'', ''x2''],
     db_worker_results := map lab_worker_result [''x1'', ''x2''],
     db_observations := map lab_observation [''x1'', ''x2''], db_evidence := map lab_evidence [''x1'', ''x2'']\<rparr>"

text \<open>Identities are their call sites in brackets, the clock stands still, and the digest is constant.\<close>

definition lab_id :: "string \<Rightarrow> string" where
  "lab_id k = ''<'' @ k @ ''>''"

definition lab_clock :: "string \<Rightarrow> int" where
  "lab_clock _ = 0"

definition lab_sha :: "string \<Rightarrow> string" where
  "lab_sha _ = ''digest''"

text \<open>The rows the use cases add.\<close>

definition lab_candidate :: "candidate_state \<Rightarrow> candidate_record" where
  "lab_candidate s = \<lparr>cr_candidate_id = ''<candidate>'', cr_research_run_id = ''run'', cr_hypothesis_id = ''h'',
     cr_claim = DIAGNOSTIC_CANDIDATE_CLAIM, cr_classification = ''DIAGNOSTIC_PLUMBING'',
     cr_state = candidate_state_value s, cr_evidence_ids = [''e-x1''], cr_created_at = 0,
     cr_admission_record_id = ''<admission record>''\<rparr>"

definition lab_admission :: candidate_admission_record where
  "lab_admission = \<lparr>car_admission_record_id = ''<admission record>'', car_proposal_id = ''<diagnostic proposal>'',
     car_research_run_id = ''run'', car_outcome = ''ADMITTED'',
     car_reason_codes = [''DIAGNOSTIC_CANDIDATE_SEEDED_FROM_EVIDENCE''], car_evidence_ids = [''e-x1''],
     car_admission_policy_version = ''candidate.admission.v1'', car_created_at = 0,
     car_admitted_candidate_id = Some ''<candidate>'', car_claim = Some DIAGNOSTIC_CANDIDATE_CLAIM,
     car_classification = Some ''DIAGNOSTIC_PLUMBING''\<rparr>"

definition lab_verification :: verification_record where
  "lab_verification = \<lparr>vrec_verification_id = ''<verification>'', vrec_candidate_id = ''<candidate>'',
     vrec_research_run_id = ''run'', vrec_strategy = ''diagnostic.echo.reproduction.v1'',
     vrec_outcome = ''VALIDATED'', vrec_proposed_candidate_state = ''VALIDATED'',
     vrec_original_evidence_ids = [''e-x1''], vrec_reproduction_evidence_ids = [''e-x2''],
     vrec_negative_control_evidence_ids = [],
     vrec_alternative_explanation_checks =
       [(''negative_control_token'', JStr ''__diagnostic_control_fail__''),
        (''reproduction_observed_echo'', JStr ''ping''), (''negative_control_held'', JBool True),
        (''not_a_vulnerability'', JBool True), (''not_a_finding'', JBool True)],
     vrec_verifier_kind = ''DETERMINISTIC'', vrec_verifier_identity = ''diagnostic.echo.verifier.v1'',
     vrec_created_at = 0\<rparr>"

definition lab_proposal :: "finding_proposal_state \<Rightarrow> finding_proposal_record" where
  "lab_proposal s = \<lparr>fpr_proposal_id = ''<diagnostic finding>'', fpr_candidate_id = ''<candidate>'',
     fpr_research_run_id = ''run'', fpr_title = DIAGNOSTIC_FINDING_PROPOSAL_TITLE,
     fpr_claim = DIAGNOSTIC_CANDIDATE_CLAIM, fpr_classification = ''DIAGNOSTIC_PLUMBING'',
     fpr_state = finding_proposal_state_value s, fpr_evidence_ids = [''e-x1''],
     fpr_verification_ids = [''<verification>''], fpr_content_fingerprint = ''digest'', fpr_created_at = 0,
     fpr_impact_chain_ids = []\<rparr>"

definition lab_review :: "human_review_decision \<Rightarrow> human_review_record" where
  "lab_review decision = \<lparr>hrr_review_id = ''<review>'', hrr_proposal_id = ''<diagnostic finding>'',
     hrr_content_fingerprint = ''digest'', hrr_decision = human_review_decision_value decision,
     hrr_reviewer_id = ''reviewer'', hrr_actor_type = ''HUMAN_OPERATOR'', hrr_reason_codes = [''SEEN''],
     hrr_created_at = 0, hrr_note = None\<rparr>"

definition lab_event :: "string \<Rightarrow> string \<Rightarrow> string \<Rightarrow> string \<Rightarrow> payload \<Rightarrow> audit_event_record" where
  "lab_event i who kind event p = \<lparr>aer_audit_event_id = i, aer_occurred_at = 0, aer_actor_id = who,
     aer_actor_type = kind, aer_event_type = event, aer_subject_type = ''finding_proposal'',
     aer_subject_id = ''<diagnostic finding>'', aer_payload = p, aer_correlation_id = None\<rparr>"

section \<open>The databases of the run\<close>

definition lab_db1 :: "candidate_state \<Rightarrow> db" where
  "lab_db1 s = lab_db\<lparr>db_candidates := [lab_candidate s], db_candidate_evidence := [(''<candidate>'', ''e-x1'')],
     db_candidate_admissions := [lab_admission]\<rparr>"

definition lab_db2 :: db where
  "lab_db2 = (lab_db1 CS_VALIDATED)\<lparr>db_verifications := [lab_verification]\<rparr>"

definition lab_db3 :: "finding_proposal_state \<Rightarrow> db" where
  "lab_db3 s = lab_db2\<lparr>db_proposals := [lab_proposal s],
     db_audit_events := [lab_event ''<proposal event>'' ''actor'' ''CONTROL_PLANE'' ''FINDING_PROPOSAL_CREATED''
       [(''candidate_id'', JStr ''<candidate>''), (''not_a_vulnerability'', JBool True)]]\<rparr>"

definition lab_db4 :: "human_review_decision \<Rightarrow> db" where
  "lab_db4 decision = (lab_db3 FPS_HUMAN_REVIEW)\<lparr>db_reviews := [lab_review decision],
     db_audit_events := db_audit_events (lab_db3 FPS_HUMAN_REVIEW) @
       [lab_event ''<review event>'' ''reviewer'' ''HUMAN_OPERATOR'' ''HUMAN_REVIEW_RECORDED''
         [(''review_id'', JStr ''<review>''), (''decision'', JStr (human_review_decision_value decision))]]\<rparr>"

section \<open>The steps of the run\<close>

definition lands :: "app_error + 'a \<times> db \<Rightarrow> db \<Rightarrow> bool" where
  "lands m d = (case m of Inl _ \<Rightarrow> False | Inr (_, d') \<Rightarrow> d' = d)"

lemma lands_Inr: "lands m d \<Longrightarrow> \<exists>r. m = Inr (r, d)"
  by (auto simp: lands_def split: sum.splits prod.splits)

definition lab_propose :: "app_error + propose_candidate_result \<times> db" where
  "lab_propose = propose_candidate \<lparr>pcc_evidence_id = ''e-x1'', pcc_proposal = None,
     pcc_authoritative_out_of_scope = False, pcc_known_duplicate_candidate_id = None\<rparr> lab_id lab_clock lab_db"

definition lab_start :: "app_error + start_verification_result \<times> db" where
  "lab_start = start_verification ''<candidate>'' lab_id lab_clock (lab_db1 CS_OPEN)"

definition lab_complete :: "app_error + complete_verification_result \<times> db" where
  "lab_complete = complete_verification \<lparr>cvc_candidate_id = ''<candidate>'',
     cvc_reproduction_experiment_id = Some ''x2'', cvc_negative_control_experiment_id = None,
     cvc_authoritative_out_of_scope = False, cvc_duplicate_of_candidate_id = None\<rparr> lab_id lab_clock (lab_db1 CS_VERIFYING)"

definition lab_submit :: "app_error + submit_finding_proposal_result \<times> db" where
  "lab_submit = submit_finding_proposal lab_sha ''actor'' \<lparr>sfc_candidate_id = ''<candidate>'', sfc_draft = None\<rparr>
     lab_id lab_clock lab_db2"

definition lab_start_review :: "app_error + (string \<times> finding_proposal_state) \<times> db" where
  "lab_start_review = start_human_review ''<diagnostic finding>'' lab_id lab_clock (lab_db3 FPS_PROPOSED)"

definition lab_record_review :: "human_review_decision \<Rightarrow> app_error + record_human_review_result \<times> db" where
  "lab_record_review decision = record_human_review \<lparr>rhc_proposal_id = ''<diagnostic finding>'',
     rhc_reviewer_id = ''reviewer'', rhc_actor_type = HUMAN_OPERATOR, rhc_decision = decision,
     rhc_reason_codes = [''SEEN''], rhc_note = None\<rparr> lab_id lab_clock (lab_db3 FPS_HUMAN_REVIEW)"

definition lab_command :: "actor_type \<Rightarrow> finalize_finding_command" where
  "lab_command kind = \<lparr>ffc_proposal_id = ''<diagnostic finding>'', ffc_decided_by = ''operator'', ffc_actor_type = kind\<rparr>"

definition lab_finalize :: "human_review_decision \<Rightarrow> app_error + finalize_finding_result \<times> db" where
  "lab_finalize decision = finalize_finding (lab_command HUMAN_OPERATOR) lab_id lab_clock (lab_db4 decision)"

definition creates_a_finding :: "app_error + finalize_finding_result \<times> db \<Rightarrow> bool" where
  "creates_a_finding m = (case m of Inl _ \<Rightarrow> False | Inr (_, d) \<Rightarrow> map fr_finding_id (db_findings d) = [''<finding>''])"

lemma lab_propose: "lands lab_propose (lab_db1 CS_OPEN)" by code_simp
lemma lab_start: "lands lab_start (lab_db1 CS_VERIFYING)" by code_simp
lemma lab_complete: "lands lab_complete lab_db2" by code_simp
lemma lab_submit: "lands lab_submit (lab_db3 FPS_PROPOSED)" by code_simp
lemma lab_start_review: "lands lab_start_review (lab_db3 FPS_HUMAN_REVIEW)" by code_simp
lemma lab_record_review: "lands (lab_record_review HR_APPROVE) (lab_db4 HR_APPROVE)" by code_simp
lemma lab_finalize: "creates_a_finding (lab_finalize HR_APPROVE)" by code_simp

end
