(* ===== verification/Discovery.thy ===== *)
theory Discovery
  imports Use_Case_Effects Lab_Run "HOL-Library.Sublist"
begin

text \<open>
  The discovery pipeline as a transition system: the use cases of \<open>App_Candidate\<close> and
  \<open>App_Finding\<close> interleaved in any order, with any arguments, and with the rest of the program, which
  does not write the tables of the pipeline and only adds evidence.  The invariants are what a Finding
  rests on.
\<close>

section \<open>Steps\<close>

text \<open>
  \<open>str(uuid4())\<close> has no space to strip, and a draft that reaches a use case has passed its own
  \<open>__post_init__\<close>.
\<close>

definition uuids :: "(string \<Rightarrow> string) \<Rightarrow> bool" where
  "uuids new_id \<longleftrightarrow> (\<forall>k. norm_text (new_id k))"

definition environment :: "db \<Rightarrow> db \<Rightarrow> bool" where
  "environment d d' \<longleftrightarrow>
     db_candidates d' = db_candidates d \<and> db_candidate_evidence d' = db_candidate_evidence d \<and>
     db_candidate_admissions d' = db_candidate_admissions d \<and>
     db_verifications d' = db_verifications d \<and> db_proposals d' = db_proposals d \<and>
     db_reviews d' = db_reviews d \<and> db_approvals d' = db_approvals d \<and> db_findings d' = db_findings d \<and>
     set (db_evidence d) \<subseteq> set (db_evidence d') \<and> set (db_research_runs d) \<subseteq> set (db_research_runs d')"

inductive pipeline_step :: "(string \<Rightarrow> string) \<Rightarrow> db \<Rightarrow> db \<Rightarrow> bool" for sha where
  propose: "propose_candidate c new_id clock d = Inr (r, d') \<Longrightarrow> uuids new_id \<Longrightarrow> pipeline_step sha d d'"
| start: "start_verification i new_id clock d = Inr (r, d') \<Longrightarrow> uuids new_id \<Longrightarrow> pipeline_step sha d d'"
| complete: "complete_verification cv new_id clock d = Inr (r, d') \<Longrightarrow> uuids new_id \<Longrightarrow> pipeline_step sha d d'"
| submit: "submit_finding_proposal sha who s new_id clock d = Inr (r, d') \<Longrightarrow> uuids new_id \<Longrightarrow> pipeline_step sha d d'"
| start_review: "start_human_review i new_id clock d = Inr (r, d') \<Longrightarrow> uuids new_id \<Longrightarrow> pipeline_step sha d d'"
| review: "record_human_review h new_id clock d = Inr (r, d') \<Longrightarrow> uuids new_id \<Longrightarrow> pipeline_step sha d d'"
| finalize: "finalize_finding f new_id clock d = Inr (r, d') \<Longrightarrow> uuids new_id \<Longrightarrow> pipeline_step sha d d'"
| elsewhere: "environment d d' \<Longrightarrow> pipeline_step sha d d'"

inductive reachable :: "(string \<Rightarrow> string) \<Rightarrow> db \<Rightarrow> bool" for sha where
  initial: "reachable sha empty_db"
| step: "reachable sha d \<Longrightarrow> pipeline_step sha d d' \<Longrightarrow> reachable sha d'"

section \<open>Changing the state of one row\<close>

lemma candidate_state_ids [simp]:
  "map cr_candidate_id (with_candidate_state i s rows) = map cr_candidate_id rows"
  by (simp add: with_candidate_state_def)

lemma proposal_state_ids [simp]:
  "map fpr_proposal_id (with_proposal_state i s rows) = map fpr_proposal_id rows"
  by (simp add: with_proposal_state_def)

lemma ids_of_map_eq: "map f xs = map f ys \<Longrightarrow> f ` set xs = f ` set ys"
  by (metis list.set_map)

lemmas candidate_state_id_set [simp] = ids_of_map_eq [OF candidate_state_ids]
lemmas proposal_state_id_set [simp] = ids_of_map_eq [OF proposal_state_ids]

lemma distinct_same_row: "distinct (map f rows) \<Longrightarrow> x \<in> set rows \<Longrightarrow> y \<in> set rows \<Longrightarrow> f x = f y \<Longrightarrow> x = y"
  by (auto simp: distinct_map dest: inj_onD)

text \<open>A row that is not the changed one is kept.\<close>

lemma candidate_kept:
  "c \<in> set rows \<Longrightarrow> cr_candidate_id c \<noteq> i \<Longrightarrow> c \<in> set (with_candidate_state i s rows)"
  by (force simp: with_candidate_state_def)

lemma proposal_kept:
  "p \<in> set rows \<Longrightarrow> fpr_proposal_id p \<noteq> i \<Longrightarrow> p \<in> set (with_proposal_state i s rows)"
  by (force simp: with_proposal_state_def)

lemma candidate_changed:
  assumes "c' \<in> set (with_candidate_state i s rows)"
  obtains "c' \<in> set rows" "cr_candidate_id c' \<noteq> i"
    | c where "c \<in> set rows" "cr_candidate_id c = i" "c' = c\<lparr>cr_state := candidate_state_value s\<rparr>"
  using assms by (auto simp: with_candidate_state_def split: if_splits)

lemma proposal_changed:
  assumes "p' \<in> set (with_proposal_state i s rows)"
  obtains "p' \<in> set rows" "fpr_proposal_id p' \<noteq> i"
    | p where "p \<in> set rows" "fpr_proposal_id p = i" "p' = p\<lparr>fpr_state := finding_proposal_state_value s\<rparr>"
  using assms by (auto simp: with_proposal_state_def split: if_splits)

lemma proposal_state_row:
  "p \<in> set rows \<Longrightarrow> fpr_proposal_id p = i \<Longrightarrow>
     p\<lparr>fpr_state := finding_proposal_state_value s\<rparr> \<in> set (with_proposal_state i s rows)"
  by (force simp: with_proposal_state_def)

section \<open>The invariant\<close>

definition reproduced :: "evidence_record list \<Rightarrow> verification_record list \<Rightarrow> candidate_record \<Rightarrow> bool" where
  "reproduced evidence verifications c \<longleftrightarrow>
     (\<exists>v \<in> set verifications. vrec_candidate_id v = cr_candidate_id c \<and> vrec_outcome v = ''VALIDATED'' \<and>
        validated_support evidence c v)"

definition candidates_ok ::
    "candidate_record list \<Rightarrow> verification_record list \<Rightarrow> evidence_record list \<Rightarrow> bool" where
  "candidates_ok C V E \<longleftrightarrow>
     distinct (map cr_candidate_id C) \<and>
     (\<forall>c \<in> set C. norm_text (cr_candidate_id c) \<and> post_init_candidate_record c = Inr c \<and>
        (cr_state c = ''VALIDATED'' \<longrightarrow> reproduced E V c))"

definition rests_on_validated :: "candidate_record list \<Rightarrow> finding_proposal_record \<Rightarrow> bool" where
  "rests_on_validated C p \<longleftrightarrow>
     (\<exists>c \<in> set C. cr_candidate_id c = fpr_candidate_id p \<and> cr_state c = ''VALIDATED'' \<and>
        cr_classification c = fpr_classification p)"

definition fingerprinted :: "(string \<Rightarrow> string) \<Rightarrow> finding_proposal_record \<Rightarrow> bool" where
  "fingerprinted sha p \<longleftrightarrow>
     fpr_content_fingerprint p = finding_proposal_content_fingerprint sha (fpr_candidate_id p) (fpr_title p)
       (fpr_claim p) (fpr_evidence_ids p) (fpr_verification_ids p)"

definition proposals_ok :: "(string \<Rightarrow> string) \<Rightarrow> finding_proposal_record list \<Rightarrow> candidate_record list \<Rightarrow> bool" where
  "proposals_ok sha P C \<longleftrightarrow>
     distinct (map fpr_proposal_id P) \<and>
     (\<forall>p \<in> set P. fingerprinted sha p \<and> rests_on_validated C p \<and> post_init_finding_proposal_record p = Inr p)"

definition reviews_ok :: "human_review_record list \<Rightarrow> finding_proposal_record list \<Rightarrow> bool" where
  "reviews_ok R P \<longleftrightarrow>
     distinct (map hrr_proposal_id R) \<and>
     (\<forall>r \<in> set R. norm_text (hrr_review_id r) \<and> hrr_actor_type r = ''HUMAN_OPERATOR'' \<and>
        post_init_human_review_record r = Inr r \<and> (\<exists>v. review_view_of r = Inr v) \<and>
        (\<exists>p \<in> set P. fpr_proposal_id p = hrr_proposal_id r \<and> fpr_content_fingerprint p = hrr_content_fingerprint r \<and>
           fpr_state p \<noteq> ''PROPOSED''))"

definition approved_by ::
    "finding_proposal_record \<Rightarrow> human_review_record \<Rightarrow> human_review_decision \<Rightarrow> approval_record \<Rightarrow> bool" where
  "approved_by p r decision a \<longleftrightarrow>
     records_approval p r decision a \<and> hrr_proposal_id r = fpr_proposal_id p \<and>
     hrr_decision r = human_review_decision_value decision \<and>
     fpr_state p = finding_proposal_state_value (decided_state decision)"

definition approvals_ok ::
    "approval_record list \<Rightarrow> finding_proposal_record list \<Rightarrow> human_review_record list \<Rightarrow> bool" where
  "approvals_ok A P R \<longleftrightarrow>
     distinct (map apr_subject_reference A) \<and>
     (\<forall>a \<in> set A. \<exists>p \<in> set P. \<exists>r \<in> set R. \<exists>decision. approved_by p r decision a)"

definition findings_ok ::
    "finding_record list \<Rightarrow> approval_record list \<Rightarrow> finding_proposal_record list \<Rightarrow> human_review_record list \<Rightarrow> bool" where
  "findings_ok F A P R \<longleftrightarrow>
     distinct (map fr_finding_proposal_id F) \<and>
     (\<forall>f \<in> set F. \<exists>p \<in> set P. \<exists>r \<in> set R. \<exists>a \<in> set A. approved_by p r HR_APPROVE a \<and> records_finding p a f)"

definition decisions_ok ::
    "finding_record list \<Rightarrow> approval_record list \<Rightarrow> finding_proposal_record list \<Rightarrow> human_review_record list \<Rightarrow> bool" where
  "decisions_ok F A P R \<longleftrightarrow>
     (\<forall>p \<in> set P. (fpr_state p = ''APPROVED'' \<longrightarrow> fpr_proposal_id p \<in> fr_finding_proposal_id ` set F) \<and>
        (fpr_state p = ''REJECTED'' \<longrightarrow> (\<exists>r \<in> set R. \<exists>a \<in> set A. approved_by p r HR_REJECT a)))"

definition runs_ok :: "finding_proposal_record list \<Rightarrow> research_run_record list \<Rightarrow> bool" where
  "runs_ok P runs \<longleftrightarrow> (\<forall>p \<in> set P. fpr_research_run_id p \<in> rr_research_run_id ` set runs)"

definition ledger_ok :: "(string \<Rightarrow> string) \<Rightarrow> db \<Rightarrow> bool" where
  "ledger_ok sha d \<longleftrightarrow>
     candidates_ok (db_candidates d) (db_verifications d) (db_evidence d) \<and>
     proposals_ok sha (db_proposals d) (db_candidates d) \<and>
     reviews_ok (db_reviews d) (db_proposals d) \<and>
     approvals_ok (db_approvals d) (db_proposals d) (db_reviews d) \<and>
     findings_ok (db_findings d) (db_approvals d) (db_proposals d) (db_reviews d) \<and>
     decisions_ok (db_findings d) (db_approvals d) (db_proposals d) (db_reviews d) \<and>
     runs_ok (db_proposals d) (db_research_runs d)"

section \<open>Preservation, table by table\<close>

lemma reproduced_mono: "reproduced E V c \<Longrightarrow> set V \<subseteq> set V' \<Longrightarrow> set E \<subseteq> set E' \<Longrightarrow> reproduced E' V' c"
  unfolding reproduced_def validated_support_def by blast

lemma reproduced_state [simp]: "reproduced E V (c\<lparr>cr_state := s\<rparr>) = reproduced E V c"
  by (simp add: reproduced_def validated_support_def)

lemma candidates_ok_mono:
  "candidates_ok C V E \<Longrightarrow> set V \<subseteq> set V' \<Longrightarrow> set E \<subseteq> set E' \<Longrightarrow> candidates_ok C V' E'"
  unfolding candidates_ok_def by (blast intro: reproduced_mono)

lemma candidates_ok_add:
  "candidates_ok C V E \<Longrightarrow> cr_candidate_id c \<notin> cr_candidate_id ` set C \<Longrightarrow> norm_text (cr_candidate_id c) \<Longrightarrow>
   cr_state c = ''OPEN'' \<Longrightarrow> post_init_candidate_record c = Inr c \<Longrightarrow> candidates_ok (C @ [c]) V E"
  by (auto simp: candidates_ok_def)

lemma post_init_candidate_state:
  "post_init_candidate_record c = Inr c \<Longrightarrow>
   post_init_candidate_record (c\<lparr>cr_state := candidate_state_value s\<rparr>) = Inr (c\<lparr>cr_state := candidate_state_value s\<rparr>)"
  by (cases s) (auto simp: post_init_candidate_record_def raise_first_Inr_iff ALLOWED_CANDIDATE_STATES_def)

lemma candidates_ok_state:
  assumes ok: "candidates_ok C V E" and c: "c \<in> set C" "cr_candidate_id c = i"
    and s: "s = CS_VALIDATED \<Longrightarrow> reproduced E V c"
  shows "candidates_ok (with_candidate_state i s C) V E"
proof -
  have "norm_text (cr_candidate_id x) \<and> post_init_candidate_record x = Inr x \<and> (cr_state x = ''VALIDATED'' \<longrightarrow> reproduced E V x)"
    if "x \<in> set (with_candidate_state i s C)" for x
    using that
  proof (cases rule: candidate_changed)
    case 1
    then show ?thesis using ok by (auto simp: candidates_ok_def)
  next
    case (2 y)
    then have "y = c" using ok c by (auto simp: candidates_ok_def dest: distinct_same_row)
    then show ?thesis using 2 ok s post_init_candidate_state [of c s] by (cases s) (auto simp: candidates_ok_def)
  qed
  then show ?thesis using ok by (simp add: candidates_ok_def)
qed

definition validated_rows :: "candidate_record list \<Rightarrow> candidate_record set" where
  "validated_rows C = {c \<in> set C. cr_state c = ''VALIDATED''}"

lemma validated_rows_state:
  assumes "distinct (map cr_candidate_id C)" "c \<in> set C" "cr_candidate_id c = i" "cr_state c \<noteq> ''VALIDATED''"
  shows "validated_rows C \<subseteq> validated_rows (with_candidate_state i s C)"
proof
  fix x assume x: "x \<in> validated_rows C"
  then have "cr_candidate_id x \<noteq> i" using assms distinct_same_row [OF assms(1), of x c] by (auto simp: validated_rows_def)
  then show "x \<in> validated_rows (with_candidate_state i s C)" using x candidate_kept by (simp add: validated_rows_def)
qed

lemma rests_on_validated_mono: "rests_on_validated C p \<Longrightarrow> validated_rows C \<subseteq> validated_rows C' \<Longrightarrow> rests_on_validated C' p"
  unfolding rests_on_validated_def validated_rows_def by blast

lemma proposals_ok_mono: "proposals_ok sha P C \<Longrightarrow> validated_rows C \<subseteq> validated_rows C' \<Longrightarrow> proposals_ok sha P C'"
  unfolding proposals_ok_def by (blast intro: rests_on_validated_mono)

lemma proposals_ok_add:
  "proposals_ok sha P C \<Longrightarrow> fpr_proposal_id p \<notin> fpr_proposal_id ` set P \<Longrightarrow> fingerprinted sha p \<Longrightarrow>
   rests_on_validated C p \<Longrightarrow> post_init_finding_proposal_record p = Inr p \<Longrightarrow> proposals_ok sha (P @ [p]) C"
  by (auto simp: proposals_ok_def)

lemma post_init_proposal_state:
  "post_init_finding_proposal_record p = Inr p \<Longrightarrow>
   post_init_finding_proposal_record (p\<lparr>fpr_state := finding_proposal_state_value s\<rparr>) =
     Inr (p\<lparr>fpr_state := finding_proposal_state_value s\<rparr>)"
  by (cases s) (auto simp: post_init_finding_proposal_record_def raise_first_Inr_iff bad_member_def
      ALLOWED_FINDING_PROPOSAL_STATES_def)

lemma proposals_ok_state: "proposals_ok sha P C \<Longrightarrow> proposals_ok sha (with_proposal_state i s P) C"
  unfolding proposals_ok_def
  by (auto elim!: proposal_changed simp: fingerprinted_def rests_on_validated_def intro: post_init_proposal_state)

lemma reviews_ok_mono: "reviews_ok R P \<Longrightarrow> set P \<subseteq> set P' \<Longrightarrow> reviews_ok R P'"
  unfolding reviews_ok_def by blast

lemma reviews_ok_add:
  "reviews_ok R P \<Longrightarrow> hrr_proposal_id r \<notin> hrr_proposal_id ` set R \<Longrightarrow> norm_text (hrr_review_id r) \<Longrightarrow>
   hrr_actor_type r = ''HUMAN_OPERATOR'' \<Longrightarrow> post_init_human_review_record r = Inr r \<Longrightarrow>
   \<exists>v. review_view_of r = Inr v \<Longrightarrow> p \<in> set P \<Longrightarrow>
   fpr_proposal_id p = hrr_proposal_id r \<Longrightarrow> fpr_content_fingerprint p = hrr_content_fingerprint r \<Longrightarrow>
   fpr_state p \<noteq> ''PROPOSED'' \<Longrightarrow> reviews_ok (R @ [r]) P"
  by (auto simp: reviews_ok_def)

lemma reviews_ok_state:
  assumes ok: "reviews_ok R P" and s: "s \<noteq> FPS_PROPOSED"
  shows "reviews_ok R (with_proposal_state i s P)"
proof -
  have "\<exists>q \<in> set (with_proposal_state i s P). fpr_proposal_id q = fpr_proposal_id p \<and>
      fpr_content_fingerprint q = fpr_content_fingerprint p \<and> fpr_state q \<noteq> ''PROPOSED''"
    if "p \<in> set P" "fpr_state p \<noteq> ''PROPOSED''" for p
  proof (cases "fpr_proposal_id p = i")
    case True
    then show ?thesis using proposal_state_row [OF that(1) True, of s] s
      by (intro bexI [of _ "p\<lparr>fpr_state := finding_proposal_state_value s\<rparr>"]) (cases s, simp_all)
  next
    case False
    then show ?thesis using that proposal_kept by blast
  qed
  then show ?thesis using ok unfolding reviews_ok_def by metis
qed

text \<open>A decision never changes: the rows in a final state are kept.\<close>

definition decided_rows :: "finding_proposal_record list \<Rightarrow> finding_proposal_record set" where
  "decided_rows P = {p \<in> set P. fpr_state p \<in> {''APPROVED'', ''REJECTED''}}"

lemma decided_rows_state:
  assumes "distinct (map fpr_proposal_id P)" "p \<in> set P" "fpr_proposal_id p = i" "fpr_state p \<notin> {''APPROVED'', ''REJECTED''}"
  shows "decided_rows P \<subseteq> decided_rows (with_proposal_state i s P)"
proof
  fix x assume x: "x \<in> decided_rows P"
  then have "fpr_proposal_id x \<noteq> i" using assms distinct_same_row [OF assms(1), of x p] by (auto simp: decided_rows_def)
  then show "x \<in> decided_rows (with_proposal_state i s P)" using x proposal_kept by (simp add: decided_rows_def)
qed

lemma approved_by_decided: "approved_by p r decision a \<Longrightarrow> p \<in> set P \<Longrightarrow> p \<in> decided_rows P"
  by (cases decision) (auto simp: approved_by_def decided_rows_def decided_state_def)

lemma approvals_ok_mono:
  "approvals_ok A P R \<Longrightarrow> decided_rows P \<subseteq> decided_rows P' \<Longrightarrow> set R \<subseteq> set R' \<Longrightarrow> approvals_ok A P' R'"
  unfolding approvals_ok_def using approved_by_decided by (fastforce simp: decided_rows_def)

lemma findings_ok_mono:
  "findings_ok F A P R \<Longrightarrow> set A \<subseteq> set A' \<Longrightarrow> decided_rows P \<subseteq> decided_rows P' \<Longrightarrow> set R \<subseteq> set R' \<Longrightarrow>
   findings_ok F A' P' R'"
  unfolding findings_ok_def using approved_by_decided by (fastforce simp: decided_rows_def)

lemma decisions_ok_mono:
  "decisions_ok F A P R \<Longrightarrow> set F \<subseteq> set F' \<Longrightarrow> set A \<subseteq> set A' \<Longrightarrow> set R \<subseteq> set R' \<Longrightarrow> decisions_ok F' A' P R'"
  unfolding decisions_ok_def by blast

lemma decisions_ok_add: "decisions_ok F A P R \<Longrightarrow> fpr_state p = ''PROPOSED'' \<Longrightarrow> decisions_ok F A (P @ [p]) R"
  by (auto simp: decisions_ok_def)

lemma decisions_ok_state:
  "decisions_ok F A P R \<Longrightarrow> s \<notin> {FPS_APPROVED, FPS_REJECTED} \<Longrightarrow> decisions_ok F A (with_proposal_state i s P) R"
  unfolding decisions_ok_def by (cases s) (auto elim!: proposal_changed)

lemma runs_ok_state: "runs_ok P runs \<Longrightarrow> runs_ok (with_proposal_state i s P) runs"
  unfolding runs_ok_def by (auto elim!: proposal_changed)

lemma runs_ok_mono: "runs_ok P runs \<Longrightarrow> set runs \<subseteq> set runs' \<Longrightarrow> runs_ok P runs'"
  unfolding runs_ok_def by blast

section \<open>Preservation, step by step\<close>

lemma ledger_okI:
  assumes "candidates_ok (db_candidates d) (db_verifications d) (db_evidence d)"
    "proposals_ok sha (db_proposals d) (db_candidates d)" "reviews_ok (db_reviews d) (db_proposals d)"
    "approvals_ok (db_approvals d) (db_proposals d) (db_reviews d)"
    "findings_ok (db_findings d) (db_approvals d) (db_proposals d) (db_reviews d)"
    "decisions_ok (db_findings d) (db_approvals d) (db_proposals d) (db_reviews d)"
    "runs_ok (db_proposals d) (db_research_runs d)"
  shows "ledger_ok sha d"
  using assms by (simp add: ledger_ok_def)

lemma ledger_okD:
  assumes "ledger_ok sha d"
  shows "candidates_ok (db_candidates d) (db_verifications d) (db_evidence d)"
    "proposals_ok sha (db_proposals d) (db_candidates d)" "reviews_ok (db_reviews d) (db_proposals d)"
    "approvals_ok (db_approvals d) (db_proposals d) (db_reviews d)"
    "findings_ok (db_findings d) (db_approvals d) (db_proposals d) (db_reviews d)"
    "decisions_ok (db_findings d) (db_approvals d) (db_proposals d) (db_reviews d)"
    "runs_ok (db_proposals d) (db_research_runs d)"
  using assms by (simp_all add: ledger_ok_def)

lemma propose_candidate_ok:
  assumes ok: "ledger_ok sha d" and run: "propose_candidate c new_id clock d = Inr (res, d')" and ids: "uuids new_id"
  shows "ledger_ok sha d'"
  using propose_candidate_effect [OF run]
proof (elim disjE exE conjE)
  fix adms assume "d' = d\<lparr>db_candidate_admissions := adms\<rparr>"
  then show ?thesis using ok by (simp add: ledger_ok_def)
next
  fix r links adms
  assume d': "d' = d\<lparr>db_candidates := db_candidates d @ [r], db_candidate_evidence := links, db_candidate_admissions := adms\<rparr>"
    and r: "cr_candidate_id r = new_id ''candidate''" "cr_state r = ''OPEN''" "post_init_candidate_record r = Inr r"
      "cr_candidate_id r \<notin> cr_candidate_id ` set (db_candidates d)"
  have "candidates_ok (db_candidates d @ [r]) (db_verifications d) (db_evidence d)"
    using ledger_okD(1) [OF ok] r ids by (intro candidates_ok_add) (simp_all add: uuids_def)
  moreover have "proposals_ok sha (db_proposals d) (db_candidates d @ [r])"
    using ledger_okD(2) [OF ok] by (rule proposals_ok_mono) (auto simp: validated_rows_def)
  ultimately show ?thesis using ledger_okD(3-7) [OF ok] d' by (intro ledger_okI) simp_all
qed

lemma start_verification_ok:
  assumes ok: "ledger_ok sha d" and run: "start_verification i new_id clock d = Inr (res, d')"
  shows "ledger_ok sha d'"
proof -
  obtain c where c: "c \<in> set (db_candidates d)" "cr_candidate_id c = i" "cr_state c = ''OPEN''"
      and d': "d' = d\<lparr>db_candidates := with_candidate_state i CS_VERIFYING (db_candidates d)\<rparr>"
    using start_verification_effect [OF run] by blast
  note C = ledger_okD(1) [OF ok]
  have "validated_rows (db_candidates d) \<subseteq> validated_rows (with_candidate_state i CS_VERIFYING (db_candidates d))"
    using C c by (intro validated_rows_state) (auto simp: candidates_ok_def)
  then show ?thesis
    using d' candidates_ok_state [OF C c(1,2), of CS_VERIFYING] ledger_okD(3-7) [OF ok]
      proposals_ok_mono [OF ledger_okD(2) [OF ok]] by (intro ledger_okI) simp_all
qed

lemma complete_verification_ok:
  assumes ok: "ledger_ok sha d" and run: "complete_verification cv new_id clock d = Inr (res, d')"
  shows "ledger_ok sha d'"
proof -
  obtain c v s where c: "c \<in> set (db_candidates d)" "cr_state c \<in> {''OPEN'', ''VERIFYING''}"
      and d': "d' = d\<lparr>db_verifications := db_verifications d @ [v],
           db_candidates := with_candidate_state (cr_candidate_id c) s (db_candidates d)\<rparr>"
      and v: "vrec_candidate_id v = cr_candidate_id c" "vrec_outcome v = candidate_state_value s"
        "s = CS_VALIDATED \<longrightarrow> validated_support (db_evidence d) c v"
    using complete_verification_effect [OF run] by blast
  let ?C' = "with_candidate_state (cr_candidate_id c) s (db_candidates d)"
  have C: "candidates_ok (db_candidates d) (db_verifications d @ [v]) (db_evidence d)"
    using ledger_okD(1) [OF ok] by (rule candidates_ok_mono) auto
  then have "validated_rows (db_candidates d) \<subseteq> validated_rows ?C'"
    using c by (intro validated_rows_state) (auto simp: candidates_ok_def)
  moreover have "candidates_ok ?C' (db_verifications d @ [v]) (db_evidence d)"
    using v by (intro candidates_ok_state [OF C c(1) refl]) (auto simp: reproduced_def)
  ultimately show ?thesis
    using d' ledger_okD(3-7) [OF ok] proposals_ok_mono [OF ledger_okD(2) [OF ok]] by (intro ledger_okI) simp_all
qed

lemma submit_finding_proposal_ok:
  assumes ok: "ledger_ok sha d" and run: "submit_finding_proposal sha who sc new_id clock d = Inr (res, d')"
  shows "ledger_ok sha d'"
  using run
proof (cases rule: submit_finding_proposal_effect)
  case (not_stored evs)
  then show ?thesis using ok by (simp add: ledger_ok_def)
next
  case (stored p evs c draft)
  have "fpr_candidate_id p = cr_candidate_id c"
    using ledger_okD(1) [OF ok] stored(3,7) by (auto simp: candidates_ok_def norm_text_def)
  then have rests: "rests_on_validated (db_candidates d) p"
    using stored by (auto simp: rests_on_validated_def)
  have rows: "decided_rows (db_proposals d) \<subseteq> decided_rows (db_proposals d @ [p])" by (auto simp: decided_rows_def)
  have "proposals_ok sha (db_proposals d @ [p]) (db_candidates d)"
    using ledger_okD(2) [OF ok] stored rests by (intro proposals_ok_add) (simp_all add: fingerprinted_def)
  moreover have "reviews_ok (db_reviews d) (db_proposals d @ [p])"
    using ledger_okD(3) [OF ok] by (rule reviews_ok_mono) auto
  moreover have "runs_ok (db_proposals d @ [p]) (db_research_runs d)"
    using ledger_okD(7) [OF ok] stored(13) by (auto simp: runs_ok_def has_run_def list_ex_iff rev_image_eqI)
  ultimately show ?thesis
    using stored(1,8) ledger_okD(1) [OF ok] approvals_ok_mono [OF ledger_okD(4) [OF ok] rows order_refl]
      findings_ok_mono [OF ledger_okD(5) [OF ok] order_refl rows order_refl] decisions_ok_add [OF ledger_okD(6) [OF ok]]
    by (intro ledger_okI) simp_all
qed

lemma start_human_review_ok:
  assumes ok: "ledger_ok sha d" and run: "start_human_review i new_id clock d = Inr (res, d')"
  shows "ledger_ok sha d'"
proof -
  obtain p where p: "p \<in> set (db_proposals d)" "fpr_proposal_id p = i" "fpr_state p = ''PROPOSED''"
      and d': "d' = d\<lparr>db_proposals := with_proposal_state i FPS_HUMAN_REVIEW (db_proposals d)\<rparr>"
    using start_human_review_effect [OF run] by blast
  have rows: "decided_rows (db_proposals d) \<subseteq> decided_rows (with_proposal_state i FPS_HUMAN_REVIEW (db_proposals d))"
    using ledger_okD(2) [OF ok] p by (intro decided_rows_state) (auto simp: proposals_ok_def)
  show ?thesis
    using d' ledger_okD(1) [OF ok] proposals_ok_state [OF ledger_okD(2) [OF ok]]
      reviews_ok_state [OF ledger_okD(3) [OF ok], of FPS_HUMAN_REVIEW]
      approvals_ok_mono [OF ledger_okD(4) [OF ok] rows order_refl]
      findings_ok_mono [OF ledger_okD(5) [OF ok] order_refl rows order_refl]
      decisions_ok_state [OF ledger_okD(6) [OF ok], of FPS_HUMAN_REVIEW] runs_ok_state [OF ledger_okD(7) [OF ok]]
    by (intro ledger_okI) simp_all
qed

lemma record_human_review_ok:
  assumes ok: "ledger_ok sha d" and run: "record_human_review hc new_id clock d = Inr (res, d')" and ids: "uuids new_id"
  shows "ledger_ok sha d'"
  using run
proof (cases rule: record_human_review_effect)
  case existing
  then show ?thesis using ok by simp
next
  case (stored p r evs)
  have rows: "set (db_reviews d) \<subseteq> set (db_reviews d @ [r])" by auto
  have "norm_text (hrr_review_id r)" using ids stored by (simp add: uuids_def)
  then have "reviews_ok (db_reviews d @ [r]) (db_proposals d)"
    using stored by (intro reviews_ok_add [OF ledger_okD(3) [OF ok], of r p]) simp_all
  then show ?thesis
    using stored(2) ledger_okD(1,2,7) [OF ok] approvals_ok_mono [OF ledger_okD(4) [OF ok] order_refl rows]
      findings_ok_mono [OF ledger_okD(5) [OF ok] order_refl order_refl rows]
      decisions_ok_mono [OF ledger_okD(6) [OF ok] order_refl order_refl rows]
    by (intro ledger_okI) simp_all
qed

text \<open>The decided row after the decision.\<close>

lemma decided_row:
  assumes "records_approval p r decision a" "hrr_proposal_id r = fpr_proposal_id p"
    "hrr_decision r = human_review_decision_value decision"
  shows "approved_by (p\<lparr>fpr_state := finding_proposal_state_value (decided_state decision)\<rparr>) r decision a"
  using assms by (simp add: approved_by_def records_approval_def)

lemma decide_proposal_ok:
  assumes ok: "ledger_ok sha d" and p: "p \<in> set (db_proposals d)" "finding_proposal_state_of (fpr_state p) = Some state"
    and run: "decide_proposal command p state new_id clock d = Inr (res, d')"
  shows "ledger_ok sha d'"
  using run
proof (cases rule: decide_proposal_effect)
  case (1 c r decision a evs fs)
  let ?P' = "with_proposal_state (fpr_proposal_id p) (decided_state decision) (db_proposals d)"
  let ?p' = "p\<lparr>fpr_state := finding_proposal_state_value (decided_state decision)\<rparr>"
  have waiting: "fpr_state p = ''HUMAN_REVIEW''" using p(2) 1(3) by (simp add: finding_proposal_state_of_Some)
  have distinct: "distinct (map fpr_proposal_id (db_proposals d))" using ledger_okD(2) [OF ok] by (simp add: proposals_ok_def)
  have rows: "decided_rows (db_proposals d) \<subseteq> decided_rows ?P'"
    by (rule decided_rows_state [OF distinct p(1) refl]) (simp add: waiting)
  have r: "r \<in> set (db_reviews d)" "hrr_proposal_id r = fpr_proposal_id p" using get_review_Some [OF 1(4)] by simp_all
  note approved = decided_row [OF 1(8) r(2) 1(7)]
  have p': "?p' \<in> set ?P'" using p(1) by (rule proposal_state_row) simp
  have sub: "set (db_approvals d) \<subseteq> set (db_approvals d @ [a])" "set (db_findings d) \<subseteq> set (db_findings d @ fs)" by auto
  have A: "approvals_ok (db_approvals d @ [a]) ?P' (db_reviews d)"
    using approvals_ok_mono [OF ledger_okD(4) [OF ok] rows order_refl] 1(10) approved p' r(1)
    unfolding approvals_ok_def by auto
  have F: "findings_ok (db_findings d @ fs) (db_approvals d @ [a]) ?P' (db_reviews d)"
  proof (cases fs)
    case Nil
    then show ?thesis using findings_ok_mono [OF ledger_okD(5) [OF ok] sub(1) rows order_refl] by simp
  next
    case (Cons f gs)
    with 1(12) have f: "fs = [f]" "decision = HR_APPROVE" "records_finding p a f"
      "fr_finding_proposal_id f \<notin> fr_finding_proposal_id ` set (db_findings d)" by simp_all
    have "records_finding ?p' a f" using f(3) by (simp add: records_finding_def)
    then have "\<exists>q \<in> set ?P'. \<exists>r \<in> set (db_reviews d). \<exists>b \<in> set (db_approvals d @ [a]).
        approved_by q r HR_APPROVE b \<and> records_finding q b f"
      using approved p' r(1) f(2) by (intro bexI [of _ ?p'] bexI [of _ r] bexI [of _ a]) simp_all
    then show ?thesis
      using findings_ok_mono [OF ledger_okD(5) [OF ok] sub(1) rows order_refl] f(1,4)
      unfolding findings_ok_def by auto
  qed
  have D: "decisions_ok (db_findings d @ fs) (db_approvals d @ [a]) ?P' (db_reviews d)"
    unfolding decisions_ok_def
  proof (rule ballI)
    fix q assume "q \<in> set ?P'"
    then show "(fpr_state q = ''APPROVED'' \<longrightarrow> fpr_proposal_id q \<in> fr_finding_proposal_id ` set (db_findings d @ fs)) \<and>
      (fpr_state q = ''REJECTED'' \<longrightarrow> (\<exists>r \<in> set (db_reviews d). \<exists>b \<in> set (db_approvals d @ [a]). approved_by q r HR_REJECT b))"
    proof (cases rule: proposal_changed)
      case 1
      then show ?thesis using ledger_okD(6) [OF ok] sub unfolding decisions_ok_def by blast
    next
      case (2 x)
      then have x: "q = ?p'" using distinct_same_row [OF distinct _ p(1), of x] by simp
      show ?thesis
      proof (cases decision)
        case HR_APPROVE
        with 1(12) show ?thesis by (cases fs) (auto simp: x decided_state_def records_finding_def)
      next
        case HR_REJECT
        then show ?thesis using approved r(1) x by (auto simp: decided_state_def)
      qed
    qed
  qed
  have "reviews_ok (db_reviews d) ?P'"
    by (rule reviews_ok_state [OF ledger_okD(3) [OF ok]]) (simp add: decided_state_def)
  then show ?thesis
    using 1(11) ledger_okD(1) [OF ok] proposals_ok_state [OF ledger_okD(2) [OF ok]] A F D
      runs_ok_state [OF ledger_okD(7) [OF ok]] by (intro ledger_okI) simp_all
qed

lemma finalize_finding_ok:
  assumes ok: "ledger_ok sha d" and run: "finalize_finding f new_id clock d = Inr (res, d')"
  shows "ledger_ok sha d'"
  using run
proof (cases rule: finalize_finding_effect)
  case (decided p state)
  then show ?thesis using decide_proposal_ok [OF ok _ decided(3,4)] get_proposal_Some by blast
qed (use ok in simp_all)

lemma environment_ok: "ledger_ok sha d \<Longrightarrow> environment d d' \<Longrightarrow> ledger_ok sha d'"
  unfolding environment_def by (intro ledger_okI) (auto dest: ledger_okD intro: candidates_ok_mono runs_ok_mono)

lemma pipeline_step_ok: "pipeline_step sha d d' \<Longrightarrow> ledger_ok sha d \<Longrightarrow> ledger_ok sha d'"
  by (induction rule: pipeline_step.induct)
    (blast intro: propose_candidate_ok start_verification_ok complete_verification_ok submit_finding_proposal_ok
      start_human_review_ok record_human_review_ok finalize_finding_ok environment_ok)+

lemma reachable_ok: "reachable sha d \<Longrightarrow> ledger_ok sha d"
proof (induction rule: reachable.induct)
  case initial
  show ?case
    by (rule ledger_okI) (simp_all add: empty_db_def candidates_ok_def proposals_ok_def reviews_ok_def approvals_ok_def
        findings_ok_def decisions_ok_def runs_ok_def)
next
  case (step d d')
  then show ?case using pipeline_step_ok by blast
qed

section \<open>What is never lost\<close>

text \<open>A row found by its key is the only row with it.\<close>

lemma fetch_one_unique:
  assumes "distinct (map key rows)" "r \<in> set rows" "key r = i" "\<not> blank i"
  shows "fetch_one key field rows i = Inr (Some r)"
proof -
  have "filter (\<lambda>x. key x = i) rows = [r]"
    using assms(1-3)
  proof (induction rows)
    case (Cons x xs)
    show ?case
    proof (cases "key x = i")
      case True
      with Cons.prems have "x = r" by (intro distinct_same_row [of key "x # xs"]) simp_all
      moreover have "\<forall>y \<in> set xs. key y \<noteq> i" using True Cons.prems(1) by (auto simp: rev_image_eqI)
      ultimately show ?thesis using True by (simp add: filter_empty_conv)
    next
      case False
      then show ?thesis using Cons by auto
    qed
  qed simp
  then show ?thesis using assms(4) by (simp add: fetch_one_def one_or_none_def)
qed

lemma fetch_one_absent: "i \<notin> key ` set rows \<Longrightarrow> \<not> blank i \<Longrightarrow> fetch_one key field rows i = Inr None"
proof -
  assume "i \<notin> key ` set rows" "\<not> blank i"
  then have "filter (\<lambda>x. key x = i) rows = []" by (auto simp: filter_empty_conv)
  with \<open>\<not> blank i\<close> show ?thesis by (simp add: fetch_one_def one_or_none_def)
qed

definition terminal_rows :: "candidate_record list \<Rightarrow> candidate_record set" where
  "terminal_rows C = {c \<in> set C. cr_state c \<notin> {''OPEN'', ''VERIFYING''}}"

text \<open>What only grows: the rows of the ledger, and the rows in a final state.\<close>

definition grows :: "db \<Rightarrow> db \<Rightarrow> bool" where
  "grows d d' \<longleftrightarrow>
     prefix (db_verifications d) (db_verifications d') \<and> prefix (db_reviews d) (db_reviews d') \<and>
     prefix (db_approvals d) (db_approvals d') \<and> prefix (db_findings d) (db_findings d') \<and>
     prefix (map cr_candidate_id (db_candidates d)) (map cr_candidate_id (db_candidates d')) \<and>
     prefix (map fpr_proposal_id (db_proposals d)) (map fpr_proposal_id (db_proposals d')) \<and>
     terminal_rows (db_candidates d) \<subseteq> terminal_rows (db_candidates d') \<and>
     decided_rows (db_proposals d) \<subseteq> decided_rows (db_proposals d')"

lemma terminal_rows_state:
  assumes "distinct (map cr_candidate_id C)" "c \<in> set C" "cr_candidate_id c = i" "cr_state c \<in> {''OPEN'', ''VERIFYING''}"
  shows "terminal_rows C \<subseteq> terminal_rows (with_candidate_state i s C)"
proof
  fix x assume x: "x \<in> terminal_rows C"
  then have "cr_candidate_id x \<noteq> i" using assms distinct_same_row [OF assms(1), of x c] by (auto simp: terminal_rows_def)
  then show "x \<in> terminal_rows (with_candidate_state i s C)" using x candidate_kept by (simp add: terminal_rows_def)
qed

lemma rows_append:
  "terminal_rows C \<subseteq> terminal_rows (C @ cs)" "decided_rows P \<subseteq> decided_rows (P @ ps)"
  by (auto simp: terminal_rows_def decided_rows_def)

lemma complete_verification_grows:
  assumes ok: "ledger_ok sha d" and run: "complete_verification cv new_id clock d = Inr (res, d')"
  shows "grows d d'"
proof -
  obtain c v s where c: "c \<in> set (db_candidates d)" "cr_state c \<in> {''OPEN'', ''VERIFYING''}"
      and d': "d' = d\<lparr>db_verifications := db_verifications d @ [v],
           db_candidates := with_candidate_state (cr_candidate_id c) s (db_candidates d)\<rparr>"
    using complete_verification_effect [OF run] by blast
  have "terminal_rows (db_candidates d) \<subseteq> terminal_rows (with_candidate_state (cr_candidate_id c) s (db_candidates d))"
    using ledger_okD(1) [OF ok] c by (intro terminal_rows_state) (auto simp: candidates_ok_def)
  then show ?thesis using d' by (simp add: grows_def)
qed

lemma start_verification_grows:
  assumes ok: "ledger_ok sha d" and run: "start_verification i new_id clock d = Inr (res, d')"
  shows "grows d d'"
proof -
  obtain c where c: "c \<in> set (db_candidates d)" "cr_candidate_id c = i" "cr_state c = ''OPEN''"
      and d': "d' = d\<lparr>db_candidates := with_candidate_state i CS_VERIFYING (db_candidates d)\<rparr>"
    using start_verification_effect [OF run] by blast
  have "terminal_rows (db_candidates d) \<subseteq> terminal_rows (with_candidate_state i CS_VERIFYING (db_candidates d))"
    using ledger_okD(1) [OF ok] c by (intro terminal_rows_state) (auto simp: candidates_ok_def)
  then show ?thesis using d' by (simp add: grows_def)
qed

lemma start_human_review_grows:
  assumes ok: "ledger_ok sha d" and run: "start_human_review i new_id clock d = Inr (res, d')"
  shows "grows d d'"
proof -
  obtain p where p: "p \<in> set (db_proposals d)" "fpr_proposal_id p = i" "fpr_state p = ''PROPOSED''"
      and d': "d' = d\<lparr>db_proposals := with_proposal_state i FPS_HUMAN_REVIEW (db_proposals d)\<rparr>"
    using start_human_review_effect [OF run] by blast
  have "decided_rows (db_proposals d) \<subseteq> decided_rows (with_proposal_state i FPS_HUMAN_REVIEW (db_proposals d))"
    using ledger_okD(2) [OF ok] p by (intro decided_rows_state) (auto simp: proposals_ok_def)
  then show ?thesis using d' by (simp add: grows_def)
qed

lemma finalize_finding_grows:
  assumes ok: "ledger_ok sha d" and run: "finalize_finding c new_id clock d = Inr (res, d')"
  shows "grows d d'"
  using run
proof (cases rule: finalize_finding_effect)
  case (decided p state)
  from decided(4) show ?thesis
  proof (cases rule: decide_proposal_effect)
    case (1 c r decision a evs fs)
    have "decided_rows (db_proposals d) \<subseteq>
        decided_rows (with_proposal_state (fpr_proposal_id p) (decided_state decision) (db_proposals d))"
      using ledger_okD(2) [OF ok] get_proposal_Some [OF decided(1)] decided(3) 1(3)
      by (intro decided_rows_state) (auto simp: proposals_ok_def finding_proposal_state_of_Some)
    then show ?thesis using 1(11) by (simp add: grows_def)
  qed
qed (simp_all add: grows_def)

lemma pipeline_step_grows: "pipeline_step sha d d' \<Longrightarrow> ledger_ok sha d \<Longrightarrow> grows d d'"
proof (induction rule: pipeline_step.induct)
  case (propose c new_id clock d r d')
  show ?case using propose_candidate_effect [OF propose(1)]
    by (elim disjE exE conjE) (simp_all add: grows_def rows_append)
next
  case (submit who s new_id clock d r d')
  from submit(1) show ?case
    by (cases rule: submit_finding_proposal_effect) (simp_all add: grows_def rows_append)
next
  case (review h new_id clock d r d')
  from review(1) show ?case by (cases rule: record_human_review_effect) (auto simp: grows_def)
next
  case (elsewhere d d')
  then show ?case by (simp add: grows_def environment_def)
qed (blast intro: start_verification_grows complete_verification_grows start_human_review_grows finalize_finding_grows)+

section \<open>What a Finding rests on\<close>

lemma review_of_proposal:
  assumes "ledger_ok sha d" "p \<in> set (db_proposals d)" "r \<in> set (db_reviews d)" "hrr_proposal_id r = fpr_proposal_id p"
  shows "hrr_content_fingerprint r = fpr_content_fingerprint p"
proof -
  obtain q where "q \<in> set (db_proposals d)" "fpr_proposal_id q = hrr_proposal_id r"
      "fpr_content_fingerprint q = hrr_content_fingerprint r"
    using ledger_okD(3) [OF assms(1)] assms(3) unfolding reviews_ok_def by blast
  moreover from this have "q = p"
    using assms ledger_okD(2) [OF assms(1)] by (auto simp: proposals_ok_def dest: distinct_same_row)
  ultimately show ?thesis by simp
qed

lemma finding_support:
  assumes ok: "ledger_ok sha d" and f: "f \<in> set (db_findings d)"
  obtains p r a c v where
    "p \<in> set (db_proposals d)" "r \<in> set (db_reviews d)" "a \<in> set (db_approvals d)" "c \<in> set (db_candidates d)"
    "v \<in> set (db_verifications d)" "records_finding p a f" "approved_by p r HR_APPROVE a" "fingerprinted sha p"
    "hrr_content_fingerprint r = fpr_content_fingerprint p" "hrr_actor_type r = ''HUMAN_OPERATOR''"
    "apr_human_review_id a = hrr_review_id r" "cr_candidate_id c = fr_candidate_id f"
    "cr_state c = ''VALIDATED''" "vrec_candidate_id v = cr_candidate_id c" "vrec_outcome v = ''VALIDATED''"
    "validated_support (db_evidence d) c v"
proof -
  obtain p r a where p: "p \<in> set (db_proposals d)" "r \<in> set (db_reviews d)" "a \<in> set (db_approvals d)"
      "approved_by p r HR_APPROVE a" "records_finding p a f"
    using ledger_okD(5) [OF ok] f unfolding findings_ok_def by blast
  have fp: "fingerprinted sha p" "rests_on_validated (db_candidates d) p"
    using ledger_okD(2) [OF ok] p(1) by (auto simp: proposals_ok_def)
  then obtain c where c: "c \<in> set (db_candidates d)" "cr_candidate_id c = fpr_candidate_id p" "cr_state c = ''VALIDATED''"
    by (auto simp: rests_on_validated_def)
  then obtain v where "v \<in> set (db_verifications d)" "vrec_candidate_id v = cr_candidate_id c"
      "vrec_outcome v = ''VALIDATED''" "validated_support (db_evidence d) c v"
    using ledger_okD(1) [OF ok] by (auto simp: candidates_ok_def reproduced_def)
  moreover have "hrr_content_fingerprint r = fpr_content_fingerprint p"
    using review_of_proposal [OF ok p(1,2)] p(4) by (simp add: approved_by_def)
  moreover have "hrr_actor_type r = ''HUMAN_OPERATOR''" "apr_human_review_id a = hrr_review_id r"
    using ledger_okD(3) [OF ok] p(2,4) by (auto simp: reviews_ok_def approved_by_def records_approval_def norm_text_def)
  ultimately show ?thesis
    using p fp(1) c by (intro that [of p r a c v]) (simp_all add: records_finding_def)
qed

section \<open>Reading a decided proposal\<close>

lemma approval_subject_not_blank: "\<not> blank (approval_subject_for i f)"
  by (simp add: approval_subject_for_def blank_iff_all_space py_space_def)

lemma proposal_found:
  assumes "ledger_ok sha d" "p \<in> set (db_proposals d)"
  shows "get_proposal (fpr_proposal_id p) d = Inr (Some p)" "\<not> blank (fpr_proposal_id p)"
proof -
  show "\<not> blank (fpr_proposal_id p)"
    using ledger_okD(2) [OF assms(1)] assms(2)
    by (auto simp: proposals_ok_def post_init_finding_proposal_record_def raise_first_Inr_iff)
  then show "get_proposal (fpr_proposal_id p) d = Inr (Some p)"
    using ledger_okD(2) [OF assms(1)] assms(2) fetch_one_unique [of fpr_proposal_id "db_proposals d" p]
    by (simp add: get_proposal_def proposals_ok_def)
qed

lemma finding_of_approved:
  assumes ok: "ledger_ok sha d" and f: "f \<in> set (db_findings d)" and p: "p \<in> set (db_proposals d)"
    "fr_finding_proposal_id f = fpr_proposal_id p"
  shows "fpr_state p = ''APPROVED''"
proof -
  obtain q r a where q: "q \<in> set (db_proposals d)" "approved_by q r HR_APPROVE a" "records_finding q a f"
    using ledger_okD(5) [OF ok] f unfolding findings_ok_def by blast
  then have "q = p"
    using p ledger_okD(2) [OF ok] by (auto simp: proposals_ok_def records_finding_def dest: distinct_same_row)
  then show ?thesis using q(2) by (simp add: approved_by_def decided_state_def)
qed

lemma finalize_reads_approved:
  assumes ok: "ledger_ok sha d" and p: "p \<in> set (db_proposals d)" and f: "f \<in> set (db_findings d)"
    "fr_finding_proposal_id f = fpr_proposal_id p" and command: "ffc_proposal_id command = fpr_proposal_id p"
  shows "\<exists>res. finalize_finding command new_id clock d = Inr (res, d) \<and> ffr_proposal_state res = FPS_APPROVED \<and>
    ffr_finding_id res = Some (fr_finding_id f) \<and> ffr_approval_id res = Some (fr_approval_id f)"
proof -
  have "get_finding_by_proposal (fpr_proposal_id p) d = Inr (Some f)"
    using ledger_okD(5) [OF ok] f proposal_found(2) [OF ok p] fetch_one_unique [of fr_finding_proposal_id "db_findings d" f]
    by (simp add: get_finding_by_proposal_def findings_ok_def)
  then show ?thesis using proposal_found [OF ok p] command by (simp add: finalize_finding_def)
qed

lemma finalize_reads_rejected:
  assumes ok: "ledger_ok sha d" and p: "p \<in> set (db_proposals d)" "fpr_state p = ''REJECTED''"
    and command: "ffc_proposal_id command = fpr_proposal_id p"
  shows "\<exists>res. finalize_finding command new_id clock d = Inr (res, d) \<and> ffr_proposal_state res = FPS_REJECTED \<and>
    ffr_finding_id res = None"
proof -
  let ?subject = "approval_subject_for (fpr_proposal_id p) (fpr_content_fingerprint p)"
  have "get_finding_by_proposal (fpr_proposal_id p) d = Inr None"
    unfolding get_finding_by_proposal_def
  proof (rule fetch_one_absent)
    show "fpr_proposal_id p \<notin> fr_finding_proposal_id ` set (db_findings d)"
      using finding_of_approved [OF ok _ p(1)] p(2) by fastforce
  qed (rule proposal_found(2) [OF ok p(1)])
  moreover obtain a where a: "a \<in> set (db_approvals d)" "apr_subject_reference a = ?subject"
    using ledger_okD(6) [OF ok] p by (auto simp: decisions_ok_def approved_by_def records_approval_def)
  moreover have "get_approval_by_subject ?subject d = Inr (Some a)"
    using a ledger_okD(4) [OF ok] fetch_one_unique [of apr_subject_reference "db_approvals d" a]
    by (simp add: get_approval_by_subject_def approvals_ok_def approval_subject_not_blank)
  moreover have "finding_proposal_state_of (fpr_state p) = Some FPS_REJECTED" using p(2) by (simp add: finding_proposal_state_of_Some)
  ultimately show ?thesis using proposal_found [OF ok p(1)] command by (simp add: finalize_finding_def)
qed

section \<open>The laboratory run is reachable\<close>

lemma lab_uuids: "uuids lab_id"
  by (simp add: uuids_def norm_text_def lab_id_def py_strip_def blank_def py_space_def)

lemma lab_environment: "environment empty_db lab_db"
  by (simp add: environment_def lab_db_def empty_db_def)

lemma lab_steps:
  "pipeline_step lab_sha lab_db (lab_db1 CS_OPEN)" "pipeline_step lab_sha (lab_db1 CS_OPEN) (lab_db1 CS_VERIFYING)"
  "pipeline_step lab_sha (lab_db1 CS_VERIFYING) lab_db2" "pipeline_step lab_sha lab_db2 (lab_db3 FPS_PROPOSED)"
  "pipeline_step lab_sha (lab_db3 FPS_PROPOSED) (lab_db3 FPS_HUMAN_REVIEW)"
  "pipeline_step lab_sha (lab_db3 FPS_HUMAN_REVIEW) (lab_db4 HR_APPROVE)"
  using lands_Inr [OF lab_propose] lands_Inr [OF lab_start] lands_Inr [OF lab_complete] lands_Inr [OF lab_submit]
    lands_Inr [OF lab_start_review] lands_Inr [OF lab_record_review] lab_uuids
  unfolding lab_propose_def lab_start_def lab_complete_def lab_submit_def lab_start_review_def lab_record_review_def
  by (blast intro: pipeline_step.intros)+

lemma lab_reachable: "reachable lab_sha (lab_db4 HR_APPROVE)"
  by (rule reachable.step [OF _ lab_steps(6)], rule reachable.step [OF _ lab_steps(5)],
      rule reachable.step [OF _ lab_steps(4)], rule reachable.step [OF _ lab_steps(3)],
      rule reachable.step [OF _ lab_steps(2)], rule reachable.step [OF _ lab_steps(1)],
      rule reachable.step [OF reachable.initial pipeline_step.elsewhere [OF lab_environment]])

lemma lab_finding:
  obtains res d f where "lab_finalize HR_APPROVE = Inr (res, d)" "reachable lab_sha d"
    "pipeline_step lab_sha (lab_db4 HR_APPROVE) d" "f \<in> set (db_findings d)" "fr_finding_id f = ''<finding>''"
proof -
  from lab_finalize obtain res d where run: "lab_finalize HR_APPROVE = Inr (res, d)"
      and "map fr_finding_id (db_findings d) = [''<finding>'']"
    by (auto simp: creates_a_finding_def split: sum.splits prod.splits)
  then obtain f where "f \<in> set (db_findings d)" "fr_finding_id f = ''<finding>''" by (auto simp: map_eq_Cons_conv)
  moreover have "pipeline_step lab_sha (lab_db4 HR_APPROVE) d"
    using run lab_uuids unfolding lab_finalize_def by (rule pipeline_step.finalize)
  ultimately show ?thesis using run lab_reachable by (intro that) (auto intro: reachable.step)
qed

section \<open>Properties\<close>

text \<open>
  C1. The provenance of a Finding.  Whatever the use cases did, in any order and with any arguments, a
  Finding in the database comes from an approved proposal whose fingerprint is that of the content of the
  Finding, from one human review that approved this fingerprint and one recorded human approval for
  exactly this proposal and fingerprint, and from a VALIDATED Candidate with a validating verification
  that rests on reproduced evidence: other evidence, of another experiment, sharing no observation.
\<close>

theorem finding_provenance:
  assumes "reachable sha d" "f \<in> set (db_findings d)"
  shows "\<exists>p \<in> set (db_proposals d). \<exists>r \<in> set (db_reviews d). \<exists>a \<in> set (db_approvals d).
    \<exists>c \<in> set (db_candidates d). \<exists>v \<in> set (db_verifications d).
      fpr_proposal_id p = fr_finding_proposal_id f \<and> fpr_state p = ''APPROVED'' \<and>
      fpr_content_fingerprint p = finding_proposal_content_fingerprint sha (fr_candidate_id f) (fr_title f)
        (fr_claim f) (fr_evidence_ids f) (fr_verification_ids f) \<and>
      hrr_review_id r = fr_human_review_id f \<and> hrr_proposal_id r = fpr_proposal_id p \<and>
      hrr_content_fingerprint r = fpr_content_fingerprint p \<and>
      hrr_actor_type r = ''HUMAN_OPERATOR'' \<and> hrr_decision r = ''APPROVE'' \<and>
      apr_approval_id a = fr_approval_id f \<and> apr_actor_type a = ''HUMAN_OPERATOR'' \<and> apr_decision a = ''APPROVE'' \<and>
      apr_subject_reference a = approval_subject_for (fpr_proposal_id p) (fpr_content_fingerprint p) \<and>
      cr_candidate_id c = fr_candidate_id f \<and> cr_state c = ''VALIDATED'' \<and>
      vrec_candidate_id v = cr_candidate_id c \<and> vrec_outcome v = ''VALIDATED'' \<and>
      validated_support (db_evidence d) c v"
proof -
  from finding_support [OF reachable_ok [OF assms(1)] assms(2)] obtain p r a c v where
      rows: "p \<in> set (db_proposals d)" "r \<in> set (db_reviews d)" "a \<in> set (db_approvals d)" "c \<in> set (db_candidates d)"
        "v \<in> set (db_verifications d)"
      and facts: "records_finding p a f" "approved_by p r HR_APPROVE a" "fingerprinted sha p"
        "hrr_content_fingerprint r = fpr_content_fingerprint p" "hrr_actor_type r = ''HUMAN_OPERATOR''"
        "apr_human_review_id a = hrr_review_id r" "cr_candidate_id c = fr_candidate_id f"
        "cr_state c = ''VALIDATED''" "vrec_candidate_id v = cr_candidate_id c" "vrec_outcome v = ''VALIDATED''"
        "validated_support (db_evidence d) c v" .
  show ?thesis
    by (rule bexI [OF _ rows(1)], rule bexI [OF _ rows(2)], rule bexI [OF _ rows(3)], rule bexI [OF _ rows(4)],
        rule bexI [OF _ rows(5)])
      (use facts in \<open>simp add: approved_by_def records_approval_def records_finding_def fingerprinted_def decided_state_def\<close>)
qed

theorem finding_provenance_witness:
  "\<exists>d f v c. reachable lab_sha d \<and> f \<in> set (db_findings d) \<and> fr_finding_id f = ''<finding>'' \<and>
     v \<in> set (db_verifications d) \<and> validated_support (db_evidence d) c v"
proof -
  obtain res d f where "lab_finalize HR_APPROVE = Inr (res, d)" and d: "reachable lab_sha d" "f \<in> set (db_findings d)"
      "fr_finding_id f = ''<finding>''"
    by (rule lab_finding)
  with finding_provenance [OF d(1,2)] show ?thesis by blast
qed

text \<open>An approval names one stored proposal, whose subject it has; so proposals do not share approvals.\<close>

lemma approval_of_proposal:
  assumes "ledger_ok sha d" "a \<in> set (db_approvals d)"
  shows "\<exists>p \<in> set (db_proposals d). \<exists>r \<in> set (db_reviews d). apr_proposal_id a = fpr_proposal_id p \<and>
    hrr_proposal_id r = fpr_proposal_id p \<and> apr_human_review_id a = hrr_review_id r \<and>
    apr_subject_reference a = approval_subject_for (fpr_proposal_id p) (fpr_content_fingerprint p)"
proof -
  obtain p r decision where rows: "p \<in> set (db_proposals d)" "r \<in> set (db_reviews d)" and approved: "approved_by p r decision a"
    using ledger_okD(4) [OF assms(1)] assms(2) unfolding approvals_ok_def by blast
  have "norm_text (hrr_review_id r)" using rows(2) ledger_okD(3) [OF assms(1)] by (simp add: reviews_ok_def)
  then show ?thesis
    using rows approved by (intro bexI [of _ p] bexI [of _ r]) (auto simp: approved_by_def records_approval_def norm_text_def)
qed

lemma approvals_distinct:
  assumes "ledger_ok sha d"
  shows "distinct (map apr_proposal_id (db_approvals d))"
proof -
  have subjects: "distinct (map apr_subject_reference (db_approvals d))"
    using ledger_okD(4) [OF assms] by (simp add: approvals_ok_def)
  have "apr_subject_reference a = apr_subject_reference b"
    if a: "a \<in> set (db_approvals d)" and b: "b \<in> set (db_approvals d)" and same: "apr_proposal_id a = apr_proposal_id b" for a b
  proof -
    obtain p q where rows: "p \<in> set (db_proposals d)" "q \<in> set (db_proposals d)"
        "apr_proposal_id a = fpr_proposal_id p" "apr_proposal_id b = fpr_proposal_id q"
      and subject: "apr_subject_reference a = approval_subject_for (fpr_proposal_id p) (fpr_content_fingerprint p)"
        "apr_subject_reference b = approval_subject_for (fpr_proposal_id q) (fpr_content_fingerprint q)"
      using approval_of_proposal [OF assms a] approval_of_proposal [OF assms b] by blast
    then have "p = q" using same ledger_okD(2) [OF assms] by (auto simp: proposals_ok_def dest: distinct_same_row)
    then show ?thesis using subject by simp
  qed
  then have "inj_on apr_proposal_id (set (db_approvals d))" using subjects unfolding distinct_map inj_on_def by blast
  then show ?thesis using subjects by (simp add: distinct_map)
qed

text \<open>
  C8. One decision and one Finding.  In every reachable database no two Findings, no two reviews and no two
  approvals share a proposal; every approval names a stored proposal, has that proposal with its fingerprint
  as its subject, and belongs to the review of that proposal; and a proposal is APPROVED exactly when it has
  its Finding: the state the code answers with ``approved proposal is missing Finding provenance'' is never
  reached.
\<close>

theorem one_finding_per_approval:
  assumes "reachable sha d"
  shows "distinct (map fr_finding_proposal_id (db_findings d)) \<and> distinct (map hrr_proposal_id (db_reviews d)) \<and>
    distinct (map apr_proposal_id (db_approvals d)) \<and> distinct (map apr_subject_reference (db_approvals d)) \<and>
    (\<forall>a \<in> set (db_approvals d). \<exists>p \<in> set (db_proposals d). \<exists>r \<in> set (db_reviews d). apr_proposal_id a = fpr_proposal_id p \<and>
       hrr_proposal_id r = fpr_proposal_id p \<and> apr_human_review_id a = hrr_review_id r \<and>
       apr_subject_reference a = approval_subject_for (fpr_proposal_id p) (fpr_content_fingerprint p)) \<and>
    {p \<in> set (db_proposals d). fpr_state p = ''APPROVED''} =
    {p \<in> set (db_proposals d). fpr_proposal_id p \<in> fr_finding_proposal_id ` set (db_findings d)}"
proof -
  note ok = reachable_ok [OF assms]
  have "fpr_state p = ''APPROVED'' \<longleftrightarrow> fpr_proposal_id p \<in> fr_finding_proposal_id ` set (db_findings d)"
    if p: "p \<in> set (db_proposals d)" for p
  proof
    show "fpr_proposal_id p \<in> fr_finding_proposal_id ` set (db_findings d)" if "fpr_state p = ''APPROVED''"
      using that p ledger_okD(6) [OF ok] by (simp add: decisions_ok_def)
    assume "fpr_proposal_id p \<in> fr_finding_proposal_id ` set (db_findings d)"
    then obtain f where "f \<in> set (db_findings d)" "fr_finding_proposal_id f = fpr_proposal_id p" by auto
    then show "fpr_state p = ''APPROVED''" using finding_of_approved [OF ok _ p] by blast
  qed
  then show ?thesis
    using ledger_okD(3-5) [OF ok] approvals_distinct [OF ok] approval_of_proposal [OF ok]
    by (auto simp: reviews_ok_def approvals_ok_def findings_ok_def)
qed

theorem one_finding_per_approval_witness:
  "\<exists>d p f a. reachable lab_sha d \<and> f \<in> set (db_findings d) \<and> a \<in> set (db_approvals d) \<and> p \<in> set (db_proposals d) \<and>
     fr_finding_proposal_id f = fpr_proposal_id p \<and> fpr_state p = ''APPROVED''"
proof -
  obtain res d f where "lab_finalize HR_APPROVE = Inr (res, d)" and d: "reachable lab_sha d" "f \<in> set (db_findings d)"
    by (rule lab_finding)
  obtain p a where rows: "p \<in> set (db_proposals d)" "a \<in> set (db_approvals d)" "fr_finding_proposal_id f = fpr_proposal_id p"
    using ledger_okD(5) [OF reachable_ok [OF d(1)]] d(2) unfolding findings_ok_def records_finding_def by metis
  then have "p \<in> {p \<in> set (db_proposals d). fpr_proposal_id p \<in> fr_finding_proposal_id ` set (db_findings d)}"
    using d(2) by (metis (mono_tags, lifting) image_eqI mem_Collect_eq)
  then have "fpr_state p = ''APPROVED''" using one_finding_per_approval [OF d(1)] by blast
  with d rows show ?thesis by blast
qed

text \<open>
  C9. The ledger only grows.  A step of the program never removes or rewrites a verification, a review,
  an approval or a Finding, never forgets a Candidate or a proposal, and never changes one in a final
  state: what was validated, refuted, approved or rejected stays so.
\<close>

theorem decisions_are_final:
  assumes "reachable sha d" "pipeline_step sha d d'"
  shows "prefix (db_verifications d) (db_verifications d') \<and> prefix (db_reviews d) (db_reviews d') \<and>
    prefix (db_approvals d) (db_approvals d') \<and> prefix (db_findings d) (db_findings d') \<and>
    prefix (map cr_candidate_id (db_candidates d)) (map cr_candidate_id (db_candidates d')) \<and>
    prefix (map fpr_proposal_id (db_proposals d)) (map fpr_proposal_id (db_proposals d')) \<and>
    {c \<in> set (db_candidates d). cr_state c \<notin> {''OPEN'', ''VERIFYING''}} \<subseteq> set (db_candidates d') \<and>
    {p \<in> set (db_proposals d). fpr_state p \<in> {''APPROVED'', ''REJECTED''}} \<subseteq> set (db_proposals d')"
  using pipeline_step_grows [OF assms(2) reachable_ok [OF assms(1)]]
  unfolding grows_def terminal_rows_def decided_rows_def by blast

theorem decisions_are_final_witness:
  "\<exists>d. pipeline_step lab_sha (lab_db4 HR_APPROVE) d \<and> db_findings d \<noteq> [] \<and>
     prefix (db_reviews (lab_db4 HR_APPROVE)) (db_reviews d)"
proof -
  obtain res d f where "lab_finalize HR_APPROVE = Inr (res, d)" "reachable lab_sha d"
      and d: "pipeline_step lab_sha (lab_db4 HR_APPROVE) d" "f \<in> set (db_findings d)"
    by (rule lab_finding)
  from d(2) have "db_findings d \<noteq> []" by auto
  with decisions_are_final [OF lab_reachable d(1)] d(1) show ?thesis by blast
qed

text \<open>
  C5. Finalizing is idempotent.  After a run of \<open>finalize_finding\<close> that returned, a second run for the same
  proposal, by anyone, with new identities and at any time, returns the same proposal state and the same
  Finding, and leaves the database as it is.
\<close>

theorem finalize_finding_idempotent:
  assumes "reachable sha d" "uuids new_id" "finalize_finding command new_id clock d = Inr (res, d')"
    "ffc_proposal_id again = ffc_proposal_id command"
  shows "\<exists>res'. finalize_finding again new_id' clock' d' = Inr (res', d') \<and>
    ffr_proposal_state res' = ffr_proposal_state res \<and> ffr_finding_id res' = ffr_finding_id res"
proof -
  note ok = reachable_ok [OF assms(1)]
  have ok': "ledger_ok sha d'" using finalize_finding_ok [OF ok assms(3)] .
  from assms(3) show ?thesis
  proof (cases rule: finalize_finding_effect)
    case (existing p f)
    then show ?thesis
      using finalize_reads_approved [OF ok, of p f again new_id' clock'] assms(4) get_proposal_Some [OF existing(1)]
        get_finding_Some [OF existing(2)] by auto
  next
    case (rejected p)
    then show ?thesis
      using finalize_reads_rejected [OF ok, of p again new_id' clock'] assms(4) get_proposal_Some [OF rejected(1)] by auto
  next
    case (decided p state)
    have p: "p \<in> set (db_proposals d)" "fpr_proposal_id p = ffc_proposal_id again"
      using get_proposal_Some [OF decided(1)] assms(4) by simp_all
    from decided(4) show ?thesis
    proof (cases rule: decide_proposal_effect)
      case (1 c r decision a evs fs)
      let ?p' = "p\<lparr>fpr_state := finding_proposal_state_value (decided_state decision)\<rparr>"
      have p': "?p' \<in> set (db_proposals d')" using proposal_state_row [OF p(1) refl] 1(11) by simp
      show ?thesis
      proof (cases fs)
        case Nil
        with 1(12-14) p' p(2) show ?thesis
          using finalize_reads_rejected [OF ok' p', of again new_id' clock'] by (auto simp: decided_state_def)
      next
        case (Cons f gs)
        with 1(11,12) have f: "f \<in> set (db_findings d')" "fr_finding_proposal_id f = fpr_proposal_id ?p'"
          by (simp_all add: records_finding_def)
        then show ?thesis
          using finalize_reads_approved [OF ok' p' f, of again new_id' clock'] 1(12-14) Cons p(2)
          by (auto simp: decided_state_def)
      qed
    qed
  qed
qed

theorem finalize_finding_idempotent_witness:
  "\<exists>res d res'. lab_finalize HR_APPROVE = Inr (res, d) \<and>
     finalize_finding (lab_command WORKER) lab_id lab_clock d = Inr (res', d) \<and> ffr_finding_id res' = ffr_finding_id res"
proof -
  obtain res d f where run: "lab_finalize HR_APPROVE = Inr (res, d)" by (rule lab_finding)
  have "ffc_proposal_id (lab_command WORKER) = ffc_proposal_id (lab_command HUMAN_OPERATOR)" by (simp add: lab_command_def)
  from finalize_finding_idempotent [OF lab_reachable lab_uuids run [unfolded lab_finalize_def] this] run
  show ?thesis by blast
qed

end
