(* ===== verification/Liveness.thy ===== *)
theory Liveness
  imports Discovery
begin

text \<open>
  An approved proposal becomes a Finding: in a reachable database, finalizing a proposal whose human
  review approved it does not fail.  The lemmas run each store of the transaction forward.
\<close>

section \<open>Storing runs forward\<close>

lemma store_audit_event_ok:
  assumes "\<not> blank i" "\<not> blank who" "kind \<in> set ALLOWED_ACTOR_TYPES" "\<not> blank ev" "\<not> blank st" "\<not> blank si"
    "secret_free (JObj p)" "i \<notin> aer_audit_event_id ` set (db_audit_events d)"
  shows "store_audit_event i at who kind ev st si None p d = Inr (d\<lparr>db_audit_events := db_audit_events d @
    [\<lparr>aer_audit_event_id = i, aer_occurred_at = at, aer_actor_id = who, aer_actor_type = kind, aer_event_type = ev,
      aer_subject_type = st, aer_subject_id = si, aer_payload = p, aer_correlation_id = None\<rparr>]\<rparr>)"
  using assms
  by (simp add: store_audit_event_def post_init_audit_event_record_def use_case_simps run_steps raise_first_Inr_iff insert_Inr)

lemma actor_type_allowed [simp]: "actor_type_value k \<in> set ALLOWED_ACTOR_TYPES"
  by (cases k) (simp_all add: ALLOWED_ACTOR_TYPES_def)

lemma texts_not_blank:
  "\<not> blank ''CORE_APPROVAL_RECORDED''" "\<not> blank ''finding_proposal''" "\<not> blank ''FINDING_CREATED''"
  "\<not> blank ''finding''" "\<not> blank ''control-plane''" "\<not> blank ''HUMAN_OPERATOR''"
  by (simp_all add: blank_iff_all_space py_space_def)

lemma payload_keys_plain:
  "\<not> is_sensitive_key ''approval_id''" "\<not> is_sensitive_key ''decision''" "\<not> is_sensitive_key ''proposal_id''"
  "\<not> is_sensitive_key ''candidate_id''" "\<not> is_sensitive_key ''not_a_finding_until_approval''"
  "\<not> is_sensitive_key ''classification''"
  by code_simp+

lemma store_approval_ok:
  assumes "\<not> blank (av_approval_id a)" "\<not> blank (av_subject_reference a)" "\<not> blank (ffc_decided_by command)"
    "\<not> blank (fpr_research_run_id p)" "\<not> blank (fpr_proposal_id p)" "\<not> blank (hrv_review_id v)"
    "av_approval_id a \<notin> apr_approval_id ` set (db_approvals d)"
    "av_subject_reference a \<notin> apr_subject_reference ` set (db_approvals d)"
    "has_run (fpr_research_run_id p) d" "fpr_proposal_id p \<in> fpr_proposal_id ` set (db_proposals d)"
    "hrv_review_id v \<in> hrr_review_id ` set (db_reviews d)"
    "\<not> blank (new_id ''approval event'')" "new_id ''approval event'' \<notin> aer_audit_event_id ` set (db_audit_events d)"
  shows "\<exists>row event. store_approval command p v a new_id clock d =
      Inr (d\<lparr>db_approvals := db_approvals d @ [row], db_audit_events := db_audit_events d @ [event]\<rparr>) \<and>
    apr_approval_id row = av_approval_id a \<and> aer_audit_event_id event = new_id ''approval event''"
proof -
  let ?row = "\<lparr>apr_approval_id = av_approval_id a, apr_subject_reference = av_subject_reference a,
        apr_decision = approval_decision_value (av_decision a), apr_decided_by = ffc_decided_by command,
        apr_actor_type = actor_type_value (ffc_actor_type command), apr_recorded = True,
        apr_created_at = clock ''approval'', apr_research_run_id = fpr_research_run_id p,
        apr_proposal_id = fpr_proposal_id p, apr_human_review_id = hrv_review_id v\<rparr>"
  let ?event = "\<lparr>aer_audit_event_id = new_id ''approval event'', aer_occurred_at = clock ''approval event'',
        aer_actor_id = ffc_decided_by command, aer_actor_type = actor_type_value (ffc_actor_type command),
        aer_event_type = ''CORE_APPROVAL_RECORDED'', aer_subject_type = ''finding_proposal'',
        aer_subject_id = fpr_proposal_id p,
        aer_payload = [(''approval_id'', JStr (av_approval_id a)),
          (''decision'', JStr (approval_decision_value (av_decision a)))], aer_correlation_id = None\<rparr>"
  have "approval_decision_value (av_decision a) \<in> set ALLOWED_RECORDED_APPROVAL_DECISIONS"
    by (cases "av_decision a") (simp_all add: ALLOWED_RECORDED_APPROVAL_DECISIONS_def)
  then have "post_init_approval_record ?row = Inr ?row"
    using assms by (simp add: post_init_approval_record_def raise_first_Inr_iff)
  moreover have "insert_approval ?row d = Inr (d\<lparr>db_approvals := db_approvals d @ [?row]\<rparr>)"
    using assms by (simp add: insert_Inr)
  ultimately show ?thesis
    using assms
    by (intro exI [of _ ?row] exI [of _ ?event])
      (simp add: store_approval_def use_case_simps store_audit_event_ok texts_not_blank payload_keys_plain)
qed

lemma store_finding_ok:
  assumes "\<not> blank i" "\<not> blank j" "post_init_finding_proposal_record p = Inr p" "\<not> blank (cr_candidate_id c)"
    "\<not> blank (hrv_review_id v)" "j \<notin> fr_finding_id ` set (db_findings d)"
    "fpr_proposal_id p \<notin> fr_finding_proposal_id ` set (db_findings d)"
    "fpr_proposal_id p \<in> fpr_proposal_id ` set (db_proposals d)" "cr_candidate_id c \<in> cr_candidate_id ` set (db_candidates d)"
    "has_run (fpr_research_run_id p) d" "i \<in> apr_approval_id ` set (db_approvals d)"
    "hrv_review_id v \<in> hrr_review_id ` set (db_reviews d)" "\<not> blank (new_id ''finding event'')"
    "new_id ''finding event'' \<notin> aer_audit_event_id ` set (db_audit_events d)"
  shows "\<exists>row event. store_finding c p v i j new_id clock d =
      Inr (d\<lparr>db_findings := db_findings d @ [row], db_audit_events := db_audit_events d @ [event]\<rparr>) \<and>
    fr_finding_id row = j \<and> fr_finding_proposal_id row = fpr_proposal_id p"
proof -
  let ?row = "\<lparr>fr_finding_id = j, fr_finding_proposal_id = fpr_proposal_id p,
        fr_candidate_id = cr_candidate_id c, fr_research_run_id = fpr_research_run_id p,
        fr_approval_id = i, fr_human_review_id = hrv_review_id v, fr_title = fpr_title p,
        fr_claim = fpr_claim p, fr_classification = fpr_classification p,
        fr_evidence_ids = fpr_evidence_ids p, fr_verification_ids = fpr_verification_ids p,
        fr_created_at = clock ''finding''\<rparr>"
  let ?event = "\<lparr>aer_audit_event_id = new_id ''finding event'', aer_occurred_at = clock ''finding event'',
        aer_actor_id = ''control-plane'', aer_actor_type = actor_type_value CONTROL_PLANE,
        aer_event_type = ''FINDING_CREATED'', aer_subject_type = ''finding'', aer_subject_id = j,
        aer_payload = [(''proposal_id'', JStr (fpr_proposal_id p)), (''candidate_id'', JStr (cr_candidate_id c)),
          (''not_a_finding_until_approval'', JBool True), (''classification'', JStr (fpr_classification p))],
        aer_correlation_id = None\<rparr>"
  have "post_init_finding_record ?row = Inr ?row"
    using assms by (auto simp: post_init_finding_record_def post_init_finding_proposal_record_def raise_first_Inr_iff)
  moreover have "insert_finding ?row d = Inr (d\<lparr>db_findings := db_findings d @ [?row]\<rparr>)"
    using assms by (simp add: insert_Inr)
  ultimately show ?thesis
    using assms actor_type_allowed [of CONTROL_PLANE]
    by (intro exI [of _ ?row] exI [of _ ?event])
      (simp add: store_finding_def use_case_simps store_audit_event_ok texts_not_blank payload_keys_plain
        del: actor_type_value.simps)
qed

section \<open>Deciding runs forward\<close>

lemma creation_context_ok:
  assumes "post_init_finding_proposal_record p = Inr p" "\<not> blank (cr_candidate_id c)" "\<not> blank (cr_research_run_id c)"
    "\<not> blank subject"
  shows "\<exists>x. creation_context_for command c cs p ps subject review approval evaluation = Inr x"
  using assms
  by (auto simp: creation_context_for_def post_init_finding_creation_context_def post_init_finding_proposal_record_def
      raise_first_Inr_iff run_steps strip_text_Inr_iff strip_ids_Inr_iff list_ex_iff)

lemma evaluate_finding_creation_approved:
  assumes "fcx_candidate_state x = CS_VALIDATED" "fcx_proposal_state x = FPS_HUMAN_REVIEW" "fcx_human_review x = Some v"
    "hrv_actor_type v = HUMAN_OPERATOR_ACTOR" "fcx_approval_actor_type x = Some HUMAN_OPERATOR_ACTOR"
    "hrv_proposal_id v = fcx_proposal_id x" "hrv_content_fingerprint v = fcx_content_fingerprint x"
    "fcx_approval_subject_matches x" "fcx_approval_valid_record x" "fcx_approval_decision x = Some (hrv_decision v)"
    "hrv_decision v = HR_APPROVE" "fcx_approval_authorizes x"
  shows "fcd_outcome (evaluate_finding_creation x) = FC_CREATED"
    "fcd_proposal_state (evaluate_finding_creation x) = FPS_APPROVED" "fcd_creates_finding (evaluate_finding_creation x)"
  using assms by (simp_all add: evaluate_finding_creation_def Let_def)

lemma evaluate_recorded_approval_ok:
  assumes "\<not> blank subject" "approved_for subject (Some a)"
  obtains e where "evaluate_recorded_approval (Some a) subject = Inr e" "rae_valid_record e" "rae_authorizes e"
proof -
  obtain e where e: "evaluate_recorded_approval (Some a) subject = Inr e"
    using evaluate_recorded_approval_total assms(1) by blast
  with assms(2) evaluate_recorded_approval_valid [OF e] evaluate_recorded_approval_authorizes [OF e] show ?thesis
    by (intro that) (simp_all add: approved_for_def)
qed

text \<open>No approval has been given to a proposal that still waits.\<close>

lemma subject_unused:
  assumes ok: "ledger_ok sha d" and p: "p \<in> set (db_proposals d)" "fpr_state p = ''HUMAN_REVIEW''"
    and sha: "\<And>x. length (sha x) = n"
  shows "approval_subject_for (fpr_proposal_id p) (fpr_content_fingerprint p) \<notin> apr_subject_reference ` set (db_approvals d)"
proof
  assume "approval_subject_for (fpr_proposal_id p) (fpr_content_fingerprint p) \<in> apr_subject_reference ` set (db_approvals d)"
  then obtain q r decision a where q: "q \<in> set (db_proposals d)" "approved_by q r decision a"
      and "apr_subject_reference a = approval_subject_for (fpr_proposal_id p) (fpr_content_fingerprint p)"
    using ledger_okD(4) [OF ok] unfolding approvals_ok_def by (metis imageE)
  then have same: "approval_subject_for (fpr_proposal_id q) (fpr_content_fingerprint q) =
      approval_subject_for (fpr_proposal_id p) (fpr_content_fingerprint p)"
    by (simp add: approved_by_def records_approval_def)
  have "length (fpr_content_fingerprint x) = n" if "x \<in> set (db_proposals d)" for x
    using ledger_okD(2) [OF ok] that sha by (simp add: proposals_ok_def fingerprinted_def finding_proposal_content_fingerprint_def)
  then have "fpr_proposal_id q = fpr_proposal_id p" using same p(1) q(1) approval_subject_eq_iff by metis
  then have "q = p" using ledger_okD(2) [OF ok] p(1) q(1) by (auto simp: proposals_ok_def dest: distinct_same_row)
  then show False using q(2) p(2) by (cases decision) (simp_all add: approved_by_def decided_state_def)
qed

definition fresh_ids :: "(string \<Rightarrow> string) \<Rightarrow> db \<Rightarrow> bool" where
  "fresh_ids new_id d \<longleftrightarrow>
     new_id ''approval'' \<notin> apr_approval_id ` set (db_approvals d) \<and>
     new_id ''finding'' \<notin> fr_finding_id ` set (db_findings d) \<and>
     new_id ''approval event'' \<notin> aer_audit_event_id ` set (db_audit_events d) \<and>
     new_id ''finding event'' \<notin> aer_audit_event_id ` set (db_audit_events d) \<and>
     new_id ''approval event'' \<noteq> new_id ''finding event''"

text \<open>The rows a waiting, approved proposal rests on are all found.\<close>

lemma waiting_proposal_rows:
  assumes ok: "ledger_ok sha d" and p: "p \<in> set (db_proposals d)" "fpr_state p = ''HUMAN_REVIEW''"
    and r: "r \<in> set (db_reviews d)" "hrr_proposal_id r = fpr_proposal_id p" "hrr_decision r = ''APPROVE''"
  obtains c v where "get_candidate (fpr_candidate_id p) d = Inr (Some c)" "candidate_state_of (cr_state c) = Some CS_VALIDATED"
    "cr_candidate_id c = fpr_candidate_id p" "c \<in> set (db_candidates d)"
    "\<not> blank (cr_candidate_id c)" "\<not> blank (cr_research_run_id c)"
    "get_review_for_proposal (fpr_proposal_id p) d = Inr (Some r)" "review_view_of r = Inr v"
    "hrv_decision v = HR_APPROVE" "hrv_review_id v = hrr_review_id r" "hrv_proposal_id v = py_strip (fpr_proposal_id p)"
    "hrv_content_fingerprint v = py_strip (fpr_content_fingerprint p)" "hrv_actor_type v = HUMAN_OPERATOR_ACTOR"
    "\<not> blank (hrr_review_id r)"
proof -
  obtain c where c: "c \<in> set (db_candidates d)" "cr_candidate_id c = fpr_candidate_id p" "cr_state c = ''VALIDATED''"
    using ledger_okD(2) [OF ok] p(1) by (auto simp: proposals_ok_def rests_on_validated_def)
  then have init: "post_init_candidate_record c = Inr c" "distinct (map cr_candidate_id (db_candidates d))"
    using ledger_okD(1) [OF ok] by (auto simp: candidates_ok_def)
  then have nonblank: "\<not> blank (cr_candidate_id c)" "\<not> blank (cr_research_run_id c)"
    by (simp_all add: post_init_candidate_record_def raise_first_Inr_iff)
  have get: "get_candidate (fpr_candidate_id p) d = Inr (Some c)"
    using fetch_one_unique [OF init(2) c(1,2)] nonblank c(2) by (simp add: get_candidate_def)
  have R: "distinct (map hrr_proposal_id (db_reviews d))" "norm_text (hrr_review_id r)" "\<exists>v. review_view_of r = Inr v"
      "hrr_actor_type r = ''HUMAN_OPERATOR''"
    using ledger_okD(3) [OF ok] r(1) by (auto simp: reviews_ok_def)
  then obtain v where v: "review_view_of r = Inr v" by blast
  note v' = review_view_of_Inr [OF v]
  have "human_review_decision_value (hrv_decision v) = ''APPROVE''" using v' r(3) by simp
  then have approve: "hrv_decision v = HR_APPROVE" by (cases "hrv_decision v") simp_all
  have get_review: "get_review_for_proposal (fpr_proposal_id p) d = Inr (Some r)"
    using fetch_one_unique [OF R(1) r(1,2)] proposal_found(2) [OF ok p(1)] by (simp add: get_review_for_proposal_def)
  have "py_strip ''HUMAN_OPERATOR'' = ''HUMAN_OPERATOR''" using py_strip_actor [of HUMAN_OPERATOR] by simp
  then show ?thesis
    using get c nonblank get_review v v' approve R(2,4) r(2) review_of_proposal [OF ok p(1) r(1,2)]
    by (intro that [of c v]) (simp_all add: candidate_state_of_Some norm_text_def HUMAN_OPERATOR_ACTOR_def)
qed

lemma decide_proposal_approved:
  assumes ok: "ledger_ok sha d" and p: "p \<in> set (db_proposals d)" "fpr_state p = ''HUMAN_REVIEW''"
    and r: "r \<in> set (db_reviews d)" "hrr_proposal_id r = fpr_proposal_id p" "hrr_decision r = ''APPROVE''"
    and command: "ffc_actor_type command = HUMAN_OPERATOR" "\<not> blank (ffc_decided_by command)"
    and ids: "uuids new_id" "fresh_ids new_id d" and sha: "\<And>x. length (sha x) = n"
    and no_finding: "fpr_proposal_id p \<notin> fr_finding_proposal_id ` set (db_findings d)"
  shows "\<exists>res d' f. decide_proposal command p FPS_HUMAN_REVIEW new_id clock d = Inr (res, d') \<and>
    ffr_outcome res = FC_CREATED \<and> ffr_finding_id res = Some (fr_finding_id f) \<and>
    db_findings d' = db_findings d @ [f] \<and> fr_finding_proposal_id f = fpr_proposal_id p"
proof -
  let ?subject = "approval_subject_for (fpr_proposal_id p) (fpr_content_fingerprint p)"
  let ?a = "\<lparr>av_approval_id = new_id ''approval'', av_subject_reference = ?subject, av_decision = AD_APPROVE,
       av_decided_by = ffc_decided_by command, av_actor_type = HUMAN_OPERATOR, av_recorded = True\<rparr>"
  from waiting_proposal_rows [OF ok p r] obtain c v where
      c: "get_candidate (fpr_candidate_id p) d = Inr (Some c)" "candidate_state_of (cr_state c) = Some CS_VALIDATED"
        "cr_candidate_id c = fpr_candidate_id p" "c \<in> set (db_candidates d)"
        "\<not> blank (cr_candidate_id c)" "\<not> blank (cr_research_run_id c)"
      and r': "get_review_for_proposal (fpr_proposal_id p) d = Inr (Some r)" "review_view_of r = Inr v"
        "hrv_decision v = HR_APPROVE" "hrv_review_id v = hrr_review_id r" "hrv_proposal_id v = py_strip (fpr_proposal_id p)"
        "hrv_content_fingerprint v = py_strip (fpr_content_fingerprint p)" "hrv_actor_type v = HUMAN_OPERATOR_ACTOR"
        "\<not> blank (hrr_review_id r)" .
  have id: "\<not> blank (new_id k)" for k using ids(1) by (simp add: uuids_def norm_text_def)
  note pid = proposal_found(2) [OF ok p(1)]
  have init: "post_init_finding_proposal_record p = Inr p" "distinct (map fpr_proposal_id (db_proposals d))"
    using ledger_okD(2) [OF ok] p(1) by (auto simp: proposals_ok_def)
  have run: "has_run (fpr_research_run_id p) d" "\<not> blank (fpr_research_run_id p)"
    using ledger_okD(7) [OF ok] p(1) init(1)
    by (fastforce simp: runs_ok_def has_run_def list_ex_iff image_iff, simp add: post_init_finding_proposal_record_def raise_first_Inr_iff)
  have approval: "approval_view_for command (new_id ''approval'') ?subject (Some v) = Inr (Some ?a)"
    using command id r'(3) approval_subject_not_blank
    by (simp add: approval_view_for_def post_init_approval_view_def run_steps raise_first_Inr_iff id_check_def)
  have "approved_for ?subject (Some ?a)" by (simp add: approved_for_def human_record_for_def)
  then obtain e where e: "evaluate_recorded_approval (Some ?a) ?subject = Inr e" "rae_valid_record e" "rae_authorizes e"
    by (rule evaluate_recorded_approval_ok [OF approval_subject_not_blank])
  obtain x where x: "creation_context_for command c CS_VALIDATED p FPS_HUMAN_REVIEW ?subject (Some v) (Some ?a) e = Inr x"
    using creation_context_ok [OF init(1) c(5,6) approval_subject_not_blank] by blast
  have "fcd_outcome (evaluate_finding_creation x) = FC_CREATED \<and> fcd_creates_finding (evaluate_finding_creation x) \<and>
      fcd_proposal_state (evaluate_finding_creation x) = FPS_APPROVED"
    using creation_context_for_Inr [OF x] e(2,3) r'(3,5-7) command(1)
    by (intro conjI evaluate_finding_creation_approved [where v = v]) (simp_all add: HUMAN_OPERATOR_ACTOR_def)
  then have creation: "fcd_outcome (evaluate_finding_creation x) = FC_CREATED"
      "fcd_creates_finding (evaluate_finding_creation x)" "fcd_proposal_state (evaluate_finding_creation x) = FPS_APPROVED"
    by simp_all
  obtain row event where d1: "store_approval command p v ?a new_id clock d =
      Inr (d\<lparr>db_approvals := db_approvals d @ [row], db_audit_events := db_audit_events d @ [event]\<rparr>)"
      "apr_approval_id row = new_id ''approval''" "aer_audit_event_id event = new_id ''approval event''"
    using store_approval_ok [of ?a command p v d new_id clock] ids(2) id command(2) run pid r'(4,8) r(1) p(1)
      approval_subject_not_blank subject_unused [OF ok p sha] by (auto simp: fresh_ids_def)
  let ?d1 = "d\<lparr>db_approvals := db_approvals d @ [row], db_audit_events := db_audit_events d @ [event]\<rparr>"
  let ?d2 = "?d1\<lparr>db_proposals := with_proposal_state (fpr_proposal_id p) FPS_APPROVED (db_proposals d)\<rparr>"
  have "get_proposal (fpr_proposal_id p) d = Inr (Some p)" by (rule proposal_found(1) [OF ok p(1)])
  then have "filter (\<lambda>r. fpr_proposal_id r = fpr_proposal_id p) (db_proposals d) = [p]"
    using pid by (simp add: get_proposal_def fetch_one_def one_or_none_Some)
  then have d2: "set_proposal_state (fpr_proposal_id p) ''APPROVED'' ?d1 = Inr ?d2"
    using pid by (simp add: set_proposal_state_def with_proposal_state_def ALLOWED_FINDING_PROPOSAL_STATES_def)
  obtain f event' where d3: "store_finding c p v (new_id ''approval'') (new_id ''finding'') new_id clock ?d2 =
      Inr (?d2\<lparr>db_findings := db_findings ?d2 @ [f], db_audit_events := db_audit_events ?d2 @ [event']\<rparr>)"
      "fr_finding_id f = new_id ''finding''" "fr_finding_proposal_id f = fpr_proposal_id p"
    using store_finding_ok [of "new_id ''approval''" "new_id ''finding''" p c v ?d2 new_id clock] ids(2) id init(1) c(4,5)
      r'(4,8) r(1) no_finding p(1) run(1) d1(2,3)
    by (auto simp: fresh_ids_def has_run_def)
  have "(FPS_HUMAN_REVIEW, FPS_APPROVED) \<in> set LEGAL_FINDING_PROPOSAL_TRANSITIONS"
    by (simp add: LEGAL_FINDING_PROPOSAL_TRANSITIONS_def)
  then have "transition_finding_proposal FPS_HUMAN_REVIEW FPS_APPROVED = Inr FPS_APPROVED"
    by (simp add: transition_finding_proposal_def)
  then show ?thesis
    using c(1,2) r'(1,2) approval e(1) x creation d1(1) d2 d3
    by (intro exI [of _ "\<lparr>ffr_outcome = FC_CREATED, ffr_proposal_id = fpr_proposal_id p, ffr_proposal_state = FPS_APPROVED,
          ffr_finding_id = Some (new_id ''finding''), ffr_approval_id = Some (new_id ''approval''),
          ffr_reason_codes = fcd_reason_codes (evaluate_finding_creation x)\<rparr>"]
        exI [of _ "?d2\<lparr>db_findings := db_findings ?d2 @ [f], db_audit_events := db_audit_events ?d2 @ [event']\<rparr>"] exI [of _ f])
      (simp add: decide_proposal_def REJECTING_OUTCOMES_def)
qed

section \<open>Properties\<close>

text \<open>
  C4. An approved proposal becomes a Finding.  In every reachable database, when a proposal waits for its
  decision and its human review approves it, \<open>finalize_finding\<close> by a human operator returns, for new
  identities not in use and digests of a fixed length: it creates exactly one Finding, for that proposal.
\<close>

theorem approved_proposal_becomes_finding:
  assumes "reachable sha d" "p \<in> set (db_proposals d)" "fpr_state p = ''HUMAN_REVIEW''"
    "r \<in> set (db_reviews d)" "hrr_proposal_id r = fpr_proposal_id p" "hrr_decision r = ''APPROVE''"
    "ffc_proposal_id command = fpr_proposal_id p" "ffc_actor_type command = HUMAN_OPERATOR"
    "\<not> blank (ffc_decided_by command)" "uuids new_id" "fresh_ids new_id d" "\<And>x. length (sha x) = n"
  shows "\<exists>res d' f. finalize_finding command new_id clock d = Inr (res, d') \<and>
    ffr_outcome res = FC_CREATED \<and> ffr_finding_id res = Some (fr_finding_id f) \<and>
    db_findings d' = db_findings d @ [f] \<and> fr_finding_proposal_id f = fpr_proposal_id p"
proof -
  note ok = reachable_ok [OF assms(1)]
  have none: "fpr_proposal_id p \<notin> fr_finding_proposal_id ` set (db_findings d)"
    using finding_of_approved [OF ok _ assms(2)] assms(3) by fastforce
  then have "get_finding_by_proposal (fpr_proposal_id p) d = Inr None"
    unfolding get_finding_by_proposal_def by (rule fetch_one_absent) (rule proposal_found(2) [OF ok assms(2)])
  moreover have "finding_proposal_state_of (fpr_state p) = Some FPS_HUMAN_REVIEW"
    using assms(3) by (simp add: finding_proposal_state_of_Some)
  ultimately have "finalize_finding command new_id clock d = decide_proposal command p FPS_HUMAN_REVIEW new_id clock d"
    using proposal_found(1) [OF ok assms(2)] assms(7) by (simp add: finalize_finding_def)
  then show ?thesis
    using decide_proposal_approved [OF ok assms(2-6,8-12) none, of clock] by simp
qed

theorem approved_proposal_becomes_finding_witness:
  "\<exists>res d' f. finalize_finding (lab_command HUMAN_OPERATOR) lab_id lab_clock (lab_db4 HR_APPROVE) = Inr (res, d') \<and>
     ffr_outcome res = FC_CREATED \<and> db_findings d' = [f]"
proof -
  have rows: "lab_proposal FPS_HUMAN_REVIEW \<in> set (db_proposals (lab_db4 HR_APPROVE))"
      "lab_review HR_APPROVE \<in> set (db_reviews (lab_db4 HR_APPROVE))" "db_findings (lab_db4 HR_APPROVE) = []"
    by (simp_all add: lab_db4_def lab_db3_def lab_db2_def lab_db1_def lab_db_def empty_db_def)
  have states: "fpr_state (lab_proposal FPS_HUMAN_REVIEW) = ''HUMAN_REVIEW''" "hrr_decision (lab_review HR_APPROVE) = ''APPROVE''"
      "hrr_proposal_id (lab_review HR_APPROVE) = fpr_proposal_id (lab_proposal FPS_HUMAN_REVIEW)"
      "ffc_proposal_id (lab_command HUMAN_OPERATOR) = fpr_proposal_id (lab_proposal FPS_HUMAN_REVIEW)"
      "ffc_actor_type (lab_command HUMAN_OPERATOR) = HUMAN_OPERATOR" "\<not> blank (ffc_decided_by (lab_command HUMAN_OPERATOR))"
    by (simp_all add: lab_proposal_def lab_review_def lab_command_def blank_iff_all_space py_space_def)
  have fresh: "fresh_ids lab_id (lab_db4 HR_APPROVE)"
    by (simp add: fresh_ids_def lab_db4_def lab_db3_def lab_db2_def lab_db1_def lab_db_def empty_db_def lab_event_def lab_id_def)
  have sha: "length (lab_sha x) = 6" for x by (simp add: lab_sha_def)
  from approved_proposal_becomes_finding [OF lab_reachable rows(1) states(1) rows(2) states(3,2,4,5,6) lab_uuids fresh sha,
      of lab_clock] rows(3)
  show ?thesis by auto
qed

end
