(* ===== verification/Submission.thy ===== *)
theory Submission
  imports Use_Case_Effects Lab_Run
begin

text \<open>
  What a stored finding proposal has passed: the validation tiers recorded in the audit log
  (\<open>application/validation_audit.py\<close>) and the checks of its impact claims against the evidence ledger
  (\<open>application/submit_finding_proposal.py\<close>, \<open>application/impact/proof_resolver.py\<close>).
\<close>

section \<open>The latest event of a tier\<close>

lemma filterE_Inr: "filterE p xs = Inr ys \<Longrightarrow> ys = filter (\<lambda>x. p x = Inr True) xs"
  by (induction xs arbitrary: ys) (auto simp: bindE_Inr_iff)

lemma mapE_Inr: "mapE f xs = Inr ys \<longleftrightarrow> list_all2 (\<lambda>x y. f x = Inr y) xs ys"
  by (induction xs arbitrary: ys) (auto simp: bindE_Inr_iff list_all2_Cons1)

definition tier_of_event :: "audit_event_record \<Rightarrow> string" where
  "tier_of_event e = payload_text (aer_payload e) ''tier''"

lemma record_latest_lookup:
  "record_latest events acc = Inr latest \<Longrightarrow>
   map_of latest t = (case filter (\<lambda>e. tier_of_event e = validation_tier_value t) events of
     [] \<Rightarrow> map_of acc t | e # es \<Rightarrow> Some (last (e # es)))"
proof (induction events acc rule: record_latest.induct)
  case (2 event events acc)
  then obtain tier where tier: "tier_of_event event = validation_tier_value tier"
      "record_latest events (AList.update tier event acc) = Inr latest"
    by (auto simp: result_simps tier_of_event_def)
  from 2(1) [OF tier(2)] show ?case
    using tier(1) by (auto simp: update_conv' split: list.split)
qed simp

lemma record_latest_distinct:
  "record_latest events acc = Inr latest \<Longrightarrow> distinct (map fst acc) \<Longrightarrow> distinct (map fst latest)"
  by (induction events acc rule: record_latest.induct) (auto simp: result_simps distinct_update)

lemma sorted_le_last: "sorted xs \<Longrightarrow> x \<in> set xs \<Longrightarrow> x \<le> last xs" for x :: "'a::linorder"
  by (induction xs) auto

lemma sort_key_last_max:
  assumes "x \<in> set xs"
  shows "f x \<le> f (last (sort_key f xs))"
proof -
  have "f x \<le> last (map f (sort_key f xs))" using assms by (intro sorted_le_last) simp_all
  moreover have "sort_key f xs \<noteq> []" using assms by (metis empty_iff list.set(1) set_sort)
  ultimately show ?thesis by (simp add: last_map)
qed

lemma filter_sort_key: "filter P (sort_key f xs) = sort_key f (filter P xs)"
  by (rule filter_sort)

text \<open>The event with the greatest time and id among those of a tier.\<close>

definition tier_record :: "db \<Rightarrow> candidate_record \<Rightarrow> validation_tier \<Rightarrow> audit_event_record \<Rightarrow> bool" where
  "tier_record d c t e \<longleftrightarrow>
     e \<in> set (db_audit_events d) \<and> aer_subject_type e = ''hypothesis'' \<and>
     tier_event (cr_research_run_id c) (cr_hypothesis_id c) e = Inr True \<and> tier_of_event e = validation_tier_value t"

definition latest_record :: "db \<Rightarrow> candidate_record \<Rightarrow> validation_tier \<Rightarrow> audit_event_record \<Rightarrow> bool" where
  "latest_record d c t e \<longleftrightarrow> tier_record d c t e \<and>
     (\<forall>x. tier_record d c t x \<longrightarrow> (aer_occurred_at x, aer_audit_event_id x) \<le> (aer_occurred_at e, aer_audit_event_id e))"

lemma latest_tier_events_lookup:
  assumes "latest_tier_events (cr_research_run_id c) (cr_hypothesis_id c) d = Inr latest" "map_of latest t = Some e"
  shows "latest_record d c t e"
proof -
  let ?key = "\<lambda>e. (aer_occurred_at e, aer_audit_event_id e)"
  obtain listed events where "list_audit_events_for_subject_type ''hypothesis'' d = Inr listed"
      and events: "filterE (tier_event (cr_research_run_id c) (cr_hypothesis_id c)) listed = Inr events"
      and latest: "record_latest (sort_key ?key events) [] = Inr latest"
    using assms(1) by (auto simp: latest_tier_events_def use_case_simps)
  then have listed: "set listed = {x \<in> set (db_audit_events d). aer_subject_type x = ''hypothesis''}"
    by (auto simp: list_audit_events_for_subject_type_def split: if_splits)
  let ?ts = "filter (\<lambda>e. tier_of_event e = validation_tier_value t) events"
  have ts: "tier_record d c t x \<longleftrightarrow> x \<in> set ?ts" for x
    using filterE_Inr [OF events] listed by (auto simp: tier_record_def)
  have e: "sort_key ?key ?ts \<noteq> []" "e = last (sort_key ?key ?ts)"
    using record_latest_lookup [OF latest, of t] assms(2) unfolding filter_sort_key
    by (auto split: list.splits)
  then have "e \<in> set ?ts" by (metis last_in_set set_sort)
  then show ?thesis
    unfolding latest_record_def using ts sort_key_last_max [where f = ?key] e(2) by blast
qed

lemma latest_tier_events_distinct: "latest_tier_events run h d = Inr latest \<Longrightarrow> distinct (map fst latest)"
  by (auto simp: latest_tier_events_def use_case_simps intro: record_latest_distinct)

lemma last_outcome_latest:
  assumes "distinct (map fst latest)"
  shows "last_outcome (map (\<lambda>(tier, event). (validation_tier_value tier, f event)) latest) t = map_option f (map_of latest t)"
proof -
  let ?g = "\<lambda>(tier, event). (validation_tier_value tier, f event)"
  have "map fst (map ?g latest) = map validation_tier_value (map fst latest)" by (simp add: case_prod_beta comp_def)
  moreover have "distinct (map validation_tier_value (map fst latest))"
    using assms by (simp add: distinct_map inj_on_def)
  ultimately have "distinct (map fst (map ?g latest))" by metis
  then have "map_of (rev (map ?g latest)) = map_of (map ?g latest)"
    by (subst map_of_inject_set) (simp_all add: rev_map [symmetric])
  moreover have "map_of (map ?g rows) (validation_tier_value t) = map_option f (map_of rows t)" for rows
    by (induction rows) auto
  ultimately show ?thesis unfolding last_outcome_def by simp
qed

lemma tiers_allow_latest:
  assumes "tiers_allow c d" "cr_classification c \<noteq> DIAGNOSTIC_CANDIDATE_CLASSIFICATION"
  shows "\<exists>e. latest_record d c t e \<and> payload_text (aer_payload e) ''outcome'' = ''PASSED''"
proof -
  obtain view where view: "read_validation_audit_view c d = Inr view"
      and allow: "case vav_decision view of None \<Rightarrow> True | Some v \<Rightarrow> vad_admitted v"
    using assms(1) by (auto simp: tiers_allow_def)
  obtain latest decision where latest: "latest_tier_events (cr_research_run_id c) (cr_hypothesis_id c) d = Inr latest"
      and decision: "(case map_of SECURITY_CANDIDATE_REQUIRED_TIER (cr_classification c) of
               None \<Rightarrow> validate_required_tiers (validation_tier_value VT_V3) []
             | Some required \<Rightarrow> validate_required_tiers (validation_tier_value required)
                 (map (\<lambda>(tier, event). (validation_tier_value tier, payload_text (aer_payload event) ''outcome'')) latest))
          = Inr decision" and "vad_admitted decision"
    using view allow assms(2) by (auto simp: read_validation_audit_view_def use_case_simps run_steps split: if_splits)
  let ?observed = "map (\<lambda>(tier, event). (validation_tier_value tier, payload_text (aer_payload event) ''outcome'')) latest"
  have V3: "map_of SECURITY_CANDIDATE_REQUIRED_TIER k \<in> {None, Some VT_V3}" for k
    by (simp add: SECURITY_CANDIDATE_REQUIRED_TIER_def)
  have "validate_required_tiers (validation_tier_value VT_V3) [] = Inr decision \<or>
      validate_required_tiers (validation_tier_value VT_V3) ?observed = Inr decision"
    using decision V3 [of "cr_classification c"] by (auto split: option.splits)
  moreover have passed: "last_outcome observed t = Some ''PASSED''"
    if "validate_required_tiers (validation_tier_value VT_V3) observed = Inr decision" for observed
    using validate_required_tiers_admits [OF that] \<open>vad_admitted decision\<close> by (cases t) simp_all
  ultimately have "last_outcome [] t = Some ''PASSED'' \<or> last_outcome ?observed t = Some ''PASSED''"
    using passed by blast
  then have "map_option (\<lambda>e. payload_text (aer_payload e) ''outcome'') (map_of latest t) = Some ''PASSED''"
    using last_outcome_latest [OF latest_tier_events_distinct [OF latest]] by (auto simp: last_outcome_def)
  then show ?thesis using latest_tier_events_lookup [OF latest] by (cases "map_of latest t") auto
qed

section \<open>Impact claims and the evidence ledger\<close>

lemma claim_scope_capabilities:
  "map_of CLAIM_SCOPE_TO_CAPABILITIES s = Some cs \<longleftrightarrow>
     (s = HTTP_AUTHORIZATION_DIFFERENTIAL_CLAIM \<and> cs = [''READ_OTHER_OBJECT'']) \<or>
     (s = HTTP_STATE_TRANSITION_CLAIM \<and> cs = [''WORKFLOW_TRANSITION_WITHOUT_AUTH''])"
  by (auto simp: CLAIM_SCOPE_TO_CAPABILITIES_def HTTP_AUTHORIZATION_DIFFERENTIAL_CLAIM_def HTTP_STATE_TRANSITION_CLAIM_def)

text \<open>A capability comes from evidence only, and from its claim.\<close>

lemma ledger_resolver_capability:
  assumes "ledger_resolver d i run = Inr (Some r)" "cap \<in> set (pr_demonstrated_capabilities r)"
  shows "\<exists>e \<in> set (db_evidence d). er_evidence_id e = i \<and> pr_research_run_id r = py_strip (er_research_run_id e) \<and>
    (er_claim_scope e = HTTP_AUTHORIZATION_DIFFERENTIAL_CLAIM \<and> cap = ''READ_OTHER_OBJECT'' \<or>
     er_claim_scope e = HTTP_STATE_TRANSITION_CLAIM \<and> cap = ''WORKFLOW_TRANSITION_WITHOUT_AUTH'')"
proof -
  obtain e where "get_evidence i d = Inr (Some e)" "resolve_evidence e = Inr r"
    using assms
    by (auto simp: ledger_resolver_def use_case_simps run_steps post_init_proof_record_def split: option.splits)
  moreover from this(2) have "pr_research_run_id r = py_strip (er_research_run_id e)"
      "pr_demonstrated_capabilities r = (case map_of CLAIM_SCOPE_TO_CAPABILITIES (er_claim_scope e) of None \<Rightarrow> [] | Some cs \<Rightarrow> cs)"
    by (auto simp: resolve_evidence_def post_init_proof_record_def run_steps)
  moreover from this obtain cs where "map_of CLAIM_SCOPE_TO_CAPABILITIES (er_claim_scope e) = Some cs" "cap \<in> set cs"
    using assms(2) by (auto split: option.splits)
  ultimately show ?thesis using get_evidence_Some [of i d e] by (auto simp: claim_scope_capabilities)
qed

lemma node_capabilities_from_proofs:
  "node_capabilities resolve run ps = Inr (Inr caps) \<Longrightarrow> cap \<in> set caps \<Longrightarrow>
   \<exists>i \<in> set ps. \<exists>r. resolve i run = Inr (Some r) \<and> pr_research_run_id r = run \<and> cap \<in> set (pr_demonstrated_capabilities r)"
proof (induction ps arbitrary: caps)
  case (Cons i ps)
  from Cons.prems(1) obtain found where found: "resolve i run = Inr found" by (auto simp: bindE_Inr_iff)
  with Cons.prems(1) obtain r where r: "found = Some r" "pr_research_run_id r = run"
    by (cases found) (auto split: if_splits)
  with found Cons.prems(1) obtain res where "node_capabilities resolve run ps = Inr res" by (auto simp: bindE_Inr_iff)
  with found r Cons.prems(1) obtain rest where r: "resolve i run = Inr (Some r)" "pr_research_run_id r = run"
      "node_capabilities resolve run ps = Inr (Inr rest)" "caps = pr_demonstrated_capabilities r @ rest"
    by (cases res) auto
  then show ?case using Cons.IH [OF r(3)] Cons.prems(2) by auto
qed simp

lemma scope_codes_Nil:
  "scope_codes resolve run nodes = Inr [] \<Longrightarrow> node \<in> set nodes \<Longrightarrow>
   \<exists>v. validate_impact_scope node resolve run = Inr v \<and> (cv_valid v \<or> cv_reason_codes v = [])"
  by (induction nodes) (auto simp: bindE_Inr_iff split: if_splits)

lemma node_capabilities_rejects:
  "node_capabilities resolve run ps = Inr (Inl v) \<Longrightarrow> \<not> cv_valid v \<and> cv_reason_codes v \<noteq> []"
proof (induction ps)
  case (Cons i ps)
  then show ?case
    by (cases "resolve i run"; cases "node_capabilities resolve run ps")
      (auto split: option.splits if_splits sum.splits)
qed simp

lemma scope_validated_node:
  assumes "validate_chain_impact_scope chain resolve run = Inr v" "cv_valid v" "node \<in> set (ich_nodes chain)"
  obtains caps where "node_capabilities resolve run (in_proof_refs node) = Inr (Inr caps)"
    "kind_supported (set caps) (in_impact_kind node)"
proof -
  have "scope_codes resolve run (ich_nodes chain) = Inr []"
    using assms(1,2) by (auto simp: validate_chain_impact_scope_def bindE_Inr_iff split: if_splits)
  then obtain w where w: "validate_impact_scope node resolve run = Inr w" "cv_valid w \<or> cv_reason_codes w = []"
    using scope_codes_Nil assms(3) by blast
  then obtain res where "node_capabilities resolve run (in_proof_refs node) = Inr res"
    by (auto simp: validate_impact_scope_def bindE_Inr_iff)
  with w that show ?thesis
    by (cases res) (auto simp: validate_impact_scope_def allowed_kinds_iff dest: node_capabilities_rejects split: if_splits)
qed

text \<open>What evidence in the ledger supports which impact.\<close>

definition evidence_supports_impact :: "db \<Rightarrow> string \<Rightarrow> impact_node \<Rightarrow> bool" where
  "evidence_supports_impact d run node \<longleftrightarrow>
     (\<exists>e \<in> set (db_evidence d). er_evidence_id e \<in> set (in_proof_refs node) \<and> py_strip (er_research_run_id e) = run \<and>
        (er_claim_scope e = HTTP_AUTHORIZATION_DIFFERENTIAL_CLAIM \<and> in_impact_kind node \<in> {IK_DATA_READ, IK_AUTH_BYPASS} \<or>
         er_claim_scope e = HTTP_STATE_TRANSITION_CLAIM \<and> in_impact_kind node \<in> {IK_STATE_CORRUPTION, IK_AUTH_BYPASS}))"

lemma scope_validated_support:
  assumes "validate_chain_impact_scope chain (ledger_resolver d) run = Inr v" "cv_valid v" "node \<in> set (ich_nodes chain)"
  shows "evidence_supports_impact d run node"
proof -
  obtain caps where caps: "node_capabilities (ledger_resolver d) run (in_proof_refs node) = Inr (Inr caps)"
      "kind_supported (set caps) (in_impact_kind node)"
    using scope_validated_node [OF assms] .
  have support: "\<exists>e \<in> set (db_evidence d). er_evidence_id e \<in> set (in_proof_refs node) \<and> py_strip (er_research_run_id e) = run \<and>
      (er_claim_scope e = HTTP_AUTHORIZATION_DIFFERENTIAL_CLAIM \<and> cap = ''READ_OTHER_OBJECT'' \<or>
       er_claim_scope e = HTTP_STATE_TRANSITION_CLAIM \<and> cap = ''WORKFLOW_TRANSITION_WITHOUT_AUTH'')"
    if cap: "cap \<in> set caps" for cap
  proof -
    obtain i r where "i \<in> set (in_proof_refs node)" "ledger_resolver d i run = Inr (Some r)" "pr_research_run_id r = run"
        "cap \<in> set (pr_demonstrated_capabilities r)"
      using node_capabilities_from_proofs [OF caps(1) cap] by blast
    with ledger_resolver_capability [OF this(2,4)] show ?thesis by auto
  qed
  then have only: "set caps \<subseteq> {''READ_OTHER_OBJECT'', ''WORKFLOW_TRANSITION_WITHOUT_AUTH''}" by blast
  then consider "''READ_OTHER_OBJECT'' \<in> set caps" "in_impact_kind node \<in> {IK_DATA_READ, IK_AUTH_BYPASS}"
    | "''WORKFLOW_TRANSITION_WITHOUT_AUTH'' \<in> set caps" "in_impact_kind node \<in> {IK_STATE_CORRUPTION, IK_AUTH_BYPASS}"
    using caps(2) by (cases "in_impact_kind node") (auto simp: kind_supported_def)
  then show ?thesis
  proof cases
    case 1
    then show ?thesis using support [OF 1(1)] by (auto simp: evidence_supports_impact_def)
  next
    case 2
    then show ?thesis using support [OF 2(1)] by (auto simp: evidence_supports_impact_def)
  qed
qed

lemma post_init_impact_chain_nodes: "post_init_impact_chain c = Inr c' \<Longrightarrow> ich_nodes c' \<noteq> []"
  by (auto simp: post_init_impact_chain_def Let_def bindE_Inr_iff split: if_splits option.splits bool.splits)

lemma rebuild_impact_chain_nodes: "rebuild_impact_chain r d = Inr chain \<Longrightarrow> ich_nodes chain \<noteq> []"
  unfolding rebuild_impact_chain_def bindE_Inr_iff mapErr_Inr_iff using post_init_impact_chain_nodes by blast

lemma validate_impact_claim_Inr:
  "validate_impact_claim run d claim = Inr i \<Longrightarrow>
     i = ic_chain_id claim \<and> (\<exists>record chain v. get_impact_chain i d = Inr (Some record) \<and> icr_research_run_id record = run \<and>
       rebuild_impact_chain record d = Inr chain \<and> validate_chain_impact_scope chain (ledger_resolver d) run = Inr v \<and> cv_valid v)"
  by (auto simp: validate_impact_claim_def use_case_simps run_steps split: if_splits)

section \<open>A security submission in the laboratory\<close>

definition lab_tier_event :: "string \<Rightarrow> int \<Rightarrow> string \<Rightarrow> audit_event_record" where
  "lab_tier_event tier at outcome = \<lparr>aer_audit_event_id = tier @ outcome, aer_occurred_at = at, aer_actor_id = ''v'',
     aer_actor_type = ''CONTROL_PLANE'', aer_event_type = ''VALIDATION'', aer_subject_type = ''hypothesis'',
     aer_subject_id = ''h'', aer_payload = [(''tier'', JStr tier), (''outcome'', JStr outcome)],
     aer_correlation_id = Some ''run''\<rparr>"

definition lab_security_db :: db where
  "lab_security_db = lab_db\<lparr>
     db_evidence := map (\<lambda>e. e\<lparr>er_claim_scope := HTTP_AUTHORIZATION_DIFFERENTIAL_CLAIM\<rparr>) (db_evidence lab_db),
     db_candidates := [(lab_candidate CS_VALIDATED)\<lparr>cr_claim := HTTP_AUTHORIZATION_DIFFERENTIAL_CLAIM,
       cr_classification := HTTP_AUTHORIZATION_DIFFERENTIAL_CLASSIFICATION\<rparr>],
     db_verifications := [lab_verification],
     db_audit_events := [lab_tier_event ''V1'' 1 ''PASSED'', lab_tier_event ''V2'' 2 ''REJECTED'',
       lab_tier_event ''V2'' 3 ''PASSED'', lab_tier_event ''V3'' 4 ''PASSED''],
     db_impact_chains := [\<lparr>icr_chain_id = ''ch'', icr_research_run_id = ''run'', icr_program_id = ''prog'',
       icr_graph_hash = None, icr_created_at = 0\<rparr>],
     db_impact_nodes := [\<lparr>icn_node_id = ''n'', icn_chain_id = ''ch'', icn_impact_kind = ''DATA_READ'',
       icn_claim_text = ''reads'', icn_scope_ref = [(''research_run_id'', JStr ''run''), (''program_id'', JStr ''prog''),
         (''target_reference'', JStr ''lab'')], icn_proof_refs = [''e-x1''], icn_ordering = 0, icn_created_at = 0\<rparr>]\<rparr>"

definition lab_security_submit :: "app_error + submit_finding_proposal_result \<times> db" where
  "lab_security_submit = submit_finding_proposal lab_sha ''actor'' \<lparr>sfc_candidate_id = ''<candidate>'',
     sfc_draft = Some \<lparr>fpd_proposal_id = ''p'', fpd_candidate_id = ''<candidate>'', fpd_research_run_id = ''run'',
       fpd_title = HTTP_AUTHORIZATION_DIFFERENTIAL_FINDING_TITLE, fpd_claim = HTTP_AUTHORIZATION_DIFFERENTIAL_CLAIM,
       fpd_evidence_ids = [''e-x1''], fpd_verification_ids = [''<verification>''], fpd_rationale = [],
       fpd_provenance = [], fpd_impact_claims = [\<lparr>ic_claim_text = ''reads'', ic_impact_kind = ''DATA_READ'',
         ic_chain_id = ''ch''\<rparr>]\<rparr>\<rparr> lab_id lab_clock lab_security_db"

definition submits_with_impact :: "app_error + submit_finding_proposal_result \<times> db \<Rightarrow> bool" where
  "submits_with_impact m = (case m of Inl _ \<Rightarrow> False
     | Inr (r, d) \<Rightarrow> sfr_proposal_id r = Some ''p'' \<and> map fpr_impact_chain_ids (db_proposals d) = [[''ch'']])"

lemma lab_security_submits: "submits_with_impact lab_security_submit"
  by code_simp

lemma lab_security_run:
  obtains res d p where "lab_security_submit = Inr (res, d)" "sfr_proposal_id res \<noteq> None"
    "db_proposals d = db_proposals lab_security_db @ [p]" "''ch'' \<in> set (fpr_impact_chain_ids p)"
proof -
  obtain res d where run: "lab_security_submit = Inr (res, d)" "sfr_proposal_id res = Some ''p''"
      "map fpr_impact_chain_ids (db_proposals d) = [[''ch'']]"
    using lab_security_submits by (auto simp: submits_with_impact_def split: sum.splits prod.splits)
  then obtain p where "db_proposals d = [p]" "fpr_impact_chain_ids p = [''ch'']" by (auto simp: map_eq_Cons_conv)
  with run show ?thesis by (intro that [of res d p]) (simp_all add: lab_security_db_def lab_db_def empty_db_def)
qed

section \<open>Properties\<close>

text \<open>
  C6. A proposal is stored only after validation.  When \<open>submit_finding_proposal\<close> stores a proposal, its
  Candidate is VALIDATED, and either the Candidate has the diagnostic classification, of which no tier is
  asked, or the latest event recorded in the audit log for each of the tiers V1, V2 and V3 of its hypothesis
  in its run says PASSED: there a newer rejection, an inconclusive or a missing tier stops it.
\<close>

theorem submission_requires_validation:
  assumes "submit_finding_proposal sha who command new_id clock d = Inr (res, d')" "sfr_proposal_id res \<noteq> None"
  shows "\<exists>c \<in> set (db_candidates d). cr_candidate_id c = sfc_candidate_id command \<and> cr_state c = ''VALIDATED'' \<and>
    (cr_classification c = DIAGNOSTIC_CANDIDATE_CLASSIFICATION \<or>
     (\<forall>t. \<exists>e. latest_record d c t e \<and> payload_text (aer_payload e) ''outcome'' = ''PASSED''))"
  using assms(1)
proof (cases rule: submit_finding_proposal_effect)
  case (stored p evs c draft)
  then show ?thesis using tiers_allow_latest [OF stored(6)] by blast
qed (use assms(2) in simp)

theorem submission_requires_validation_witness:
  "\<exists>c e. cr_state c = ''VALIDATED'' \<and> latest_record lab_security_db c VT_V2 e \<and>
     payload_text (aer_payload e) ''outcome'' = ''PASSED''"
proof -
  obtain res d p where "lab_security_submit = Inr (res, d)" "sfr_proposal_id res \<noteq> None"
    and "db_proposals d = db_proposals lab_security_db @ [p]" "''ch'' \<in> set (fpr_impact_chain_ids p)"
    by (rule lab_security_run)
  from submission_requires_validation [OF this(1) [unfolded lab_security_submit_def] this(2)] obtain c where
      c: "c \<in> set (db_candidates lab_security_db)" "cr_state c = ''VALIDATED''"
        "cr_classification c = DIAGNOSTIC_CANDIDATE_CLASSIFICATION \<or>
         (\<forall>t. \<exists>e. latest_record lab_security_db c t e \<and> payload_text (aer_payload e) ''outcome'' = ''PASSED'')"
    by blast
  from c(1) have "cr_classification c \<noteq> DIAGNOSTIC_CANDIDATE_CLASSIFICATION"
    by (simp add: lab_security_db_def classification_defs)
  with c(2,3) show ?thesis by blast
qed

text \<open>
  C10. A stored proposal claims only the impact its evidence shows.  Every impact chain of a proposal that
  \<open>submit_finding_proposal\<close> stores is a chain of the proposal's own run, and for each of its nodes the
  ledger holds evidence of that run, named by the node, whose claim supports the node's kind: object reads
  for DATA_READ and AUTH_BYPASS, workflow transitions for STATE_CORRUPTION and AUTH_BYPASS.  No other kind
  of impact is accepted.
\<close>

theorem submitted_impact_is_shown:
  assumes "submit_finding_proposal sha who command new_id clock d = Inr (res, d')"
    "db_proposals d' = db_proposals d @ [p]" "i \<in> set (fpr_impact_chain_ids p)"
  shows "\<exists>record chain. get_impact_chain i d = Inr (Some record) \<and> icr_research_run_id record = fpr_research_run_id p \<and>
    rebuild_impact_chain record d = Inr chain \<and>
    (\<forall>node \<in> set (ich_nodes chain). evidence_supports_impact d (fpr_research_run_id p) node)"
  using assms(1)
proof (cases rule: submit_finding_proposal_effect)
  case (stored q evs c draft)
  then have "q = p" using assms(2) by simp
  with stored(11) obtain claim where "validate_impact_claim (fpr_research_run_id p) d claim = Inr i"
    using assms(3) by (auto simp: validate_impact_claims_def mapE_Inr list_all2_conv_all_nth in_set_conv_nth)
  from validate_impact_claim_Inr [OF this] show ?thesis using scope_validated_support by blast
qed (use assms(2) in simp)

theorem submitted_impact_is_shown_witness:
  "\<exists>node. in_impact_kind node \<in> {IK_DATA_READ, IK_AUTH_BYPASS, IK_STATE_CORRUPTION} \<and>
     evidence_supports_impact lab_security_db ''run'' node"
proof -
  obtain res d p where run: "lab_security_submit = Inr (res, d)" "sfr_proposal_id res \<noteq> None"
      "db_proposals d = db_proposals lab_security_db @ [p]" "''ch'' \<in> set (fpr_impact_chain_ids p)"
    by (rule lab_security_run)
  from submitted_impact_is_shown [OF run(1) [unfolded lab_security_submit_def] run(3,4)] obtain icr chain where
      row: "get_impact_chain ''ch'' lab_security_db = Inr (Some icr)" "icr_research_run_id icr = fpr_research_run_id p"
      and chain: "rebuild_impact_chain icr lab_security_db = Inr chain"
        "\<forall>node \<in> set (ich_nodes chain). evidence_supports_impact lab_security_db (fpr_research_run_id p) node"
    by blast
  have "fpr_research_run_id p = ''run''"
    using row by (simp add: get_impact_chain_def fetch_one_def one_or_none_def lab_security_db_def split: if_splits) auto
  moreover have "ich_nodes chain \<noteq> []"
    using chain(1) by (rule rebuild_impact_chain_nodes)
  ultimately obtain node where "evidence_supports_impact lab_security_db ''run'' node"
    using chain(2) by (metis list.set_intros(1) neq_Nil_conv)
  then show ?thesis by (auto simp: evidence_supports_impact_def)
qed

end
