(* ===== verification/Budget_Ledger.thy ===== *)
theory Budget_Ledger
  imports App_Candidate Core_Budget "HOL-Library.Multiset"
begin

text \<open>
  The append-only budget ledger (\<open>data/budget_ledger.py\<close>), the records it is made of
  (\<open>data/records.py\<close>) and their tables and repositories (\<open>data/postgres/tables.py\<close>,
  \<open>data/postgres/repositories.py\<close>).  Amounts are Python integers; the \<open>Integer\<close> columns they are
  written to hold 32-bit values.
\<close>

section \<open>Records\<close>

record issued_budget_record =
  ibr_budget_id :: string
  ibr_research_run_id :: "string option"
  ibr_max_requests :: int
  ibr_max_tool_calls :: int
  ibr_max_runtime_ms :: int
  ibr_max_concurrency :: int
  ibr_issued_at :: int

definition post_init_issued_budget_record :: "issued_budget_record \<Rightarrow> persistence_error + issued_budget_record" where
  "post_init_issued_budget_record r = raise_first
     [bad_id (ibr_budget_id r) ''budget_id'', bad_opt_id (ibr_research_run_id r) ''research_run_id'',
      bad_int (ibr_max_requests r) ''max_requests'', bad_int (ibr_max_tool_calls r) ''max_tool_calls'',
      bad_int (ibr_max_runtime_ms r) ''max_runtime_ms'', bad_int (ibr_max_concurrency r) ''max_concurrency''] r"

record program_policy_record =
  ppr_program_id :: string
  ppr_loopback_fixture :: bool
  ppr_max_response_bytes :: int
  ppr_timeout_ms :: int
  ppr_created_at :: int
  ppr_updated_at :: int
  ppr_action_policy :: "payload option"
  ppr_daily_llm_budget_microdollars :: "int option"

definition post_init_program_policy_record :: "program_policy_record \<Rightarrow> persistence_error + program_policy_record" where
  "post_init_program_policy_record r = raise_first
     [bad_id (ppr_program_id r) ''program_id'', bad_int (ppr_max_response_bytes r) ''max_response_bytes'',
      bad_int (ppr_timeout_ms r) ''timeout_ms'', bad_opt_secrets (ppr_action_policy r) ''action_policy'',
      (case ppr_daily_llm_budget_microdollars r of None \<Rightarrow> (False, PersistenceInputError [])
       | Some n \<Rightarrow> bad_int n ''daily_llm_budget_microdollars'')] r"

definition ALLOWED_ORCHESTRATION_STATES :: "string list" where
  "ALLOWED_ORCHESTRATION_STATES =
     [''READY'', ''RUNNING'', ''PAUSED'', ''WAITING_HUMAN'', ''BLOCKED'', ''BUDGET_EXHAUSTED'', ''COMPLETED'',
      ''FAILED_OPERATIONAL'']"

definition ALLOWED_ORCHESTRATION_PHASES :: "string list" where
  "ALLOWED_ORCHESTRATION_PHASES =
     [''CYCLE_READY'', ''OPPORTUNITY_SELECTED'', ''HYPOTHESIS_ADMITTED'', ''EXPERIMENT_PLANNED'',
      ''AUTHORIZATION_REQUESTED'', ''ATTEMPT_AUTHORIZED'', ''DISPATCHING'', ''WORKER_RESULT_RECORDED'',
      ''TRANSITION_A_COMPLETE'', ''ASSESSMENT_COMPLETE'', ''TRANSITION_B_COMPLETE'', ''CYCLE_COMPLETE'']"

record research_orchestration_record =
  ror_research_run_id :: string
  ror_state :: string
  ror_cycle_number :: int
  ror_last_phase :: string
  ror_policy_version :: string
  ror_max_cycles :: int
  ror_max_experiments :: int
  ror_max_model_calls :: int
  ror_max_worker_invocations :: int
  ror_max_elapsed_ms :: int
  ror_max_selected_opportunities :: int
  ror_max_runtime_fallback :: int
  ror_side_effect_ceiling :: int
  ror_allow_repeated_control_experiments :: bool
  ror_created_at :: int
  ror_updated_at :: int
  ror_checkpoint_at :: int
  ror_budget_id :: string
  ror_target_reference :: string
  ror_research_question :: string
  ror_configuration_fingerprint :: string
  ror_current_phase :: string
  ror_last_opportunity_id :: "string option"
  ror_last_hypothesis_id :: "string option"
  ror_last_experiment_id :: "string option"
  ror_pause_reason :: "string option"
  ror_stop_reason :: "string option"
  ror_active_cycle_id :: "string option"
  ror_last_attempt_id :: "string option"
  ror_last_observation_id :: "string option"
  ror_last_assessment_id :: "string option"
  ror_last_worker_result_id :: "string option"
  ror_routing_policy_version :: "string option"
  ror_scope_fingerprint :: "string option"

definition post_init_research_orchestration_record ::
    "research_orchestration_record \<Rightarrow> persistence_error + research_orchestration_record" where
  "post_init_research_orchestration_record r = raise_first
     [bad_id (ror_research_run_id r) ''research_run_id'', bad_id (ror_budget_id r) ''budget_id'',
      bad_member (ror_state r) ALLOWED_ORCHESTRATION_STATES ''state is not an orchestration state'',
      bad_int (ror_cycle_number r) ''cycle_number'', bad_int (ror_max_cycles r) ''max_cycles'',
      bad_int (ror_max_experiments r) ''max_experiments'', bad_int (ror_max_model_calls r) ''max_model_calls'',
      bad_int (ror_max_worker_invocations r) ''max_worker_invocations'', bad_int (ror_max_elapsed_ms r) ''max_elapsed_ms'',
      bad_int (ror_max_selected_opportunities r) ''max_selected_opportunities'',
      bad_int (ror_max_runtime_fallback r) ''max_runtime_fallback'',
      (ror_side_effect_ceiling r \<notin> {0, 1, 2, 3}, PersistenceInputError ''side_effect_ceiling must be 0, 1, 2, or 3''),
      bad_text (ror_last_phase r) ''last_phase'',
      bad_member (ror_current_phase r) ALLOWED_ORCHESTRATION_PHASES ''current_phase is not an orchestration phase'',
      bad_text (ror_policy_version r) ''policy_version'', bad_text (ror_target_reference r) ''target_reference'',
      bad_text (ror_research_question r) ''research_question'',
      (length (ror_configuration_fingerprint r) \<noteq> 64,
       PersistenceInputError ''configuration_fingerprint must be a SHA-256 hex digest''),
      bad_opt_id (ror_last_opportunity_id r) ''last_opportunity_id'',
      bad_opt_id (ror_last_hypothesis_id r) ''last_hypothesis_id'',
      bad_opt_id (ror_last_experiment_id r) ''last_experiment_id'',
      bad_opt_id (ror_active_cycle_id r) ''active_cycle_id'', bad_opt_id (ror_last_attempt_id r) ''last_attempt_id'',
      bad_opt_id (ror_last_observation_id r) ''last_observation_id'',
      bad_opt_id (ror_last_assessment_id r) ''last_assessment_id'',
      bad_opt_id (ror_last_worker_result_id r) ''last_worker_result_id'',
      bad_opt_text (ror_pause_reason r) ''pause_reason'', bad_opt_text (ror_stop_reason r) ''stop_reason'',
      bad_opt_text (ror_routing_policy_version r) ''routing_policy_version'',
      (case ror_scope_fingerprint r of None \<Rightarrow> False | Some s \<Rightarrow> length s \<noteq> 64,
       PersistenceInputError ''scope_fingerprint must be a SHA-256 hex digest when set'')] r"

definition ALLOWED_BUDGET_RESOURCE_TYPES :: "string list" where
  "ALLOWED_BUDGET_RESOURCE_TYPES =
     [''MODEL_CALL'', ''MODEL_TOKENS_IN'', ''MODEL_TOKENS_OUT'', ''MODEL_ESCALATION_DECISION'', ''WORKER_INVOCATION'',
      ''REQUEST'', ''EXECUTION_TIME'', ''ARTIFACT_BYTES'', ''COST'']"

definition ALLOWED_BUDGET_UNITS :: "string list" where
  "ALLOWED_BUDGET_UNITS = [''count'', ''milliseconds'', ''bytes'']"

definition COUNTED_RESOURCES :: "string list" where
  "COUNTED_RESOURCES =
     [''REQUEST'', ''MODEL_CALL'', ''WORKER_INVOCATION'', ''MODEL_TOKENS_IN'', ''MODEL_TOKENS_OUT'', ''MODEL_ESCALATION_DECISION'']"

record budget_consumption_record =
  bcr_consumption_id :: string
  bcr_budget_id :: string
  bcr_research_run_id :: "string option"
  bcr_resource_type :: string
  bcr_amount :: int
  bcr_unit :: string
  bcr_occurred_at :: int
  bcr_provenance :: string
  bcr_experiment_id :: "string option"
  bcr_request_id :: "string option"
  bcr_resource_metadata :: "payload option"

definition post_init_budget_consumption_record ::
    "budget_consumption_record \<Rightarrow> persistence_error + budget_consumption_record" where
  "post_init_budget_consumption_record r = raise_first
     [bad_id (bcr_consumption_id r) ''consumption_id'', bad_id (bcr_budget_id r) ''budget_id'',
      bad_opt_id (bcr_research_run_id r) ''research_run_id'',
      bad_member (bcr_resource_type r) ALLOWED_BUDGET_RESOURCE_TYPES ''resource_type is not a budget resource type'',
      bad_member (bcr_unit r) ALLOWED_BUDGET_UNITS ''unit is not a known budget unit'',
      (bcr_amount r \<le> 0, PersistenceInputError ''amount must be a positive int''),
      bad_text (bcr_provenance r) ''provenance'', bad_opt_id (bcr_experiment_id r) ''experiment_id'',
      bad_opt_id (bcr_request_id r) ''request_id'', bad_opt_secrets (bcr_resource_metadata r) ''resource_metadata'',
      (bcr_resource_type r \<in> set COUNTED_RESOURCES \<and> bcr_unit r \<noteq> ''count'',
       PersistenceInputError ''count resources must use unit count''),
      (bcr_resource_type r = ''EXECUTION_TIME'' \<and> bcr_unit r \<noteq> ''milliseconds'',
       PersistenceInputError ''EXECUTION_TIME must use milliseconds''),
      (bcr_resource_type r = ''ARTIFACT_BYTES'' \<and> bcr_unit r \<noteq> ''bytes'',
       PersistenceInputError ''ARTIFACT_BYTES must use bytes''),
      (bcr_resource_type r = ''COST'', PersistenceInputError ''COST is not recorded without an issued cost unit'')] r"

section \<open>Tables and repositories\<close>

record budget_db =
  bd_research_runs :: "research_run_record list"
  bd_program_policies :: "program_policy_record list"
  bd_issued_budgets :: "issued_budget_record list"
  bd_orchestrations :: "research_orchestration_record list"
  bd_consumptions :: "budget_consumption_record list"

definition empty_budget_db :: budget_db where
  "empty_budget_db = \<lparr>bd_research_runs = [], bd_program_policies = [], bd_issued_budgets = [], bd_orchestrations = [],
     bd_consumptions = []\<rparr>"

text \<open>A PostgreSQL \<open>Integer\<close> column; a value out of its range fails the statement.\<close>

definition int4 :: "int \<Rightarrow> bool" where
  "int4 n = (- (2 ^ 31) \<le> n \<and> n < 2 ^ 31)"

definition write_failed :: persistence_error where
  "write_failed = PersistenceError ''persistence write failed''"

definition insert_issued_budget :: "issued_budget_record \<Rightarrow> budget_db \<Rightarrow> persistence_error + budget_db" where
  "insert_issued_budget r d =
     (if \<not> list_all int4 [ibr_max_requests r, ibr_max_tool_calls r, ibr_max_runtime_ms r, ibr_max_concurrency r]
      then Inl write_failed
      else if has_key ibr_budget_id (ibr_budget_id r) (bd_issued_budgets d) then Inl unique_failed
      else if (case ibr_research_run_id r of None \<Rightarrow> False
               | Some run \<Rightarrow> \<not> has_key rr_research_run_id run (bd_research_runs d)) then Inl integrity_failed
      else Inr (d\<lparr>bd_issued_budgets := bd_issued_budgets d @ [r]\<rparr>))"

definition get_issued_budget :: "string \<Rightarrow> budget_db \<Rightarrow> persistence_error + issued_budget_record option" where
  "get_issued_budget i d = fetch_one ibr_budget_id ''budget_id'' (bd_issued_budgets d) i"

definition get_program_policy :: "string \<Rightarrow> budget_db \<Rightarrow> persistence_error + program_policy_record option" where
  "get_program_policy i d = fetch_one ppr_program_id ''program_id'' (bd_program_policies d) i"

definition orchestration_columns :: "research_orchestration_record \<Rightarrow> int list" where
  "orchestration_columns r = [ror_cycle_number r, ror_max_cycles r, ror_max_experiments r, ror_max_model_calls r,
     ror_max_worker_invocations r, ror_max_elapsed_ms r, ror_max_selected_opportunities r, ror_max_runtime_fallback r,
     ror_side_effect_ceiling r]"

definition insert_orchestration :: "research_orchestration_record \<Rightarrow> budget_db \<Rightarrow> persistence_error + budget_db" where
  "insert_orchestration r d =
     (if \<not> list_all int4 (orchestration_columns r) then Inl write_failed
      else if has_key ror_research_run_id (ror_research_run_id r) (bd_orchestrations d) then Inl unique_failed
      else if \<not> has_key rr_research_run_id (ror_research_run_id r) (bd_research_runs d) then Inl integrity_failed
      else Inr (d\<lparr>bd_orchestrations := bd_orchestrations d @ [r]\<rparr>))"

definition save_orchestration :: "research_orchestration_record \<Rightarrow> budget_db \<Rightarrow> persistence_error + budget_db" where
  "save_orchestration r d =
     (if blank (ror_research_run_id r) then Inl (id_error ''research_run_id'')
      else if \<not> list_all int4 (orchestration_columns r) then Inl write_failed
      else if length (filter (\<lambda>x. ror_research_run_id x = ror_research_run_id r) (bd_orchestrations d)) \<noteq> 1
      then Inl (PersistenceError ''research_orchestration not found for checkpoint'')
      else Inr (d\<lparr>bd_orchestrations :=
        map (\<lambda>x. if ror_research_run_id x = ror_research_run_id r then r else x) (bd_orchestrations d)\<rparr>))"

text \<open>
  The columns of a consumption; a request id of \<open>NULL\<close> is distinct from every other, and a foreign key
  with a \<open>NULL\<close> column is not checked.
\<close>

definition insert_consumption :: "budget_consumption_record \<Rightarrow> budget_db \<Rightarrow> persistence_error + budget_db" where
  "insert_consumption r d =
     (if \<not> int4 (bcr_amount r) then Inl write_failed
      else if has_key bcr_consumption_id (bcr_consumption_id r) (bd_consumptions d)
        \<or> (bcr_request_id r \<noteq> None
           \<and> has_key (\<lambda>x. (bcr_budget_id x, bcr_request_id x, bcr_resource_type x))
               (bcr_budget_id r, bcr_request_id r, bcr_resource_type r) (bd_consumptions d)) then Inl unique_failed
      else if bcr_research_run_id r \<noteq> None
        \<and> \<not> has_key (\<lambda>b. (ibr_budget_id b, ibr_research_run_id b)) (bcr_budget_id r, bcr_research_run_id r)
              (bd_issued_budgets d) then Inl integrity_failed
      else Inr (d\<lparr>bd_consumptions := bd_consumptions d @ [r]\<rparr>))"

definition list_for_budget :: "string \<Rightarrow> budget_db \<Rightarrow> persistence_error + budget_consumption_record list" where
  "list_for_budget b d = fetch_list bcr_consumption_id bcr_budget_id ''budget_id'' (bd_consumptions d) b"

section \<open>Ledger\<close>

record ledger_totals =
  lt_model_calls :: int
  lt_worker_requests :: int
  lt_worker_invocations :: int
  lt_execution_time_ms :: int
  lt_artifact_bytes :: int

definition count_consumption :: "budget_consumption_record \<Rightarrow> ledger_totals \<Rightarrow> ledger_totals" where
  "count_consumption r t =
     (if bcr_resource_type r = ''MODEL_CALL'' then t\<lparr>lt_model_calls := lt_model_calls t + bcr_amount r\<rparr>
      else if bcr_resource_type r = ''REQUEST'' then t\<lparr>lt_worker_requests := lt_worker_requests t + bcr_amount r\<rparr>
      else if bcr_resource_type r = ''WORKER_INVOCATION''
      then t\<lparr>lt_worker_invocations := lt_worker_invocations t + bcr_amount r\<rparr>
      else if bcr_resource_type r = ''EXECUTION_TIME''
      then t\<lparr>lt_execution_time_ms := lt_execution_time_ms t + bcr_amount r\<rparr>
      else if bcr_resource_type r = ''ARTIFACT_BYTES''
      then t\<lparr>lt_artifact_bytes := lt_artifact_bytes t + bcr_amount r\<rparr>
      else t)"

definition ledger_totals_of :: "budget_consumption_record list \<Rightarrow> ledger_totals" where
  "ledger_totals_of records = fold count_consumption records
     \<lparr>lt_model_calls = 0, lt_worker_requests = 0, lt_worker_invocations = 0, lt_execution_time_ms = 0,
      lt_artifact_bytes = 0\<rparr>"

definition to_budget_usage :: "ledger_totals \<Rightarrow> core_error + budget_usage" where
  "to_budget_usage t = post_init_budget_usage
     \<lparr>bu_requests = lt_worker_requests t, bu_tool_calls = lt_worker_invocations t,
      bu_runtime_ms = lt_execution_time_ms t, bu_concurrency = 0\<rparr>"

definition usage_from_consumptions :: "budget_consumption_record list \<Rightarrow> core_error + budget_usage" where
  "usage_from_consumptions records = to_budget_usage (ledger_totals_of records)"

definition remaining_for_resource :: "issued_budget_record \<Rightarrow> budget_usage \<Rightarrow> string \<Rightarrow> persistence_error + int" where
  "remaining_for_resource issued usage resource =
     (if resource = ''REQUEST'' then Inr (ibr_max_requests issued - bu_requests usage)
      else if resource = ''WORKER_INVOCATION'' then Inr (ibr_max_tool_calls issued - bu_tool_calls usage)
      else if resource = ''EXECUTION_TIME'' then Inr (ibr_max_runtime_ms issued - bu_runtime_ms usage)
      else Inl (BudgetOverspendError ''no issued allowance for resource_type''))"

definition remaining_model_calls :: "research_orchestration_record \<Rightarrow> ledger_totals \<Rightarrow> int" where
  "remaining_model_calls orchestration totals = ror_max_model_calls orchestration - lt_model_calls totals"

definition overspend :: "string \<Rightarrow> app_error" where
  "overspend m = AppPersistence (BudgetOverspendError m)"

definition assert_within_allowance ::
    "issued_budget_record \<Rightarrow> budget_consumption_record list \<Rightarrow> budget_consumption_record
     \<Rightarrow> research_orchestration_record option \<Rightarrow> app_error + unit" where
  "assert_within_allowance issued existing incoming orchestration =
     (let totals = ledger_totals_of existing in
      if bcr_resource_type incoming = ''MODEL_CALL''
      then (case orchestration of
          None \<Rightarrow> Inl (overspend ''MODEL_CALL requires locked orchestration allowance'')
        | Some orch \<Rightarrow>
            if bcr_research_run_id incoming \<noteq> Some (ror_research_run_id orch)
            then Inl (overspend ''MODEL_CALL research_run_id does not match orchestration'')
            else if bcr_amount incoming > remaining_model_calls orch totals
            then Inl (overspend ''consumption would exceed issued model-call allowance'')
            else Inr ())
      else bindE (mapErr AppCore (to_budget_usage totals)) (\<lambda>usage.
        bindE (mapErr AppPersistence (remaining_for_resource issued usage (bcr_resource_type incoming))) (\<lambda>remaining.
        if bcr_amount incoming > remaining then Inl (overspend ''consumption would exceed issued allowance'')
        else Inr ())))"

text \<open>\<open>any(item.request_id == ... and item.resource_type == ... and ... is not None)\<close>.\<close>

definition already_charged :: "budget_consumption_record \<Rightarrow> budget_consumption_record list \<Rightarrow> bool" where
  "already_charged r existing = list_ex (\<lambda>item. bcr_request_id item = bcr_request_id r
     \<and> bcr_resource_type item = bcr_resource_type r \<and> bcr_request_id r \<noteq> None) existing"

text \<open>The orchestration row locked for a model call; no row matches a run of \<open>NULL\<close>.\<close>

definition locked_orchestration :: "budget_consumption_record \<Rightarrow> budget_db \<Rightarrow> app_error + research_orchestration_record option" where
  "locked_orchestration r d =
     (if bcr_resource_type r = ''MODEL_CALL''
      then bindE (stored (one_or_none (filter (\<lambda>x. Some (ror_research_run_id x) = bcr_research_run_id r) (bd_orchestrations d)))) (\<lambda>row.
           bindE (from_option (overspend ''MODEL_CALL requires locked orchestration allowance'') row) (\<lambda>x. Inr (Some x)))
      else Inr None)"

text \<open>
  The insert whose conflict is swallowed.  \<open>None\<close>: the statement failed on a duplicate key, which leaves
  the transaction aborted.
\<close>

definition insert_or_swallow :: "budget_consumption_record \<Rightarrow> budget_db \<Rightarrow> app_error + budget_db option" where
  "insert_or_swallow r d =
     (case insert_consumption r d of
        Inr d' \<Rightarrow> Inr (Some d')
      | Inl e \<Rightarrow> (case e of PersistenceConflictError _ \<Rightarrow> Inr None | _ \<Rightarrow> Inl (AppPersistence e)))"

definition insert_within_allowance :: "budget_consumption_record \<Rightarrow> budget_db \<Rightarrow> app_error + budget_db option" where
  "insert_within_allowance r d =
     bindE (stored (one_or_none (filter (\<lambda>b. ibr_budget_id b = bcr_budget_id r) (bd_issued_budgets d)))) (\<lambda>row.
     bindE (from_option (AppPersistence (PersistenceError ''issued budget not found for consumption'')) row) (\<lambda>issued.
     if ibr_budget_id issued \<noteq> bcr_budget_id r
     then Inl (AppPersistence (PersistenceError ''locked budget id mismatch''))
     else if ibr_research_run_id issued \<noteq> bcr_research_run_id r
     then Inl (AppPersistence (PersistenceError ''locked budget research_run_id mismatch''))
     else bindE (stored (list_for_budget (bcr_budget_id r) d)) (\<lambda>existing.
     if already_charged r existing then Inr (Some d)
     else bindE (locked_orchestration r d) (\<lambda>orchestration.
     bindE (assert_within_allowance issued existing r orchestration) (\<lambda>_. insert_or_swallow r d)))))"

section \<open>What the ledger counts\<close>

text \<open>The amount charged for a resource by a list of consumptions, and to a budget in the database.\<close>

definition total :: "string \<Rightarrow> budget_consumption_record list \<Rightarrow> int" where
  "total resource records = sum_list (map bcr_amount (filter (\<lambda>r. bcr_resource_type r = resource) records))"

definition charged :: "string \<Rightarrow> string \<Rightarrow> budget_db \<Rightarrow> int" where
  "charged budget resource d = total resource (filter (\<lambda>r. bcr_budget_id r = budget) (bd_consumptions d))"

lemma total_simps [simp]:
  "total resource [] = 0"
  "total resource (r # rs) = (if bcr_resource_type r = resource then bcr_amount r else 0) + total resource rs"
  "total resource (rs @ ss) = total resource rs + total resource ss"
  by (simp_all add: total_def)

lemma total_nonneg: "\<forall>r \<in> set rs. 0 < bcr_amount r \<Longrightarrow> 0 \<le> total resource rs"
  by (induction rs) auto

lemma total_sort: "total resource (sort_key k rs) = total resource rs"
proof -
  have "mset (map bcr_amount (filter (\<lambda>r. bcr_resource_type r = resource) (sort_key k rs))) =
      mset (map bcr_amount (filter (\<lambda>r. bcr_resource_type r = resource) rs))"
    by simp
  then show ?thesis unfolding total_def by (metis sum_mset_sum_list)
qed

lemma fold_count_consumption:
  "lt_model_calls (fold count_consumption rs t) = lt_model_calls t + total ''MODEL_CALL'' rs"
  "lt_worker_requests (fold count_consumption rs t) = lt_worker_requests t + total ''REQUEST'' rs"
  "lt_worker_invocations (fold count_consumption rs t) = lt_worker_invocations t + total ''WORKER_INVOCATION'' rs"
  "lt_execution_time_ms (fold count_consumption rs t) = lt_execution_time_ms t + total ''EXECUTION_TIME'' rs"
  by (induction rs arbitrary: t) (auto simp: count_consumption_def)

lemma ledger_totals_of_total:
  "lt_model_calls (ledger_totals_of rs) = total ''MODEL_CALL'' rs"
  "lt_worker_requests (ledger_totals_of rs) = total ''REQUEST'' rs"
  "lt_worker_invocations (ledger_totals_of rs) = total ''WORKER_INVOCATION'' rs"
  "lt_execution_time_ms (ledger_totals_of rs) = total ''EXECUTION_TIME'' rs"
  by (simp_all add: ledger_totals_of_def fold_count_consumption)

lemma list_for_budget_Inr:
  "list_for_budget b d = Inr rs \<Longrightarrow> \<not> blank b \<and> set rs = {r \<in> set (bd_consumptions d). bcr_budget_id r = b} \<and>
     total resource rs = charged b resource d"
  by (auto simp: list_for_budget_def fetch_list_def charged_def total_sort split: if_splits)

lemma list_for_budget_ok: "\<not> blank b \<Longrightarrow> \<exists>rs. list_for_budget b d = Inr rs"
  by (simp add: list_for_budget_def fetch_list_def)

lemma usage_from_consumptions_Inr:
  "usage_from_consumptions rs = Inr u \<Longrightarrow> u = \<lparr>bu_requests = total ''REQUEST'' rs,
     bu_tool_calls = total ''WORKER_INVOCATION'' rs, bu_runtime_ms = total ''EXECUTION_TIME'' rs, bu_concurrency = 0\<rparr>"
  by (simp add: usage_from_consumptions_def to_budget_usage_def post_init_budget_usage_def raise_first_Inr_iff
      ledger_totals_of_total)

lemma usage_from_consumptions_ok:
  "\<forall>r \<in> set rs. 0 < bcr_amount r \<Longrightarrow> \<exists>u. usage_from_consumptions rs = Inr u"
  using total_nonneg [of rs]
  by (simp add: usage_from_consumptions_def to_budget_usage_def post_init_budget_usage_def ledger_totals_of_total
      require_non_negative_def not_less)

text \<open>The issued limit of a resource; model calls are limited by the orchestration of the run.\<close>

fun issued_limit :: "issued_budget_record \<Rightarrow> string \<Rightarrow> int option" where
  "issued_limit b resource = (if resource = ''REQUEST'' then Some (ibr_max_requests b)
     else if resource = ''WORKER_INVOCATION'' then Some (ibr_max_tool_calls b)
     else if resource = ''EXECUTION_TIME'' then Some (ibr_max_runtime_ms b) else None)"

lemma assert_within_allowance_Inr:
  "assert_within_allowance issued existing r orch = Inr u \<Longrightarrow>
     (if bcr_resource_type r = ''MODEL_CALL''
      then \<exists>x. orch = Some x \<and> bcr_research_run_id r = Some (ror_research_run_id x) \<and>
        total ''MODEL_CALL'' existing + bcr_amount r \<le> ror_max_model_calls x
      else \<exists>m. issued_limit issued (bcr_resource_type r) = Some m \<and> total (bcr_resource_type r) existing + bcr_amount r \<le> m)"
  by (auto simp: assert_within_allowance_def Let_def remaining_model_calls_def ledger_totals_of_total result_simps
      remaining_for_resource_def to_budget_usage_def post_init_budget_usage_def split: option.splits if_splits)

lemma insert_consumption_Inr:
  "insert_consumption r d = Inr d' \<longleftrightarrow> int4 (bcr_amount r) \<and>
     bcr_consumption_id r \<notin> bcr_consumption_id ` set (bd_consumptions d) \<and>
     (\<forall>x \<in> set (bd_consumptions d). bcr_request_id r \<noteq> None \<longrightarrow> bcr_budget_id x = bcr_budget_id r \<longrightarrow>
        bcr_request_id x = bcr_request_id r \<longrightarrow> bcr_resource_type x \<noteq> bcr_resource_type r) \<and>
     (bcr_research_run_id r \<noteq> None \<longrightarrow> (\<exists>b \<in> set (bd_issued_budgets d). ibr_budget_id b = bcr_budget_id r \<and>
        ibr_research_run_id b = bcr_research_run_id r)) \<and>
     d' = d\<lparr>bd_consumptions := bd_consumptions d @ [r]\<rparr>"
  by (auto simp: insert_consumption_def has_key_iff image_iff)

lemma insert_issued_budget_Inr:
  "insert_issued_budget b d = Inr d' \<longleftrightarrow>
     list_all int4 [ibr_max_requests b, ibr_max_tool_calls b, ibr_max_runtime_ms b, ibr_max_concurrency b] \<and>
     ibr_budget_id b \<notin> ibr_budget_id ` set (bd_issued_budgets d) \<and>
     (\<forall>run. ibr_research_run_id b = Some run \<longrightarrow> run \<in> rr_research_run_id ` set (bd_research_runs d)) \<and>
     d' = d\<lparr>bd_issued_budgets := bd_issued_budgets d @ [b]\<rparr>"
  by (auto simp: insert_issued_budget_def has_key_iff split: option.splits)

lemma insert_orchestration_Inr:
  "insert_orchestration x d = Inr d' \<longleftrightarrow> list_all int4 (orchestration_columns x) \<and>
     ror_research_run_id x \<notin> ror_research_run_id ` set (bd_orchestrations d) \<and>
     ror_research_run_id x \<in> rr_research_run_id ` set (bd_research_runs d) \<and>
     d' = d\<lparr>bd_orchestrations := bd_orchestrations d @ [x]\<rparr>"
  by (auto simp: insert_orchestration_def has_key_iff)

lemma save_orchestration_Inr:
  "save_orchestration x d = Inr d' \<Longrightarrow>
     d' = d\<lparr>bd_orchestrations :=
        map (\<lambda>y. if ror_research_run_id y = ror_research_run_id x then x else y) (bd_orchestrations d)\<rparr>"
  by (auto simp: save_orchestration_def split: if_splits)

interpretation consumptions: keyed_table bcr_consumption_id bd_consumptions insert_consumption
  by unfold_locales (auto simp: insert_consumption_Inr)

interpretation issued_budgets: keyed_table ibr_budget_id bd_issued_budgets insert_issued_budget
  by unfold_locales (auto simp: insert_issued_budget_Inr)

interpretation orchestrations: keyed_table ror_research_run_id bd_orchestrations insert_orchestration
  by unfold_locales (auto simp: insert_orchestration_Inr)

lemma locked_orchestration_Inr: "locked_orchestration r d = Inr (Some x) \<Longrightarrow> x \<in> set (bd_orchestrations d)"
  by (auto simp: locked_orchestration_def bindE_Inr_iff one_or_none_Some split: if_splits dest!: arg_cong [where f = set])

lemma insert_or_swallow_Inr: "insert_or_swallow r d = Inr (Some d') \<longleftrightarrow> insert_consumption r d = Inr d'"
  by (auto simp: insert_or_swallow_def split: sum.splits persistence_error.splits)

text \<open>The room a charge leaves, when it is made.\<close>

definition fits :: "issued_budget_record \<Rightarrow> budget_consumption_record \<Rightarrow> budget_db \<Rightarrow> bool" where
  "fits issued r d =
     (if bcr_resource_type r = ''MODEL_CALL''
      then \<exists>x \<in> set (bd_orchestrations d). bcr_research_run_id r = Some (ror_research_run_id x) \<and>
        charged (bcr_budget_id r) ''MODEL_CALL'' d + bcr_amount r \<le> ror_max_model_calls x
      else \<exists>m. issued_limit issued (bcr_resource_type r) = Some m \<and>
        charged (bcr_budget_id r) (bcr_resource_type r) d + bcr_amount r \<le> m)"

definition same_charge :: "budget_consumption_record \<Rightarrow> budget_consumption_record \<Rightarrow> bool" where
  "same_charge r x \<longleftrightarrow> bcr_request_id r \<noteq> None \<and> bcr_budget_id x = bcr_budget_id r \<and>
     bcr_request_id x = bcr_request_id r \<and> bcr_resource_type x = bcr_resource_type r"

lemma already_charged_listed:
  "list_for_budget (bcr_budget_id r) d = Inr existing \<Longrightarrow>
     already_charged r existing \<longleftrightarrow> (\<exists>x \<in> set (bd_consumptions d). same_charge r x)"
  by (drule list_for_budget_Inr) (auto simp: already_charged_def list_ex_iff same_charge_def)

lemma insert_within_allowance_Inr:
  assumes "insert_within_allowance r d = Inr (Some d')"
  obtains issued where "issued \<in> set (bd_issued_budgets d)" "ibr_budget_id issued = bcr_budget_id r"
    "ibr_research_run_id issued = bcr_research_run_id r"
    "d' = d \<and> (\<exists>x \<in> set (bd_consumptions d). same_charge r x) \<or> insert_consumption r d = Inr d' \<and> fits issued r d"
proof -
  from assms obtain issued existing where rows: "filter (\<lambda>b. ibr_budget_id b = bcr_budget_id r) (bd_issued_budgets d) = [issued]"
    and run: "ibr_research_run_id issued = bcr_research_run_id r"
    and existing: "list_for_budget (bcr_budget_id r) d = Inr existing"
    and rest: "(if already_charged r existing then Inr (Some d)
       else bindE (locked_orchestration r d) (\<lambda>orchestration.
       bindE (assert_within_allowance issued existing r orchestration) (\<lambda>_. insert_or_swallow r d))) = Inr (Some d')"
    unfolding insert_within_allowance_def bindE_Inr_iff mapErr_Inr_iff from_option_Inr_iff
    by (force simp: one_or_none_Some bindE_Inr_iff split: if_splits)
  have issued: "issued \<in> set (bd_issued_budgets d)" "ibr_budget_id issued = bcr_budget_id r"
    using arg_cong [OF rows, of set] by auto
  show ?thesis
  proof (cases "already_charged r existing")
    case True
    with rest already_charged_listed [OF existing] that [OF issued run] show ?thesis by auto
  next
    case False
    with rest obtain orch u where orch: "locked_orchestration r d = Inr orch"
      and within: "assert_within_allowance issued existing r orch = Inr u" and ins: "insert_consumption r d = Inr d'"
      by (auto simp: bindE_Inr_iff insert_or_swallow_Inr)
    have "fits issued r d"
      using assert_within_allowance_Inr [OF within] list_for_budget_Inr [OF existing] orch by (auto simp: fits_def split: if_splits dest: locked_orchestration_Inr)
    with ins that [OF issued run] show ?thesis by blast
  qed
qed

end
