(* ===== verification/Budget_Use_Cases.thy ===== *)
theory Budget_Use_Cases
  imports Budget_Ledger Py_Json "HOL-Library.AList"
begin

text \<open>
  The use cases over the budget ledger: recording a consumption (\<open>application/budget_consumption.py\<close>),
  the program's daily envelope and its fail-closed check (\<open>application/program_daily_budget.py\<close>), and the
  port that reserves a model call before it is made (\<open>application/budget_enforced_model.py\<close>).
  Instants are microseconds since the epoch, in UTC.
\<close>

section \<open>Recording a consumption\<close>

type_synonym 'a budget_use_case = "(string \<Rightarrow> string) \<Rightarrow> (string \<Rightarrow> int) \<Rightarrow> budget_db \<Rightarrow> app_error + 'a \<times> budget_db"

record record_consumption_command =
  rcc_budget_id :: string
  rcc_research_run_id :: "string option"
  rcc_resource_type :: string
  rcc_amount :: int
  rcc_unit :: string
  rcc_provenance :: string
  rcc_experiment_id :: "string option"
  rcc_request_id :: "string option"
  rcc_resource_metadata :: "payload option"

record record_consumption_result =
  rcr_consumption_id :: "string option"
  rcr_already_recorded :: bool
  rcr_usage :: budget_usage

text \<open>
  The transaction up to the read of the ledger: the record to write and the consumptions it saw.  The
  row locks are only taken afterwards, so other transactions may commit in between.
\<close>

definition prepare_consumption ::
    "record_consumption_command \<Rightarrow> (string \<Rightarrow> string) \<Rightarrow> (string \<Rightarrow> int) \<Rightarrow> budget_db
     \<Rightarrow> app_error + budget_consumption_record \<times> budget_consumption_record list" where
  "prepare_consumption command new_id clock d =
     bindE (stored (get_issued_budget (rcc_budget_id command) d)) (\<lambda>row.
     bindE (from_option (ApplicationError ''issued budget not found'') row) (\<lambda>issued.
     if rcc_research_run_id command \<noteq> None \<and> ibr_research_run_id issued \<noteq> rcc_research_run_id command
     then Inl (ApplicationError ''issued budget not found for research run'')
     else bindE (stored (post_init_budget_consumption_record
       \<lparr>bcr_consumption_id = new_id ''consumption'', bcr_budget_id = rcc_budget_id command,
        bcr_research_run_id = rcc_research_run_id command, bcr_resource_type = rcc_resource_type command,
        bcr_amount = rcc_amount command, bcr_unit = rcc_unit command, bcr_occurred_at = clock ''consumption'',
        bcr_provenance = rcc_provenance command, bcr_experiment_id = rcc_experiment_id command,
        bcr_request_id = rcc_request_id command, bcr_resource_metadata = rcc_resource_metadata command\<rparr>)) (\<lambda>r.
     bindE (stored (list_for_budget (rcc_budget_id command) d)) (\<lambda>before. Inr (r, before)))))"

definition UNCHECKED_RESOURCES :: "string list" where
  "UNCHECKED_RESOURCES = [''MODEL_TOKENS_IN'', ''MODEL_TOKENS_OUT'', ''MODEL_ESCALATION_DECISION'']"

text \<open>
  The rest of the transaction.  A conflict, raised or swallowed, has aborted the transaction, so the
  read that follows it fails.
\<close>

definition consumption_result ::
    "string option \<Rightarrow> bool \<Rightarrow> budget_consumption_record list \<Rightarrow> budget_db \<Rightarrow> app_error + record_consumption_result \<times> budget_db" where
  "consumption_result i duplicate after d =
     bindE (mapErr AppCore (usage_from_consumptions after)) (\<lambda>usage.
     Inr (\<lparr>rcr_consumption_id = i, rcr_already_recorded = duplicate, rcr_usage = usage\<rparr>, d))"

definition recorded_within ::
    "budget_consumption_record \<Rightarrow> budget_db \<Rightarrow> app_error + budget_db" where
  "recorded_within r d =
     (case insert_within_allowance r d of
        Inr (Some d') \<Rightarrow> Inr d'
      | Inr None \<Rightarrow> Inl (AppPersistence read_failed)
      | Inl e \<Rightarrow> (case e of
          AppPersistence (BudgetOverspendError m) \<Rightarrow> Inl (BudgetConsumptionRejected m)
        | AppPersistence (PersistenceConflictError m) \<Rightarrow> Inl (AppPersistence read_failed)
        | _ \<Rightarrow> Inl e))"

definition settle_consumption ::
    "budget_consumption_record \<Rightarrow> budget_consumption_record list \<Rightarrow> budget_db
     \<Rightarrow> app_error + record_consumption_result \<times> budget_db" where
  "settle_consumption r before d =
     (if already_charged r before then consumption_result None True before d
      else bindE (if bcr_resource_type r \<in> set UNCHECKED_RESOURCES then stored (insert_consumption r d)
                  else recorded_within r d) (\<lambda>d.
        bindE (stored (list_for_budget (bcr_budget_id r) d)) (\<lambda>after.
        consumption_result (Some (bcr_consumption_id r)) False after d)))"

definition record_budget_consumption :: "record_consumption_command \<Rightarrow> record_consumption_result budget_use_case" where
  "record_budget_consumption command new_id clock d =
     bindE (prepare_consumption command new_id clock d) (\<lambda>(r, before). settle_consumption r before d)"

definition load_budget_usage :: "string \<Rightarrow> budget_db \<Rightarrow> app_error + budget_usage" where
  "load_budget_usage budget_id d =
     bindE (stored (list_for_budget budget_id d)) (\<lambda>records. mapErr AppCore (usage_from_consumptions records))"

section \<open>The date of an instant\<close>

text \<open>\<open>date.fromordinal\<close> and \<open>isoformat\<close> of the standard library, on the proleptic Gregorian calendar.\<close>

definition days_before_month :: "nat \<Rightarrow> int" where
  "days_before_month m = [0, 0, 31, 59, 90, 120, 151, 181, 212, 243, 273, 304, 334] ! m"

definition days_in_month :: "nat \<Rightarrow> int" where
  "days_in_month m = [0, 31, 28, 31, 30, 31, 30, 31, 31, 30, 31, 30, 31] ! m"

definition ord_to_date :: "int \<Rightarrow> int \<times> int \<times> int" where
  "ord_to_date ordinal =
     (let n = ordinal - 1; n400 = n div 146097; n = n mod 146097;
          n100 = n div 36524; n = n mod 36524; n4 = n div 1461; n = n mod 1461; n1 = n div 365; n = n mod 365;
          year = n400 * 400 + 1 + n100 * 100 + n4 * 4 + n1
      in if n1 = 4 \<or> n100 = 4 then (year - 1, 12, 31)
         else let leap = (n1 = 3 \<and> (n4 \<noteq> 24 \<or> n100 = 3)); month = nat ((n + 50) div 32);
                  preceding = days_before_month month + (if month > 2 \<and> leap then 1 else 0)
              in if preceding > n
                 then (year, int (month - 1),
                   n - (preceding - (days_in_month (month - 1) + (if month - 1 = 2 \<and> leap then 1 else 0))) + 1)
                 else (year, int month, n - preceding + 1))"

definition zero_pad :: "nat \<Rightarrow> int \<Rightarrow> string" where
  "zero_pad w n = (let s = show_nat (nat n) in replicate (w - length s) (CHR ''0'') @ s)"

definition iso_date :: "int \<Rightarrow> string" where
  "iso_date instant =
     (case ord_to_date (719163 + instant div 86400000000) of
        (y, m, day) \<Rightarrow> zero_pad 4 y @ ''-'' @ zero_pad 2 m @ ''-'' @ zero_pad 2 day)"

section \<open>The daily envelope of a program\<close>

definition program_daily_budget_id :: "string \<Rightarrow> string \<Rightarrow> string" where
  "program_daily_budget_id program_id budget_date = ''program-daily:'' @ program_id @ '':'' @ budget_date"

record allocate_daily_budget_command =
  adc_program_id :: string
  adc_budget_date :: string
  adc_limit_microdollars :: int

record allocate_daily_budget_result =
  adr_budget_id :: string
  adr_limit_microdollars :: int

definition allocate_program_daily_budget :: "allocate_daily_budget_command \<Rightarrow> allocate_daily_budget_result budget_use_case" where
  "allocate_program_daily_budget command new_id clock d =
     (let budget_id = program_daily_budget_id (adc_program_id command) (adc_budget_date command) in
      bindE (stored (get_program_policy (adc_program_id command) d)) (\<lambda>policy.
      bindE (from_option (ApplicationError ''program not found'') policy) (\<lambda>_.
      bindE (stored (get_issued_budget budget_id d)) (\<lambda>existing.
      if existing \<noteq> None then Inl (ApplicationError ''program daily budget already allocated for this date'')
      else bindE (stored (post_init_issued_budget_record
        \<lparr>ibr_budget_id = budget_id, ibr_research_run_id = None, ibr_max_requests = 0, ibr_max_tool_calls = 0,
         ibr_max_runtime_ms = 0, ibr_max_concurrency = 0, ibr_issued_at = clock ''issued''\<rparr>)) (\<lambda>r.
      bindE (stored (insert_issued_budget r d)) (\<lambda>d.
      Inr (\<lparr>adr_budget_id = budget_id, adr_limit_microdollars = adc_limit_microdollars command\<rparr>, d)))))))"

record token_bucket =
  tb_in :: int
  tb_out :: int
  tb_model_id :: json

definition empty_bucket :: token_bucket where
  "empty_bucket = \<lparr>tb_in = 0, tb_out = 0, tb_model_id = JNull\<rparr>"

text \<open>\<open>mapping.get(key)\<close>: a missing key reads as \<open>None\<close>, the JSON null.\<close>

definition payload_get :: "string \<Rightarrow> payload \<Rightarrow> json" where
  "payload_get k p = (case map_of p k of None \<Rightarrow> JNull | Some v \<Rightarrow> v)"

definition add_tokens :: "budget_consumption_record \<Rightarrow> token_bucket \<Rightarrow> token_bucket" where
  "add_tokens item bucket =
     (let bucket = (if bcr_resource_type item = ''MODEL_TOKENS_IN''
                    then bucket\<lparr>tb_in := tb_in bucket + bcr_amount item\<rparr>
                    else bucket\<lparr>tb_out := tb_out bucket + bcr_amount item\<rparr>)
      in case (tb_model_id bucket, bcr_resource_metadata item) of
           (JNull, Some m) \<Rightarrow> bucket\<lparr>tb_model_id := payload_get ''model_id'' m\<rparr>
         | _ \<Rightarrow> bucket)"

definition by_request ::
    "budget_consumption_record \<Rightarrow> (string option \<times> token_bucket) list \<Rightarrow> (string option \<times> token_bucket) list" where
  "by_request item buckets =
     (if bcr_resource_type item \<notin> {''MODEL_TOKENS_IN'', ''MODEL_TOKENS_OUT''} then buckets
      else AList.update (bcr_request_id item)
        (add_tokens item (case map_of buckets (bcr_request_id item) of None \<Rightarrow> empty_bucket | Some b \<Rightarrow> b)) buckets)"

text \<open>
  The price of one bucket; a model that has no price costs more than any limit.  A list or an object
  under \<open>model_id\<close> cannot be looked up in the price table.
\<close>

definition UNPRICED :: int where
  "UNPRICED = 2 ^ 63 - 1"

definition bucket_cost :: "token_bucket \<Rightarrow> app_error + int" where
  "bucket_cost b =
     (case tb_model_id b of
        JStr m \<Rightarrow> (case estimate_cost (Some m) (Some (tb_in b)) (Some (tb_out b)) of
            Inr c \<Rightarrow> Inr c | Inl (UnknownModelPriceError _) \<Rightarrow> Inr UNPRICED | Inl e \<Rightarrow> Inl (AppCore e))
      | JArr _ \<Rightarrow> Inl AppTypeError
      | JObj _ \<Rightarrow> Inl AppTypeError
      | _ \<Rightarrow> Inr UNPRICED)"

fun sum_costs :: "token_bucket list \<Rightarrow> app_error + int" where
  "sum_costs [] = Inr 0"
| "sum_costs (b # bs) = bindE (bucket_cost b) (\<lambda>c. bindE (sum_costs bs) (\<lambda>total. Inr (c + total)))"

definition sum_estimated_cost :: "budget_consumption_record list \<Rightarrow> app_error + int" where
  "sum_estimated_cost records = sum_costs (map snd (fold by_request records []))"

definition check_program_budget ::
    "string \<Rightarrow> int \<Rightarrow> (string \<Rightarrow> int) \<Rightarrow> budget_db \<Rightarrow> app_error + budget_check" where
  "check_program_budget program_id estimated clock d =
     (let today = iso_date (clock ''now''); budget_id = program_daily_budget_id program_id today;
          denied = \<lparr>bc_allowed_to_continue = False, bc_reason_code = RC_BUDGET_EXHAUSTED, bc_budget_id = budget_id\<rparr>
      in bindE (stored (get_program_policy program_id d)) (\<lambda>policy.
         case policy of
           None \<Rightarrow> Inr \<lparr>bc_allowed_to_continue = True, bc_reason_code = RC_ALLOWED, bc_budget_id = budget_id\<rparr>
         | Some p \<Rightarrow> (case ppr_daily_llm_budget_microdollars p of
             None \<Rightarrow> Inr denied
           | Some limit \<Rightarrow>
               bindE (stored (get_issued_budget budget_id d)) (\<lambda>envelope.
               if envelope = None then Inr denied
               else bindE (stored (list_for_budget budget_id d)) (\<lambda>records.
                 bindE (sum_estimated_cost records) (\<lambda>cost.
                 bindE (mapErr AppCore (post_init_program_daily_budget
                   \<lparr>pdb_program_id = program_id, pdb_date = today, pdb_limit_microdollars = limit,
                    pdb_spent_microdollars = cost + estimated\<rparr>)) (\<lambda>b.
                 mapErr AppCore (check_program_daily_budget b program_id))))))))"

section \<open>Reserving model calls\<close>

datatype model_role = MR_GENERATOR | MR_FALSIFIER

fun model_role_value :: "model_role \<Rightarrow> string" where
  "model_role_value MR_GENERATOR = ''GENERATOR''"
| "model_role_value MR_FALSIFIER = ''FALSIFIER''"

text \<open>The result of the inner port; its telemetry and runtime identity are not read here.\<close>

record model_call_result =
  mcr_role :: model_role
  mcr_adapter_identity :: string
  mcr_provider_adapter_identity :: string
  mcr_structured_output :: payload
  mcr_model_id :: "string option"
  mcr_model_version :: "string option"
  mcr_prompt_tokens :: "int option"
  mcr_completion_tokens :: "int option"

definition model_invocation_request_id :: "string \<Rightarrow> model_role \<Rightarrow> int \<Rightarrow> string" where
  "model_invocation_request_id cycle_id role attempt_no =
     ''cycle:'' @ cycle_id @ '':'' @ py_lower (model_role_value role) @ '':'' @ show_int attempt_no"

record budget_port =
  bp_budget_id :: string
  bp_research_run_id :: string
  bp_cycle_id :: string
  bp_program_id :: "string option"
  bp_attempts :: "model_role \<Rightarrow> int"
  bp_reserved_invocations :: "string list"

definition new_budget_port :: "string \<Rightarrow> string \<Rightarrow> string \<Rightarrow> string option \<Rightarrow> budget_port" where
  "new_budget_port budget_id research_run_id cycle_id program_id =
     \<lparr>bp_budget_id = budget_id, bp_research_run_id = research_run_id, bp_cycle_id = cycle_id, bp_program_id = program_id,
      bp_attempts = (\<lambda>_. 0), bp_reserved_invocations = []\<rparr>"

datatype port_error = PortBudget app_error | PortModel string

text \<open>The check of the program's daily budget and the reservation, before the external call.\<close>

definition reserve_model_call ::
    "budget_port \<Rightarrow> string \<Rightarrow> (string \<Rightarrow> string) \<Rightarrow> (string \<Rightarrow> int) \<Rightarrow> budget_db \<Rightarrow> app_error + budget_db" where
  "reserve_model_call port invocation_id new_id clock d =
     bindE (case bp_program_id port of None \<Rightarrow> Inr ()
            | Some p \<Rightarrow> bindE (check_program_budget p 0 clock d) (\<lambda>check.
                if bc_allowed_to_continue check then Inr ()
                else Inl (BudgetConsumptionRejected ''program daily LLM budget denied''))) (\<lambda>_.
     bindE (record_budget_consumption
       \<lparr>rcc_budget_id = bp_budget_id port, rcc_research_run_id = Some (bp_research_run_id port),
        rcc_resource_type = ''MODEL_CALL'', rcc_amount = 1, rcc_unit = ''count'',
        rcc_provenance = ''budget_enforced_model_port.complete'', rcc_experiment_id = None,
        rcc_request_id = Some invocation_id, rcc_resource_metadata = None\<rparr> new_id clock d) (\<lambda>(_, d'). Inr d'))"

text \<open>Each consumption is a transaction of its own: a failure keeps those committed before it.\<close>

definition charge_tokens ::
    "string \<Rightarrow> int option \<Rightarrow> string \<Rightarrow> string \<Rightarrow> string \<Rightarrow> (string \<Rightarrow> string) \<Rightarrow> (string \<Rightarrow> int) \<Rightarrow> budget_db
     \<Rightarrow> (app_error + unit) \<times> budget_db" where
  "charge_tokens resource tokens daily_budget_id invocation_id model_id new_id clock d =
     (case tokens of
        None \<Rightarrow> (Inr (), d)
      | Some n \<Rightarrow> (case record_budget_consumption
          \<lparr>rcc_budget_id = daily_budget_id, rcc_research_run_id = None, rcc_resource_type = resource, rcc_amount = n,
           rcc_unit = ''count'', rcc_provenance = ''budget_enforced_model_port.tokens'', rcc_experiment_id = None,
           rcc_request_id = Some invocation_id, rcc_resource_metadata = Some [(''model_id'', JStr model_id)]\<rparr>
          (\<lambda>s. new_id (resource @ s)) (\<lambda>s. clock (resource @ s)) d of
          Inl e \<Rightarrow> (Inl e, d) | Inr (_, d') \<Rightarrow> (Inr (), d')))"

definition record_tokens ::
    "budget_port \<Rightarrow> string \<Rightarrow> model_call_result \<Rightarrow> (string \<Rightarrow> string) \<Rightarrow> (string \<Rightarrow> int) \<Rightarrow> budget_db
     \<Rightarrow> (app_error + unit) \<times> budget_db" where
  "record_tokens port invocation_id result new_id clock d =
     (case (bp_program_id port, mcr_model_id result) of
        (Some p, Some m) \<Rightarrow> (case stored (get_program_policy p d) of
            Inl e \<Rightarrow> (Inl e, d)
          | Inr None \<Rightarrow> (Inr (), d)
          | Inr (Some _) \<Rightarrow>
              let daily = program_daily_budget_id p (iso_date (clock ''tokens'')) in
              (case charge_tokens ''MODEL_TOKENS_IN'' (mcr_prompt_tokens result) daily invocation_id m new_id clock d of
                 (Inl e, d) \<Rightarrow> (Inl e, d)
               | (Inr _, d) \<Rightarrow>
                   charge_tokens ''MODEL_TOKENS_OUT'' (mcr_completion_tokens result) daily invocation_id m new_id clock d))
      | _ \<Rightarrow> (Inr (), d))"

text \<open>\<open>reply\<close> is what the inner port answers when it is called.\<close>

definition complete_model_call ::
    "budget_port \<Rightarrow> model_role \<Rightarrow> string + model_call_result \<Rightarrow> (string \<Rightarrow> string) \<Rightarrow> (string \<Rightarrow> int) \<Rightarrow> budget_db
     \<Rightarrow> (port_error + model_call_result) \<times> budget_port \<times> budget_db" where
  "complete_model_call port role reply new_id clock d =
     (let attempt_no = bp_attempts port role + 1;
          port = port\<lparr>bp_attempts := (bp_attempts port)(role := attempt_no)\<rparr>;
          invocation_id = model_invocation_request_id (bp_cycle_id port) role attempt_no
      in case reserve_model_call port invocation_id new_id clock d of
           Inl e \<Rightarrow> (Inl (PortBudget e), port, d)
         | Inr d \<Rightarrow>
             let port = port\<lparr>bp_reserved_invocations := bp_reserved_invocations port @ [invocation_id]\<rparr> in
             (case reply of
                Inl m \<Rightarrow> (Inl (PortModel m), port, d)
              | Inr result \<Rightarrow> (case record_tokens port invocation_id result new_id clock d of
                    (Inl e, d) \<Rightarrow> (Inl (PortBudget e), port, d)
                  | (Inr _, d) \<Rightarrow> (Inr result, port, d))))"

end
