(* ===== verification/Budget_Safety.thy ===== *)
theory Budget_Safety
  imports Budget_Use_Cases
begin

text \<open>
  What the budget ledger guarantees over any interleaving of its transactions: envelopes are never
  overspent, a replayed request is charged once, an unpriced or exhausted day denies further model calls,
  and the reserving port makes no more calls than the orchestration allows.
\<close>

declare issued_limit.simps [simp del]

section \<open>Steps\<close>

text \<open>
  A state of the service: the committed database and the recordings that have read the ledger but not yet
  taken their locks.  Other writers issue budgets, start and checkpoint orchestrations (a checkpoint keeps
  the limits fixed when the orchestration starts) and maintain runs and policies.
\<close>

type_synonym pending = "budget_consumption_record \<times> budget_consumption_record list"

inductive budget_step :: "budget_db \<times> pending list \<Rightarrow> budget_db \<times> pending list \<Rightarrow> bool" where
  prepare: "prepare_consumption command new_id clock d = Inr (r, before) \<Longrightarrow> budget_step (d, ps) (d, (r, before) # ps)"
| settle: "(r, before) \<in> set ps \<Longrightarrow> settle_consumption r before d = Inr (res, d') \<Longrightarrow>
    budget_step (d, ps) (d', remove1 (r, before) ps)"
| allocate: "allocate_program_daily_budget command' new_id clock d = Inr (res', d') \<Longrightarrow> budget_step (d, ps) (d', ps)"
| issue: "post_init_issued_budget_record b = Inr b \<Longrightarrow> insert_issued_budget b d = Inr d' \<Longrightarrow> budget_step (d, ps) (d', ps)"
| orchestrate: "post_init_research_orchestration_record x = Inr x \<Longrightarrow> insert_orchestration x d = Inr d' \<Longrightarrow>
    budget_step (d, ps) (d', ps)"
| checkpoint: "save_orchestration x d = Inr d' \<Longrightarrow>
    \<forall>y \<in> set (bd_orchestrations d). ror_research_run_id y = ror_research_run_id x \<longrightarrow>
      ror_max_model_calls y = ror_max_model_calls x \<Longrightarrow> budget_step (d, ps) (d', ps)"
| other: "budget_step (d, ps) (d\<lparr>bd_research_runs := runs, bd_program_policies := policies\<rparr>, ps)"

inductive budget_reachable :: "budget_db \<times> pending list \<Rightarrow> bool" where
  start: "budget_reachable (empty_budget_db, [])"
| step: "budget_reachable s \<Longrightarrow> budget_step s s' \<Longrightarrow> budget_reachable s'"

section \<open>The invariant\<close>

definition backed :: "budget_consumption_record \<Rightarrow> budget_db \<Rightarrow> bool" where
  "backed r d \<longleftrightarrow> 0 < bcr_amount r \<and> (\<exists>b \<in> set (bd_issued_budgets d). ibr_budget_id b = bcr_budget_id r)"

text \<open>A charged model call belongs to the run of its budget, and the run is orchestrated.\<close>

definition call_of_run :: "budget_consumption_record \<Rightarrow> budget_db \<Rightarrow> bool" where
  "call_of_run r d \<longleftrightarrow> (bcr_resource_type r = ''MODEL_CALL'' \<longrightarrow>
     (\<exists>b \<in> set (bd_issued_budgets d). ibr_budget_id b = bcr_budget_id r \<and> ibr_research_run_id b = bcr_research_run_id r) \<and>
     (\<exists>run \<in> ror_research_run_id ` set (bd_orchestrations d). bcr_research_run_id r = Some run))"

definition within_envelopes :: "budget_db \<Rightarrow> bool" where
  "within_envelopes d \<longleftrightarrow>
     (\<forall>b \<in> set (bd_issued_budgets d). \<forall>resource m. issued_limit b resource = Some m \<longrightarrow> charged (ibr_budget_id b) resource d \<le> m) \<and>
     (\<forall>b \<in> set (bd_issued_budgets d). \<forall>x \<in> set (bd_orchestrations d). ibr_research_run_id b = Some (ror_research_run_id x) \<longrightarrow>
        charged (ibr_budget_id b) ''MODEL_CALL'' d \<le> ror_max_model_calls x)"

definition once :: "budget_db \<Rightarrow> bool" where
  "once d \<longleftrightarrow> (\<forall>r \<in> set (bd_consumptions d). \<forall>x \<in> set (bd_consumptions d). same_charge r x \<longrightarrow> x = r)"

definition budgets_ok :: "budget_db \<Rightarrow> bool" where
  "budgets_ok d \<longleftrightarrow> distinct (map ibr_budget_id (bd_issued_budgets d)) \<and>
     distinct (map ror_research_run_id (bd_orchestrations d)) \<and>
     (\<forall>b \<in> set (bd_issued_budgets d). \<not> blank (ibr_budget_id b)) \<and>
     (\<forall>x \<in> set (bd_orchestrations d). 0 \<le> ror_max_model_calls x) \<and>
     (\<forall>r \<in> set (bd_consumptions d). backed r d \<and> call_of_run r d) \<and> once d \<and> within_envelopes d"

definition state_ok :: "budget_db \<times> pending list \<Rightarrow> bool" where
  "state_ok s \<longleftrightarrow> budgets_ok (fst s) \<and> (\<forall>p \<in> set (snd s). backed (fst p) (fst s))"

text \<open>The tables only grow, up to checkpoints.\<close>

definition grows :: "budget_db \<Rightarrow> budget_db \<Rightarrow> bool" where
  "grows d d' \<longleftrightarrow> set (bd_issued_budgets d) \<subseteq> set (bd_issued_budgets d') \<and>
     ror_research_run_id ` set (bd_orchestrations d) \<subseteq> ror_research_run_id ` set (bd_orchestrations d') \<and>
     set (bd_consumptions d) \<subseteq> set (bd_consumptions d')"

lemma backed_grows: "backed r d \<Longrightarrow> grows d d' \<Longrightarrow> backed r d'"
  by (auto simp: backed_def grows_def)

lemma call_of_run_grows: "call_of_run r d \<Longrightarrow> grows d d' \<Longrightarrow> call_of_run r d'"
  unfolding call_of_run_def grows_def by blast

lemma charged_insert:
  "charged b resource (d\<lparr>bd_consumptions := bd_consumptions d @ [r]\<rparr>) =
     charged b resource d + (if bcr_budget_id r = b \<and> bcr_resource_type r = resource then bcr_amount r else 0)"
  by (simp add: charged_def)

lemma charged_other_tables [simp]:
  "charged b resource (d\<lparr>bd_issued_budgets := bs\<rparr>) = charged b resource d"
  "charged b resource (d\<lparr>bd_orchestrations := os\<rparr>) = charged b resource d"
  "charged b resource (d\<lparr>bd_research_runs := runs, bd_program_policies := policies\<rparr>) = charged b resource d"
  by (simp_all add: charged_def)

lemma charged_none: "\<forall>r \<in> set (bd_consumptions d). bcr_budget_id r = b \<longrightarrow> bcr_resource_type r \<noteq> resource \<Longrightarrow> charged b resource d = 0"
proof -
  assume "\<forall>r \<in> set (bd_consumptions d). bcr_budget_id r = b \<longrightarrow> bcr_resource_type r \<noteq> resource"
  then have "filter (\<lambda>r. bcr_resource_type r = resource) (filter (\<lambda>r. bcr_budget_id r = b) (bd_consumptions d)) = []"
    by (auto simp: filter_empty_conv)
  then show ?thesis by (simp only: charged_def total_def) simp
qed

section \<open>Every step keeps it\<close>

lemma post_init_budget_consumption_record_Inr:
  "post_init_budget_consumption_record r = Inr r' \<Longrightarrow> r' = r \<and> 0 < bcr_amount r"
  by (simp add: post_init_budget_consumption_record_def raise_first_Inr_iff not_le)

lemma prepare_consumption_Inr:
  assumes "prepare_consumption command new_id clock d = Inr (r, before)"
  shows "backed r d" "bcr_budget_id r = rcc_budget_id command" "bcr_request_id r = rcc_request_id command"
    "bcr_resource_type r = rcc_resource_type command" "list_for_budget (bcr_budget_id r) d = Inr before"
    "bcr_research_run_id r = rcc_research_run_id command" "bcr_amount r = rcc_amount command"
proof -
  obtain issued where "get_issued_budget (rcc_budget_id command) d = Inr (Some issued)"
    using assms by (auto simp: prepare_consumption_def bindE_Inr_iff)
  then have "issued \<in> set (bd_issued_budgets d)" "ibr_budget_id issued = rcc_budget_id command"
    by (auto simp: get_issued_budget_def dest: fetch_one_Some)
  moreover have "bcr_budget_id r = rcc_budget_id command \<and> 0 < bcr_amount r \<and> bcr_request_id r = rcc_request_id command \<and>
      bcr_resource_type r = rcc_resource_type command \<and> list_for_budget (rcc_budget_id command) d = Inr before \<and>
      bcr_research_run_id r = rcc_research_run_id command \<and> bcr_amount r = rcc_amount command"
    using assms by (auto simp: prepare_consumption_def bindE_Inr_iff split: if_splits
        dest!: post_init_budget_consumption_record_Inr)
  ultimately show "backed r d" "bcr_budget_id r = rcc_budget_id command" "bcr_request_id r = rcc_request_id command"
    "bcr_resource_type r = rcc_resource_type command" "list_for_budget (bcr_budget_id r) d = Inr before"
    "bcr_research_run_id r = rcc_research_run_id command" "bcr_amount r = rcc_amount command"
    by (auto simp: backed_def)
qed

lemma recorded_within_Inr: "recorded_within r d = Inr d' \<longleftrightarrow> insert_within_allowance r d = Inr (Some d')"
  by (auto simp: recorded_within_def split: sum.splits option.splits app_error.splits persistence_error.splits)

lemma settle_consumption_Inr:
  assumes "settle_consumption r before d = Inr (res, d')"
  obtains "d' = d" "already_charged r before \<or> (\<exists>x \<in> set (bd_consumptions d). same_charge r x)"
  | "insert_consumption r d = Inr d'" "bcr_resource_type r \<in> set UNCHECKED_RESOURCES"
  | issued where "insert_consumption r d = Inr d'" "issued \<in> set (bd_issued_budgets d)" "ibr_budget_id issued = bcr_budget_id r"
      "ibr_research_run_id issued = bcr_research_run_id r" "fits issued r d"
proof (cases "already_charged r before")
  case True
  with assms that(1) show ?thesis by (auto simp: settle_consumption_def consumption_result_def bindE_Inr_iff)
next
  case False
  show ?thesis
  proof (cases "bcr_resource_type r \<in> set UNCHECKED_RESOURCES")
    case True
    with False assms that(2) show ?thesis
      by (auto simp: settle_consumption_def consumption_result_def bindE_Inr_iff)
  next
    case checked: False
    with False assms have "insert_within_allowance r d = Inr (Some d')"
      by (auto simp: settle_consumption_def consumption_result_def bindE_Inr_iff recorded_within_Inr)
    then show ?thesis using that by (elim insert_within_allowance_Inr) blast
  qed
qed

lemma insert_grows: "insert_consumption r d = Inr d' \<Longrightarrow> grows d d'"
  by (auto simp: insert_consumption_Inr grows_def)

lemma once_insert:
  assumes "insert_consumption r d = Inr d'" "once d"
  shows "once d'"
proof -
  have rows: "set (bd_consumptions d') = insert r (set (bd_consumptions d))"
    using assms(1) by (simp add: insert_consumption_Inr)
  have "\<not> same_charge r x \<and> \<not> same_charge x r" if "x \<in> set (bd_consumptions d)" for x
    using assms(1) that unfolding insert_consumption_Inr same_charge_def by metis
  then show ?thesis using assms(2) unfolding once_def rows by blast
qed

lemma budgets_ok_insert:
  assumes "budgets_ok d" "insert_consumption r d = Inr d'" "backed r d" "call_of_run r d"
    and "\<And>b m. b \<in> set (bd_issued_budgets d) \<Longrightarrow> ibr_budget_id b = bcr_budget_id r \<Longrightarrow>
      issued_limit b (bcr_resource_type r) = Some m \<Longrightarrow> charged (bcr_budget_id r) (bcr_resource_type r) d + bcr_amount r \<le> m"
    and "\<And>b x. bcr_resource_type r = ''MODEL_CALL'' \<Longrightarrow> b \<in> set (bd_issued_budgets d) \<Longrightarrow> x \<in> set (bd_orchestrations d) \<Longrightarrow>
      ibr_budget_id b = bcr_budget_id r \<Longrightarrow> ibr_research_run_id b = Some (ror_research_run_id x) \<Longrightarrow>
      charged (bcr_budget_id r) ''MODEL_CALL'' d + bcr_amount r \<le> ror_max_model_calls x"
  shows "budgets_ok d'"
proof -
  have d': "d' = d\<lparr>bd_consumptions := bd_consumptions d @ [r]\<rparr>" using assms(2) by (simp add: insert_consumption_Inr)
  note grown = insert_grows [OF assms(2)]
  have "\<forall>x \<in> set (bd_consumptions d'). backed x d' \<and> call_of_run x d'"
    using assms(1,3,4) backed_grows [OF _ grown] call_of_run_grows [OF _ grown] d' by (auto simp: budgets_ok_def)
  moreover have "once d'" using once_insert [OF assms(2)] assms(1) by (simp add: budgets_ok_def)
  moreover have "within_envelopes d'"
  proof -
    have limits: "charged (ibr_budget_id b) resource d' \<le> m"
      if b: "b \<in> set (bd_issued_budgets d)" and m: "issued_limit b resource = Some m" for b resource m
    proof (cases "bcr_budget_id r = ibr_budget_id b \<and> bcr_resource_type r = resource")
      case True
      then have "charged (bcr_budget_id r) (bcr_resource_type r) d + bcr_amount r \<le> m"
        by (intro assms(5) [OF b]) (simp_all only: m)
      with True show ?thesis by (simp only: d' charged_insert) simp
    next
      case False
      have "charged (ibr_budget_id b) resource d \<le> m"
        using assms(1) b m unfolding budgets_ok_def within_envelopes_def by blast
      with False show ?thesis by (simp only: d' charged_insert) simp
    qed
    have calls: "charged (ibr_budget_id b) ''MODEL_CALL'' d' \<le> ror_max_model_calls x"
      if b: "b \<in> set (bd_issued_budgets d)" and x: "x \<in> set (bd_orchestrations d)"
        and run: "ibr_research_run_id b = Some (ror_research_run_id x)" for b x
    proof (cases "bcr_budget_id r = ibr_budget_id b \<and> bcr_resource_type r = ''MODEL_CALL''")
      case True
      then have "charged (bcr_budget_id r) ''MODEL_CALL'' d + bcr_amount r \<le> ror_max_model_calls x"
        by (intro assms(6) [OF _ b x]) (simp_all only: run)
      with True show ?thesis by (simp only: d' charged_insert) simp
    next
      case False
      have "charged (ibr_budget_id b) ''MODEL_CALL'' d \<le> ror_max_model_calls x"
        using assms(1) b x run unfolding budgets_ok_def within_envelopes_def by blast
      with False show ?thesis by (simp only: d' charged_insert) simp
    qed
    from limits calls show ?thesis unfolding within_envelopes_def d' by simp
  qed
  ultimately show ?thesis using assms(1) d' by (simp add: budgets_ok_def)
qed

lemma same_budget: "budgets_ok d \<Longrightarrow> b \<in> set (bd_issued_budgets d) \<Longrightarrow> c \<in> set (bd_issued_budgets d) \<Longrightarrow>
    ibr_budget_id b = ibr_budget_id c \<Longrightarrow> b = c"
  by (auto simp: budgets_ok_def distinct_map inj_on_def)

lemma same_orchestration: "budgets_ok d \<Longrightarrow> x \<in> set (bd_orchestrations d) \<Longrightarrow> y \<in> set (bd_orchestrations d) \<Longrightarrow>
    ror_research_run_id x = ror_research_run_id y \<Longrightarrow> x = y"
  by (auto simp: budgets_ok_def distinct_map inj_on_def)

lemma fits_limit:
  "fits issued r d \<Longrightarrow> issued_limit issued (bcr_resource_type r) = Some m \<Longrightarrow>
     charged (bcr_budget_id r) (bcr_resource_type r) d + bcr_amount r \<le> m"
  by (auto simp: fits_def issued_limit.simps split: if_splits)

lemma fits_call:
  "fits issued r d \<Longrightarrow> bcr_resource_type r = ''MODEL_CALL'' \<Longrightarrow>
     \<exists>x \<in> set (bd_orchestrations d). bcr_research_run_id r = Some (ror_research_run_id x) \<and>
        charged (bcr_budget_id r) ''MODEL_CALL'' d + bcr_amount r \<le> ror_max_model_calls x"
  by (simp add: fits_def)

lemma settle_consumption_ok:
  assumes "settle_consumption r before d = Inr (res, d')" "budgets_ok d" "backed r d"
  shows "budgets_ok d' \<and> grows d d'"
  using assms(1)
proof (rule settle_consumption_Inr)
  assume "d' = d" with assms(2) show ?thesis by (simp add: grows_def)
next
  assume ins: "insert_consumption r d = Inr d'" and free: "bcr_resource_type r \<in> set UNCHECKED_RESOURCES"
  have unlimited: "issued_limit b (bcr_resource_type r) = None" "bcr_resource_type r \<noteq> ''MODEL_CALL''" for b
    using free by (auto simp: UNCHECKED_RESOURCES_def issued_limit.simps)
  have "budgets_ok d'"
    by (rule budgets_ok_insert [OF assms(2) ins assms(3)]) (simp_all only: unlimited call_of_run_def option.distinct simp_thms)
  with insert_grows [OF ins] show ?thesis by blast
next
  fix issued
  assume ins: "insert_consumption r d = Inr d'" and issued: "issued \<in> set (bd_issued_budgets d)"
    "ibr_budget_id issued = bcr_budget_id r" "ibr_research_run_id issued = bcr_research_run_id r" and fits: "fits issued r d"
  note unique = same_budget [OF assms(2) _ issued(1)] same_orchestration [OF assms(2)]
  have "call_of_run r d" using fits issued unfolding call_of_run_def fits_def by (metis image_eqI)
  moreover have "budgets_ok d'" if "call_of_run r d"
  proof (rule budgets_ok_insert [OF assms(2) ins assms(3) that])
    fix b m assume b: "b \<in> set (bd_issued_budgets d)" "ibr_budget_id b = bcr_budget_id r"
      "issued_limit b (bcr_resource_type r) = Some m"
    then have "b = issued" using unique(1) issued(2) by metis
    with fits_limit [OF fits] b(3) show "charged (bcr_budget_id r) (bcr_resource_type r) d + bcr_amount r \<le> m" by blast
  next
    fix b x assume b: "bcr_resource_type r = ''MODEL_CALL''" "b \<in> set (bd_issued_budgets d)" "x \<in> set (bd_orchestrations d)"
      "ibr_budget_id b = bcr_budget_id r" "ibr_research_run_id b = Some (ror_research_run_id x)"
    then have "b = issued" using unique(1) issued(2) by metis
    obtain y where y: "y \<in> set (bd_orchestrations d)" "bcr_research_run_id r = Some (ror_research_run_id y)"
        "charged (bcr_budget_id r) ''MODEL_CALL'' d + bcr_amount r \<le> ror_max_model_calls y"
      using fits_call [OF fits b(1)] by blast
    have "Some (ror_research_run_id x) = Some (ror_research_run_id y)"
      by (simp only: b(5) [symmetric] y(2) [symmetric] issued(3) [symmetric] \<open>b = issued\<close>)
    then have "x = y" using unique(2) [OF b(3) y(1)] by blast
    with y(3) show "charged (bcr_budget_id r) ''MODEL_CALL'' d + bcr_amount r \<le> ror_max_model_calls x" by blast
  qed
  ultimately show ?thesis using insert_grows [OF ins] by blast
qed

lemma issue_ok:
  assumes "budgets_ok d" "post_init_issued_budget_record b = Inr b" "insert_issued_budget b d = Inr d'"
  shows "budgets_ok d' \<and> grows d d'"
proof -
  have d': "d' = d\<lparr>bd_issued_budgets := bd_issued_budgets d @ [b]\<rparr>"
    and fresh: "ibr_budget_id b \<notin> ibr_budget_id ` set (bd_issued_budgets d)"
    using assms(3) by (simp_all add: insert_issued_budget_Inr)
  have grown: "grows d d'" by (auto simp: grows_def d')
  have "\<forall>r \<in> set (bd_consumptions d). bcr_budget_id r \<noteq> ibr_budget_id b"
    using assms(1) fresh unfolding budgets_ok_def backed_def by (metis image_eqI)
  then have none: "charged (ibr_budget_id b) resource d = 0" for resource
    by (intro charged_none) blast
  have "0 \<le> m" if "issued_limit b resource = Some m" for resource m
    using assms(2) that by (auto simp: issued_limit.simps post_init_issued_budget_record_def raise_first_Inr_iff split: if_splits)
  then have "within_envelopes d'"
    using assms(1) none by (auto simp: budgets_ok_def within_envelopes_def d')
  moreover have "\<not> blank (ibr_budget_id b)"
    using assms(2) by (simp add: post_init_issued_budget_record_def raise_first_Inr_iff)
  ultimately show ?thesis
    using assms(1) fresh grown backed_grows [OF _ grown] call_of_run_grows [OF _ grown]
    by (auto simp: budgets_ok_def d' once_def)
qed

lemma orchestrate_ok:
  assumes "budgets_ok d" "post_init_research_orchestration_record x = Inr x" "insert_orchestration x d = Inr d'"
  shows "budgets_ok d' \<and> grows d d'"
proof -
  have d': "d' = d\<lparr>bd_orchestrations := bd_orchestrations d @ [x]\<rparr>"
    and fresh: "ror_research_run_id x \<notin> ror_research_run_id ` set (bd_orchestrations d)"
    using assms(3) by (simp_all add: insert_orchestration_Inr)
  have grown: "grows d d'" by (auto simp: grows_def d')
  have max: "0 \<le> ror_max_model_calls x"
    using assms(2) by (simp add: post_init_research_orchestration_record_def raise_first_Inr_iff)
  have "charged (ibr_budget_id b) ''MODEL_CALL'' d = 0"
    if b: "b \<in> set (bd_issued_budgets d)" "ibr_research_run_id b = Some (ror_research_run_id x)" for b
  proof (rule charged_none, intro ballI impI notI)
    fix r assume r: "r \<in> set (bd_consumptions d)" "bcr_budget_id r = ibr_budget_id b" "bcr_resource_type r = ''MODEL_CALL''"
    then obtain c run where "c \<in> set (bd_issued_budgets d)" "ibr_budget_id c = bcr_budget_id r"
        "ibr_research_run_id c = bcr_research_run_id r" "bcr_research_run_id r = Some run"
        "run \<in> ror_research_run_id ` set (bd_orchestrations d)"
      using assms(1) unfolding budgets_ok_def call_of_run_def by blast
    moreover from this have "c = b" using same_budget [OF assms(1)] b(1) r(2) by metis
    ultimately show False using b(2) fresh by simp
  qed
  with max have "within_envelopes d'"
    using assms(1) by (auto simp: budgets_ok_def within_envelopes_def d')
  then show ?thesis
    using assms(1) fresh grown max backed_grows [OF _ grown] call_of_run_grows [OF _ grown]
    by (auto simp: budgets_ok_def d' once_def)
qed

lemma checkpoint_ok:
  assumes "budgets_ok d" "save_orchestration x d = Inr d'"
    and "\<forall>y \<in> set (bd_orchestrations d). ror_research_run_id y = ror_research_run_id x \<longrightarrow>
      ror_max_model_calls y = ror_max_model_calls x"
  shows "budgets_ok d' \<and> grows d d'"
proof -
  define f where "f = (\<lambda>y. if ror_research_run_id y = ror_research_run_id x then x else y)"
  have d': "d' = d\<lparr>bd_orchestrations := map f (bd_orchestrations d)\<rparr>"
    using save_orchestration_Inr [OF assms(2)] by (simp only: f_def)
  have same: "ror_research_run_id (f y) = ror_research_run_id y" "y \<in> set (bd_orchestrations d) \<Longrightarrow>
      ror_max_model_calls (f y) = ror_max_model_calls y" for y
    using assms(3) by (auto simp: f_def)
  have runs: "map ror_research_run_id (bd_orchestrations d') = map ror_research_run_id (bd_orchestrations d)"
    using same(1) by (simp add: d' comp_def)
  then have "ror_research_run_id ` set (bd_orchestrations d') = ror_research_run_id ` set (bd_orchestrations d)"
    by (metis set_map)
  then have grown: "grows d d'" unfolding grows_def by (simp add: d')
  have "within_envelopes d'"
  proof -
    have "charged (ibr_budget_id b) ''MODEL_CALL'' d \<le> ror_max_model_calls (f y)"
      if "b \<in> set (bd_issued_budgets d)" "y \<in> set (bd_orchestrations d)" "ibr_research_run_id b = Some (ror_research_run_id (f y))" for b y
      using assms(1) that same(2) [OF that(2)] unfolding budgets_ok_def within_envelopes_def same(1) by simp
    then show ?thesis using assms(1) unfolding budgets_ok_def within_envelopes_def d' by simp
  qed
  moreover have "once d'" "\<forall>r \<in> set (bd_consumptions d'). backed r d' \<and> call_of_run r d'"
    using assms(1) backed_grows [OF _ grown] call_of_run_grows [OF _ grown] by (auto simp: budgets_ok_def once_def d')
  moreover have "\<forall>y \<in> set (bd_orchestrations d'). 0 \<le> ror_max_model_calls y"
    using assms(1) same(2) unfolding budgets_ok_def d' by fastforce
  ultimately show ?thesis
    using assms(1) grown unfolding budgets_ok_def runs by (simp add: d')
qed

lemma other_ok: "budgets_ok d \<Longrightarrow> budgets_ok (d\<lparr>bd_research_runs := runs, bd_program_policies := policies\<rparr>) \<and>
    grows d (d\<lparr>bd_research_runs := runs, bd_program_policies := policies\<rparr>)"
  by (auto simp: budgets_ok_def within_envelopes_def once_def backed_def call_of_run_def grows_def)

lemma allocate_program_daily_budget_Inr:
  assumes "allocate_program_daily_budget command new_id clock d = Inr (res, d')"
  obtains b where "post_init_issued_budget_record b = Inr b" "insert_issued_budget b d = Inr d'"
proof -
  from assms obtain r b where "post_init_issued_budget_record r = Inr b" "insert_issued_budget b d = Inr d'"
    by (auto simp: allocate_program_daily_budget_def Let_def bindE_Inr_iff split: if_splits)
  then show ?thesis by (intro that [of b]) (auto simp: post_init_issued_budget_record_def raise_first_Inr_iff)
qed

lemma grows_refl [simp]: "grows d d"
  by (simp add: grows_def)

lemma grows_trans: "grows d e \<Longrightarrow> grows e f \<Longrightarrow> grows d f"
  unfolding grows_def by (meson subset_trans)

lemma budget_step_ok:
  "budget_step s s' \<Longrightarrow> state_ok s \<Longrightarrow> state_ok s' \<and> grows (fst s) (fst s')"
proof (induction rule: budget_step.induct)
  case (prepare command new_id clock d r before ps)
  then show ?case using prepare_consumption_Inr(1) [OF prepare(1)] by (auto simp: state_ok_def)
next
  case (settle r before ps d res d')
  then have "budgets_ok d' \<and> grows d d'"
    by (intro settle_consumption_ok) (auto simp: state_ok_def)
  then show ?case using settle backed_grows by (auto simp: state_ok_def dest!: notin_set_remove1 [rotated] set_remove1_subset [THEN subsetD])
next
  case (allocate command' new_id clock d res' d' ps)
  then show ?case using issue_ok backed_grows
    by (elim allocate_program_daily_budget_Inr) (auto simp: state_ok_def)
next
  case (issue b d d' ps)
  then show ?case using issue_ok [OF _ issue(1,2)] backed_grows by (auto simp: state_ok_def)
next
  case (orchestrate x d d' ps)
  then show ?case using orchestrate_ok [OF _ orchestrate(1,2)] backed_grows by (auto simp: state_ok_def)
next
  case (checkpoint x d d' ps)
  then show ?case using checkpoint_ok [OF _ checkpoint(1,2)] backed_grows by (auto simp: state_ok_def)
next
  case (other d ps runs policies)
  then show ?case using other_ok [of d runs policies] backed_grows by (auto simp: state_ok_def)
qed

lemma budget_reachable_ok: "budget_reachable s \<Longrightarrow> state_ok s"
proof (induction rule: budget_reachable.induct)
  case start
  show ?case by (simp add: state_ok_def budgets_ok_def empty_budget_db_def once_def within_envelopes_def)
next
  case (step s s')
  then show ?case using budget_step_ok by blast
qed

lemma budget_steps_ok:
  "budget_step\<^sup>*\<^sup>* s s' \<Longrightarrow> state_ok s \<Longrightarrow> state_ok s' \<and> grows (fst s) (fst s')"
proof (induction rule: rtranclp_induct)
  case (step t u)
  then have "state_ok u \<and> grows (fst t) (fst u)" "grows (fst s) (fst t)" using budget_step_ok by blast+
  then show ?case using grows_trans by blast
qed simp

section \<open>A recording as a whole\<close>

lemma record_budget_consumption_steps:
  assumes "record_budget_consumption command new_id clock d = Inr (res, d')"
  shows "budget_step\<^sup>*\<^sup>* (d, ps) (d', ps)"
proof -
  obtain r before where p: "prepare_consumption command new_id clock d = Inr (r, before)"
      and s: "settle_consumption r before d = Inr (res, d')"
    using assms by (auto simp: record_budget_consumption_def bindE_Inr_iff)
  have "budget_step (d, (r, before) # ps) (d', remove1 (r, before) ((r, before) # ps))"
    by (rule budget_step.settle [OF _ s]) simp
  with budget_step.prepare [OF p, of ps] show ?thesis by (simp add: converse_rtranclp_into_rtranclp)
qed

text \<open>After a recording that returns, a charge of its request is in the ledger.\<close>

lemma record_budget_consumption_charged:
  assumes "record_budget_consumption command new_id clock d = Inr (res, d')" "rcc_request_id command \<noteq> None" "state_ok (d, ps)"
  shows "\<exists>x \<in> set (bd_consumptions d'). bcr_budget_id x = rcc_budget_id command \<and>
    bcr_request_id x = rcc_request_id command \<and> bcr_resource_type x = rcc_resource_type command"
proof -
  obtain r before where p: "prepare_consumption command new_id clock d = Inr (r, before)"
      and s: "settle_consumption r before d = Inr (res, d')"
    using assms(1) by (auto simp: record_budget_consumption_def bindE_Inr_iff)
  note r = prepare_consumption_Inr [OF p]
  from s have "\<exists>x \<in> set (bd_consumptions d'). same_charge r x"
    using already_charged_listed [OF r(5)] assms(2) r(3)
    by (elim settle_consumption_Inr) (auto simp: insert_consumption_Inr same_charge_def)
  then show ?thesis using r by (auto simp: same_charge_def)
qed

lemma fetch_one_row:
  assumes "distinct (map col rows)" "r \<in> set rows" "\<not> blank (col r)"
  shows "fetch_one col f rows (col r) = Inr (Some r)"
proof -
  have "filter (\<lambda>x. col x = col r) rows = [r]"
    using assms(1,2) by (induction rows) (auto simp: filter_empty_conv image_iff)
  then show ?thesis using assms(3) by (simp add: fetch_one_def one_or_none_def)
qed

text \<open>Whether a command passes the checks does not depend on the ledger's state, once its budget is issued.\<close>

lemma prepare_consumption_again:
  assumes "prepare_consumption command new_id clock d = Inr (r, before)" "state_ok (d, ps)" "state_ok (d', ps')" "grows d d'"
    and "\<not> blank (new_id' ''consumption'')"
  shows "\<exists>r' before'. prepare_consumption command new_id' clock' d' = Inr (r', before')"
proof -
  obtain issued where get: "get_issued_budget (rcc_budget_id command) d = Inr (Some issued)"
      and run: "rcc_research_run_id command = None \<or> ibr_research_run_id issued = rcc_research_run_id command"
    using assms(1) by (auto simp: prepare_consumption_def bindE_Inr_iff split: if_splits)
  have issued: "issued \<in> set (bd_issued_budgets d)" "ibr_budget_id issued = rcc_budget_id command" "\<not> blank (rcc_budget_id command)"
    using get by (auto simp: get_issued_budget_def dest: fetch_one_Some)
  then have "get_issued_budget (rcc_budget_id command) d' = Inr (Some issued)"
    using fetch_one_row [of ibr_budget_id "bd_issued_budgets d'" issued] assms(3,4)
    by (auto simp: get_issued_budget_def state_ok_def budgets_ok_def grows_def)
  moreover obtain before' where "list_for_budget (rcc_budget_id command) d' = Inr before'"
    using list_for_budget_ok [OF issued(3)] by blast
  ultimately show ?thesis
    using assms(1,5) run get by (auto simp: prepare_consumption_def bindE_Inr_iff post_init_budget_consumption_record_def
        raise_first_Inr_iff split: if_splits)
qed

section \<open>Properties of the ledger\<close>

text \<open>
  C33. Envelopes are never overspent.  In every interleaving of recordings with the other writers, the usage
  loaded for an issued budget stays within its envelope, and the model calls charged to it stay within the
  limit of the orchestration of its run.
\<close>

theorem budgets_never_overspent:
  assumes "budget_reachable (d, ps)" "b \<in> set (bd_issued_budgets d)"
  shows "(\<exists>u. load_budget_usage (ibr_budget_id b) d = Inr u \<and> bu_requests u \<le> ibr_max_requests b \<and>
      bu_tool_calls u \<le> ibr_max_tool_calls b \<and> bu_runtime_ms u \<le> ibr_max_runtime_ms b) \<and>
    (\<forall>x \<in> set (bd_orchestrations d). ibr_research_run_id b = Some (ror_research_run_id x) \<longrightarrow>
      charged (ibr_budget_id b) ''MODEL_CALL'' d \<le> ror_max_model_calls x)"
proof -
  have ok: "budgets_ok d" using budget_reachable_ok [OF assms(1)] by (simp add: state_ok_def)
  obtain rs where rs: "list_for_budget (ibr_budget_id b) d = Inr rs"
    using ok assms(2) list_for_budget_ok unfolding budgets_ok_def by blast
  note listed = list_for_budget_Inr [OF rs]
  have "\<forall>r \<in> set rs. 0 < bcr_amount r" using ok listed by (auto simp: budgets_ok_def backed_def)
  then obtain u where u: "usage_from_consumptions rs = Inr u" using usage_from_consumptions_ok by blast
  have "charged (ibr_budget_id b) resource d \<le> m" if "issued_limit b resource = Some m" for resource m
    using ok assms(2) that unfolding budgets_ok_def within_envelopes_def by blast
  from this [of "''REQUEST''"] this [of "''WORKER_INVOCATION''"] this [of "''EXECUTION_TIME''"]
  have "bu_requests u \<le> ibr_max_requests b" "bu_tool_calls u \<le> ibr_max_tool_calls b" "bu_runtime_ms u \<le> ibr_max_runtime_ms b"
    using usage_from_consumptions_Inr [OF u] listed by (simp_all add: issued_limit.simps)
  then show ?thesis
    using u rs ok assms(2) by (auto simp: load_budget_usage_def budgets_ok_def within_envelopes_def)
qed

text \<open>
  C34. A request is charged once.  After a recording with a request id has returned, and whatever other
  transactions follow, recording the same command again (with any clock and fresh identity) returns, reports
  that it was recorded already and changes nothing; the ledger holds exactly one charge of the request.
\<close>

theorem replay_charges_once:
  assumes "budget_reachable (d, ps)" "record_budget_consumption command new_id clock d = Inr (res, d1)"
    and "rcc_request_id command \<noteq> None" "budget_step\<^sup>*\<^sup>* (d1, ps) (d2, ps2)" "\<not> blank (new_id' ''consumption'')"
  shows "(\<exists>u. record_budget_consumption command new_id' clock' d2 =
      Inr (\<lparr>rcr_consumption_id = None, rcr_already_recorded = True, rcr_usage = u\<rparr>, d2)) \<and>
    (\<exists>!x. x \<in> set (bd_consumptions d2) \<and> bcr_budget_id x = rcc_budget_id command \<and>
      bcr_request_id x = rcc_request_id command \<and> bcr_resource_type x = rcc_resource_type command)"
proof -
  have ok: "state_ok (d, ps)" by (rule budget_reachable_ok [OF assms(1)])
  note first = budget_steps_ok [OF record_budget_consumption_steps [OF assms(2)] ok, simplified]
  note second = budget_steps_ok [OF assms(4), simplified]
  have ok2: "state_ok (d2, ps2)" and grown: "grows d d2" "grows d1 d2"
    using first second grows_trans by blast+
  obtain r before where p: "prepare_consumption command new_id clock d = Inr (r, before)"
    using assms(2) by (auto simp: record_budget_consumption_def bindE_Inr_iff)
  obtain r' before' where p': "prepare_consumption command new_id' clock' d2 = Inr (r', before')"
    using prepare_consumption_again [where new_id' = new_id' and clock' = clock', OF p ok ok2 grown(1) assms(5)] by blast
  note r' = prepare_consumption_Inr [OF p']
  obtain x where x: "x \<in> set (bd_consumptions d2)" "bcr_budget_id x = rcc_budget_id command"
      "bcr_request_id x = rcc_request_id command" "bcr_resource_type x = rcc_resource_type command"
    using record_budget_consumption_charged [OF assms(2,3) ok] grown(2) by (auto simp: grows_def)
  then have "already_charged r' before'"
    using already_charged_listed [OF r'(5)] r' assms(3) by (auto simp: same_charge_def)
  moreover obtain u where "usage_from_consumptions before' = Inr u"
    using usage_from_consumptions_ok [of before'] list_for_budget_Inr [OF r'(5)] ok2
    by (auto simp: state_ok_def budgets_ok_def backed_def)
  ultimately have "record_budget_consumption command new_id' clock' d2 =
      Inr (\<lparr>rcr_consumption_id = None, rcr_already_recorded = True, rcr_usage = u\<rparr>, d2)"
    using p' by (simp add: record_budget_consumption_def settle_consumption_def consumption_result_def)
  moreover have "y = x" if "y \<in> set (bd_consumptions d2)" "bcr_budget_id y = rcc_budget_id command"
      "bcr_request_id y = rcc_request_id command" "bcr_resource_type y = rcc_resource_type command" for y
    using ok2 x that assms(3) by (auto simp: state_ok_def budgets_ok_def once_def same_charge_def)
  ultimately show ?thesis using x by blast
qed

end
