(* ===== verification/Model_Budget.thy ===== *)
theory Model_Budget
  imports Budget_Safety
begin

text \<open>
  The daily check and the reserving port on top of the ledger, a concrete ledger run, and the two places
  where the ledger's accounting is weaker than its interface suggests.
\<close>

section \<open>Spending of a day\<close>

definition token_record :: "budget_consumption_record \<Rightarrow> bool" where
  "token_record r \<longleftrightarrow> bcr_resource_type r \<in> {''MODEL_TOKENS_IN'', ''MODEL_TOKENS_OUT''}"

text \<open>The model named by the metadata of a consumption.\<close>

definition model_of :: "budget_consumption_record \<Rightarrow> json" where
  "model_of r = (case bcr_resource_metadata r of None \<Rightarrow> JNull | Some m \<Rightarrow> payload_get ''model_id'' m)"

definition priced_model :: "json \<Rightarrow> bool" where
  "priced_model v = (case v of JStr m \<Rightarrow> m \<in> fst ` set MODEL_PRICE_TABLE | _ \<Rightarrow> False)"

text \<open>Some token record of the same request names a model with a price.\<close>

definition priced_request :: "budget_consumption_record list \<Rightarrow> string option \<Rightarrow> bool" where
  "priced_request records request \<longleftrightarrow>
     (\<exists>r \<in> set records. token_record r \<and> bcr_request_id r = request \<and> priced_model (model_of r))"

text \<open>What the buckets know of the records read so far.\<close>

definition buckets_ok :: "budget_consumption_record list \<Rightarrow> (string option \<times> token_bucket) list \<Rightarrow> bool" where
  "buckets_ok records buckets \<longleftrightarrow>
     (\<forall>request b. map_of buckets request = Some b \<longrightarrow> 0 \<le> tb_in b \<and> 0 \<le> tb_out b \<and>
        (tb_model_id b = JNull \<or>
         (\<exists>r \<in> set records. token_record r \<and> bcr_request_id r = request \<and> model_of r = tb_model_id b))) \<and>
     (\<forall>r \<in> set records. token_record r \<longrightarrow> bcr_request_id r \<in> fst ` set buckets) \<and> distinct (map fst buckets)"

lemma priced_model_JNull [simp]: "\<not> priced_model JNull"
  by (simp add: priced_model_def)

lemma add_tokens_model:
  "tb_model_id (add_tokens r b) = (if tb_model_id b = JNull then model_of r else tb_model_id b)"
  by (auto simp: add_tokens_def Let_def model_of_def split: json.splits option.splits)

lemma add_tokens_amounts:
  "0 < bcr_amount r \<Longrightarrow> 0 \<le> tb_in b \<Longrightarrow> 0 \<le> tb_out b \<Longrightarrow> 0 \<le> tb_in (add_tokens r b) \<and> 0 \<le> tb_out (add_tokens r b)"
  by (auto simp: add_tokens_def Let_def split: json.splits option.splits)

lemma by_request_ok:
  assumes "buckets_ok records buckets" "0 < bcr_amount r"
  shows "buckets_ok (records @ [r]) (by_request r buckets)"
proof (cases "token_record r")
  case False
  then show ?thesis using assms(1) by (fastforce simp: buckets_ok_def by_request_def token_record_def)
next
  case True
  define b where "b = (case map_of buckets (bcr_request_id r) of None \<Rightarrow> empty_bucket | Some b \<Rightarrow> b)"
  have b: "0 \<le> tb_in b \<and> 0 \<le> tb_out b \<and> (tb_model_id b = JNull \<or>
      (\<exists>x \<in> set records. token_record x \<and> bcr_request_id x = bcr_request_id r \<and> model_of x = tb_model_id b))"
    using assms(1) by (auto simp: b_def buckets_ok_def empty_bucket_def split: option.splits)
  have eq: "by_request r buckets = AList.update (bcr_request_id r) (add_tokens r b) buckets"
    using True by (simp add: by_request_def token_record_def b_def)
  have new: "0 \<le> tb_in (add_tokens r b) \<and> 0 \<le> tb_out (add_tokens r b) \<and> (tb_model_id (add_tokens r b) = JNull \<or>
      (\<exists>x \<in> set (records @ [r]). token_record x \<and> bcr_request_id x = bcr_request_id r \<and> model_of x = tb_model_id (add_tokens r b)))"
    using b add_tokens_amounts [OF assms(2), of b] True by (auto simp: add_tokens_model)
  show ?thesis
    unfolding buckets_ok_def eq update_conv
    using assms(1) new True
    by (auto simp: buckets_ok_def fun_upd_def distinct_update dom_update [unfolded dom_map_of_conv_image_fst]
        dest: dom_update [THEN equalityD1, THEN subsetD] split: if_splits)
qed

lemma buckets_of_records:
  "\<forall>r \<in> set records. 0 < bcr_amount r \<Longrightarrow> buckets_ok (seen @ records) (fold by_request records buckets) \<or> \<not> buckets_ok seen buckets"
proof (induction records arbitrary: seen buckets)
  case (Cons r records)
  then show ?case using by_request_ok [of "seen" buckets r] Cons.IH [of "seen @ [r]" "by_request r buckets"] by auto
qed simp

lemma bucket_cost_unpriced: "\<not> priced_model (tb_model_id b) \<Longrightarrow> bucket_cost b = Inr c \<Longrightarrow> c = UNPRICED"
  by (auto simp: bucket_cost_def priced_model_def estimate_cost_def image_iff split: json.splits sum.splits option.splits
      core_error.splits dest!: map_of_SomeD)

lemma bucket_cost_nonneg:
  assumes "0 \<le> tb_in b" "0 \<le> tb_out b" "bucket_cost b = Inr c"
  shows "0 \<le> c"
proof (cases "priced_model (tb_model_id b)")
  case True
  then obtain m where m: "tb_model_id b = JStr m" by (auto simp: priced_model_def split: json.splits)
  consider "estimate_cost (Some m) (Some (tb_in b)) (Some (tb_out b)) = Inr c" | "c = UNPRICED"
    using assms(3) m by (auto simp: bucket_cost_def split: sum.splits core_error.splits)
  then show ?thesis
  proof cases
    case 1
    then show ?thesis using assms(1,2) by (elim estimate_cost_InrE) (simp add: pos_imp_zdiv_nonneg_iff)
  qed (simp add: UNPRICED_def)
next
  case False
  then show ?thesis using bucket_cost_unpriced [OF _ assms(3)] by (simp add: UNPRICED_def)
qed

lemma sum_costs_Inr:
  "sum_costs bs = Inr t \<Longrightarrow> \<forall>b \<in> set bs. 0 \<le> tb_in b \<and> 0 \<le> tb_out b \<Longrightarrow>
     0 \<le> t \<and> (\<forall>b \<in> set bs. \<exists>c. bucket_cost b = Inr c \<and> c \<le> t)"
proof (induction bs arbitrary: t)
  case (Cons b bs)
  then obtain c u where "bucket_cost b = Inr c" "sum_costs bs = Inr u" "t = c + u" by (auto simp: bindE_Inr_iff)
  moreover from this have "0 \<le> c" using bucket_cost_nonneg [of b] Cons.prems(2) by simp
  ultimately show ?case using Cons by fastforce
qed simp

lemma unpriced_request_cost:
  assumes "sum_estimated_cost records = Inr t" "\<forall>r \<in> set records. 0 < bcr_amount r"
    and "r \<in> set records" "token_record r" "\<not> priced_request records (bcr_request_id r)"
  shows "UNPRICED \<le> t"
proof -
  let ?bs = "fold by_request records []"
  have ok: "buckets_ok records ?bs"
    using buckets_of_records [OF assms(2), of "[]" "[]"] by (simp add: buckets_ok_def)
  then obtain b where b: "(bcr_request_id r, b) \<in> set ?bs" using assms(3,4) by (auto simp: buckets_ok_def)
  then have "map_of ?bs (bcr_request_id r) = Some b" using ok by (simp add: buckets_ok_def)
  then have "\<not> priced_model (tb_model_id b)"
    using ok assms(5) unfolding buckets_ok_def priced_request_def by (metis priced_model_JNull)
  moreover have "\<forall>x \<in> set (map snd ?bs). 0 \<le> tb_in x \<and> 0 \<le> tb_out x"
    using ok by (auto simp: buckets_ok_def)
  ultimately show ?thesis
    using sum_costs_Inr [OF assms(1) [unfolded sum_estimated_cost_def]] bucket_cost_unpriced b by force
qed

text \<open>A program without a policy row is not checked at all.\<close>

lemma no_policy_continues:
  "get_program_policy p d = Inr None \<Longrightarrow> \<exists>c. check_program_budget p estimated clock d = Inr c \<and> bc_allowed_to_continue c"
  by (simp add: check_program_budget_def Let_def)

lemma check_with_policy:
  assumes "check_program_budget p estimated clock d = Inr c" "get_program_policy p d = Inr (Some policy)"
  shows "bc_allowed_to_continue c \<longleftrightarrow> (\<exists>limit envelope records spent. ppr_daily_llm_budget_microdollars policy = Some limit \<and>
    get_issued_budget (program_daily_budget_id p (iso_date (clock ''now''))) d = Inr (Some envelope) \<and>
    list_for_budget (program_daily_budget_id p (iso_date (clock ''now''))) d = Inr records \<and>
    sum_estimated_cost records = Inr spent \<and> spent + estimated < limit)"
  using assms by (auto simp: check_program_budget_def Let_def bindE_Inr_iff mapErr_Inr_iff check_program_daily_budget_def
      post_init_program_daily_budget_def raise_first_Inr_iff not_le split: option.splits if_splits)

text \<open>
  C35. The daily check, exactly.  It lets a program continue when the program has no policy, which turns the
  check off, or when all of this holds: the operator has set a limit in the policy, the day's envelope is
  issued, the estimated cost of the recorded tokens together with the announced cost is below the limit, and
  every request with recorded tokens ran on a model with a known price (the limit being bounded by its
  column).  Otherwise it denies: without a limit, without the envelope, at the limit, or after a request on a
  model without a price.
\<close>

theorem daily_check_characterised:
  assumes "check_program_budget p estimated clock d = Inr c" "0 \<le> estimated"
    and "\<forall>r \<in> set (bd_consumptions d). 0 < bcr_amount r"
    and "\<And>policy n. get_program_policy p d = Inr (Some policy) \<Longrightarrow> ppr_daily_llm_budget_microdollars policy = Some n \<Longrightarrow> int4 n"
  shows "bc_allowed_to_continue c \<longleftrightarrow> get_program_policy p d = Inr None \<or>
    (\<exists>policy limit envelope records spent. get_program_policy p d = Inr (Some policy) \<and>
       ppr_daily_llm_budget_microdollars policy = Some limit \<and>
       get_issued_budget (program_daily_budget_id p (iso_date (clock ''now''))) d = Inr (Some envelope) \<and>
       list_for_budget (program_daily_budget_id p (iso_date (clock ''now''))) d = Inr records \<and>
       sum_estimated_cost records = Inr spent \<and> spent + estimated < limit \<and>
       (\<forall>r \<in> set records. token_record r \<longrightarrow> priced_request records (bcr_request_id r)))"
proof -
  let ?i = "program_daily_budget_id p (iso_date (clock ''now''))"
  from assms(1) obtain row where row: "get_program_policy p d = Inr row"
    by (auto simp: check_program_budget_def Let_def bindE_Inr_iff mapErr_Inr_iff)
  show ?thesis
  proof (cases row)
    case None
    with row have none: "get_program_policy p d = Inr None" by simp
    with no_policy_continues [OF none, of estimated clock] assms(1) show ?thesis by auto
  next
    case (Some policy)
    with row have policy: "get_program_policy p d = Inr (Some policy)" by simp
    have priced: "\<forall>r \<in> set records. token_record r \<longrightarrow> priced_request records (bcr_request_id r)"
      if "ppr_daily_llm_budget_microdollars policy = Some limit" "list_for_budget ?i d = Inr records"
        "sum_estimated_cost records = Inr spent" "spent + estimated < limit" for limit records spent
    proof -
      have "UNPRICED > limit" using assms(4) [OF policy that(1)] by (auto simp: int4_def UNPRICED_def)
      moreover have "\<forall>r \<in> set records. 0 < bcr_amount r" using list_for_budget_Inr [OF that(2)] assms(3) by auto
      ultimately show ?thesis using unpriced_request_cost [OF that(3)] that(4) assms(2) by fastforce
    qed
    show ?thesis unfolding check_with_policy [OF assms(1) policy] using policy priced by fastforce
  qed
qed

section \<open>The reserving port\<close>

text \<open>The port's calls, interleaved with the steps of the other transactions.\<close>

inductive port_step :: "budget_port \<times> budget_db \<times> pending list \<Rightarrow> budget_port \<times> budget_db \<times> pending list \<Rightarrow> bool" where
  call: "complete_model_call port role reply new_id clock d = (outcome, port', d') \<Longrightarrow> port_step (port, d, ps) (port', d', ps)"
| others: "budget_step (d, ps) (d', ps') \<Longrightarrow> port_step (port, d, ps) (port, d', ps')"

lemma invocation_id_inject:
  "model_invocation_request_id c r n = model_invocation_request_id c r' n' \<longleftrightarrow> r = r' \<and> n = n'"
proof
  assume eq: "model_invocation_request_id c r n = model_invocation_request_id c r' n'"
  have "r = r'"
    using eq by (cases r; cases r') (simp_all add: model_invocation_request_id_def py_lower_def lower_char_def)
  moreover from this eq have "show_int n @ [] = show_int n' @ []" by (simp add: model_invocation_request_id_def)
  then have "n = n'" using show_int_inj by (metis delim_def list.size(3))
  ultimately show "r = r' \<and> n = n'" ..
qed simp

definition charged_call :: "string \<Rightarrow> string \<Rightarrow> budget_db \<Rightarrow> bool" where
  "charged_call budget i d \<longleftrightarrow> (\<exists>x \<in> set (bd_consumptions d). bcr_budget_id x = budget \<and>
     bcr_request_id x = Some i \<and> bcr_resource_type x = ''MODEL_CALL'')"

lemma charged_call_grows: "charged_call b i d \<Longrightarrow> grows d d' \<Longrightarrow> charged_call b i d'"
  by (auto simp: charged_call_def grows_def)

lemma reserve_model_call_Inr:
  assumes "reserve_model_call port i new_id clock d = Inr d'"
  shows "budget_step\<^sup>*\<^sup>* (d, ps) (d', ps) \<and> (state_ok (d, ps) \<longrightarrow> charged_call (bp_budget_id port) i d')"
proof -
  obtain res where rec: "record_budget_consumption
       \<lparr>rcc_budget_id = bp_budget_id port, rcc_research_run_id = Some (bp_research_run_id port),
        rcc_resource_type = ''MODEL_CALL'', rcc_amount = 1, rcc_unit = ''count'',
        rcc_provenance = ''budget_enforced_model_port.complete'', rcc_experiment_id = None,
        rcc_request_id = Some i, rcc_resource_metadata = None\<rparr> new_id clock d = Inr (res, d')"
    using assms by (auto simp: reserve_model_call_def bindE_Inr_iff split: option.splits if_splits)
  show ?thesis
    using record_budget_consumption_steps [OF rec] record_budget_consumption_charged [OF rec, of ps]
    by (auto simp: charged_call_def)
qed

lemma charge_tokens_steps: "charge_tokens resource n b i m new_id clock d = (out, d') \<Longrightarrow> budget_step\<^sup>*\<^sup>* (d, ps) (d', ps)"
  by (auto simp: charge_tokens_def split: option.splits sum.splits prod.splits dest: record_budget_consumption_steps)

lemma record_tokens_steps:
  assumes "record_tokens port i result new_id clock d = (out, d')"
  shows "budget_step\<^sup>*\<^sup>* (d, ps) (d', ps)"
  using assms
  by (auto simp: record_tokens_def Let_def split: option.splits sum.splits prod.splits
      dest!: charge_tokens_steps [where ps = ps] intro: rtranclp_trans)

lemma complete_model_call_effect:
  assumes "complete_model_call port role reply new_id clock d = (out, port', d')"
  defines "i \<equiv> model_invocation_request_id (bp_cycle_id port) role (bp_attempts port role + 1)"
  shows "budget_step\<^sup>*\<^sup>* (d, ps) (d', ps) \<and> bp_budget_id port' = bp_budget_id port \<and>
     bp_research_run_id port' = bp_research_run_id port \<and> bp_cycle_id port' = bp_cycle_id port \<and>
     bp_attempts port' = (bp_attempts port)(role := bp_attempts port role + 1) \<and>
     (bp_reserved_invocations port' = bp_reserved_invocations port \<or>
      bp_reserved_invocations port' = bp_reserved_invocations port @ [i] \<and>
        (state_ok (d, ps) \<longrightarrow> charged_call (bp_budget_id port) i d'))"
proof (cases "reserve_model_call (port\<lparr>bp_attempts := (bp_attempts port)(role := bp_attempts port role + 1)\<rparr>) i new_id clock d")
  case (Inl e)
  then show ?thesis using assms by (auto simp: complete_model_call_def Let_def)
next
  case (Inr d1)
  note reserved = reserve_model_call_Inr [OF Inr, of ps]
  have "budget_step\<^sup>*\<^sup>* (d1, ps) (d', ps)"
    using assms Inr by (auto simp: complete_model_call_def Let_def split: sum.splits prod.splits
        dest: record_tokens_steps [where ps = ps])
  moreover from this reserved have "state_ok (d, ps) \<longrightarrow> grows d1 d'"
    using budget_steps_ok by fastforce
  ultimately show ?thesis
    using assms Inr reserved charged_call_grows rtranclp_trans [of budget_step "(d, ps)" "(d1, ps)" "(d', ps)"]
    by (auto simp: complete_model_call_def Let_def split: sum.splits prod.splits)
qed

definition port_ok :: "string \<Rightarrow> string \<Rightarrow> string \<Rightarrow> budget_port \<times> budget_db \<times> pending list \<Rightarrow> bool" where
  "port_ok budget run cycle s = (case s of (port, d, ps) \<Rightarrow> state_ok (d, ps) \<and>
     bp_budget_id port = budget \<and> bp_research_run_id port = run \<and> bp_cycle_id port = cycle \<and>
     distinct (bp_reserved_invocations port) \<and>
     (\<forall>i \<in> set (bp_reserved_invocations port). charged_call budget i d \<and>
        (\<exists>role n. n \<le> bp_attempts port role \<and> i = model_invocation_request_id cycle role n)))"

lemma port_step_ok: "port_step s s' \<Longrightarrow> port_ok b run cycle s \<Longrightarrow> port_ok b run cycle s'"
proof (induction rule: port_step.induct)
  case (call port role reply new_id clock d outcome port' d' ps)
  let ?i = "model_invocation_request_id (bp_cycle_id port) role (bp_attempts port role + 1)"
  note eff = complete_model_call_effect [OF call(1), of ps]
  have state: "state_ok (d, ps)" and fields: "bp_budget_id port = b" "bp_research_run_id port = run" "bp_cycle_id port = cycle"
    using call(2) by (auto simp: port_ok_def)
  have next_ok: "state_ok (d', ps)" "grows d d'" using eff budget_steps_ok [OF _ state] by auto
  have fresh: "?i \<notin> set (bp_reserved_invocations port)"
    using call(2) by (auto simp: port_ok_def invocation_id_inject)
  have ids: "\<exists>r n. n \<le> bp_attempts port' r \<and> i = model_invocation_request_id cycle r n"
    if "i \<in> set (bp_reserved_invocations port')" for i
  proof (cases "i = ?i")
    case True
    then show ?thesis using eff fields by (intro exI [of _ role] exI [of _ "bp_attempts port role + 1"]) simp
  next
    case False
    then have "i \<in> set (bp_reserved_invocations port)" using that eff by auto
    then obtain r n where "n \<le> bp_attempts port r" "i = model_invocation_request_id cycle r n"
      using call(2) unfolding port_ok_def by blast
    then show ?thesis using eff by (intro exI [of _ r] exI [of _ n]) auto
  qed
  have "charged_call b i d'" if "i \<in> set (bp_reserved_invocations port')" for i
    using that eff state fields call(2) charged_call_grows [OF _ next_ok(2)] by (auto simp: port_ok_def)
  then show ?case
    using eff fields ids next_ok(1) fresh call(2) by (auto simp: port_ok_def)
next
  case (others d ps d' ps' port)
  then have "state_ok (d', ps') \<and> grows d d'" using budget_step_ok [OF others(1)] by (simp add: port_ok_def)
  then show ?case using others(2) charged_call_grows by (auto simp: port_ok_def)
qed

lemma length_le_total:
  "\<forall>r \<in> set rs. 0 < bcr_amount r \<Longrightarrow> int (length (filter (\<lambda>r. bcr_resource_type r = resource) rs)) \<le> total resource rs"
  by (induction rs) auto

text \<open>Distinct charged requests of a budget are distinct charges.\<close>

lemma charged_calls_count:
  assumes "distinct is" "\<forall>i \<in> set is. charged_call b i d" "\<forall>r \<in> set (bd_consumptions d). 0 < bcr_amount r"
  shows "int (length is) \<le> charged b ''MODEL_CALL'' d"
proof -
  define calls where "calls = filter (\<lambda>r. bcr_resource_type r = ''MODEL_CALL'') (filter (\<lambda>r. bcr_budget_id r = b) (bd_consumptions d))"
  have "Some ` set is \<subseteq> bcr_request_id ` set calls"
    using assms(2) by (force simp: charged_call_def calls_def)
  then have "card (Some ` set is) \<le> card (set calls)"
    by (meson List.finite_set card_image_le card_mono finite_imageI le_trans)
  then have "length is \<le> length calls"
    using assms(1) card_length [of calls] by (simp add: card_image distinct_card)
  moreover have "int (length calls) \<le> charged b ''MODEL_CALL'' d"
    unfolding calls_def charged_def by (rule length_le_total) (use assms(3) in simp)
  ultimately show ?thesis by linarith
qed

section \<open>A ledger run\<close>

definition ledger_run :: research_run_record where
  "ledger_run = \<lparr>rr_research_run_id = ''run'', rr_program_id = ''prog'', rr_authorization_source_id = ''auth'',
     rr_initiated_by_actor_id = ''op'', rr_initiated_by_actor_type = ''HUMAN_OPERATOR'', rr_started_at = 0\<rparr>"

definition ledger_policy :: program_policy_record where
  "ledger_policy = \<lparr>ppr_program_id = ''prog'', ppr_loopback_fixture = True, ppr_max_response_bytes = 4096,
     ppr_timeout_ms = 2000, ppr_created_at = 0, ppr_updated_at = 0, ppr_action_policy = None,
     ppr_daily_llm_budget_microdollars = Some 100\<rparr>"

definition ledger_budget :: "string \<Rightarrow> issued_budget_record" where
  "ledger_budget i = \<lparr>ibr_budget_id = i, ibr_research_run_id = Some ''run'', ibr_max_requests = 5, ibr_max_tool_calls = 2,
     ibr_max_runtime_ms = 1000, ibr_max_concurrency = 1, ibr_issued_at = 0\<rparr>"

definition ledger_orchestration :: research_orchestration_record where
  "ledger_orchestration = \<lparr>ror_research_run_id = ''run'', ror_state = ''READY'', ror_cycle_number = 0,
     ror_last_phase = ''CYCLE_READY'', ror_policy_version = ''v1'', ror_max_cycles = 3, ror_max_experiments = 3,
     ror_max_model_calls = 1, ror_max_worker_invocations = 2, ror_max_elapsed_ms = 1000,
     ror_max_selected_opportunities = 1, ror_max_runtime_fallback = 0, ror_side_effect_ceiling = 1,
     ror_allow_repeated_control_experiments = False, ror_created_at = 0, ror_updated_at = 0, ror_checkpoint_at = 0,
     ror_budget_id = ''b1'', ror_target_reference = ''t'', ror_research_question = ''q'',
     ror_configuration_fingerprint = replicate 64 (CHR ''a''), ror_current_phase = ''CYCLE_READY'',
     ror_last_opportunity_id = None, ror_last_hypothesis_id = None, ror_last_experiment_id = None,
     ror_pause_reason = None, ror_stop_reason = None, ror_active_cycle_id = None, ror_last_attempt_id = None,
     ror_last_observation_id = None, ror_last_assessment_id = None, ror_last_worker_result_id = None,
     ror_routing_policy_version = None, ror_scope_fingerprint = None\<rparr>"

definition ledger_db :: budget_db where
  "ledger_db = \<lparr>bd_research_runs = [ledger_run], bd_program_policies = [ledger_policy],
     bd_issued_budgets = [ledger_budget ''b1'', ledger_budget ''b2''], bd_orchestrations = [ledger_orchestration],
     bd_consumptions = []\<rparr>"

lemma ledger_db_reachable: "budget_reachable (ledger_db, [])"
proof -
  define d1 where "d1 = empty_budget_db\<lparr>bd_research_runs := [ledger_run], bd_program_policies := [ledger_policy]\<rparr>"
  define d2 where "d2 = d1\<lparr>bd_issued_budgets := [ledger_budget ''b1'']\<rparr>"
  define d3 where "d3 = d1\<lparr>bd_issued_budgets := [ledger_budget ''b1'', ledger_budget ''b2'']\<rparr>"
  have "budget_reachable (d1, [])"
    unfolding d1_def by (intro budget_reachable.step [OF budget_reachable.start] budget_step.other)
  moreover have "budget_step (d1, []) (d2, [])"
    by (rule budget_step.issue [of "ledger_budget ''b1''"]) (unfold d1_def d2_def, code_simp, code_simp)
  moreover have "budget_step (d2, []) (d3, [])"
    by (rule budget_step.issue [of "ledger_budget ''b2''"]) (unfold d1_def d2_def d3_def, code_simp, code_simp)
  moreover have "budget_step (d3, []) (ledger_db, [])"
    by (rule budget_step.orchestrate [of ledger_orchestration]) (unfold d1_def d3_def, code_simp, code_simp)
  ultimately show ?thesis by (meson budget_reachable.step)
qed

definition ledger_command :: "string \<Rightarrow> string \<Rightarrow> string \<Rightarrow> record_consumption_command" where
  "ledger_command b resource request = \<lparr>rcc_budget_id = b, rcc_research_run_id = Some ''run'', rcc_resource_type = resource,
     rcc_amount = 1, rcc_unit = ''count'', rcc_provenance = ''test'', rcc_experiment_id = None,
     rcc_request_id = Some request, rcc_resource_metadata = None\<rparr>"

definition ledger_row :: "string \<Rightarrow> string \<Rightarrow> string \<Rightarrow> string \<Rightarrow> budget_consumption_record" where
  "ledger_row i b resource request = \<lparr>bcr_consumption_id = i, bcr_budget_id = b, bcr_research_run_id = Some ''run'',
     bcr_resource_type = resource, bcr_amount = 1, bcr_unit = ''count'', bcr_occurred_at = 0, bcr_provenance = ''test'',
     bcr_experiment_id = None, bcr_request_id = Some request, bcr_resource_metadata = None\<rparr>"

definition ledger_usage :: "int \<Rightarrow> budget_usage" where
  "ledger_usage n = \<lparr>bu_requests = n, bu_tool_calls = 0, bu_runtime_ms = 0, bu_concurrency = 0\<rparr>"

definition recorded_as :: "string \<Rightarrow> int \<Rightarrow> record_consumption_result" where
  "recorded_as i n = \<lparr>rcr_consumption_id = Some i, rcr_already_recorded = False, rcr_usage = ledger_usage n\<rparr>"

lemma ledger_records:
  "record_budget_consumption (ledger_command ''b1'' ''REQUEST'' ''q1'') (\<lambda>_. ''c1'') (\<lambda>_. 0) ledger_db =
     Inr (recorded_as ''c1'' 1, ledger_db\<lparr>bd_consumptions := [ledger_row ''c1'' ''b1'' ''REQUEST'' ''q1'']\<rparr>)"
  "record_budget_consumption (ledger_command ''b1'' ''MODEL_CALL'' ''m1'') (\<lambda>_. ''c1'') (\<lambda>_. 0) ledger_db =
     Inr (recorded_as ''c1'' 0, ledger_db\<lparr>bd_consumptions := [ledger_row ''c1'' ''b1'' ''MODEL_CALL'' ''m1'']\<rparr>)"
  "record_budget_consumption (ledger_command ''b2'' ''MODEL_CALL'' ''m2'') (\<lambda>_. ''c2'') (\<lambda>_. 0)
       (ledger_db\<lparr>bd_consumptions := [ledger_row ''c1'' ''b1'' ''MODEL_CALL'' ''m1'']\<rparr>) =
     Inr (recorded_as ''c2'' 0, ledger_db\<lparr>bd_consumptions := [ledger_row ''c1'' ''b1'' ''MODEL_CALL'' ''m1'',
        ledger_row ''c2'' ''b2'' ''MODEL_CALL'' ''m2'']\<rparr>)"
  by code_simp+

text \<open>
  The limit on model calls is meant for the run, but it is checked against the calls charged to one budget:
  a run with two budgets can make twice as many calls.
\<close>

theorem run_limit_is_per_budget:
  "\<exists>d. budget_reachable (d, []) \<and> (\<exists>x \<in> set (bd_orchestrations d). ror_research_run_id x = ''run'' \<and>
     ror_max_model_calls x < total ''MODEL_CALL'' (filter (\<lambda>r. bcr_research_run_id r = Some ''run'') (bd_consumptions d)))"
proof -
  let ?d1 = "ledger_db\<lparr>bd_consumptions := [ledger_row ''c1'' ''b1'' ''MODEL_CALL'' ''m1'']\<rparr>"
  let ?d2 = "ledger_db\<lparr>bd_consumptions := [ledger_row ''c1'' ''b1'' ''MODEL_CALL'' ''m1'', ledger_row ''c2'' ''b2'' ''MODEL_CALL'' ''m2'']\<rparr>"
  have "budget_reachable s \<Longrightarrow> budget_step\<^sup>*\<^sup>* s s' \<Longrightarrow> budget_reachable s'" for s s'
    by (rotate_tac, induction rule: rtranclp_induct) (auto intro: budget_reachable.step)
  then have "budget_reachable (?d2, [])"
    using ledger_db_reachable record_budget_consumption_steps [OF ledger_records(2)]
      record_budget_consumption_steps [OF ledger_records(3)] by blast
  then show ?thesis
    by (intro exI [of _ ?d2]) (simp add: ledger_db_def ledger_orchestration_def ledger_row_def)
qed

text \<open>
  A recording that read the ledger before a concurrent recording of the same request committed reports its
  own consumption id as recorded, although the ledger does not hold it.
\<close>

theorem stale_replay_reports_unstored_id:
  "settle_consumption (ledger_row ''c2'' ''b1'' ''REQUEST'' ''q1'') []
      (ledger_db\<lparr>bd_consumptions := [ledger_row ''c1'' ''b1'' ''REQUEST'' ''q1'']\<rparr>) =
   Inr (recorded_as ''c2'' 1, ledger_db\<lparr>bd_consumptions := [ledger_row ''c1'' ''b1'' ''REQUEST'' ''q1'']\<rparr>)"
  by code_simp

section \<open>Properties of the port\<close>

text \<open>
  C36. Model calls are bounded.  A port created on a reachable ledger reserves before each call; over any
  sequence of calls, with any answers of the model and any other transactions in between, it makes at most as
  many calls as the orchestration of its run allows, each under an invocation id of its own.
\<close>

theorem model_calls_bounded:
  assumes "budget_reachable (d0, ps0)"
    and "port_step\<^sup>*\<^sup>* (new_budget_port budget run cycle program, d0, ps0) (port, d, ps)"
    and "b \<in> set (bd_issued_budgets d)" "ibr_budget_id b = budget" "ibr_research_run_id b = Some run"
    and "x \<in> set (bd_orchestrations d)" "ror_research_run_id x = run"
  shows "int (length (bp_reserved_invocations port)) \<le> ror_max_model_calls x \<and> distinct (bp_reserved_invocations port)"
proof -
  have "port_ok budget run cycle (new_budget_port budget run cycle program, d0, ps0)"
    using budget_reachable_ok [OF assms(1)] by (simp add: port_ok_def new_budget_port_def)
  with assms(2) have "port_ok budget run cycle (port, d, ps)"
    by (induction rule: rtranclp_induct) (auto intro: port_step_ok)
  then have ok: "budgets_ok d" "distinct (bp_reserved_invocations port)"
      "\<forall>i \<in> set (bp_reserved_invocations port). charged_call budget i d"
    by (auto simp: port_ok_def state_ok_def)
  then have "int (length (bp_reserved_invocations port)) \<le> charged budget ''MODEL_CALL'' d"
    by (intro charged_calls_count) (auto simp: budgets_ok_def backed_def)
  also have "\<dots> \<le> ror_max_model_calls x"
    using ok(1) assms(3-7) unfolding budgets_ok_def within_envelopes_def by auto
  finally show ?thesis using ok(2) by simp
qed

theorem model_calls_bounded_witness:
  "int (length [model_invocation_request_id ''k'' MR_GENERATOR 1]) \<le> ror_max_model_calls ledger_orchestration"
proof -
  let ?c = "complete_model_call (new_budget_port ''b1'' ''run'' ''k'' None) MR_GENERATOR (Inl ''down'') (\<lambda>_. ''c1'') (\<lambda>_. 0) ledger_db"
  have end_state: "bp_reserved_invocations (fst (snd ?c)) = [model_invocation_request_id ''k'' MR_GENERATOR 1] \<and>
      bd_issued_budgets (snd (snd ?c)) = bd_issued_budgets ledger_db \<and> bd_orchestrations (snd (snd ?c)) = bd_orchestrations ledger_db"
    by code_simp
  obtain out port d where run: "?c = (out, port, d)" by (cases ?c)
  have "port_step\<^sup>*\<^sup>* (new_budget_port ''b1'' ''run'' ''k'' None, ledger_db, []) (port, d, [])"
    using port_step.call [OF run] by blast
  from model_calls_bounded [OF ledger_db_reachable this, of "ledger_budget ''b1''" ledger_orchestration] run show ?thesis
    by (simp add: ledger_db_def ledger_budget_def ledger_orchestration_def)
qed

theorem daily_check_characterised_witness:
  "\<exists>limit. ppr_daily_llm_budget_microdollars ledger_policy = Some limit \<and> 10 < limit"
proof -
  let ?b = "(ledger_budget ''program-daily:prog:1970-01-01'')\<lparr>ibr_research_run_id := None\<rparr>"
  let ?d = "ledger_db\<lparr>bd_issued_budgets := [?b]\<rparr>"
  have "check_program_budget ''prog'' 10 (\<lambda>_. 5) ?d =
      Inr \<lparr>bc_allowed_to_continue = True, bc_reason_code = RC_ALLOWED, bc_budget_id = ''prog''\<rparr>"
    "get_program_policy ''prog'' ?d = Inr (Some ledger_policy)"
    "sum_estimated_cost [] = Inr 0" "list_for_budget (program_daily_budget_id ''prog'' (iso_date 5)) ?d = Inr []"
    by code_simp+
  moreover have "bd_consumptions ?d = []" "\<forall>n. ppr_daily_llm_budget_microdollars ledger_policy = Some n \<longrightarrow> int4 n"
    by (simp_all add: ledger_db_def ledger_policy_def int4_def)
  ultimately show ?thesis
    using daily_check_characterised [of "''prog''" 10 "\<lambda>_. 5" ?d
        "\<lparr>bc_allowed_to_continue = True, bc_reason_code = RC_ALLOWED, bc_budget_id = ''prog''\<rparr>"] by force
qed

theorem budgets_never_overspent_witness:
  "\<exists>u. load_budget_usage ''b1'' (ledger_db\<lparr>bd_consumptions := [ledger_row ''c1'' ''b1'' ''REQUEST'' ''q1'']\<rparr>) = Inr u \<and>
     bu_requests u \<le> 5"
proof -
  have "budget_step\<^sup>*\<^sup>* (ledger_db, []) (ledger_db\<lparr>bd_consumptions := [ledger_row ''c1'' ''b1'' ''REQUEST'' ''q1'']\<rparr>, [])"
    by (rule record_budget_consumption_steps [OF ledger_records(1)])
  then have "budget_reachable (ledger_db\<lparr>bd_consumptions := [ledger_row ''c1'' ''b1'' ''REQUEST'' ''q1'']\<rparr>, [])"
    using ledger_db_reachable by (induction rule: rtranclp_induct) (auto intro: budget_reachable.step)
  from budgets_never_overspent [OF this, of "ledger_budget ''b1''"] show ?thesis
    by (auto simp: ledger_db_def ledger_budget_def)
qed

theorem replay_charges_once_witness:
  "\<exists>u. record_budget_consumption (ledger_command ''b1'' ''REQUEST'' ''q1'') (\<lambda>_. ''c9'') (\<lambda>_. 7)
      (ledger_db\<lparr>bd_consumptions := [ledger_row ''c1'' ''b1'' ''REQUEST'' ''q1'']\<rparr>) =
    Inr (\<lparr>rcr_consumption_id = None, rcr_already_recorded = True, rcr_usage = u\<rparr>,
      ledger_db\<lparr>bd_consumptions := [ledger_row ''c1'' ''b1'' ''REQUEST'' ''q1'']\<rparr>)"
proof -
  have "rcc_request_id (ledger_command ''b1'' ''REQUEST'' ''q1'') \<noteq> None" "\<not> blank ''c9''"
    by (simp_all add: ledger_command_def blank_iff_all_space py_space_def)
  then show ?thesis
    using replay_charges_once [where new_id' = "\<lambda>_. ''c9''" and clock' = "\<lambda>_. 7",
        OF ledger_db_reachable ledger_records(1) _ rtranclp.rtrancl_refl] by blast
qed

end
