(* ===== verification/Py_Url.thy ===== *)
theory Py_Url
  imports Prelude
begin

text \<open>
  The part of Python's \<open>urllib.parse\<close> that the scope code and the worker read a URL with: \<open>urlsplit\<close>
  and the \<open>username\<close>, \<open>password\<close>, \<open>hostname\<close> and \<open>port\<close> of its result, and \<open>urlencode\<close>.  The check of
  a bracketed network location, which differs between Python versions and ends in the \<open>ipaddress\<close>
  module, is the argument \<open>brackets\<close>: whether it accepts the location.
\<close>

section \<open>Splitting strings at a character\<close>

definition before :: "char \<Rightarrow> string \<Rightarrow> string" where
  "before c s = takeWhile (\<lambda>x. x \<noteq> c) s"

text \<open>The rest after the first (last) occurrence; \<open>None\<close> when the separator does not occur.\<close>

definition after :: "char \<Rightarrow> string \<Rightarrow> string option" where
  "after c s = (case dropWhile (\<lambda>x. x \<noteq> c) s of [] \<Rightarrow> None | _ # t \<Rightarrow> Some t)"

definition after_last :: "char \<Rightarrow> string \<Rightarrow> string" where
  "after_last c s = rev (takeWhile (\<lambda>x. x \<noteq> c) (rev s))"

definition before_last :: "char \<Rightarrow> string \<Rightarrow> string option" where
  "before_last c s = map_option rev (after c (rev s))"

text \<open>\<open>sub in s\<close> and \<open>s.split(c)\<close>.\<close>

fun py_contains :: "string \<Rightarrow> string \<Rightarrow> bool" where
  "py_contains sub [] = (sub = [])"
| "py_contains sub (c # s) = (py_startswith (c # s) sub \<or> py_contains sub s)"

fun py_split :: "char \<Rightarrow> string \<Rightarrow> string list" where
  "py_split c [] = [[]]"
| "py_split c (x # s) = (if x = c then [] # py_split c s
     else (case py_split c s of [] \<Rightarrow> [[x]] | w # ws \<Rightarrow> (x # w) # ws))"

definition py_rstrip_chars :: "string \<Rightarrow> string \<Rightarrow> string" where
  "py_rstrip_chars cs s = rev (dropWhile (\<lambda>c. c \<in> set cs) (rev s))"

definition is_ascii :: "string \<Rightarrow> bool" where
  "is_ascii s = list_all (\<lambda>c. of_char c < (128 :: nat)) s"

definition is_digit :: "char \<Rightarrow> bool" where
  "is_digit c = (let n = (of_char c :: nat) in 48 \<le> n \<and> n \<le> 57)"

definition is_letter :: "char \<Rightarrow> bool" where
  "is_letter c = (let n = (of_char c :: nat) in (65 \<le> n \<and> n \<le> 90) \<or> (97 \<le> n \<and> n \<le> 122))"

definition decimal_value :: "string \<Rightarrow> int" where
  "decimal_value s = fold (\<lambda>c n. 10 * n + (of_char c - 48)) s 0"

section \<open>Splitting a URL\<close>

datatype value_error = PyValue string

record split_result =
  spl_scheme :: string
  spl_netloc :: string
  spl_path :: string
  spl_query :: string
  spl_fragment :: string

definition scheme_char :: "char \<Rightarrow> bool" where
  "scheme_char c = (is_letter c \<or> is_digit c \<or> c \<in> set ''+-.'')"

text \<open>Leading control characters and spaces go, tabs and line ends go everywhere.\<close>

definition clean_url :: "string \<Rightarrow> string" where
  "clean_url url = filter (\<lambda>c. c \<notin> {CHR 0x09, CHR 0x0D, CHR 0x0A}) (dropWhile (\<lambda>c. of_char c \<le> (32 :: nat)) url)"

definition split_scheme :: "string \<Rightarrow> string \<times> string" where
  "split_scheme url = (case after (CHR '':'') url of None \<Rightarrow> ([], url)
     | Some rest \<Rightarrow> (let s = before (CHR '':'') url in
         if s \<noteq> [] \<and> is_letter (hd s) \<and> list_all scheme_char s then (py_lower s, rest) else ([], url)))"

definition netloc_char :: "char \<Rightarrow> bool" where
  "netloc_char c = (c \<notin> {CHR ''/'', CHR ''?'', CHR 0x23})"

definition split_netloc :: "string \<Rightarrow> string \<times> string" where
  "split_netloc url = (if take 2 url = ''//''
     then (takeWhile netloc_char (drop 2 url), dropWhile netloc_char (drop 2 url)) else ([], url))"

text \<open>\<open>text.split(c, 1)\<close> when \<open>c\<close> occurs, else the text and an empty rest.\<close>

definition cut_at :: "char \<Rightarrow> string \<Rightarrow> string \<times> string" where
  "cut_at c s = (before c s, case after c s of None \<Rightarrow> [] | Some t \<Rightarrow> t)"

text \<open>
  \<open>_checknetloc\<close> looks for separators that appear under NFKC normalisation; no character below 256
  gives one, so it never raises here.
\<close>

definition urlsplit :: "(string \<Rightarrow> bool) \<Rightarrow> string \<Rightarrow> value_error + split_result" where
  "urlsplit brackets text =
     (let (scheme, url) = split_scheme (clean_url text);
          (netloc, url) = split_netloc url;
          opens = CHR ''['' \<in> set netloc; closes = CHR '']'' \<in> set netloc;
          (url, fragment) = cut_at (CHR 0x23) url;
          (path, query) = cut_at (CHR ''?'') url
      in if opens \<noteq> closes then Inl (PyValue ''Invalid IPv6 URL'')
         else if opens \<and> \<not> brackets netloc then Inl (PyValue ''invalid bracketed host'')
         else Inr \<lparr>spl_scheme = scheme, spl_netloc = netloc, spl_path = path, spl_query = query,
                   spl_fragment = fragment\<rparr>)"

section \<open>The parts of the network location\<close>

definition spl_username :: "split_result \<Rightarrow> string option" where
  "spl_username r = map_option (before (CHR '':'')) (before_last (CHR ''@'') (spl_netloc r))"

definition spl_password :: "split_result \<Rightarrow> string option" where
  "spl_password r = (case before_last (CHR ''@'') (spl_netloc r) of None \<Rightarrow> None | Some u \<Rightarrow> after (CHR '':'') u)"

text \<open>\<open>_hostinfo\<close>: the raw host and the raw port, which is \<open>None\<close> when empty.\<close>

definition hostinfo :: "split_result \<Rightarrow> string \<times> string option" where
  "hostinfo r =
     (let info = after_last (CHR ''@'') (spl_netloc r);
          (host, port) = (case after (CHR ''['') info of
             Some bracketed \<Rightarrow> (before (CHR '']'') bracketed,
               case after (CHR '']'') bracketed of None \<Rightarrow> [] | Some t \<Rightarrow> (case after (CHR '':'') t of None \<Rightarrow> [] | Some p \<Rightarrow> p))
           | None \<Rightarrow> cut_at (CHR '':'') info)
      in (host, if port = [] then None else Some port))"

text \<open>The zone of a scoped address, from the percent sign on, keeps its case.\<close>

definition spl_hostname :: "split_result \<Rightarrow> string option" where
  "spl_hostname r = (let host = fst (hostinfo r) in
     if host = [] then None
     else Some (py_lower (before (CHR ''%'') host) @ dropWhile (\<lambda>c. c \<noteq> CHR ''%'') host))"

definition spl_port :: "split_result \<Rightarrow> value_error + int option" where
  "spl_port r = (case snd (hostinfo r) of None \<Rightarrow> Inr None
     | Some p \<Rightarrow> if \<not> list_all is_digit p then Inl (PyValue ''Port could not be cast to integer value'')
         else if \<not> (decimal_value p \<le> 65535) then Inl (PyValue ''Port out of range 0-65535'')
         else Inr (Some (decimal_value p)))"

section \<open>Encoding a query\<close>

definition hex_upper :: "nat \<Rightarrow> char" where
  "hex_upper n = ''0123456789ABCDEF'' ! (n mod 16)"

definition quote_byte :: "nat \<Rightarrow> string" where
  "quote_byte n = (let c = (char_of n :: char) in
     if n < 128 \<and> (is_letter c \<or> is_digit c \<or> c \<in> set ''_.-~'') then [c]
     else if n = 32 then ''+'' else [CHR ''%'', hex_upper (n div 16), hex_upper n])"

text \<open>\<open>quote_plus\<close> of a text, through its UTF-8 bytes.\<close>

definition quote_char :: "char \<Rightarrow> string" where
  "quote_char c = (let n = (of_char c :: nat) in
     if n < 128 then quote_byte n else quote_byte (192 + n div 64) @ quote_byte (128 + n mod 64))"

definition quote_plus :: "string \<Rightarrow> string" where
  "quote_plus s = concat (map quote_char s)"

fun join_with :: "string \<Rightarrow> string list \<Rightarrow> string" where
  "join_with sep [] = []"
| "join_with sep [w] = w"
| "join_with sep (w # ws) = w @ sep @ join_with sep ws"

definition urlencode :: "(string \<times> string) list \<Rightarrow> string" where
  "urlencode pairs = join_with ''&'' (map (\<lambda>(k, v). quote_plus k @ ''='' @ quote_plus v) pairs)"

section \<open>Facts on splitting\<close>

lemma before_no_char: "c \<notin> set (before c s)"
  unfolding before_def by (auto dest: set_takeWhileD)

lemma set_before: "set (before c s) \<subseteq> set s"
  unfolding before_def by (auto dest: set_takeWhileD)

lemma before_id: "c \<notin> set s \<Longrightarrow> before c s = s"
  unfolding before_def by (rule takeWhile_eq_all_conv [THEN iffD2]) auto

lemma after_None_iff: "after c s = None \<longleftrightarrow> c \<notin> set s"
proof -
  have "after c s = None \<longleftrightarrow> dropWhile (\<lambda>x. x \<noteq> c) s = []"
    by (cases "dropWhile (\<lambda>x. x \<noteq> c) s") (simp_all add: after_def del: dropWhile_eq_Nil_conv)
  then show ?thesis by (auto simp: dropWhile_eq_Nil_conv)
qed

lemma before_append: "c \<in> set s \<Longrightarrow> before c (s @ t) = before c s"
  unfolding before_def by (rule takeWhile_append1) auto

lemma after_append: "c \<in> set s \<Longrightarrow> after c (s @ t) = map_option (\<lambda>r. r @ t) (after c s)"
  unfolding after_def by (subst dropWhile_append1) (auto split: list.splits simp: dropWhile_eq_Nil_conv)

lemma after_parts: "after c s = Some t \<Longrightarrow> s = before c s @ c # t"
proof -
  assume a: "after c s = Some t"
  then obtain x where d: "dropWhile (\<lambda>x. x \<noteq> c) s = x # t"
    by (cases "dropWhile (\<lambda>x. x \<noteq> c) s") (simp_all add: after_def del: dropWhile_eq_Nil_conv)
  then have "x = c" using hd_dropWhile [of "\<lambda>x. x \<noteq> c" s] by (simp del: dropWhile_eq_Nil_conv)
  with d show ?thesis using takeWhile_dropWhile_id [of "\<lambda>x. x \<noteq> c" s] by (simp add: before_def)
qed

lemma set_after: "after c s = Some t \<Longrightarrow> set t \<subseteq> set s"
proof -
  assume "after c s = Some t"
  then have "set s = set (before c s @ c # t)" by (rule arg_cong [OF after_parts])
  moreover have "set t \<subseteq> set (before c s @ c # t)" by auto
  ultimately show ?thesis by blast
qed

lemma py_contains_iff: "py_contains sub s \<longleftrightarrow> (\<exists>a b. s = a @ sub @ b)"
proof (induction s)
  case (Cons c s)
  have "(\<exists>a b. c # s = a @ sub @ b) \<longleftrightarrow> (\<exists>b. c # s = sub @ b) \<or> (\<exists>a b. s = a @ sub @ b)" (is "?l = ?r")
  proof
    assume ?l
    then obtain a b where "c # s = a @ sub @ b" by blast
    then show ?r by (cases a) auto
  next
    assume ?r
    then consider b where "c # s = [] @ sub @ b" | a b where "c # s = (c # a) @ sub @ b" by auto
    then show ?l by cases blast+
  qed
  then show ?case by (simp add: Cons py_startswith_iff)
qed auto

lemma of_lower_char: "(of_char (lower_char c) :: nat) =
  (let n = of_char c in if (65 \<le> n \<and> n \<le> 90) \<or> (192 \<le> n \<and> n \<le> 222 \<and> n \<noteq> 215) then n + 32 else n)"
  by (auto simp: lower_char_def Let_def)

lemma py_space_lower [simp]: "py_space (lower_char c) = py_space c"
  unfolding py_space_def of_lower_char Let_def by auto

lemma py_strip_lower [py_str]: "py_strip (py_lower s) = py_lower (py_strip s)"
  by (simp add: py_strip_def py_lower_def dropWhile_map comp_def rev_map)

lemma py_strip_Nil [simp]: "py_strip [] = []"
  by (simp add: py_strip_def)

lemma set_py_strip: "set (py_strip s) \<subseteq> set s"
  by (auto simp: py_strip_def dest!: set_dropWhileD)

lemma lower_char_fixed: "is_digit c \<or> c \<in> {CHR ''.'', CHR ''*'', CHR ''['', CHR '']''} \<Longrightarrow> lower_char c = c"
  by (auto simp: lower_char_def is_digit_def Let_def)

lemma lower_char_eq: "c \<in> {CHR ''*'', CHR ''['', CHR '']''} \<Longrightarrow> lower_char d = c \<longleftrightarrow> d = c"
proof -
  assume c: "c \<in> {CHR ''*'', CHR ''['', CHR '']''}"
  have "d = c" if "lower_char d = c"
  proof -
    have n: "(of_char (lower_char d) :: nat) \<in> {42, 91, 93}" using that c by auto
    then have "(of_char d :: nat) = of_char (lower_char d)"
      by (auto simp: of_lower_char Let_def split: if_splits)
    then show ?thesis using that by simp
  qed
  with c lower_char_fixed [of c] show ?thesis by auto
qed

lemma py_split_chars: "x \<in> set s \<Longrightarrow> x = c \<or> (\<exists>w \<in> set (py_split c s). x \<in> set w)"
  by (induction c s rule: py_split.induct) (auto split: list.splits)

lemma startswith_mem: "py_startswith s [c] \<Longrightarrow> c \<in> set s"
  by (cases s) (auto simp: py_startswith_def)

lemma endswith_mem: "py_endswith s [c] \<Longrightarrow> c \<in> set s"
  by (metis in_set_dropD list.set_intros(1) py_endswith_def)

lemma after_last_no: "c \<notin> set s \<Longrightarrow> after_last c s = s"
  unfolding after_last_def by (subst takeWhile_eq_all_conv [THEN iffD2]) auto

lemma before_last_None_iff: "before_last c s = None \<longleftrightarrow> c \<notin> set s"
  by (simp add: before_last_def after_None_iff)

lemma cut_at_fst_no: "c \<notin> set (fst (cut_at c s))"
  by (simp add: cut_at_def before_no_char)

lemma split_netloc_no_slash: "CHR ''/'' \<notin> set (fst (split_netloc url))"
  by (auto simp: split_netloc_def netloc_char_def dest!: set_takeWhileD)

text \<open>
  A path appended to an origin without query and fragment lands in the path, query and fragment of the
  split; scheme and network location are those of the origin.
\<close>

definition bare_origin :: "string \<Rightarrow> split_result \<Rightarrow> bool" where
  "bare_origin origin r \<longleftrightarrow> spl_scheme r \<noteq> [] \<and> spl_netloc r \<noteq> [] \<and>
     CHR ''?'' \<notin> set origin \<and> CHR 0x23 \<notin> set origin"

lemma clean_url_append:
  assumes "clean_url s \<noteq> []"
  shows "clean_url (s @ t) = clean_url s @ filter (\<lambda>c. c \<notin> {CHR 0x09, CHR 0x0D, CHR 0x0A}) t"
proof -
  have "\<exists>c \<in> set s. \<not> of_char c \<le> (32 :: nat)"
  proof (rule ccontr)
    assume "\<not> ?thesis"
    then have "dropWhile (\<lambda>c. of_char c \<le> (32 :: nat)) s = []" by simp
    with assms show False unfolding clean_url_def by (simp only: filter.simps)
  qed
  then obtain c where "c \<in> set s" "\<not> of_char c \<le> (32 :: nat)" by blast
  then have "dropWhile (\<lambda>c. of_char c \<le> (32 :: nat)) (s @ t) = dropWhile (\<lambda>c. of_char c \<le> (32 :: nat)) s @ t"
    by (rule dropWhile_append1)
  then show ?thesis by (simp add: clean_url_def)
qed

lemma split_scheme_append:
  assumes "split_scheme s = (sch, rest)" "sch \<noteq> []"
  shows "split_scheme (s @ t) = (sch, rest @ t)"
proof -
  have c: "CHR '':'' \<in> set s"
  proof (rule ccontr)
    assume "CHR '':'' \<notin> set s"
    then have "after (CHR '':'') s = None" by (simp add: after_None_iff)
    with assms show False by (simp add: split_scheme_def)
  qed
  then obtain r where r: "after (CHR '':'') s = Some r" using after_None_iff [of "CHR '':''" s] by auto
  with assms show ?thesis
    by (auto simp: split_scheme_def after_append [OF c] before_append [OF c] Let_def split: if_splits)
qed

lemma split_netloc_append:
  assumes "split_netloc s = (loc, tail)" "loc \<noteq> []" "t = [] \<or> \<not> netloc_char (hd t)"
  shows "split_netloc (s @ t) = (loc, tail @ t)"
proof -
  from assms(1,2) have two: "take 2 s = ''//''" and loc: "loc = takeWhile netloc_char (drop 2 s)"
    and tail: "tail = dropWhile netloc_char (drop 2 s)"
    by (auto simp: split_netloc_def split: if_splits)
  have len: "2 \<le> length s" using two by (cases s; cases "tl s") auto
  then have "take 2 (s @ t) = ''//''" "drop 2 (s @ t) = drop 2 s @ t" using two by simp_all
  moreover have "takeWhile netloc_char (drop 2 s @ t) = loc \<and> dropWhile netloc_char (drop 2 s @ t) = tail @ t"
  proof (cases "\<exists>c \<in> set (drop 2 s). \<not> netloc_char c")
    case True
    then show ?thesis by (auto simp: loc tail takeWhile_append1 dropWhile_append1)
  next
    case False
    then have all: "\<forall>c \<in> set (drop 2 s). netloc_char c" by blast
    then have "loc = drop 2 s" "tail = []"
      unfolding loc tail by (simp_all add: takeWhile_eq_all_conv)
    moreover have "takeWhile netloc_char (drop 2 s @ t) = drop 2 s @ takeWhile netloc_char t"
      "dropWhile netloc_char (drop 2 s @ t) = dropWhile netloc_char t"
      using all by (simp_all add: takeWhile_append2 dropWhile_append2)
    ultimately show ?thesis using assms(3) by (cases t) simp_all
  qed
  ultimately show ?thesis by (simp add: split_netloc_def)
qed

definition without_breaks :: "string \<Rightarrow> string" where
  "without_breaks s = filter (\<lambda>c. c \<notin> {CHR 0x09, CHR 0x0D, CHR 0x0A}) s"

definition split_target :: "string \<Rightarrow> string \<times> string \<times> string" where
  "split_target t = (let (url, fragment) = cut_at (CHR 0x23) (without_breaks t);
     (path, query) = cut_at (CHR ''?'') url in (path, query, fragment))"

lemma cut_at_append: "c \<notin> set s \<Longrightarrow> cut_at c (s @ t) = (s @ fst (cut_at c t), snd (cut_at c t))"
proof -
  assume "c \<notin> set s"
  then have "\<And>x. x \<in> set s \<Longrightarrow> x \<noteq> c" by blast
  then show ?thesis unfolding cut_at_def before_def after_def by (simp add: takeWhile_append2 dropWhile_append2)
qed

lemma urlsplit_append:
  assumes "urlsplit brackets origin = Inr r" "bare_origin origin r" "path = CHR ''/'' # p"
  shows "urlsplit brackets (origin @ path) = Inr (case split_target path of (pa, q, f) \<Rightarrow>
    r\<lparr>spl_path := spl_path r @ pa, spl_query := q, spl_fragment := f\<rparr>)"
proof -
  let ?o = "clean_url origin" and ?t = "without_breaks path"
  have sub: "set ?o \<subseteq> set origin" by (auto simp: clean_url_def dest: set_dropWhileD)
  obtain sch rest where s: "split_scheme ?o = (sch, rest)" by (cases "split_scheme ?o")
  have rest_sub: "set rest \<subseteq> set ?o"
    using s by (auto simp: split_scheme_def Let_def dest!: set_after split: option.splits if_splits)
  obtain loc tail where n: "split_netloc rest = (loc, tail)" by (cases "split_netloc rest")
  have tail_sub: "set tail \<subseteq> set rest"
    using n by (auto simp: split_netloc_def dest: set_dropWhileD in_set_dropD split: if_splits)
  have no: "CHR 0x23 \<notin> set tail" "CHR ''?'' \<notin> set tail"
    using tail_sub rest_sub sub assms(2) by (auto simp: bare_origin_def)
  then have cut: "cut_at (CHR 0x23) tail = (tail, [])" "cut_at (CHR ''?'') tail = (tail, [])"
    by (auto simp: cut_at_def before_id after_None_iff [THEN iffD2])
  have r: "r = \<lparr>spl_scheme = sch, spl_netloc = loc, spl_path = tail, spl_query = [], spl_fragment = []\<rparr>"
    and ok: "(CHR ''['' \<in> set loc) = (CHR '']'' \<in> set loc)" "CHR ''['' \<in> set loc \<Longrightarrow> brackets loc"
    using assms(1) by (auto simp: urlsplit_def s n cut Let_def split: if_splits)
  have ne: "sch \<noteq> []" "loc \<noteq> []" using assms(2) by (simp_all add: r bare_origin_def)
  have t: "?t = CHR ''/'' # without_breaks p" by (simp add: assms(3) without_breaks_def)
  have "?o \<noteq> []" using s ne by (auto simp: split_scheme_def after_def)
  then have "clean_url (origin @ path) = ?o @ ?t" by (simp add: clean_url_append without_breaks_def)
  moreover have "split_scheme (?o @ ?t) = (sch, rest @ ?t)" using s ne(1) by (rule split_scheme_append)
  moreover have "split_netloc (rest @ ?t) = (loc, tail @ ?t)"
    using n ne by (intro split_netloc_append) (simp_all add: t netloc_char_def)
  ultimately show ?thesis
    using ok no by (auto simp: urlsplit_def Let_def split_target_def r cut_at_append split: prod.splits)
qed

lemma before_rest: "\<exists>r. s = before c s @ r \<and> (r = [] \<or> hd r = c)"
  using after_parts [of c s] before_id [of c s] after_None_iff [of c s]
  by (cases "after c s") (force, auto)

lemma split_target_prefix:
  assumes "split_target t = (path, query, fragment)"
  shows "\<exists>r. without_breaks t = path @ r \<and> (r = [] \<or> hd r \<in> {CHR ''?'', CHR 0x23})"
proof -
  let ?t = "without_breaks t"
  have path: "path = before (CHR ''?'') (before (CHR 0x23) ?t)"
    using assms by (auto simp: split_target_def cut_at_def Let_def)
  obtain r1 where r1: "?t = before (CHR 0x23) ?t @ r1" "r1 = [] \<or> hd r1 = CHR 0x23" using before_rest by blast
  obtain r2 where r2: "before (CHR 0x23) ?t = path @ r2" "r2 = [] \<or> hd r2 = CHR ''?''"
    unfolding path using before_rest by blast
  have "?t = path @ r2 @ r1" using r1(1) r2(1) by (metis append_assoc)
  with r1(2) r2(2) show ?thesis by (cases r2) auto
qed

lemma split_target_slash: "split_target (CHR ''/'' # t) = (path, query, fragment) \<Longrightarrow> \<exists>p. path = CHR ''/'' # p"
  by (auto simp: split_target_def cut_at_def without_breaks_def before_def Let_def)

end
