(* ===== verification/Url_Normalize.thy ===== *)
theory Url_Normalize
  imports Py_Url Core_Scope
begin

text \<open>
  Normalisation of a URL to a scope candidate (\<open>platform/url_normalize.py\<close>).  The IPv6 parser of the
  \<open>ipaddress\<close> module and the IDNA codec for names outside ASCII are arguments: \<open>ipv6 s\<close> is the
  canonical text of the address \<open>s\<close>, \<open>idna s\<close> the encoded name, \<open>None\<close> when the library raises.
\<close>

definition DEFAULT_PORTS :: "(string \<times> int) list" where
  "DEFAULT_PORTS = [(''http'', 80), (''https'', 443)]"

definition IDNA_ERROR :: string where "IDNA_ERROR = ''IDNA''"
definition IPV6_ERROR :: string where "IPV6_ERROR = ''IPV6''"
definition PARSE_ERROR :: string where "PARSE_ERROR = ''PARSE''"
definition EMPTY_HOST :: string where "EMPTY_HOST = ''EMPTY_HOST''"

section \<open>Hosts\<close>

text \<open>\<open>ipaddress.IPv4Address\<close>: four decimal octets without leading zeros; its text is the input.\<close>

definition ipv4_octet :: "string \<Rightarrow> bool" where
  "ipv4_octet s = (s \<noteq> [] \<and> list_all is_digit s \<and> length s \<le> 3 \<and> (s = ''0'' \<or> hd s \<noteq> CHR ''0'') \<and> decimal_value s \<le> 255)"

definition is_ipv4 :: "string \<Rightarrow> bool" where
  "is_ipv4 s = (let octets = py_split (CHR ''.'') s in length octets = 4 \<and> list_all ipv4_octet octets)"

text \<open>The \<open>idna\<close> codec on an ASCII name checks the lengths of its labels and returns it.\<close>

definition idna_encode :: "(string \<Rightarrow> string option) \<Rightarrow> string \<Rightarrow> string option" where
  "idna_encode idna s =
     (if s = [] then Some []
      else if is_ascii s
      then (let labels = py_split (CHR ''.'') s in
        if list_all (\<lambda>l. l \<noteq> [] \<and> length l < 64) (butlast labels) \<and> length (last labels) < 64 then Some s else None)
      else idna s)"

definition canonical_host :: "(string \<Rightarrow> string option) \<Rightarrow> (string \<Rightarrow> string option) \<Rightarrow> string \<Rightarrow> string + string" where
  "canonical_host ipv6 idna host =
     (let stripped = py_strip host;
          stripped = (if py_startswith stripped ''['' \<and> py_endswith stripped '']'' then butlast (tl stripped) else stripped)
      in if CHR '':'' \<in> set stripped
         then (case ipv6 stripped of None \<Rightarrow> Inl IPV6_ERROR | Some h \<Rightarrow> Inr h)
         else if is_ipv4 stripped then Inr stripped
         else if list_ex (\<lambda>label. label \<noteq> [] \<and> py_lower label = ''xn--'') (py_split (CHR ''.'') stripped) then Inl IDNA_ERROR
         else (case idna_encode idna stripped of None \<Rightarrow> Inl IDNA_ERROR | Some h \<Rightarrow> Inr (py_lower h)))"

section \<open>Paths\<close>

definition is_hex :: "char \<Rightarrow> bool" where
  "is_hex c = (c \<in> set ''0123456789abcdefABCDEF'')"

text \<open>A percent sign not followed by two hexadecimal digits.\<close>

fun bad_percent :: "string \<Rightarrow> bool" where
  "bad_percent [] = False"
| "bad_percent (c # s) =
     ((c = CHR ''%'' \<and> \<not> (case s of a # b # _ \<Rightarrow> is_hex a \<and> is_hex b | _ \<Rightarrow> False)) \<or> bad_percent s)"

definition encoded_slash_or_dot :: "string \<Rightarrow> bool" where
  "encoded_slash_or_dot s = list_ex (\<lambda>p. py_contains p s) [''%2f'', ''%2F'', ''%2e'', ''%2E'']"

text \<open>
  \<open>bytes.fromhex\<close> of well-formed escapes never raises, so a segment is unambiguous when its percent
  signs are well-formed.
\<close>

definition is_unambiguous_segment :: "string \<Rightarrow> bool" where
  "is_unambiguous_segment s = (CHR ''%'' \<notin> set s \<or> \<not> bad_percent s)"

definition scope_match_path :: "string \<Rightarrow> string + string" where
  "scope_match_path raw_path =
     (if CHR 0x5C \<in> set raw_path then Inl NORMALIZATION_PATH_AMBIGUOUS
      else if bad_percent raw_path then Inl NORMALIZATION_PATH_AMBIGUOUS
      else if encoded_slash_or_dot raw_path then Inl NORMALIZATION_PATH_AMBIGUOUS
      else if \<not> py_startswith raw_path ''/'' then Inl NORMALIZATION_PATH_AMBIGUOUS
      else if py_contains ''//'' raw_path then Inl NORMALIZATION_PATH_AMBIGUOUS
      else (let segments = tl (py_split (CHR ''/'') raw_path) in
        if list_ex (\<lambda>s. s \<in> {''.'', ''..''} \<or> \<not> is_ascii s) segments then Inl NORMALIZATION_PATH_AMBIGUOUS
        else if list_ex (\<lambda>s. s \<noteq> [] \<and> \<not> is_unambiguous_segment s) segments then Inl NORMALIZATION_PATH_AMBIGUOUS
        else Inr raw_path))"

section \<open>Candidates\<close>

definition error_candidate :: "string \<Rightarrow> string \<Rightarrow> scope_candidate" where
  "error_candidate raw code = \<lparr>scn_raw_target = raw, scn_normalized_scheme = None, scn_normalized_host = None,
     scn_normalized_port = None, scn_raw_path = [], scn_scope_match_path = None, scn_normalization_error = Some code\<rparr>"

text \<open>The part of \<open>normalize_url\<close> after the checks of the split result.\<close>

definition path_candidate :: "string \<Rightarrow> string \<Rightarrow> string \<Rightarrow> int \<Rightarrow> string \<Rightarrow> scope_candidate" where
  "path_candidate raw scheme host port raw_path =
     (case scope_match_path raw_path of
        Inl path_error \<Rightarrow> \<lparr>scn_raw_target = raw, scn_normalized_scheme = Some scheme, scn_normalized_host = Some host,
          scn_normalized_port = Some port, scn_raw_path = raw_path, scn_scope_match_path = None,
          scn_normalization_error = Some path_error\<rparr>
      | Inr match_path \<Rightarrow> \<lparr>scn_raw_target = raw, scn_normalized_scheme = Some scheme, scn_normalized_host = Some host,
          scn_normalized_port = Some port, scn_raw_path = raw_path, scn_scope_match_path = Some match_path,
          scn_normalization_error = None\<rparr>)"

definition or_root :: "string \<Rightarrow> string" where
  "or_root path = (if path = [] then ''/'' else path)"

definition normalize_url ::
    "(string \<Rightarrow> bool) \<Rightarrow> (string \<Rightarrow> string option) \<Rightarrow> (string \<Rightarrow> string option) \<Rightarrow> string \<Rightarrow> scope_candidate" where
  "normalize_url brackets ipv6 idna raw =
     (if blank raw then error_candidate raw PARSE_ERROR
      else (case urlsplit brackets raw of Inl _ \<Rightarrow> error_candidate raw PARSE_ERROR
      | Inr parts \<Rightarrow>
        if spl_username parts \<noteq> None \<or> spl_password parts \<noteq> None then error_candidate raw NORMALIZATION_USERINFO
        else (let scheme = py_lower (spl_scheme parts) in case map_of DEFAULT_PORTS scheme of
          None \<Rightarrow> error_candidate raw PARSE_ERROR
        | Some default_port \<Rightarrow> (case spl_hostname parts of
            None \<Rightarrow> error_candidate raw EMPTY_HOST
          | Some host \<Rightarrow>
            if has_star host then error_candidate raw NORMALIZATION_WILDCARD
            else (case canonical_host ipv6 idna host of
              Inl host_error \<Rightarrow> error_candidate raw host_error
            | Inr canonical \<Rightarrow> (case spl_port parts of
                Inl _ \<Rightarrow> error_candidate raw PARSE_ERROR
              | Inr port \<Rightarrow> path_candidate raw scheme canonical
                  (case port of None \<Rightarrow> default_port | Some p \<Rightarrow> p) (or_root (spl_path parts))))))))"

section \<open>What a clean candidate says of the URL\<close>

lemma scope_match_path_Inr: "scope_match_path p = Inr q \<Longrightarrow> q = p"
  by (auto simp: scope_match_path_def Let_def split: if_splits)

lemma normalize_url_clean:
  assumes "scn_normalization_error (normalize_url brackets ipv6 idna raw) = None"
  obtains parts scheme host canonical port default_port where
    "urlsplit brackets raw = Inr parts" "spl_username parts = None" "spl_password parts = None"
    "scheme = py_lower (spl_scheme parts)" "map_of DEFAULT_PORTS scheme = Some default_port"
    "spl_hostname parts = Some host" "\<not> has_star host" "canonical_host ipv6 idna host = Inr canonical"
    "spl_port parts = Inr port" "scope_match_path (or_root (spl_path parts)) = Inr (or_root (spl_path parts))"
    "normalize_url brackets ipv6 idna raw = \<lparr>scn_raw_target = raw, scn_normalized_scheme = Some scheme,
       scn_normalized_host = Some canonical,
       scn_normalized_port = Some (case port of None \<Rightarrow> default_port | Some p \<Rightarrow> p),
       scn_raw_path = or_root (spl_path parts), scn_scope_match_path = Some (or_root (spl_path parts)),
       scn_normalization_error = None\<rparr>"
proof -
  note goal = that
  have match: thesis
    if "urlsplit brackets raw = Inr parts" "spl_username parts = None" "spl_password parts = None"
      "map_of DEFAULT_PORTS (py_lower (spl_scheme parts)) = Some default_port"
      "spl_hostname parts = Some host" "\<not> has_star host" "canonical_host ipv6 idna host = Inr canonical"
      "spl_port parts = Inr port"
      "normalize_url brackets ipv6 idna raw = path_candidate raw (py_lower (spl_scheme parts)) canonical
         (case port of None \<Rightarrow> default_port | Some p \<Rightarrow> p) (or_root (spl_path parts))"
    for parts default_port host canonical port
  proof (cases "scope_match_path (or_root (spl_path parts))")
    case (Inr q)
    then have "q = or_root (spl_path parts)" by (rule scope_match_path_Inr)
    with Inr that show thesis
      by (intro goal) (simp_all add: path_candidate_def)
  qed (use that(9) assms in \<open>simp add: path_candidate_def\<close>)
  show thesis
    using assms match
    by (auto simp: normalize_url_def error_candidate_def Let_def split: if_splits sum.splits option.splits)
qed

section \<open>Canonical hosts\<close>

text \<open>What is documented of the two library codecs: their results are lower case and hold no outer space.\<close>

definition canonical_codecs :: "(string \<Rightarrow> string option) \<Rightarrow> (string \<Rightarrow> string option) \<Rightarrow> bool" where
  "canonical_codecs ipv6 idna \<longleftrightarrow>
     (\<forall>s h. ipv6 s = Some h \<longrightarrow> py_lower h = h \<and> py_strip h = h) \<and> (\<forall>s h. idna s = Some h \<longrightarrow> py_strip h = h)"

lemma hostname_brackets:
  assumes "spl_hostname r = Some h"
  shows "CHR ''['' \<notin> set h \<or> CHR '']'' \<notin> set h"
proof -
  let ?host = "fst (hostinfo r)"
  have raw: "CHR ''['' \<notin> set ?host \<or> CHR '']'' \<notin> set ?host"
  proof (cases "after (CHR ''['') (after_last (CHR ''@'') (spl_netloc r))")
    case None
    then have "CHR ''['' \<notin> set (after_last (CHR ''@'') (spl_netloc r))" by (simp add: after_None_iff)
    with None show ?thesis
      using set_before by (fastforce simp: hostinfo_def cut_at_def Let_def split: prod.splits)
  next
    case (Some b)
    then show ?thesis using before_no_char by (simp add: hostinfo_def Let_def split: prod.splits)
  qed
  have "set h \<subseteq> lower_char ` set ?host \<union> set ?host"
    using assms set_before by (fastforce simp: spl_hostname_def py_lower_def Let_def dest: set_dropWhileD split: if_splits)
  then have sub: "c \<in> set ?host \<or> (\<exists>d \<in> set ?host. lower_char d = c)" if "c \<in> set h" for c
    using that by blast
  have "c \<in> set ?host" if "c \<in> set h" "c \<in> {CHR ''*'', CHR ''['', CHR '']''}" for c
    using sub [OF that(1)] unfolding lower_char_eq [OF that(2)] by blast
  then have "CHR ''['' \<in> set h \<Longrightarrow> CHR ''['' \<in> set ?host" "CHR '']'' \<in> set h \<Longrightarrow> CHR '']'' \<in> set ?host"
    by simp_all
  with raw show ?thesis by blast
qed

lemma is_ipv4_lower: "is_ipv4 s \<Longrightarrow> py_lower s = s"
proof -
  assume "is_ipv4 s"
  then have "\<forall>c \<in> set s. is_digit c \<or> c = CHR ''.''"
    using py_split_chars [of _ s "CHR ''.''"]
    by (fastforce simp: is_ipv4_def ipv4_octet_def Let_def list_all_iff)
  then show ?thesis using lower_char_fixed by (auto simp: py_lower_def intro!: map_idI)
qed

lemma canonical_host_normal:
  assumes "canonical_codecs ipv6 idna" "spl_hostname r = Some host" "canonical_host ipv6 idna host = Inr h"
  shows "py_lower h = h \<and> py_strip h = h"
proof -
  have "\<not> (py_startswith (py_strip host) ''['' \<and> py_endswith (py_strip host) '']'')"
  proof
    assume "py_startswith (py_strip host) ''['' \<and> py_endswith (py_strip host) '']''"
    then have "CHR ''['' \<in> set (py_strip host)" "CHR '']'' \<in> set (py_strip host)"
      by (blast dest: startswith_mem endswith_mem)+
    with hostname_brackets [OF assms(2)] set_py_strip [of host] show False by blast
  qed
  then have "canonical_host ipv6 idna host = (let s = py_strip host in
      if CHR '':'' \<in> set s then (case ipv6 s of None \<Rightarrow> Inl IPV6_ERROR | Some h \<Rightarrow> Inr h)
      else if is_ipv4 s then Inr s
      else if list_ex (\<lambda>label. label \<noteq> [] \<and> py_lower label = ''xn--'') (py_split (CHR ''.'') s) then Inl IDNA_ERROR
      else (case idna_encode idna s of None \<Rightarrow> Inl IDNA_ERROR | Some h \<Rightarrow> Inr (py_lower h)))"
    unfolding canonical_host_def Let_def by (simp only: if_False)
  moreover have "py_strip t = t" if "idna_encode idna (py_strip host) = Some t" for t
    using that assms(1) py_strip_idem [of host]
    by (auto simp: idna_encode_def canonical_codecs_def Let_def split: if_splits)
  ultimately show ?thesis
    using assms is_ipv4_lower [of "py_strip host"]
    by (auto simp: canonical_codecs_def Let_def py_strip_lower split: if_splits option.splits)
qed

text \<open>The path of a split URL with a network location is empty or absolute.\<close>

lemma urlsplit_path_absolute:
  assumes "urlsplit brackets url = Inr parts" "spl_netloc parts \<noteq> []"
  shows "spl_path parts = [] \<or> hd (spl_path parts) = CHR ''/''"
proof -
  obtain sch rest where s: "split_scheme (clean_url url) = (sch, rest)" by (cases "split_scheme (clean_url url)")
  obtain loc tail where n: "split_netloc rest = (loc, tail)" by (cases "split_netloc rest")
  have "spl_netloc parts = loc" "spl_path parts = fst (cut_at (CHR ''?'') (fst (cut_at (CHR 0x23) tail)))"
    using assms(1) by (auto simp: urlsplit_def s n Let_def split: prod.splits if_splits)
  moreover have "tail = [] \<or> \<not> netloc_char (hd tail)"
    using n assms(2) calculation(1) hd_dropWhile [of netloc_char "drop 2 rest"]
    by (auto simp: split_netloc_def simp del: dropWhile_eq_Nil_conv split: if_splits)
  ultimately show ?thesis
    by (cases tail) (auto simp: cut_at_def before_def netloc_char_def)
qed

lemma hostname_netloc: "spl_hostname parts = Some h \<Longrightarrow> spl_netloc parts \<noteq> []"
  by (auto simp: spl_hostname_def hostinfo_def after_last_def after_def cut_at_def before_def Let_def)

end
