(* ===== verification/Network_Envelope.thy ===== *)
theory Network_Envelope
  imports Url_Normalize Py_Json
begin

text \<open>
  The network bounds that travel from Core to a worker: their derivation from a scope decision and
  their mapping (\<open>application/authorized_network_envelope.py\<close>), and the worker's own parser and check
  of a URL (\<open>worker_runtime/python/browser_envelope.py\<close>).
\<close>

section \<open>Python values read from a JSON document\<close>

text \<open>\<open>repr\<close> of a string: the quote, the escapes of control and other non-printable characters.\<close>

definition repr_char :: "char \<Rightarrow> char \<Rightarrow> string" where
  "repr_char quote c = (let n = (of_char c :: nat) in
     if c = quote \<or> n = 92 then [CHR 0x5C, c]
     else if n = 9 then [CHR 0x5C, CHR ''t''] else if n = 10 then [CHR 0x5C, CHR ''n'']
     else if n = 13 then [CHR 0x5C, CHR ''r'']
     else if n < 32 \<or> (127 \<le> n \<and> n \<le> 160) \<or> n = 173
     then [CHR 0x5C, CHR ''x'', hex_digit (n div 16), hex_digit n] else [c])"

definition repr_str :: "string \<Rightarrow> string" where
  "repr_str s = (let quote = (if CHR 0x27 \<in> set s \<and> CHR 0x22 \<notin> set s then CHR 0x22 else CHR 0x27)
     in quote # concat (map (repr_char quote) s) @ [quote])"

primrec py_repr :: "json \<Rightarrow> string" where
  "py_repr JNull = ''None''"
| "py_repr (JBool b) = (if b then ''True'' else ''False'')"
| "py_repr (JInt n) = show_int n"
| "py_repr (JStr s) = repr_str s"
| "py_repr (JArr xs) = ''['' @ join_with '', '' (map py_repr xs) @ '']''"
| "py_repr (JObj kvs) = CHR 0x7B # join_with '', ''
     (map (\<lambda>(k, v). repr_str k @ '': '' @ v) (map (map_prod id py_repr) kvs)) @ [CHR 0x7D]"

text \<open>\<open>str(value)\<close>.\<close>

definition py_str :: "json \<Rightarrow> string" where
  "py_str j = (case j of JStr s \<Rightarrow> s | _ \<Rightarrow> py_repr j)"

text \<open>\<open>int(value)\<close>: a text holds an optional sign and groups of digits joined by underscores.\<close>

definition int_of_digits :: "string \<Rightarrow> int option" where
  "int_of_digits s = (let groups = py_split (CHR ''_'') s in
     if list_all (\<lambda>g. g \<noteq> [] \<and> list_all is_digit g) groups then Some (decimal_value (concat groups)) else None)"

definition int_of_text :: "string \<Rightarrow> int option" where
  "int_of_text text = (let s = py_strip text in
     if s = [] then None
     else if hd s = CHR ''-'' then map_option uminus (int_of_digits (tl s))
     else if hd s = CHR ''+'' then int_of_digits (tl s) else int_of_digits s)"

fun py_int :: "json \<Rightarrow> int option" where
  "py_int (JInt n) = Some n"
| "py_int (JBool b) = Some (if b then 1 else 0)"
| "py_int (JStr s) = int_of_text s"
| "py_int _ = None"

text \<open>\<open>for item in (value or ())\<close>; a number cannot be iterated.\<close>

definition iter_or_empty :: "json \<Rightarrow> json list option" where
  "iter_or_empty j = (if \<not> truthy j then Some []
     else (case j of JArr xs \<Rightarrow> Some xs | JStr s \<Rightarrow> Some (map (\<lambda>c. JStr [c]) s)
       | JObj kvs \<Rightarrow> Some (map (JStr \<circ> fst) kvs) | _ \<Rightarrow> None))"

section \<open>The authorized envelope\<close>

record authorized_network_envelope =
  ane_normalized_scheme :: string
  ane_normalized_host :: string
  ane_normalized_port :: int
  ane_document_path :: string
  ane_origin_wide :: bool
  ane_allowed_path_prefixes :: "string list"
  ane_denied_path_prefixes :: "string list"
  ane_loopback_only :: bool
  ane_source_scope_rule_ids :: "string list"
  ane_authorization_decision_reference :: "string option"

definition post_init_authorized_network_envelope ::
    "authorized_network_envelope \<Rightarrow> value_error + authorized_network_envelope" where
  "post_init_authorized_network_envelope e = raise_first
     [(has_star (ane_normalized_host e) \<or> has_star (ane_normalized_scheme e),
         PyValue ''wildcard envelope is not allowed''),
      (ane_normalized_port e < 1, PyValue ''normalized_port must be a positive integer''),
      (\<not> py_startswith (ane_document_path e) ''/'', PyValue ''document_path must be an absolute path'')] e"

definition envelope_to_mapping :: "authorized_network_envelope \<Rightarrow> (string \<times> json) list" where
  "envelope_to_mapping e =
     [(''normalized_scheme'', JStr (ane_normalized_scheme e)), (''normalized_host'', JStr (ane_normalized_host e)),
      (''normalized_port'', JInt (ane_normalized_port e)), (''document_path'', JStr (ane_document_path e)),
      (''origin_wide'', JBool (ane_origin_wide e)),
      (''allowed_path_prefixes'', JArr (map JStr (ane_allowed_path_prefixes e))),
      (''denied_path_prefixes'', JArr (map JStr (ane_denied_path_prefixes e))),
      (''loopback_only'', JBool (ane_loopback_only e)),
      (''source_scope_rule_ids'', JArr (map JStr (ane_source_scope_rule_ids e)))]
     @ (case ane_authorization_decision_reference e of None \<Rightarrow> []
        | Some ref \<Rightarrow> [(''authorization_decision_reference'', JStr ref)])"

definition opt_str :: "json \<Rightarrow> string option" where
  "opt_str j = (if j = JNull then None else Some (py_str j))"

text \<open>Every \<open>KeyError\<close>, \<open>TypeError\<close> and \<open>ValueError\<close> of the body is caught and gives \<open>None\<close>.\<close>

definition envelope_from_mapping :: "json \<Rightarrow> authorized_network_envelope option" where
  "envelope_from_mapping payload = (case payload of
     JObj kvs \<Rightarrow>
       (case (iter_or_empty (jget kvs ''allowed_path_prefixes''), iter_or_empty (jget kvs ''denied_path_prefixes''),
              iter_or_empty (jget kvs ''source_scope_rule_ids''), map_of kvs ''normalized_scheme'',
              map_of kvs ''normalized_host'', Option.bind (map_of kvs ''normalized_port'') py_int,
              map_of kvs ''document_path'') of
          (Some allowed, Some denied, Some rule_ids, Some scheme, Some host, Some port, Some document_path) \<Rightarrow>
            (case post_init_authorized_network_envelope
               \<lparr>ane_normalized_scheme = py_str scheme, ane_normalized_host = py_str host, ane_normalized_port = port,
                ane_document_path = py_str document_path, ane_origin_wide = truthy (jget kvs ''origin_wide''),
                ane_allowed_path_prefixes = map py_str allowed, ane_denied_path_prefixes = map py_str denied,
                ane_loopback_only = truthy (jget kvs ''loopback_only''),
                ane_source_scope_rule_ids = map py_str rule_ids,
                ane_authorization_decision_reference = opt_str (jget kvs ''authorization_decision_reference'')\<rparr>
             of Inl _ \<Rightarrow> None | Inr e \<Rightarrow> Some e)
        | _ \<Rightarrow> None)
   | _ \<Rightarrow> None)"

section \<open>Deriving the bounds from a scope decision\<close>

text \<open>This \<open>_origin_matches\<close> compares the exact host of the rule only.\<close>

definition envelope_origin_matches :: "scope_candidate \<Rightarrow> compiled_scope_rule \<Rightarrow> bool" where
  "envelope_origin_matches candidate rule =
     (scn_normalized_scheme candidate = Some (csr_scheme rule) \<and>
      scn_normalized_host candidate = csr_host rule \<and>
      scn_normalized_port candidate = Some (csr_port rule))"

definition origin_allows :: "scope_candidate \<Rightarrow> compiled_scope \<Rightarrow> compiled_scope" where
  "origin_allows candidate compiled =
     filter (\<lambda>r. envelope_origin_matches candidate r \<and> csr_effect r = SRE_ALLOW) compiled"

definition origin_denies :: "scope_candidate \<Rightarrow> compiled_scope \<Rightarrow> compiled_scope" where
  "origin_denies candidate compiled =
     filter (\<lambda>r. envelope_origin_matches candidate r \<and> csr_effect r \<in> {SRE_DENY, SRE_OUT_OF_SCOPE}) compiled"

definition prefix_or_root :: "string option \<Rightarrow> string" where
  "prefix_or_root p = (case p of None \<Rightarrow> ''/'' | Some s \<Rightarrow> or_root s)"

definition derive_authorized_network_envelope ::
    "scope_candidate \<Rightarrow> compiled_scope \<Rightarrow> scope_check \<Rightarrow> bool \<Rightarrow> string option
     \<Rightarrow> value_error + authorized_network_envelope option" where
  "derive_authorized_network_envelope candidate compiled check loopback_only reference =
     (if sc_decision check \<noteq> SD_ALLOW then Inr None
      else (case (scn_normalized_scheme candidate, scn_normalized_host candidate,
                  scn_normalized_port candidate, scn_scope_match_path candidate) of
          (Some scheme, Some host, Some port, Some path) \<Rightarrow>
            (let matched_allows = filter (\<lambda>r. csr_rule_id r \<in> set (sc_matched_rule_ids check))
                   (origin_allows candidate compiled)
             in bindE (post_init_authorized_network_envelope
                \<lparr>ane_normalized_scheme = scheme, ane_normalized_host = host, ane_normalized_port = port,
                 ane_document_path = path,
                 ane_origin_wide = list_ex (\<lambda>r. csr_path_prefix r = None) matched_allows,
                 ane_allowed_path_prefixes = List.map_filter csr_path_prefix matched_allows,
                 ane_denied_path_prefixes = map (prefix_or_root \<circ> csr_path_prefix) (origin_denies candidate compiled),
                 ane_loopback_only = loopback_only, ane_source_scope_rule_ids = sc_matched_rule_ids check,
                 ane_authorization_decision_reference = reference\<rparr>) (\<lambda>e. Inr (Some e)))
        | _ \<Rightarrow> Inr None))"

section \<open>The worker's envelope\<close>

definition UNSUPPORTED_SCHEMES :: "string list" where
  "UNSUPPORTED_SCHEMES = [''file'', ''data'', ''javascript'', ''blob'', ''ftp'', ''about'', ''ws'', ''wss'']"

definition LOOPBACK_HOST :: string where "LOOPBACK_HOST = ''127.0.0.1''"
definition UNSUPPORTED_SCHEME :: string where "UNSUPPORTED_SCHEME = ''UNSUPPORTED_SCHEME''"
definition OUTSIDE_ENVELOPE :: string where "OUTSIDE_ENVELOPE = ''OUTSIDE_ENVELOPE''"

record browser_network_envelope =
  bne_normalized_scheme :: string
  bne_normalized_host :: string
  bne_normalized_port :: int
  bne_document_path :: string
  bne_origin_wide :: bool
  bne_allowed_path_prefixes :: "string list"
  bne_denied_path_prefixes :: "string list"
  bne_loopback_only :: bool
  bne_source_scope_rule_ids :: "string list"
  bne_authorization_decision_reference :: "string option"

text \<open>\<open>isinstance(value or (), (list, tuple))\<close> and its items.\<close>

definition list_or_empty :: "json \<Rightarrow> json list option" where
  "list_or_empty j = (if \<not> truthy j then Some [] else (case j of JArr xs \<Rightarrow> Some xs | _ \<Rightarrow> None))"

definition parse_envelope :: "json \<Rightarrow> browser_network_envelope option" where
  "parse_envelope mapping = (case mapping of
     JObj kvs \<Rightarrow>
       (case (map_of kvs ''normalized_scheme'', map_of kvs ''normalized_host'',
              Option.bind (map_of kvs ''normalized_port'') py_int, map_of kvs ''document_path'') of
          (Some scheme, Some host, Some port, Some document_path) \<Rightarrow>
            (let scheme = py_lower (py_strip (py_str scheme)); host = py_lower (py_strip (py_str host));
                 document_path = py_str document_path in
             if has_star host \<or> has_star scheme then None
             else if scheme = [] \<or> host = [] then None
             else if port < 1 then None
             else if \<not> py_startswith document_path ''/'' then None
             else (case (list_or_empty (jget kvs ''allowed_path_prefixes''), list_or_empty (jget kvs ''denied_path_prefixes''),
                         list_or_empty (jget kvs ''source_scope_rule_ids'')) of
                (Some allowed, Some denied, Some rule_ids) \<Rightarrow> Some
                  \<lparr>bne_normalized_scheme = scheme, bne_normalized_host = host, bne_normalized_port = port,
                   bne_document_path = document_path, bne_origin_wide = truthy (jget kvs ''origin_wide''),
                   bne_allowed_path_prefixes = map py_str allowed, bne_denied_path_prefixes = map py_str denied,
                   bne_loopback_only = truthy (jget kvs ''loopback_only''),
                   bne_source_scope_rule_ids = map py_str rule_ids,
                   bne_authorization_decision_reference = opt_str (jget kvs ''authorization_decision_reference'')\<rparr>
              | _ \<Rightarrow> None))
        | _ \<Rightarrow> None)
   | _ \<Rightarrow> None)"

definition path_ambiguous :: "string \<Rightarrow> bool" where
  "path_ambiguous path =
     (CHR 0x5C \<in> set path \<or> py_contains ''/../'' path \<or> py_endswith path ''/..'' \<or> py_contains ''/./'' path
      \<or> py_endswith path ''/.'' \<or> py_contains ''//'' path
      \<or> (CHR ''%'' \<in> set path \<and> (py_contains ''%2f'' (py_lower path) \<or> py_contains ''%2e'' (py_lower path))))"

text \<open>\<open>Inl\<close> is the reason of a rejection, \<open>Inr\<close> the scheme, host, port and path.\<close>

definition split_url :: "(string \<Rightarrow> bool) \<Rightarrow> string \<Rightarrow> string + string \<times> string \<times> int \<times> string" where
  "split_url brackets url =
     (if blank url then Inl OUTSIDE_ENVELOPE
      else (case urlsplit brackets (py_strip url) of Inl _ \<Rightarrow> Inl OUTSIDE_ENVELOPE
      | Inr parts \<Rightarrow>
        if spl_username parts \<noteq> None \<or> spl_password parts \<noteq> None then Inl OUTSIDE_ENVELOPE
        else (let scheme = py_lower (spl_scheme parts) in
          if scheme \<in> set UNSUPPORTED_SCHEMES then Inl UNSUPPORTED_SCHEME
          else (case map_of DEFAULT_PORTS scheme of None \<Rightarrow> Inl UNSUPPORTED_SCHEME
          | Some default_port \<Rightarrow>
            (let host = py_lower (case spl_hostname parts of None \<Rightarrow> [] | Some h \<Rightarrow> h) in
             if host = [] then Inl OUTSIDE_ENVELOPE
             else if has_star host then Inl OUTSIDE_ENVELOPE
             else (case spl_port parts of Inl _ \<Rightarrow> Inl OUTSIDE_ENVELOPE
             | Inr port \<Rightarrow> (let path = or_root (spl_path parts) in
                 if path_ambiguous path then Inl OUTSIDE_ENVELOPE
                 else Inr (scheme, host, (case port of None \<Rightarrow> default_port | Some p \<Rightarrow> p), path))))))))"

definition covered_by :: "string \<Rightarrow> string list \<Rightarrow> bool" where
  "covered_by path prefixes = list_ex (\<lambda>prefix. prefix \<noteq> [] \<and> py_startswith path prefix) prefixes"

definition envelope_allows ::
    "(string \<Rightarrow> bool) \<Rightarrow> browser_network_envelope \<Rightarrow> string \<Rightarrow> bool \<times> string" where
  "envelope_allows brackets envelope url = (case split_url brackets url of
     Inl reason \<Rightarrow> (False, reason)
   | Inr (scheme, host, port, path) \<Rightarrow>
       if bne_loopback_only envelope \<and> host \<noteq> LOOPBACK_HOST then (False, OUTSIDE_ENVELOPE)
       else if scheme \<noteq> bne_normalized_scheme envelope then (False, OUTSIDE_ENVELOPE)
       else if host \<noteq> bne_normalized_host envelope then (False, OUTSIDE_ENVELOPE)
       else if port \<noteq> bne_normalized_port envelope then (False, OUTSIDE_ENVELOPE)
       else if covered_by path (bne_denied_path_prefixes envelope) then (False, OUTSIDE_ENVELOPE)
       else if bne_origin_wide envelope then (True, [])
       else if path = bne_document_path envelope then (True, [])
       else if covered_by path (bne_allowed_path_prefixes envelope) then (True, [])
       else (False, OUTSIDE_ENVELOPE))"

definition url_is_representable :: "(string \<Rightarrow> bool) \<Rightarrow> string \<Rightarrow> bool" where
  "url_is_representable brackets url = (case split_url brackets url of Inl _ \<Rightarrow> False | Inr _ \<Rightarrow> True)"

definition normalize_target :: "(string \<Rightarrow> bool) \<Rightarrow> string \<Rightarrow> string option" where
  "normalize_target brackets url = (case split_url brackets url of Inl _ \<Rightarrow> None
   | Inr (scheme, host, port, path) \<Rightarrow> Some (if map_of DEFAULT_PORTS scheme = Some port
       then scheme @ ''://'' @ host @ path else scheme @ ''://'' @ host @ '':'' @ show_int port @ path))"

section \<open>Codecs\<close>

text \<open>
  The contract between the two ends of a mapping: a sound value is read back, through the view the
  reader has of it.
\<close>

locale codec =
  fixes enc :: "'a \<Rightarrow> 'b" and dec :: "'b \<Rightarrow> 'c option" and view :: "'a \<Rightarrow> 'c" and sound :: "'a \<Rightarrow> bool"
  assumes dec_enc: "sound x \<Longrightarrow> dec (enc x) = Some (view x)"
begin

lemma enc_determines_view: "sound x \<Longrightarrow> sound y \<Longrightarrow> enc x = enc y \<Longrightarrow> view x = view y"
  using dec_enc [of x] dec_enc [of y] by simp

lemma dec_sound: "sound x \<Longrightarrow> dec (enc x) = Some v \<longleftrightarrow> v = view x"
  by (auto simp: dec_enc)

end

definition envelope_ok :: "authorized_network_envelope \<Rightarrow> bool" where
  "envelope_ok e \<longleftrightarrow> post_init_authorized_network_envelope e = Inr e"

text \<open>What the worker holds after parsing the mapping of an envelope.\<close>

definition worker_view :: "authorized_network_envelope \<Rightarrow> browser_network_envelope" where
  "worker_view e = \<lparr>bne_normalized_scheme = py_lower (py_strip (ane_normalized_scheme e)),
     bne_normalized_host = py_lower (py_strip (ane_normalized_host e)), bne_normalized_port = ane_normalized_port e,
     bne_document_path = ane_document_path e, bne_origin_wide = ane_origin_wide e,
     bne_allowed_path_prefixes = ane_allowed_path_prefixes e, bne_denied_path_prefixes = ane_denied_path_prefixes e,
     bne_loopback_only = ane_loopback_only e, bne_source_scope_rule_ids = ane_source_scope_rule_ids e,
     bne_authorization_decision_reference = ane_authorization_decision_reference e\<rparr>"

definition worker_readable :: "authorized_network_envelope \<Rightarrow> bool" where
  "worker_readable e \<longleftrightarrow> envelope_ok e \<and> \<not> blank (ane_normalized_scheme e) \<and> \<not> blank (ane_normalized_host e)"

lemma envelope_ok_iff: "envelope_ok e \<longleftrightarrow> \<not> has_star (ane_normalized_host e) \<and> \<not> has_star (ane_normalized_scheme e)
    \<and> 1 \<le> ane_normalized_port e \<and> py_startswith (ane_document_path e) ''/''"
  unfolding envelope_ok_def post_init_authorized_network_envelope_def raise_first_Inr_iff by auto

lemma iter_strings [simp]: "iter_or_empty (JArr (map JStr xs)) = Some (map JStr xs)"
  by (simp add: iter_or_empty_def)

lemma list_strings [simp]: "list_or_empty (JArr (map JStr xs)) = Some (map JStr xs)"
  by (simp add: list_or_empty_def)

lemma str_strings [simp]: "py_str (JStr s) = s" "py_str \<circ> JStr = id"
  by (auto simp: py_str_def)

lemma has_star_normal [simp]: "\<not> has_star s \<Longrightarrow> \<not> has_star (py_lower (py_strip s))"
proof
  assume "\<not> has_star s" "has_star (py_lower (py_strip s))"
  then obtain d where "d \<in> set s" "lower_char d = CHR ''*''"
    using set_py_strip [of s] by (auto simp: has_star_def py_lower_def)
  moreover from this(2) have "d = CHR ''*''" by (simp only: lower_char_eq insertI1)
  ultimately show False using \<open>\<not> has_star s\<close> by (simp add: has_star_def)
qed

lemma lower_Nil_iff: "py_lower (py_strip s) = [] \<longleftrightarrow> blank s"
  by (simp add: py_lower_def blank_def)

lemma envelope_lookups:
  "map_of (envelope_to_mapping e) ''normalized_scheme'' = Some (JStr (ane_normalized_scheme e))"
  "map_of (envelope_to_mapping e) ''normalized_host'' = Some (JStr (ane_normalized_host e))"
  "map_of (envelope_to_mapping e) ''normalized_port'' = Some (JInt (ane_normalized_port e))"
  "map_of (envelope_to_mapping e) ''document_path'' = Some (JStr (ane_document_path e))"
  "jget (envelope_to_mapping e) ''origin_wide'' = JBool (ane_origin_wide e)"
  "jget (envelope_to_mapping e) ''allowed_path_prefixes'' = JArr (map JStr (ane_allowed_path_prefixes e))"
  "jget (envelope_to_mapping e) ''denied_path_prefixes'' = JArr (map JStr (ane_denied_path_prefixes e))"
  "jget (envelope_to_mapping e) ''loopback_only'' = JBool (ane_loopback_only e)"
  "jget (envelope_to_mapping e) ''source_scope_rule_ids'' = JArr (map JStr (ane_source_scope_rule_ids e))"
  "opt_str (jget (envelope_to_mapping e) ''authorization_decision_reference'') = ane_authorization_decision_reference e"
  by (simp_all add: envelope_to_mapping_def jget_def opt_str_def split: option.splits)

interpretation core_envelope: codec "\<lambda>e. JObj (envelope_to_mapping e)" envelope_from_mapping "\<lambda>e. e" envelope_ok
proof unfold_locales
  fix e assume "envelope_ok e"
  then show "envelope_from_mapping (JObj (envelope_to_mapping e)) = Some e"
    by (cases e) (simp add: envelope_from_mapping_def envelope_lookups envelope_ok_def)
qed

interpretation worker_envelope: codec "\<lambda>e. JObj (envelope_to_mapping e)" parse_envelope worker_view worker_readable
proof unfold_locales
  fix e assume "worker_readable e"
  then have "\<not> has_star (ane_normalized_host e)" "\<not> has_star (ane_normalized_scheme e)"
    "1 \<le> ane_normalized_port e" "py_startswith (ane_document_path e) ''/''"
    "\<not> blank (ane_normalized_scheme e)" "\<not> blank (ane_normalized_host e)"
    by (auto simp: worker_readable_def envelope_ok_iff)
  then show "parse_envelope (JObj (envelope_to_mapping e)) = Some (worker_view e)"
    by (simp add: parse_envelope_def envelope_lookups worker_view_def lower_Nil_iff)
qed

lemma parse_envelope_readable: "parse_envelope (JObj (envelope_to_mapping e)) = Some w \<Longrightarrow>
    \<not> blank (ane_normalized_scheme e) \<and> \<not> blank (ane_normalized_host e)"
  by (auto simp: parse_envelope_def envelope_lookups lower_Nil_iff Let_def split: if_splits)

section \<open>What the worker's check lets through\<close>

lemma split_url_Inr:
  assumes "split_url brackets url = Inr (scheme, host, port, path)"
  shows "py_startswith path ''/'' \<and> \<not> path_ambiguous path"
proof -
  obtain parts h where p: "urlsplit brackets (py_strip url) = Inr parts" "spl_hostname parts = Some h"
    "path = or_root (spl_path parts)" "\<not> path_ambiguous path"
    using assms by (auto simp: split_url_def py_lower_def Let_def split: if_splits sum.splits option.splits)
  have "spl_path parts = [] \<or> hd (spl_path parts) = CHR ''/''"
    using p(1) hostname_netloc [OF p(2)] by (rule urlsplit_path_absolute)
  with p(3,4) show ?thesis by (cases "spl_path parts") (auto simp: or_root_def py_startswith_def)
qed

lemma envelope_allows_True:
  assumes "fst (envelope_allows brackets w url)"
  obtains path where
    "split_url brackets url = Inr (bne_normalized_scheme w, bne_normalized_host w, bne_normalized_port w, path)"
    "\<not> covered_by path (bne_denied_path_prefixes w)"
    "bne_origin_wide w \<or> path = bne_document_path w \<or> covered_by path (bne_allowed_path_prefixes w)"
    "bne_loopback_only w \<Longrightarrow> bne_normalized_host w = LOOPBACK_HOST"
  using assms by (auto simp: envelope_allows_def split: sum.splits prod.splits if_splits)

lemma post_init_envelope_Inr: "post_init_authorized_network_envelope e = Inr e' \<longleftrightarrow> e' = e \<and> envelope_ok e"
  unfolding envelope_ok_def post_init_authorized_network_envelope_def raise_first_Inr_iff by auto

lemma derive_envelope_Inr:
  assumes "derive_authorized_network_envelope c compiled check loopback ref = Inr (Some e)"
  shows "sc_decision check = SD_ALLOW" "envelope_ok e"
    "scn_normalized_scheme c = Some (ane_normalized_scheme e)" "scn_normalized_host c = Some (ane_normalized_host e)"
    "scn_normalized_port c = Some (ane_normalized_port e)" "scn_scope_match_path c = Some (ane_document_path e)"
    "ane_denied_path_prefixes e = map (prefix_or_root \<circ> csr_path_prefix) (origin_denies c compiled)"
    "ane_origin_wide e \<longleftrightarrow> (\<exists>r \<in> set (origin_allows c compiled). csr_rule_id r \<in> set (sc_matched_rule_ids check)
       \<and> csr_path_prefix r = None)"
    "ane_allowed_path_prefixes e = List.map_filter csr_path_prefix
       (filter (\<lambda>r. csr_rule_id r \<in> set (sc_matched_rule_ids check)) (origin_allows c compiled))"
    "ane_loopback_only e = loopback" "ane_authorization_decision_reference e = ref"
    "ane_source_scope_rule_ids e = sc_matched_rule_ids check"
  using assms
  by (auto simp: derive_authorized_network_envelope_def post_init_envelope_Inr
      bindE_Inr_iff list_ex_iff Let_def split: if_splits option.splits prod.splits)

lemma prefix_matches_startswith: "path_prefix_matches path p \<Longrightarrow> py_startswith path p"
  by (auto simp: path_prefix_matches_def py_startswith_iff Let_def split: if_splits)

definition rule_covers :: "compiled_scope_rule \<Rightarrow> string \<Rightarrow> bool" where
  "rule_covers r path = (case csr_path_prefix r of None \<Rightarrow> True | Some p \<Rightarrow> path_prefix_matches path p)"

lemma covered_denies:
  assumes "\<not> covered_by path (map (prefix_or_root \<circ> csr_path_prefix) rs)" "py_startswith path ''/''" "r \<in> set rs"
  shows "\<not> rule_covers r path"
proof
  assume cov: "rule_covers r path"
  have "prefix_or_root (csr_path_prefix r) \<noteq> []" by (simp add: prefix_or_root_def or_root_def split: option.splits)
  moreover have "py_startswith path (prefix_or_root (csr_path_prefix r))"
    using cov assms(2) by (auto simp: rule_covers_def prefix_or_root_def or_root_def
        dest: prefix_matches_startswith split: option.splits)
  ultimately show False using assms(1,3) by (auto simp: covered_by_def list_ex_iff)
qed

lemma allowed_candidate_clean:
  "sc_decision (evaluate_scope_candidate candidate compiled now clock) = SD_ALLOW \<Longrightarrow> scn_normalization_error candidate = None"
  by (auto simp: evaluate_scope_candidate_def split: option.splits if_splits)

text \<open>The worker's parser and check read back the bounds of a normalised candidate as they are.\<close>

lemma worker_accepts_url:
  assumes "canonical_codecs ipv6 idna" "candidate = normalize_url brackets ipv6 idna target"
    and "scn_normalization_error candidate = None" "envelope_ok e"
    and "scn_normalized_scheme candidate = Some (ane_normalized_scheme e)"
    and "scn_normalized_host candidate = Some (ane_normalized_host e)"
    and "parse_envelope (JObj (envelope_to_mapping (e\<lparr>ane_authorization_decision_reference := ref\<rparr>))) = Some w"
    and "fst (envelope_allows brackets w url)"
  obtains path where "split_url brackets url = Inr (ane_normalized_scheme e, ane_normalized_host e, ane_normalized_port e, path)"
      "\<not> covered_by path (ane_denied_path_prefixes e)"
      "ane_origin_wide e \<or> path = ane_document_path e \<or> covered_by path (ane_allowed_path_prefixes e)"
proof -
  let ?e = "e\<lparr>ane_authorization_decision_reference := ref\<rparr>"
  obtain parts host where n: "spl_hostname parts = Some host"
      "canonical_host ipv6 idna host = Inr (ane_normalized_host e)" "ane_normalized_scheme e = py_lower (spl_scheme parts)"
      "map_of DEFAULT_PORTS (ane_normalized_scheme e) \<noteq> None"
    using assms(3,5,6) unfolding assms(2) by (elim normalize_url_clean) (auto simp: assms(2))
  have host: "py_lower (py_strip (ane_normalized_host e)) = ane_normalized_host e"
    using canonical_host_normal [OF assms(1) n(1,2)] by simp
  have scheme: "py_lower (py_strip (ane_normalized_scheme e)) = ane_normalized_scheme e"
    using n(4) by (auto simp: DEFAULT_PORTS_def py_strip_def py_lower_def py_space_def lower_char_def split: if_splits)
  have "worker_readable ?e"
    using assms(4) parse_envelope_readable [OF assms(7)] by (simp add: worker_readable_def envelope_ok_iff)
  with assms(7) have w: "w = worker_view ?e" by (simp add: worker_envelope.dec_sound)
  show thesis
    using assms(8) that by (elim envelope_allows_True) (auto simp: w worker_view_def host scheme)
qed

section \<open>Properties\<close>

text \<open>
  C37. The mapping of an envelope that satisfies its constructor's checks is read back unchanged by
  Core.  When its scheme and its host are not blank, a worker reads it back too, and then holds the same
  port, paths and flags, with scheme and host stripped and lowered.
\<close>

theorem envelope_round_trip:
  assumes "post_init_authorized_network_envelope e = Inr e'"
  shows "envelope_from_mapping (JObj (envelope_to_mapping e')) = Some e
    \<and> (\<not> blank (ane_normalized_scheme e) \<and> \<not> blank (ane_normalized_host e) \<longrightarrow>
      parse_envelope (JObj (envelope_to_mapping e')) = Some (worker_view e))"
  using assms core_envelope.dec_enc [of e] worker_envelope.dec_enc [of e]
  by (simp_all add: post_init_envelope_Inr worker_readable_def)

text \<open>A shop whose account pages are out of scope; the rule on the sibling host is a pattern.\<close>

definition shop_rule :: "string \<Rightarrow> scope_rule_effect \<Rightarrow> string option \<Rightarrow> string option \<Rightarrow> string option \<Rightarrow> compiled_scope_rule" where
  "shop_rule i effect host pattern prefix = \<lparr>csr_rule_id = i, csr_effect = effect, csr_scheme = ''https'',
     csr_host = host, csr_host_pattern = pattern, csr_port = 443, csr_path_prefix = prefix,
     csr_source_reference = ''policy'', csr_expires_at = None\<rparr>"

definition shop_host :: "string option" where "shop_host = Some ''app.shop.example''"

definition shop_scope :: compiled_scope where
  "shop_scope = [shop_rule ''allow'' SRE_ALLOW shop_host None None, shop_rule ''deny'' SRE_DENY shop_host None (Some ''/account'')]"

definition no_codec :: "string \<Rightarrow> string option" where "no_codec s = None"

definition shop_candidate :: "string \<Rightarrow> scope_candidate" where
  "shop_candidate url = normalize_url (\<lambda>_. False) no_codec no_codec url"

definition shop_envelope :: "compiled_scope \<Rightarrow> string \<Rightarrow> value_error + authorized_network_envelope option" where
  "shop_envelope rules url = derive_authorized_network_envelope (shop_candidate url) rules
     (evaluate_scope_candidate (shop_candidate url) rules (Some 0) 0) False None"

definition allowed_by_worker :: "value_error + authorized_network_envelope option \<Rightarrow> string \<Rightarrow> bool option" where
  "allowed_by_worker m url = (case m of Inr (Some e) \<Rightarrow> map_option (\<lambda>w. fst (envelope_allows (\<lambda>_. False) w url))
     (parse_envelope (JObj (envelope_to_mapping e))) | _ \<Rightarrow> None)"

definition decided_by_core :: "compiled_scope \<Rightarrow> string \<Rightarrow> scope_decision" where
  "decided_by_core rules url = sc_decision (evaluate_scope_candidate (shop_candidate url) rules (Some 0) 0)"

definition shop_bounds :: authorized_network_envelope where
  "shop_bounds = \<lparr>ane_normalized_scheme = ''https'', ane_normalized_host = ''app.shop.example'',
     ane_normalized_port = 443, ane_document_path = ''/catalog'', ane_origin_wide = True,
     ane_allowed_path_prefixes = [], ane_denied_path_prefixes = [''/account''], ane_loopback_only = False,
     ane_source_scope_rule_ids = [''allow''], ane_authorization_decision_reference = None\<rparr>"

lemma shop_envelope_bounds: "shop_envelope shop_scope ''https://app.shop.example/catalog'' = Inr (Some shop_bounds)"
  by code_simp

theorem envelope_round_trip_witness:
  "envelope_from_mapping (JObj (envelope_to_mapping shop_bounds)) = Some shop_bounds
   \<and> parse_envelope (JObj (envelope_to_mapping shop_bounds)) = Some (worker_view shop_bounds)"
proof -
  have ok: "post_init_authorized_network_envelope shop_bounds = Inr shop_bounds" by code_simp
  have "\<not> blank (ane_normalized_scheme shop_bounds) \<and> \<not> blank (ane_normalized_host shop_bounds)" by code_simp
  with envelope_round_trip [OF ok] show ?thesis by simp
qed



section \<open>Where the worker admits more than Core\<close>

text \<open>
  An exclusion written with a host pattern is not carried to the worker, and prefixes are compared as
  texts there, by path segments in Core.
\<close>

definition pattern_scope :: compiled_scope where
  "pattern_scope = [shop_rule ''allow'' SRE_ALLOW shop_host None None,
     shop_rule ''deny'' SRE_DENY None (Some ''*.shop.example'') (Some ''/account'')]"

lemma pattern_exclusion_not_in_envelope:
  "allowed_by_worker (shop_envelope pattern_scope ''https://app.shop.example/catalog'') ''https://app.shop.example/account''
     = Some True
   \<and> decided_by_core pattern_scope ''https://app.shop.example/account'' = SD_DENY"
  by code_simp

definition prefix_scope :: compiled_scope where
  "prefix_scope = [shop_rule ''allow'' SRE_ALLOW shop_host None (Some ''/api'')]"

lemma prefix_admits_sibling:
  "allowed_by_worker (shop_envelope prefix_scope ''https://app.shop.example/api/items'') ''https://app.shop.example/apikeys''
     = Some True
   \<and> decided_by_core prefix_scope ''https://app.shop.example/apikeys'' = SD_DENY"
  by code_simp

end
