(* ===== verification/Program_Context.thy ===== *)
theory Program_Context
  imports Network_Envelope Core_RateLimit Budget_Ledger
begin

text \<open>
  The context of a program that dispatch evaluates against (\<open>application/program_research_context.py\<close>):
  its row, its scope rules compiled in the order of their ids, its policy or the fail-closed default,
  and its rate limit; with the records, tables and repositories it is read from.
\<close>

section \<open>Records\<close>

record program_record =
  pgr_program_id :: string
  pgr_created_at :: int
  pgr_name :: "string option"
  pgr_handle :: "string option"
  pgr_platform :: "string option"

definition post_init_program_record :: "program_record \<Rightarrow> persistence_error + program_record" where
  "post_init_program_record r = raise_first [bad_id (pgr_program_id r) ''program_id''] r"

record scope_rule_v2_record =
  srr_rule_id :: string
  srr_program_id :: string
  srr_effect :: string
  srr_scheme :: string
  srr_source_reference :: string
  srr_created_at :: int
  srr_host :: "string option"
  srr_host_pattern :: "string option"
  srr_port :: "int option"
  srr_path_prefix :: "string option"
  srr_expires_at :: "int option"

definition post_init_scope_rule_v2_record :: "scope_rule_v2_record \<Rightarrow> persistence_error + scope_rule_v2_record" where
  "post_init_scope_rule_v2_record r = raise_first
     [bad_id (srr_rule_id r) ''rule_id'', bad_id (srr_program_id r) ''program_id'',
      bad_id (srr_source_reference r) ''source_reference'',
      (case srr_port r of None \<Rightarrow> False | Some p \<Rightarrow> p < 1, PersistenceInputError ''port must be a positive integer or None''),
      (srr_host r = None \<and> srr_host_pattern r = None, PersistenceInputError ''host or host_pattern is required''),
      (srr_host r \<noteq> None \<and> srr_host_pattern r \<noteq> None,
       PersistenceInputError ''host and host_pattern are mutually exclusive'')] r"

record rate_limit_profile_record =
  rpr_profile_id :: string
  rpr_program_id :: string
  rpr_max_requests_per_window :: int
  rpr_window_seconds :: int
  rpr_created_at :: int

definition post_init_rate_limit_profile_record ::
    "rate_limit_profile_record \<Rightarrow> persistence_error + rate_limit_profile_record" where
  "post_init_rate_limit_profile_record r = raise_first
     [bad_id (rpr_profile_id r) ''profile_id'', bad_id (rpr_program_id r) ''program_id'',
      bad_int (rpr_max_requests_per_window r) ''max_requests_per_window'',
      bad_int (rpr_window_seconds r) ''window_seconds''] r"

section \<open>Tables and repositories\<close>

text \<open>The policies of a program are a table of the budget part of the database.\<close>

record program_db =
  pd_programs :: "program_record list"
  pd_scope_rules :: "scope_rule_v2_record list"
  pd_rate_limits :: "rate_limit_profile_record list"

definition insert_program :: "program_record \<Rightarrow> program_db \<Rightarrow> persistence_error + program_db" where
  "insert_program r d =
     (if has_key pgr_program_id (pgr_program_id r) (pd_programs d) then Inl unique_failed
      else Inr (d\<lparr>pd_programs := pd_programs d @ [r]\<rparr>))"

definition get_program :: "string \<Rightarrow> program_db \<Rightarrow> persistence_error + program_record option" where
  "get_program i d = fetch_one pgr_program_id ''program_id'' (pd_programs d) i"

text \<open>The CHECK constraints of \<open>scope_rule_v2\<close>; a pattern \<open>LIKE '*.%'\<close> starts with an asterisk and a dot.\<close>

definition scope_rule_checks :: "scope_rule_v2_record \<Rightarrow> bool" where
  "scope_rule_checks r =
     (srr_effect r \<in> {''ALLOW'', ''DENY'', ''OUT_OF_SCOPE'', ''UNKNOWN''} \<and> srr_scheme r \<in> {''http'', ''https''}
      \<and> (srr_host r = None) \<noteq> (srr_host_pattern r = None)
      \<and> (case srr_host_pattern r of None \<Rightarrow> True | Some p \<Rightarrow> py_startswith p ''*.'')
      \<and> (case srr_port r of None \<Rightarrow> True | Some p \<Rightarrow> 1 \<le> p)
      \<and> (case srr_path_prefix r of None \<Rightarrow> True | Some p \<Rightarrow> py_startswith p ''/'')
      \<and> (case srr_expires_at r of None \<Rightarrow> True | Some t \<Rightarrow> srr_created_at r \<le> t))"

definition insert_scope_rule :: "scope_rule_v2_record \<Rightarrow> program_db \<Rightarrow> persistence_error + program_db" where
  "insert_scope_rule r d =
     (if (case srr_port r of None \<Rightarrow> False | Some p \<Rightarrow> \<not> int4 p) then Inl write_failed
      else if \<not> scope_rule_checks r then Inl integrity_failed
      else if has_key srr_rule_id (srr_rule_id r) (pd_scope_rules d) then Inl unique_failed
      else if \<not> has_key pgr_program_id (srr_program_id r) (pd_programs d) then Inl integrity_failed
      else Inr (d\<lparr>pd_scope_rules := pd_scope_rules d @ [r]\<rparr>))"

definition list_scope_rules_for_program :: "string \<Rightarrow> program_db \<Rightarrow> persistence_error + scope_rule_v2_record list" where
  "list_scope_rules_for_program i d = fetch_list srr_rule_id srr_program_id ''program_id'' (pd_scope_rules d) i"

definition insert_rate_limit_profile :: "rate_limit_profile_record \<Rightarrow> program_db \<Rightarrow> persistence_error + program_db" where
  "insert_rate_limit_profile r d =
     (if \<not> list_all int4 [rpr_max_requests_per_window r, rpr_window_seconds r] then Inl write_failed
      else if rpr_max_requests_per_window r < 0 \<or> rpr_window_seconds r < 0 then Inl integrity_failed
      else if has_key rpr_profile_id (rpr_profile_id r) (pd_rate_limits d)
        \<or> has_key rpr_program_id (rpr_program_id r) (pd_rate_limits d) then Inl unique_failed
      else if \<not> has_key pgr_program_id (rpr_program_id r) (pd_programs d) then Inl integrity_failed
      else Inr (d\<lparr>pd_rate_limits := pd_rate_limits d @ [r]\<rparr>))"

definition list_rate_limits_for_program :: "string \<Rightarrow> program_db \<Rightarrow> persistence_error + rate_limit_profile_record list" where
  "list_rate_limits_for_program i d = fetch_list rpr_profile_id rpr_program_id ''program_id'' (pd_rate_limits d) i"

section \<open>The policy view\<close>

record program_policy_view =
  ppv_loopback_fixture :: bool
  ppv_max_response_bytes :: int
  ppv_timeout_ms :: int
  ppv_action_policy :: payload
  ppv_rate_limit_profile :: "rate_limit_profile_record option"

definition allows_action :: "program_policy_view \<Rightarrow> string \<Rightarrow> bool" where
  "allows_action view action_name =
     (if blank action_name then False
      else (let decision = jget (ppv_action_policy view) action_name in
        if decision = JNull then True
        else (let decision = (case decision of JObj kvs \<Rightarrow> jget kvs ''decision'' | _ \<Rightarrow> decision) in
          case decision of JStr s \<Rightarrow> py_upper s \<noteq> ''DENY'' | _ \<Rightarrow> truthy decision)))"

definition policy_view :: "program_policy_record \<Rightarrow> rate_limit_profile_record option \<Rightarrow> program_policy_view" where
  "policy_view r rate_limit = \<lparr>ppv_loopback_fixture = ppr_loopback_fixture r,
     ppv_max_response_bytes = ppr_max_response_bytes r, ppv_timeout_ms = ppr_timeout_ms r,
     ppv_action_policy = (case ppr_action_policy r of None \<Rightarrow> [] | Some p \<Rightarrow> p), ppv_rate_limit_profile = rate_limit\<rparr>"

definition default_policy :: "string \<Rightarrow> int option \<Rightarrow> int \<Rightarrow> persistence_error + program_policy_record" where
  "default_policy program_id now clock =
     (let evaluated_at = (case now of None \<Rightarrow> clock | Some t \<Rightarrow> t) in post_init_program_policy_record
        \<lparr>ppr_program_id = program_id, ppr_loopback_fixture = False, ppr_max_response_bytes = 4096, ppr_timeout_ms = 2000,
         ppr_created_at = evaluated_at, ppr_updated_at = evaluated_at, ppr_action_policy = Some [],
         ppr_daily_llm_budget_microdollars = None\<rparr>)"

text \<open>\<open>None\<close> is an absent scope, \<open>Some []\<close> a scope without rules; both leave only loopback.\<close>

definition derive_loopback_only :: "program_policy_view option \<Rightarrow> compiled_scope option \<Rightarrow> bool" where
  "derive_loopback_only program_policy compiled_scope =
     (case program_policy of None \<Rightarrow> True
      | Some p \<Rightarrow> if ppv_loopback_fixture p then True
          else (case compiled_scope of None \<Rightarrow> True | Some rules \<Rightarrow> rules = []))"

section \<open>Loading the context\<close>

fun scope_rule_effect_of :: "string \<Rightarrow> scope_rule_effect option" where
  "scope_rule_effect_of v =
     (if v = ''ALLOW'' then Some SRE_ALLOW else if v = ''DENY'' then Some SRE_DENY
      else if v = ''OUT_OF_SCOPE'' then Some SRE_OUT_OF_SCOPE else if v = ''UNKNOWN'' then Some SRE_UNKNOWN else None)"

definition rule_definition_of :: "scope_rule_v2_record \<Rightarrow> app_error + scope_rule_definition" where
  "rule_definition_of r =
     bindE (from_option (AppValueError ''not a valid ScopeRuleEffect'') (scope_rule_effect_of (srr_effect r))) (\<lambda>effect.
     mapErr AppCore (post_init_scope_rule_definition
       \<lparr>srd_rule_id = srr_rule_id r, srd_effect = effect, srd_scheme = srr_scheme r, srd_host = srr_host r,
        srd_port = srr_port r, srd_path_prefix = srr_path_prefix r, srd_source_reference = srr_source_reference r,
        srd_host_pattern = srr_host_pattern r, srd_expires_at = srr_expires_at r\<rparr>))"

fun rule_definitions_of :: "scope_rule_v2_record list \<Rightarrow> app_error + scope_rule_definition list" where
  "rule_definitions_of [] = Inr []"
| "rule_definitions_of (r # rs) =
     bindE (rule_definition_of r) (\<lambda>d. bindE (rule_definitions_of rs) (\<lambda>ds. Inr (d # ds)))"

definition compile_rule_records :: "scope_rule_v2_record list \<Rightarrow> app_error + compiled_scope" where
  "compile_rule_records records =
     bindE (rule_definitions_of records) (\<lambda>definitions. mapErr AppCore (compile_scope_rules definitions))"

record program_research_context =
  prc_program :: program_record
  prc_compiled_scope :: compiled_scope
  prc_policy :: program_policy_view

definition load_program_research_context ::
    "string \<Rightarrow> int option \<Rightarrow> int \<Rightarrow> program_db \<Rightarrow> budget_db \<Rightarrow> app_error + program_research_context option" where
  "load_program_research_context program_id now clock d b =
     bindE (stored (get_program program_id d)) (\<lambda>found. case found of None \<Rightarrow> Inr None
     | Some program \<Rightarrow>
       bindE (stored (list_scope_rules_for_program program_id d)) (\<lambda>rules.
       bindE (stored (get_program_policy program_id b)) (\<lambda>policy_row.
       bindE (case policy_row of Some p \<Rightarrow> Inr p | None \<Rightarrow> stored (default_policy program_id now clock)) (\<lambda>policy.
       bindE (stored (list_rate_limits_for_program program_id d)) (\<lambda>profiles.
       bindE (compile_rule_records rules) (\<lambda>compiled.
       Inr (Some \<lparr>prc_program = program, prc_compiled_scope = compiled,
         prc_policy = policy_view policy (case profiles of [] \<Rightarrow> None | p # _ \<Rightarrow> Some p)\<rparr>)))))))"

section \<open>Facts\<close>

interpretation programs: keyed_table pgr_program_id pd_programs insert_program
  by unfold_locales (auto simp: insert_program_def has_key_iff split: if_splits)

interpretation scope_rules: keyed_table srr_rule_id pd_scope_rules insert_scope_rule
  by unfold_locales (auto simp: insert_scope_rule_def has_key_iff split: if_splits)

interpretation rate_limits: keyed_table rpr_program_id pd_rate_limits insert_rate_limit_profile
  by unfold_locales (auto simp: insert_rate_limit_profile_def has_key_iff split: if_splits)

text \<open>The docstring of \<open>allows_action\<close> promises a refusal when the policy does not name the action.\<close>

lemma allows_action_unlisted: "\<not> blank a \<Longrightarrow> a \<notin> fst ` set (ppv_action_policy v) \<Longrightarrow> allows_action v a"
  using map_of_eq_None_iff [of "ppv_action_policy v" a] by (simp add: allows_action_def jget_def)

end
