(* ===== verification/Argument_Policy.thy ===== *)
theory Argument_Policy
  imports Py_Url Capability Research_Types
begin

text \<open>
  The argument policies of the HTTP and browser capabilities (\<open>tools/http_transaction_policy.py\<close>,
  \<open>tools/http_authentication_policy.py\<close>, \<open>tools/browser_page_policy.py\<close>): checks made after the JSON
  schema of the action and before anything is dispatched.  \<open>Inl\<close> is an exception of \<open>urlsplit\<close>, which
  the code lets through.
\<close>

definition issue :: "string \<Rightarrow> string \<Rightarrow> argument_validation_issue" where
  "issue reason_code message = \<lparr>avi_reason_code = reason_code, avi_message = message\<rparr>"

abbreviation "invalid_type message \<equiv> Some (issue ''INVALID_ARGUMENT_TYPE'' message)"
abbreviation "unexpected message \<equiv> Some (issue ''UNEXPECTED_ARGUMENT'' message)"

text \<open>\<open>any(marker in text for marker in CRLF_MARKERS)\<close>: a line end or a NUL.\<close>

definition has_crlf :: "string \<Rightarrow> bool" where
  "has_crlf s = list_ex (\<lambda>c. c \<in> {CHR 0x0D, CHR 0x0A, CHR 0x00}) s"

definition path_issue :: "string \<Rightarrow> argument_validation_issue option" where
  "path_issue path =
     (if has_crlf path then invalid_type ''path must not contain CRLF''
      else if py_startswith path ''//'' \<or> py_contains ''://'' path then invalid_type ''path must not be an absolute URL''
      else if CHR 0x5C \<in> set path \<or> py_contains ''/../'' path \<or> py_endswith path ''/..'' \<or> py_contains ''/./'' path
        \<or> py_endswith path ''/.'' then invalid_type ''path is ambiguous''
      else if CHR ''%'' \<in> set path \<and> (py_contains ''%2f'' (py_lower path) \<or> py_contains ''%2e'' (py_lower path))
      then invalid_type ''path is ambiguous''
      else if \<not> py_startswith path ''/'' then invalid_type ''path must be absolute''
      else if py_contains ''//'' path then invalid_type ''path is ambiguous''
      else None)"

text \<open>The checks of \<open>authorized_origin\<close>, the same in the three policies.\<close>

definition origin_issue ::
    "(string \<Rightarrow> bool) \<Rightarrow> json \<Rightarrow> value_error + argument_validation_issue option" where
  "origin_issue brackets value = (case value of
     JStr origin \<Rightarrow>
       (if blank origin then Inr (invalid_type ''authorized_origin is required'')
        else if has_crlf origin then Inr (invalid_type ''authorized_origin must not contain CRLF'')
        else bindE (urlsplit brackets (py_strip origin)) (\<lambda>parsed.
          if spl_path parsed \<notin> {[], ''/''} then Inr (invalid_type ''authorized_origin must not include a path'')
          else if spl_query parsed \<noteq> [] \<or> spl_fragment parsed \<noteq> []
          then Inr (invalid_type ''authorized_origin must not include query or fragment'')
          else Inr None))
   | _ \<Rightarrow> Inr (invalid_type ''authorized_origin is required''))"

text \<open>Checks run one after the other; the first issue is returned.\<close>

fun first_issue :: "argument_validation_issue option list \<Rightarrow> argument_validation_issue option" where
  "first_issue [] = None"
| "first_issue (Some i # _) = Some i"
| "first_issue (None # cs) = first_issue cs"

lemma first_issue_None: "first_issue cs = None \<longleftrightarrow> (\<forall>c \<in> set cs. c = None)"
  by (induction cs rule: first_issue.induct) auto

definition text_issue :: "json \<Rightarrow> string \<Rightarrow> string \<Rightarrow> argument_validation_issue option" where
  "text_issue value required_message crlf_message = (case value of
     JStr s \<Rightarrow> if blank s then invalid_type required_message
       else if has_crlf s then invalid_type crlf_message else None
   | _ \<Rightarrow> invalid_type required_message)"

definition path_value_issue :: "json \<Rightarrow> argument_validation_issue option" where
  "path_value_issue value = (case value of JStr path \<Rightarrow> path_issue path | _ \<Rightarrow> invalid_type ''path must be a string'')"

text \<open>An optional \<open>session_context_reference\<close>.\<close>

definition session_ref_issue :: "payload \<Rightarrow> argument_validation_issue option" where
  "session_ref_issue arguments = (let value = jget arguments ''session_context_reference'' in
     if value = JNull then None
     else text_issue value ''session_context_reference must be a string''
       ''session_context_reference must not contain CRLF'')"

section \<open>HTTP transactions\<close>

definition FORBIDDEN_REQUEST_HEADERS :: "string list" where
  "FORBIDDEN_REQUEST_HEADERS = [''host'', ''content-length'', ''transfer-encoding'', ''connection'', ''proxy-authorization'',
     ''proxy-connection'', ''authorization'', ''cookie'', ''cookie2'', ''set-cookie'']"

definition ALLOWED_READ_METHODS :: "string list" where "ALLOWED_READ_METHODS = [''GET'', ''HEAD'', ''OPTIONS'']"
definition ALLOWED_MUTATE_METHODS :: "string list" where
  "ALLOWED_MUTATE_METHODS = [''POST'', ''PUT'', ''PATCH'', ''DELETE'']"

text \<open>\<open>ch.isalnum()\<close> on the characters below 256.\<close>

definition is_alnum :: "char \<Rightarrow> bool" where
  "is_alnum c = (let n = (of_char c :: nat) in is_letter c \<or> is_digit c \<or> n \<in> {170, 178, 179, 181, 185, 186, 188, 189, 190}
     \<or> (192 \<le> n \<and> n \<le> 255 \<and> n \<noteq> 215 \<and> n \<noteq> 247))"

definition header_issue :: "string \<times> json \<Rightarrow> argument_validation_issue option" where
  "header_issue h = (case h of (name, value) \<Rightarrow> (case value of
     JStr v \<Rightarrow>
       if has_crlf name \<or> has_crlf v then invalid_type ''headers must not contain CRLF''
       else if length name > 64 then invalid_type ''header name exceeds bound''
       else if py_lower name \<in> set FORBIDDEN_REQUEST_HEADERS then unexpected ''header is not allowed''
       else if \<not> list_all (\<lambda>c. is_alnum c \<or> c = CHR ''-'') name then invalid_type ''header name is invalid''
       else None
   | _ \<Rightarrow> invalid_type ''header names and values must be strings''))"

definition headers_issue :: "payload \<Rightarrow> argument_validation_issue option" where
  "headers_issue headers = first_issue (map header_issue headers)"

definition query_issue :: "payload \<Rightarrow> argument_validation_issue option" where
  "query_issue query = first_issue (map (\<lambda>(k, v). case v of
     JStr s \<Rightarrow> if has_crlf k \<or> has_crlf s then invalid_type ''query must not contain CRLF'' else None
   | _ \<Rightarrow> invalid_type ''query keys and values must be strings'') query)"

text \<open>\<open>arguments.get(name) or {}\<close>, which must be an object.\<close>

definition object_or_empty :: "json \<Rightarrow> payload option" where
  "object_or_empty value = (if \<not> truthy value then Some [] else (case value of JObj kvs \<Rightarrow> Some kvs | _ \<Rightarrow> None))"

definition body_issue :: "string \<Rightarrow> json \<Rightarrow> argument_validation_issue option" where
  "body_issue action_id body =
     (if body = JNull then None
      else if action_id = ''read'' then unexpected ''read action must not include a body''
      else (case body of JStr s \<Rightarrow>
          if py_contains [CHR 0x0D, CHR 0x0A, CHR 0x0D, CHR 0x0A] s then invalid_type ''body must not smuggle headers''
          else if py_startswith (py_lower (py_strip s)) ''file:'' then invalid_type ''body must not be a filesystem source''
          else None
        | _ \<Rightarrow> invalid_type ''body must be a string''))"

definition method_issue :: "string \<Rightarrow> json \<Rightarrow> argument_validation_issue option" where
  "method_issue action_id value = (case value of
     JStr m \<Rightarrow> if action_id = ''read'' \<and> m \<notin> set ALLOWED_READ_METHODS
         then invalid_type ''read action methods are GET, HEAD, OPTIONS''
       else if action_id = ''mutate'' \<and> m \<notin> set ALLOWED_MUTATE_METHODS
         then invalid_type ''mutate action methods are POST, PUT, PATCH, DELETE''
       else None
   | _ \<Rightarrow> invalid_type ''method must be a string'')"

definition or_issue ::
    "argument_validation_issue option \<Rightarrow> value_error + argument_validation_issue option \<Rightarrow> value_error + argument_validation_issue option" where
  "or_issue first rest = (case first of None \<Rightarrow> rest | Some i \<Rightarrow> Inr (Some i))"

definition validate_http_transaction_arguments ::
    "(string \<Rightarrow> bool) \<Rightarrow> string \<Rightarrow> payload \<Rightarrow> value_error + argument_validation_issue option" where
  "validate_http_transaction_arguments brackets action_id arguments =
     or_issue (method_issue action_id (jget arguments ''method''))
    (or_issue (path_value_issue (jget arguments ''path''))
    (bindE (origin_issue brackets (jget arguments ''authorized_origin'')) (\<lambda>found. or_issue found
    (Inr (first_issue
      [(case object_or_empty (jget arguments ''headers'') of None \<Rightarrow> invalid_type ''headers must be an object''
        | Some headers \<Rightarrow> headers_issue headers),
       (case object_or_empty (jget arguments ''query'') of None \<Rightarrow> invalid_type ''query must be an object''
        | Some query \<Rightarrow> query_issue query),
       body_issue action_id (jget arguments ''body''),
       session_ref_issue arguments])))))"

section \<open>Authentication\<close>

definition LOGIN_TEXT_ARGUMENTS :: "string list" where
  "LOGIN_TEXT_ARGUMENTS = [''username'', ''username_field'', ''password_secret_name'', ''session_cookie_name'', ''session_context_id'']"

definition validate_http_authentication_arguments ::
    "(string \<Rightarrow> bool) \<Rightarrow> string \<Rightarrow> payload \<Rightarrow> value_error + argument_validation_issue option" where
  "validate_http_authentication_arguments brackets action_id arguments =
     or_issue (if action_id \<noteq> ''login'' then Some (issue ''UNKNOWN_ACTION'' ''http.authentication supports login only'') else None)
    (bindE (origin_issue brackets (jget arguments ''authorized_origin'')) (\<lambda>found. or_issue found
    (Inr (first_issue
      (path_value_issue (jget arguments ''path'')
       # map (\<lambda>name. text_issue (jget arguments name) (name @ '' must be a string'') (name @ '' must not contain CRLF''))
           LOGIN_TEXT_ARGUMENTS
       @ [(if jget arguments ''identity_id'' = JNull then None
           else text_issue (jget arguments ''identity_id'') ''identity_id must be a string'' ''identity_id must not contain CRLF''),
          (if ''headers'' \<in> set (map fst arguments) then unexpected ''login must not include caller headers'' else None),
          (if ''cookie'' \<in> set (map (py_lower \<circ> fst) arguments) then unexpected ''raw cookie material is not allowed'' else None),
          (if ''authorization'' \<in> set (map (py_lower \<circ> fst) arguments)
           then unexpected ''raw authorization material is not allowed'' else None)])))))"

section \<open>Browser pages\<close>

definition INTERACT_KINDS :: "string list" where "INTERACT_KINDS = [''click'', ''fill'', ''select'', ''submit'']"

definition BROWSER_PAGE_MAX_NETWORK_REQUESTS :: int where "BROWSER_PAGE_MAX_NETWORK_REQUESTS = 16"

definition FORBIDDEN_VALUE_TOKENS :: "string list" where
  "FORBIDDEN_VALUE_TOKENS = [''cookie'', ''set-cookie'', ''authorization'', ''proxy-authorization'', ''password'', ''token'',
     ''secret'', ''bearer'']"

definition FORBIDDEN_SELECTORS :: "string list" where
  "FORBIDDEN_SELECTORS = [''css='', ''xpath='', ''//'', ''>>'', ''document.query'', ''javascript:'']"

definition fill_issue :: "json \<Rightarrow> argument_validation_issue option" where
  "fill_issue value = (case value of
     JStr v \<Rightarrow> if has_crlf v then invalid_type ''value must not contain CRLF''
       else if list_ex (\<lambda>t. py_contains t (py_lower v)) FORBIDDEN_VALUE_TOKENS
       then unexpected ''secret or credential material is not allowed''
       else if list_ex (\<lambda>t. py_contains t (py_lower v)) FORBIDDEN_SELECTORS
       then unexpected ''arbitrary selector or JavaScript is not allowed'' else None
   | _ \<Rightarrow> invalid_type ''fill/select requires a string value'')"

definition interact_issue :: "payload \<Rightarrow> argument_validation_issue option" where
  "interact_issue arguments = (case jget arguments ''kind'' of
     JStr kind \<Rightarrow>
       if kind \<notin> set INTERACT_KINDS then invalid_type ''interact kind is invalid''
       else first_issue
         (map (\<lambda>name. text_issue (jget arguments name) (name @ '' is required'') (name @ '' must not contain CRLF''))
            [''browser_context_reference'', ''page_reference'', ''element_reference'', ''snapshot_fingerprint'']
          @ [if kind \<in> {''fill'', ''select''} then fill_issue (jget arguments ''value'')
             else if jget arguments ''value'' \<noteq> JNull then unexpected ''click/submit must not include a value'' else None])
   | _ \<Rightarrow> invalid_type ''interact kind is invalid'')"

definition validate_browser_page_arguments ::
    "(string \<Rightarrow> bool) \<Rightarrow> string \<Rightarrow> payload \<Rightarrow> value_error + argument_validation_issue option" where
  "validate_browser_page_arguments brackets action_id arguments =
     bindE (origin_issue brackets (jget arguments ''authorized_origin'')) (\<lambda>found. or_issue found
    (Inr (first_issue
      [path_value_issue (jget arguments ''path''),
       (if list_ex (\<lambda>k. py_lower k \<in> {''selector'', ''css'', ''xpath'', ''javascript'', ''script''}) (map fst arguments)
        then unexpected ''arbitrary selector or JavaScript is not allowed'' else None),
       session_ref_issue arguments,
       (if action_id = ''interact'' then interact_issue arguments
        else if action_id \<in> {''observe'', ''navigate''}
        then (if list_ex (\<lambda>k. k \<in> set (map fst arguments)) [''kind'', ''value'', ''element_reference'']
          then unexpected ''action cannot carry interact fields'' else None)
        else Some (issue ''UNKNOWN_ACTION'' ''browser.page action is unknown''))])))"

text \<open>\<open>extra_argument_validator_for\<close>.\<close>

definition extra_argument_validator_for ::
    "string \<Rightarrow> ((string \<Rightarrow> bool) \<Rightarrow> string \<Rightarrow> payload \<Rightarrow> value_error + argument_validation_issue option) option" where
  "extra_argument_validator_for capability_id =
     (if capability_id = ''http.transaction'' then Some validate_http_transaction_arguments
      else if capability_id = ''http.authentication'' then Some validate_http_authentication_arguments
      else if capability_id = ''browser.page'' then Some validate_browser_page_arguments else None)"

section \<open>What an accepted origin and path look like\<close>

lemma path_issue_None: "path_issue p = None \<longleftrightarrow>
    py_startswith p ''/'' \<and> \<not> has_crlf p \<and> CHR 0x5C \<notin> set p \<and> \<not> py_contains ''//'' p \<and> \<not> py_contains ''/../'' p
    \<and> \<not> py_contains ''/./'' p \<and> \<not> py_endswith p ''/..'' \<and> \<not> py_endswith p ''/.''
    \<and> \<not> (CHR ''%'' \<in> set p \<and> (py_contains ''%2f'' (py_lower p) \<or> py_contains ''%2e'' (py_lower p)))"
proof -
  have "py_contains ''//'' p" if "py_startswith p ''//''" using that by (auto simp: py_startswith_iff py_contains_iff)
  moreover have "py_contains ''//'' p" if "py_contains ''://'' p"
    using that unfolding py_contains_iff by (metis append_Cons append_Nil append_assoc)
  ultimately show ?thesis by (auto simp: path_issue_def)
qed

lemma origin_issue_None:
  assumes "origin_issue brackets value = Inr None"
  obtains origin parsed where "value = JStr origin" "\<not> blank origin" "\<not> has_crlf origin"
    "urlsplit brackets (py_strip origin) = Inr parsed" "spl_path parsed \<in> {[], ''/''}" "spl_query parsed = []"
    "spl_fragment parsed = []"
  using assms by (auto simp: origin_issue_def bindE_Inr_iff split: json.splits if_splits)

lemma transaction_accepted:
  assumes "validate_http_transaction_arguments brackets action_id arguments = Inr None"
  obtains origin path parsed where
    "jget arguments ''authorized_origin'' = JStr origin" "jget arguments ''path'' = JStr path"
    "path_issue path = None" "urlsplit brackets (py_strip origin) = Inr parsed" "spl_path parsed \<in> {[], ''/''}"
    "\<not> has_crlf origin" "\<not> blank origin"
  using assms by (auto simp: validate_http_transaction_arguments_def or_issue_def path_value_issue_def bindE_Inr_iff
      split: option.splits json.splits elim!: origin_issue_None)

end
