(* ===== verification/Http_Authorization.thy ===== *)
theory Http_Authorization
  imports Program_Context Argument_Policy
begin

text \<open>
  Scope authorization of the HTTP and browser capabilities
  (\<open>application/http_transaction_authorization.py\<close>), and the request a worker builds from an authorized
  transaction (\<open>worker_runtime/python/http_transaction.py\<close>), up to the connection it opens.
\<close>

section \<open>Capabilities\<close>

definition HTTP_AUTHORIZATION_DIFFERENTIAL_CAPABILITY :: string where
  "HTTP_AUTHORIZATION_DIFFERENTIAL_CAPABILITY = ''http.authorization.differential''"
definition HTTP_STATE_TRANSITION_CAPABILITY :: string where "HTTP_STATE_TRANSITION_CAPABILITY = ''http.state_transition''"
definition HTTP_TRANSACTION_CAPABILITY :: string where "HTTP_TRANSACTION_CAPABILITY = ''http.transaction''"
definition HTTP_AUTHENTICATION_CAPABILITY :: string where "HTTP_AUTHENTICATION_CAPABILITY = ''http.authentication''"
definition BROWSER_PAGE_CAPABILITY :: string where "BROWSER_PAGE_CAPABILITY = ''browser.page''"

lemmas capability_ids = HTTP_AUTHORIZATION_DIFFERENTIAL_CAPABILITY_def HTTP_STATE_TRANSITION_CAPABILITY_def
  HTTP_TRANSACTION_CAPABILITY_def HTTP_AUTHENTICATION_CAPABILITY_def BROWSER_PAGE_CAPABILITY_def

definition HTTP_SCOPE_CAPABILITIES :: "string list" where
  "HTTP_SCOPE_CAPABILITIES = [HTTP_TRANSACTION_CAPABILITY, HTTP_AUTHENTICATION_CAPABILITY, BROWSER_PAGE_CAPABILITY,
     HTTP_AUTHORIZATION_DIFFERENTIAL_CAPABILITY, HTTP_STATE_TRANSITION_CAPABILITY]"

section \<open>Authorizing the destination\<close>

record http_scope_decision =
  hsd_accepted :: bool
  hsd_reason_code :: "reason_code option"
  hsd_input_rejected :: bool
  hsd_scope_check :: "scope_check option"
  hsd_envelope :: "authorized_network_envelope option"

definition scope_refused :: "reason_code option \<Rightarrow> bool \<Rightarrow> scope_check option \<Rightarrow> http_scope_decision" where
  "scope_refused reason input_rejected check = \<lparr>hsd_accepted = False, hsd_reason_code = reason,
     hsd_input_rejected = input_rejected, hsd_scope_check = check, hsd_envelope = None\<rparr>"

text \<open>The issue that names the session reference and the type issues reject the input; the last line is the rest.\<close>

definition from_argument_issue :: "argument_validation_issue \<Rightarrow> http_scope_decision" where
  "from_argument_issue i =
     (if avi_reason_code i = ''UNEXPECTED_ARGUMENT'' \<and> py_contains ''session_context_reference'' (avi_message i)
      then scope_refused (Some RC_SCHEMA_MISMATCH) True None
      else if avi_reason_code i \<in> {''INVALID_ARGUMENT_TYPE'', ''UNEXPECTED_ARGUMENT'', ''MISSING_REQUIRED_ARGUMENT''}
      then scope_refused (Some RC_SCHEMA_MISMATCH) True None
      else scope_refused (Some RC_SCHEMA_MISMATCH) False None)"

text \<open>The string functions of the standard library that the scope code is given.\<close>

record url_library =
  ul_brackets :: "string \<Rightarrow> bool"
  ul_ipv6 :: "string \<Rightarrow> string option"
  ul_idna :: "string \<Rightarrow> string option"

abbreviation normalized :: "url_library \<Rightarrow> string \<Rightarrow> scope_candidate" where
  "normalized lib \<equiv> normalize_url (ul_brackets lib) (ul_ipv6 lib) (ul_idna lib)"

fun value_failed :: "value_error \<Rightarrow> app_error" where
  "value_failed (PyValue m) = AppValueError m"

definition request_url :: "url_library \<Rightarrow> string \<Rightarrow> string \<Rightarrow> app_error + string" where
  "request_url lib origin path =
     bindE (mapErr value_failed (urlsplit (ul_brackets lib) origin)) (\<lambda>parsed.
     if spl_path parsed \<notin> {[], ''/''} then Inr (if py_startswith path ''/'' then origin @ path else origin @ ''/'' @ path)
     else Inr (origin @ path))"

definition plan_origin :: "payload \<Rightarrow> app_error + string" where
  "plan_origin arguments = (case map_of arguments ''authorized_origin'' of
     None \<Rightarrow> Inl (AppKeyError ''authorized_origin'')
   | Some v \<Rightarrow> Inr (py_rstrip_chars ''/'' (py_strip (py_str v))))"

definition plan_path :: "payload \<Rightarrow> string" where
  "plan_path arguments = py_str (jget_default arguments ''path'' (JStr ''/''))"

definition authorize_origin_path ::
    "url_library \<Rightarrow> int \<Rightarrow> payload \<Rightarrow> compiled_scope option \<Rightarrow> program_policy_view option \<Rightarrow> app_error + http_scope_decision" where
  "authorize_origin_path lib clock arguments compiled_scope program_policy =
     (case compiled_scope of
        None \<Rightarrow> Inr (scope_refused (Some RC_SCOPE_NOT_EXPLICITLY_ALLOWED) False None)
      | Some compiled \<Rightarrow>
          bindE (plan_origin arguments) (\<lambda>origin.
          bindE (request_url lib origin (plan_path arguments)) (\<lambda>url.
          let candidate = normalized lib url; check = evaluate_scope_candidate candidate compiled None clock in
          if sc_decision check = SD_ALLOW
          then bindE (mapErr value_failed (derive_authorized_network_envelope candidate compiled check
                 (derive_loopback_only program_policy (Some compiled)) None)) (\<lambda>envelope.
               Inr \<lparr>hsd_accepted = True, hsd_reason_code = None, hsd_input_rejected = False,
                    hsd_scope_check = Some check, hsd_envelope = envelope\<rparr>)
          else Inr (scope_refused (Some (sc_reason_code check)) False (Some check)))))"

definition after_validation ::
    "value_error + argument_validation_issue option \<Rightarrow> app_error + http_scope_decision \<Rightarrow> app_error + http_scope_decision" where
  "after_validation validated rest = bindE (mapErr value_failed validated) (\<lambda>found.
     case found of Some i \<Rightarrow> Inr (from_argument_issue i) | None \<Rightarrow> rest)"

definition authorize_http_transaction_plan ::
    "url_library \<Rightarrow> int \<Rightarrow> experiment_plan \<Rightarrow> compiled_scope option \<Rightarrow> program_policy_view option
     \<Rightarrow> app_error + http_scope_decision" where
  "authorize_http_transaction_plan lib clock plan compiled_scope program_policy =
     (let capability = ep_required_capability plan; args = ep_arguments plan; action = ep_action plan;
          authorize = authorize_origin_path lib clock args compiled_scope program_policy in
      if capability = HTTP_AUTHENTICATION_CAPABILITY
      then after_validation (validate_http_authentication_arguments (ul_brackets lib) action args) authorize
      else if capability = BROWSER_PAGE_CAPABILITY
      then after_validation (validate_browser_page_arguments (ul_brackets lib) action args) authorize
      else if capability \<in> {HTTP_AUTHORIZATION_DIFFERENTIAL_CAPABILITY, HTTP_STATE_TRANSITION_CAPABILITY} then authorize
      else if capability \<noteq> HTTP_TRANSACTION_CAPABILITY
      then Inr \<lparr>hsd_accepted = True, hsd_reason_code = None, hsd_input_rejected = False, hsd_scope_check = None,
                hsd_envelope = None\<rparr>
      else after_validation (validate_http_transaction_arguments (ul_brackets lib) action args) authorize)"

text \<open>The last rule of an id wins in the dictionary the ids are looked up in.\<close>

definition rule_by_id :: "compiled_scope \<Rightarrow> string \<Rightarrow> compiled_scope_rule option" where
  "rule_by_id compiled i = map_of (map (\<lambda>r. (csr_rule_id r, r)) (rev compiled)) i"

definition scope_evaluation_from_compiled_check :: "scope_check \<Rightarrow> compiled_scope \<Rightarrow> scope_evaluation_input" where
  "scope_evaluation_from_compiled_check check compiled =
     \<lparr>sei_matches = List.map_filter (\<lambda>i. map_option (\<lambda>r. \<lparr>srm_rule_id = csr_rule_id r, srm_effect = csr_effect r,
        srm_matched = True, srm_source_reference = csr_source_reference r\<rparr>) (rule_by_id compiled i)) (sc_matched_rule_ids check),
      sei_ambiguous = (sc_decision check = SD_REQUIRE_HUMAN_REVIEW)\<rparr>"

definition string_pairs :: "payload \<Rightarrow> (string \<times> string) list" where
  "string_pairs query = sort (map (\<lambda>(k, v). (k, py_str v)) query)"

definition http_transaction_request_url :: "url_library \<Rightarrow> payload \<Rightarrow> app_error + string" where
  "http_transaction_request_url lib arguments =
     bindE (plan_origin arguments) (\<lambda>origin.
     bindE (request_url lib origin (plan_path arguments)) (\<lambda>url.
     Inr (case jget arguments ''query'' of
            JObj query \<Rightarrow> if query = [] then url else url @ ''?'' @ urlencode (string_pairs query)
          | _ \<Rightarrow> url)))"

section \<open>The worker's request\<close>

text \<open>A refusal is the status and the error text of the result; \<open>RAISED\<close> is an exception that leaves the executor.\<close>

type_synonym worker_refusal = "string \<times> string"

record http_exchange =
  hx_scheme :: string
  hx_host :: string
  hx_port :: int
  hx_method :: string
  hx_target :: string
  hx_headers :: "(string \<times> string) list"
  hx_body :: "string option"
  hx_max_response_bytes :: int
  hx_timeout_ms :: int

definition blocked :: "string \<Rightarrow> worker_refusal" where "blocked m = (''BLOCKED'', m)"
definition failed :: "string \<Rightarrow> worker_refusal" where "failed m = (''EXECUTION_FAILED'', m)"

definition ALLOWED_REQUEST_HEADERS :: "string list" where
  "ALLOWED_REQUEST_HEADERS = [''user-agent'', ''accept'', ''accept-language'', ''content-type'', ''x-request-id'']"

text \<open>\<open>headers[name] = value\<close>.\<close>

fun dict_set :: "'k \<Rightarrow> 'v \<Rightarrow> ('k \<times> 'v) list \<Rightarrow> ('k \<times> 'v) list" where
  "dict_set k v [] = [(k, v)]"
| "dict_set k v ((k', v') # kvs) = (if k' = k then (k, v) # kvs else (k', v') # dict_set k v kvs)"

text \<open>The session cookie that a session reference requires.\<close>

definition session_cookie_for :: "payload \<Rightarrow> payload \<Rightarrow> worker_refusal + string option" where
  "session_cookie_for request arguments = (case jget arguments ''session_context_reference'' of
     JNull \<Rightarrow> Inr None
   | JStr session_ref \<Rightarrow>
       (if blank session_ref then Inl (blocked ''session_context_reference is invalid'')
        else (case jget request ''resolved_secret_values'' of
          JObj resolved \<Rightarrow> (case jget resolved ''session_cookie'' of
              JStr cookie \<Rightarrow> (let lowered = py_lower (py_strip cookie) in
                if has_crlf cookie \<or> py_startswith lowered ''authorization:'' \<or> py_startswith lowered ''cookie:''
                then Inl (blocked ''session material is invalid'') else Inr (Some cookie))
            | _ \<Rightarrow> Inl (blocked ''session material is unavailable''))
        | _ \<Rightarrow> Inl (blocked ''session material is unavailable'')))
   | _ \<Rightarrow> Inl (blocked ''session_context_reference is invalid''))"

definition reject_origin :: "(string \<Rightarrow> bool) \<Rightarrow> string \<Rightarrow> worker_refusal + unit" where
  "reject_origin brackets origin = (case urlsplit brackets origin of
     Inl _ \<Rightarrow> Inl (''RAISED'', ''ValueError'')
   | Inr parsed \<Rightarrow>
       if spl_scheme parsed \<notin> {''http'', ''https''} then Inl (blocked ''scheme must be http or https'')
       else if spl_username parsed \<notin> {None, Some []} \<or> spl_password parsed \<notin> {None, Some []}
       then Inl (blocked ''userinfo is not allowed'')
       else if spl_path parsed \<notin> {[], ''/''} then Inl (blocked ''authorized_origin must not include a path'')
       else if spl_query parsed \<noteq> [] \<or> spl_fragment parsed \<noteq> []
       then Inl (blocked ''authorized_origin must not include query or fragment'')
       else Inr ())"

fun add_headers :: "payload \<Rightarrow> (string \<times> string) list \<Rightarrow> worker_refusal + (string \<times> string) list" where
  "add_headers [] hs = Inr hs"
| "add_headers ((name, value) # rest) hs = (case value of
     JStr v \<Rightarrow>
       if has_crlf name \<or> has_crlf v then Inl (blocked ''headers must not contain CRLF'')
       else if length name > 64 \<or> length v > 128 then Inl (blocked ''header exceeds bound'')
       else if py_lower name \<in> set FORBIDDEN_REQUEST_HEADERS then Inl (blocked ''header is not allowed'')
       else if py_lower name \<notin> set ALLOWED_REQUEST_HEADERS then Inl (blocked ''header is not allowed'')
       else if \<not> list_all (\<lambda>c. is_alnum c \<or> c = CHR ''-'') name then Inl (blocked ''header name is invalid'')
       else add_headers rest (dict_set name v hs)
   | _ \<Rightarrow> Inl (blocked ''header names and values must be strings''))"

definition request_headers :: "payload \<Rightarrow> worker_refusal + (string \<times> string) list" where
  "request_headers arguments = (case object_or_empty (jget arguments ''headers'') of
     None \<Rightarrow> Inl (blocked ''headers must be an object'')
   | Some headers_in \<Rightarrow>
       if length headers_in > 8 then Inl (blocked ''header count exceeds bound'')
       else bindE (add_headers headers_in [(''Accept'', ''application/json''), (''Connection'', ''close'')]) (\<lambda>hs.
         case jget arguments ''content_type'' of
           JNull \<Rightarrow> Inr hs
         | JStr content_type \<Rightarrow> if has_crlf content_type then Inl (blocked ''content_type is invalid'')
             else Inr (dict_set ''Content-Type'' content_type hs)
         | _ \<Rightarrow> Inl (blocked ''content_type is invalid'')))"

fun query_pairs :: "payload \<Rightarrow> worker_refusal + (string \<times> string) list" where
  "query_pairs [] = Inr []"
| "query_pairs ((k, v) # rest) = (case v of
     JStr s \<Rightarrow> if has_crlf k \<or> has_crlf s then Inl (blocked ''query must not contain CRLF'')
       else bindE (query_pairs rest) (\<lambda>ps. Inr ((k, s) # ps))
   | _ \<Rightarrow> Inl (blocked ''query keys and values must be strings''))"

definition query_string :: "json \<Rightarrow> worker_refusal + string" where
  "query_string value = (case object_or_empty value of None \<Rightarrow> Inl (blocked ''query must be an object'')
   | Some query \<Rightarrow> bindE (query_pairs query) (\<lambda>pairs. Inr (urlencode (sort pairs))))"

definition request_body :: "string \<Rightarrow> json \<Rightarrow> worker_refusal + string option" where
  "request_body action body = (case body of
     JNull \<Rightarrow> Inr None
   | JStr s \<Rightarrow>
       if action = ''read'' then Inl (blocked ''read action must not include a body'')
       else if py_startswith (py_lower (py_strip s)) ''file:'' then Inl (blocked ''body must not be a filesystem source'')
       else if length (utf8 s) > 4096 then Inl (blocked ''body exceeds bound'')
       else Inr (Some (utf8 s))
   | _ \<Rightarrow> Inl (if action = ''read'' then blocked ''read action must not include a body'' else blocked ''body must be a string''))"

text \<open>\<open>arguments.get(name) or default\<close>, a positive integer; Python counts a boolean as one.\<close>

definition positive_int :: "json \<Rightarrow> int option" where
  "positive_int value = (case value of JInt n \<Rightarrow> if 1 \<le> n then Some n else None
     | JBool b \<Rightarrow> if b then Some 1 else None | _ \<Rightarrow> None)"

definition response_bound :: "payload \<Rightarrow> worker_refusal + int" where
  "response_bound arguments = (let v = jget arguments ''max_response_bytes'' in
     if \<not> truthy v then Inr 4096
     else (case positive_int v of None \<Rightarrow> Inl (failed ''max_response_bytes is invalid'') | Some n \<Rightarrow> Inr (min n 1048576)))"

definition timeout_bound :: "payload \<Rightarrow> worker_refusal + int" where
  "timeout_bound arguments = (let v = jget arguments ''timeout_ms'' in
     if v = JNull then Inr 2000
     else (case positive_int v of None \<Rightarrow> Inl (failed ''timeout_ms is invalid'') | Some n \<Rightarrow> Inr (min n 10000)))"

text \<open>
  The connection and the request line of \<open>_exchange\<close>.  \<open>http.client\<close> refuses a target with a character
  up to the space or with DEL, and one outside ASCII; a port of zero is replaced by the default.
\<close>

definition bad_target :: "string \<Rightarrow> bool" where
  "bad_target t = list_ex (\<lambda>c. let n = (of_char c :: nat) in n \<le> 32 \<or> 127 \<le> n) t"

definition scheme_port :: "string \<Rightarrow> int" where
  "scheme_port scheme = (if scheme = ''https'' then 443 else 80)"

definition open_exchange ::
    "(string \<Rightarrow> bool) \<Rightarrow> string \<Rightarrow> string \<Rightarrow> string \<Rightarrow> worker_refusal + string \<times> string \<times> int \<times> string" where
  "open_exchange brackets origin method request_path = (case urlsplit brackets origin of
     Inl _ \<Rightarrow> Inl (failed ''ValueError'')
   | Inr parsed \<Rightarrow>
       if spl_scheme parsed \<notin> {''http'', ''https''} then Inl (blocked ''non-loopback HTTP(S) is blocked'')
       else (case (spl_hostname parsed, spl_port parsed) of
          (Some host, Inr port) \<Rightarrow>
            if bad_target request_path then Inl (failed ''InvalidURL'')
            else Inr (spl_scheme parsed, host,
              (case port of None \<Rightarrow> scheme_port (spl_scheme parsed)
               | Some p \<Rightarrow> if p = 0 then scheme_port (spl_scheme parsed) else p), request_path)
        | _ \<Rightarrow> Inl (failed ''ValueError'')))"

definition with_query :: "string \<Rightarrow> string \<Rightarrow> string" where
  "with_query path query = (if query = [] then path else path @ ''?'' @ query)"

definition transaction_exchange ::
    "(string \<Rightarrow> bool) \<Rightarrow> payload \<Rightarrow> payload \<Rightarrow> browser_network_envelope \<Rightarrow> string \<Rightarrow> string \<Rightarrow> string \<Rightarrow> string option
     \<Rightarrow> worker_refusal + http_exchange" where
  "transaction_exchange brackets request arguments envelope origin method path cookie =
     (let origin = py_rstrip_chars ''/'' (py_strip origin); method = py_upper (py_strip method);
          action = (case jget request ''action'' of JStr a \<Rightarrow> a | _ \<Rightarrow> []) in
      case path_issue path of Some i \<Rightarrow> Inl (blocked (avi_message i))
      | None \<Rightarrow>
      bindE (reject_origin brackets origin) (\<lambda>_.
      if action \<notin> {''read'', ''mutate''}
        \<or> method \<notin> set (if action = ''read'' then ALLOWED_READ_METHODS else ALLOWED_MUTATE_METHODS)
      then Inl (blocked ''method is not allowed for this action'')
      else bindE (request_headers arguments) (\<lambda>headers.
      let headers = (case cookie of None \<Rightarrow> headers | Some c \<Rightarrow> dict_set ''Cookie'' c headers) in
      bindE (query_string (jget arguments ''query'')) (\<lambda>query.
      bindE (request_body action (jget arguments ''body'')) (\<lambda>body.
      bindE (response_bound arguments) (\<lambda>max_bytes.
      bindE (timeout_bound arguments) (\<lambda>timeout.
      let request_path = with_query path query in
      if \<not> fst (envelope_allows brackets envelope (origin @ request_path))
      then Inl (failed ''request is outside authorized network envelope'')
      else bindE (open_exchange brackets origin method request_path) (\<lambda>(scheme, host, port, target).
      Inr \<lparr>hx_scheme = scheme, hx_host = host, hx_port = port, hx_method = method, hx_target = target,
           hx_headers = headers, hx_body = body, hx_max_response_bytes = max_bytes, hx_timeout_ms = timeout\<rparr>))))))))"

definition prepare_http_transaction :: "(string \<Rightarrow> bool) \<Rightarrow> payload \<Rightarrow> worker_refusal + http_exchange" where
  "prepare_http_transaction brackets request = (case jget request ''arguments'' of
     JObj arguments \<Rightarrow> (case parse_envelope (jget request ''network_envelope'') of
        None \<Rightarrow> Inl (failed ''network_envelope is required'')
      | Some envelope \<Rightarrow>
          bindE (session_cookie_for request arguments) (\<lambda>cookie.
          case (jget arguments ''authorized_origin'', jget arguments ''method'', jget arguments ''path'') of
            (JStr origin, JStr method, JStr path) \<Rightarrow>
              if blank origin \<or> blank method \<or> blank path
              then Inl (failed ''authorized_origin, method, and path are required'')
              else transaction_exchange brackets request arguments envelope origin method path cookie
          | _ \<Rightarrow> Inl (failed ''authorized_origin, method, and path are required'')))
   | _ \<Rightarrow> Inl (failed ''arguments must be an object''))"

section \<open>The request and the decision\<close>

lemma reject_origin_Inr:
  assumes "reject_origin brackets origin = Inr ()"
  obtains parsed where "urlsplit brackets origin = Inr parsed" "spl_scheme parsed \<in> {''http'', ''https''}"
    "spl_path parsed \<in> {[], ''/''}"
  using assms by (auto simp: reject_origin_def split: sum.splits if_splits)

lemma open_exchange_Inr:
  assumes "open_exchange brackets origin method path = Inr (scheme, host, port, target)" "urlsplit brackets origin = Inr parsed"
  obtains p where "spl_scheme parsed = scheme" "scheme \<in> {''http'', ''https''}" "spl_hostname parsed = Some host"
    "spl_port parsed = Inr p" "\<not> bad_target path" "target = path"
    "port = (case p of None \<Rightarrow> scheme_port scheme | Some n \<Rightarrow> if n = 0 then scheme_port scheme else n)"
  using assms by (auto simp: open_exchange_def split: if_splits option.splits sum.splits)

lemma transaction_exchange_Inr:
  assumes "transaction_exchange brackets request arguments envelope origin method path cookie = Inr x"
  obtains query where "path_issue path = None"
    "reject_origin brackets (py_rstrip_chars ''/'' (py_strip origin)) = Inr ()"
    "fst (envelope_allows brackets envelope (py_rstrip_chars ''/'' (py_strip origin) @ with_query path query))"
    "open_exchange brackets (py_rstrip_chars ''/'' (py_strip origin)) (hx_method x) (with_query path query) =
       Inr (hx_scheme x, hx_host x, hx_port x, hx_target x)"
  using assms by (auto simp: transaction_exchange_def bindE_Inr_iff Let_def split: option.splits if_splits prod.splits)

lemma prepare_http_transaction_Inr:
  assumes "prepare_http_transaction brackets request = Inr x" "jget request ''arguments'' = JObj arguments"
    "jget arguments ''authorized_origin'' = JStr origin"
  obtains path query where "jget arguments ''path'' = JStr path" "reject_origin brackets (py_rstrip_chars ''/'' (py_strip origin)) = Inr ()"
    "open_exchange brackets (py_rstrip_chars ''/'' (py_strip origin)) (hx_method x) (with_query path query) =
       Inr (hx_scheme x, hx_host x, hx_port x, hx_target x)"
  using assms
  by (cases "jget arguments ''method''"; cases "jget arguments ''path''")
    (auto simp: prepare_http_transaction_def bindE_Inr_iff split: option.splits if_splits elim!: transaction_exchange_Inr)

lemma from_argument_issue_refuses [simp]: "\<not> hsd_accepted (from_argument_issue i)" "\<not> hsd_accepted (scope_refused a b c)"
  by (simp_all add: from_argument_issue_def scope_refused_def)

lemma after_validation_accepted:
  "after_validation validated rest = Inr d \<Longrightarrow> hsd_accepted d \<Longrightarrow> validated = Inr None \<and> rest = Inr d"
  by (cases validated) (auto simp: after_validation_def split: option.splits dest: from_argument_issue_refuses(1) [THEN notE])

text \<open>Authorizing a transaction: the URL that is normalised is the stripped origin followed by the path.\<close>

lemma authorize_transaction_Inr:
  assumes "authorize_http_transaction_plan lib clock plan (Some compiled) policy = Inr d" "hsd_accepted d"
    "ep_required_capability plan = HTTP_TRANSACTION_CAPABILITY"
    "jget (ep_arguments plan) ''authorized_origin'' = JStr origin"
    "reject_origin (ul_brackets lib) (py_rstrip_chars ''/'' (py_strip origin)) = Inr ()"
  obtains path candidate e where "jget (ep_arguments plan) ''path'' = JStr path" "path_issue path = None"
    "candidate = normalized lib (py_rstrip_chars ''/'' (py_strip origin) @ path)"
    "sc_decision (evaluate_scope_candidate candidate compiled None clock) = SD_ALLOW"
    "derive_authorized_network_envelope candidate compiled (evaluate_scope_candidate candidate compiled None clock)
       (derive_loopback_only policy (Some compiled)) None = Inr e"
proof -
  let ?o = "py_rstrip_chars ''/'' (py_strip origin)" and ?args = "ep_arguments plan"
  have valid: "validate_http_transaction_arguments (ul_brackets lib) (ep_action plan) ?args = Inr None"
    and auth: "authorize_origin_path lib clock ?args (Some compiled) policy = Inr d"
    using assms(1-3) after_validation_accepted
    by (auto simp: authorize_http_transaction_plan_def capability_ids Let_def)
  from valid obtain path where path: "jget ?args ''path'' = JStr path" "path_issue path = None"
    by (rule transaction_accepted)
  have o: "plan_origin ?args = Inr ?o"
    using assms(4) by (auto simp: plan_origin_def jget_def split: option.splits)
  have p: "plan_path ?args = path"
    using path(1) by (auto simp: plan_path_def jget_def jget_default_def split: option.splits)
  obtain parsed where "urlsplit (ul_brackets lib) ?o = Inr parsed" "spl_path parsed \<in> {[], ''/''}"
    using assms(5) by (rule reject_origin_Inr)
  then have url: "request_url lib ?o path = Inr (?o @ path)" by (auto simp: request_url_def)
  have "sc_decision (evaluate_scope_candidate (normalized lib (?o @ path)) compiled None clock) = SD_ALLOW"
    "\<exists>e. derive_authorized_network_envelope (normalized lib (?o @ path)) compiled
       (evaluate_scope_candidate (normalized lib (?o @ path)) compiled None clock)
       (derive_loopback_only policy (Some compiled)) None = Inr e"
    using auth assms(2) by (auto simp: authorize_origin_path_def o p url bindE_Inr_iff Let_def split: if_splits)
  then show thesis using path that by blast
qed

lemma hostname_port_update [simp]:
  "spl_hostname (r\<lparr>spl_path := p, spl_query := q, spl_fragment := f\<rparr>) = spl_hostname r"
  "spl_port (r\<lparr>spl_path := p, spl_query := q, spl_fragment := f\<rparr>) = spl_port r"
  by (simp_all add: spl_hostname_def spl_port_def hostinfo_def)

lemma scope_match_path_no_double: "scope_match_path p = Inr q \<Longrightarrow> \<not> py_contains ''//'' p"
  by (auto simp: scope_match_path_def split: if_splits)

text \<open>
  C13. The request line a worker sends for an authorized transaction names what Core allowed: the
  scheme, host and port it connects to and the path of the target are those of a candidate that the
  compiled scope allows, as long as the authorized origin contains no question mark and no hash sign.
\<close>

theorem transaction_sends_what_core_allowed:
  assumes "authorize_http_transaction_plan lib clock plan (Some compiled) policy = Inr d" "hsd_accepted d"
    and "ep_required_capability plan = HTTP_TRANSACTION_CAPABILITY"
    and "jget (ep_arguments plan) ''authorized_origin'' = JStr origin"
    and "CHR ''?'' \<notin> set origin" "CHR 0x23 \<notin> set origin"
    and "jget request ''arguments'' = JObj (ep_arguments plan)"
    and "prepare_http_transaction (ul_brackets lib) request = Inr x"
  shows "\<exists>candidate host path rest.
    sc_decision (evaluate_scope_candidate candidate compiled None clock) = SD_ALLOW
    \<and> scn_normalized_scheme candidate = Some (hx_scheme x) \<and> scn_normalized_host candidate = Some host
    \<and> canonical_host (ul_ipv6 lib) (ul_idna lib) (hx_host x) = Inr host
    \<and> scn_normalized_port candidate = Some (hx_port x) \<and> scn_scope_match_path candidate = Some path
    \<and> hx_target x = path @ rest \<and> (rest = [] \<or> hd rest \<in> {CHR ''?'', CHR 0x23})"
proof -
  let ?o = "py_rstrip_chars ''/'' (py_strip origin)"
  have no: "CHR ''?'' \<notin> set ?o" "CHR 0x23 \<notin> set ?o"
    using assms(5,6) set_py_strip [of origin] by (auto simp: py_rstrip_chars_def dest!: set_dropWhileD)
  obtain path query where p: "jget (ep_arguments plan) ''path'' = JStr path"
    and reject: "reject_origin (ul_brackets lib) ?o = Inr ()"
    and x: "open_exchange (ul_brackets lib) ?o (hx_method x) (with_query path query) =
       Inr (hx_scheme x, hx_host x, hx_port x, hx_target x)"
    using prepare_http_transaction_Inr [OF assms(8,7,4)] by blast
  obtain candidate e where path: "path_issue path = None" and c: "candidate = normalized lib (?o @ path)"
    and allow: "sc_decision (evaluate_scope_candidate candidate compiled None clock) = SD_ALLOW"
    and derive: "derive_authorized_network_envelope candidate compiled (evaluate_scope_candidate candidate compiled None clock)
       (derive_loopback_only policy (Some compiled)) None = Inr e"
    using authorize_transaction_Inr [OF assms(1-4) reject] p by (metis json.inject(3))
  obtain parsed where parsed: "urlsplit (ul_brackets lib) ?o = Inr parsed" "spl_path parsed \<in> {[], ''/''}"
    using reject by (rule reject_origin_Inr)
  from x parsed(1) obtain port where xo: "spl_scheme parsed = hx_scheme x" "hx_scheme x \<in> {''http'', ''https''}"
      "spl_hostname parsed = Some (hx_host x)" "spl_port parsed = Inr port" "\<not> bad_target (with_query path query)"
      "hx_target x = with_query path query"
      "hx_port x = (case port of None \<Rightarrow> scheme_port (hx_scheme x) | Some n \<Rightarrow> if n = 0 then scheme_port (hx_scheme x) else n)"
    by (rule open_exchange_Inr)
  obtain p' where p': "path = CHR ''/'' # p'" using path by (auto simp: path_issue_None py_startswith_iff)
  obtain pa q f where t: "split_target path = (pa, q, f)" by (cases "split_target path")
  have url: "urlsplit (ul_brackets lib) (?o @ path) =
      Inr (parsed\<lparr>spl_path := spl_path parsed @ pa, spl_query := q, spl_fragment := f\<rparr>)"
    using urlsplit_append [OF parsed(1) _ p'] no xo(1-3) hostname_netloc t by (auto simp: bare_origin_def)
  have clean: "scn_normalization_error candidate = None" using allow by (rule allowed_candidate_clean)
  obtain parts host default_port where n: "urlsplit (ul_brackets lib) (?o @ path) = Inr parts"
      "map_of DEFAULT_PORTS (py_lower (spl_scheme parts)) = Some default_port"
      "canonical_host (ul_ipv6 lib) (ul_idna lib) (hx_host x) = Inr host"
      "scope_match_path (or_root (spl_path parts)) = Inr (or_root (spl_path parts))"
      "candidate = \<lparr>scn_raw_target = ?o @ path, scn_normalized_scheme = Some (py_lower (spl_scheme parts)),
       scn_normalized_host = Some host, scn_normalized_port = Some (case port of None \<Rightarrow> default_port | Some p \<Rightarrow> p),
       scn_raw_path = or_root (spl_path parts), scn_scope_match_path = Some (or_root (spl_path parts)),
       scn_normalization_error = None\<rparr>"
    using clean xo(3,4) url unfolding c by (elim normalize_url_clean) simp
  have parts: "parts = parsed\<lparr>spl_path := spl_path parsed @ pa, spl_query := q, spl_fragment := f\<rparr>"
    using n(1) url by simp
  obtain pa' where pa: "pa = CHR ''/'' # pa'" using t p' split_target_slash by blast
  have "\<not> py_contains ''//'' (or_root (spl_path parts))" using n(4) by (rule scope_match_path_no_double)
  then have "spl_path parsed = []"
    using parsed(2) by (auto simp: parts pa or_root_def py_startswith_def)
  then have match: "or_root (spl_path parts) = pa" by (simp add: parts pa or_root_def)
  have scheme: "py_lower (spl_scheme parts) = hx_scheme x" "default_port = scheme_port (hx_scheme x)"
    using n(2) xo(1,2) by (auto simp: parts DEFAULT_PORTS_def scheme_port_def py_lower_def lower_char_def)
  have "port \<noteq> Some 0"
    using derive allow by (auto simp: n(5) derive_authorized_network_envelope_def post_init_envelope_Inr envelope_ok_iff
        bindE_Inr_iff Let_def)
  then have port: "(case port of None \<Rightarrow> default_port | Some p \<Rightarrow> p) = hx_port x"
    by (auto simp: xo(7) scheme split: option.splits)
  have "\<forall>c \<in> set path. \<not> (of_char c :: nat) \<le> 32"
    using xo(5) by (auto simp: bad_target_def list_ex_iff with_query_def Let_def split: if_splits)
  then have "without_breaks path = path" by (force simp: without_breaks_def filter_id_conv)
  then obtain r where r: "path = pa @ r" "r = [] \<or> hd r \<in> {CHR ''?'', CHR 0x23}"
    using split_target_prefix [OF t] by auto
  obtain rest where rest: "hx_target x = pa @ rest" "rest = [] \<or> hd rest \<in> {CHR ''?'', CHR 0x23}"
  proof
    show "hx_target x = pa @ (if query = [] then r else r @ ''?'' @ query)" by (simp add: xo(6) with_query_def r(1))
    show "(if query = [] then r else r @ ''?'' @ query) = []
      \<or> hd (if query = [] then r else r @ ''?'' @ query) \<in> {CHR ''?'', CHR 0x23}"
      using r(2) by (cases r) simp_all
  qed
  show ?thesis
    by (rule exI [of _ candidate], rule exI [of _ host], rule exI [of _ pa], rule exI [of _ rest])
      (use allow rest n(3) in \<open>simp add: n(5) match scheme(1) port\<close>)
qed

text \<open>A shop whose account pages are excluded, and a plan to read one page of it.\<close>

definition no_library :: url_library where
  "no_library = \<lparr>ul_brackets = (\<lambda>_. False), ul_ipv6 = no_codec, ul_idna = no_codec\<rparr>"

definition read_arguments :: "string \<Rightarrow> string \<Rightarrow> payload" where
  "read_arguments origin path = [(''authorized_origin'', JStr origin), (''method'', JStr ''GET''), (''path'', JStr path)]"

definition read_plan :: "string \<Rightarrow> string \<Rightarrow> experiment_plan" where
  "read_plan origin path = \<lparr>ep_hypothesis_id = ''h1'', ep_required_capability = ''http.transaction'', ep_action = ''read'',
     ep_target_reference = ''shop'', ep_side_effect_level = 0, ep_arguments = read_arguments origin path,
     ep_requested_budget_id = ''b1'', ep_expected_observation = ''a page'', ep_disconfirming_observation = ''an error'',
     ep_evaluation_strategy = ''s'', ep_capability_version = None, ep_capability_definition_fingerprint = None\<rparr>"

definition open_policy :: program_policy_view where
  "open_policy = \<lparr>ppv_loopback_fixture = False, ppv_max_response_bytes = 4096, ppv_timeout_ms = 2000,
     ppv_action_policy = [], ppv_rate_limit_profile = None\<rparr>"

definition read_authorized :: "string \<Rightarrow> string \<Rightarrow> app_error + http_scope_decision" where
  "read_authorized origin path = authorize_http_transaction_plan no_library 0 (read_plan origin path) (Some shop_scope) (Some open_policy)"

definition read_request :: "string \<Rightarrow> string \<Rightarrow> payload" where
  "read_request origin path = [(''action'', JStr ''read''), (''arguments'', JObj (read_arguments origin path))]
     @ (case read_authorized origin path of
          Inr d \<Rightarrow> (case hsd_envelope d of Some e \<Rightarrow> [(''network_envelope'', JObj (envelope_to_mapping e))] | None \<Rightarrow> [])
        | Inl _ \<Rightarrow> [])"

definition read_exchange :: "string \<Rightarrow> string \<Rightarrow> worker_refusal + http_exchange" where
  "read_exchange origin path = prepare_http_transaction (\<lambda>_. False) (read_request origin path)"

definition accepted_target :: "string \<Rightarrow> string \<Rightarrow> string option" where
  "accepted_target origin path = (case (read_authorized origin path, read_exchange origin path) of
     (Inr d, Inr x) \<Rightarrow> if hsd_accepted d then Some (hx_target x) else None | _ \<Rightarrow> None)"

lemma read_catalog: "accepted_target ''https://app.shop.example'' ''/catalog'' = Some ''/catalog''"
  by code_simp

theorem transaction_sends_what_core_allowed_witness:
  "\<exists>candidate path rest. sc_decision (evaluate_scope_candidate candidate shop_scope None 0) = SD_ALLOW
    \<and> scn_scope_match_path candidate = Some path \<and> ''/catalog'' = path @ rest"
proof -
  let ?o = "''https://app.shop.example''"
  obtain d x where d: "read_authorized ?o ''/catalog'' = Inr d" "hsd_accepted d"
    and x: "read_exchange ?o ''/catalog'' = Inr x" "hx_target x = ''/catalog''"
    using read_catalog by (auto simp: accepted_target_def split: sum.splits if_splits)
  have plan: "ep_required_capability (read_plan ?o ''/catalog'') = HTTP_TRANSACTION_CAPABILITY"
    "jget (ep_arguments (read_plan ?o ''/catalog'')) ''authorized_origin'' = JStr ?o"
    "jget (read_request ?o ''/catalog'') ''arguments'' = JObj (ep_arguments (read_plan ?o ''/catalog''))"
    by (simp_all add: read_plan_def read_arguments_def read_request_def HTTP_TRANSACTION_CAPABILITY_def jget_def)
  have exchange: "prepare_http_transaction (ul_brackets no_library) (read_request ?o ''/catalog'') = Inr x"
    using x(1) by (simp add: read_exchange_def no_library_def)
  have no: "CHR ''?'' \<notin> set ?o" "CHR 0x23 \<notin> set ?o" by simp_all
  show ?thesis
    using transaction_sends_what_core_allowed [OF d(1) [unfolded read_authorized_def] d(2) plan(1,2) no plan(3) exchange]
    unfolding x(2) by (elim exE conjE) (rule exI, rule exI, rule exI, intro conjI, assumption+)
qed

text \<open>
  With a question mark at the end of the origin, which no check refuses, Core evaluates the root path and
  the worker requests the path of the plan: an excluded page is fetched.
\<close>

lemma excluded_page: "decided_by_core shop_scope ''https://app.shop.example/account'' = SD_DENY"
  by code_simp

lemma escaped_page: "accepted_target ''https://app.shop.example?'' ''/account'' = Some ''/account''"
  by code_simp

lemma origin_query_escapes_exclusion:
  "accepted_target ''https://app.shop.example?'' ''/account'' = Some ''/account''
   \<and> decided_by_core shop_scope ''https://app.shop.example/account'' = SD_DENY"
  using excluded_page escaped_page by blast

end
