(* ===== verification/Secrets.thy ===== *)
theory Secrets
  imports Records Py_Url
begin

text \<open>
  Secret references and their resolution (\<open>platform/secrets.py\<close>), the configured research identities
  (\<open>research/identity_session.py\<close>) and the durable metadata of a session (\<open>data/records.py\<close>).  A secret
  value lives in the environment mapping or in the process-local store, never in a record.
\<close>

section \<open>References and resolutions\<close>

datatype secret_scheme = LOCAL_DEV | ENV_REFERENCE | SESSION_MATERIAL

fun secret_scheme_value :: "secret_scheme \<Rightarrow> string" where
  "secret_scheme_value LOCAL_DEV = ''LOCAL_DEV''"
| "secret_scheme_value ENV_REFERENCE = ''ENV_REFERENCE''"
| "secret_scheme_value SESSION_MATERIAL = ''SESSION_MATERIAL''"

text \<open>\<open>SecretScheme(value)\<close>.\<close>

definition secret_scheme_of :: "string \<Rightarrow> value_error + secret_scheme" where
  "secret_scheme_of s =
     (case find (\<lambda>k. secret_scheme_value k = s) [LOCAL_DEV, ENV_REFERENCE, SESSION_MATERIAL] of
        None \<Rightarrow> Inl (PyValue ''not a valid SecretScheme'') | Some k \<Rightarrow> Inr k)"

datatype secret_resolution_status = RESOLVED | UNAVAILABLE | INVALID_REFERENCE

record secret_reference =
  sref_scheme :: secret_scheme
  sref_name :: string

definition post_init_secret_reference :: "secret_reference \<Rightarrow> value_error + secret_reference" where
  "post_init_secret_reference r =
     (if blank (sref_name r) then Inl (PyValue ''name must be a non-empty string'')
      else Inr (r\<lparr>sref_name := py_strip (sref_name r)\<rparr>))"

definition secret_reference_for :: "secret_scheme \<Rightarrow> string \<Rightarrow> value_error + secret_reference" where
  "secret_reference_for scheme name = post_init_secret_reference \<lparr>sref_scheme = scheme, sref_name = name\<rparr>"

definition reference_to_mapping :: "secret_reference \<Rightarrow> (string \<times> string) list" where
  "reference_to_mapping r = [(''scheme'', secret_scheme_value (sref_scheme r)), (''name'', sref_name r)]"

record secret_resolution =
  sres_status :: secret_resolution_status
  sres_reference :: secret_reference
  sres_value :: "string option"

definition post_init_secret_resolution :: "secret_resolution \<Rightarrow> value_error + secret_resolution" where
  "post_init_secret_resolution r = raise_first
     [(sres_status r \<noteq> RESOLVED \<and> sres_value r \<noteq> None, PyValue ''unavailable secrets must not carry a value''),
      (sres_status r = RESOLVED \<and> (case sres_value r of None \<Rightarrow> True | Some v \<Rightarrow> v = []),
       PyValue ''resolved secret value is required'')] r"

abbreviation resolution :: "secret_resolution_status \<Rightarrow> secret_reference \<Rightarrow> string option \<Rightarrow> value_error + secret_resolution" where
  "resolution status reference v \<equiv>
     post_init_secret_resolution \<lparr>sres_status = status, sres_reference = reference, sres_value = v\<rparr>"

section \<open>Resolvers\<close>

type_synonym environment = "(string \<times> string) list"

definition env_resolve :: "environment \<Rightarrow> secret_reference \<Rightarrow> value_error + secret_resolution" where
  "env_resolve env r =
     (if sref_scheme r \<notin> {ENV_REFERENCE, LOCAL_DEV} then resolution INVALID_REFERENCE r None
      else (case map_of env (sref_name r) of
          None \<Rightarrow> resolution UNAVAILABLE r None
        | Some raw \<Rightarrow> if blank raw then resolution UNAVAILABLE r None else resolution RESOLVED r (Some raw)))"

definition unavailable_resolve :: "secret_reference \<Rightarrow> value_error + secret_resolution" where
  "unavailable_resolve r = resolution UNAVAILABLE r None"

text \<open>The store, a dictionary from (scheme, name) to the value.\<close>

type_synonym secret_store = "((string \<times> string) \<times> string) list"

definition store_key :: "secret_reference \<Rightarrow> string \<times> string" where
  "store_key r = (secret_scheme_value (sref_scheme r), sref_name r)"

definition store_put :: "secret_reference \<Rightarrow> string \<Rightarrow> secret_store \<Rightarrow> value_error + secret_store" where
  "store_put r v s = (if v = [] then Inl (PyValue ''secret value is required'')
     else Inr ((store_key r, v) # filter (\<lambda>(k, _). k \<noteq> store_key r) s))"

definition store_delete :: "secret_reference \<Rightarrow> secret_store \<Rightarrow> secret_store" where
  "store_delete r s = filter (\<lambda>(k, _). k \<noteq> store_key r) s"

definition store_resolve :: "secret_store \<Rightarrow> secret_reference \<Rightarrow> value_error + secret_resolution" where
  "store_resolve s r = (case map_of s (store_key r) of
       None \<Rightarrow> resolution UNAVAILABLE r None
     | Some v \<Rightarrow> if v = [] then resolution UNAVAILABLE r None else resolution RESOLVED r (Some v))"

record composite_secret_port =
  csp_session_store :: secret_store
  csp_env :: environment

definition put_session :: "secret_reference \<Rightarrow> string \<Rightarrow> composite_secret_port \<Rightarrow> value_error + composite_secret_port" where
  "put_session r v p =
     (if sref_scheme r \<noteq> SESSION_MATERIAL
      then Inl (PyValue ''only SESSION_MATERIAL may be stored as session material'')
      else bindE (store_put r v (csp_session_store p)) (\<lambda>s. Inr (p\<lparr>csp_session_store := s\<rparr>)))"

definition delete_session :: "secret_reference \<Rightarrow> composite_secret_port \<Rightarrow> value_error + composite_secret_port" where
  "delete_session r p =
     (if sref_scheme r \<noteq> SESSION_MATERIAL
      then Inl (PyValue ''only SESSION_MATERIAL may be deleted as session material'')
      else Inr (p\<lparr>csp_session_store := store_delete r (csp_session_store p)\<rparr>))"

definition port_resolve :: "composite_secret_port \<Rightarrow> secret_reference \<Rightarrow> value_error + secret_resolution" where
  "port_resolve p r =
     (if sref_scheme r = SESSION_MATERIAL then store_resolve (csp_session_store p) r else env_resolve (csp_env p) r)"

section \<open>The contract of a secret port\<close>

text \<open>A port never raises, and a value comes with the status RESOLVED and is not empty.\<close>

locale secret_resolver =
  fixes resolve :: "secret_reference \<Rightarrow> value_error + secret_resolution"
  assumes total: "\<exists>x. resolve r = Inr x"
    and valued: "resolve r = Inr x \<Longrightarrow> (sres_status x = RESOLVED) = (\<exists>v. sres_value x = Some v \<and> v \<noteq> [])"
    and unresolved: "resolve r = Inr x \<Longrightarrow> sres_status x \<noteq> RESOLVED \<Longrightarrow> sres_value x = None"
    and same_reference: "resolve r = Inr x \<Longrightarrow> sres_reference x = r"
begin

text \<open>The test of the callers: \<open>status is not RESOLVED or value is None\<close>.\<close>

lemma usable: "resolve r = Inr x \<Longrightarrow> \<not> (sres_status x \<noteq> RESOLVED \<or> sres_value x = None) \<Longrightarrow>
    \<exists>v. sres_value x = Some v \<and> v \<noteq> []"
  using valued by blast

lemma unusable_is_none: "resolve r = Inr x \<Longrightarrow> (sres_status x \<noteq> RESOLVED \<or> sres_value x = None) = (sres_value x = None)"
  using valued unresolved by (metis option.distinct(1))

end

lemmas resolution_simps = post_init_secret_resolution_def raise_first.simps

lemma not_blank_not_Nil: "\<not> blank v \<Longrightarrow> v \<noteq> []"
  by (auto simp: blank_def py_strip_def)

interpretation unavailable_port: secret_resolver unavailable_resolve
  by unfold_locales (auto simp: unavailable_resolve_def resolution_simps)

interpretation env_port: secret_resolver "env_resolve env" for env
  by unfold_locales (auto simp: env_resolve_def resolution_simps dest: not_blank_not_Nil split: option.splits if_splits)

interpretation store_port: secret_resolver "store_resolve s" for s
  by unfold_locales (auto simp: store_resolve_def resolution_simps split: option.splits if_splits)

interpretation composite_port: secret_resolver "port_resolve p" for p
proof
  fix r x
  show "\<exists>x. port_resolve p r = Inr x"
    using env_port.total store_port.total by (simp add: port_resolve_def)
  show "port_resolve p r = Inr x \<Longrightarrow> (sres_status x = RESOLVED) = (\<exists>v. sres_value x = Some v \<and> v \<noteq> [])"
    using env_port.valued store_port.valued by (metis port_resolve_def)
  show "port_resolve p r = Inr x \<Longrightarrow> sres_status x \<noteq> RESOLVED \<Longrightarrow> sres_value x = None"
    using env_port.unresolved store_port.unresolved by (metis port_resolve_def)
  show "port_resolve p r = Inr x \<Longrightarrow> sres_reference x = r"
    using env_port.same_reference store_port.same_reference by (metis port_resolve_def)
qed

text \<open>What a caller reads after a write: the value that was put, nothing after a delete, the others unchanged.\<close>

lemma map_of_dropped: "map_of (filter (\<lambda>(k, _). k \<noteq> a) s) b = (if b = a then None else map_of s b)"
  by (induction s) auto

lemma port_resolve_put:
  assumes "put_session r v p = Inr p'"
  shows "port_resolve p' r = resolution RESOLVED r (Some v)"
    and "store_key q \<noteq> store_key r \<Longrightarrow> port_resolve p' q = port_resolve p q"
  using assms
  by (auto simp: put_session_def store_put_def port_resolve_def store_resolve_def bindE_Inr_iff map_of_dropped
      split: if_splits intro!: option.case_cong)

lemma port_resolve_delete:
  assumes "delete_session r p = Inr p'"
  shows "port_resolve p' r = resolution UNAVAILABLE r None"
    and "store_key q \<noteq> store_key r \<Longrightarrow> port_resolve p' q = port_resolve p q"
  using assms
  by (auto simp: delete_session_def store_delete_def port_resolve_def store_resolve_def map_of_dropped
      split: if_splits intro!: option.case_cong)

section \<open>Identities\<close>

definition HTTP_FORM_LOGIN :: string where "HTTP_FORM_LOGIN = ''HTTP_FORM_LOGIN''"

definition ALLOWED_CREDENTIAL_SCHEMES :: "string list" where
  "ALLOWED_CREDENTIAL_SCHEMES = [''LOCAL_DEV'', ''ENV_REFERENCE'']"

datatype session_state = SS_NEW | SS_AUTHENTICATING | SS_ACTIVE | SS_EXPIRED | SS_REVOKED | SS_FAILED

fun session_state_value :: "session_state \<Rightarrow> string" where
  "session_state_value SS_NEW = ''NEW''"
| "session_state_value SS_AUTHENTICATING = ''AUTHENTICATING''"
| "session_state_value SS_ACTIVE = ''ACTIVE''"
| "session_state_value SS_EXPIRED = ''EXPIRED''"
| "session_state_value SS_REVOKED = ''REVOKED''"
| "session_state_value SS_FAILED = ''FAILED''"

record credential_reference =
  crf_scheme :: string
  crf_name :: string

definition post_init_credential_reference :: "credential_reference \<Rightarrow> research_error + credential_reference" where
  "post_init_credential_reference c = raise_first
     [(crf_scheme c \<notin> set ALLOWED_CREDENTIAL_SCHEMES, ResearchInputError ''credential scheme is not supported''),
      (blank (crf_name c), ResearchInputError ''credential name must be a non-empty string'')] c"

record http_form_login_profile =
  hlp_profile_id :: string
  hlp_path :: string
  hlp_username_field :: string
  hlp_password_secret_name :: string
  hlp_session_cookie_name :: string
  hlp_success_status_codes :: "int list"
  hlp_method :: string

definition bad_name :: "string \<Rightarrow> string \<Rightarrow> bool \<times> research_error" where
  "bad_name v f = (blank v, ResearchInputError (nonempty_message f))"

definition post_init_http_form_login_profile :: "http_form_login_profile \<Rightarrow> research_error + http_form_login_profile" where
  "post_init_http_form_login_profile p = raise_first
     [bad_name (hlp_profile_id p) ''profile_id'', bad_name (hlp_path p) ''path'',
      bad_name (hlp_username_field p) ''username_field'', bad_name (hlp_password_secret_name p) ''password_secret_name'',
      bad_name (hlp_session_cookie_name p) ''session_cookie_name'',
      (hlp_method p \<noteq> ''POST'', ResearchInputError ''HTTP form login supports POST only''),
      (\<not> py_startswith (hlp_path p) ''/'' \<or> py_contains ''://'' (hlp_path p) \<or> py_startswith (hlp_path p) ''//'',
       ResearchInputError ''login path is invalid''),
      (hlp_success_status_codes p = [], ResearchInputError ''success_status_codes is required''),
      (list_ex (\<lambda>c. c < 100 \<or> c > 599) (hlp_success_status_codes p),
       ResearchInputError ''success_status_codes must be HTTP statuses'')] p"

record identity =
  idy_identity_id :: string
  idy_actor_reference :: string
  idy_target_reference :: string
  idy_credential_reference :: credential_reference
  idy_authentication_profile_reference :: string
  idy_role_reference :: "string option"

definition post_init_identity :: "identity \<Rightarrow> research_error + identity" where
  "post_init_identity i = raise_first
     [bad_name (idy_identity_id i) ''identity_id'', bad_name (idy_actor_reference i) ''actor_reference'',
      bad_name (idy_target_reference i) ''target_reference'',
      bad_name (idy_authentication_profile_reference i) ''authentication_profile_reference'',
      (case idy_role_reference i of None \<Rightarrow> False | Some r \<Rightarrow> blank r,
       ResearchInputError ''role_reference must be a non-empty string when set'')] i"

definition local_dev_credential :: "string \<Rightarrow> research_error + credential_reference" where
  "local_dev_credential name = post_init_credential_reference \<lparr>crf_scheme = ''LOCAL_DEV'', crf_name = name\<rparr>"

text \<open>The scheme of an accepted credential is one of the secret schemes, and not that of session material.\<close>

lemma credential_scheme:
  "post_init_credential_reference c = Inr c' \<Longrightarrow>
     secret_scheme_of (crf_scheme c') \<in> {Inr LOCAL_DEV, Inr ENV_REFERENCE} \<and> \<not> blank (crf_name c')"
  by (auto simp: post_init_credential_reference_def raise_first_Inr_iff ALLOWED_CREDENTIAL_SCHEMES_def
      secret_scheme_of_def simp del: raise_first.simps)

section \<open>Session metadata\<close>

definition ALLOWED_SESSION_STATES :: "string list" where
  "ALLOWED_SESSION_STATES = [''NEW'', ''AUTHENTICATING'', ''ACTIVE'', ''EXPIRED'', ''REVOKED'', ''FAILED'']"

definition ALLOWED_AUTHENTICATION_METHODS :: "string list" where
  "ALLOWED_AUTHENTICATION_METHODS = [''HTTP_FORM_LOGIN'']"

record session_context_record =
  scr_session_context_id :: string
  scr_research_run_id :: string
  scr_identity_id :: string
  scr_actor_reference :: string
  scr_origin :: string
  scr_authentication_profile_reference :: string
  scr_authentication_method :: string
  scr_secret_scheme :: string
  scr_secret_name :: string
  scr_state :: string
  scr_created_at :: int
  scr_updated_at :: int
  scr_established_at :: "int option"
  scr_expires_at :: "int option"
  scr_session_cookie_name :: "string option"

definition post_init_session_context_record :: "session_context_record \<Rightarrow> persistence_error + session_context_record" where
  "post_init_session_context_record r = raise_first
     [bad_id (scr_session_context_id r) ''session_context_id'', bad_id (scr_research_run_id r) ''research_run_id'',
      bad_id (scr_identity_id r) ''identity_id'', bad_id (scr_actor_reference r) ''actor_reference'',
      bad_id (scr_authentication_profile_reference r) ''authentication_profile_reference'',
      bad_text (scr_origin r) ''origin'',
      bad_member (scr_authentication_method r) ALLOWED_AUTHENTICATION_METHODS ''authentication_method is not supported'',
      bad_text (scr_secret_scheme r) ''secret_scheme'', bad_text (scr_secret_name r) ''secret_name'',
      bad_member (scr_state r) ALLOWED_SESSION_STATES ''state is not a SessionContext state'',
      bad_opt_text (scr_session_cookie_name r) ''session_cookie_name'',
      bad_secrets [(''origin'', JStr (scr_origin r)), (''secret_name'', JStr (scr_secret_name r))] ''session_context''] r"

lemma session_state_values: "session_state_value s \<in> set ALLOWED_SESSION_STATES"
  by (cases s) (simp_all add: ALLOWED_SESSION_STATES_def)

end
