(* ===== verification/Dispatch_Store.thy ===== *)
theory Dispatch_Store
  imports Secrets Program_Context Budget_Ledger
begin

text \<open>
  The persistent state of dispatch: the pipeline's tables, the budget ledger, the program tables, and the
  tables of authorization sources, experiment plans and session contexts, with the repository operations
  dispatch and ingestion use (\<open>data/postgres/repositories.py\<close>, \<open>data/postgres/tables.py\<close>); and the
  durable form of a plan (\<open>application/plan_records.py\<close>, \<open>research/planning.py\<close>).
\<close>

section \<open>Records\<close>

definition ALLOWED_AUTHORIZATION_STATES :: "string list" where
  "ALLOWED_AUTHORIZATION_STATES = [''ACTIVE'', ''EXPIRED'', ''REVOKED'']"

record authorization_source_record =
  asr_authorization_source_id :: string
  asr_program_id :: string
  asr_state :: string
  asr_provenance_reference :: string
  asr_created_at :: int
  asr_effective_from :: "int option"
  asr_effective_until :: "int option"

definition post_init_authorization_source_record ::
    "authorization_source_record \<Rightarrow> persistence_error + authorization_source_record" where
  "post_init_authorization_source_record r = raise_first
     [bad_id (asr_authorization_source_id r) ''authorization_source_id'', bad_id (asr_program_id r) ''program_id'',
      bad_id (asr_provenance_reference r) ''provenance_reference'',
      bad_member (asr_state r) ALLOWED_AUTHORIZATION_STATES ''state must be ACTIVE, EXPIRED, or REVOKED'',
      (case (asr_effective_from r, asr_effective_until r) of (Some a, Some b) \<Rightarrow> b < a | _ \<Rightarrow> False,
       PersistenceInputError ''effective_until must not precede effective_from'')] r"

record experiment_plan_record =
  epr_experiment_id :: string
  epr_research_run_id :: string
  epr_hypothesis_id :: string
  epr_required_capability :: string
  epr_action :: string
  epr_target_reference :: string
  epr_side_effect_level :: int
  epr_arguments :: payload
  epr_requested_budget_id :: string
  epr_expected_observation :: string
  epr_disconfirming_observation :: string
  epr_evaluation_strategy :: string
  epr_created_at :: int
  epr_capability_version :: "string option"
  epr_capability_definition_fingerprint :: "string option"

definition post_init_experiment_plan_record :: "experiment_plan_record \<Rightarrow> persistence_error + experiment_plan_record" where
  "post_init_experiment_plan_record r = raise_first
     [bad_id (epr_experiment_id r) ''experiment_id'', bad_id (epr_research_run_id r) ''research_run_id'',
      bad_id (epr_hypothesis_id r) ''hypothesis_id'', bad_id (epr_required_capability r) ''required_capability'',
      bad_id (epr_action r) ''action'', bad_id (epr_target_reference r) ''target_reference'',
      bad_id (epr_requested_budget_id r) ''requested_budget_id'',
      (epr_side_effect_level r \<notin> {0, 1, 2, 3}, PersistenceInputError ''side_effect_level must be 0, 1, 2, or 3''),
      bad_text (epr_expected_observation r) ''expected_observation'',
      bad_text (epr_disconfirming_observation r) ''disconfirming_observation'',
      bad_text (epr_evaluation_strategy r) ''evaluation_strategy'', bad_secrets (epr_arguments r) ''arguments'',
      bad_opt_id (epr_capability_version r) ''capability_version'',
      bad_opt_id (epr_capability_definition_fingerprint r) ''capability_definition_fingerprint''] r"

section \<open>Plans\<close>

text \<open>A text or \<open>None\<close> in a JSON document.\<close>

definition json_opt_str :: "string option \<Rightarrow> json" where
  "json_opt_str x = (case x of None \<Rightarrow> JNull | Some s \<Rightarrow> JStr s)"

definition plan_canonical_identity :: "experiment_plan \<Rightarrow> string" where
  "plan_canonical_identity p = dumps True (JObj
     [(''hypothesis_id'', JStr (ep_hypothesis_id p)), (''required_capability'', JStr (ep_required_capability p)),
      (''action'', JStr (ep_action p)), (''target_reference'', JStr (ep_target_reference p)),
      (''side_effect_level'', JInt (ep_side_effect_level p)), (''arguments'', JObj (ep_arguments p)),
      (''requested_budget_id'', JStr (ep_requested_budget_id p)),
      (''expected_observation'', JStr (ep_expected_observation p)),
      (''disconfirming_observation'', JStr (ep_disconfirming_observation p)),
      (''evaluation_strategy'', JStr (ep_evaluation_strategy p)),
      (''capability_version'', json_opt_str (ep_capability_version p)),
      (''capability_definition_fingerprint'', json_opt_str (ep_capability_definition_fingerprint p))])"

definition plans_equivalent :: "experiment_plan \<Rightarrow> experiment_plan \<Rightarrow> bool" where
  "plans_equivalent left right = (plan_canonical_identity left = plan_canonical_identity right)"

definition experiment_plan_from_record :: "experiment_plan_record \<Rightarrow> research_error + experiment_plan" where
  "experiment_plan_from_record r = post_init_experiment_plan
     \<lparr>ep_hypothesis_id = epr_hypothesis_id r, ep_required_capability = epr_required_capability r,
      ep_action = epr_action r, ep_target_reference = epr_target_reference r,
      ep_side_effect_level = epr_side_effect_level r, ep_arguments = epr_arguments r,
      ep_requested_budget_id = epr_requested_budget_id r, ep_expected_observation = epr_expected_observation r,
      ep_disconfirming_observation = epr_disconfirming_observation r, ep_evaluation_strategy = epr_evaluation_strategy r,
      ep_capability_version = epr_capability_version r,
      ep_capability_definition_fingerprint = epr_capability_definition_fingerprint r\<rparr>"

definition experiment_plan_record_for ::
    "experiment_record \<Rightarrow> experiment_plan \<Rightarrow> int \<Rightarrow> persistence_error + experiment_plan_record" where
  "experiment_plan_record_for experiment plan created_at = post_init_experiment_plan_record
     \<lparr>epr_experiment_id = xr_experiment_id experiment, epr_research_run_id = xr_research_run_id experiment,
      epr_hypothesis_id = ep_hypothesis_id plan, epr_required_capability = ep_required_capability plan,
      epr_action = ep_action plan, epr_target_reference = ep_target_reference plan,
      epr_side_effect_level = ep_side_effect_level plan, epr_arguments = ep_arguments plan,
      epr_requested_budget_id = ep_requested_budget_id plan, epr_expected_observation = ep_expected_observation plan,
      epr_disconfirming_observation = ep_disconfirming_observation plan,
      epr_evaluation_strategy = ep_evaluation_strategy plan, epr_created_at = created_at,
      epr_capability_version = ep_capability_version plan,
      epr_capability_definition_fingerprint = ep_capability_definition_fingerprint plan\<rparr>"

definition durable_plan_matches :: "experiment_plan_record \<Rightarrow> experiment_plan \<Rightarrow> research_error + bool" where
  "durable_plan_matches r plan =
     bindE (experiment_plan_from_record r) (\<lambda>stored_plan. Inr (plans_equivalent stored_plan plan))"

text \<open>
  Two plans are equivalent exactly when every field agrees and the arguments are equal as JSON values up
  to the order of keys.
\<close>

lemma json_opt_str_inj: "json_opt_str x = json_opt_str y \<longleftrightarrow> x = y"
  by (cases x; cases y) (simp_all add: json_opt_str_def)

lemma canon_json_opt_str [simp]: "canon (json_opt_str x) = json_opt_str x"
  by (cases x) (simp_all add: json_opt_str_def)

lemma assoc_list_eqI:
  assumes keys: "map fst xs = map fst ys" "distinct (map fst xs)" and same: "set xs = set ys"
  shows "xs = ys"
proof -
  have restore: "map (\<lambda>k. (k, the (map_of zs k))) (map fst zs) = zs" if "distinct (map fst zs)" for zs :: "('a \<times> 'b) list"
    using that by (auto intro!: map_idI simp: comp_def)
  have "map_of xs = map_of ys" using keys same map_of_inject_set [of xs ys] by simp
  then show ?thesis using restore [of xs] restore [of ys] keys by simp
qed

lemma canon_object_eq:
  assumes keys: "map fst kvs = map fst kvs'" "distinct (map fst kvs)"
  shows "canon (JObj kvs) = canon (JObj kvs') \<longleftrightarrow> map (canon \<circ> snd) kvs = map (canon \<circ> snd) kvs'"
proof
  let ?c = "map (map_prod id canon)"
  assume "canon (JObj kvs) = canon (JObj kvs')"
  then have "sort_key fst (?c kvs) = sort_key fst (?c kvs')" by simp
  from arg_cong [OF this, of set] have "set (?c kvs) = set (?c kvs')" by simp
  moreover have "map fst (?c kvs) = map fst (?c kvs')" "distinct (map fst (?c kvs))"
    using keys by (simp_all add: comp_def)
  ultimately have "?c kvs = ?c kvs'" by (intro assoc_list_eqI)
  from arg_cong [OF this, of "map snd"] show "map (canon \<circ> snd) kvs = map (canon \<circ> snd) kvs'" by (simp add: comp_def)
next
  assume "map (canon \<circ> snd) kvs = map (canon \<circ> snd) kvs'"
  moreover have "zip (map fst zs) (map (canon \<circ> snd) zs) = map (map_prod id canon) zs" for zs
    by (induction zs) auto
  ultimately have "map (map_prod id canon) kvs = map (map_prod id canon) kvs'" using keys(1) by metis
  then show "canon (JObj kvs) = canon (JObj kvs')" by simp
qed

lemma plans_equivalent_iff:
  "plans_equivalent p q \<longleftrightarrow> canon (JObj (ep_arguments p)) = canon (JObj (ep_arguments q))
     \<and> p\<lparr>ep_arguments := []\<rparr> = q\<lparr>ep_arguments := []\<rparr>"
proof -
  have "plans_equivalent p q \<longleftrightarrow>
      ep_hypothesis_id p = ep_hypothesis_id q \<and> ep_required_capability p = ep_required_capability q \<and>
      ep_action p = ep_action q \<and> ep_target_reference p = ep_target_reference q \<and>
      ep_side_effect_level p = ep_side_effect_level q \<and> canon (JObj (ep_arguments p)) = canon (JObj (ep_arguments q)) \<and>
      ep_requested_budget_id p = ep_requested_budget_id q \<and> ep_expected_observation p = ep_expected_observation q \<and>
      ep_disconfirming_observation p = ep_disconfirming_observation q \<and>
      ep_evaluation_strategy p = ep_evaluation_strategy q \<and> ep_capability_version p = ep_capability_version q \<and>
      ep_capability_definition_fingerprint p = ep_capability_definition_fingerprint q"
    unfolding plans_equivalent_def plan_canonical_identity_def dumps_eq_iff
    by (subst canon_object_eq) (simp_all add: json_opt_str_inj del: canon.simps(6))
  then show ?thesis by (cases p; cases q) auto
qed

lemma plans_equivalent_refl [simp]: "plans_equivalent p p"
  by (simp add: plans_equivalent_def)

section \<open>Tables\<close>

record dispatch_db =
  dd_store :: db
  dd_budgets :: budget_db
  dd_programs :: program_db
  dd_sources :: "authorization_source_record list"
  dd_plans :: "experiment_plan_record list"
  dd_sessions :: "session_context_record list"

definition in_store :: "(db \<Rightarrow> persistence_error + db) \<Rightarrow> dispatch_db \<Rightarrow> persistence_error + dispatch_db" where
  "in_store f d = bindE (f (dd_store d)) (\<lambda>s. Inr (d\<lparr>dd_store := s\<rparr>))"

text \<open>
  The run table and the budget table are referenced from rows of several parts; the run table is held
  with the pipeline and with the ledger, and neither dispatch nor ingestion writes it.
\<close>

definition has_experiment :: "string \<Rightarrow> string \<Rightarrow> dispatch_db \<Rightarrow> bool" where
  "has_experiment x run d =
     has_key (\<lambda>r. (xr_experiment_id r, xr_research_run_id r)) (x, run) (db_experiments (dd_store d))"

definition has_budget :: "string \<Rightarrow> string \<Rightarrow> dispatch_db \<Rightarrow> bool" where
  "has_budget b run d =
     has_key (\<lambda>r. (ibr_budget_id r, ibr_research_run_id r)) (b, Some run) (bd_issued_budgets (dd_budgets d))"

definition get_research_run :: "string \<Rightarrow> dispatch_db \<Rightarrow> persistence_error + research_run_record option" where
  "get_research_run i d = fetch_one rr_research_run_id ''research_run_id'' (db_research_runs (dd_store d)) i"

definition get_hypothesis :: "string \<Rightarrow> dispatch_db \<Rightarrow> persistence_error + hypothesis_record option" where
  "get_hypothesis i d = fetch_one hyr_hypothesis_id ''hypothesis_id'' (db_hypotheses (dd_store d)) i"

definition get_authorization_source :: "string \<Rightarrow> dispatch_db \<Rightarrow> persistence_error + authorization_source_record option" where
  "get_authorization_source i d = fetch_one asr_authorization_source_id ''authorization_source_id'' (dd_sources d) i"

definition get_experiment_plan :: "string \<Rightarrow> dispatch_db \<Rightarrow> persistence_error + experiment_plan_record option" where
  "get_experiment_plan i d = fetch_one epr_experiment_id ''experiment_id'' (dd_plans d) i"

definition get_attempt :: "string \<Rightarrow> dispatch_db \<Rightarrow> persistence_error + execution_attempt_record option" where
  "get_attempt i d = fetch_one ear_attempt_id ''attempt_id'' (db_attempts (dd_store d)) i"

definition list_attempts_for_research_run :: "string \<Rightarrow> dispatch_db \<Rightarrow> persistence_error + execution_attempt_record list" where
  "list_attempts_for_research_run run d =
     fetch_list ear_attempt_id ear_research_run_id ''research_run_id'' (db_attempts (dd_store d)) run"

definition get_session_context :: "string \<Rightarrow> dispatch_db \<Rightarrow> persistence_error + session_context_record option" where
  "get_session_context i d = fetch_one scr_session_context_id ''session_context_id'' (dd_sessions d) i"

definition get_worker_result_by_request :: "string \<Rightarrow> dispatch_db \<Rightarrow> persistence_error + worker_result_record option" where
  "get_worker_result_by_request i d = fetch_one wr_request_id ''request_id'' (db_worker_results (dd_store d)) i"

definition list_observations_for_worker_result :: "string \<Rightarrow> dispatch_db \<Rightarrow> persistence_error + observation_record list" where
  "list_observations_for_worker_result i d =
     fetch_list or_observation_id or_worker_result_id ''worker_result_id'' (db_observations (dd_store d)) i"

section \<open>Inserts\<close>

definition insert_authorization_source :: "authorization_source_record \<Rightarrow> dispatch_db \<Rightarrow> persistence_error + dispatch_db" where
  "insert_authorization_source r d =
     (if has_key asr_authorization_source_id (asr_authorization_source_id r) (dd_sources d) then Inl unique_failed
      else if \<not> has_key pgr_program_id (asr_program_id r) (pd_programs (dd_programs d)) then Inl integrity_failed
      else Inr (d\<lparr>dd_sources := dd_sources d @ [r]\<rparr>))"

definition insert_experiment_plan :: "experiment_plan_record \<Rightarrow> dispatch_db \<Rightarrow> persistence_error + dispatch_db" where
  "insert_experiment_plan r d =
     (if has_key epr_experiment_id (epr_experiment_id r) (dd_plans d) then Inl unique_failed
      else if \<not> has_experiment (epr_experiment_id r) (epr_research_run_id r) d
        \<or> \<not> has_hypothesis (epr_hypothesis_id r) (epr_research_run_id r) (dd_store d)
        \<or> \<not> has_budget (epr_requested_budget_id r) (epr_research_run_id r) d then Inl integrity_failed
      else Inr (d\<lparr>dd_plans := dd_plans d @ [r]\<rparr>))"

definition insert_attempt :: "execution_attempt_record \<Rightarrow> dispatch_db \<Rightarrow> persistence_error + dispatch_db" where
  "insert_attempt r d =
     (if has_key ear_attempt_id (ear_attempt_id r) (db_attempts (dd_store d))
         \<or> has_key ear_request_id (ear_request_id r) (db_attempts (dd_store d)) then Inl unique_failed
      else if \<not> has_experiment (ear_experiment_id r) (ear_research_run_id r) d
        \<or> \<not> has_budget (ear_budget_id r) (ear_research_run_id r) d
        \<or> \<not> has_key aer_audit_event_id (ear_authorization_decision_reference r) (db_audit_events (dd_store d))
      then Inl integrity_failed
      else Inr (d\<lparr>dd_store := (dd_store d)\<lparr>db_attempts := db_attempts (dd_store d) @ [r]\<rparr>\<rparr>))"

definition insert_session_context :: "session_context_record \<Rightarrow> dispatch_db \<Rightarrow> persistence_error + dispatch_db" where
  "insert_session_context r d =
     (if has_key scr_session_context_id (scr_session_context_id r) (dd_sessions d) then Inl unique_failed
      else if \<not> has_run (scr_research_run_id r) (dd_store d) then Inl integrity_failed
      else Inr (d\<lparr>dd_sessions := dd_sessions d @ [r]\<rparr>))"

definition insert_worker_result :: "worker_result_record \<Rightarrow> dispatch_db \<Rightarrow> persistence_error + dispatch_db" where
  "insert_worker_result r d =
     (if has_key wr_worker_result_id (wr_worker_result_id r) (db_worker_results (dd_store d))
         \<or> has_key wr_request_id (wr_request_id r) (db_worker_results (dd_store d)) then Inl unique_failed
      else if \<not> has_experiment (wr_experiment_id r) (wr_research_run_id r) d
        \<or> \<not> has_budget (wr_budget_id r) (wr_research_run_id r) d then Inl integrity_failed
      else Inr (d\<lparr>dd_store := (dd_store d)\<lparr>db_worker_results := db_worker_results (dd_store d) @ [r]\<rparr>\<rparr>))"

definition insert_observation :: "observation_record \<Rightarrow> dispatch_db \<Rightarrow> persistence_error + dispatch_db" where
  "insert_observation r d =
     (if has_key or_observation_id (or_observation_id r) (db_observations (dd_store d))
         \<or> has_key (\<lambda>x. (or_worker_result_id x, or_observation_kind x, or_normalization_version x))
             (or_worker_result_id r, or_observation_kind r, or_normalization_version r) (db_observations (dd_store d))
      then Inl unique_failed
      else if \<not> has_key wr_worker_result_id (or_worker_result_id r) (db_worker_results (dd_store d)) then Inl integrity_failed
      else Inr (d\<lparr>dd_store := (dd_store d)\<lparr>db_observations := db_observations (dd_store d) @ [r]\<rparr>\<rparr>))"

section \<open>Updates\<close>

definition set_execution_state :: "string \<Rightarrow> string \<Rightarrow> dispatch_db \<Rightarrow> persistence_error + dispatch_db" where
  "set_execution_state i state d =
     (if blank i then Inl (id_error ''experiment_id'')
      else if state \<notin> set ALLOWED_EXPERIMENT_STATES
      then Inl (PersistenceInputError ''execution_state is not a domain execution state'')
      else if length (filter (\<lambda>r. xr_experiment_id r = i) (db_experiments (dd_store d))) \<noteq> 1
      then Inl (PersistenceError ''experiment not found for execution_state update'')
      else Inr (d\<lparr>dd_store := (dd_store d)\<lparr>db_experiments :=
        map (\<lambda>r. if xr_experiment_id r = i then r\<lparr>xr_execution_state := state\<rparr> else r) (db_experiments (dd_store d))\<rparr>\<rparr>))"

text \<open>A time given replaces the stored one; a time left out keeps it.\<close>

definition or_keep :: "'a option \<Rightarrow> 'a option \<Rightarrow> 'a option" where
  "or_keep new old = (case new of None \<Rightarrow> old | Some _ \<Rightarrow> new)"

definition set_attempt_state ::
    "string \<Rightarrow> string \<Rightarrow> int option \<Rightarrow> int option \<Rightarrow> dispatch_db \<Rightarrow> persistence_error + dispatch_db" where
  "set_attempt_state i state dispatch_started_at completed_at d =
     (if blank i then Inl (id_error ''attempt_id'')
      else if state \<notin> set ALLOWED_EXECUTION_ATTEMPT_STATES
      then Inl (PersistenceInputError ''state is not an ExecutionAttempt state'')
      else if length (filter (\<lambda>r. ear_attempt_id r = i) (db_attempts (dd_store d))) \<noteq> 1
      then Inl (PersistenceError ''execution_attempt not found for state update'')
      else Inr (d\<lparr>dd_store := (dd_store d)\<lparr>db_attempts :=
        map (\<lambda>r. if ear_attempt_id r = i
          then r\<lparr>ear_state := state, ear_dispatch_started_at := or_keep dispatch_started_at (ear_dispatch_started_at r),
                 ear_completed_at := or_keep completed_at (ear_completed_at r)\<rparr> else r) (db_attempts (dd_store d))\<rparr>\<rparr>))"

definition set_session_state ::
    "string \<Rightarrow> string \<Rightarrow> int option \<Rightarrow> int option \<Rightarrow> int \<Rightarrow> dispatch_db \<Rightarrow> persistence_error + dispatch_db" where
  "set_session_state i state established_at expires_at updated_at d =
     (if blank i then Inl (id_error ''session_context_id'')
      else if state \<notin> set ALLOWED_SESSION_STATES
      then Inl (PersistenceInputError ''state is not a SessionContext state'')
      else if length (filter (\<lambda>r. scr_session_context_id r = i) (dd_sessions d)) \<noteq> 1
      then Inl (PersistenceError ''session_context not found for state update'')
      else Inr (d\<lparr>dd_sessions :=
        map (\<lambda>r. if scr_session_context_id r = i
          then r\<lparr>scr_state := state, scr_established_at := or_keep established_at (scr_established_at r),
                 scr_expires_at := or_keep expires_at (scr_expires_at r), scr_updated_at := updated_at\<rparr> else r)
          (dd_sessions d)\<rparr>))"

section \<open>What the operations do\<close>

abbreviation attempts :: "dispatch_db \<Rightarrow> execution_attempt_record list" where
  "attempts d \<equiv> db_attempts (dd_store d)"

abbreviation experiments :: "dispatch_db \<Rightarrow> experiment_record list" where
  "experiments d \<equiv> db_experiments (dd_store d)"

abbreviation audit_events :: "dispatch_db \<Rightarrow> audit_event_record list" where
  "audit_events d \<equiv> db_audit_events (dd_store d)"

abbreviation worker_results :: "dispatch_db \<Rightarrow> worker_result_record list" where
  "worker_results d \<equiv> db_worker_results (dd_store d)"

lemma in_store_Inr [result_simps]:
  "in_store f d = Inr d' \<longleftrightarrow> (\<exists>s. f (dd_store d) = Inr s \<and> d' = d\<lparr>dd_store := s\<rparr>)"
  by (auto simp: in_store_def bindE_Inr_iff)

lemma insert_audit_Inr:
  "in_store (insert_audit_event r) d = Inr d' \<longleftrightarrow> aer_audit_event_id r \<notin> aer_audit_event_id ` set (audit_events d) \<and>
     d' = d\<lparr>dd_store := (dd_store d)\<lparr>db_audit_events := audit_events d @ [r]\<rparr>\<rparr>"
  by (auto simp: in_store_Inr insert_audit_event_def has_key_iff)

lemma insert_attempt_Inr:
  "insert_attempt r d = Inr d' \<longleftrightarrow>
     ear_attempt_id r \<notin> ear_attempt_id ` set (attempts d) \<and> ear_request_id r \<notin> ear_request_id ` set (attempts d) \<and>
     has_experiment (ear_experiment_id r) (ear_research_run_id r) d \<and> has_budget (ear_budget_id r) (ear_research_run_id r) d \<and>
     ear_authorization_decision_reference r \<in> aer_audit_event_id ` set (audit_events d) \<and>
     d' = d\<lparr>dd_store := (dd_store d)\<lparr>db_attempts := attempts d @ [r]\<rparr>\<rparr>"
  by (auto simp: insert_attempt_def has_key_iff)

lemma insert_experiment_plan_Inr:
  "insert_experiment_plan r d = Inr d' \<Longrightarrow>
     epr_experiment_id r \<notin> epr_experiment_id ` set (dd_plans d) \<and> d' = d\<lparr>dd_plans := dd_plans d @ [r]\<rparr>"
  by (auto simp: insert_experiment_plan_def has_key_iff split: if_splits)

lemma insert_session_context_Inr:
  "insert_session_context r d = Inr d' \<Longrightarrow>
     scr_session_context_id r \<notin> scr_session_context_id ` set (dd_sessions d) \<and> d' = d\<lparr>dd_sessions := dd_sessions d @ [r]\<rparr>"
  by (auto simp: insert_session_context_def has_key_iff split: if_splits)

lemma insert_worker_result_Inr:
  "insert_worker_result r d = Inr d' \<Longrightarrow>
     wr_worker_result_id r \<notin> wr_worker_result_id ` set (worker_results d) \<and>
     wr_request_id r \<notin> wr_request_id ` set (worker_results d) \<and>
     d' = d\<lparr>dd_store := (dd_store d)\<lparr>db_worker_results := worker_results d @ [r]\<rparr>\<rparr>"
  by (auto simp: insert_worker_result_def has_key_iff split: if_splits)

lemma insert_observation_Inr:
  "insert_observation r d = Inr d' \<Longrightarrow>
     or_observation_id r \<notin> or_observation_id ` set (db_observations (dd_store d)) \<and>
     or_worker_result_id r \<in> wr_worker_result_id ` set (worker_results d) \<and>
     d' = d\<lparr>dd_store := (dd_store d)\<lparr>db_observations := db_observations (dd_store d) @ [r]\<rparr>\<rparr>"
  by (auto simp: insert_observation_def has_key_iff split: if_splits)

definition with_execution_state :: "string \<Rightarrow> string \<Rightarrow> experiment_record list \<Rightarrow> experiment_record list" where
  "with_execution_state i state = map (\<lambda>r. if xr_experiment_id r = i then r\<lparr>xr_execution_state := state\<rparr> else r)"

definition with_attempt_state ::
    "string \<Rightarrow> string \<Rightarrow> int option \<Rightarrow> int option \<Rightarrow> execution_attempt_record list \<Rightarrow> execution_attempt_record list" where
  "with_attempt_state i state started completed = map (\<lambda>r. if ear_attempt_id r = i
     then r\<lparr>ear_state := state, ear_dispatch_started_at := or_keep started (ear_dispatch_started_at r),
            ear_completed_at := or_keep completed (ear_completed_at r)\<rparr> else r)"

lemma set_execution_state_Inr:
  "set_execution_state i state d = Inr d' \<Longrightarrow> state \<in> set ALLOWED_EXPERIMENT_STATES \<and>
     d' = d\<lparr>dd_store := (dd_store d)\<lparr>db_experiments := with_execution_state i state (experiments d)\<rparr>\<rparr>"
  by (auto simp: set_execution_state_def with_execution_state_def split: if_splits)

lemma set_attempt_state_Inr:
  "set_attempt_state i state a b d = Inr d' \<Longrightarrow> state \<in> set ALLOWED_EXECUTION_ATTEMPT_STATES \<and>
     i \<in> ear_attempt_id ` set (attempts d) \<and>
     d' = d\<lparr>dd_store := (dd_store d)\<lparr>db_attempts := with_attempt_state i state a b (attempts d)\<rparr>\<rparr>"
proof -
  assume a: "set_attempt_state i state a b d = Inr d'"
  then have "length (filter (\<lambda>r. ear_attempt_id r = i) (attempts d)) = 1" by (simp add: set_attempt_state_def split: if_splits)
  then have "filter (\<lambda>r. ear_attempt_id r = i) (attempts d) \<noteq> []" by auto
  then have "i \<in> ear_attempt_id ` set (attempts d)" by (auto simp: filter_empty_conv)
  with a show ?thesis by (simp add: set_attempt_state_def with_attempt_state_def split: if_splits)
qed

lemma set_session_state_Inr:
  "set_session_state i state a b u d = Inr d' \<Longrightarrow>
     map (\<lambda>r. (scr_session_context_id r, scr_research_run_id r, scr_identity_id r, scr_origin r)) (dd_sessions d') =
     map (\<lambda>r. (scr_session_context_id r, scr_research_run_id r, scr_identity_id r, scr_origin r)) (dd_sessions d) \<and>
     d' = d\<lparr>dd_sessions := dd_sessions d'\<rparr>"
  by (auto simp: set_session_state_def split: if_splits)

lemma with_state_keys [simp]:
  "map ear_attempt_id (with_attempt_state i state a b rs) = map ear_attempt_id rs"
  "map ear_request_id (with_attempt_state i state a b rs) = map ear_request_id rs"
  "map ear_experiment_id (with_attempt_state i state a b rs) = map ear_experiment_id rs"
  "map xr_experiment_id (with_execution_state i state xs) = map xr_experiment_id xs"
  by (simp_all add: with_attempt_state_def with_execution_state_def comp_def if_distrib cong: if_cong)

interpretation attempt_table: keyed_table ear_attempt_id attempts insert_attempt
  by unfold_locales (auto simp: insert_attempt_Inr)

interpretation attempt_requests: keyed_table ear_request_id attempts insert_attempt
  by unfold_locales (auto simp: insert_attempt_Inr)

interpretation plan_table: keyed_table epr_experiment_id dd_plans insert_experiment_plan
  by unfold_locales (auto dest: insert_experiment_plan_Inr)

interpretation session_table: keyed_table scr_session_context_id dd_sessions insert_session_context
  by unfold_locales (auto dest: insert_session_context_Inr)

interpretation source_table: keyed_table asr_authorization_source_id dd_sources insert_authorization_source
  by unfold_locales (auto simp: insert_authorization_source_def has_key_iff split: if_splits)

interpretation result_table: keyed_table wr_request_id worker_results insert_worker_result
  by unfold_locales (auto dest: insert_worker_result_Inr)

interpretation observation_table: keyed_table or_observation_id "\<lambda>d. db_observations (dd_store d)" insert_observation
  by unfold_locales (auto dest: insert_observation_Inr)

end
