(* ===== verification/Session_Binding.thy ===== *)
theory Session_Binding
  imports Http_Authorization Dispatch_Store
begin

text \<open>
  Binding of an identity and a session to an authorized plan (\<open>application/session_binding.py\<close>) and the
  life of a session's metadata and material (\<open>application/session_lifecycle.py\<close>).  The secret port is
  process memory: what an operation has written there stays when its transaction fails, so the operations
  return the port beside the outcome of the database.
\<close>

section \<open>Binding\<close>

definition HTTP_AUTHENTICATION_LOGIN_ACTION :: string where "HTTP_AUTHENTICATION_LOGIN_ACTION = ''login''"

record session_binding_decision =
  sbd_accepted :: bool
  sbd_input_rejected :: bool
  sbd_reason_code :: "reason_code option"
  sbd_message :: string
  sbd_session :: "session_context_record option"
  sbd_resolved_secrets :: "(string \<times> string) list option"

definition binding_accepted :: "session_context_record option \<Rightarrow> (string \<times> string) list option \<Rightarrow> session_binding_decision" where
  "binding_accepted session secrets = \<lparr>sbd_accepted = True, sbd_input_rejected = False, sbd_reason_code = None,
     sbd_message = [], sbd_session = session, sbd_resolved_secrets = secrets\<rparr>"

definition binding_refused :: "bool \<Rightarrow> reason_code \<Rightarrow> string \<Rightarrow> session_binding_decision" where
  "binding_refused input_rejected reason message = \<lparr>sbd_accepted = False, sbd_input_rejected = input_rejected,
     sbd_reason_code = Some reason, sbd_message = message, sbd_session = None, sbd_resolved_secrets = None\<rparr>"

abbreviation binding_mismatch :: "string \<Rightarrow> app_error + session_binding_decision" where
  "binding_mismatch message \<equiv> Inr (binding_refused True RC_SCHEMA_MISMATCH message)"

definition session_material_reference :: "string \<Rightarrow> value_error + secret_reference" where
  "session_material_reference session_context_id = secret_reference_for SESSION_MATERIAL (''session:'' @ session_context_id)"

definition normalized_origin :: "string \<Rightarrow> string" where
  "normalized_origin origin = py_rstrip_chars ''/'' (py_strip origin)"

definition origin_key :: "(string \<Rightarrow> bool) \<Rightarrow> string \<Rightarrow> value_error + (string \<times> string \<times> int option)" where
  "origin_key brackets origin =
     bindE (urlsplit brackets (normalized_origin origin)) (\<lambda>parsed.
     bindE (spl_port parsed) (\<lambda>port.
     Inr (py_lower (spl_scheme parsed), py_lower (case spl_hostname parsed of None \<Rightarrow> [] | Some h \<Rightarrow> h), port)))"

definition origins_match :: "(string \<Rightarrow> bool) \<Rightarrow> string \<Rightarrow> string \<Rightarrow> value_error + bool" where
  "origins_match brackets left right =
     bindE (origin_key brackets left) (\<lambda>a. bindE (origin_key brackets right) (\<lambda>b. Inr (a = b)))"

text \<open>A secret the callers accept: the reference can be formed and resolves to a value.\<close>

definition resolved_value :: "composite_secret_port \<Rightarrow> secret_reference \<Rightarrow> value_error + string option" where
  "resolved_value port reference =
     bindE (port_resolve port reference) (\<lambda>r.
     Inr (if sres_status r \<noteq> RESOLVED \<or> sres_value r = None then None else sres_value r))"

definition credential_secret :: "identity \<Rightarrow> value_error + secret_reference" where
  "credential_secret i = bindE (secret_scheme_of (crf_scheme (idy_credential_reference i))) (\<lambda>scheme.
     secret_reference_for scheme (crf_name (idy_credential_reference i)))"

definition PASSWORD_UNRESOLVED :: string where "PASSWORD_UNRESOLVED = ''password SecretReference cannot be resolved''"

definition SESSION_UNAVAILABLE :: string where
  "SESSION_UNAVAILABLE = ''session material is unavailable; reauthentication required''"

definition bind_login ::
    "experiment_plan \<Rightarrow> string option \<Rightarrow> identity option \<Rightarrow> http_form_login_profile option \<Rightarrow> composite_secret_port option
     \<Rightarrow> app_error + session_binding_decision" where
  "bind_login plan identity_id identity profile secret_port =
     (if ep_action plan \<noteq> HTTP_AUTHENTICATION_LOGIN_ACTION
      then Inr (binding_refused True RC_UNKNOWN_ACTION ''unknown authentication action'')
      else (case (identity, profile) of
        (Some i, Some p) \<Rightarrow>
          if identity_id = None \<or> identity_id = Some []
          then binding_mismatch ''login requires a configured identity and authentication profile''
          else if Some (idy_identity_id i) \<noteq> identity_id
          then binding_mismatch ''identity_id does not match the configured identity''
          else if jget (ep_arguments plan) ''identity_id'' \<noteq> JStr (idy_identity_id i)
          then binding_mismatch ''plan identity_id does not match the configured identity''
          else if idy_authentication_profile_reference i \<noteq> hlp_profile_id p
          then binding_mismatch ''identity is not bound to this authentication profile''
          else if idy_target_reference i \<noteq> ep_target_reference plan
          then binding_mismatch ''identity is bound to a different target''
          else if jget (ep_arguments plan) ''path'' \<noteq> JStr (hlp_path p)
          then binding_mismatch ''login path does not match the authentication profile''
          else if jget (ep_arguments plan) ''password_secret_name'' \<noteq> JStr (hlp_password_secret_name p)
          then binding_mismatch ''password secret name does not match the authentication profile''
          else (case (secret_port, credential_secret i) of
            (Some port, Inr reference) \<Rightarrow>
              bindE (mapErr value_failed (resolved_value port reference)) (\<lambda>v.
              case v of None \<Rightarrow> binding_mismatch PASSWORD_UNRESOLVED
              | Some v \<Rightarrow> Inr (binding_accepted None (Some [(hlp_password_secret_name p, v)])))
          | _ \<Rightarrow> binding_mismatch PASSWORD_UNRESOLVED)
      | _ \<Rightarrow> binding_mismatch ''login requires a configured identity and authentication profile''))"

text \<open>The material of a session that passed every check of its metadata.\<close>

definition bind_material :: "session_context_record \<Rightarrow> composite_secret_port option \<Rightarrow> app_error + session_binding_decision" where
  "bind_material s secret_port =
     (case (secret_port, secret_scheme_of (scr_secret_scheme s)) of
        (Some port, Inr scheme) \<Rightarrow>
          bindE (mapErr value_failed (secret_reference_for scheme (scr_secret_name s))) (\<lambda>reference.
          bindE (mapErr value_failed (resolved_value port reference)) (\<lambda>v.
          case v of None \<Rightarrow> binding_mismatch SESSION_UNAVAILABLE
          | Some v \<Rightarrow> Inr (binding_accepted (Some s) (Some [(''session_cookie'', v)]))))
      | _ \<Rightarrow> binding_mismatch SESSION_UNAVAILABLE)"

definition session_expired :: "session_context_record \<Rightarrow> int \<Rightarrow> bool" where
  "session_expired s now = (scr_state s = session_state_value SS_EXPIRED
     \<or> (case scr_expires_at s of None \<Rightarrow> False | Some t \<Rightarrow> t \<le> now))"

definition bind_existing_session ::
    "(string \<Rightarrow> bool) \<Rightarrow> experiment_plan \<Rightarrow> string option \<Rightarrow> identity option \<Rightarrow> http_form_login_profile option
     \<Rightarrow> session_context_record option \<Rightarrow> composite_secret_port option \<Rightarrow> int \<Rightarrow> string option
     \<Rightarrow> app_error + session_binding_decision" where
  "bind_existing_session brackets plan identity_id identity profile session secret_port now research_run_id =
     (if identity_id = None \<or> identity_id = Some []
      then binding_mismatch ''session_context_reference is not authority without identity_id''
      else (case identity of
        None \<Rightarrow> binding_mismatch ''session reuse requires the configured identity''
      | Some i \<Rightarrow>
          if Some (idy_identity_id i) \<noteq> identity_id
          then binding_mismatch ''identity_id does not match the configured identity''
          else (case session of
            None \<Rightarrow> binding_mismatch ''session_context_reference does not exist''
          | Some s \<Rightarrow>
              if Some (scr_identity_id s) \<noteq> identity_id
              then binding_mismatch ''session is bound to a different identity''
              else if research_run_id = None \<or> Some (scr_research_run_id s) \<noteq> research_run_id
              then binding_mismatch ''session is bound to a different research run''
              else if idy_target_reference i \<noteq> ep_target_reference plan
              then binding_mismatch ''identity is bound to a different target''
              else if scr_authentication_profile_reference s \<noteq> idy_authentication_profile_reference i
              then binding_mismatch ''session is bound to a different authentication profile''
              else if (case profile of None \<Rightarrow> False
                       | Some p \<Rightarrow> scr_authentication_profile_reference s \<noteq> hlp_profile_id p)
              then binding_mismatch ''session is bound to a different authentication profile''
              else bindE (mapErr value_failed (origins_match brackets (scr_origin s)
                     (let v = jget (ep_arguments plan) ''authorized_origin'' in if truthy v then py_str v else []))) (\<lambda>same.
              if \<not> same
              then Inr (binding_refused False RC_SCOPE_NOT_EXPLICITLY_ALLOWED ''session is bound to a different origin'')
              else if session_expired s now
              then Inr (binding_refused False RC_AUTHORIZATION_INACTIVE ''session is expired'')
              else if scr_state s = session_state_value SS_REVOKED
              then Inr (binding_refused False RC_AUTHORIZATION_INACTIVE ''session is revoked'')
              else if scr_state s \<noteq> session_state_value SS_ACTIVE
              then Inr (binding_refused False RC_AUTHORIZATION_INACTIVE ''session is not ACTIVE'')
              else bind_material s secret_port))))"

definition bind_identity_session ::
    "(string \<Rightarrow> bool) \<Rightarrow> experiment_plan \<Rightarrow> string option \<Rightarrow> identity option \<Rightarrow> http_form_login_profile option
     \<Rightarrow> session_context_record option \<Rightarrow> composite_secret_port option \<Rightarrow> int \<Rightarrow> string option
     \<Rightarrow> app_error + session_binding_decision" where
  "bind_identity_session brackets plan identity_id identity profile session secret_port now research_run_id =
     (if ep_required_capability plan = HTTP_AUTHENTICATION_CAPABILITY
      then bind_login plan identity_id identity profile secret_port
      else if ep_required_capability plan \<in> {HTTP_TRANSACTION_CAPABILITY, BROWSER_PAGE_CAPABILITY}
      then if jget (ep_arguments plan) ''session_context_reference'' = JNull then Inr (binding_accepted None None)
           else bind_existing_session brackets plan identity_id identity profile session secret_port now research_run_id
      else Inr (binding_accepted None None))"

section \<open>Lifecycle\<close>

definition argument_text :: "payload \<Rightarrow> string \<Rightarrow> app_error + string" where
  "argument_text arguments name = (case map_of arguments name of
     None \<Rightarrow> Inl (AppKeyError name) | Some v \<Rightarrow> Inr (py_str v))"

definition authenticating_session_record ::
    "experiment_plan \<Rightarrow> identity \<Rightarrow> http_form_login_profile \<Rightarrow> string \<Rightarrow> int \<Rightarrow> app_error + session_context_record" where
  "authenticating_session_record plan i p research_run_id now =
     bindE (argument_text (ep_arguments plan) ''session_context_id'') (\<lambda>session_context_id.
     bindE (mapErr value_failed (session_material_reference session_context_id)) (\<lambda>reference.
     bindE (argument_text (ep_arguments plan) ''authorized_origin'') (\<lambda>origin.
     stored (post_init_session_context_record
       \<lparr>scr_session_context_id = session_context_id, scr_research_run_id = research_run_id,
        scr_identity_id = idy_identity_id i, scr_actor_reference = idy_actor_reference i,
        scr_origin = normalized_origin origin, scr_authentication_profile_reference = hlp_profile_id p,
        scr_authentication_method = HTTP_FORM_LOGIN, scr_secret_scheme = secret_scheme_value (sref_scheme reference),
        scr_secret_name = sref_name reference, scr_state = session_state_value SS_AUTHENTICATING,
        scr_created_at = now, scr_updated_at = now, scr_established_at = None, scr_expires_at = None,
        scr_session_cookie_name = Some (hlp_session_cookie_name p)\<rparr>))))"

type_synonym session_effect = "composite_secret_port option \<times> (app_error + dispatch_db)"

text \<open>A text argument that is present and not blank.\<close>

definition given_text :: "json \<Rightarrow> string option" where
  "given_text j = (case j of JStr s \<Rightarrow> if blank s then None else Some s | _ \<Rightarrow> None)"

definition object_or_nothing :: "json \<Rightarrow> payload" where
  "object_or_nothing j = (case j of JObj kvs \<Rightarrow> kvs | _ \<Rightarrow> [])"

definition usable_cookie :: "payload option \<Rightarrow> string option" where
  "usable_cookie ephemeral = (case ephemeral of None \<Rightarrow> None
     | Some e \<Rightarrow> (case jget e ''session_cookie'' of JStr c \<Rightarrow> if c = [] then None else Some c | _ \<Rightarrow> None))"

definition activate_session ::
    "string \<Rightarrow> string \<Rightarrow> int \<Rightarrow> composite_secret_port \<Rightarrow> dispatch_db \<Rightarrow> session_effect" where
  "activate_session i cookie now port d =
     (case bindE (session_material_reference i) (\<lambda>r. put_session r cookie port) of
        Inl e \<Rightarrow> (Some port, Inl (value_failed e))
      | Inr port' \<Rightarrow> (Some port', stored (set_session_state i (session_state_value SS_ACTIVE) (Some now) None now d)))"

definition capture_login_result ::
    "payload \<Rightarrow> payload \<Rightarrow> payload option \<Rightarrow> int \<Rightarrow> composite_secret_port option \<Rightarrow> dispatch_db \<Rightarrow> session_effect" where
  "capture_login_result request result ephemeral now secret_port d =
     (if jget request ''worker_capability'' \<noteq> JStr HTTP_AUTHENTICATION_CAPABILITY then (secret_port, Inr d)
      else (case jget request ''arguments'' of
        JObj arguments \<Rightarrow> (case given_text (jget arguments ''session_context_id'') of
          None \<Rightarrow> (secret_port, Inr d)
        | Some i \<Rightarrow> (case get_session_context i d of
            Inl e \<Rightarrow> (secret_port, Inl (AppPersistence e))
          | Inr None \<Rightarrow> (secret_port, Inr d)
          | Inr (Some _) \<Rightarrow>
              if jget result ''status'' = JStr ''REAUTHORIZATION_REQUIRED'' then (secret_port, Inr d)
              else if truthy (jget (object_or_nothing (jget result ''raw_result'')) ''session_established'')
                \<and> jget result ''status'' = JStr ''SUCCEEDED'' \<and> usable_cookie ephemeral \<noteq> None \<and> secret_port \<noteq> None
              then activate_session i (the (usable_cookie ephemeral)) now (the secret_port) d
              else (secret_port, stored (set_session_state i (session_state_value SS_FAILED) None None now d))))
      | _ \<Rightarrow> (secret_port, Inr d)))"

text \<open>\<open>secret_port.delete_session\<close> after the state was set; the reference is always one of session material.\<close>

definition drop_material ::
    "string \<Rightarrow> composite_secret_port option \<Rightarrow> dispatch_db \<Rightarrow> session_effect" where
  "drop_material i secret_port d =
     (case secret_port of
        None \<Rightarrow> (None, Inr d)
      | Some port \<Rightarrow> (case bindE (session_material_reference i) (\<lambda>r. delete_session r port) of
          Inl e \<Rightarrow> (Some port, Inl (value_failed e)) | Inr port' \<Rightarrow> (Some port', Inr d)))"

definition leave_session ::
    "session_state \<Rightarrow> string \<Rightarrow> int \<Rightarrow> composite_secret_port option \<Rightarrow> dispatch_db \<Rightarrow> session_effect" where
  "leave_session state i now secret_port d =
     (case set_session_state i (session_state_value state) None None now d of
        Inl e \<Rightarrow> (secret_port, Inl (AppPersistence e))
      | Inr d' \<Rightarrow> drop_material i secret_port d')"

text \<open>\<open>status_code in {401, 403}\<close>: a list or an object is not hashable.\<close>

definition unauthenticated_status :: "json \<Rightarrow> app_error + bool" where
  "unauthenticated_status j = (case j of JArr _ \<Rightarrow> Inl AppTypeError | JObj _ \<Rightarrow> Inl AppTypeError
     | JInt n \<Rightarrow> Inr (n \<in> {401, 403}) | _ \<Rightarrow> Inr False)"

definition expire_session_on_unauthenticated_response ::
    "payload \<Rightarrow> payload \<Rightarrow> int \<Rightarrow> composite_secret_port option \<Rightarrow> dispatch_db \<Rightarrow> session_effect" where
  "expire_session_on_unauthenticated_response request result now secret_port d =
     (if jget request ''worker_capability'' \<noteq> JStr HTTP_TRANSACTION_CAPABILITY then (secret_port, Inr d)
      else (case jget request ''arguments'' of
        JObj arguments \<Rightarrow> (case given_text (jget arguments ''session_context_reference'') of
          None \<Rightarrow> (secret_port, Inr d)
        | Some i \<Rightarrow> (case unauthenticated_status (jget (object_or_nothing (jget result ''raw_result'')) ''status_code'') of
            Inl e \<Rightarrow> (secret_port, Inl e)
          | Inr False \<Rightarrow> (secret_port, Inr d)
          | Inr True \<Rightarrow> (case get_session_context i d of
              Inl e \<Rightarrow> (secret_port, Inl (AppPersistence e))
            | Inr None \<Rightarrow> (secret_port, Inr d)
            | Inr (Some s) \<Rightarrow>
                if scr_state s \<noteq> session_state_value SS_ACTIVE then (secret_port, Inr d)
                else leave_session SS_EXPIRED i now secret_port d)))
      | _ \<Rightarrow> (secret_port, Inr d)))"

definition revoke_session :: "string \<Rightarrow> int \<Rightarrow> composite_secret_port option \<Rightarrow> dispatch_db \<Rightarrow> session_effect" where
  "revoke_session i now secret_port d =
     (case get_session_context i d of
        Inl e \<Rightarrow> (secret_port, Inl (AppPersistence e))
      | Inr None \<Rightarrow> (secret_port, Inr d)
      | Inr (Some _) \<Rightarrow> leave_session SS_REVOKED i now secret_port d)"

definition strip_ephemeral_secrets :: "payload \<Rightarrow> payload \<times> payload option" where
  "strip_ephemeral_secrets result =
     (let cleaned = filter (\<lambda>(k, _). k \<noteq> ''ephemeral_secrets'') result;
          stripped = (case jget cleaned ''raw_result'' of
            JObj raw \<Rightarrow> map (\<lambda>(k, v). if k = ''raw_result''
              then (k, JObj (filter (\<lambda>(n, _). n \<noteq> ''_ephemeral_session_cookie'') raw)) else (k, v)) cleaned
          | _ \<Rightarrow> cleaned)
      in (stripped, case jget result ''ephemeral_secrets'' of JObj e \<Rightarrow> Some e | _ \<Rightarrow> None))"

section \<open>What a binding hands out\<close>

lemma resolved_value_Some:
  "resolved_value port r = Inr (Some v) \<longleftrightarrow> (\<exists>x. port_resolve port r = Inr x \<and> sres_status x = RESOLVED \<and> sres_value x = Some v)"
  by (auto simp: resolved_value_def bindE_Inr_iff split: if_splits)

text \<open>What a login and a reused session have to agree with, read off the records alone.\<close>

definition login_bound :: "experiment_plan \<Rightarrow> string option \<Rightarrow> identity \<Rightarrow> http_form_login_profile \<Rightarrow> bool" where
  "login_bound plan identity_id i p \<longleftrightarrow>
     ep_action plan = HTTP_AUTHENTICATION_LOGIN_ACTION \<and> identity_id = Some (idy_identity_id i) \<and> idy_identity_id i \<noteq> [] \<and>
     jget (ep_arguments plan) ''identity_id'' = JStr (idy_identity_id i) \<and>
     idy_authentication_profile_reference i = hlp_profile_id p \<and> idy_target_reference i = ep_target_reference plan \<and>
     jget (ep_arguments plan) ''path'' = JStr (hlp_path p) \<and>
     jget (ep_arguments plan) ''password_secret_name'' = JStr (hlp_password_secret_name p)"

definition session_bound ::
    "(string \<Rightarrow> bool) \<Rightarrow> experiment_plan \<Rightarrow> string option \<Rightarrow> identity \<Rightarrow> session_context_record \<Rightarrow> int \<Rightarrow> string option \<Rightarrow> bool" where
  "session_bound brackets plan identity_id i s now run \<longleftrightarrow>
     identity_id = Some (idy_identity_id i) \<and> scr_identity_id s = idy_identity_id i \<and> run = Some (scr_research_run_id s) \<and>
     idy_target_reference i = ep_target_reference plan \<and>
     scr_authentication_profile_reference s = idy_authentication_profile_reference i \<and>
     origins_match brackets (scr_origin s)
       (let v = jget (ep_arguments plan) ''authorized_origin'' in if truthy v then py_str v else []) = Inr True \<and>
     scr_state s = session_state_value SS_ACTIVE \<and> (\<forall>t. scr_expires_at s = Some t \<longrightarrow> now < t)"

lemma bind_login_secrets:
  assumes "bind_login plan identity_id identity profile secret_port = Inr d" "sbd_resolved_secrets d = Some secrets"
  obtains i p port reference v where "identity = Some i" "profile = Some p" "secret_port = Some port"
    "login_bound plan identity_id i p" "credential_secret i = Inr reference" "resolved_value port reference = Inr (Some v)"
    "d = binding_accepted None (Some [(hlp_password_secret_name p, v)])"
  using assms
  by (cases identity; cases profile; cases secret_port)
    (auto simp: bind_login_def binding_refused_def bindE_Inr_iff login_bound_def split: if_splits sum.splits option.splits)

lemma bind_material_secrets:
  assumes "bind_material s secret_port = Inr d" "sbd_resolved_secrets d = Some secrets"
  obtains port scheme reference v where "secret_port = Some port" "secret_scheme_of (scr_secret_scheme s) = Inr scheme"
    "secret_reference_for scheme (scr_secret_name s) = Inr reference" "resolved_value port reference = Inr (Some v)"
    "d = binding_accepted (Some s) (Some [(''session_cookie'', v)])"
  using assms
  by (cases secret_port)
    (auto simp: bind_material_def binding_refused_def bindE_Inr_iff split: sum.splits option.splits)

lemma bind_existing_session_secrets:
  assumes "bind_existing_session brackets plan identity_id identity profile session secret_port now run = Inr d"
    "sbd_resolved_secrets d = Some secrets"
  obtains i s where "identity = Some i" "session = Some s" "session_bound brackets plan identity_id i s now run"
    "bind_material s secret_port = Inr d"
proof -
  from assms obtain i where i: "identity = Some i" "identity_id = Some (idy_identity_id i)"
    by (cases identity) (auto simp: bind_existing_session_def binding_refused_def split: if_splits)
  from assms i obtain s where s: "session = Some s"
    by (cases session) (auto simp: bind_existing_session_def binding_refused_def split: if_splits)
  from assms i s have "session_bound brackets plan identity_id i s now run" "bind_material s secret_port = Inr d"
    by (auto simp: bind_existing_session_def binding_refused_def session_bound_def session_expired_def bindE_Inr_iff
        split: if_splits option.splits)
  with i(1) s that show thesis by blast
qed

text \<open>
  C38. Secret values leave the port only for a bound plan: a login hands out the password of the
  configured identity for its own target, profile and path; a reused session hands out its material only
  while it is ACTIVE and unexpired, to the identity, run, target, profile and origin it was opened for.
\<close>

theorem session_secrets_are_bound:
  assumes "bind_identity_session brackets plan identity_id identity profile session secret_port now run = Inr d"
    and "sbd_resolved_secrets d = Some secrets"
  shows "sbd_accepted d \<and> (\<exists>i port reference v. identity = Some i \<and> secret_port = Some port \<and>
      port_resolve port reference = Inr \<lparr>sres_status = RESOLVED, sres_reference = reference, sres_value = Some v\<rparr> \<and>
      ((\<exists>p. profile = Some p \<and> login_bound plan identity_id i p \<and> credential_secret i = Inr reference \<and>
          secrets = [(hlp_password_secret_name p, v)]) \<or>
       (\<exists>s scheme. session = Some s \<and> session_bound brackets plan identity_id i s now run \<and>
          secret_scheme_of (scr_secret_scheme s) = Inr scheme \<and>
          secret_reference_for scheme (scr_secret_name s) = Inr reference \<and> secrets = [(''session_cookie'', v)])))"
proof -
  have resolution: "port_resolve port r = Inr \<lparr>sres_status = RESOLVED, sres_reference = r, sres_value = Some v\<rparr>"
    if "resolved_value port r = Inr (Some v)" for port r v
    using that composite_port.same_reference [of port r] by (auto simp: resolved_value_Some)
  show ?thesis
  proof (cases "ep_required_capability plan = HTTP_AUTHENTICATION_CAPABILITY")
    case True
    then have "bind_login plan identity_id identity profile secret_port = Inr d" using assms(1) by (simp add: bind_identity_session_def)
    then show ?thesis using assms(2)
      by (rule bind_login_secrets) (use assms(2) in \<open>auto simp: binding_accepted_def dest!: resolution\<close>)
  next
    case False
    then have b: "bind_existing_session brackets plan identity_id identity profile session secret_port now run = Inr d"
      using assms by (auto simp: bind_identity_session_def binding_accepted_def split: if_splits)
    from b assms(2) obtain i s where s: "identity = Some i" "session = Some s" "session_bound brackets plan identity_id i s now run"
      and m: "bind_material s secret_port = Inr d" by (rule bind_existing_session_secrets)
    from m assms(2) show ?thesis
      by (rule bind_material_secrets) (use assms(2) s in \<open>auto simp: binding_accepted_def dest!: resolution\<close>)
  qed
qed

section \<open>The end of a session\<close>

lemma material_reference: "\<exists>r. session_material_reference i = Inr r \<and> sref_scheme r = SESSION_MATERIAL"
proof -
  have "\<not> blank (''session:'' @ i)" by (simp add: blank_def py_strip_def py_space_def dropWhile_append)
  then show ?thesis by (simp add: session_material_reference_def secret_reference_for_def post_init_secret_reference_def)
qed

lemma session_state_set:
  assumes "filter (\<lambda>r. scr_session_context_id r = i) (dd_sessions d) = [s]" "\<not> blank i"
  shows "\<exists>d' s'. set_session_state i (session_state_value state) a b u d = Inr d' \<and> get_session_context i d' = Inr (Some s') \<and>
    scr_state s' = session_state_value state"
proof -
  let ?f = "\<lambda>r. if scr_session_context_id r = i
      then r\<lparr>scr_state := session_state_value state, scr_established_at := or_keep a (scr_established_at r),
             scr_expires_at := or_keep b (scr_expires_at r), scr_updated_at := u\<rparr> else r"
  have same: "scr_session_context_id (?f r) = scr_session_context_id r" for r by simp
  have "s \<in> set (filter (\<lambda>r. scr_session_context_id r = i) (dd_sessions d))" by (simp add: assms(1))
  then have i: "scr_session_context_id s = i" by simp
  have "filter (\<lambda>r. scr_session_context_id r = i) (map ?f (dd_sessions d)) = map ?f (filter (\<lambda>r. scr_session_context_id r = i) (dd_sessions d))"
    by (simp add: filter_map comp_def same)
  also have "\<dots> = [?f s]" by (simp add: assms(1))
  finally show ?thesis
    using assms session_state_values [of state] i
    by (simp add: set_session_state_def get_session_context_def fetch_one_def one_or_none_def)
qed

text \<open>After a revocation the metadata says REVOKED and the process holds no material of the session.\<close>

lemma revoked_session_has_no_material:
  assumes "filter (\<lambda>r. scr_session_context_id r = i) (dd_sessions d) = [s]" "\<not> blank i"
  shows "\<exists>port' d' s' r. revoke_session i now (Some port) d = (Some port', Inr d') \<and> get_session_context i d' = Inr (Some s') \<and>
    scr_state s' = ''REVOKED'' \<and> session_material_reference i = Inr r \<and>
    port_resolve port' r = resolution UNAVAILABLE r None"
proof -
  obtain r where r: "session_material_reference i = Inr r" "sref_scheme r = SESSION_MATERIAL" using material_reference by blast
  then obtain port' where port': "delete_session r port = Inr port'" by (simp add: delete_session_def)
  from session_state_set [OF assms, of SS_REVOKED None None now] obtain d' s' where
    "set_session_state i ''REVOKED'' None None now d = Inr d'" "get_session_context i d' = Inr (Some s')" "scr_state s' = ''REVOKED''"
    by auto
  moreover have "get_session_context i d = Inr (Some s)"
    using assms by (simp add: get_session_context_def fetch_one_def one_or_none_def)
  ultimately show ?thesis
    using r port' port_resolve_delete(1) [OF port']
    by (simp add: revoke_session_def leave_session_def drop_material_def)
qed

text \<open>
  The capture of a login result does not look at the state of the session: a session that was revoked
  while its login was on the way becomes ACTIVE again.
\<close>

lemma late_login_revives_session:
  assumes "jget request ''worker_capability'' = JStr HTTP_AUTHENTICATION_CAPABILITY"
    and "jget request ''arguments'' = JObj arguments" "jget arguments ''session_context_id'' = JStr i" "\<not> blank i"
    and "jget result ''status'' = JStr ''SUCCEEDED''" "jget result ''raw_result'' = JObj raw"
    and "jget raw ''session_established'' = JBool True"
    and "jget ephemeral ''session_cookie'' = JStr cookie" "cookie \<noteq> []"
    and row: "filter (\<lambda>r. scr_session_context_id r = i) (dd_sessions d) = [s]"
  shows "\<exists>port' d' s'. capture_login_result request result (Some ephemeral) now (Some port) d = (Some port', Inr d') \<and>
    get_session_context i d' = Inr (Some s') \<and> scr_state s' = ''ACTIVE''"
proof -
  obtain r where r: "session_material_reference i = Inr r" "sref_scheme r = SESSION_MATERIAL" using material_reference by blast
  with assms(9) obtain port' where port': "put_session r cookie port = Inr port'" by (simp add: put_session_def store_put_def)
  from session_state_set [OF row assms(4), of SS_ACTIVE "Some now" None now] obtain d' s' where
    "set_session_state i ''ACTIVE'' (Some now) None now d = Inr d'" "get_session_context i d' = Inr (Some s')" "scr_state s' = ''ACTIVE''"
    by auto
  moreover have "get_session_context i d = Inr (Some s)"
    using row assms(4) by (simp add: get_session_context_def fetch_one_def one_or_none_def)
  ultimately show ?thesis
    using assms(1-9) r port'
    by (simp add: capture_login_result_def given_text_def object_or_nothing_def usable_cookie_def activate_session_def)
qed

section \<open>A concrete session\<close>

definition shop_identity :: identity where
  "shop_identity = \<lparr>idy_identity_id = ''buyer'', idy_actor_reference = ''actor'', idy_target_reference = ''shop'',
     idy_credential_reference = \<lparr>crf_scheme = ''LOCAL_DEV'', crf_name = ''PW''\<rparr>,
     idy_authentication_profile_reference = ''form'', idy_role_reference = None\<rparr>"

definition shop_session :: "string \<Rightarrow> session_context_record" where
  "shop_session state = \<lparr>scr_session_context_id = ''s1'', scr_research_run_id = ''run'', scr_identity_id = ''buyer'',
     scr_actor_reference = ''actor'', scr_origin = ''https://app.shop.example'', scr_authentication_profile_reference = ''form'',
     scr_authentication_method = HTTP_FORM_LOGIN, scr_secret_scheme = ''SESSION_MATERIAL'', scr_secret_name = ''session:s1'',
     scr_state = state, scr_created_at = 0, scr_updated_at = 0, scr_established_at = None, scr_expires_at = Some 100,
     scr_session_cookie_name = None\<rparr>"

definition shop_port :: composite_secret_port where
  "shop_port = \<lparr>csp_session_store = [((''SESSION_MATERIAL'', ''session:s1''), ''sid=7'')], csp_env = []\<rparr>"

definition reuse_plan :: experiment_plan where
  "reuse_plan = (read_plan ''https://app.shop.example'' ''/catalog'')\<lparr>ep_target_reference := ''shop'',
     ep_arguments := (''session_context_reference'', JStr ''s1'') # read_arguments ''https://app.shop.example'' ''/catalog''\<rparr>"

definition reuse :: "string \<Rightarrow> int \<Rightarrow> app_error + session_binding_decision" where
  "reuse state now = bind_identity_session (\<lambda>_. False) reuse_plan (Some ''buyer'') (Some shop_identity) None
     (Some (shop_session state)) (Some shop_port) now (Some ''run'')"

definition secrets_of :: "app_error + session_binding_decision \<Rightarrow> (string \<times> string) list option" where
  "secrets_of x = (case x of Inl _ \<Rightarrow> None | Inr d \<Rightarrow> sbd_resolved_secrets d)"

lemma reuse_runs:
  "secrets_of (reuse ''ACTIVE'' 99) = Some [(''session_cookie'', ''sid=7'')]" "secrets_of (reuse ''ACTIVE'' 100) = None"
  "secrets_of (reuse ''REVOKED'' 99) = None"
  by code_simp+

lemma shop_session_accepted: "post_init_session_context_record (shop_session ''ACTIVE'') = Inr (shop_session ''ACTIVE'')"
  by code_simp

theorem session_secrets_are_bound_witness:
  "(\<exists>i. session_bound (\<lambda>_. False) reuse_plan (Some ''buyer'') i (shop_session ''ACTIVE'') 99 (Some ''run''))
   \<and> secrets_of (reuse ''REVOKED'' 99) = None"
proof -
  obtain d where d: "reuse ''ACTIVE'' 99 = Inr d" "sbd_resolved_secrets d = Some [(''session_cookie'', ''sid=7'')]"
    using reuse_runs(1) by (auto simp: secrets_of_def split: sum.splits)
  from session_secrets_are_bound [OF d(1) [unfolded reuse_def] d(2)] reuse_runs(3) show ?thesis by auto
qed

end
