(* ===== verification/Capability_Binding.thy ===== *)
theory Capability_Binding
  imports Capability Research_Types
begin

text \<open>
  The capability claims Core is asked about, built from the registry (\<open>application/capability_binding.py\<close>).
  \<open>catalog\<close> is the registry passed in or the loaded one; \<open>validate\<close> is the JSON-schema library.  The claim of a bound
  plan repeats the plan's version and fingerprint; whether they are current is Core's check.
\<close>

section \<open>Model\<close>

datatype binding_error = CapabilityBindingError (cbe_reason_code: string) (cbe_message: string) | BindingCoreError core_error

type_synonym schema_validator = "(string \<times> json) list \<Rightarrow> (string \<times> json) list \<Rightarrow> (string \<times> string) option"

definition claim :: "string \<Rightarrow> string \<Rightarrow> string \<Rightarrow> string \<Rightarrow> int \<Rightarrow> int \<Rightarrow> binding_error + capability_authorization_view" where
  "claim capability_id action version fingerprint minimum effective =
     mapErr BindingCoreError (post_init_capability_authorization_view
       \<lparr>cav_capability_id = capability_id, cav_action = action, cav_capability_version = version,
        cav_definition_fingerprint = fingerprint, cav_authoritative_minimum_side_effect = minimum,
        cav_effective_side_effect = effective\<rparr>)"

text \<open>The definition and action of a worker capability, or the error that names what is unknown.\<close>

definition worker_action ::
    "capability_registry \<Rightarrow> string \<Rightarrow> string \<Rightarrow> binding_error + (capability_definition \<times> capability_action_definition)" where
  "worker_action catalog capability_id action =
     (case registry_lookup catalog capability_id action of
        None \<Rightarrow> (case registry_get catalog capability_id of
            None \<Rightarrow> Inl (CapabilityBindingError ''UNKNOWN_CAPABILITY'' ''unknown capability'')
          | Some _ \<Rightarrow> Inl (CapabilityBindingError ''UNKNOWN_ACTION'' ''unknown action''))
      | Some (d, a) \<Rightarrow>
          if cd_executor_class d \<noteq> WORKER_EXECUTOR_CLASS
          then Inl (CapabilityBindingError ''UNKNOWN_CAPABILITY'' ''unknown capability'')
          else Inr (d, a))"

text \<open>\<open>x or default\<close> on an optional text: an empty text counts as absent.\<close>

definition or_text :: "string option \<Rightarrow> string \<Rightarrow> string" where
  "or_text x fallback = (case x of None \<Rightarrow> fallback | Some s \<Rightarrow> if s = [] then fallback else s)"

definition capability_view_for ::
    "capability_registry \<Rightarrow> string \<Rightarrow> string \<Rightarrow> int option \<Rightarrow> string option \<Rightarrow> string option
     \<Rightarrow> binding_error + capability_authorization_view" where
  "capability_view_for catalog capability_id action effective_side_effect capability_version definition_fingerprint =
     bindE (worker_action catalog capability_id action) (\<lambda>(d, a).
     claim (cd_capability_id d) (cad_action_id a) (or_text capability_version (cd_version d))
       (or_text definition_fingerprint (cd_definition_fingerprint d)) (cad_minimum_side_effect_level a)
       (case effective_side_effect of None \<Rightarrow> cad_minimum_side_effect_level a | Some n \<Rightarrow> n))"

definition INTEGRATION_CAPABILITY_VERSION :: string where "INTEGRATION_CAPABILITY_VERSION = ''integration''"

definition integration_capability_view_for ::
    "string \<Rightarrow> string \<Rightarrow> int option \<Rightarrow> binding_error + capability_authorization_view" where
  "integration_capability_view_for capability_id action effective_side_effect =
     (case lookup_integration_capability capability_id action of
        None \<Rightarrow> if capability_id \<in> set integration_capability_ids
          then Inl (CapabilityBindingError ''UNKNOWN_ACTION'' ''unknown action'')
          else Inl (CapabilityBindingError ''UNKNOWN_CAPABILITY'' ''unknown capability'')
      | Some entry \<Rightarrow> claim (iae_capability_id entry) (iae_action entry) INTEGRATION_CAPABILITY_VERSION
          (integration_definition_fingerprint (iae_capability_id entry)) (iae_minimum_side_effect_level entry)
          (case effective_side_effect of None \<Rightarrow> iae_minimum_side_effect_level entry | Some n \<Rightarrow> n))"

definition assert_legacy_compatible ::
    "schema_validator \<Rightarrow> experiment_plan \<Rightarrow> capability_action_definition \<Rightarrow> binding_error + unit" where
  "assert_legacy_compatible validate plan a =
     (if ep_side_effect_level plan < cad_minimum_side_effect_level a
      then Inl (CapabilityBindingError ''RISK_UNDERSTATEMENT'' ''legacy plan side effect is below current action minimum'')
      else if ep_side_effect_level plan > cad_maximum_side_effect_level a
      then Inl (CapabilityBindingError ''RISK_EXCEEDS_CAPABILITY'' ''legacy plan side effect exceeds current action maximum'')
      else (case validate_action_arguments validate (cad_argument_schema a) (JObj (ep_arguments plan)) of
          None \<Rightarrow> Inr ()
        | Some i \<Rightarrow> Inl (CapabilityBindingError (avi_reason_code i) (avi_message i))))"

definition capability_view_for_plan ::
    "schema_validator \<Rightarrow> capability_registry \<Rightarrow> experiment_plan \<Rightarrow> binding_error + capability_authorization_view" where
  "capability_view_for_plan validate catalog plan =
     bindE (worker_action catalog (ep_required_capability plan) (ep_action plan)) (\<lambda>(d, a).
     case (ep_capability_version plan, ep_capability_definition_fingerprint plan) of
       (Some version, Some fingerprint) \<Rightarrow>
         claim (ep_required_capability plan) (ep_action plan) version fingerprint (cad_minimum_side_effect_level a)
           (ep_side_effect_level plan)
     | _ \<Rightarrow>
         bindE (assert_legacy_compatible validate plan a) (\<lambda>_.
         claim (cd_capability_id d) (cad_action_id a) (cd_version d) (cd_definition_fingerprint d)
           (cad_minimum_side_effect_level a) (ep_side_effect_level plan)))"

definition require_new_plan_bindings :: "experiment_plan \<Rightarrow> binding_error + unit" where
  "require_new_plan_bindings plan =
     (if or_text (ep_capability_version plan) [] = [] \<or> or_text (ep_capability_definition_fingerprint plan) [] = []
      then Inl (CapabilityBindingError ''DEFINITION_FINGERPRINT_MISMATCH''
        ''new experiment plans must persist capability version and fingerprint'')
      else Inr ())"

section \<open>What a claim says\<close>

lemma worker_action_Inr:
  "worker_action catalog c act = Inr (d, a) \<longleftrightarrow>
     registry_get catalog c = Some d \<and> definition_action d act = Some a \<and> cd_executor_class d = WORKER_EXECUTOR_CLASS"
  by (auto simp: worker_action_def registry_lookup_def split: option.splits)

lemma claim_Inr:
  "claim c act version fingerprint minimum effective = Inr v \<Longrightarrow>
     v = \<lparr>cav_capability_id = c, cav_action = act, cav_capability_version = version, cav_definition_fingerprint = fingerprint,
          cav_authoritative_minimum_side_effect = minimum, cav_effective_side_effect = effective\<rparr>"
  by (simp add: claim_def post_init_capability_authorization_view_def raise_first_Inr_iff del: raise_first.simps)

text \<open>
  A claim built for a plan states the catalog's minimum and the plan's side effect; it is backed by the
  catalog as soon as its version and fingerprint are the current ones and the plan's level is in range.
\<close>

lemma capability_view_for_plan_Inr:
  assumes "capability_view_for_plan validate catalog plan = Inr v"
  obtains d a where "worker_action catalog (ep_required_capability plan) (ep_action plan) = Inr (d, a)"
    "cav_authoritative_minimum_side_effect v = cad_minimum_side_effect_level a"
    "cav_effective_side_effect v = ep_side_effect_level plan"
proof -
  from assms obtain d a where da: "worker_action catalog (ep_required_capability plan) (ep_action plan) = Inr (d, a)"
    and v: "(case (ep_capability_version plan, ep_capability_definition_fingerprint plan) of
       (Some version, Some fingerprint) \<Rightarrow>
         claim (ep_required_capability plan) (ep_action plan) version fingerprint (cad_minimum_side_effect_level a)
           (ep_side_effect_level plan)
     | _ \<Rightarrow>
         bindE (assert_legacy_compatible validate plan a) (\<lambda>_.
         claim (cd_capability_id d) (cad_action_id a) (cd_version d) (cd_definition_fingerprint d)
           (cad_minimum_side_effect_level a) (ep_side_effect_level plan))) = Inr v"
    unfolding capability_view_for_plan_def by (elim bindE_InrE) auto
  from v show thesis
    by (intro that [OF da]; cases "ep_capability_version plan"; cases "ep_capability_definition_fingerprint plan")
      (auto simp: bindE_Inr_iff dest!: claim_Inr)
qed

end
