(* ===== verification/Transition_A.thy ===== *)
theory Transition_A
  imports Http_Authorization Records
begin

text \<open>
  Transition A: the normalisers that turn a worker result into observation drafts
  (\<open>application/transition_a/*.py\<close>), and their registry.  \<open>fromiso\<close> is \<open>datetime.fromisoformat\<close>: \<open>None\<close> when the text is
  no timestamp, \<open>Some None\<close> for one without a time zone.  Messages leave out interpolated values.
\<close>

section \<open>Drafts and errors\<close>

datatype transition_error =
    UnsupportedNormalizerError string
  | MalformedNormalizedPayloadError string
  | DraftInputError persistence_error
  | TransitionTypeError

record observation_draft =
  odr_observation_kind :: string
  odr_payload :: payload
  odr_normalization_version :: string
  odr_observed_at :: int

definition DRAFT_FORBIDDEN_KEYS :: "string list" where
  "DRAFT_FORBIDDEN_KEYS = [''severity'', ''confidence'', ''vulnerability_type'', ''impact'', ''evidence_status'',
     ''finding_status'', ''candidate_status'']"

definition post_init_observation_draft :: "observation_draft \<Rightarrow> persistence_error + observation_draft" where
  "post_init_observation_draft d = raise_first
     [bad_id (odr_observation_kind d) ''observation_kind'',
      bad_text (odr_normalization_version d) ''normalization_version'',
      bad_keys (odr_payload d) DRAFT_FORBIDDEN_KEYS ''ObservationDraft payload must not carry forbidden keys''] d"

type_synonym iso_parser = "string \<Rightarrow> int option option"

definition malformed :: "string \<Rightarrow> transition_error + 'a" where
  "malformed m = Inl (MalformedNormalizedPayloadError m)"

definition parse_aware_timestamp :: "iso_parser \<Rightarrow> json \<Rightarrow> string \<Rightarrow> transition_error + int" where
  "parse_aware_timestamp fromiso j f =
     (case j of
        JStr s \<Rightarrow>
          if blank s then malformed (f @ '' must be a timezone-aware timestamp'')
          else let text = py_strip s in
            (case fromiso (if py_endswith text ''Z'' then butlast text @ ''+00:00'' else text) of
               None \<Rightarrow> malformed (f @ '' is not a valid timestamp'')
             | Some None \<Rightarrow> malformed (f @ '' must be timezone-aware'')
             | Some (Some t) \<Rightarrow> Inr t)
      | _ \<Rightarrow> malformed (f @ '' must be a timezone-aware timestamp''))"

text \<open>\<open>a or b\<close> on JSON values; \<open>isinstance(v, int)\<close> holds of booleans too.\<close>

definition or_json :: "json \<Rightarrow> json \<Rightarrow> json" where
  "or_json a b = (if truthy a then a else b)"

definition is_int :: "json \<Rightarrow> bool" where
  "is_int j = (case j of JInt _ \<Rightarrow> True | JBool _ \<Rightarrow> True | _ \<Rightarrow> False)"

definition int_value :: "json \<Rightarrow> int" where
  "int_value j = (case j of JInt n \<Rightarrow> n | JBool b \<Rightarrow> (if b then 1 else 0) | _ \<Rightarrow> 0)"

definition is_str :: "json \<Rightarrow> bool" where
  "is_str j = (case j of JStr _ \<Rightarrow> True | _ \<Rightarrow> False)"

definition status_class :: "int \<Rightarrow> string" where
  "status_class n =
     (if 100 \<le> n \<and> n \<le> 199 then ''1xx'' else if 200 \<le> n \<and> n \<le> 299 then ''2xx''
      else if 300 \<le> n \<and> n \<le> 399 then ''3xx'' else if 400 \<le> n \<and> n \<le> 499 then ''4xx''
      else if 500 \<le> n \<and> n \<le> 599 then ''5xx'' else ''unknown'')"

definition STATUSES_WITHOUT_TARGET_OBSERVATION :: "string list" where
  "STATUSES_WITHOUT_TARGET_OBSERVATION =
     [''EXECUTION_FAILED'', ''BLOCKED'', ''CANCELLED'', ''TIMED_OUT'', ''BUDGET_EXHAUSTED'', ''REAUTHORIZATION_REQUIRED'']"

text \<open>
  The common frame of the normalisers: no draft without a target observation, and otherwise a raw result
  from which \<open>k\<close> builds the payload of the single draft.
\<close>

definition normalize_with ::
    "iso_parser \<Rightarrow> string \<Rightarrow> string \<Rightarrow> payload \<Rightarrow> (payload \<Rightarrow> transition_error + payload) \<Rightarrow> transition_error + observation_draft list" where
  "normalize_with fromiso kind version result k =
     (case jget result ''status'' of
        JArr _ \<Rightarrow> Inl TransitionTypeError
      | JObj _ \<Rightarrow> Inl TransitionTypeError
      | status \<Rightarrow>
          if status \<in> set (map JStr STATUSES_WITHOUT_TARGET_OBSERVATION) then Inr []
          else if status \<noteq> JStr ''SUCCEEDED'' then malformed ''unsupported WorkerResult.status''
          else (case jget result ''raw_result'' of
            JObj raw \<Rightarrow>
              bindE (k raw) (\<lambda>p.
              bindE (parse_aware_timestamp fromiso (or_json (jget result ''completed_at'') (jget result ''started_at''))
                ''completed_at'') (\<lambda>observed_at.
              bindE (mapErr DraftInputError (post_init_observation_draft
                \<lparr>odr_observation_kind = kind, odr_payload = p, odr_normalization_version = version,
                 odr_observed_at = observed_at\<rparr>)) (\<lambda>d. Inr [d])))
          | _ \<Rightarrow> malformed ''SUCCEEDED requires raw_result''))"

definition request_arguments :: "payload \<Rightarrow> payload" where
  "request_arguments request = (case jget request ''arguments'' of JObj arguments \<Rightarrow> arguments | _ \<Rightarrow> [])"

text \<open>The check that no key, in lower case, is forbidden.\<close>

definition reject_keys :: "string list \<Rightarrow> payload \<Rightarrow> transition_error + payload" where
  "reject_keys forbidden p =
     (if list_ex (\<lambda>(k, _). py_lower k \<in> set forbidden) p then malformed ''observation must not carry forbidden keys''
      else Inr p)"

section \<open>diagnostic.echo\<close>

definition echo_payload :: "payload \<Rightarrow> transition_error + payload" where
  "echo_payload raw = (case jget raw ''echoed'' of
     JStr s \<Rightarrow> Inr [(''echoed'', JStr s)]
   | _ \<Rightarrow> malformed ''SUCCEEDED diagnostic.echo raw_result.echoed must be a string'')"

section \<open>http.transaction\<close>

definition TRANSACTION_FORBIDDEN_KEYS :: "string list" where
  "TRANSACTION_FORBIDDEN_KEYS = [''is_vulnerable'', ''severity'', ''finding'', ''confidence'', ''cookie'', ''authorization'',
     ''set-cookie'', ''password'', ''token'', ''secret'']"

definition ALLOWED_RESPONSE_HEADER_KEYS :: "string list" where
  "ALLOWED_RESPONSE_HEADER_KEYS = [''content-type'', ''location'']"

fun response_headers :: "payload \<Rightarrow> payload \<Rightarrow> payload" where
  "response_headers [] acc = acc"
| "response_headers ((name, v) # rest) acc =
     response_headers rest
       (if is_str v \<and> py_lower name \<in> set ALLOWED_RESPONSE_HEADER_KEYS then dict_set (py_lower name) v acc else acc)"

definition transaction_payload :: "payload \<Rightarrow> payload \<Rightarrow> transition_error + payload" where
  "transaction_payload raw arguments =
     (let status_code = jget raw ''status_code'';
          meth = or_json (jget raw ''method'') (jget arguments ''method'');
          path = or_json (jget raw ''path'') (jget arguments ''path'') in
      if \<not> is_int status_code then malformed ''raw_result.status_code must be an int''
      else if \<not> is_str meth \<or> \<not> is_str path then malformed ''raw_result method and path must be strings''
      else let headers = (case jget raw ''response_headers'' of JObj hs \<Rightarrow> response_headers hs [] | _ \<Rightarrow> []) in
        Inr ([(''authorized_origin'', or_json (jget raw ''authorized_origin'') (jget arguments ''authorized_origin'')),
              (''method'', meth), (''path'', path), (''status_code'', status_code),
              (''status_class'', JStr (status_class (int_value status_code))),
              (''content_type'', or_json (jget raw ''content_type'') (jget headers ''content-type'')),
              (''body_length'', jget raw ''body_length''), (''body_digest'', jget raw ''body_digest''),
              (''request_fingerprint'', jget raw ''request_fingerprint''), (''elapsed_ms'', jget raw ''elapsed_ms''),
              (''redirect'', JBool False)]
          @ (if headers \<noteq> [] then [(''response_headers'', JObj headers)] else [])
          @ (case jget raw ''json_value_kind'' of JStr k \<Rightarrow> if blank k then [] else [(''json_value_kind'', JStr k)] | _ \<Rightarrow> [])
          @ (case jget raw ''json_top_level_keys'' of
               JArr ks \<Rightarrow> if list_all is_str ks then [(''json_top_level_keys'', JArr ks)] else [] | _ \<Rightarrow> [])))"

section \<open>http.authentication\<close>

definition AUTHENTICATION_FORBIDDEN_KEYS :: "string list" where
  "AUTHENTICATION_FORBIDDEN_KEYS = TRANSACTION_FORBIDDEN_KEYS @ [''session'']"

definition authentication_payload :: "payload \<Rightarrow> payload \<Rightarrow> transition_error + payload" where
  "authentication_payload raw arguments =
     (let status_code = jget raw ''status_code''; established = jget raw ''session_established'';
          given = (\<lambda>name. or_json (jget raw name) (jget arguments name)) in
      if \<not> is_int status_code then malformed ''raw_result.status_code must be an int''
      else if established \<notin> {JBool True, JBool False} then malformed ''raw_result.session_established must be a bool''
      else if \<not> is_str (given ''path'') \<or> \<not> is_str (given ''authorized_origin'')
      then malformed ''raw_result origin and path must be strings''
      else Inr
        [(''authorized_origin'', given ''authorized_origin''), (''method'', JStr ''POST''), (''path'', given ''path''),
         (''status_code'', status_code), (''status_class'', JStr (status_class (int_value status_code))),
         (''session_established'', established), (''identity_id'', given ''identity_id''),
         (''session_context_id'', given ''session_context_id''), (''redirect'', JBool False)])"

section \<open>http.authorization.differential\<close>

text \<open>An optional text of a control request: absent, or present and not blank.\<close>

definition optional_field :: "payload \<Rightarrow> string \<Rightarrow> string \<Rightarrow> transition_error + payload" where
  "optional_field item field target = (case jget item field of
     JNull \<Rightarrow> Inr []
   | JStr s \<Rightarrow> if blank s then malformed ''must be a non-empty string when present'' else Inr [(target, JStr (py_strip s))]
   | _ \<Rightarrow> malformed ''must be a non-empty string when present'')"

definition nonblank_str :: "json \<Rightarrow> bool" where
  "nonblank_str j = (case j of JStr s \<Rightarrow> \<not> blank s | _ \<Rightarrow> False)"

definition stripped_str :: "json \<Rightarrow> json" where
  "stripped_str j = (case j of JStr s \<Rightarrow> JStr (py_strip s) | _ \<Rightarrow> j)"

definition readers_field :: "payload \<Rightarrow> string \<Rightarrow> transition_error + payload" where
  "readers_field item target = (case jget item ''object_authorized_readers'' of
     JNull \<Rightarrow> Inr []
   | JArr rs \<Rightarrow> if list_all nonblank_str rs then Inr [(target, JArr (map stripped_str rs))]
       else malformed ''must be a list of strings when present''
   | _ \<Rightarrow> malformed ''must be a list of strings when present'')"

definition control_fields :: "payload \<Rightarrow> string \<Rightarrow> transition_error + payload" where
  "control_fields raw key = (case jget raw key of
     JObj item \<Rightarrow>
       if \<not> is_int (jget item ''status'') then malformed ''status must be an int''
       else bindE (optional_field item ''object_owner'' (key @ ''_object_owner'')) (\<lambda>owner.
            bindE (optional_field item ''object_visibility'' (key @ ''_visibility'')) (\<lambda>visibility.
            bindE (readers_field item (key @ ''_authorized_readers'')) (\<lambda>readers.
            bindE (optional_field item ''object_resource_kind'' (key @ ''_resource_kind'')) (\<lambda>kind.
            Inr ([(key @ ''_status'', jget item ''status'')] @ owner @ visibility @ readers @ kind)))))
   | _ \<Rightarrow> malformed ''raw_result request must be an object'')"

fun all_control_fields :: "payload \<Rightarrow> string list \<Rightarrow> transition_error + payload" where
  "all_control_fields raw [] = Inr []"
| "all_control_fields raw (key # keys) =
     bindE (control_fields raw key) (\<lambda>fs. bindE (all_control_fields raw keys) (\<lambda>rest. Inr (fs @ rest)))"

definition DIFFERENTIAL_REQUEST_KEYS :: "string list" where
  "DIFFERENTIAL_REQUEST_KEYS = [''owner_request'', ''cross_object_request'', ''secure_control'', ''unauthenticated_control'']"

definition differential_payload :: "payload \<Rightarrow> payload \<Rightarrow> transition_error + payload" where
  "differential_payload raw arguments =
     bindE (all_control_fields raw DIFFERENTIAL_REQUEST_KEYS) (\<lambda>fields.
     Inr ([(''authorized_origin'', or_json (jget raw ''authorized_origin'') (jget arguments ''authorized_origin'')),
           (''mode'', or_json (jget raw ''mode'') (jget arguments ''mode'')), (''actor'', jget arguments ''actor''),
           (''own_object'', jget arguments ''own_object''), (''cross_object'', jget arguments ''cross_object'')] @ fields))"

section \<open>http.state_transition\<close>

definition TRANSITION_REQUEST_KEYS :: "string list" where
  "TRANSITION_REQUEST_KEYS = [''pre_state_request'', ''transition_request'', ''post_state_request'', ''control_request'']"

fun require_requests :: "payload \<Rightarrow> string list \<Rightarrow> transition_error + unit" where
  "require_requests raw [] = Inr ()"
| "require_requests raw (key # keys) = (case jget raw key of
     JObj item \<Rightarrow> if is_int (jget item ''status'') then require_requests raw keys else malformed ''status must be an int''
   | _ \<Rightarrow> malformed ''raw_result request must be an object'')"

definition text_or_null :: "json \<Rightarrow> json" where
  "text_or_null j = (if nonblank_str j then stripped_str j else JNull)"

definition listed :: "json \<Rightarrow> transition_error + json" where
  "listed j = (case iter_or_empty j of None \<Rightarrow> Inl TransitionTypeError | Some xs \<Rightarrow> Inr (JArr xs))"

definition object_of :: "payload \<Rightarrow> string \<Rightarrow> payload" where
  "object_of raw key = (case jget raw key of JObj item \<Rightarrow> item | _ \<Rightarrow> [])"

definition state_transition_payload :: "payload \<Rightarrow> payload \<Rightarrow> transition_error + payload" where
  "state_transition_payload raw arguments =
     bindE (require_requests raw TRANSITION_REQUEST_KEYS) (\<lambda>_.
     let pre = object_of raw ''pre_state_request''; transition = object_of raw ''transition_request'';
         post = object_of raw ''post_state_request''; control = object_of raw ''control_request'';
         pre_state = text_or_null (jget pre ''state''); post_state = text_or_null (jget post ''state'') in
     bindE (listed (jget pre ''delegated_reviewers'')) (\<lambda>reviewers.
     bindE (listed (jget pre ''approve_from_states'')) (\<lambda>states.
     Inr
       [(''authorized_origin'', or_json (jget raw ''authorized_origin'') (jget arguments ''authorized_origin'')),
        (''area'', or_json (jget raw ''area'') (jget arguments ''area'')),
        (''actor'', text_or_null (jget arguments ''actor'')),
        (''actor_role'', text_or_null (or_json (jget pre ''actor_role'') (jget post ''actor_role''))),
        (''resource_id'', or_json (jget raw ''resource_id'') (jget arguments ''resource_id'')),
        (''requested_transition'', or_json (jget raw ''requested_transition'') (jget arguments ''transition'')),
        (''pre_state'', pre_state), (''response_status'', jget transition ''status''), (''post_state'', post_state),
        (''state_changed'', JBool (truthy pre_state \<and> truthy post_state \<and> pre_state \<noteq> post_state)),
        (''approved_by'', text_or_null (jget post ''approved_by'')),
        (''owner'', text_or_null (or_json (jget pre ''owner'') (jget post ''owner''))),
        (''delegated_reviewers'', reviewers),
        (''approve_requires_role'', text_or_null (jget pre ''approve_requires_role'')),
        (''approve_from_states'', states), (''control_status'', jget control ''status''),
        (''pre_status'', jget pre ''status''), (''post_status'', jget post ''status''),
        (''transition_ok'', JBool (jget transition ''ok'' = JBool True))])))"

section \<open>browser.page\<close>

definition PAGE_FORBIDDEN_KEYS :: "string list" where
  "PAGE_FORBIDDEN_KEYS = [''is_vulnerable'', ''severity'', ''finding'', ''confidence'', ''candidate'', ''cookie'', ''authorization'',
     ''set-cookie'', ''password'', ''token'', ''secret'', ''html'', ''innerhtml'', ''textcontent'', ''screenshot'']"

definition FORBIDDEN_CONTROL_KEYS :: "string list" where
  "FORBIDDEN_CONTROL_KEYS = [''value'', ''input_value'', ''password'', ''innerhtml'', ''textcontent'', ''html'', ''cookie'', ''token'',
     ''secret'']"

definition FORBIDDEN_EVENT_KEYS :: "string list" where
  "FORBIDDEN_EVENT_KEYS = [''cookie'', ''set-cookie'', ''authorization'', ''proxy-authorization'', ''password'', ''token'', ''secret'',
     ''body'', ''headers'']"

definition ALLOWED_CONTROL_KEYS :: "string list" where
  "ALLOWED_CONTROL_KEYS = [''element_reference'', ''snapshot_fingerprint'', ''tag'', ''role'', ''input_type'', ''disabled'', ''checked'',
     ''name'', ''aria_label'', ''placeholder'', ''href_scheme'', ''href_origin'', ''href_path'']"

definition ALLOWED_EVENT_KEYS :: "string list" where
  "ALLOWED_EVENT_KEYS = [''event_id'', ''method'', ''resource_type'', ''normalized_target'', ''path'', ''status_code'', ''request_bytes'',
     ''response_bytes'', ''redirect'', ''representability'', ''body_digest'']"

definition MAX_CONTROLS :: nat where "MAX_CONTROLS = 32"
definition MAX_EVENTS :: nat where "MAX_EVENTS = 32"
definition CONTROL_TEXT_CAP :: nat where "CONTROL_TEXT_CAP = 64"

definition page_text :: "json \<Rightarrow> string \<Rightarrow> json" where
  "page_text j fallback = (case j of
     JStr s \<Rightarrow> if blank s then JStr fallback else JStr (if length s > 2048 then take CONTROL_TEXT_CAP s else s)
   | _ \<Rightarrow> JStr fallback)"

definition capped_text :: "json \<Rightarrow> string \<Rightarrow> json" where
  "capped_text j fallback = (case j of JStr s \<Rightarrow> JStr (take CONTROL_TEXT_CAP s) | _ \<Rightarrow> JStr fallback)"

definition page_int :: "json \<Rightarrow> int \<Rightarrow> json" where
  "page_int j fallback = (case j of JInt n \<Rightarrow> JInt (if n \<ge> 0 then n else fallback) | _ \<Rightarrow> JInt fallback)"

definition page_control :: "payload \<Rightarrow> transition_error + json" where
  "page_control item =
     (if list_ex (\<lambda>(k, _). py_lower k \<in> set FORBIDDEN_CONTROL_KEYS) item then malformed ''control must not carry forbidden keys''
      else if \<not> is_str (jget item ''element_reference'') \<or> \<not> is_str (jget item ''snapshot_fingerprint'')
      then malformed ''control references must be strings''
      else if list_ex (\<lambda>(k, _). k \<notin> set ALLOWED_CONTROL_KEYS) item then malformed ''control has unsupported fields''
      else Inr (JObj
        [(''element_reference'', jget item ''element_reference''), (''snapshot_fingerprint'', jget item ''snapshot_fingerprint''),
         (''tag'', capped_text (jget item ''tag'') []), (''role'', capped_text (jget item ''role'') []),
         (''input_type'', capped_text (jget item ''input_type'') []), (''disabled'', JBool (truthy (jget item ''disabled''))),
         (''checked'', JBool (truthy (jget item ''checked''))), (''name'', capped_text (jget item ''name'') []),
         (''aria_label'', capped_text (jget item ''aria_label'') []), (''placeholder'', capped_text (jget item ''placeholder'') []),
         (''href_scheme'', capped_text (jget item ''href_scheme'') []), (''href_origin'', capped_text (jget item ''href_origin'') []),
         (''href_path'', capped_text (jget item ''href_path'') [])]))"

definition event_numbers :: "payload \<Rightarrow> payload" where
  "event_numbers item =
     (case jget item ''status_code'' of JInt n \<Rightarrow> [(''status_code'', JInt n)] | _ \<Rightarrow> [])
     @ concat (map (\<lambda>name. case jget item name of JInt n \<Rightarrow> if n \<ge> 0 then [(name, JInt n)] else [] | _ \<Rightarrow> [])
         [''request_bytes'', ''response_bytes''])
     @ (case jget item ''body_digest'' of JStr s \<Rightarrow> if blank s then [] else [(''body_digest'', JStr s)] | _ \<Rightarrow> [])"

definition page_event :: "payload \<Rightarrow> transition_error + json" where
  "page_event item =
     (if list_ex (\<lambda>(k, _). py_lower k \<in> set FORBIDDEN_EVENT_KEYS) item
      then malformed ''network event must not carry forbidden keys''
      else if \<not> is_str (jget item ''event_id'') \<or> \<not> is_str (jget item ''method'') \<or> \<not> is_str (jget item ''normalized_target'')
      then malformed ''network event identity fields must be strings''
      else if list_ex (\<lambda>(k, _). k \<notin> set ALLOWED_EVENT_KEYS) item then malformed ''network event has unsupported fields''
      else Inr (JObj
        ([(''event_id'', jget item ''event_id''), (''method'', jget item ''method''),
          (''resource_type'', page_text (jget item ''resource_type'') ''other''),
          (''normalized_target'', jget item ''normalized_target''), (''path'', page_text (jget item ''path'') ''/''),
          (''redirect'', JBool (truthy (jget item ''redirect''))),
          (''representability'', page_text (jget item ''representability'') ''NOT_REPRESENTABLE'')]
         @ event_numbers item)))"

text \<open>The loop over at most \<open>n\<close> entries of an optional array.\<close>

fun entries :: "(payload \<Rightarrow> transition_error + json) \<Rightarrow> json list \<Rightarrow> transition_error + json list" where
  "entries f [] = Inr []"
| "entries f (x # xs) = (case x of
     JObj item \<Rightarrow> bindE (f item) (\<lambda>y. bindE (entries f xs) (\<lambda>ys. Inr (y # ys)))
   | _ \<Rightarrow> malformed ''entries must be objects'')"

definition bounded_entries :: "nat \<Rightarrow> (payload \<Rightarrow> transition_error + json) \<Rightarrow> json \<Rightarrow> transition_error + json" where
  "bounded_entries n f j = (case j of
     JNull \<Rightarrow> Inr (JArr [])
   | JArr xs \<Rightarrow> bindE (entries f (take n xs)) (\<lambda>ys. Inr (JArr ys))
   | _ \<Rightarrow> malformed ''must be an array'')"

definition page_payload :: "payload \<Rightarrow> transition_error + payload" where
  "page_payload raw =
     (if \<not> nonblank_str (jget raw ''snapshot_fingerprint'') then malformed ''raw_result.snapshot_fingerprint must be a string''
      else if \<not> nonblank_str (jget raw ''normalized_url'') then malformed ''raw_result.normalized_url must be a string''
      else if \<not> is_str (jget raw ''browser_context_reference'') \<or> \<not> is_str (jget raw ''page_reference'')
      then malformed ''browser context and page references must be strings''
      else (case jget raw ''attempted_network_requests'' of
        JInt attempted \<Rightarrow>
          if attempted < 0 then malformed ''attempted_network_requests must be a non-negative int''
          else bindE (bounded_entries MAX_CONTROLS page_control (jget raw ''controls'')) (\<lambda>controls.
               bindE (bounded_entries MAX_EVENTS page_event (jget raw ''network_events'')) (\<lambda>events.
               Inr [(''browser_context_reference'', jget raw ''browser_context_reference''),
                    (''page_reference'', jget raw ''page_reference''),
                    (''snapshot_fingerprint'', jget raw ''snapshot_fingerprint''), (''normalized_url'', jget raw ''normalized_url''),
                    (''ready_state'', page_text (jget raw ''ready_state'') ''complete''),
                    (''frame_count'', page_int (jget raw ''frame_count'') 1), (''attempted_network_requests'', JInt attempted),
                    (''snapshot_schema_version'', page_text (jget raw ''snapshot_schema_version'') ''browser.page.v1''),
                    (''controls'', controls), (''network_events'', events)]))
      | _ \<Rightarrow> malformed ''attempted_network_requests must be a non-negative int''))"

section \<open>The registry\<close>

datatype normalizer = DiagnosticEcho | AuthorizationDifferential | StateTransition | Transaction string | Authentication
  | BrowserPage string

definition registered_normalizers :: "normalizer list" where
  "registered_normalizers = [DiagnosticEcho, AuthorizationDifferential, StateTransition, Transaction ''read'', Transaction ''mutate'',
     Authentication, BrowserPage ''observe'', BrowserPage ''navigate'', BrowserPage ''interact'']"

fun normalizer_key :: "normalizer \<Rightarrow> string \<times> string" where
  "normalizer_key DiagnosticEcho = (''diagnostic.echo'', ''echo'')"
| "normalizer_key AuthorizationDifferential = (HTTP_AUTHORIZATION_DIFFERENTIAL_CAPABILITY, ''probe'')"
| "normalizer_key StateTransition = (HTTP_STATE_TRANSITION_CAPABILITY, ''probe'')"
| "normalizer_key (Transaction action) = (HTTP_TRANSACTION_CAPABILITY, action)"
| "normalizer_key Authentication = (HTTP_AUTHENTICATION_CAPABILITY, ''login'')"
| "normalizer_key (BrowserPage action) = (BROWSER_PAGE_CAPABILITY, action)"

definition normalizer_for :: "string \<Rightarrow> string \<Rightarrow> transition_error + normalizer" where
  "normalizer_for capability action =
     (case map_of (map (\<lambda>n. (normalizer_key n, n)) (rev registered_normalizers)) (capability, action) of
        None \<Rightarrow> Inl (UnsupportedNormalizerError ''no Transition A normalizer'') | Some n \<Rightarrow> Inr n)"

text \<open>The version constant of a normaliser, and the kind of its observations.\<close>

fun normalizer_version :: "normalizer \<Rightarrow> string" where
  "normalizer_version DiagnosticEcho = ''diagnostic.echo.v1''"
| "normalizer_version AuthorizationDifferential = ''http.authorization.differential.v1''"
| "normalizer_version StateTransition = ''http.state_transition.v1''"
| "normalizer_version (Transaction _) = ''http.transaction.v1''"
| "normalizer_version Authentication = ''http.authentication.v1''"
| "normalizer_version (BrowserPage _) = ''browser.page.v1''"

fun normalizer_kind :: "normalizer \<Rightarrow> string" where
  "normalizer_kind DiagnosticEcho = ''diagnostic.echo''"
| "normalizer_kind AuthorizationDifferential = ''HTTP_AUTHORIZATION_DIFFERENTIAL''"
| "normalizer_kind StateTransition = ''HTTP_STATE_TRANSITION_AUTHORIZATION''"
| "normalizer_kind (Transaction _) = ''HTTP_TRANSACTION''"
| "normalizer_kind Authentication = ''HTTP_AUTHENTICATION''"
| "normalizer_kind (BrowserPage _) = ''BROWSER_PAGE_STATE''"

fun normalizer_payload :: "normalizer \<Rightarrow> payload \<Rightarrow> payload \<Rightarrow> transition_error + payload" where
  "normalizer_payload DiagnosticEcho arguments raw = echo_payload raw"
| "normalizer_payload AuthorizationDifferential arguments raw = differential_payload raw arguments"
| "normalizer_payload StateTransition arguments raw = state_transition_payload raw arguments"
| "normalizer_payload (Transaction _) arguments raw =
     bindE (transaction_payload raw arguments) (reject_keys TRANSACTION_FORBIDDEN_KEYS)"
| "normalizer_payload Authentication arguments raw =
     bindE (authentication_payload raw arguments) (reject_keys AUTHENTICATION_FORBIDDEN_KEYS)"
| "normalizer_payload (BrowserPage _) arguments raw =
     bindE (reject_keys PAGE_FORBIDDEN_KEYS raw) (\<lambda>_. bindE (page_payload raw) (reject_keys PAGE_FORBIDDEN_KEYS))"

definition normalize :: "iso_parser \<Rightarrow> normalizer \<Rightarrow> payload \<Rightarrow> payload \<Rightarrow> transition_error + observation_draft list" where
  "normalize fromiso n request result =
     normalize_with fromiso (normalizer_kind n) (normalizer_version n) result (normalizer_payload n (request_arguments request))"

section \<open>What a draft may say\<close>

text \<open>
  The vocabulary of each kind of observation.  The frame asks of a payload builder only that it keeps to
  a vocabulary; the drafts then do.
\<close>

fun observation_keys :: "normalizer \<Rightarrow> string list" where
  "observation_keys DiagnosticEcho = [''echoed'']"
| "observation_keys AuthorizationDifferential = [''authorized_origin'', ''mode'', ''actor'', ''own_object'', ''cross_object'']
     @ concat (map (\<lambda>key. map ((@) key) [''_status'', ''_object_owner'', ''_visibility'', ''_authorized_readers'', ''_resource_kind''])
         DIFFERENTIAL_REQUEST_KEYS)"
| "observation_keys StateTransition = [''authorized_origin'', ''area'', ''actor'', ''actor_role'', ''resource_id'',
     ''requested_transition'', ''pre_state'', ''response_status'', ''post_state'', ''state_changed'', ''approved_by'', ''owner'',
     ''delegated_reviewers'', ''approve_requires_role'', ''approve_from_states'', ''control_status'', ''pre_status'', ''post_status'',
     ''transition_ok'']"
| "observation_keys (Transaction _) = [''authorized_origin'', ''method'', ''path'', ''status_code'', ''status_class'', ''content_type'',
     ''body_length'', ''body_digest'', ''request_fingerprint'', ''elapsed_ms'', ''redirect'', ''response_headers'', ''json_value_kind'',
     ''json_top_level_keys'']"
| "observation_keys Authentication = [''authorized_origin'', ''method'', ''path'', ''status_code'', ''status_class'',
     ''session_established'', ''identity_id'', ''session_context_id'', ''redirect'']"
| "observation_keys (BrowserPage _) = [''browser_context_reference'', ''page_reference'', ''snapshot_fingerprint'', ''normalized_url'',
     ''ready_state'', ''frame_count'', ''attempted_network_requests'', ''snapshot_schema_version'', ''controls'', ''network_events'']"

definition names :: "payload \<Rightarrow> string set" where
  "names p = fst ` set p"

lemma names_simps [simp]: "names [] = {}" "names (kv # p) = insert (fst kv) (names p)" "names (p @ q) = names p \<union> names q"
  by (auto simp: names_def)

locale payload_builder =
  fixes build :: "payload \<Rightarrow> payload \<Rightarrow> transition_error + payload" and vocabulary :: "string list"
  assumes keeps_vocabulary: "build arguments raw = Inr p \<Longrightarrow> names p \<subseteq> set vocabulary"
begin

lemma drafts:
  assumes "normalize_with fromiso kind version result (build arguments) = Inr ds"
  shows "length ds \<le> 1"
    and "d \<in> set ds \<Longrightarrow> jget result ''status'' = JStr ''SUCCEEDED'' \<and> odr_observation_kind d = kind \<and>
      odr_normalization_version d = version \<and>
      (\<exists>raw. jget result ''raw_result'' = JObj raw \<and> build arguments raw = Inr (odr_payload d))"
  using assms
  by (auto simp: normalize_with_def malformed_def bindE_Inr_iff post_init_observation_draft_def raise_first_Inr_iff
      simp del: raise_first.simps split: json.splits if_splits)

lemma draft_names:
  "normalize_with fromiso kind version result (build arguments) = Inr ds \<Longrightarrow> d \<in> set ds \<Longrightarrow> names (odr_payload d) \<subseteq> set vocabulary"
  using drafts(2) keeps_vocabulary by blast

end

lemma optional_field_names: "optional_field item field target = Inr p \<Longrightarrow> names p \<subseteq> {target}"
  by (auto simp: optional_field_def malformed_def split: json.splits if_splits)

lemma readers_field_names: "readers_field item target = Inr p \<Longrightarrow> names p \<subseteq> {target}"
  by (auto simp: readers_field_def malformed_def split: json.splits if_splits)

lemma control_fields_names: "control_fields raw key = Inr p \<Longrightarrow>
    names p \<subseteq> (@) key ` {''_status'', ''_object_owner'', ''_visibility'', ''_authorized_readers'', ''_resource_kind''}"
  by (fastforce simp: control_fields_def malformed_def bindE_Inr_iff split: json.splits if_splits
      dest: optional_field_names readers_field_names)

lemma all_control_fields_names: "all_control_fields raw keys = Inr p \<Longrightarrow>
    names p \<subseteq> (\<Union>key \<in> set keys. (@) key ` {''_status'', ''_object_owner'', ''_visibility'', ''_authorized_readers'', ''_resource_kind''})"
  by (induction keys arbitrary: p) (fastforce simp: bindE_Inr_iff dest!: control_fields_names)+

lemma reject_keys_Inr: "reject_keys forbidden p = Inr q \<longleftrightarrow> q = p \<and> (\<forall>k \<in> names p. py_lower k \<notin> set forbidden)"
  by (fastforce simp: reject_keys_def malformed_def names_def list_ex_iff split: if_splits)

lemma echo_names: "echo_payload raw = Inr p \<Longrightarrow> names p \<subseteq> set (observation_keys DiagnosticEcho)"
  by (auto simp: echo_payload_def malformed_def split: json.splits)

lemma state_transition_names:
  "state_transition_payload raw arguments = Inr p \<Longrightarrow> names p \<subseteq> set (observation_keys StateTransition)"
  by (auto simp: state_transition_payload_def Let_def bindE_Inr_iff)

lemma passed_check: "(if b then Inl e else x) = Inr y \<longleftrightarrow> \<not> b \<and> x = Inr y"
  by simp

lemma optional_names:
  "names (case j of JStr s \<Rightarrow> if f s then [] else [(k, g s)] | _ \<Rightarrow> []) \<subseteq> {k}"
  "names (case j of JInt n \<Rightarrow> [(k, JInt n)] | _ \<Rightarrow> []) \<subseteq> {k}"
  "names (case j of JInt n \<Rightarrow> if m n then [(k, JInt n)] else [] | _ \<Rightarrow> []) \<subseteq> {k}"
  by (auto split: json.splits)

lemma transaction_names:
  assumes "transaction_payload raw arguments = Inr p"
  shows "names p \<subseteq> set (observation_keys (Transaction action))"
proof -
  let ?allowed = "set (observation_keys (Transaction action))"
  have within: "names (xs @ (if c then [(''response_headers'', e)] else [])
      @ (case j of JStr s \<Rightarrow> if f s then [] else [(''json_value_kind'', g s)] | _ \<Rightarrow> [])
      @ (case ks of JArr ys \<Rightarrow> if h ys then [(''json_top_level_keys'', k ys)] else [] | _ \<Rightarrow> [])) \<subseteq> ?allowed"
    if "names xs \<subseteq> ?allowed" for xs c e j f g ks h k
    using that by (auto split: json.splits)
  show ?thesis
    using assms unfolding transaction_payload_def Let_def malformed_def passed_check
    by (elim conjE) (drule Inr_inject, erule subst, rule within, simp)
qed

lemma authentication_names:
  "authentication_payload raw arguments = Inr p \<Longrightarrow> names p \<subseteq> set (observation_keys Authentication)"
  by (auto simp: authentication_payload_def malformed_def Let_def split: if_splits)

lemma page_names:
  assumes "page_payload raw = Inr p"
  shows "names p \<subseteq> set (observation_keys (BrowserPage action))"
  using assms unfolding page_payload_def malformed_def
  by (cases "jget raw ''attempted_network_requests''") (auto simp: bindE_Inr_iff split: if_splits)

lemma normalizer_payload_names:
  assumes "normalizer_payload n arguments raw = Inr p"
  shows "names p \<subseteq> set (observation_keys n)"
proof (cases n)
  case AuthorizationDifferential
  with assms obtain fields where "all_control_fields raw DIFFERENTIAL_REQUEST_KEYS = Inr fields" and
    p: "p = [(''authorized_origin'', or_json (jget raw ''authorized_origin'') (jget arguments ''authorized_origin'')),
           (''mode'', or_json (jget raw ''mode'') (jget arguments ''mode'')), (''actor'', jget arguments ''actor''),
           (''own_object'', jget arguments ''own_object''), (''cross_object'', jget arguments ''cross_object'')] @ fields"
    by (auto simp: differential_payload_def bindE_Inr_iff)
  from all_control_fields_names [OF this(1)] have "names fields \<subseteq> set (observation_keys AuthorizationDifferential)"
    by fastforce
  with p AuthorizationDifferential show ?thesis by simp
qed (use assms in \<open>auto simp: reject_keys_Inr bindE_Inr_iff
       dest!: echo_names state_transition_names transaction_names authentication_names page_names\<close>)

interpretation facts: payload_builder "normalizer_payload n" "observation_keys n" for n
  by unfold_locales (rule normalizer_payload_names)

text \<open>No vocabulary names a verdict or a secret.\<close>

definition plain_letters :: string where "plain_letters = ''abcdefghijklmnopqrstuvwxyz_''"

lemma plain_letter: "c \<in> set plain_letters \<Longrightarrow> lower_char c = c \<and> \<not> py_space c \<and> c \<noteq> CHR ''-''"
proof -
  have "\<forall>c \<in> set plain_letters. lower_char c = c \<and> \<not> py_space c \<and> c \<noteq> CHR ''-''" by code_simp
  then show "c \<in> set plain_letters \<Longrightarrow> ?thesis" by blast
qed

lemma plain_key: "list_all (\<lambda>c. c \<in> set plain_letters) k \<Longrightarrow> is_sensitive_key k \<Longrightarrow> k \<in> set SENSITIVE_KEYS"
proof -
  assume k: "list_all (\<lambda>c. c \<in> set plain_letters) k" and sensitive: "is_sensitive_key k"
  have "dropWhile py_space xs = xs" if "set xs \<subseteq> set k" for xs
    using that k plain_letter by (cases xs) (auto simp: list_all_iff)
  then have "py_strip k = k" by (simp add: py_strip_def)
  moreover have "lower_char c = c" "c \<noteq> CHR ''-''" if "c \<in> set k" for c
    using plain_letter [of c] k that by (simp_all add: list_all_iff)
  then have "map (\<lambda>c. if c = CHR ''-'' then CHR ''_'' else c) (py_lower k) = k"
    unfolding py_lower_def by (simp add: comp_def cong: map_cong)
  ultimately show ?thesis using sensitive by (simp add: is_sensitive_key_def normalize_secret_key_def Let_def split: if_splits)
qed

lemma vocabulary_clean: "k \<in> set (observation_keys n) \<Longrightarrow> \<not> is_sensitive_key k \<and> k \<notin> set DRAFT_FORBIDDEN_KEYS"
proof -
  have "list_all (list_all (\<lambda>c. c \<in> set plain_letters)) (observation_keys n)"
    by (cases n) (simp_all add: plain_letters_def DIFFERENTIAL_REQUEST_KEYS_def)
  moreover have "list_all (\<lambda>k. k \<notin> set SENSITIVE_KEYS \<and> k \<notin> set DRAFT_FORBIDDEN_KEYS) (observation_keys n)"
    by (cases n) (simp_all add: SENSITIVE_KEYS_def DRAFT_FORBIDDEN_KEYS_def DIFFERENTIAL_REQUEST_KEYS_def)
  ultimately show "k \<in> set (observation_keys n) \<Longrightarrow> ?thesis" using plain_key by (auto simp: list_all_iff)
qed

text \<open>The entries of a page: bounded in number, objects over the fixed fields.\<close>

definition entries_over :: "nat \<Rightarrow> string list \<Rightarrow> json \<Rightarrow> bool" where
  "entries_over n allowed j \<longleftrightarrow> (\<exists>xs. j = JArr xs \<and> length xs \<le> n \<and> (\<forall>x \<in> set xs. \<exists>p. x = JObj p \<and> names p \<subseteq> set allowed))"

lemma entries_Inr: "entries f xs = Inr ys \<Longrightarrow> length ys = length xs \<and> (\<forall>y \<in> set ys. \<exists>item. f item = Inr y)"
  by (induction f xs arbitrary: ys rule: entries.induct) (auto simp: bindE_Inr_iff malformed_def split: json.splits)

lemma bounded_entries_over:
  assumes "bounded_entries n f j = Inr k" "\<And>item y. f item = Inr y \<Longrightarrow> \<exists>p. y = JObj p \<and> names p \<subseteq> set allowed"
  shows "entries_over n allowed k"
  using assms by (fastforce simp: bounded_entries_def entries_over_def malformed_def bindE_Inr_iff split: json.splits dest!: entries_Inr)

lemma page_control_over: "page_control item = Inr y \<Longrightarrow> \<exists>p. y = JObj p \<and> names p \<subseteq> set ALLOWED_CONTROL_KEYS"
  by (auto simp: page_control_def malformed_def ALLOWED_CONTROL_KEYS_def split: if_splits)

lemma page_event_over: "page_event item = Inr y \<Longrightarrow> \<exists>p. y = JObj p \<and> names p \<subseteq> set ALLOWED_EVENT_KEYS"
proof -
  assume "page_event item = Inr y"
  then obtain p where "y = JObj (p @ event_numbers item)" "names p \<subseteq> set ALLOWED_EVENT_KEYS"
    by (auto simp: page_event_def malformed_def ALLOWED_EVENT_KEYS_def split: if_splits)
  moreover have "names (event_numbers item) \<subseteq> {''status_code''} \<union> (({''request_bytes''} \<union> {''response_bytes''}) \<union> {''body_digest''})"
    unfolding event_numbers_def names_simps list.map concat.simps append_Nil2 by (intro Un_mono optional_names)
  then have "names (event_numbers item) \<subseteq> set ALLOWED_EVENT_KEYS" by (rule subset_trans) (simp add: ALLOWED_EVENT_KEYS_def)
  ultimately show ?thesis by auto
qed

lemma page_payload_entries:
  assumes "page_payload raw = Inr p"
  shows "entries_over MAX_CONTROLS ALLOWED_CONTROL_KEYS (jget p ''controls'') \<and>
    entries_over MAX_EVENTS ALLOWED_EVENT_KEYS (jget p ''network_events'')"
proof -
  from assms obtain controls events where
    "bounded_entries MAX_CONTROLS page_control (jget raw ''controls'') = Inr controls"
    "bounded_entries MAX_EVENTS page_event (jget raw ''network_events'') = Inr events"
    "jget p ''controls'' = controls" "jget p ''network_events'' = events"
    by (auto simp: page_payload_def malformed_def bindE_Inr_iff jget_def split: json.splits if_splits)
  then show ?thesis using bounded_entries_over page_control_over page_event_over by metis
qed

text \<open>
  C39. Transition A records facts only: a worker result gives at most one draft, only when it SUCCEEDED,
  of the kind and version of its normaliser; the fields of the draft come from the fixed vocabulary of
  that kind, which names no verdict and no secret; a page carries at most 32 controls and 32 network
  events, each over its allowed fields.
\<close>

theorem normalized_observations_are_facts:
  assumes "normalize fromiso n request result = Inr ds"
  shows "length ds \<le> 1 \<and> (\<forall>d \<in> set ds. jget result ''status'' = JStr ''SUCCEEDED'' \<and>
      odr_observation_kind d = normalizer_kind n \<and> odr_normalization_version d = normalizer_version n \<and>
      names (odr_payload d) \<subseteq> set (observation_keys n) \<and>
      (\<forall>k \<in> names (odr_payload d). \<not> is_sensitive_key k \<and> k \<notin> set DRAFT_FORBIDDEN_KEYS) \<and>
      (\<forall>action. n = BrowserPage action \<longrightarrow>
         entries_over MAX_CONTROLS ALLOWED_CONTROL_KEYS (jget (odr_payload d) ''controls'') \<and>
         entries_over MAX_EVENTS ALLOWED_EVENT_KEYS (jget (odr_payload d) ''network_events'')))"
proof -
  note drafts = facts.drafts [OF assms [unfolded normalize_def]]
  note named = facts.draft_names [OF assms [unfolded normalize_def]]
  have "entries_over MAX_CONTROLS ALLOWED_CONTROL_KEYS (jget (odr_payload d) ''controls'') \<and>
      entries_over MAX_EVENTS ALLOWED_EVENT_KEYS (jget (odr_payload d) ''network_events'')"
    if d: "d \<in> set ds" and n: "n = BrowserPage action" for d action
  proof -
    from drafts(2) [OF d] obtain raw where "normalizer_payload n (request_arguments request) raw = Inr (odr_payload d)" by blast
    with n have "page_payload raw = Inr (odr_payload d)" by (auto simp: bindE_Inr_iff reject_keys_Inr)
    then show ?thesis by (rule page_payload_entries)
  qed
  moreover have "\<not> is_sensitive_key k \<and> k \<notin> set DRAFT_FORBIDDEN_KEYS" if "d \<in> set ds" "k \<in> names (odr_payload d)" for d k
    using named [OF that(1)] that(2) vocabulary_clean by blast
  ultimately show ?thesis using drafts named by blast
qed

definition page_result :: payload where
  "page_result = [(''status'', JStr ''SUCCEEDED''), (''completed_at'', JStr ''2025-01-01T00:00:00Z''), (''raw_result'', JObj
     [(''snapshot_fingerprint'', JStr ''f''), (''normalized_url'', JStr ''https://x/''), (''browser_context_reference'', JStr ''c''),
      (''page_reference'', JStr ''p''), (''attempted_network_requests'', JInt 1),
      (''controls'', JArr [JObj [(''element_reference'', JStr ''e''), (''snapshot_fingerprint'', JStr ''f'')]])])]"

definition one_instant :: iso_parser where
  "one_instant s = (if s = ''2025-01-01T00:00:00+00:00'' then Some (Some 0) else None)"

definition drafted :: "transition_error + observation_draft list \<Rightarrow> nat option" where
  "drafted x = (case x of Inl _ \<Rightarrow> None | Inr ds \<Rightarrow> Some (length ds))"

lemma page_result_drafted: "drafted (normalize one_instant (BrowserPage ''observe'') [] page_result) = Some 1"
  by code_simp

theorem normalized_observations_are_facts_witness:
  "\<exists>d. normalize one_instant (BrowserPage ''observe'') [] page_result = Inr [d] \<and> odr_observation_kind d = ''BROWSER_PAGE_STATE'' \<and>
     entries_over 32 ALLOWED_CONTROL_KEYS (jget (odr_payload d) ''controls'')"
proof -
  obtain d where d: "normalize one_instant (BrowserPage ''observe'') [] page_result = Inr [d]"
    using page_result_drafted by (auto simp: drafted_def length_Suc_conv split: sum.splits)
  from normalized_observations_are_facts [OF d] d show ?thesis by (auto simp: MAX_CONTROLS_def)
qed

end
