(* ===== verification/Ingest.thy ===== *)
theory Ingest
  imports Session_Binding Transition_A
begin

text \<open>
  Ingestion of a completed worker invocation (\<open>application/ingest_worker_invocation.py\<close>), with the
  contract checks of \<open>platform/contract_validation.py\<close>.  The JSON Schema validator is the parameter
  \<open>check\<close>: \<open>None\<close> when the document satisfies the schema, otherwise the message.  One call of
  \<open>ingest\<close> is one transaction; the secret port is not transactional, so its new state is returned also
  when the transaction fails.
\<close>

section \<open>Contract checks\<close>

type_synonym schema_check = "string \<Rightarrow> payload \<Rightarrow> string option"

definition WORKER_REQUEST_ID :: string where "WORKER_REQUEST_ID = ''urn:research-os:contracts:v1:worker-request''"
definition WORKER_RESULT_ID :: string where "WORKER_RESULT_ID = ''urn:research-os:contracts:v1:worker-result''"
definition SUPPORTED_CONTRACT_VERSION :: string where "SUPPORTED_CONTRACT_VERSION = ''v1''"

definition CORRELATION_KEYS :: "string list" where
  "CORRELATION_KEYS = [''correlation_id'', ''research_run_id'', ''experiment_id'', ''request_id'']"

definition validate_version :: "payload \<Rightarrow> app_error + unit" where
  "validate_version document =
     (if jget document ''contract_version'' \<noteq> JStr SUPPORTED_CONTRACT_VERSION
      then Inl (ContractValidationError ''unsupported contract_version'') else Inr ())"

definition validate_schema :: "schema_check \<Rightarrow> string \<Rightarrow> payload \<Rightarrow> app_error + unit" where
  "validate_schema check schema_id document =
     (case check schema_id document of None \<Rightarrow> Inr () | Some m \<Rightarrow> Inl (ContractValidationError m))"

definition validate_worker_request :: "schema_check \<Rightarrow> payload \<Rightarrow> app_error + unit" where
  "validate_worker_request check document =
     bindE (validate_version document) (\<lambda>_. validate_schema check WORKER_REQUEST_ID document)"

definition validate_worker_result :: "schema_check \<Rightarrow> payload \<Rightarrow> app_error + unit" where
  "validate_worker_result check document =
     bindE (validate_version document) (\<lambda>_. validate_schema check WORKER_RESULT_ID document)"

text \<open>\<open>==\<close> on JSON values: the order of keys is ignored, and a boolean equals the number it stands for.\<close>

fun number_bools :: "json \<Rightarrow> json" where
  "number_bools (JBool b) = JInt (if b then 1 else 0)"
| "number_bools (JArr xs) = JArr (map number_bools xs)"
| "number_bools (JObj kvs) = JObj (map (map_prod id number_bools) kvs)"
| "number_bools j = j"

definition py_equal :: "json \<Rightarrow> json \<Rightarrow> bool" where
  "py_equal a b = (canon (number_bools a) = canon (number_bools b))"

definition correlation_matches :: "payload \<Rightarrow> payload \<Rightarrow> bool" where
  "correlation_matches request result =
     (case (jget request ''correlation'', jget result ''correlation'') of
        (JObj a, JObj b) \<Rightarrow> list_all (\<lambda>key. py_equal (jget a key) (jget b key)) CORRELATION_KEYS
      | _ \<Rightarrow> False)"

section \<open>Invocations\<close>

datatype invocation_status = INV_COMPLETED | INV_START_FAILED | INV_TIMED_OUT | INV_CANCELLED | INV_PROCESS_FAILED
  | INV_PROTOCOL_ERROR | INV_CONTRACT_INVALID

record worker_invocation_outcome =
  wio_invocation_status :: invocation_status
  wio_started_at :: int
  wio_completed_at :: int
  wio_worker_result :: "payload option"
  wio_exit_code :: "int option"
  wio_stderr_diagnostics :: string
  wio_stderr_truncated :: bool
  wio_reason :: "string option"

datatype ingestion_status = INGESTED | ALREADY_INGESTED | NO_OBSERVATION | REJECTED_INVALID_INVOCATION

record ingestion_outcome =
  ion_status :: ingestion_status
  ion_worker_result_id :: "string option"
  ion_observation_ids :: "string list"
  ion_reason :: "string option"

definition rejected_invocation :: "string \<Rightarrow> ingestion_outcome" where
  "rejected_invocation reason =
     \<lparr>ion_status = REJECTED_INVALID_INVOCATION, ion_worker_result_id = None, ion_observation_ids = [], ion_reason = Some reason\<rparr>"

definition worker_result_id_for :: "string \<Rightarrow> string" where
  "worker_result_id_for request_id = ''wr:'' @ request_id"

definition observation_id_for :: "string \<Rightarrow> string \<Rightarrow> string \<Rightarrow> string" where
  "observation_id_for request_id kind version = ''obs:'' @ request_id @ '':'' @ kind @ '':'' @ version"

definition reject_invalid_invocation ::
    "schema_check \<Rightarrow> payload \<Rightarrow> worker_invocation_outcome \<Rightarrow> ingestion_outcome option" where
  "reject_invalid_invocation check request outcome =
     (if wio_invocation_status outcome \<noteq> INV_COMPLETED
      then Some (rejected_invocation ''invocation_status is not COMPLETED; transport/runtime failure is not a WorkerResult'')
      else (case wio_worker_result outcome of
        None \<Rightarrow> Some (rejected_invocation ''COMPLETED invocation is missing a WorkerResult document'')
      | Some result \<Rightarrow>
          (case bindE (validate_worker_request check request) (\<lambda>_. validate_worker_result check result) of
             Inl (ContractValidationError m) \<Rightarrow> Some (rejected_invocation m)
           | _ \<Rightarrow>
             if \<not> correlation_matches request result
             then Some (rejected_invocation ''correlation mismatch; WorkerResult not rewritten and not ingested'')
             else None)))"

section \<open>Records of a result\<close>

datatype ingest_error = IngestApp app_error | IngestTransition transition_error

abbreviation applied :: "app_error + 'a \<Rightarrow> ingest_error + 'a" where
  "applied m \<equiv> mapErr IngestApp m"

abbreviation tabled :: "persistence_error + 'a \<Rightarrow> ingest_error + 'a" where
  "tabled m \<equiv> mapErr (\<lambda>e. IngestApp (AppPersistence e)) m"

text \<open>\<open>document[name]\<close> that is asserted to be a mapping.\<close>

definition object_field :: "payload \<Rightarrow> string \<Rightarrow> app_error + payload" where
  "object_field document name = (case map_of document name of
     None \<Rightarrow> Inl (AppKeyError name) | Some (JObj kvs) \<Rightarrow> Inr kvs | Some _ \<Rightarrow> Inl AppAssertionError)"

definition optional_timestamp :: "iso_parser \<Rightarrow> payload \<Rightarrow> string \<Rightarrow> ingest_error + int option" where
  "optional_timestamp fromiso result name =
     (if jget result name = JNull then Inr None
      else mapErr IngestTransition (bindE (parse_aware_timestamp fromiso (jget result name) name) (\<lambda>t. Inr (Some t))))"

definition object_or_none :: "json \<Rightarrow> payload option" where
  "object_or_none j = (case j of JObj kvs \<Rightarrow> Some kvs | _ \<Rightarrow> None)"

definition objects_of :: "json \<Rightarrow> payload list option" where
  "objects_of j = (case j of JArr xs \<Rightarrow> Some (List.map_filter object_or_none xs) | _ \<Rightarrow> None)"

definition int_field :: "payload \<Rightarrow> string \<Rightarrow> app_error + int" where
  "int_field document name = (case map_of document name of
     None \<Rightarrow> Inl (AppKeyError name)
   | Some j \<Rightarrow> (case py_int j of
       Some n \<Rightarrow> Inr n
     | None \<Rightarrow> Inl (if is_str j then AppValueError ''invalid literal for int()'' else AppTypeError)))"

definition worker_result_record_for ::
    "iso_parser \<Rightarrow> payload \<Rightarrow> payload \<Rightarrow> int \<Rightarrow> ingest_error + worker_result_record" where
  "worker_result_record_for fromiso request result received_at =
     bindE (applied (object_field request ''correlation'')) (\<lambda>correlation.
     bindE (applied (object_field request ''execution_budget'')) (\<lambda>budget.
     bindE (applied (argument_text correlation ''request_id'')) (\<lambda>request_id.
     bindE (optional_timestamp fromiso result ''started_at'') (\<lambda>started_at.
     bindE (optional_timestamp fromiso result ''completed_at'') (\<lambda>completed_at.
     bindE (applied (argument_text correlation ''experiment_id'')) (\<lambda>experiment_id.
     bindE (applied (argument_text correlation ''research_run_id'')) (\<lambda>research_run_id.
     bindE (applied (argument_text correlation ''correlation_id'')) (\<lambda>correlation_id.
     bindE (applied (argument_text request ''worker_capability'')) (\<lambda>capability.
     bindE (applied (argument_text request ''action'')) (\<lambda>action.
     bindE (applied (argument_text request ''authorization_decision_reference'')) (\<lambda>decision.
     bindE (applied (argument_text budget ''budget_id'')) (\<lambda>budget_id.
     bindE (applied (int_field request ''side_effect_level'')) (\<lambda>level.
     bindE (applied (argument_text result ''contract_version'')) (\<lambda>version.
     bindE (applied (argument_text result ''worker_id'')) (\<lambda>worker_id.
     bindE (applied (argument_text result ''status'')) (\<lambda>status.
     tabled (post_init_worker_result_record
       \<lparr>wr_worker_result_id = worker_result_id_for request_id, wr_experiment_id = experiment_id,
        wr_research_run_id = research_run_id, wr_request_id = request_id, wr_correlation_id = correlation_id,
        wr_worker_capability = capability, wr_action = action, wr_authorization_decision_reference = decision,
        wr_budget_id = budget_id, wr_side_effect_level = level, wr_contract_version = version, wr_worker_id = worker_id,
        wr_status = status, wr_received_at = received_at, wr_started_at = started_at, wr_completed_at = completed_at,
        wr_parent_request_id = (case jget correlation ''parent_request_id'' of JStr s \<Rightarrow> Some s | _ \<Rightarrow> None),
        wr_raw_result = object_or_none (jget result ''raw_result''),
        wr_raw_artifact_descriptors = objects_of (jget result ''raw_artifact_descriptors''),
        wr_diagnostics = object_or_none (jget result ''diagnostics''),
        wr_control_signal = object_or_none (jget result ''control_signal'')\<rparr>)))))))))))))))))"

text \<open>The check that the request speaks of a stored experiment, its run and its budget.\<close>

definition check_experiment_integrity :: "payload \<Rightarrow> dispatch_db \<Rightarrow> app_error + ingestion_outcome option" where
  "check_experiment_integrity request d =
     bindE (object_field request ''correlation'') (\<lambda>correlation.
     bindE (argument_text correlation ''experiment_id'') (\<lambda>experiment_id.
     bindE (argument_text correlation ''research_run_id'') (\<lambda>research_run_id.
     bindE (object_field request ''execution_budget'') (\<lambda>budget.
     bindE (argument_text budget ''budget_id'') (\<lambda>budget_id.
     bindE (stored (get_experiment experiment_id (dd_store d))) (\<lambda>row.
     Inr (case row of
       None \<Rightarrow> Some (rejected_invocation ''experiment does not exist for this WorkerRequest'')
     | Some x \<Rightarrow>
         if xr_research_run_id x \<noteq> research_run_id
         then Some (rejected_invocation ''experiment research_run_id does not match WorkerRequest'')
         else if xr_budget_id x \<noteq> budget_id
         then Some (rejected_invocation ''experiment budget_id does not match WorkerRequest'')
         else None)))))))"

fun persist_observations ::
    "worker_result_record \<Rightarrow> observation_draft list \<Rightarrow> int \<Rightarrow> dispatch_db \<Rightarrow> persistence_error + string list \<times> dispatch_db" where
  "persist_observations r [] created_at d = Inr ([], d)"
| "persist_observations r (draft # drafts) created_at d =
     (let observation_id =
        observation_id_for (wr_request_id r) (odr_observation_kind draft) (odr_normalization_version draft) in
      bindE (post_init_observation_record
        \<lparr>or_observation_id = observation_id, or_worker_result_id = wr_worker_result_id r,
         or_observation_kind = odr_observation_kind draft, or_payload = odr_payload draft,
         or_normalization_version = odr_normalization_version draft, or_observed_at = odr_observed_at draft,
         or_created_at = created_at\<rparr>) (\<lambda>row.
      bindE (insert_observation row d) (\<lambda>d.
      bindE (persist_observations r drafts created_at d) (\<lambda>(ids, d). Inr (observation_id # ids, d)))))"

definition persist_audit_event ::
    "string \<Rightarrow> string \<Rightarrow> string \<Rightarrow> string \<Rightarrow> string \<Rightarrow> payload \<Rightarrow> string \<Rightarrow> int \<Rightarrow> dispatch_db \<Rightarrow> persistence_error + dispatch_db" where
  "persist_audit_event event_id actor event_type subject_type subject_id document correlation_id at d =
     bindE (post_init_audit_event_record
       \<lparr>aer_audit_event_id = event_id, aer_occurred_at = at, aer_actor_id = actor,
        aer_actor_type = actor_type_value CONTROL_PLANE, aer_event_type = event_type, aer_subject_type = subject_type,
        aer_subject_id = subject_id, aer_payload = document, aer_correlation_id = Some correlation_id\<rparr>) (\<lambda>e.
     in_store (insert_audit_event e) d)"

fun persist_observation_events ::
    "string \<Rightarrow> worker_result_record \<Rightarrow> (observation_draft \<times> string) list \<Rightarrow> int \<Rightarrow> dispatch_db \<Rightarrow> persistence_error + dispatch_db" where
  "persist_observation_events actor r [] at d = Inr d"
| "persist_observation_events actor r ((draft, observation_id) # rest) at d =
     bindE (persist_audit_event
       (''ae:obs:'' @ wr_request_id r @ '':'' @ odr_observation_kind draft @ '':'' @ odr_normalization_version draft) actor
       ''OBSERVATION_ADMITTED'' ''observation'' observation_id
       [(''observation_kind'', JStr (odr_observation_kind draft)),
        (''normalization_version'', JStr (odr_normalization_version draft))] (wr_correlation_id r) at d)
       (persist_observation_events actor r rest at)"

definition persist_audit_events ::
    "string \<Rightarrow> worker_result_record \<Rightarrow> observation_draft list \<Rightarrow> string list \<Rightarrow> int \<Rightarrow> dispatch_db \<Rightarrow> persistence_error + dispatch_db" where
  "persist_audit_events actor r drafts ids at d =
     bindE (persist_audit_event (''ae:wr:'' @ wr_request_id r) actor ''WORKER_RESULT_INGESTED'' ''worker_result''
       (wr_worker_result_id r)
       [(''request_id'', JStr (wr_request_id r)), (''worker_result_status'', JStr (wr_status r)),
        (''observation_count'', JInt (int (length ids))),
        (''normalization_version'', json_opt_str (case drafts of [] \<Rightarrow> None | x # _ \<Rightarrow> Some (odr_normalization_version x)))]
       (wr_correlation_id r) at d)
     (persist_observation_events actor r (zip drafts ids) at)"

section \<open>The use case\<close>

text \<open>The transaction after the integrity check: result, observations, session metadata, audit trail.\<close>

definition store_result ::
    "worker_result_record \<Rightarrow> observation_draft list \<Rightarrow> int \<Rightarrow> dispatch_db \<Rightarrow> persistence_error + string list \<times> dispatch_db" where
  "store_result r drafts created_at d =
     (case insert_worker_result r d of
        Inl (PersistenceConflictError _) \<Rightarrow> Inl read_failed
      | Inl e \<Rightarrow> Inl e
      | Inr d \<Rightarrow> persist_observations r drafts created_at d)"

type_synonym ingest_effect = "composite_secret_port option \<times> (ingest_error + ingestion_outcome \<times> dispatch_db)"

definition record_result ::
    "string \<Rightarrow> (string \<Rightarrow> int) \<Rightarrow> payload \<Rightarrow> payload \<Rightarrow> payload option \<Rightarrow> worker_result_record \<Rightarrow> observation_draft list
     \<Rightarrow> composite_secret_port option \<Rightarrow> dispatch_db \<Rightarrow> ingest_effect" where
  "record_result actor clock request result ephemeral r drafts port d =
     (let created_at = clock ''created'' in
      case store_result r drafts created_at d of
        Inl e \<Rightarrow> (port, Inl (IngestApp (AppPersistence e)))
      | Inr (ids, d) \<Rightarrow> (case capture_login_result request result ephemeral created_at port d of
          (port, Inl e) \<Rightarrow> (port, Inl (IngestApp e))
        | (port, Inr d) \<Rightarrow> (case expire_session_on_unauthenticated_response request result created_at port d of
            (port, Inl e) \<Rightarrow> (port, Inl (IngestApp e))
          | (port, Inr d) \<Rightarrow> (port,
              bindE (tabled (persist_audit_events actor r drafts ids created_at d)) (\<lambda>d.
              Inr (\<lparr>ion_status = (if ids \<noteq> [] then INGESTED else NO_OBSERVATION),
                    ion_worker_result_id = Some (wr_worker_result_id r), ion_observation_ids = ids,
                    ion_reason = None\<rparr>, d))))))"

definition already_ingested :: "worker_result_record \<Rightarrow> dispatch_db \<Rightarrow> persistence_error + ingestion_outcome" where
  "already_ingested r d =
     bindE (list_observations_for_worker_result (wr_worker_result_id r) d) (\<lambda>rows.
     Inr \<lparr>ion_status = ALREADY_INGESTED, ion_worker_result_id = Some (wr_worker_result_id r),
          ion_observation_ids = map or_observation_id rows,
          ion_reason = Some ''request_id already ingested; not a duplicate vulnerability''\<rparr>)"

definition request_id_of :: "payload \<Rightarrow> app_error + string" where
  "request_id_of request = bindE (object_field request ''correlation'') (\<lambda>c. argument_text c ''request_id'')"

definition ingest_transaction ::
    "iso_parser \<Rightarrow> string \<Rightarrow> (string \<Rightarrow> int) \<Rightarrow> payload \<Rightarrow> payload \<Rightarrow> payload option \<Rightarrow> observation_draft list
     \<Rightarrow> composite_secret_port option \<Rightarrow> dispatch_db \<Rightarrow> ingest_effect" where
  "ingest_transaction fromiso actor clock request result ephemeral drafts port d =
     (case bindE (applied (request_id_of request)) (\<lambda>i. tabled (get_worker_result_by_request i d)) of
        Inl e \<Rightarrow> (port, Inl e)
      | Inr (Some r) \<Rightarrow> (port, bindE (tabled (already_ingested r d)) (\<lambda>outcome. Inr (outcome, d)))
      | Inr None \<Rightarrow> (case applied (check_experiment_integrity request d) of
          Inl e \<Rightarrow> (port, Inl e)
        | Inr (Some rejected) \<Rightarrow> (port, Inr (rejected, d))
        | Inr None \<Rightarrow> (case worker_result_record_for fromiso request result (clock ''received'') of
            Inl e \<Rightarrow> (port, Inl e)
          | Inr r \<Rightarrow> record_result actor clock request result ephemeral r drafts port d)))"

fun drafts_of :: "iso_parser \<Rightarrow> payload \<Rightarrow> payload \<Rightarrow> transition_error + observation_draft list" where
  "drafts_of fromiso request result =
     (case (jget request ''worker_capability'', jget request ''action'') of
        (JStr capability, JStr action) \<Rightarrow>
          bindE (normalizer_for capability action) (\<lambda>n. normalize fromiso n request result)
      | _ \<Rightarrow> malformed ''trusted request is missing worker_capability/action'')"

definition ingest ::
    "schema_check \<Rightarrow> iso_parser \<Rightarrow> string \<Rightarrow> (string \<Rightarrow> int) \<Rightarrow> payload \<Rightarrow> worker_invocation_outcome
     \<Rightarrow> composite_secret_port option \<Rightarrow> dispatch_db \<Rightarrow> ingest_effect" where
  "ingest check fromiso actor clock request outcome port d =
     (case reject_invalid_invocation check request outcome of
        Some rejected \<Rightarrow> (port, Inr (rejected, d))
      | None \<Rightarrow>
          let (result, ephemeral) = strip_ephemeral_secrets (the (wio_worker_result outcome)) in
          (case drafts_of fromiso request result of
             Inl (UnsupportedNormalizerError m) \<Rightarrow> (port, Inr (rejected_invocation m, d))
           | Inl (MalformedNormalizedPayloadError m) \<Rightarrow> (port, Inr (rejected_invocation m, d))
           | Inl e \<Rightarrow> (port, Inl (IngestTransition e))
           | Inr drafts \<Rightarrow> ingest_transaction fromiso actor clock request result ephemeral drafts port d))"

section \<open>What ingestion stores\<close>

lemma set_session_store: "set_session_state i state a b u d = Inr d' \<Longrightarrow> dd_store d' = dd_store d \<and> dd_budgets d' = dd_budgets d \<and> dd_plans d' = dd_plans d"
  by (auto simp: set_session_state_def split: if_splits)

lemma leave_session_store: "leave_session state i now port d = (port', Inr d') \<Longrightarrow> dd_store d' = dd_store d \<and> dd_budgets d' = dd_budgets d \<and> dd_plans d' = dd_plans d"
  by (auto simp: leave_session_def drop_material_def split: sum.splits option.splits dest!: set_session_store)

lemma capture_login_store: "capture_login_result request result e now port d = (port', Inr d') \<Longrightarrow> dd_store d' = dd_store d \<and> dd_budgets d' = dd_budgets d \<and> dd_plans d' = dd_plans d"
  by (auto simp: capture_login_result_def activate_session_def mapErr_Inr_iff split: if_splits json.splits option.splits sum.splits
      dest!: set_session_store)

lemma expire_session_store:
  "expire_session_on_unauthenticated_response request result now port d = (port', Inr d') \<Longrightarrow> dd_store d' = dd_store d \<and> dd_budgets d' = dd_budgets d \<and> dd_plans d' = dd_plans d"
  by (auto simp: expire_session_on_unauthenticated_response_def split: if_splits json.splits option.splits sum.splits bool.splits
      dest!: leave_session_store)

abbreviation observations :: "dispatch_db \<Rightarrow> observation_record list" where
  "observations d \<equiv> db_observations (dd_store d)"

text \<open>The row of a draft, and the audit events of a result and of its observations.\<close>

definition observation_row :: "worker_result_record \<Rightarrow> int \<Rightarrow> observation_draft \<Rightarrow> observation_record" where
  "observation_row r created_at draft =
     \<lparr>or_observation_id = observation_id_for (wr_request_id r) (odr_observation_kind draft) (odr_normalization_version draft),
      or_worker_result_id = wr_worker_result_id r, or_observation_kind = odr_observation_kind draft,
      or_payload = odr_payload draft, or_normalization_version = odr_normalization_version draft,
      or_observed_at = odr_observed_at draft, or_created_at = created_at\<rparr>"

definition announces :: "string \<Rightarrow> string \<Rightarrow> string \<Rightarrow> audit_event_record \<Rightarrow> bool" where
  "announces event_type subject_type subject_id e \<longleftrightarrow>
     aer_event_type e = event_type \<and> aer_subject_type e = subject_type \<and> aer_subject_id e = subject_id"

lemma persist_observations_Inr:
  "persist_observations r drafts t d = Inr (ids, d') \<Longrightarrow>
     ids = map (or_observation_id \<circ> observation_row r t) drafts \<and>
     d' = d\<lparr>dd_store := (dd_store d)\<lparr>db_observations := observations d @ map (observation_row r t) drafts\<rparr>\<rparr>"
proof (induction drafts arbitrary: ids d d')
  case (Cons x xs)
  then obtain ids' d1 where "insert_observation (observation_row r t x) d = Inr d1" "persist_observations r xs t d1 = Inr (ids', d')"
    "ids = or_observation_id (observation_row r t x) # ids'"
    by (auto simp: Let_def bindE_Inr_iff post_init_observation_record_def raise_first_Inr_iff observation_row_def
        simp del: raise_first.simps)
  with Cons.IH [of d1 ids' d'] show ?case by (auto dest!: insert_observation_Inr)
qed simp

lemma persist_audit_event_Inr:
  "persist_audit_event i actor ty st s p c t d = Inr d' \<Longrightarrow>
     \<exists>e. announces ty st s e \<and> d' = d\<lparr>dd_store := (dd_store d)\<lparr>db_audit_events := audit_events d @ [e]\<rparr>\<rparr>"
proof -
  assume "persist_audit_event i actor ty st s p c t d = Inr d'"
  then obtain e where "in_store (insert_audit_event e) d = Inr d'" "announces ty st s e"
    by (auto simp: persist_audit_event_def bindE_Inr_iff post_init_audit_event_record_def raise_first_Inr_iff announces_def
        simp del: raise_first.simps)
  then show ?thesis by (auto simp: insert_audit_Inr)
qed

lemma persist_observation_events_Inr:
  "persist_observation_events actor r ps t d = Inr d' \<Longrightarrow>
     \<exists>es. d' = d\<lparr>dd_store := (dd_store d)\<lparr>db_audit_events := audit_events d @ es\<rparr>\<rparr> \<and>
       (\<forall>i \<in> snd ` set ps. \<exists>e \<in> set es. announces ''OBSERVATION_ADMITTED'' ''observation'' i e)"
proof (induction actor r ps t d arbitrary: d' rule: persist_observation_events.induct)
  case (2 actor r x i rest t d)
  then obtain d1 where rest: "persist_observation_events actor r rest t d1 = Inr d'"
    and "persist_audit_event
      (''ae:obs:'' @ wr_request_id r @ '':'' @ odr_observation_kind x @ '':'' @ odr_normalization_version x) actor
      ''OBSERVATION_ADMITTED'' ''observation'' i
      [(''observation_kind'', JStr (odr_observation_kind x)),
       (''normalization_version'', JStr (odr_normalization_version x))] (wr_correlation_id r) t d = Inr d1"
    by (auto simp: bindE_Inr_iff)
  then obtain e where e: "announces ''OBSERVATION_ADMITTED'' ''observation'' i e"
      "d1 = d\<lparr>dd_store := (dd_store d)\<lparr>db_audit_events := audit_events d @ [e]\<rparr>\<rparr>"
    by (blast dest: persist_audit_event_Inr)
  from "2.IH" [OF rest] obtain es where "d' = d1\<lparr>dd_store := (dd_store d1)\<lparr>db_audit_events := audit_events d1 @ es\<rparr>\<rparr>"
    "\<forall>i \<in> snd ` set rest. \<exists>e \<in> set es. announces ''OBSERVATION_ADMITTED'' ''observation'' i e" by blast
  with e show ?case by (intro exI [of _ "e # es"]) auto
qed (auto intro!: exI [of _ "[]"])

text \<open>What a stored result leaves behind: its row, its observations and the audit events that name them.\<close>

lemma persist_audit_events_Inr:
  assumes "persist_audit_events actor r drafts ids t d = Inr d'" "length ids = length drafts"
  shows "\<exists>es. d' = d\<lparr>dd_store := (dd_store d)\<lparr>db_audit_events := audit_events d @ es\<rparr>\<rparr> \<and>
    (\<exists>e \<in> set es. announces ''WORKER_RESULT_INGESTED'' ''worker_result'' (wr_worker_result_id r) e) \<and>
    (\<forall>i \<in> set ids. \<exists>e \<in> set es. announces ''OBSERVATION_ADMITTED'' ''observation'' i e)"
proof -
  from assms(1) obtain d1 ty st p c where first: "persist_audit_event (''ae:wr:'' @ wr_request_id r) actor ty st (wr_worker_result_id r) p c t d = Inr d1"
    "ty = ''WORKER_RESULT_INGESTED''" "st = ''worker_result''"
    and rest: "persist_observation_events actor r (zip drafts ids) t d1 = Inr d'"
    unfolding persist_audit_events_def bindE_Inr_iff by blast
  from persist_audit_event_Inr [OF first(1)] first(2,3) obtain e where
    e: "announces ''WORKER_RESULT_INGESTED'' ''worker_result'' (wr_worker_result_id r) e"
      "d1 = d\<lparr>dd_store := (dd_store d)\<lparr>db_audit_events := audit_events d @ [e]\<rparr>\<rparr>" by blast
  from persist_observation_events_Inr [OF rest] obtain es where
    es: "d' = d1\<lparr>dd_store := (dd_store d1)\<lparr>db_audit_events := audit_events d1 @ es\<rparr>\<rparr>"
      "\<forall>i \<in> snd ` set (zip drafts ids). \<exists>e \<in> set es. announces ''OBSERVATION_ADMITTED'' ''observation'' i e" by blast
  have "snd ` set (zip drafts ids) = set ids" using assms(2) by (metis list.set_map map_snd_zip)
  with e es show ?thesis by (intro exI [of _ "e # es"]) auto
qed

definition stores :: "worker_result_record \<Rightarrow> observation_draft list \<Rightarrow> int \<Rightarrow> dispatch_db \<Rightarrow> dispatch_db \<Rightarrow> bool" where
  "stores r drafts t d d' \<longleftrightarrow> wr_request_id r \<notin> wr_request_id ` set (worker_results d) \<and>
    worker_results d' = worker_results d @ [r] \<and> observations d' = observations d @ map (observation_row r t) drafts \<and>
    experiments d' = experiments d \<and> attempts d' = attempts d \<and> dd_budgets d' = dd_budgets d \<and> dd_plans d' = dd_plans d \<and> (\<exists>es. audit_events d' = audit_events d @ es \<and>
      (\<exists>e \<in> set es. announces ''WORKER_RESULT_INGESTED'' ''worker_result'' (wr_worker_result_id r) e) \<and>
      (\<forall>x \<in> set drafts. \<exists>e \<in> set es. announces ''OBSERVATION_ADMITTED'' ''observation'' (or_observation_id (observation_row r t x)) e))"

lemma record_result_Inr:
  assumes "record_result actor clock request result ephemeral r drafts port d = (port', Inr (outcome, d'))"
  shows "stores r drafts (clock ''created'') d d' \<and>
    outcome = \<lparr>ion_status = (if drafts \<noteq> [] then INGESTED else NO_OBSERVATION), ion_worker_result_id = Some (wr_worker_result_id r),
      ion_observation_ids = map (or_observation_id \<circ> observation_row r (clock ''created'')) drafts, ion_reason = None\<rparr>"
proof -
  let ?t = "clock ''created''"
  from assms obtain ids d1 port1 d2 d3 where store: "store_result r drafts ?t d = Inr (ids, d1)"
    and capture: "capture_login_result request result ephemeral ?t port d1 = (port1, Inr d2)"
    and expire: "expire_session_on_unauthenticated_response request result ?t port1 d2 = (port', Inr d3)"
    and audit: "persist_audit_events actor r drafts ids ?t d3 = Inr d'"
    and out: "outcome = \<lparr>ion_status = (if ids \<noteq> [] then INGESTED else NO_OBSERVATION), ion_worker_result_id = Some (wr_worker_result_id r),
      ion_observation_ids = ids, ion_reason = None\<rparr>"
    by (auto simp: record_result_def Let_def bindE_Inr_iff mapErr_Inr_iff split: sum.splits prod.splits)
  from store obtain d0 where ins: "insert_worker_result r d = Inr d0" "persist_observations r drafts ?t d0 = Inr (ids, d1)"
    by (auto simp: store_result_def split: sum.splits persistence_error.splits)
  from persist_observations_Inr [OF ins(2)] have ids: "ids = map (or_observation_id \<circ> observation_row r ?t) drafts"
    and d1: "d1 = d0\<lparr>dd_store := (dd_store d0)\<lparr>db_observations := observations d0 @ map (observation_row r ?t) drafts\<rparr>\<rparr>" by auto
  have "dd_store d3 = dd_store d1" "dd_budgets d3 = dd_budgets d1" "dd_plans d3 = dd_plans d1" using capture_login_store [OF capture] expire_session_store [OF expire] by simp_all
  with persist_audit_events_Inr [OF audit] ids insert_worker_result_Inr [OF ins(1)] d1 out show ?thesis
    by (auto simp: stores_def)
qed

lemma worker_result_record_for_Inr:
  "worker_result_record_for fromiso request result t = Inr r \<Longrightarrow>
     wr_worker_result_id r = worker_result_id_for (wr_request_id r) \<and> request_id_of request = Inr (wr_request_id r) \<and>
     \<not> blank (wr_request_id r) \<and> argument_text result ''status'' = Inr (wr_status r) \<and>
     (\<exists>c b. object_field request ''correlation'' = Inr c \<and> object_field request ''execution_budget'' = Inr b \<and>
        argument_text c ''experiment_id'' = Inr (wr_experiment_id r) \<and>
        argument_text c ''research_run_id'' = Inr (wr_research_run_id r) \<and>
        argument_text b ''budget_id'' = Inr (wr_budget_id r))"
  by (auto simp: worker_result_record_for_def bindE_Inr_iff mapErr_Inr_iff request_id_of_def post_init_worker_result_record_def
      raise_first_Inr_iff simp del: raise_first.simps)

lemma check_experiment_integrity_Inr:
  assumes "check_experiment_integrity request d = Inr None"
    and "object_field request ''correlation'' = Inr c" "object_field request ''execution_budget'' = Inr b"
    and "argument_text c ''experiment_id'' = Inr x" "argument_text c ''research_run_id'' = Inr run" "argument_text b ''budget_id'' = Inr budget"
  shows "\<exists>e \<in> set (experiments d). xr_experiment_id e = x \<and> xr_research_run_id e = run \<and> xr_budget_id e = budget"
  using assms
  by (auto simp: check_experiment_integrity_def bindE_Inr_iff mapErr_Inr_iff get_experiment_def split: option.splits if_splits
      dest!: fetch_one_Some)

text \<open>The drafts of a result, in terms of their normaliser.\<close>

definition factual :: "string \<Rightarrow> string \<Rightarrow> payload \<Rightarrow> bool" where
  "factual kind version p \<longleftrightarrow> (\<exists>n. kind = normalizer_kind n \<and> version = normalizer_version n \<and> names p \<subseteq> set (observation_keys n))"

lemma drafts_of_Inr:
  assumes "drafts_of fromiso request result = Inr ds"
  shows "length ds \<le> 1"
    and "x \<in> set ds \<Longrightarrow> argument_text result ''status'' = Inr ''SUCCEEDED'' \<and>
      factual (odr_observation_kind x) (odr_normalization_version x) (odr_payload x)"
proof -
  from assms obtain n where "normalize fromiso n request result = Inr ds"
    by (auto simp: malformed_def bindE_Inr_iff split: json.splits)
  note draft = this [unfolded normalize_def]
  show "length ds \<le> 1" by (rule facts.drafts(1) [OF draft])
  show "argument_text result ''status'' = Inr ''SUCCEEDED'' \<and> factual (odr_observation_kind x) (odr_normalization_version x) (odr_payload x)"
    if "x \<in> set ds"
    using facts.drafts(2) [OF draft that] facts.draft_names [OF draft that]
    by (auto simp: factual_def argument_text_def jget_def py_str_def split: option.splits)
qed

lemma ingest_transaction_Inr:
  assumes "ingest_transaction fromiso actor clock request result ephemeral drafts port d = (port', Inr (outcome, d'))"
  shows "(port' = port \<and> d' = d \<and> ion_status outcome \<in> {REJECTED_INVALID_INVOCATION, ALREADY_INGESTED}) \<or>
    (\<exists>r. check_experiment_integrity request d = Inr None \<and> worker_result_record_for fromiso request result (clock ''received'') = Inr r \<and>
       record_result actor clock request result ephemeral r drafts port d = (port', Inr (outcome, d')))"
proof -
  have rejected: "ion_status o' = REJECTED_INVALID_INVOCATION" if "check_experiment_integrity request d = Inr (Some o')" for o'
    using that by (auto simp: check_experiment_integrity_def rejected_invocation_def bindE_Inr_iff split: option.splits if_splits)
  have already: "ion_status o' = ALREADY_INGESTED" if "already_ingested r d = Inr o'" for r o'
    using that by (auto simp: already_ingested_def bindE_Inr_iff)
  show ?thesis
    using assms by (auto simp: ingest_transaction_def bindE_Inr_iff mapErr_Inr_iff rejected already split: sum.splits option.splits)
qed

text \<open>The two ways a call ends: with the database as it was, or with the result of the request stored.\<close>

lemma ingest_Inr:
  assumes "ingest check fromiso actor clock request call port d = (port', Inr (outcome, d'))"
  obtains (unchanged) "port' = port" "d' = d" "ion_status outcome \<in> {REJECTED_INVALID_INVOCATION, ALREADY_INGESTED}"
  | (stored) r drafts where "stores r drafts (clock ''created'') d d'" "length drafts \<le> 1"
      "request_id_of request = Inr (wr_request_id r)" "\<not> blank (wr_request_id r)"
      "wr_worker_result_id r = worker_result_id_for (wr_request_id r)"
      "\<exists>x \<in> set (experiments d). xr_experiment_id x = wr_experiment_id r \<and> xr_research_run_id x = wr_research_run_id r \<and>
         xr_budget_id x = wr_budget_id r"
      "\<forall>x \<in> set drafts. wr_status r = ''SUCCEEDED'' \<and> factual (odr_observation_kind x) (odr_normalization_version x) (odr_payload x)"
      "outcome = \<lparr>ion_status = (if drafts \<noteq> [] then INGESTED else NO_OBSERVATION),
         ion_worker_result_id = Some (wr_worker_result_id r),
         ion_observation_ids = map (or_observation_id \<circ> observation_row r (clock ''created'')) drafts, ion_reason = None\<rparr>"
proof (cases "reject_invalid_invocation check request call")
  case (Some rejected)
  then have "ion_status rejected = REJECTED_INVALID_INVOCATION"
    by (auto simp: reject_invalid_invocation_def rejected_invocation_def split: if_splits option.splits sum.splits app_error.splits)
  with Some assms unchanged show thesis by (simp add: ingest_def)
next
  case None
  obtain result ephemeral where strip: "strip_ephemeral_secrets (the (wio_worker_result call)) = (result, ephemeral)" by force
  show thesis
  proof (cases "drafts_of fromiso request result")
    case (Inl e)
    with None strip assms unchanged show thesis
      by (cases e) (auto simp: ingest_def rejected_invocation_def simp del: drafts_of.simps)
  next
    case (Inr drafts)
    with None strip assms have "ingest_transaction fromiso actor clock request result ephemeral drafts port d = (port', Inr (outcome, d'))"
      by (simp add: ingest_def del: drafts_of.simps)
    then consider "port' = port" "d' = d" "ion_status outcome \<in> {REJECTED_INVALID_INVOCATION, ALREADY_INGESTED}"
      | r where "check_experiment_integrity request d = Inr None"
        "worker_result_record_for fromiso request result (clock ''received'') = Inr r"
        "record_result actor clock request result ephemeral r drafts port d = (port', Inr (outcome, d'))"
      using ingest_transaction_Inr by blast
    then show thesis
    proof cases
      case 1 then show thesis by (rule unchanged)
    next
      case (2 r)
      note fields = worker_result_record_for_Inr [OF 2(2)]
      note run = record_result_Inr [OF 2(3)]
      show thesis
      proof (rule stored [of r drafts])
        show "\<exists>x \<in> set (experiments d). xr_experiment_id x = wr_experiment_id r \<and> xr_research_run_id x = wr_research_run_id r \<and>
            xr_budget_id x = wr_budget_id r"
          using fields check_experiment_integrity_Inr [OF 2(1)] by blast
        show "\<forall>x \<in> set drafts. wr_status r = ''SUCCEEDED'' \<and>
            factual (odr_observation_kind x) (odr_normalization_version x) (odr_payload x)"
          using drafts_of_Inr(2) [OF Inr] fields by fastforce
      qed (use fields run drafts_of_Inr(1) [OF Inr] in simp_all)
    qed
  qed
qed

section \<open>The record of what was observed\<close>

text \<open>
  A result belongs to a stored experiment, its run and its budget, and is announced in the audit trail;
  an observation belongs to a SUCCEEDED result, says only what its normaliser may say, and is announced.
\<close>

definition result_backed :: "dispatch_db \<Rightarrow> worker_result_record \<Rightarrow> bool" where
  "result_backed d r \<longleftrightarrow> wr_worker_result_id r = worker_result_id_for (wr_request_id r) \<and>
     (\<exists>x \<in> set (experiments d). xr_experiment_id x = wr_experiment_id r \<and> xr_research_run_id x = wr_research_run_id r \<and>
        xr_budget_id x = wr_budget_id r) \<and>
     (\<exists>e \<in> set (audit_events d). announces ''WORKER_RESULT_INGESTED'' ''worker_result'' (wr_worker_result_id r) e)"

definition observation_backed :: "dispatch_db \<Rightarrow> observation_record \<Rightarrow> bool" where
  "observation_backed d x \<longleftrightarrow>
     (\<exists>r \<in> set (worker_results d). wr_worker_result_id r = or_worker_result_id x \<and> wr_status r = ''SUCCEEDED'' \<and>
        or_observation_id x = observation_id_for (wr_request_id r) (or_observation_kind x) (or_normalization_version x)) \<and>
     factual (or_observation_kind x) (or_normalization_version x) (or_payload x) \<and>
     (\<exists>e \<in> set (audit_events d). announces ''OBSERVATION_ADMITTED'' ''observation'' (or_observation_id x) e)"

definition ingestion_ok :: "dispatch_db \<Rightarrow> bool" where
  "ingestion_ok d \<longleftrightarrow> distinct (map wr_request_id (worker_results d)) \<and> distinct (map or_worker_result_id (observations d)) \<and>
     (\<forall>r \<in> set (worker_results d). result_backed d r) \<and> (\<forall>x \<in> set (observations d). observation_backed d x)"

text \<open>
  The transactions: an ingestion, or another one that leaves results and observations alone, keeps every
  experiment with its run and budget, and only appends to the audit trail.
\<close>

definition experiment_key :: "experiment_record \<Rightarrow> string \<times> string \<times> string" where
  "experiment_key x = (xr_experiment_id x, xr_research_run_id x, xr_budget_id x)"

inductive ingestion_step :: "schema_check \<Rightarrow> iso_parser \<Rightarrow> dispatch_db \<Rightarrow> dispatch_db \<Rightarrow> bool" for check fromiso where
  ingested: "ingest check fromiso actor clock request call port d = (port', Inr (outcome, d')) \<Longrightarrow> ingestion_step check fromiso d d'"
| elsewhere: "worker_results d' = worker_results d \<Longrightarrow> observations d' = observations d \<Longrightarrow>
    experiment_key ` set (experiments d) \<subseteq> experiment_key ` set (experiments d') \<Longrightarrow>
    set (audit_events d) \<subseteq> set (audit_events d') \<Longrightarrow> ingestion_step check fromiso d d'"

inductive_cases ingestion_stepE: "ingestion_step check fromiso d d'"

definition ingestion_reachable :: "schema_check \<Rightarrow> iso_parser \<Rightarrow> dispatch_db \<Rightarrow> bool" where
  "ingestion_reachable check fromiso d \<longleftrightarrow>
     (\<exists>d0. worker_results d0 = [] \<and> observations d0 = [] \<and> (ingestion_step check fromiso)\<^sup>*\<^sup>* d0 d)"

lemma experiment_key_mem:
  "(\<exists>x \<in> set xs. xr_experiment_id x = i \<and> xr_research_run_id x = run \<and> xr_budget_id x = b) \<longleftrightarrow> (i, run, b) \<in> experiment_key ` set xs"
  by (auto simp: experiment_key_def)

lemma backed_mono:
  assumes "set (worker_results d) \<subseteq> set (worker_results d')" "experiment_key ` set (experiments d) \<subseteq> experiment_key ` set (experiments d')"
    "set (audit_events d) \<subseteq> set (audit_events d')"
  shows "result_backed d r \<Longrightarrow> result_backed d' r" "observation_backed d x \<Longrightarrow> observation_backed d' x"
  using assms unfolding result_backed_def observation_backed_def experiment_key_mem by blast+

lemma fresh_result_id:
  assumes "ingestion_ok d" "wr_worker_result_id r = worker_result_id_for (wr_request_id r)" "wr_request_id r \<notin> wr_request_id ` set (worker_results d)"
  shows "wr_worker_result_id r \<notin> or_worker_result_id ` set (observations d)"
proof
  assume "wr_worker_result_id r \<in> or_worker_result_id ` set (observations d)"
  then obtain x where "x \<in> set (observations d)" "or_worker_result_id x = wr_worker_result_id r" by auto
  with assms(1) obtain r' where "r' \<in> set (worker_results d)" "wr_worker_result_id r' = wr_worker_result_id r"
    by (fastforce simp: ingestion_ok_def observation_backed_def)
  with assms show False by (force simp: ingestion_ok_def result_backed_def worker_result_id_for_def)
qed

lemma stores_ok:
  assumes ok: "ingestion_ok d" and stores: "stores r drafts t d d'" and one: "length drafts \<le> 1"
    and id: "wr_worker_result_id r = worker_result_id_for (wr_request_id r)"
    and x: "\<exists>x \<in> set (experiments d). xr_experiment_id x = wr_experiment_id r \<and> xr_research_run_id x = wr_research_run_id r \<and>
      xr_budget_id x = wr_budget_id r"
    and facts: "\<forall>x \<in> set drafts. wr_status r = ''SUCCEEDED'' \<and> factual (odr_observation_kind x) (odr_normalization_version x) (odr_payload x)"
  shows "ingestion_ok d'"
proof -
  from stores have keep: "set (worker_results d) \<subseteq> set (worker_results d')"
      "experiment_key ` set (experiments d) \<subseteq> experiment_key ` set (experiments d')" "set (audit_events d) \<subseteq> set (audit_events d')"
    by (auto simp: stores_def)
  have "result_backed d' r" using stores id x by (force simp: stores_def result_backed_def)
  moreover have "\<forall>y \<in> set drafts. observation_backed d' (observation_row r t y)"
    using stores facts by (fastforce simp: stores_def observation_backed_def observation_row_def)
  moreover have "distinct (map or_worker_result_id (observations d @ map (observation_row r t) drafts))"
    using ok one fresh_result_id [OF ok id] stores
    by (cases drafts) (auto simp: ingestion_ok_def stores_def observation_row_def)
  ultimately show ?thesis
    using ok stores backed_mono [OF keep] by (auto simp: ingestion_ok_def stores_def)
qed

lemma ingestion_step_ok: "ingestion_step check fromiso d d' \<Longrightarrow> ingestion_ok d \<Longrightarrow> ingestion_ok d'"
proof (erule ingestion_stepE)
  fix actor clock request call port port' outcome
  assume ok: "ingestion_ok d" and run: "ingest check fromiso actor clock request call port d = (port', Inr (outcome, d'))"
  from run show "ingestion_ok d'"
  proof (cases rule: ingest_Inr)
    case (stored r drafts)
    from stores_ok [OF ok stored(1,2,5,6,7)] show ?thesis .
  qed (use ok in simp)
next
  assume "ingestion_ok d" "worker_results d' = worker_results d" "observations d' = observations d"
    "experiment_key ` set (experiments d) \<subseteq> experiment_key ` set (experiments d')" "set (audit_events d) \<subseteq> set (audit_events d')"
  with backed_mono [of d d'] show "ingestion_ok d'" by (simp add: ingestion_ok_def)
qed

lemma ingestion_reachable_ok: "ingestion_reachable check fromiso d \<Longrightarrow> ingestion_ok d"
proof -
  assume "ingestion_reachable check fromiso d"
  then obtain d0 where "worker_results d0 = []" "observations d0 = []" and steps: "(ingestion_step check fromiso)\<^sup>*\<^sup>* d0 d"
    by (auto simp: ingestion_reachable_def)
  then have "ingestion_ok d0" by (simp add: ingestion_ok_def)
  with steps show ?thesis by (induction rule: rtranclp_induct) (auto intro: ingestion_step_ok)
qed

lemma ingestion_step_grows:
  assumes "ingestion_step check fromiso d d'" and ok: "ingestion_ok d"
  shows "set (worker_results d) \<subseteq> set (worker_results d') \<and>
    (\<forall>r \<in> set (worker_results d). filter (\<lambda>x. or_worker_result_id x = wr_worker_result_id r) (observations d') =
       filter (\<lambda>x. or_worker_result_id x = wr_worker_result_id r) (observations d))"
  using assms(1)
proof (cases rule: ingestion_step.cases)
  case (ingested actor clock request call port port' outcome)
  then show ?thesis
  proof (cases rule: ingest_Inr)
    case (stored r drafts)
    have "wr_worker_result_id r' \<noteq> wr_worker_result_id r" if r': "r' \<in> set (worker_results d)" for r'
    proof -
      have "wr_request_id r' \<noteq> wr_request_id r" using stored(1) r' unfolding stores_def by (metis imageI)
      moreover have "wr_worker_result_id r' = worker_result_id_for (wr_request_id r')"
        using ok r' by (simp add: ingestion_ok_def result_backed_def)
      ultimately show ?thesis using stored(5) by (simp add: worker_result_id_for_def)
    qed
    then have "filter (\<lambda>x. or_worker_result_id x = wr_worker_result_id r') (map (observation_row r (clock ''created'')) drafts) = []"
      if "r' \<in> set (worker_results d)" for r'
      using that by (fastforce simp: filter_empty_conv observation_row_def)
    with stored(1) show ?thesis by (auto simp: stores_def)
  qed simp
qed simp

text \<open>What a repeated call reads: the call passes the same checks, finds its result and the observations of it.\<close>

lemma ingest_checks_passed:
  assumes "ingest check fromiso actor clock request call port d = (port', Inr (outcome, d'))" "ion_status outcome \<in> {INGESTED, NO_OBSERVATION}"
  shows "\<exists>result ephemeral drafts. \<forall>actor clock port d. ingest check fromiso actor clock request call port d =
    ingest_transaction fromiso actor clock request result ephemeral drafts port d"
proof -
  obtain result ephemeral where strip: "strip_ephemeral_secrets (the (wio_worker_result call)) = (result, ephemeral)" by force
  have None: "reject_invalid_invocation check request call = None"
    using assms by (auto simp: ingest_def reject_invalid_invocation_def rejected_invocation_def
      split: if_splits option.splits sum.splits app_error.splits)
  then show ?thesis
  proof (cases "drafts_of fromiso request result")
    case (Inl e)
    with None strip assms show ?thesis by (cases e) (auto simp: ingest_def rejected_invocation_def simp del: drafts_of.simps)
  next
    case (Inr drafts)
    with None strip show ?thesis by (auto simp: ingest_def simp del: drafts_of.simps)
  qed
qed

lemma distinct_map_filter_single: "distinct (map f xs) \<Longrightarrow> x \<in> set xs \<Longrightarrow> filter (\<lambda>y. f y = f x) xs = [x]"
  by (induction xs) (auto simp: filter_empty_conv rev_image_eqI)

lemma ingest_again:
  assumes ok: "ingestion_ok d" and r: "r \<in> set (worker_results d)" "request_id_of request = Inr (wr_request_id r)" "\<not> blank (wr_request_id r)"
    and rows: "filter (\<lambda>x. or_worker_result_id x = wr_worker_result_id r) (observations d) = rows" "length rows \<le> 1"
  shows "ingest_transaction fromiso actor clock request result ephemeral drafts port d =
    (port, Inr (\<lparr>ion_status = ALREADY_INGESTED, ion_worker_result_id = Some (wr_worker_result_id r),
      ion_observation_ids = map or_observation_id rows,
      ion_reason = Some ''request_id already ingested; not a duplicate vulnerability''\<rparr>, d))"
proof -
  have "filter (\<lambda>x. wr_request_id x = wr_request_id r) (worker_results d) = [r]"
    using ok r(1) distinct_map_filter_single [of wr_request_id "worker_results d" r] by (simp add: ingestion_ok_def)
  then have found: "get_worker_result_by_request (wr_request_id r) d = Inr (Some r)"
    using r(3) by (simp add: get_worker_result_by_request_def fetch_one_def one_or_none_def)
  have "\<not> blank (wr_worker_result_id r)"
    using ok r(1) by (auto simp: ingestion_ok_def result_backed_def worker_result_id_for_def blank_iff_all_space py_space_def)
  moreover have "sort_key or_observation_id rows = rows" using rows(2) by (cases rows) auto
  ultimately have "list_observations_for_worker_result (wr_worker_result_id r) d = Inr rows"
    using rows(1) by (simp add: list_observations_for_worker_result_def fetch_list_def)
  then show ?thesis using found r(2) by (simp add: ingest_transaction_def already_ingested_def)
qed

section \<open>A concrete ingestion\<close>

definition echo_request :: payload where
  "echo_request = [(''contract_version'', JStr ''v1''), (''correlation'', JObj
     [(''correlation_id'', JStr ''c1''), (''research_run_id'', JStr ''run''), (''experiment_id'', JStr ''x1''), (''request_id'', JStr ''q1'')]),
     (''worker_capability'', JStr ''diagnostic.echo''), (''action'', JStr ''echo''),
     (''authorization_decision_reference'', JStr ''ae:exec:q1''), (''execution_budget'', JObj [(''budget_id'', JStr ''b1'')]),
     (''side_effect_level'', JInt 0)]"

definition echo_call :: worker_invocation_outcome where
  "echo_call = \<lparr>wio_invocation_status = INV_COMPLETED, wio_started_at = 0, wio_completed_at = 1, wio_worker_result = Some
     [(''contract_version'', JStr ''v1''), (''correlation'', JObj
        [(''correlation_id'', JStr ''c1''), (''research_run_id'', JStr ''run''), (''experiment_id'', JStr ''x1''), (''request_id'', JStr ''q1'')]),
      (''status'', JStr ''SUCCEEDED''), (''worker_id'', JStr ''w''), (''completed_at'', JStr ''2025-01-01T00:00:00Z''),
      (''raw_result'', JObj [(''echoed'', JStr ''hi'')])],
     wio_exit_code = None, wio_stderr_diagnostics = [], wio_stderr_truncated = False, wio_reason = None\<rparr>"

definition echo_store :: dispatch_db where
  "echo_store = \<lparr>dd_store = empty_db\<lparr>db_experiments := [\<lparr>xr_experiment_id = ''x1'', xr_research_run_id = ''run'',
       xr_hypothesis_id = ''h'', xr_budget_id = ''b1'', xr_execution_state = ''RUNNING'', xr_created_at = 0\<rparr>]\<rparr>,
     dd_budgets = empty_budget_db\<lparr>bd_issued_budgets := [\<lparr>ibr_budget_id = ''b1'', ibr_research_run_id = Some ''run'', ibr_max_requests = 5,
       ibr_max_tool_calls = 5, ibr_max_runtime_ms = 1000, ibr_max_concurrency = 1, ibr_issued_at = 0\<rparr>]\<rparr>,
     dd_programs = \<lparr>pd_programs = [], pd_scope_rules = [], pd_rate_limits = []\<rparr>, dd_sources = [], dd_plans = [], dd_sessions = []\<rparr>"

abbreviation no_schema :: schema_check where
  "no_schema \<equiv> \<lambda>_ _. None"

abbreviation echo_effect :: ingest_effect where
  "echo_effect \<equiv> ingest no_schema one_instant ''control-plane'' (\<lambda>_. 0) echo_request echo_call None echo_store"

definition stored_ids :: "ingest_effect \<Rightarrow> (ingestion_status \<times> string list) option" where
  "stored_ids e = (case snd e of Inl _ \<Rightarrow> None | Inr (outcome, _) \<Rightarrow> Some (ion_status outcome, ion_observation_ids outcome))"

lemma echo_ingested: "stored_ids echo_effect = Some (INGESTED, [''obs:q1:diagnostic.echo:diagnostic.echo.v1''])"
  by code_simp

text \<open>
  C7. The record of observations can be trusted: in every state that ingestions and other transactions
  reach, a request has at most one worker result and a result at most one observation; an observation
  belongs to a SUCCEEDED result of a stored experiment, under that experiment's run and budget, its
  payload stays within the vocabulary of its normaliser, and result and observation are in the audit trail.
\<close>

theorem observations_are_backed:
  assumes "ingestion_reachable check fromiso d"
  shows "distinct (map wr_request_id (worker_results d)) \<and> distinct (map or_worker_result_id (observations d)) \<and>
    (\<forall>x \<in> set (observations d). \<exists>r \<in> set (worker_results d).
       wr_worker_result_id r = or_worker_result_id x \<and> wr_status r = ''SUCCEEDED'' \<and>
       (\<exists>y \<in> set (experiments d). xr_experiment_id y = wr_experiment_id r \<and> xr_research_run_id y = wr_research_run_id r \<and>
          xr_budget_id y = wr_budget_id r) \<and>
       factual (or_observation_kind x) (or_normalization_version x) (or_payload x) \<and>
       (\<exists>e \<in> set (audit_events d). announces ''WORKER_RESULT_INGESTED'' ''worker_result'' (wr_worker_result_id r) e) \<and>
       (\<exists>e \<in> set (audit_events d). announces ''OBSERVATION_ADMITTED'' ''observation'' (or_observation_id x) e))"
proof -
  from assms have ok: "ingestion_ok d" by (rule ingestion_reachable_ok)
  then have "\<exists>r \<in> set (worker_results d). wr_worker_result_id r = or_worker_result_id x \<and> wr_status r = ''SUCCEEDED'' \<and>
      result_backed d r \<and> observation_backed d x" if "x \<in> set (observations d)" for x
    using that unfolding ingestion_ok_def observation_backed_def by blast
  then show ?thesis using ok unfolding ingestion_ok_def result_backed_def observation_backed_def by blast
qed

theorem observations_are_backed_witness:
  "\<exists>d. ingestion_reachable no_schema one_instant d \<and> (\<exists>x \<in> set (observations d). \<exists>r \<in> set (worker_results d).
     wr_worker_result_id r = or_worker_result_id x \<and> wr_status r = ''SUCCEEDED'')"
proof -
  obtain port outcome d where run: "echo_effect = (port, Inr (outcome, d))" "ion_observation_ids outcome \<noteq> []" "ion_status outcome = INGESTED"
    using echo_ingested by (cases echo_effect) (auto simp: stored_ids_def split: sum.splits prod.splits)
  have "ingestion_step no_schema one_instant echo_store d" using run(1) by (rule ingested)
  then have reach: "ingestion_reachable no_schema one_instant d"
    unfolding ingestion_reachable_def by (intro exI [of _ echo_store]) (auto simp: echo_store_def empty_db_def)
  from run(1) have "observations d \<noteq> []"
    by (cases rule: ingest_Inr) (use run(2,3) in \<open>auto simp: stores_def\<close>)
  then obtain x where "x \<in> set (observations d)" by (cases "observations d") auto
  with observations_are_backed [OF reach] reach show ?thesis by blast
qed

text \<open>
  C40. Ingestion is idempotent: once a request has been ingested, the same call made again, after any
  other transactions, changes nothing - neither a table nor the secret port - and reports the result and
  the observations that were stored the first time.
\<close>

theorem ingestion_idempotent:
  assumes "ingestion_reachable check fromiso d"
    and first: "ingest check fromiso actor clock request call port d = (port', Inr (outcome, d1))"
    and "ion_status outcome \<in> {INGESTED, NO_OBSERVATION}"
    and later: "(ingestion_step check fromiso)\<^sup>*\<^sup>* d1 d2"
  shows "ingest check fromiso actor' clock' request call port2 d2 = (port2, Inr (outcome
    \<lparr>ion_status := ALREADY_INGESTED, ion_reason := Some ''request_id already ingested; not a duplicate vulnerability''\<rparr>, d2))"
proof -
  from assms(1) have ok: "ingestion_ok d" by (rule ingestion_reachable_ok)
  have ok1: "ingestion_ok d1" using ok by (rule ingestion_step_ok [OF ingested [OF first]])
  obtain result ephemeral drafts' where again: "ingest check fromiso actor' clock' request call port2 d2 =
      ingest_transaction fromiso actor' clock' request result ephemeral drafts' port2 d2"
    using ingest_checks_passed [OF first assms(3)] by blast
  from first show ?thesis
  proof (cases rule: ingest_Inr)
    case (stored r drafts)
    let ?rows = "map (observation_row r (clock ''created'')) drafts"
    have "filter (\<lambda>x. or_worker_result_id x = wr_worker_result_id r) (observations d) = []"
      using fresh_result_id [OF ok stored(5)] stored(1) unfolding stores_def filter_empty_conv by (metis imageI)
    then have rows1: "filter (\<lambda>x. or_worker_result_id x = wr_worker_result_id r) (observations d1) = ?rows"
      using stored(1) by (simp add: stores_def observation_row_def comp_def)
    from later have "ingestion_ok d2 \<and> r \<in> set (worker_results d2) \<and>
      filter (\<lambda>x. or_worker_result_id x = wr_worker_result_id r) (observations d2) = ?rows"
    proof (induction rule: rtranclp_induct)
      case base
      then show ?case using ok1 stored(1) rows1 by (simp add: stores_def)
    next
      case (step d2 d3)
      then show ?case using ingestion_step_ok [OF step(2)] ingestion_step_grows [OF step(2)] by auto
    qed
    then have "ingestion_ok d2" "r \<in> set (worker_results d2)"
      and rows2: "filter (\<lambda>x. or_worker_result_id x = wr_worker_result_id r) (observations d2) = ?rows" by simp_all
    from ingest_again [OF this(1,2) stored(3,4) rows2] stored(2,8) again show ?thesis by simp
  qed (use assms(3) in auto)
qed

theorem ingestion_idempotent_witness:
  "\<exists>outcome d. echo_effect = (None, Inr (outcome, d)) \<and> ingest no_schema one_instant ''other'' (\<lambda>_. 9) echo_request echo_call None d =
     (None, Inr (outcome\<lparr>ion_status := ALREADY_INGESTED,
       ion_reason := Some ''request_id already ingested; not a duplicate vulnerability''\<rparr>, d))"
proof -
  obtain port outcome d where run: "echo_effect = (port, Inr (outcome, d))" "ion_status outcome = INGESTED"
    using echo_ingested by (cases echo_effect) (auto simp: stored_ids_def split: sum.splits prod.splits)
  have "fst echo_effect = None" by code_simp
  moreover have "ingestion_reachable no_schema one_instant echo_store"
    unfolding ingestion_reachable_def by (intro exI [of _ echo_store]) (simp add: echo_store_def empty_db_def)
  ultimately show ?thesis using run ingestion_idempotent [OF _ run(1) _ rtranclp.rtrancl_refl] by auto
qed

end
