(* ===== verification/Dispatch.thy ===== *)
theory Dispatch
  imports Ingest Capability_Binding Core_Execution Core_RateLimit Budget_Use_Cases
begin

text \<open>
  The execution of a planned experiment (\<open>application/execute_planned_experiment.py\<close>): authorization
  (one transaction), dispatch (one transaction, then the worker is invoked), and the recording of what
  the worker answered (up to three transactions).  An early return before the commit leaves the
  database as it was.  \<open>new_id\<close> and \<open>clock\<close> give the identifier and the instant of each place in the
  code that asks for one.  The redirect proposal of a loop outcome is left out; it is only reported.
\<close>

section \<open>Values of the enumerations\<close>

fun reason_code_value :: "reason_code \<Rightarrow> string" where
  "reason_code_value RC_ALLOWED = ''ALLOWED''"
| "reason_code_value RC_AUTHORIZATION_MISSING = ''AUTHORIZATION_MISSING''"
| "reason_code_value RC_AUTHORIZATION_INACTIVE = ''AUTHORIZATION_INACTIVE''"
| "reason_code_value RC_SCOPE_DENIED = ''SCOPE_DENIED''"
| "reason_code_value RC_SCOPE_NOT_EXPLICITLY_ALLOWED = ''SCOPE_NOT_EXPLICITLY_ALLOWED''"
| "reason_code_value RC_SCOPE_AMBIGUOUS = ''SCOPE_AMBIGUOUS''"
| "reason_code_value RC_BUDGET_EXHAUSTED = ''BUDGET_EXHAUSTED''"
| "reason_code_value RC_BUDGET_MISMATCH = ''BUDGET_MISMATCH''"
| "reason_code_value RC_APPROVAL_REQUIRED = ''APPROVAL_REQUIRED''"
| "reason_code_value RC_APPROVAL_REJECTED = ''APPROVAL_REJECTED''"
| "reason_code_value RC_APPROVAL_INVALID_ACTOR = ''APPROVAL_INVALID_ACTOR''"
| "reason_code_value RC_APPROVAL_SUBJECT_MISMATCH = ''APPROVAL_SUBJECT_MISMATCH''"
| "reason_code_value RC_APPROVAL_NOT_RECORDED = ''APPROVAL_NOT_RECORDED''"
| "reason_code_value RC_SIDE_EFFECT_LEVEL_DENIED = ''SIDE_EFFECT_LEVEL_DENIED''"
| "reason_code_value RC_CAPABILITY_AUTHORIZATION_MISSING = ''CAPABILITY_AUTHORIZATION_MISSING''"
| "reason_code_value RC_UNKNOWN_CAPABILITY = ''UNKNOWN_CAPABILITY''"
| "reason_code_value RC_UNKNOWN_ACTION = ''UNKNOWN_ACTION''"
| "reason_code_value RC_UNSUPPORTED_CAPABILITY_VERSION = ''UNSUPPORTED_CAPABILITY_VERSION''"
| "reason_code_value RC_DEFINITION_FINGERPRINT_MISMATCH = ''DEFINITION_FINGERPRINT_MISMATCH''"
| "reason_code_value RC_RISK_UNDERSTATEMENT = ''RISK_UNDERSTATEMENT''"
| "reason_code_value RC_RISK_EXCEEDS_CAPABILITY = ''RISK_EXCEEDS_CAPABILITY''"
| "reason_code_value RC_SIDE_EFFECT_BINDING_MISMATCH = ''SIDE_EFFECT_BINDING_MISMATCH''"
| "reason_code_value RC_SCHEMA_MISMATCH = ''SCHEMA_MISMATCH''"
| "reason_code_value RC_SCOPE_PATH_AMBIGUOUS = ''SCOPE_PATH_AMBIGUOUS''"
| "reason_code_value RC_SCOPE_NORMALIZATION_INVALID = ''SCOPE_NORMALIZATION_INVALID''"
| "reason_code_value RC_SCOPE_USERINFO_DENIED = ''SCOPE_USERINFO_DENIED''"
| "reason_code_value RC_SCOPE_WILDCARD_REJECTED = ''SCOPE_WILDCARD_REJECTED''"
| "reason_code_value RC_SCOPE_UNKNOWN_CLASSIFICATION = ''SCOPE_UNKNOWN_CLASSIFICATION''"
| "reason_code_value RC_SCOPE_EXPIRED = ''SCOPE_EXPIRED''"
| "reason_code_value RC_PROGRAM_POLICY_DENIED = ''PROGRAM_POLICY_DENIED''"
| "reason_code_value RC_RATE_LIMIT_DENIED = ''RATE_LIMIT_DENIED''"
| "reason_code_value RC_SENSOR_TIMEOUT = ''SENSOR_TIMEOUT''"
| "reason_code_value RC_SENSOR_FAILED = ''SENSOR_FAILED''"
| "reason_code_value RC_CENSUS_ALLOWED = ''CENSUS_ALLOWED''"
| "reason_code_value RC_CENSUS_DENIED = ''CENSUS_DENIED''"
| "reason_code_value RC_IMPACT_CHAIN_MISSING = ''IMPACT_CHAIN_MISSING''"
| "reason_code_value RC_IMPACT_CHAIN_CROSS_RUN = ''IMPACT_CHAIN_CROSS_RUN''"
| "reason_code_value RC_CROSS_RUN_PROOF = ''CROSS_RUN_PROOF''"

definition REASON_CODES :: "reason_code list" where
  "REASON_CODES = [RC_ALLOWED, RC_AUTHORIZATION_MISSING, RC_AUTHORIZATION_INACTIVE, RC_SCOPE_DENIED,
     RC_SCOPE_NOT_EXPLICITLY_ALLOWED, RC_SCOPE_AMBIGUOUS, RC_BUDGET_EXHAUSTED, RC_BUDGET_MISMATCH,
     RC_APPROVAL_REQUIRED, RC_APPROVAL_REJECTED, RC_APPROVAL_INVALID_ACTOR,
     RC_APPROVAL_SUBJECT_MISMATCH, RC_APPROVAL_NOT_RECORDED, RC_SIDE_EFFECT_LEVEL_DENIED,
     RC_CAPABILITY_AUTHORIZATION_MISSING, RC_UNKNOWN_CAPABILITY, RC_UNKNOWN_ACTION,
     RC_UNSUPPORTED_CAPABILITY_VERSION, RC_DEFINITION_FINGERPRINT_MISMATCH, RC_RISK_UNDERSTATEMENT,
     RC_RISK_EXCEEDS_CAPABILITY, RC_SIDE_EFFECT_BINDING_MISMATCH, RC_SCHEMA_MISMATCH,
     RC_SCOPE_PATH_AMBIGUOUS, RC_SCOPE_NORMALIZATION_INVALID, RC_SCOPE_USERINFO_DENIED,
     RC_SCOPE_WILDCARD_REJECTED, RC_SCOPE_UNKNOWN_CLASSIFICATION, RC_SCOPE_EXPIRED,
     RC_PROGRAM_POLICY_DENIED, RC_RATE_LIMIT_DENIED, RC_SENSOR_TIMEOUT, RC_SENSOR_FAILED,
     RC_CENSUS_ALLOWED, RC_CENSUS_DENIED, RC_IMPACT_CHAIN_MISSING, RC_IMPACT_CHAIN_CROSS_RUN,
     RC_CROSS_RUN_PROOF]"

definition reason_code_named :: "string \<Rightarrow> reason_code option" where
  "reason_code_named s = find (\<lambda>c. reason_code_value c = s) REASON_CODES"

fun execution_decision_kind_value :: "execution_decision_kind \<Rightarrow> string" where
  "execution_decision_kind_value ED_ALLOW = ''ALLOW''"
| "execution_decision_kind_value ED_DENY = ''DENY''"
| "execution_decision_kind_value ED_REQUIRE_HUMAN_REVIEW = ''REQUIRE_HUMAN_REVIEW''"

definition authorization_source_state_of :: "string \<Rightarrow> app_error + authorization_source_state" where
  "authorization_source_state_of s =
     (if s = ''ACTIVE'' then Inr AS_ACTIVE else if s = ''EXPIRED'' then Inr AS_EXPIRED
      else if s = ''REVOKED'' then Inr AS_REVOKED else Inl (AppValueError ''not an AuthorizationSourceState''))"

definition TERMINAL_EXPERIMENT_STATES :: "string list" where
  "TERMINAL_EXPERIMENT_STATES =
     [''EXECUTION_SUCCEEDED'', ''EXECUTION_FAILED'', ''BLOCKED'', ''CANCELLED'', ''BUDGET_EXHAUSTED'']"

text \<open>\<open>datetime.isoformat\<close> of an instant in UTC, in microseconds.\<close>

definition iso_time :: "int \<Rightarrow> string" where
  "iso_time instant =
     (let us = instant mod 86400000000; seconds = us div 1000000; fraction = us mod 1000000 in
      iso_date instant @ ''T'' @ zero_pad 2 (seconds div 3600) @ '':'' @ zero_pad 2 (seconds div 60 mod 60) @ '':''
        @ zero_pad 2 (seconds mod 60) @ (if fraction = 0 then [] else ''.'' @ zero_pad 6 fraction) @ ''+00:00'')"

section \<open>Commands and outcomes\<close>

datatype loop_status = OBSERVATION_PRODUCED | LOOP_NO_OBSERVATION | DISPATCH_DENIED | HUMAN_REVIEW_REQUIRED | INVOCATION_FAILED
  | UNKNOWN_OUTCOME | AUTHORIZED_NOT_DISPATCHED | ALREADY_TERMINAL | INPUT_REJECTED | REAUTHORIZATION_REQUIRED

record execute_command =
  epc_experiment_id :: string
  epc_plan :: experiment_plan
  epc_scope :: scope_evaluation_input
  epc_approval :: "approval_view option"
  epc_budget_usage :: "budget_usage option"
  epc_compiled_scope :: "compiled_scope option"
  epc_program_policy :: "program_policy_view option"
  epc_identity_id :: "string option"
  epc_identity :: "identity option"
  epc_authentication_profile :: "http_form_login_profile option"

record authorized_dispatch =
  adp_experiment_id :: string
  adp_hypothesis_id :: string
  adp_request_id :: string
  adp_attempt_id :: string
  adp_correlation_id :: string
  adp_authorization_decision_reference :: string
  adp_worker_request :: payload
  adp_timeout_ms :: int
  adp_core_decision :: execution_decision_kind
  adp_core_reason_code :: reason_code
  adp_resolved_secret_values :: "(string \<times> string) list option"
  adp_network_envelope :: "authorized_network_envelope option"

record loop_outcome =
  lo_status :: loop_status
  lo_hypothesis_id :: string
  lo_experiment_id :: string
  lo_experiment_execution_state :: string
  lo_core_decision :: "execution_decision_kind option"
  lo_core_reason_code :: "reason_code option"
  lo_authorization_decision_reference :: "string option"
  lo_request_id :: "string option"
  lo_attempt_id :: "string option"
  lo_attempt_state :: "string option"
  lo_invocation_status :: "invocation_status option"
  lo_worker_result_id :: "string option"
  lo_observation_ids :: "string list"
  lo_ingestion_status :: "ingestion_status option"
  lo_hypothesis_claim_unchanged :: bool
  lo_network_envelope :: "authorized_network_envelope option"

definition outcome_for :: "loop_status \<Rightarrow> string \<Rightarrow> string \<Rightarrow> string \<Rightarrow> loop_outcome" where
  "outcome_for status hypothesis_id experiment_id state =
     \<lparr>lo_status = status, lo_hypothesis_id = hypothesis_id, lo_experiment_id = experiment_id,
      lo_experiment_execution_state = state, lo_core_decision = None, lo_core_reason_code = None,
      lo_authorization_decision_reference = None, lo_request_id = None, lo_attempt_id = None, lo_attempt_state = None,
      lo_invocation_status = None, lo_worker_result_id = None, lo_observation_ids = [], lo_ingestion_status = None,
      lo_hypothesis_claim_unchanged = True, lo_network_envelope = None\<rparr>"

definition outcome_at :: "loop_status \<Rightarrow> experiment_record \<Rightarrow> loop_outcome" where
  "outcome_at status x = outcome_for status (xr_hypothesis_id x) (xr_experiment_id x) (xr_execution_state x)"

definition refused_at :: "loop_status \<Rightarrow> experiment_record \<Rightarrow> reason_code option \<Rightarrow> loop_outcome" where
  "refused_at status x reason = (outcome_at status x)\<lparr>lo_core_decision := Some ED_DENY, lo_core_reason_code := reason\<rparr>"

definition outcome_of_attempt :: "loop_status \<Rightarrow> experiment_record \<Rightarrow> string \<Rightarrow> execution_attempt_record \<Rightarrow> loop_outcome" where
  "outcome_of_attempt status x hypothesis_id a =
     (outcome_for status hypothesis_id (xr_experiment_id x) (xr_execution_state x))
       \<lparr>lo_authorization_decision_reference := Some (ear_authorization_decision_reference a),
        lo_request_id := Some (ear_request_id a), lo_attempt_id := Some (ear_attempt_id a), lo_attempt_state := Some (ear_state a)\<rparr>"

definition outcome_for_existing :: "experiment_record \<Rightarrow> string \<Rightarrow> execution_attempt_record \<Rightarrow> loop_outcome" where
  "outcome_for_existing x hypothesis_id a =
     outcome_of_attempt (if ear_state a = ''AUTHORIZED'' then AUTHORIZED_NOT_DISPATCHED
       else if ear_state a = ''UNKNOWN_OUTCOME'' then UNKNOWN_OUTCOME else ALREADY_TERMINAL) x hypothesis_id a"

section \<open>The context of an authorization\<close>

definition authorization_view :: "authorization_source_record option \<Rightarrow> app_error + authorization_source_view option" where
  "authorization_view record = (case record of
     None \<Rightarrow> Inr None
   | Some r \<Rightarrow> bindE (authorization_source_state_of (asr_state r)) (\<lambda>state.
       bindE (mapErr AppCore (post_init_authorization_source_view
         \<lparr>asv_authorization_source_id = asr_authorization_source_id r, asv_program_id = asr_program_id r, asv_state = state\<rparr>)) (\<lambda>v.
       Inr (Some v))))"

definition issued_budget_from_record :: "issued_budget_record \<Rightarrow> core_error + issued_budget" where
  "issued_budget_from_record r = post_init_issued_budget
     \<lparr>ib_budget_id = ibr_budget_id r, ib_max_requests = ibr_max_requests r, ib_max_tool_calls = ibr_max_tool_calls r,
      ib_max_runtime_ms = ibr_max_runtime_ms r, ib_max_concurrency = ibr_max_concurrency r\<rparr>"

text \<open>A row that has to exist: otherwise the input is rejected.\<close>

definition or_reject ::
    "'a option \<Rightarrow> experiment_record \<Rightarrow> ('a \<Rightarrow> app_error + (loop_outcome + 'b)) \<Rightarrow> app_error + (loop_outcome + 'b)" where
  "or_reject row x k = (case row of None \<Rightarrow> Inr (Inl (outcome_at INPUT_REJECTED x)) | Some r \<Rightarrow> k r)"

definition load_context ::
    "execute_command \<Rightarrow> dispatch_db
     \<Rightarrow> app_error + (loop_outcome + (experiment_record \<times> string \<times> authorization_source_view option \<times> issued_budget_record))" where
  "load_context command d =
     bindE (stored (get_experiment (epc_experiment_id command) (dd_store d))) (\<lambda>row.
     case row of
       None \<Rightarrow> Inr (Inl (outcome_for INPUT_REJECTED (ep_hypothesis_id (epc_plan command)) (epc_experiment_id command) ''MISSING''))
     | Some x \<Rightarrow>
         if xr_execution_state x \<in> set TERMINAL_EXPERIMENT_STATES then Inr (Inl (outcome_at ALREADY_TERMINAL x))
         else if xr_hypothesis_id x \<noteq> ep_hypothesis_id (epc_plan command) then Inr (Inl (outcome_at INPUT_REJECTED x))
         else if xr_budget_id x \<noteq> ep_requested_budget_id (epc_plan command) then Inr (Inl (outcome_at INPUT_REJECTED x))
         else bindE (stored (get_hypothesis (xr_hypothesis_id x) d)) (\<lambda>row. or_reject row x (\<lambda>hypothesis.
              bindE (stored (get_research_run (xr_research_run_id x) d)) (\<lambda>row. or_reject row x (\<lambda>run.
              bindE (stored (get_issued_budget (xr_budget_id x) (dd_budgets d))) (\<lambda>row. or_reject row x (\<lambda>issued.
              bindE (stored (get_authorization_source (rr_authorization_source_id run) d)) (\<lambda>row.
              bindE (authorization_view row) (\<lambda>source.
              Inr (Inr (x, hyr_hypothesis_id hypothesis, source, issued)))))))))))"

text \<open>The durable plan: stored on the first authorization, compared afterwards.\<close>

definition ensure_plan ::
    "experiment_record \<Rightarrow> experiment_plan \<Rightarrow> int \<Rightarrow> dispatch_db \<Rightarrow> app_error + (loop_outcome + dispatch_db)" where
  "ensure_plan x plan now d =
     bindE (stored (get_experiment_plan (xr_experiment_id x) d)) (\<lambda>row.
     case row of
       None \<Rightarrow>
         if or_text (ep_capability_version plan) [] = [] \<or> or_text (ep_capability_definition_fingerprint plan) [] = []
         then Inr (Inl (outcome_at INPUT_REJECTED x))
         else bindE (stored (experiment_plan_record_for x plan now)) (\<lambda>r.
              bindE (stored (insert_experiment_plan r d)) (\<lambda>d. Inr (Inr d)))
     | Some r \<Rightarrow> bindE (researched (durable_plan_matches r plan)) (\<lambda>same.
         if same then Inr (Inr d) else Inr (Inl (outcome_at INPUT_REJECTED x))))"

section \<open>The decision\<close>

text \<open>What the use case is built with: the library functions, the contract and argument schemas, the catalog, the actor.\<close>

record dispatch_services =
  ds_library :: url_library
  ds_arguments :: schema_validator
  ds_contracts :: schema_check
  ds_catalog :: capability_registry
  ds_timestamps :: iso_parser
  ds_actor :: string

definition binding_reason :: "string \<Rightarrow> reason_code" where
  "binding_reason code = (case reason_code_named code of
     Some c \<Rightarrow> c
   | None \<Rightarrow> if code \<in> {''MISSING_REQUIRED_ARGUMENT'', ''UNEXPECTED_ARGUMENT'', ''INVALID_ARGUMENT_TYPE''}
       then RC_SCHEMA_MISMATCH else RC_UNKNOWN_CAPABILITY)"

text \<open>The gate of the program's rate limit: the outcome of a denial, and the database with its audit event.\<close>

definition rate_limit_event ::
    "string \<Rightarrow> string \<Rightarrow> int \<Rightarrow> experiment_record \<Rightarrow> rate_limit_profile_record \<Rightarrow> rate_limit_check \<Rightarrow> persistence_error + audit_event_record" where
  "rate_limit_event audit_id actor now x profile verdict = post_init_audit_event_record
     \<lparr>aer_audit_event_id = audit_id, aer_occurred_at = now, aer_actor_id = actor,
      aer_actor_type = actor_type_value CONTROL_PLANE, aer_event_type = ''RATE_LIMIT_DENIED'',
      aer_subject_type = ''experiment'', aer_subject_id = xr_experiment_id x,
      aer_payload = [(''profile_id'', JStr (rpr_profile_id profile)),
        (''max_requests_per_window'', JInt (rpr_max_requests_per_window profile)),
        (''window_seconds'', JInt (rpr_window_seconds profile)),
        (''reason_code'', JStr (reason_code_value (rlc_reason_code verdict))),
        (''next_allowed_at'', json_opt_str (map_option iso_time (rlc_next_allowed_at verdict)))],
      aer_correlation_id = Some (xr_research_run_id x)\<rparr>"

definition rate_limit_verdict ::
    "rate_limit_profile_record \<Rightarrow> experiment_record \<Rightarrow> int \<Rightarrow> dispatch_db \<Rightarrow> app_error + rate_limit_check" where
  "rate_limit_verdict profile x now d =
     bindE (mapErr AppCore (post_init_rate_limit_profile
       \<lparr>rlp_profile_id = rpr_profile_id profile, rlp_program_id = rpr_program_id profile,
        rlp_max_requests_per_window = rpr_max_requests_per_window profile, rlp_window_seconds = rpr_window_seconds profile\<rparr>)) (\<lambda>p.
     bindE (stored (list_attempts_for_research_run (xr_research_run_id x) d)) (\<lambda>rows.
     Inr (check_rate_limit p (List.map_filter ear_authorized_at rows) now)))"

definition check_rate_limit_gate ::
    "string \<Rightarrow> (string \<Rightarrow> string) \<Rightarrow> program_policy_view option \<Rightarrow> experiment_record \<Rightarrow> string \<Rightarrow> int \<Rightarrow> dispatch_db
     \<Rightarrow> app_error + (loop_outcome \<times> dispatch_db) option" where
  "check_rate_limit_gate actor new_id program_policy x hypothesis_id now d =
     (case program_policy of
        None \<Rightarrow> Inr None
      | Some policy \<Rightarrow> (case ppv_rate_limit_profile policy of
          None \<Rightarrow> Inr None
        | Some profile \<Rightarrow>
            bindE (rate_limit_verdict profile x now d) (\<lambda>verdict.
            if rlc_allowed verdict then Inr None
            else let audit_id = ''ae:exec:'' @ new_id ''rate limit'' in
              bindE (stored (rate_limit_event audit_id actor now x profile verdict)) (\<lambda>e.
              bindE (stored (in_store (insert_audit_event e) d)) (\<lambda>d.
              Inr (Some ((outcome_for DISPATCH_DENIED hypothesis_id (xr_experiment_id x) ''BLOCKED'')
                \<lparr>lo_core_decision := Some ED_DENY, lo_core_reason_code := Some (rlc_reason_code verdict),
                 lo_authorization_decision_reference := Some audit_id\<rparr>, d)))))))"

definition core_scope_for :: "execute_command \<Rightarrow> experiment_plan \<Rightarrow> http_scope_decision \<Rightarrow> scope_evaluation_input" where
  "core_scope_for command plan http =
     (if ep_required_capability plan \<in> set HTTP_SCOPE_CAPABILITIES
      then (case (epc_compiled_scope command, hsd_scope_check http) of
        (Some compiled, Some verdict) \<Rightarrow> scope_evaluation_from_compiled_check verdict compiled
      | _ \<Rightarrow> \<lparr>sei_matches = [], sei_ambiguous = False\<rparr>)
      else epc_scope command)"

definition usage_or_ledger :: "budget_usage option \<Rightarrow> string \<Rightarrow> dispatch_db \<Rightarrow> app_error + budget_usage" where
  "usage_or_ledger provided budget_id d = (case provided of
     Some u \<Rightarrow> Inr u
   | None \<Rightarrow> bindE (stored (list_for_budget budget_id (dd_budgets d))) (\<lambda>rows. mapErr AppCore (usage_from_consumptions rows)))"

definition execution_request_for ::
    "execute_command \<Rightarrow> experiment_plan \<Rightarrow> http_scope_decision \<Rightarrow> authorization_source_view option \<Rightarrow> issued_budget \<Rightarrow> budget_usage
     \<Rightarrow> capability_authorization_view \<Rightarrow> execution_request" where
  "execution_request_for command plan http source issued usage capability =
     \<lparr>er_authorization_source = source, er_scope = core_scope_for command plan http, er_issued_budget = issued,
      er_budget_usage = usage, er_requested_budget_id = ep_requested_budget_id plan,
      er_side_effect_level = Inr (ep_side_effect_level plan), er_requested_subject = ep_target_reference plan,
      er_capability = Some capability, er_approval = epc_approval command\<rparr>"

definition core_decision ::
    "dispatch_services \<Rightarrow> execute_command \<Rightarrow> experiment_plan \<Rightarrow> http_scope_decision \<Rightarrow> authorization_source_view option
     \<Rightarrow> issued_budget_record \<Rightarrow> capability_authorization_view \<Rightarrow> dispatch_db \<Rightarrow> app_error + execution_decision" where
  "core_decision s command plan http source issued capability d =
     bindE (mapErr AppCore (issued_budget_from_record issued)) (\<lambda>budget.
     bindE (usage_or_ledger (epc_budget_usage command) (ibr_budget_id issued) d) (\<lambda>usage.
     mapErr AppCore (evaluate_execution (execution_request_for command plan http source budget usage capability) (ds_catalog s))))"

text \<open>The two overrides of the Core decision: a refused destination, and a refused session.\<close>

definition denied :: "execution_decision \<Rightarrow> reason_code \<Rightarrow> string list \<Rightarrow> execution_decision" where
  "denied decision reason matched = decision\<lparr>ed_decision := ED_DENY, ed_reason_code := reason, ed_matched_scope_rule_ids := matched\<rparr>"

definition or_reason :: "reason_code option \<Rightarrow> reason_code \<Rightarrow> reason_code" where
  "or_reason reason fallback = (case reason of None \<Rightarrow> fallback | Some c \<Rightarrow> c)"

definition with_scope_refusal :: "experiment_plan \<Rightarrow> http_scope_decision \<Rightarrow> execution_decision \<Rightarrow> execution_decision" where
  "with_scope_refusal plan http decision =
     (if ep_required_capability plan \<in> set HTTP_SCOPE_CAPABILITIES \<and> \<not> hsd_accepted http
      then denied decision (or_reason (hsd_reason_code http) RC_SCOPE_NOT_EXPLICITLY_ALLOWED)
        (case hsd_scope_check http of None \<Rightarrow> [] | Some verdict \<Rightarrow> sc_matched_rule_ids verdict)
      else decision)"

definition with_session_refusal :: "session_binding_decision \<Rightarrow> execution_decision \<Rightarrow> execution_decision" where
  "with_session_refusal session decision =
     (if ed_decision decision = ED_ALLOW \<and> \<not> sbd_accepted session
      then denied decision (or_reason (sbd_reason_code session) RC_SCHEMA_MISMATCH) []
      else decision)"

definition session_for ::
    "dispatch_services \<Rightarrow> execute_command \<Rightarrow> experiment_plan \<Rightarrow> experiment_record \<Rightarrow> composite_secret_port option \<Rightarrow> int \<Rightarrow> dispatch_db
     \<Rightarrow> app_error + session_binding_decision" where
  "session_for s command plan x port now d =
     bindE (case given_text (jget (ep_arguments plan) ''session_context_reference'') of
         None \<Rightarrow> Inr None | Some reference \<Rightarrow> stored (get_session_context reference d)) (\<lambda>session.
     bind_identity_session (ul_brackets (ds_library s)) plan (epc_identity_id command) (epc_identity command)
       (epc_authentication_profile command) session port now (Some (xr_research_run_id x)))"

definition execution_decision_audit ::
    "string \<Rightarrow> int \<Rightarrow> string \<Rightarrow> string \<Rightarrow> string \<Rightarrow> string \<Rightarrow> execution_decision \<Rightarrow> persistence_error + audit_event_record" where
  "execution_decision_audit audit_id occurred_at actor experiment_id correlation_id request_id decision = post_init_audit_event_record
     \<lparr>aer_audit_event_id = audit_id, aer_occurred_at = occurred_at, aer_actor_id = actor,
      aer_actor_type = actor_type_value CONTROL_PLANE, aer_event_type = ''EXECUTION_DECISION'',
      aer_subject_type = ''experiment'', aer_subject_id = experiment_id,
      aer_payload =
        [(''decision'', JStr (execution_decision_kind_value (ed_decision decision))),
         (''reason_code'', JStr (reason_code_value (ed_reason_code decision))),
         (''authorization_source_id'', json_opt_str (ed_authorization_source_id decision)),
         (''matched_scope_rule_ids'', JArr (map JStr (ed_matched_scope_rule_ids decision))),
         (''budget_id'', json_opt_str (ed_budget_id decision)),
         (''side_effect_level'', JInt (side_effect_int (ed_side_effect_level decision))),
         (''approval_id'', json_opt_str (ed_approval_id decision)), (''request_id'', JStr request_id),
         (''dispatched'', JBool (ed_decision decision = ED_ALLOW))],
      aer_correlation_id = Some correlation_id\<rparr>"

section \<open>The request to the worker\<close>

definition build_worker_request ::
    "experiment_record \<Rightarrow> experiment_plan \<Rightarrow> capability_authorization_view \<Rightarrow> issued_budget_record \<Rightarrow> string \<Rightarrow> string \<Rightarrow> string
     \<Rightarrow> authorized_network_envelope option \<Rightarrow> string option \<Rightarrow> payload" where
  "build_worker_request x plan capability issued request_id correlation_id audit_id envelope identity_id =
     [(''contract_version'', JStr ''v1''),
      (''correlation'', JObj [(''correlation_id'', JStr correlation_id), (''research_run_id'', JStr (xr_research_run_id x)),
         (''experiment_id'', JStr (xr_experiment_id x)), (''request_id'', JStr request_id)]),
      (''worker_capability'', JStr (ep_required_capability plan)), (''action'', JStr (ep_action plan)),
      (''target_reference'', JStr (ep_target_reference plan)), (''authorization_decision_reference'', JStr audit_id),
      (''execution_budget'', JObj [(''budget_id'', JStr (ibr_budget_id issued)), (''max_requests'', JInt (ibr_max_requests issued)),
         (''max_tool_calls'', JInt (ibr_max_tool_calls issued)), (''max_runtime_ms'', JInt (ibr_max_runtime_ms issued)),
         (''max_concurrency'', JInt (ibr_max_concurrency issued))]),
      (''side_effect_level'', JInt (ep_side_effect_level plan)),
      (''capability_version'', JStr (cav_capability_version capability)),
      (''capability_definition_fingerprint'', JStr (cav_definition_fingerprint capability)),
      (''secret_references'', JArr []),
      (''arguments'', JObj (case identity_id of None \<Rightarrow> ep_arguments plan
         | Some i \<Rightarrow> dict_set ''identity_id'' (JStr i) (ep_arguments plan)))]
     @ (case envelope of None \<Rightarrow> [] | Some e \<Rightarrow> [(''network_envelope'', JObj (envelope_to_mapping e))])"

definition request_with_resolved_secrets :: "payload \<Rightarrow> (string \<times> string) list option \<Rightarrow> int option \<Rightarrow> payload" where
  "request_with_resolved_secrets request secrets allowance =
     (let request = (case secrets of None \<Rightarrow> request | Some [] \<Rightarrow> request
        | Some values \<Rightarrow> dict_set ''resolved_secret_values'' (JObj (map (map_prod id JStr) values)) request)
      in case allowance of None \<Rightarrow> request | Some n \<Rightarrow> dict_set ''max_attempted_requests'' (JInt n) request)"

section \<open>Authorization\<close>

text \<open>
  A transaction gives an error, which rolls it back, or a result and the database it leaves.  The hook
  of the caller runs in the transaction, just before the commit.
\<close>

type_synonym 'a transaction = "app_error + 'a \<times> dispatch_db"
type_synonym persist_hook = "string \<Rightarrow> string \<Rightarrow> dispatch_db \<Rightarrow> app_error + dispatch_db"

definition deny_experiment_state :: "reason_code \<Rightarrow> string" where
  "deny_experiment_state reason = (if reason = RC_BUDGET_EXHAUSTED then ''BUDGET_EXHAUSTED'' else ''BLOCKED'')"

text \<open>The session row that a login opens.\<close>

definition open_login_session ::
    "execute_command \<Rightarrow> experiment_plan \<Rightarrow> experiment_record \<Rightarrow> int \<Rightarrow> dispatch_db \<Rightarrow> app_error + dispatch_db" where
  "open_login_session command plan x now d =
     (if ep_required_capability plan \<noteq> HTTP_AUTHENTICATION_CAPABILITY then Inr d
      else (case (epc_identity command, epc_authentication_profile command) of
        (Some i, Some p) \<Rightarrow>
          bindE (authenticating_session_record plan i p (xr_research_run_id x) now) (\<lambda>r. stored (insert_session_context r d))
      | _ \<Rightarrow> Inr d))"

definition authorized_attempt ::
    "string \<Rightarrow> string \<Rightarrow> string \<Rightarrow> int \<Rightarrow> experiment_record \<Rightarrow> experiment_plan \<Rightarrow> issued_budget_record \<Rightarrow> execution_attempt_record" where
  "authorized_attempt request_id correlation_id audit_id now x plan issued =
     \<lparr>ear_attempt_id = ''ea:'' @ request_id, ear_request_id = request_id, ear_experiment_id = xr_experiment_id x,
      ear_research_run_id = xr_research_run_id x, ear_correlation_id = correlation_id,
      ear_worker_capability = ep_required_capability plan, ear_action = ep_action plan,
      ear_target_reference = ep_target_reference plan, ear_budget_id = ibr_budget_id issued,
      ear_side_effect_level = ep_side_effect_level plan, ear_authorization_decision_reference = audit_id,
      ear_state = ''AUTHORIZED'', ear_created_at = now, ear_authorized_at = Some now, ear_dispatch_started_at = None,
      ear_completed_at = None\<rparr>"

text \<open>The construction checks of an envelope do not look at its decision reference, so \<open>replace\<close> only sets it.\<close>

definition handle_for ::
    "experiment_record \<Rightarrow> string \<Rightarrow> string \<Rightarrow> string \<Rightarrow> string \<Rightarrow> issued_budget_record \<Rightarrow> authorized_network_envelope option \<Rightarrow> payload
     \<Rightarrow> execution_decision \<Rightarrow> session_binding_decision \<Rightarrow> authorized_dispatch" where
  "handle_for x hypothesis_id request_id correlation_id audit_id issued envelope request decision session =
     (let envelope = map_option (\<lambda>e. e\<lparr>ane_authorization_decision_reference := Some audit_id\<rparr>) envelope in
      \<lparr>adp_experiment_id = xr_experiment_id x, adp_hypothesis_id = hypothesis_id, adp_request_id = request_id,
       adp_attempt_id = ''ea:'' @ request_id, adp_correlation_id = correlation_id,
       adp_authorization_decision_reference = audit_id,
       adp_worker_request = (case envelope of None \<Rightarrow> request
         | Some e \<Rightarrow> dict_set ''network_envelope'' (JObj (envelope_to_mapping e)) request),
       adp_timeout_ms = ibr_max_runtime_ms issued, adp_core_decision = ed_decision decision,
       adp_core_reason_code = ed_reason_code decision, adp_resolved_secret_values = sbd_resolved_secrets session,
       adp_network_envelope = envelope\<rparr>)"

definition grant ::
    "dispatch_services \<Rightarrow> execute_command \<Rightarrow> persist_hook \<Rightarrow> string \<Rightarrow> string \<Rightarrow> int \<Rightarrow> experiment_record \<Rightarrow> string \<Rightarrow> issued_budget_record
     \<Rightarrow> experiment_plan \<Rightarrow> capability_authorization_view \<Rightarrow> http_scope_decision \<Rightarrow> session_binding_decision \<Rightarrow> execution_decision
     \<Rightarrow> dispatch_db \<Rightarrow> authorized_dispatch transaction" where
  "grant s command hook request_id correlation_id now x hypothesis_id issued plan capability http session decision d =
     (let audit_id = ''ae:exec:'' @ request_id;
          identity_id = (if ep_required_capability plan = BROWSER_PAGE_CAPABILITY
            then map_option scr_identity_id (sbd_session session) else None);
          request = build_worker_request x plan capability issued request_id correlation_id audit_id (hsd_envelope http) identity_id
      in bindE (validate_worker_request (ds_contracts s) request) (\<lambda>_.
         bindE (open_login_session command plan x now d) (\<lambda>d.
         bindE (stored (post_init_execution_attempt_record
           (authorized_attempt request_id correlation_id audit_id now x plan issued))) (\<lambda>a.
         bindE (stored (insert_attempt a d)) (\<lambda>d.
         bindE (stored (set_execution_state (xr_experiment_id x) ''READY'' d)) (\<lambda>d.
         bindE (hook (''ea:'' @ request_id) (xr_experiment_id x) d) (\<lambda>d.
         Inr (handle_for x hypothesis_id request_id correlation_id audit_id issued (hsd_envelope http) request decision session, d))))))))"

definition settle_decision ::
    "dispatch_services \<Rightarrow> execute_command \<Rightarrow> persist_hook \<Rightarrow> string \<Rightarrow> string \<Rightarrow> int \<Rightarrow> experiment_record \<Rightarrow> string \<Rightarrow> issued_budget_record
     \<Rightarrow> experiment_plan \<Rightarrow> capability_authorization_view \<Rightarrow> http_scope_decision \<Rightarrow> session_binding_decision \<Rightarrow> execution_decision
     \<Rightarrow> dispatch_db \<Rightarrow> (loop_outcome + authorized_dispatch) transaction" where
  "settle_decision s command hook request_id correlation_id now x hypothesis_id issued plan capability http session decision d =
     (let audit_id = ''ae:exec:'' @ request_id;
          reported = (\<lambda>status state. (outcome_for status hypothesis_id (xr_experiment_id x) state)
            \<lparr>lo_core_decision := Some (ed_decision decision), lo_core_reason_code := Some (ed_reason_code decision),
             lo_authorization_decision_reference := Some audit_id\<rparr>)
      in bindE (stored (execution_decision_audit audit_id now (ds_actor s) (xr_experiment_id x) correlation_id request_id decision)) (\<lambda>e.
         bindE (stored (in_store (insert_audit_event e) d)) (\<lambda>d.
         case ed_decision decision of
           ED_DENY \<Rightarrow>
             let terminal = deny_experiment_state (ed_reason_code decision) in
             bindE (stored (set_execution_state (xr_experiment_id x) terminal d)) (\<lambda>d.
             Inr (Inl (reported DISPATCH_DENIED terminal), d))
         | ED_REQUIRE_HUMAN_REVIEW \<Rightarrow> Inr (Inl (reported HUMAN_REVIEW_REQUIRED ''AUTHORIZATION_CHECK''), d)
         | ED_ALLOW \<Rightarrow>
             bindE (grant s command hook request_id correlation_id now x hypothesis_id issued plan capability http session decision d)
               (\<lambda>(h, d). Inr (Inr h, d)))))"

definition authorize_plan ::
    "dispatch_services \<Rightarrow> execute_command \<Rightarrow> (string \<Rightarrow> string) \<Rightarrow> (string \<Rightarrow> int) \<Rightarrow> persist_hook \<Rightarrow> composite_secret_port option
     \<Rightarrow> experiment_record \<Rightarrow> string \<Rightarrow> authorization_source_view option \<Rightarrow> issued_budget_record \<Rightarrow> experiment_plan
     \<Rightarrow> dispatch_db \<Rightarrow> dispatch_db \<Rightarrow> (loop_outcome + authorized_dispatch) transaction" where
  "authorize_plan s command new_id clock hook port x hypothesis_id source issued plan original d =
     (let now = clock ''authorize''; keep = (\<lambda>outcome. Inr (Inl outcome, original)) in
      case capability_view_for_plan (ds_arguments s) (ds_catalog s) plan of
        Inl (CapabilityBindingError code _) \<Rightarrow> keep (refused_at DISPATCH_DENIED x (Some (binding_reason code)))
      | Inl (BindingCoreError e) \<Rightarrow> Inl (AppCore e)
      | Inr capability \<Rightarrow>
          bindE (authorize_http_transaction_plan (ds_library s) (clock ''scope'') plan (epc_compiled_scope command)
            (epc_program_policy command)) (\<lambda>http.
          if hsd_input_rejected http then keep (refused_at INPUT_REJECTED x (hsd_reason_code http))
          else bindE (check_rate_limit_gate (ds_actor s) new_id (epc_program_policy command) x hypothesis_id now d) (\<lambda>limited.
          case limited of
            Some (outcome, d) \<Rightarrow>
              bindE (stored (set_execution_state (xr_experiment_id x) ''BLOCKED'' d)) (\<lambda>d. Inr (Inl outcome, d))
          | None \<Rightarrow>
              bindE (core_decision s command plan http source issued capability d) (\<lambda>decision.
              let decision = with_scope_refusal plan http decision in
              bindE (session_for s command plan x port now d) (\<lambda>session.
              if sbd_input_rejected session then keep (refused_at INPUT_REJECTED x (sbd_reason_code session))
              else settle_decision s command hook (new_id ''request'') (new_id ''correlation'') now x hypothesis_id issued plan
                capability http session (with_session_refusal session decision) d)))))"

definition authorize ::
    "dispatch_services \<Rightarrow> execute_command \<Rightarrow> (string \<Rightarrow> string) \<Rightarrow> (string \<Rightarrow> int) \<Rightarrow> persist_hook \<Rightarrow> composite_secret_port option
     \<Rightarrow> dispatch_db \<Rightarrow> (loop_outcome + authorized_dispatch) transaction" where
  "authorize s command new_id clock hook port d =
     (let keep = (\<lambda>outcome. Inr (Inl outcome, d)) in
      bindE (load_context command d) (\<lambda>loaded.
      case loaded of
        Inl outcome \<Rightarrow> keep outcome
      | Inr (x, hypothesis_id, source, issued) \<Rightarrow>
          bindE (ensure_plan x (epc_plan command) (clock ''plan'') d) (\<lambda>planned.
          case planned of
            Inl outcome \<Rightarrow> keep outcome
          | Inr d1 \<Rightarrow>
              bindE (stored (get_experiment_plan (xr_experiment_id x) d1)) (\<lambda>persisted.
              case persisted of
                None \<Rightarrow> keep (outcome_for INPUT_REJECTED hypothesis_id (xr_experiment_id x) (xr_execution_state x))
              | Some r \<Rightarrow>
                  bindE (researched (experiment_plan_from_record r)) (\<lambda>plan.
                  bindE (stored (list_attempts_for_experiment (xr_experiment_id x) (dd_store d1))) (\<lambda>existing.
                  case existing of
                    a # _ \<Rightarrow> keep (outcome_for_existing x hypothesis_id a)
                  | [] \<Rightarrow>
                      bindE (stored (set_execution_state (xr_experiment_id x) ''AUTHORIZATION_CHECK'' d1)) (\<lambda>d2.
                      authorize_plan s command new_id clock hook port x hypothesis_id source issued plan d d2)))))))"

text \<open>
  The same transaction at the grain of its locks.  Up to the first update it only reads, and may insert
  the plan, which no other transaction sees; the update of the experiment waits for the row lock, so other
  transactions commit in between; what follows works on the rows that were read before.
\<close>

record loaded_authorization =
  la_experiment :: experiment_record
  la_hypothesis_id :: string
  la_source :: "authorization_source_view option"
  la_issued :: issued_budget_record
  la_plan_record :: experiment_plan_record
  la_plan_is_new :: bool
  la_plan :: experiment_plan

definition read_for_authorization ::
    "execute_command \<Rightarrow> (string \<Rightarrow> int) \<Rightarrow> dispatch_db \<Rightarrow> app_error + (loop_outcome + loaded_authorization)" where
  "read_for_authorization command clock d =
     bindE (load_context command d) (\<lambda>loaded.
     case loaded of
       Inl outcome \<Rightarrow> Inr (Inl outcome)
     | Inr (x, hypothesis_id, source, issued) \<Rightarrow>
         bindE (ensure_plan x (epc_plan command) (clock ''plan'') d) (\<lambda>planned.
         case planned of
           Inl outcome \<Rightarrow> Inr (Inl outcome)
         | Inr d1 \<Rightarrow>
             bindE (stored (get_experiment_plan (xr_experiment_id x) d1)) (\<lambda>persisted.
             case persisted of
               None \<Rightarrow> Inr (Inl (outcome_for INPUT_REJECTED hypothesis_id (xr_experiment_id x) (xr_execution_state x)))
             | Some r \<Rightarrow>
                 bindE (researched (experiment_plan_from_record r)) (\<lambda>plan.
                 bindE (stored (list_attempts_for_experiment (xr_experiment_id x) (dd_store d1))) (\<lambda>existing.
                 case existing of
                   a # _ \<Rightarrow> Inr (Inl (outcome_for_existing x hypothesis_id a))
                 | [] \<Rightarrow> Inr (Inr \<lparr>la_experiment = x, la_hypothesis_id = hypothesis_id, la_source = source, la_issued = issued,
                     la_plan_record = r, la_plan_is_new = (r \<notin> set (dd_plans d)), la_plan = plan\<rparr>))))))"

definition decide_loaded ::
    "dispatch_services \<Rightarrow> execute_command \<Rightarrow> (string \<Rightarrow> string) \<Rightarrow> (string \<Rightarrow> int) \<Rightarrow> persist_hook \<Rightarrow> composite_secret_port option
     \<Rightarrow> loaded_authorization \<Rightarrow> dispatch_db \<Rightarrow> (loop_outcome + authorized_dispatch) transaction" where
  "decide_loaded s command new_id clock hook port l d =
     bindE (stored (if la_plan_is_new l then insert_experiment_plan (la_plan_record l) d else Inr d)) (\<lambda>d1.
     bindE (stored (set_execution_state (xr_experiment_id (la_experiment l)) ''AUTHORIZATION_CHECK'' d1)) (\<lambda>d2.
     authorize_plan s command new_id clock hook port (la_experiment l) (la_hypothesis_id l) (la_source l) (la_issued l)
       (la_plan l) d d2))"

section \<open>Dispatch\<close>

definition request_consumption_amount ::
    "execution_attempt_record \<Rightarrow> issued_budget_record \<Rightarrow> budget_db \<Rightarrow> app_error + int" where
  "request_consumption_amount a issued b =
     (if ear_worker_capability a \<noteq> BROWSER_PAGE_CAPABILITY then Inr 1
      else bindE (stored (list_for_budget (ibr_budget_id issued) b)) (\<lambda>rows.
           bindE (mapErr AppCore (usage_from_consumptions rows)) (\<lambda>usage.
           bindE (stored (remaining_for_resource issued usage ''REQUEST'')) (\<lambda>remaining.
           if remaining < 1 then Inl (overspend ''consumption would exceed issued allowance'')
           else Inr (min remaining BROWSER_PAGE_MAX_NETWORK_REQUESTS)))))"

definition dispatch_charge ::
    "string \<Rightarrow> string \<Rightarrow> int \<Rightarrow> execution_attempt_record \<Rightarrow> issued_budget_record \<Rightarrow> int \<Rightarrow> budget_consumption_record" where
  "dispatch_charge consumption_id resource amount a issued now =
     \<lparr>bcr_consumption_id = consumption_id, bcr_budget_id = ibr_budget_id issued, bcr_research_run_id = Some (ear_research_run_id a),
      bcr_resource_type = resource, bcr_amount = amount, bcr_unit = ''count'', bcr_occurred_at = now,
      bcr_provenance = ''execute_planned_experiment.dispatch'', bcr_experiment_id = Some (ear_experiment_id a),
      bcr_request_id = Some (ear_request_id a), bcr_resource_metadata = None\<rparr>"

definition charge :: "budget_consumption_record \<Rightarrow> budget_db \<Rightarrow> app_error + budget_db option" where
  "charge r b = bindE (stored (post_init_budget_consumption_record r)) (\<lambda>r. insert_within_allowance r b)"

text \<open>
  The charge of an invocation and of its requests.  A swallowed conflict leaves the transaction aborted:
  after the first charge the next read fails; after the second one \<open>None\<close> is returned, and the commit
  that follows discards the transaction.
\<close>

definition record_dispatch_consumption ::
    "(string \<Rightarrow> string) \<Rightarrow> execution_attempt_record \<Rightarrow> issued_budget_record \<Rightarrow> int \<Rightarrow> int \<Rightarrow> budget_db \<Rightarrow> app_error + budget_db option" where
  "record_dispatch_consumption new_id a issued now amount b =
     bindE (charge (dispatch_charge (new_id ''invocation charge'') ''WORKER_INVOCATION'' 1 a issued now) b) (\<lambda>first.
     case first of
       None \<Rightarrow> Inl (AppPersistence read_failed)
     | Some b \<Rightarrow> charge (dispatch_charge (new_id ''request charge'') ''REQUEST'' amount a issued now) b)"

definition mark_unknown ::
    "experiment_record \<Rightarrow> execution_attempt_record \<Rightarrow> string \<Rightarrow> int \<Rightarrow> dispatch_db \<Rightarrow> loop_outcome transaction" where
  "mark_unknown x a hypothesis_id now d =
     bindE (stored (set_attempt_state (ear_attempt_id a) ''UNKNOWN_OUTCOME'' None (Some now) d)) (\<lambda>d.
     Inr ((outcome_of_attempt UNKNOWN_OUTCOME x hypothesis_id a)\<lparr>lo_attempt_state := Some ''UNKNOWN_OUTCOME''\<rparr>, d))"

definition unsent :: "authorized_dispatch \<Rightarrow> loop_status \<Rightarrow> string \<Rightarrow> loop_outcome" where
  "unsent h status state = (outcome_for status (adp_hypothesis_id h) (adp_experiment_id h) state)
     \<lparr>lo_request_id := Some (adp_request_id h), lo_attempt_id := Some (adp_attempt_id h)\<rparr>"

text \<open>
  Dispatch, too, reads before it writes, and takes no lock for its reads: the first update waits for the
  row of the attempt, the charges for the row of the budget, and others may commit before each.  The
  parts are: what is read of the attempt, the amount of requests to reserve, and the rest, which holds
  the locks until the commit.
\<close>

datatype dispatch_reading =
    Reported loop_outcome
  | MarkUnknown experiment_record execution_attempt_record
  | BeginDispatch execution_attempt_record experiment_record issued_budget_record

definition read_for_dispatch :: "authorized_dispatch \<Rightarrow> dispatch_db \<Rightarrow> app_error + dispatch_reading" where
  "read_for_dispatch h d =
     bindE (stored (get_attempt (adp_attempt_id h) d)) (\<lambda>attempt.
     bindE (stored (get_experiment (adp_experiment_id h) (dd_store d))) (\<lambda>experiment.
     case (attempt, experiment) of
       (Some a, Some x) \<Rightarrow>
         if ear_state a = ''DISPATCHING'' then Inr (MarkUnknown x a)
         else if ear_state a \<noteq> ''AUTHORIZED'' then Inr (Reported (outcome_for_existing x (adp_hypothesis_id h) a))
         else bindE (stored (get_issued_budget (ear_budget_id a) (dd_budgets d))) (\<lambda>row.
           Inr (case row of None \<Rightarrow> Reported (unsent h INPUT_REJECTED (xr_execution_state x))
             | Some issued \<Rightarrow> BeginDispatch a x issued))
     | _ \<Rightarrow> Inr (Reported (unsent h INPUT_REJECTED
         (case experiment of None \<Rightarrow> ''MISSING'' | Some x \<Rightarrow> xr_execution_state x)))))"

text \<open>The attempt was AUTHORIZED when it was read: it becomes DISPATCHING, the experiment RUNNING, and the budget is charged.\<close>

definition begin_dispatch ::
    "(string \<Rightarrow> string) \<Rightarrow> int \<Rightarrow> authorized_dispatch \<Rightarrow> execution_attempt_record \<Rightarrow> experiment_record \<Rightarrow> issued_budget_record
     \<Rightarrow> app_error + int \<Rightarrow> dispatch_db \<Rightarrow> (loop_outcome + payload) transaction" where
  "begin_dispatch new_id now h a x issued requested d =
     bindE (stored (set_attempt_state (ear_attempt_id a) ''DISPATCHING'' (Some now) None d)) (\<lambda>d1.
     bindE (stored (set_execution_state (xr_experiment_id x) ''RUNNING'' d1)) (\<lambda>d2.
     case bindE requested (\<lambda>amount.
          bindE (record_dispatch_consumption new_id a issued now amount (dd_budgets d2)) (\<lambda>b. Inr (amount, b))) of
       Inl (AppPersistence (BudgetOverspendError _)) \<Rightarrow>
         Inr (Inl ((unsent h DISPATCH_DENIED ''BUDGET_EXHAUSTED'')
           \<lparr>lo_attempt_state := Some ''AUTHORIZED'', lo_core_reason_code := Some RC_BUDGET_EXHAUSTED\<rparr>), d)
     | Inl e \<Rightarrow> Inl e
     | Inr (amount, b) \<Rightarrow>
         Inr (Inr (request_with_resolved_secrets (adp_worker_request h) (adp_resolved_secret_values h)
             (if ear_worker_capability a = BROWSER_PAGE_CAPABILITY then Some amount else None)),
           case b of None \<Rightarrow> d | Some b \<Rightarrow> d2\<lparr>dd_budgets := b\<rparr>)))"

text \<open>The transaction when nothing comes in between: all its parts on the same database.\<close>

definition dispatch_transaction ::
    "(string \<Rightarrow> string) \<Rightarrow> (string \<Rightarrow> int) \<Rightarrow> authorized_dispatch \<Rightarrow> dispatch_db \<Rightarrow> (loop_outcome + payload) transaction" where
  "dispatch_transaction new_id clock h d =
     bindE (read_for_dispatch h d) (\<lambda>reading. case reading of
       Reported outcome \<Rightarrow> Inr (Inl outcome, d)
     | MarkUnknown x a \<Rightarrow>
         bindE (mark_unknown x a (adp_hypothesis_id h) (clock ''unknown'') d) (\<lambda>(outcome, d). Inr (Inl outcome, d))
     | BeginDispatch a x issued \<Rightarrow>
         begin_dispatch new_id (clock ''dispatch'') h a x issued (request_consumption_amount a issued (dd_budgets d)) d)"

section \<open>The answer of the worker\<close>

definition worker_status :: "worker_invocation_outcome \<Rightarrow> json" where
  "worker_status call = (case wio_worker_result call of None \<Rightarrow> JNull | Some result \<Rightarrow> jget result ''status'')"

definition classify_invocation :: "worker_invocation_outcome \<Rightarrow> string \<times> string \<times> loop_status" where
  "classify_invocation call = (case wio_invocation_status call of
     INV_COMPLETED \<Rightarrow>
       if worker_status call = JStr ''REAUTHORIZATION_REQUIRED''
       then (''COMPLETED'', ''AUTHORIZATION_CHECK'', REAUTHORIZATION_REQUIRED)
       else if worker_status call = JStr ''BUDGET_EXHAUSTED'' then (''COMPLETED'', ''BUDGET_EXHAUSTED'', DISPATCH_DENIED)
       else (''COMPLETED'', ''EXECUTION_SUCCEEDED'', LOOP_NO_OBSERVATION)
   | INV_TIMED_OUT \<Rightarrow> (''TIMED_OUT'', ''EXECUTION_FAILED'', INVOCATION_FAILED)
   | INV_CANCELLED \<Rightarrow> (''CANCELLED'', ''CANCELLED'', INVOCATION_FAILED)
   | _ \<Rightarrow> (''FAILED'', ''EXECUTION_FAILED'', INVOCATION_FAILED))"

definition settle_attempt :: "authorized_dispatch \<Rightarrow> string \<Rightarrow> string \<Rightarrow> int \<Rightarrow> dispatch_db \<Rightarrow> persistence_error + dispatch_db" where
  "settle_attempt h attempt_state experiment_state now d =
     bindE (set_attempt_state (adp_attempt_id h) attempt_state None (Some now) d)
       (set_execution_state (adp_experiment_id h) experiment_state)"

definition recorded ::
    "authorized_dispatch \<Rightarrow> worker_invocation_outcome \<Rightarrow> string \<Rightarrow> string \<Rightarrow> loop_status \<Rightarrow> ingestion_outcome option \<Rightarrow> loop_outcome" where
  "recorded h call attempt_state experiment_state status ingestion =
     \<lparr>lo_status = status, lo_hypothesis_id = adp_hypothesis_id h, lo_experiment_id = adp_experiment_id h,
      lo_experiment_execution_state = experiment_state, lo_core_decision = Some (adp_core_decision h),
      lo_core_reason_code = Some (adp_core_reason_code h),
      lo_authorization_decision_reference = Some (adp_authorization_decision_reference h),
      lo_request_id = Some (adp_request_id h), lo_attempt_id = Some (adp_attempt_id h), lo_attempt_state = Some attempt_state,
      lo_invocation_status = Some (wio_invocation_status call),
      lo_worker_result_id = Option.bind ingestion ion_worker_result_id,
      lo_observation_ids = (case ingestion of None \<Rightarrow> [] | Some i \<Rightarrow> ion_observation_ids i),
      lo_ingestion_status = map_option ion_status ingestion, lo_hypothesis_claim_unchanged = True,
      lo_network_envelope = adp_network_envelope h\<rparr>"

type_synonym loop_effect = "composite_secret_port option \<times> dispatch_db \<times> (ingest_error + loop_outcome)"

text \<open>The ingestion that follows a settled attempt, and the attempt that fails after it.\<close>

definition ingest_answer ::
    "dispatch_services \<Rightarrow> authorized_dispatch \<Rightarrow> worker_invocation_outcome \<Rightarrow> (string \<Rightarrow> int) \<Rightarrow> string \<Rightarrow> string \<Rightarrow> loop_status
     \<Rightarrow> composite_secret_port option \<Rightarrow> dispatch_db \<Rightarrow> loop_effect" where
  "ingest_answer s h call clock attempt_state experiment_state status port d =
     (case ingest (ds_contracts s) (ds_timestamps s) (ds_actor s) clock (adp_worker_request h) call port d of
        (port, Inl e) \<Rightarrow> (port, d, Inl e)
      | (port, Inr (i, d)) \<Rightarrow> (case ion_status i of
          REJECTED_INVALID_INVOCATION \<Rightarrow>
            (case settle_attempt h ''FAILED'' ''EXECUTION_FAILED'' (clock ''record'') d of
               Inl e \<Rightarrow> (port, d, Inl (IngestApp (AppPersistence e)))
             | Inr d \<Rightarrow> (port, d, Inr (recorded h call ''FAILED'' ''EXECUTION_FAILED'' INVOCATION_FAILED (Some i))))
        | NO_OBSERVATION \<Rightarrow> (port, d, Inr (recorded h call attempt_state experiment_state
            (if status \<noteq> REAUTHORIZATION_REQUIRED then LOOP_NO_OBSERVATION else status) (Some i)))
        | _ \<Rightarrow> (port, d, Inr (recorded h call attempt_state experiment_state OBSERVATION_PRODUCED (Some i)))))"

definition record_outcome ::
    "dispatch_services \<Rightarrow> authorized_dispatch \<Rightarrow> worker_invocation_outcome \<Rightarrow> (string \<Rightarrow> int) \<Rightarrow> composite_secret_port option
     \<Rightarrow> dispatch_db \<Rightarrow> loop_effect" where
  "record_outcome s h call clock port d =
     (case classify_invocation call of (attempt_state, experiment_state, status) \<Rightarrow>
        (case settle_attempt h attempt_state experiment_state (clock ''record'') d of
           Inl _ \<Rightarrow> (port, d, Inr (recorded h call ''DISPATCHING'' ''RUNNING'' INVOCATION_FAILED None))
         | Inr d \<Rightarrow>
             if wio_invocation_status call = INV_COMPLETED \<and> wio_worker_result call \<noteq> None
             then ingest_answer s h call clock attempt_state experiment_state status port d
             else (port, d, Inr (recorded h call attempt_state experiment_state status None))))"

section \<open>The use case\<close>

definition list_results_for_experiment :: "string \<Rightarrow> dispatch_db \<Rightarrow> persistence_error + worker_result_record list" where
  "list_results_for_experiment x d = fetch_list wr_worker_result_id wr_experiment_id ''experiment_id'' (worker_results d) x"

definition fail_closed_existing :: "string \<Rightarrow> (string \<Rightarrow> int) \<Rightarrow> dispatch_db \<Rightarrow> (loop_outcome option) transaction" where
  "fail_closed_existing experiment_id clock d =
     bindE (stored (get_experiment experiment_id (dd_store d))) (\<lambda>row.
     case row of
       None \<Rightarrow> Inr (Some (outcome_for INPUT_REJECTED [] experiment_id ''MISSING''), d)
     | Some x \<Rightarrow>
         bindE (stored (list_attempts_for_experiment experiment_id (dd_store d))) (\<lambda>existing.
         case existing of
           [] \<Rightarrow> Inr (if xr_execution_state x \<in> set TERMINAL_EXPERIMENT_STATES then Some (outcome_at ALREADY_TERMINAL x) else None, d)
         | a # _ \<Rightarrow>
             if ear_state a = ''DISPATCHING''
             then bindE (mark_unknown x a (xr_hypothesis_id x) (clock ''unknown'') d) (\<lambda>(outcome, d). Inr (Some outcome, d))
             else bindE (stored (list_results_for_experiment experiment_id d)) (\<lambda>results.
               if ear_state a = ''COMPLETED'' \<and> list_ex (\<lambda>r. wr_status r = ''REAUTHORIZATION_REQUIRED'') results
               then Inr (Some (outcome_of_attempt REAUTHORIZATION_REQUIRED x (xr_hypothesis_id x) a), d)
               else Inr (Some (outcome_for_existing x (xr_hypothesis_id x) a), d))))"

type_synonym worker_port = "payload \<Rightarrow> int \<Rightarrow> worker_invocation_outcome"

definition dispatch ::
    "dispatch_services \<Rightarrow> worker_port \<Rightarrow> authorized_dispatch \<Rightarrow> (string \<Rightarrow> string) \<Rightarrow> (string \<Rightarrow> int) \<Rightarrow> composite_secret_port option
     \<Rightarrow> dispatch_db \<Rightarrow> loop_effect" where
  "dispatch s worker h new_id clock port d =
     (case dispatch_transaction new_id clock h d of
        Inl e \<Rightarrow> (port, d, Inl (IngestApp e))
      | Inr (Inl outcome, d) \<Rightarrow> (port, d, Inr outcome)
      | Inr (Inr request, d) \<Rightarrow> record_outcome s h (worker request (adp_timeout_ms h)) clock port d)"

definition execute_planned_experiment ::
    "dispatch_services \<Rightarrow> worker_port \<Rightarrow> execute_command \<Rightarrow> (string \<Rightarrow> string) \<Rightarrow> (string \<Rightarrow> int) \<Rightarrow> persist_hook
     \<Rightarrow> composite_secret_port option \<Rightarrow> dispatch_db \<Rightarrow> loop_effect" where
  "execute_planned_experiment s worker command new_id clock hook port d =
     (case fail_closed_existing (epc_experiment_id command) clock d of
        Inl e \<Rightarrow> (port, d, Inl (IngestApp e))
      | Inr (Some outcome, d) \<Rightarrow> (port, d, Inr outcome)
      | Inr (None, d) \<Rightarrow> (case authorize s command new_id clock hook port d of
          Inl e \<Rightarrow> (port, d, Inl (IngestApp e))
        | Inr (Inl outcome, d) \<Rightarrow> (port, d, Inr outcome)
        | Inr (Inr h, d) \<Rightarrow> dispatch s worker h new_id clock port d))"

end
