(* ===== verification/Dispatch_Gates.thy ===== *)
theory Dispatch_Gates
  imports Dispatch
begin

text \<open>
  What an authorization leaves in the database, and every gate it has passed.
\<close>

section \<open>Quiet changes\<close>

text \<open>A change that only adds audit events, charges and plans, at most one plan per experiment.\<close>

definition grown :: "dispatch_db \<Rightarrow> dispatch_db \<Rightarrow> bool" where
  "grown d d' \<longleftrightarrow> set (audit_events d) \<subseteq> set (audit_events d') \<and>
     set (bd_consumptions (dd_budgets d)) \<subseteq> set (bd_consumptions (dd_budgets d')) \<and> set (dd_plans d) \<subseteq> set (dd_plans d') \<and>
     (distinct (map epr_experiment_id (dd_plans d)) \<longrightarrow> distinct (map epr_experiment_id (dd_plans d')))"

lemma grown_refl [simp]: "grown d d"
  by (simp add: grown_def)

lemma grown_trans: "grown d d' \<Longrightarrow> grown d' d'' \<Longrightarrow> grown d d''"
  by (auto simp: grown_def)

text \<open>A quiet change leaves the attempts alone, too.\<close>

definition quiet :: "dispatch_db \<Rightarrow> dispatch_db \<Rightarrow> bool" where
  "quiet d d' \<longleftrightarrow> attempts d' = attempts d \<and> grown d d'"

lemma quiet_refl [simp]: "quiet d d"
  by (simp add: quiet_def)

lemma quiet_trans: "quiet d d' \<Longrightarrow> quiet d' d'' \<Longrightarrow> quiet d d''"
  by (auto simp: quiet_def intro: grown_trans)

lemma quiet_set_execution_state: "set_execution_state i state d = Inr d' \<Longrightarrow> quiet d d'"
  by (auto simp: quiet_def grown_def dest!: set_execution_state_Inr)

lemma quiet_insert_audit: "in_store (insert_audit_event e) d = Inr d' \<Longrightarrow> quiet d d' \<and> e \<in> set (audit_events d')"
  by (auto simp: quiet_def grown_def insert_audit_Inr)

lemma quiet_insert_plan: "insert_experiment_plan r d = Inr d' \<Longrightarrow> quiet d d'"
  using plan_table.keys_distinct plan_table.append_only insert_experiment_plan_Inr
  by (fastforce simp: quiet_def grown_def)

lemma quiet_open_login_session: "open_login_session command plan x now d = Inr d' \<Longrightarrow> quiet d d'"
  by (auto simp: open_login_session_def bindE_Inr_iff mapErr_Inr_iff quiet_def grown_def split: option.splits if_splits
      dest!: insert_session_context_Inr)

lemma quiet_rate_limit: "check_rate_limit_gate actor new_id policy x hyp now d = Inr (Some (outcome, d')) \<Longrightarrow> quiet d d'"
  by (auto simp: check_rate_limit_gate_def bindE_Inr_iff mapErr_Inr_iff Let_def split: option.splits if_splits
      dest!: quiet_insert_audit)

section \<open>What an authorization leaves\<close>

text \<open>The decision event that backs an attempt, and a request made out for it.\<close>

definition allowed_by :: "execution_attempt_record \<Rightarrow> audit_event_record \<Rightarrow> bool" where
  "allowed_by a e \<longleftrightarrow> aer_audit_event_id e = ear_authorization_decision_reference a \<and>
     announces ''EXECUTION_DECISION'' ''experiment'' (ear_experiment_id a) e \<and>
     jget (aer_payload e) ''decision'' = JStr ''ALLOW'' \<and> jget (aer_payload e) ''request_id'' = JStr (ear_request_id a)"

definition made_for :: "payload \<Rightarrow> execution_attempt_record \<Rightarrow> bool" where
  "made_for request a \<longleftrightarrow> jget request ''worker_capability'' = JStr (ear_worker_capability a) \<and>
     jget request ''action'' = JStr (ear_action a) \<and> jget request ''target_reference'' = JStr (ear_target_reference a) \<and>
     jget request ''side_effect_level'' = JInt (ear_side_effect_level a) \<and>
     jget request ''authorization_decision_reference'' = JStr (ear_authorization_decision_reference a)"

text \<open>An attempt of a plan, and a request that carries the plan: nothing but an identity is added to its arguments.\<close>

definition for_plan :: "experiment_plan \<Rightarrow> execution_attempt_record \<Rightarrow> bool" where
  "for_plan plan a \<longleftrightarrow> ear_worker_capability a = ep_required_capability plan \<and> ear_action a = ep_action plan \<and>
     ear_target_reference a = ep_target_reference plan \<and> ear_side_effect_level a = ep_side_effect_level plan"

definition with_identity :: "string option \<Rightarrow> payload \<Rightarrow> payload" where
  "with_identity i arguments = (case i of None \<Rightarrow> arguments | Some i \<Rightarrow> dict_set ''identity_id'' (JStr i) arguments)"

definition carries :: "experiment_plan \<Rightarrow> string option \<Rightarrow> payload \<Rightarrow> bool" where
  "carries plan i request \<longleftrightarrow> jget request ''worker_capability'' = JStr (ep_required_capability plan) \<and>
     jget request ''action'' = JStr (ep_action plan) \<and> jget request ''target_reference'' = JStr (ep_target_reference plan) \<and>
     jget request ''side_effect_level'' = JInt (ep_side_effect_level plan) \<and>
     jget request ''arguments'' = JObj (with_identity i (ep_arguments plan)) \<and>
     (i \<noteq> None \<longrightarrow> ep_required_capability plan = BROWSER_PAGE_CAPABILITY)"

lemma jget_dict_set: "jget (dict_set k v p) k' = (if k' = k then v else jget p k')"
  by (induction k v p rule: dict_set.induct) (auto simp: jget_def)

lemma made_for_build:
  "made_for (build_worker_request x plan capability issued r c audit_id envelope i) (authorized_attempt r c audit_id now x plan issued)"
  by (simp add: made_for_def build_worker_request_def authorized_attempt_def jget_def)

lemma carries_build:
  "(i \<noteq> None \<Longrightarrow> ep_required_capability plan = BROWSER_PAGE_CAPABILITY) \<Longrightarrow>
     carries plan i (build_worker_request x plan capability issued r c audit_id envelope i)"
  by (auto simp: carries_def build_worker_request_def with_identity_def jget_def)

lemma carries_dict_set: "k \<in> {''network_envelope'', ''resolved_secret_values'', ''max_attempted_requests''} \<Longrightarrow>
    carries plan i (dict_set k v request) \<longleftrightarrow> carries plan i request"
  by (auto simp: carries_def jget_dict_set)

lemma made_for_dict_set: "k \<in> {''network_envelope'', ''resolved_secret_values'', ''max_attempted_requests''} \<Longrightarrow>
    made_for (dict_set k v request) a \<longleftrightarrow> made_for request a"
  by (auto simp: made_for_def jget_dict_set)

lemma made_for_secrets: "made_for request a \<Longrightarrow> made_for (request_with_resolved_secrets request secrets allowance) a"
  by (auto simp: request_with_resolved_secrets_def made_for_dict_set Let_def split: option.splits list.splits)

lemma carries_secrets: "carries plan i request \<Longrightarrow> carries plan i (request_with_resolved_secrets request secrets allowance)"
  by (auto simp: request_with_resolved_secrets_def carries_dict_set Let_def split: option.splits list.splits)

definition hook_ok :: "persist_hook \<Rightarrow> bool" where
  "hook_ok hook \<longleftrightarrow> (\<forall>i x d d'. hook i x d = Inr d' \<longrightarrow> quiet d d')"

lemma execution_decision_audit_Inr:
  "execution_decision_audit audit_id now actor x c r decision = Inr e \<Longrightarrow>
     aer_audit_event_id e = audit_id \<and> announces ''EXECUTION_DECISION'' ''experiment'' x e \<and>
     jget (aer_payload e) ''decision'' = JStr (execution_decision_kind_value (ed_decision decision)) \<and>
     jget (aer_payload e) ''request_id'' = JStr r"
  by (auto simp: execution_decision_audit_def post_init_audit_event_record_def raise_first_Inr_iff announces_def jget_def
      simp del: raise_first.simps)

text \<open>
  An authorization that ends with a handle adds one attempt.  The attempt and the request are made out
  for the plan, the experiment and the budget that were authorized, and the ALLOW decision is stored.
\<close>

definition granted_for ::
    "experiment_record \<Rightarrow> issued_budget_record \<Rightarrow> experiment_plan \<Rightarrow> session_binding_decision \<Rightarrow> http_scope_decision
     \<Rightarrow> execution_attempt_record \<Rightarrow> authorized_dispatch \<Rightarrow> bool" where
  "granted_for x issued plan session http a h \<longleftrightarrow> ear_state a = ''AUTHORIZED'' \<and> ear_attempt_id a = adp_attempt_id h \<and>
     ear_experiment_id a = xr_experiment_id x \<and> adp_experiment_id h = xr_experiment_id x \<and>
     ear_research_run_id a = xr_research_run_id x \<and> ear_budget_id a = ibr_budget_id issued \<and>
     adp_timeout_ms h = ibr_max_runtime_ms issued \<and> for_plan plan a \<and> made_for (adp_worker_request h) a \<and>
     carries plan (if ep_required_capability plan = BROWSER_PAGE_CAPABILITY then map_option scr_identity_id (sbd_session session) else None)
       (adp_worker_request h) \<and>
     adp_resolved_secret_values h = sbd_resolved_secrets session \<and>
     adp_network_envelope h =
       map_option (\<lambda>e. e\<lparr>ane_authorization_decision_reference := Some (ear_authorization_decision_reference a)\<rparr>) (hsd_envelope http)"

definition grants ::
    "experiment_record \<Rightarrow> issued_budget_record \<Rightarrow> experiment_plan \<Rightarrow> session_binding_decision \<Rightarrow> http_scope_decision
     \<Rightarrow> dispatch_db \<Rightarrow> authorized_dispatch \<Rightarrow> dispatch_db \<Rightarrow> bool" where
  "grants x issued plan session http d h d' \<longleftrightarrow> (\<exists>a. attempts d' = attempts d @ [a] \<and>
     ear_attempt_id a \<notin> ear_attempt_id ` set (attempts d) \<and> grown d d' \<and> granted_for x issued plan session http a h \<and>
     (\<exists>e \<in> set (audit_events d'). allowed_by a e))"

lemma grant_Inr:
  assumes run: "grant s command hook r c now x hyp issued plan capability http session decision d = Inr (h, d')"
    and hook: "hook_ok hook" and e: "e \<in> set (audit_events d)" "aer_audit_event_id e = ''ae:exec:'' @ r"
      "announces ''EXECUTION_DECISION'' ''experiment'' (xr_experiment_id x) e"
      "jget (aer_payload e) ''decision'' = JStr ''ALLOW''" "jget (aer_payload e) ''request_id'' = JStr r"
  shows "grants x issued plan session http d h d'"
proof -
  let ?a = "authorized_attempt r c (''ae:exec:'' @ r) now x plan issued"
  let ?i = "if ep_required_capability plan = BROWSER_PAGE_CAPABILITY then map_option scr_identity_id (sbd_session session) else None"
  let ?q = "build_worker_request x plan capability issued r c (''ae:exec:'' @ r) (hsd_envelope http) ?i"
  from run obtain d1 d2 d3 where login: "open_login_session command plan x now d = Inr d1"
    and ins: "insert_attempt ?a d1 = Inr d2" and ready: "set_execution_state (xr_experiment_id x) ''READY'' d2 = Inr d3"
    and hooked: "hook (''ea:'' @ r) (xr_experiment_id x) d3 = Inr d'"
    and h: "h = handle_for x hyp r c (''ae:exec:'' @ r) issued (hsd_envelope http) ?q decision session"
    unfolding grant_def Let_def bindE_Inr_iff mapErr_Inr_iff post_init_execution_attempt_record_def raise_first_Inr_iff by auto
  have q: "quiet d d1" "quiet d2 d'"
    using quiet_open_login_session [OF login] quiet_trans [OF quiet_set_execution_state [OF ready]] hooked hook
    by (auto simp: hook_ok_def)
  have "made_for ?q ?a" "carries plan ?i ?q" by (rule made_for_build) (rule carries_build, simp split: if_splits)
  then have "granted_for x issued plan session http ?a h"
    by (auto simp: granted_for_def h handle_for_def Let_def made_for_dict_set carries_dict_set for_plan_def authorized_attempt_def
        split: option.splits)
  moreover have "allowed_by ?a e" using e by (simp add: allowed_by_def authorized_attempt_def)
  moreover have "grown d d'"
  proof -
    have "grown d1 d2" using ins by (simp add: insert_attempt_Inr grown_def)
    then show ?thesis using q grown_trans unfolding quiet_def by blast
  qed
  moreover have "attempts d' = attempts d @ [?a]" "ear_attempt_id ?a \<notin> ear_attempt_id ` set (attempts d)"
    using ins q by (simp_all add: insert_attempt_Inr quiet_def)
  moreover have "e \<in> set (audit_events d')" using e(1) calculation(3) by (auto simp: grown_def)
  ultimately show ?thesis unfolding grants_def by blast
qed

lemma quiet_grants: "quiet d d1 \<Longrightarrow> grants x issued plan session http d1 h d' \<Longrightarrow> grants x issued plan session http d h d'"
  unfolding grants_def quiet_def by (auto intro: grown_trans)

lemma settle_decision_Inr:
  assumes run: "settle_decision s command hook r c now x hyp issued plan capability http session decision d = Inr (res, d')"
    and hook: "hook_ok hook"
  shows "res = Inl outcome \<Longrightarrow> quiet d d'"
    and "res = Inr h \<Longrightarrow> ed_decision decision = ED_ALLOW \<and> grants x issued plan session http d h d'"
proof -
  from run obtain e d1 where e: "execution_decision_audit (''ae:exec:'' @ r) now (ds_actor s) (xr_experiment_id x) c r decision = Inr e"
    and ins: "in_store (insert_audit_event e) d = Inr d1"
    unfolding settle_decision_def Let_def bindE_Inr_iff mapErr_Inr_iff by blast
  note event = execution_decision_audit_Inr [OF e]
  note q = quiet_insert_audit [OF ins]
  show "quiet d d'" if "res = Inl outcome"
    using run e ins q that quiet_trans quiet_set_execution_state
    by (fastforce simp: settle_decision_def Let_def bindE_Inr_iff mapErr_Inr_iff split: execution_decision_kind.splits)
  show "ed_decision decision = ED_ALLOW \<and> grants x issued plan session http d h d'" if "res = Inr h"
  proof -
    from run e ins that have allow: "ed_decision decision = ED_ALLOW"
      and granted: "grant s command hook r c now x hyp issued plan capability http session decision d1 = Inr (h, d')"
      by (auto simp: settle_decision_def Let_def bindE_Inr_iff mapErr_Inr_iff split: execution_decision_kind.splits)
    from grant_Inr [OF granted hook, of e] have "grants x issued plan session http d1 h d'" using event allow q by simp
    then show ?thesis using q quiet_grants allow by blast
  qed
qed

text \<open>The gates an authorization passed, from the plan on.\<close>

definition gates_passed ::
    "dispatch_services \<Rightarrow> execute_command \<Rightarrow> (string \<Rightarrow> int) \<Rightarrow> composite_secret_port option \<Rightarrow> experiment_record
     \<Rightarrow> authorization_source_view option \<Rightarrow> issued_budget_record \<Rightarrow> experiment_plan \<Rightarrow> http_scope_decision
     \<Rightarrow> session_binding_decision \<Rightarrow> dispatch_db \<Rightarrow> bool" where
  "gates_passed s command clock port x source issued plan http session d \<longleftrightarrow> (\<exists>capability decision.
     capability_view_for_plan (ds_arguments s) (ds_catalog s) plan = Inr capability \<and>
     authorize_http_transaction_plan (ds_library s) (clock ''scope'') plan (epc_compiled_scope command) (epc_program_policy command) = Inr http \<and>
     (ep_required_capability plan \<in> set HTTP_SCOPE_CAPABILITIES \<longrightarrow> hsd_accepted http) \<and>
     (\<forall>policy profile. epc_program_policy command = Some policy \<longrightarrow> ppv_rate_limit_profile policy = Some profile \<longrightarrow>
        (\<exists>v. rate_limit_verdict profile x (clock ''authorize'') d = Inr v \<and> rlc_allowed v)) \<and>
     core_decision s command plan http source issued capability d = Inr decision \<and> ed_decision decision = ED_ALLOW \<and>
     session_for s command plan x port (clock ''authorize'') d = Inr session \<and> sbd_accepted session)"

lemma rate_limit_gate_None:
  "check_rate_limit_gate actor new_id policy x hyp now d = Inr None \<Longrightarrow> policy = Some p \<Longrightarrow> ppv_rate_limit_profile p = Some profile \<Longrightarrow>
     \<exists>v. rate_limit_verdict profile x now d = Inr v \<and> rlc_allowed v"
  by (auto simp: check_rate_limit_gate_def bindE_Inr_iff mapErr_Inr_iff Let_def split: if_splits)

lemma refusals_allow:
  "ed_decision (with_session_refusal session (with_scope_refusal plan http decision)) = ED_ALLOW \<Longrightarrow>
     ed_decision decision = ED_ALLOW \<and> sbd_accepted session \<and>
     (ep_required_capability plan \<in> set HTTP_SCOPE_CAPABILITIES \<longrightarrow> hsd_accepted http)"
  by (auto simp: with_session_refusal_def with_scope_refusal_def denied_def split: if_splits)

lemma authorize_plan_Inr:
  assumes run: "authorize_plan s command new_id clock hook port x hyp source issued plan original d = Inr (res, d')"
    and hook: "hook_ok hook" and start: "quiet original d"
  shows "res = Inl outcome \<Longrightarrow> quiet original d'"
    and "res = Inr h \<Longrightarrow> \<exists>http session. grants x issued plan session http d h d' \<and>
      gates_passed s command clock port x source issued plan http session d"
proof -
  let ?now = "clock ''authorize''"
  have from_start: "quiet d d'' \<Longrightarrow> quiet original d''" for d'' using quiet_trans [OF start] .
  let ?gate = "check_rate_limit_gate (ds_actor s) new_id (epc_program_policy command) x hyp ?now d"
  have gate: "(\<exists>e. ?gate = Inl e) \<or> ?gate = Inr None \<or> (\<exists>outcome d1. ?gate = Inr (Some (outcome, d1)))"
    by (metis sum.exhaust option.exhaust prod.exhaust)
  from run consider "d' = original" "\<exists>outcome. res = Inl outcome"
    | outcome d1 where "res = Inl outcome" "check_rate_limit_gate (ds_actor s) new_id (epc_program_policy command) x hyp ?now d = Inr (Some (outcome, d1))"
      "set_execution_state (xr_experiment_id x) ''BLOCKED'' d1 = Inr d'"
    | capability http decision session where
      "capability_view_for_plan (ds_arguments s) (ds_catalog s) plan = Inr capability"
      "authorize_http_transaction_plan (ds_library s) (clock ''scope'') plan (epc_compiled_scope command) (epc_program_policy command) = Inr http"
      "check_rate_limit_gate (ds_actor s) new_id (epc_program_policy command) x hyp ?now d = Inr None"
      "core_decision s command plan http source issued capability d = Inr decision"
      "session_for s command plan x port ?now d = Inr session"
      "settle_decision s command hook (new_id ''request'') (new_id ''correlation'') ?now x hyp issued plan capability http session
         (with_session_refusal session (with_scope_refusal plan http decision)) d = Inr (res, d')"
    using gate unfolding authorize_plan_def Let_def
    by (elim disjE exE; cases "capability_view_for_plan (ds_arguments s) (ds_catalog s) plan")
      (auto simp: bindE_Inr_iff mapErr_Inr_iff split: binding_error.splits if_split_asm)
  note cases = this
  show "quiet original d'" if "res = Inl outcome"
    using cases
  proof cases
    case (2 outcome d1)
    then show ?thesis using quiet_trans [OF quiet_rate_limit quiet_set_execution_state] from_start by blast
  next
    case 3
    then show ?thesis using settle_decision_Inr(1) [OF 3(6) hook that] from_start by blast
  qed simp
  show "\<exists>http session. grants x issued plan session http d h d' \<and>
      gates_passed s command clock port x source issued plan http session d" if "res = Inr h"
    using cases
  proof cases
    case (3 capability http decision session)
    from settle_decision_Inr(2) [OF 3(6) hook that] show ?thesis
      using 3(1-5) refusals_allow rate_limit_gate_None [OF 3(3)] unfolding gates_passed_def by blast
  qed (use that in auto)
qed

lemma experiment_plan_from_record_Inr:
  "experiment_plan_from_record r = Inr plan \<Longrightarrow> plan =
     \<lparr>ep_hypothesis_id = epr_hypothesis_id r, ep_required_capability = epr_required_capability r,
      ep_action = epr_action r, ep_target_reference = epr_target_reference r,
      ep_side_effect_level = epr_side_effect_level r, ep_arguments = epr_arguments r,
      ep_requested_budget_id = epr_requested_budget_id r, ep_expected_observation = epr_expected_observation r,
      ep_disconfirming_observation = epr_disconfirming_observation r, ep_evaluation_strategy = epr_evaluation_strategy r,
      ep_capability_version = epr_capability_version r,
      ep_capability_definition_fingerprint = epr_capability_definition_fingerprint r\<rparr>"
  by (auto simp: experiment_plan_from_record_def post_init_experiment_plan_def bindE_Inr_iff)

lemma experiment_plan_record_for_Inr:
  "experiment_plan_record_for x plan now = Inr r \<Longrightarrow> epr_experiment_id r = xr_experiment_id x \<and>
     (experiment_plan_from_record r = Inr p \<longrightarrow> p = plan)"
  by (cases plan) (auto simp: experiment_plan_record_for_def post_init_experiment_plan_record_def raise_first_Inr_iff
      simp del: raise_first.simps dest!: experiment_plan_from_record_Inr)

text \<open>The row that is read back is the new one, or was there before.\<close>

lemma ensured_row:
  assumes ensured: "ensure_plan x plan now d = Inr (Inr d1)" and read: "get_experiment_plan (xr_experiment_id x) d1 = Inr (Some r)"
  shows "(r \<notin> set (dd_plans d) \<and> insert_experiment_plan r d = Inr d1) \<or> (r \<in> set (dd_plans d) \<and> d1 = d)"
proof (cases "get_experiment_plan (xr_experiment_id x) d")
  case (Inl e)
  with ensured show ?thesis by (simp add: ensure_plan_def)
next
  case (Inr row)
  show ?thesis
  proof (cases row)
    case None
    with Inr ensured obtain r' where r': "experiment_plan_record_for x plan now = Inr r'" "insert_experiment_plan r' d = Inr d1"
      by (auto simp: ensure_plan_def bindE_Inr_iff mapErr_Inr_iff split: if_splits)
    then have "epr_experiment_id r' = xr_experiment_id x" using experiment_plan_record_for_Inr by blast
    with plan_table.lookup_inserted [OF r'(2)] read have "r = r'"
      by (auto simp: get_experiment_plan_def fetch_one_def one_or_none_Some split: if_splits)
    then show ?thesis using r'(2) plan_table.insert_fresh [OF r'(2)] by blast
  next
    case (Some r')
    with Inr ensured have "d1 = d" by (auto simp: ensure_plan_def bindE_Inr_iff mapErr_Inr_iff split: if_splits)
    then show ?thesis using fetch_one_Some [OF read [unfolded get_experiment_plan_def]] by simp
  qed
qed

text \<open>The plan that is authorized is the stored one, equivalent to the plan of the command.\<close>

lemma ensured_plan:
  assumes ensured: "ensure_plan x plan now d = Inr (Inr d1)" and read: "get_experiment_plan (xr_experiment_id x) d1 = Inr (Some r)"
    and bound: "experiment_plan_from_record r = Inr p"
  shows "plans_equivalent p plan"
proof (cases "get_experiment_plan (xr_experiment_id x) d")
  case (Inl e)
  with ensured show ?thesis by (simp add: ensure_plan_def)
next
  case (Inr row)
  show ?thesis
  proof (cases row)
    case None
    with Inr ensured obtain r' where r': "experiment_plan_record_for x plan now = Inr r'" "insert_experiment_plan r' d = Inr d1"
      by (auto simp: ensure_plan_def bindE_Inr_iff mapErr_Inr_iff split: if_splits)
    then have "epr_experiment_id r' = xr_experiment_id x" using experiment_plan_record_for_Inr by blast
    with plan_table.lookup_inserted [OF r'(2)] read have "r = r'"
      by (auto simp: get_experiment_plan_def fetch_one_def one_or_none_Some split: if_splits)
    with experiment_plan_record_for_Inr [OF r'(1)] bound show ?thesis by simp
  next
    case (Some r')
    with Inr ensured have "d1 = d" "durable_plan_matches r' plan = Inr True"
      by (auto simp: ensure_plan_def bindE_Inr_iff mapErr_Inr_iff split: if_splits)
    with Some Inr read bound show ?thesis by (auto simp: durable_plan_matches_def bindE_Inr_iff)
  qed
qed

text \<open>What an authorization read before its gates.\<close>

definition context_read ::
    "execute_command \<Rightarrow> dispatch_db \<Rightarrow> experiment_record \<Rightarrow> authorization_source_view option \<Rightarrow> issued_budget_record \<Rightarrow> bool" where
  "context_read command d x source issued \<longleftrightarrow>
     x \<in> set (experiments d) \<and> xr_experiment_id x = epc_experiment_id command \<and>
     xr_execution_state x \<notin> set TERMINAL_EXPERIMENT_STATES \<and>
     issued \<in> set (bd_issued_budgets (dd_budgets d)) \<and> ibr_budget_id issued = xr_budget_id x \<and>
     (\<exists>run row. run \<in> set (db_research_runs (dd_store d)) \<and> rr_research_run_id run = xr_research_run_id x \<and>
        get_authorization_source (rr_authorization_source_id run) d = Inr row \<and> authorization_view row = Inr source)"

lemma or_reject_Inr: "or_reject row x k = Inr (Inr y) \<longleftrightarrow> (\<exists>r. row = Some r \<and> k r = Inr (Inr y))"
  by (auto simp: or_reject_def split: option.splits)

lemma load_context_Inr:
  "load_context command d = Inr (Inr (x, hyp, source, issued)) \<Longrightarrow> context_read command d x source issued"
proof -
  assume a: "load_context command d = Inr (Inr (x, hyp, source, issued))"
  then have x: "get_experiment (epc_experiment_id command) (dd_store d) = Inr (Some x)"
    by (auto simp: load_context_def bindE_Inr_iff mapErr_Inr_iff or_reject_Inr split: option.split_asm if_split_asm)
  with a obtain run row where "xr_execution_state x \<notin> set TERMINAL_EXPERIMENT_STATES"
    "get_research_run (xr_research_run_id x) d = Inr (Some run)" "get_issued_budget (xr_budget_id x) (dd_budgets d) = Inr (Some issued)"
    "get_authorization_source (rr_authorization_source_id run) d = Inr row" "authorization_view row = Inr source"
    by (auto simp: load_context_def bindE_Inr_iff mapErr_Inr_iff or_reject_Inr split: if_split_asm)
  moreover have "x \<in> set (experiments d)" "xr_experiment_id x = epc_experiment_id command"
    using fetch_one_Some [OF x [unfolded get_experiment_def]] by simp_all
  moreover have "run \<in> set (db_research_runs (dd_store d))" "rr_research_run_id run = xr_research_run_id x"
    using fetch_one_Some [OF calculation(2) [unfolded get_research_run_def]] by simp_all
  moreover have "issued \<in> set (bd_issued_budgets (dd_budgets d))" "ibr_budget_id issued = xr_budget_id x"
    using fetch_one_Some [OF calculation(3) [unfolded get_issued_budget_def]] by simp_all
  ultimately show ?thesis unfolding context_read_def by blast
qed

text \<open>The parts of an authorization: what it reads before the first update, and what it makes of it.\<close>

lemma authorize_split:
  "authorize s command new_id clock hook port d =
     bindE (read_for_authorization command clock d) (\<lambda>r. case r of
       Inl outcome \<Rightarrow> Inr (Inl outcome, d)
     | Inr l \<Rightarrow> decide_loaded s command new_id clock hook port l d)"
proof (cases "load_context command d")
  case (Inr loaded)
  show ?thesis
  proof (cases loaded)
    case (Inr l)
    obtain x hyp source issued where l: "l = (x, hyp, source, issued)" by (metis prod.exhaust)
    show ?thesis
    proof (cases "ensure_plan x (epc_plan command) (clock ''plan'') d")
      case planned: (Inr planned)
      show ?thesis
      proof (cases planned)
        case d1: (Inr d1)
        with planned have ensured: "ensure_plan x (epc_plan command) (clock ''plan'') d = Inr (Inr d1)" by simp
        have plan: "(if r \<notin> set (dd_plans d) then insert_experiment_plan r d else Inr d) = Inr d1"
          if "get_experiment_plan (xr_experiment_id x) d1 = Inr (Some r)" for r
          using ensured_row [OF ensured that] by auto
        show ?thesis using \<open>load_context command d = Inr loaded\<close> Inr l ensured plan
          by (auto simp: authorize_def read_for_authorization_def decide_loaded_def Let_def bindE_def mapErr_def
              split: sum.splits option.splits list.splits)
      qed (use \<open>load_context command d = Inr loaded\<close> Inr l planned in \<open>simp add: authorize_def read_for_authorization_def Let_def\<close>)
    qed (use \<open>load_context command d = Inr loaded\<close> Inr l in \<open>simp add: authorize_def read_for_authorization_def Let_def\<close>)
  qed (use Inr in \<open>simp add: authorize_def read_for_authorization_def Let_def\<close>)
qed (simp add: authorize_def read_for_authorization_def Let_def)

lemma authorize_handle:
  assumes "authorize s command new_id clock hook port d = Inr (Inr h, d')"
  obtains l where "read_for_authorization command clock d = Inr (Inr l)"
    "decide_loaded s command new_id clock hook port l d = Inr (Inr h, d')"
proof -
  from assms obtain r where r: "read_for_authorization command clock d = Inr r"
    and rest: "(case r of Inl outcome \<Rightarrow> Inr (Inl outcome, d) | Inr l \<Rightarrow> decide_loaded s command new_id clock hook port l d) =
      Inr (Inr h, d')"
    unfolding authorize_split bindE_Inr_iff by blast
  with that show thesis by (cases r) auto
qed

lemma go_on_sum: "bindE m (\<lambda>x. case x of Inl out \<Rightarrow> Inr (Inl (f out)) | Inr y \<Rightarrow> k y) = Inr (Inr l) \<longleftrightarrow>
    (\<exists>y. m = Inr (Inr y) \<and> k y = Inr (Inr l))"
  by (cases m) (auto split: sum.split)

lemma go_on_option: "bindE m (\<lambda>x. case x of None \<Rightarrow> Inr (Inl out) | Some y \<Rightarrow> k y) = Inr (Inr l) \<longleftrightarrow>
    (\<exists>y. m = Inr (Some y) \<and> k y = Inr (Inr l))"
  by (cases m) (auto split: option.split)

lemma go_on_list: "bindE m (\<lambda>x. case x of [] \<Rightarrow> k | a # as \<Rightarrow> Inr (Inl (f a as))) = Inr (Inr l) \<longleftrightarrow> m = Inr [] \<and> k = Inr (Inr l)"
  by (cases m) (auto split: list.split)

lemma read_for_authorization_Inr:
  assumes "read_for_authorization command clock d = Inr (Inr l)"
  shows "context_read command d (la_experiment l) (la_source l) (la_issued l)"
    and "xr_experiment_id (la_experiment l) \<notin> ear_experiment_id ` set (attempts d)"
    and "epr_experiment_id (la_plan_record l) = xr_experiment_id (la_experiment l)"
    and "experiment_plan_from_record (la_plan_record l) = Inr (la_plan l)"
    and "plans_equivalent (la_plan l) (epc_plan command)"
    and "la_plan_is_new l \<or> la_plan_record l \<in> set (dd_plans d)"
proof -
  from assms obtain x hyp source issued d1 r plan where run: "load_context command d = Inr (Inr (x, hyp, source, issued))"
      "ensure_plan x (epc_plan command) (clock ''plan'') d = Inr (Inr d1)"
      "get_experiment_plan (xr_experiment_id x) d1 = Inr (Some r)" "experiment_plan_from_record r = Inr plan"
      "list_attempts_for_experiment (xr_experiment_id x) (dd_store d1) = Inr []"
    and l: "l = \<lparr>la_experiment = x, la_hypothesis_id = hyp, la_source = source, la_issued = issued,
      la_plan_record = r, la_plan_is_new = (r \<notin> set (dd_plans d)), la_plan = plan\<rparr>"
    unfolding read_for_authorization_def
    by (auto simp: go_on_sum go_on_option go_on_list bindE_Inr_iff [where m = "mapErr _ _"] mapErr_Inr_iff)
  have "attempts d1 = attempts d" using ensured_row(1) [OF run(2,3)] quiet_insert_plan by (auto simp: quiet_def)
  then show "xr_experiment_id (la_experiment l) \<notin> ear_experiment_id ` set (attempts d)"
    using run(5) by (auto simp: l list_attempts_for_experiment_def fetch_list_def sort_key_Nil_iff filter_empty_conv split: if_splits)
  show "context_read command d (la_experiment l) (la_source l) (la_issued l)" using load_context_Inr [OF run(1)] by (simp add: l)
  show "epr_experiment_id (la_plan_record l) = xr_experiment_id (la_experiment l)"
    using fetch_one_Some [OF run(3) [unfolded get_experiment_plan_def]] by (simp add: l)
  show "experiment_plan_from_record (la_plan_record l) = Inr (la_plan l)" "la_plan_is_new l \<or> la_plan_record l \<in> set (dd_plans d)"
    using run(4) by (simp_all add: l)
  show "plans_equivalent (la_plan l) (epc_plan command)" using ensured_plan [OF run(2-4)] by (simp add: l)
qed

lemma decide_loaded_Inr:
  assumes run: "decide_loaded s command new_id clock hook port l d = Inr (res, d')" and hook: "hook_ok hook"
  shows "res = Inl outcome \<Longrightarrow> quiet d d'"
    and "res = Inr h \<Longrightarrow> la_plan_is_new l \<or> la_plan_record l \<in> set (dd_plans d) \<Longrightarrow>
      \<exists>http session d2. grants (la_experiment l) (la_issued l) (la_plan l) session http d h d' \<and>
        la_plan_record l \<in> set (dd_plans d') \<and> quiet d d2 \<and> dd_sessions d2 = dd_sessions d \<and> dd_budgets d2 = dd_budgets d \<and>
        gates_passed s command clock port (la_experiment l) (la_source l) (la_issued l) (la_plan l) http session d2"
proof -
  from run obtain d1 d2 where d1: "(if la_plan_is_new l then insert_experiment_plan (la_plan_record l) d else Inr d) = Inr d1"
    and d2: "set_execution_state (xr_experiment_id (la_experiment l)) ''AUTHORIZATION_CHECK'' d1 = Inr d2"
    and plan: "authorize_plan s command new_id clock hook port (la_experiment l) (la_hypothesis_id l) (la_source l) (la_issued l)
       (la_plan l) d d2 = Inr (res, d')"
    unfolding decide_loaded_def bindE_Inr_iff mapErr_Inr_iff by blast
  have q: "quiet d d2"
    using d1 quiet_trans [OF _ quiet_set_execution_state [OF d2]] quiet_insert_plan by (auto split: if_splits)
  show "quiet d d'" if "res = Inl outcome" using authorize_plan_Inr(1) [OF plan hook q that] .
  show "\<exists>http session d2. grants (la_experiment l) (la_issued l) (la_plan l) session http d h d' \<and>
      la_plan_record l \<in> set (dd_plans d') \<and> quiet d d2 \<and> dd_sessions d2 = dd_sessions d \<and> dd_budgets d2 = dd_budgets d \<and>
      gates_passed s command clock port (la_experiment l) (la_source l) (la_issued l) (la_plan l) http session d2"
    if res: "res = Inr h" and row: "la_plan_is_new l \<or> la_plan_record l \<in> set (dd_plans d)"
  proof -
    obtain http session where g: "grants (la_experiment l) (la_issued l) (la_plan l) session http d2 h d'"
      and gates: "gates_passed s command clock port (la_experiment l) (la_source l) (la_issued l) (la_plan l) http session d2"
      using authorize_plan_Inr(2) [OF plan hook q res] by blast
    have "la_plan_record l \<in> set (dd_plans d1)" using d1 row by (auto dest!: insert_experiment_plan_Inr split: if_splits)
    then have "la_plan_record l \<in> set (dd_plans d2)" using set_execution_state_Inr [OF d2] by auto
    then have "la_plan_record l \<in> set (dd_plans d')" using g unfolding grants_def grown_def by blast
    moreover have "dd_sessions d2 = dd_sessions d \<and> dd_budgets d2 = dd_budgets d"
      using d1 set_execution_state_Inr [OF d2] by (auto dest!: insert_experiment_plan_Inr split: if_splits)
    ultimately show ?thesis using q gates quiet_grants [OF q g] by blast
  qed
qed

text \<open>The gates read only what the transaction has left alone, so they hold of the database it started from.\<close>

lemma gates_passed_cong:
  assumes "dd_budgets d2 = dd_budgets d" "dd_sessions d2 = dd_sessions d" "attempts d2 = attempts d"
  shows "gates_passed s command clock port x source issued plan http session d2 =
    gates_passed s command clock port x source issued plan http session d"
proof -
  have "rate_limit_verdict profile x now d2 = rate_limit_verdict profile x now d" for profile now
    using assms by (simp add: rate_limit_verdict_def list_attempts_for_research_run_def)
  moreover have "core_decision s command plan http source issued capability d2 = core_decision s command plan http source issued capability d"
    for http capability using assms by (simp add: core_decision_def usage_or_ledger_def cong: option.case_cong)
  moreover have "session_for s command plan x port now d2 = session_for s command plan x port now d" for now
    using assms by (simp add: session_for_def get_session_context_def cong: option.case_cong)
  ultimately show ?thesis by (simp add: gates_passed_def)
qed

lemma core_decision_allow:
  assumes "core_decision s command plan http source issued capability d = Inr decision" "ed_decision decision = ED_ALLOW"
  shows "\<exists>budget usage level. issued_budget_from_record issued = Inr budget \<and>
    usage_or_ledger (epc_budget_usage command) (ibr_budget_id issued) d = Inr usage \<and>
    parse_side_effect_level (Inr (ep_side_effect_level plan)) = Inr level \<and>
    hard_gates (execution_request_for command plan http source budget usage capability) level (ds_catalog s) \<and>
    \<not> sei_ambiguous (core_scope_for command plan http) \<and>
    (level \<le> LEVEL_1 \<or> approved_for (ep_target_reference plan) (epc_approval command))"
proof -
  from assms(1) obtain budget usage where b: "issued_budget_from_record issued = Inr budget"
    and u: "usage_or_ledger (epc_budget_usage command) (ibr_budget_id issued) d = Inr usage"
    and e: "evaluate_execution (execution_request_for command plan http source budget usage capability) (ds_catalog s) = Inr decision"
    by (auto simp: core_decision_def bindE_Inr_iff mapErr_Inr_iff)
  let ?r = "execution_request_for command plan http source budget usage capability"
  from e obtain level where level: "well_formed_request ?r level" using evaluate_execution_Inr_iff by blast
  from evaluate_execution_policy(1) [OF e level] assms(2) have "execution_policy ?r level (ds_catalog s) = ED_ALLOW" by simp
  then have "hard_gates ?r level (ds_catalog s) \<and> \<not> sei_ambiguous (er_scope ?r) \<and>
      (level \<le> LEVEL_1 \<or> approved_for (er_requested_subject ?r) (er_approval ?r))"
    by (auto simp: execution_policy_def split: if_splits option.splits)
  with level b u show ?thesis by (auto simp: well_formed_request_def execution_request_for_def)
qed

section \<open>A concrete run\<close>

text \<open>An experiment that echoes, planned under an active authorization with a budget of five requests.\<close>

definition echo_plan :: experiment_plan where
  "echo_plan = \<lparr>ep_hypothesis_id = ''h'', ep_required_capability = ''diagnostic.echo'', ep_action = ''echo'',
     ep_target_reference = ''t'', ep_side_effect_level = 0, ep_arguments = [], ep_requested_budget_id = ''b1'',
     ep_expected_observation = ''echo'', ep_disconfirming_observation = ''none'', ep_evaluation_strategy = ''diagnostic.echo.v1'',
     ep_capability_version = Some ''1'', ep_capability_definition_fingerprint = Some ''fp''\<rparr>"

definition echo_command :: execute_command where
  "echo_command = \<lparr>epc_experiment_id = ''x1'', epc_plan = echo_plan,
     epc_scope = \<lparr>sei_matches = [example_match ''a'' SRE_ALLOW], sei_ambiguous = False\<rparr>, epc_approval = None, epc_budget_usage = None,
     epc_compiled_scope = None, epc_program_policy = None, epc_identity_id = None, epc_identity = None,
     epc_authentication_profile = None\<rparr>"

definition echo_services :: dispatch_services where
  "echo_services = \<lparr>ds_library = no_library, ds_arguments = (\<lambda>_ _. None), ds_contracts = no_schema, ds_catalog = example_registry,
     ds_timestamps = one_instant, ds_actor = ''control-plane''\<rparr>"

definition planned_store :: dispatch_db where
  "planned_store = echo_store\<lparr>
     dd_store := (dd_store echo_store)\<lparr>
       db_research_runs := [\<lparr>rr_research_run_id = ''run'', rr_program_id = ''p'', rr_authorization_source_id = ''s'',
         rr_initiated_by_actor_id = ''alice'', rr_initiated_by_actor_type = ''HUMAN_OPERATOR'', rr_started_at = 0\<rparr>],
       db_hypotheses := [\<lparr>hyr_hypothesis_id = ''h'', hyr_research_run_id = ''run'', hyr_claim = ''it echoes'', hyr_created_at = 0,
         hyr_origin_reference = None, hyr_identity_id = None\<rparr>],
       db_experiments := [\<lparr>xr_experiment_id = ''x1'', xr_research_run_id = ''run'', xr_hypothesis_id = ''h'', xr_budget_id = ''b1'',
         xr_execution_state = ''PLANNED'', xr_created_at = 0\<rparr>]\<rparr>,
     dd_sources := [\<lparr>asr_authorization_source_id = ''s'', asr_program_id = ''p'', asr_state = ''ACTIVE'',
       asr_provenance_reference = ''letter'', asr_created_at = 0, asr_effective_from = None, asr_effective_until = None\<rparr>]\<rparr>"

abbreviation no_hook :: persist_hook where
  "no_hook \<equiv> \<lambda>_ _ d. Inr d"

definition echo_authorized :: "(loop_outcome + authorized_dispatch) transaction" where
  "echo_authorized = authorize echo_services echo_command id (\<lambda>_. 0) no_hook None planned_store"


definition is_request :: "(loop_outcome + payload) transaction \<Rightarrow> bool" where
  "is_request t = (case t of Inr (Inr _, _) \<Rightarrow> True | _ \<Rightarrow> False)"

definition sends :: "(loop_outcome + authorized_dispatch) transaction \<Rightarrow> bool" where
  "sends t = (case t of Inr (Inr h, d) \<Rightarrow> is_request (dispatch_transaction id (\<lambda>_. 0) h d) \<and> bd_consumptions (dd_budgets d) = []
     | _ \<Rightarrow> False)"

lemma echo_sends: "sends echo_authorized"
  by code_simp

lemma is_request_iff: "is_request t \<longleftrightarrow> (\<exists>request d. t = Inr (Inr request, d))"
  by (auto simp: is_request_def split: sum.split prod.split)

lemma sends_iff:
  "sends t \<longleftrightarrow> (\<exists>h d. t = Inr (Inr h, d) \<and> is_request (dispatch_transaction id (\<lambda>_. 0) h d) \<and> bd_consumptions (dd_budgets d) = [])"
  by (auto simp: sends_def split: sum.split prod.split)

lemma echo_dispatched:
  obtains h d request d' where "authorize echo_services echo_command id (\<lambda>_. 0) no_hook None planned_store = Inr (Inr h, d)"
    "dispatch_transaction id (\<lambda>_. 0) h d = Inr (Inr request, d')" "bd_consumptions (dd_budgets d) = []"
  using echo_sends unfolding sends_iff is_request_iff echo_authorized_def by blast

lemma no_hook_ok: "hook_ok no_hook"
  by (simp add: hook_ok_def)

section \<open>Properties\<close>



end
