(* ===== verification/Dispatch_Safety.thy ===== *)
theory Dispatch_Safety
  imports Dispatch_Gates
begin

text \<open>
  The transactions of authorization and dispatch in any order, taken apart where others can commit in
  between: which changes they make to the attempts, the invariant they keep, and what it says of every
  invocation of the worker.
\<close>

section \<open>The transactions in any order\<close>

text \<open>
  What a transaction leaves of an attempt: everything but its state and times.  An attempt still to be
  sent is AUTHORIZED.
\<close>

definition core_of :: "execution_attempt_record \<Rightarrow> execution_attempt_record" where
  "core_of a = a\<lparr>ear_state := [], ear_dispatch_started_at := None, ear_completed_at := None\<rparr>"

definition awaiting :: "dispatch_db \<Rightarrow> string set" where
  "awaiting d = ear_attempt_id ` {a \<in> set (attempts d). ear_state a = ''AUTHORIZED''}"

definition moved :: "dispatch_db \<Rightarrow> dispatch_db \<Rightarrow> bool" where
  "moved d d' \<longleftrightarrow> map core_of (attempts d') = map core_of (attempts d) \<and> awaiting d' \<subseteq> awaiting d \<and> grown d d'"

lemma core_of_sel [simp]:
  "ear_attempt_id (core_of a) = ear_attempt_id a" "ear_experiment_id (core_of a) = ear_experiment_id a"
  "ear_request_id (core_of a) = ear_request_id a" "ear_budget_id (core_of a) = ear_budget_id a"
  "allowed_by (core_of a) e = allowed_by a e" "made_for request (core_of a) = made_for request a"
  "for_plan plan (core_of a) = for_plan plan a"
  by (simp_all add: core_of_def allowed_by_def made_for_def for_plan_def)

lemma moved_trans: "moved d d' \<Longrightarrow> moved d' d'' \<Longrightarrow> moved d d''"
  by (auto simp: moved_def intro: grown_trans)

lemma quiet_moved: "quiet d d' \<Longrightarrow> moved d d'"
  by (auto simp: quiet_def moved_def awaiting_def)

lemma set_attempt_state_moved:
  assumes "set_attempt_state i state t u d = Inr d'" "state \<noteq> ''AUTHORIZED''"
  shows "moved d d'" "i \<notin> awaiting d'" "dd_budgets d' = dd_budgets d"
proof -
  have d': "d' = d\<lparr>dd_store := (dd_store d)\<lparr>db_attempts := with_attempt_state i state t u (attempts d)\<rparr>\<rparr>"
    using set_attempt_state_Inr [OF assms(1)] by blast
  have "core_of \<circ> (\<lambda>r. if ear_attempt_id r = i then r\<lparr>ear_state := state, ear_dispatch_started_at := or_keep t (ear_dispatch_started_at r),
      ear_completed_at := or_keep u (ear_completed_at r)\<rparr> else r) = core_of"
    by (rule ext) (simp add: core_of_def)
  then have "map core_of (with_attempt_state i state t u rows) = map core_of rows" for rows
    by (simp add: with_attempt_state_def)
  moreover have open_rows: "{a \<in> set (with_attempt_state i state t u rows). ear_state a = ''AUTHORIZED''} \<subseteq>
      {a \<in> set rows. ear_attempt_id a \<noteq> i \<and> ear_state a = ''AUTHORIZED''}" for rows
    using assms(2) by (auto simp: with_attempt_state_def)
  ultimately show "moved d d'" unfolding d' moved_def awaiting_def grown_def by auto
  show "i \<notin> awaiting d'" using open_rows unfolding d' awaiting_def by fastforce
  show "dd_budgets d' = dd_budgets d" unfolding d' by simp
qed

lemma moved_ids:
  assumes "moved d d'"
  shows "map ear_attempt_id (attempts d') = map ear_attempt_id (attempts d)"
    "map ear_experiment_id (attempts d') = map ear_experiment_id (attempts d)"
proof -
  from assms have same: "map core_of (attempts d') = map core_of (attempts d)" by (simp add: moved_def)
  show "map ear_attempt_id (attempts d') = map ear_attempt_id (attempts d)"
    using arg_cong [OF same, of "map ear_attempt_id"] by (simp add: comp_def)
  show "map ear_experiment_id (attempts d') = map ear_experiment_id (attempts d)"
    using arg_cong [OF same, of "map ear_experiment_id"] by (simp add: comp_def)
qed

text \<open>The two charges of a dispatched attempt, in the ledger of its budget.\<close>

definition charged_for :: "execution_attempt_record \<Rightarrow> dispatch_db \<Rightarrow> bool" where
  "charged_for a d \<longleftrightarrow> (\<forall>resource \<in> {''WORKER_INVOCATION'', ''REQUEST''}. \<exists>c \<in> set (bd_consumptions (dd_budgets d)).
     bcr_request_id c = Some (ear_request_id a) \<and> bcr_budget_id c = ear_budget_id a \<and> bcr_resource_type c = resource)"

lemma charged_for_core [simp]: "charged_for (core_of a) d = charged_for a d"
  by (simp add: charged_for_def)

definition charge_ids :: "budget_db \<Rightarrow> string set" where
  "charge_ids b = bcr_consumption_id ` set (bd_consumptions b)"

lemma charge_Inr:
  assumes "charge r b = Inr (Some b')" "bcr_request_id r \<noteq> None"
  shows "(\<exists>c \<in> set (bd_consumptions b'). same_charge r c) \<and> set (bd_consumptions b) \<subseteq> set (bd_consumptions b') \<and>
    charge_ids b' \<subseteq> insert (bcr_consumption_id r) (charge_ids b)"
proof -
  from assms(1) have "insert_within_allowance r b = Inr (Some b')"
    by (auto simp: charge_def bindE_Inr_iff mapErr_Inr_iff post_init_budget_consumption_record_def raise_first_Inr_iff
        simp del: raise_first.simps)
  then show ?thesis
    by (rule insert_within_allowance_Inr) (use assms(2) in \<open>auto simp: insert_consumption_Inr same_charge_def charge_ids_def\<close>)
qed

text \<open>A conflict is only possible on the identifier of the charge: the request's other charges have been read before.\<close>

lemma charge_conflict:
  assumes "charge r b = Inr None"
  shows "bcr_consumption_id r \<in> charge_ids b"
proof -
  from assms have "insert_within_allowance r b = Inr None"
    by (auto simp: charge_def bindE_Inr_iff mapErr_Inr_iff post_init_budget_consumption_record_def raise_first_Inr_iff
        simp del: raise_first.simps)
  then obtain existing where existing: "list_for_budget (bcr_budget_id r) b = Inr existing" "\<not> already_charged r existing"
    and "insert_or_swallow r b = Inr None"
    unfolding insert_within_allowance_def bindE_Inr_iff mapErr_Inr_iff from_option_Inr_iff
    by (force simp: bindE_Inr_iff mapErr_Inr_iff split: if_splits)
  then have "\<not> (\<exists>x \<in> set (bd_consumptions b). same_charge r x)" "insert_consumption r b = Inl unique_failed"
    using already_charged_listed [OF existing(1)]
    by (auto simp: insert_or_swallow_def insert_consumption_def write_failed_def integrity_failed_def
        split: sum.splits persistence_error.splits if_splits)
  then show ?thesis
    by (auto simp: insert_consumption_def has_key_iff same_charge_def charge_ids_def
        write_failed_def integrity_failed_def unique_failed_def split: if_splits)
qed

lemma record_dispatch_consumption_Inr:
  assumes run: "record_dispatch_consumption new_id a issued now amount b = Inr res"
    and ids: "new_id ''invocation charge'' \<noteq> new_id ''request charge''" "new_id ''invocation charge'' \<notin> charge_ids b"
      "new_id ''request charge'' \<notin> charge_ids b"
  obtains b' where "res = Some b'" "set (bd_consumptions b) \<subseteq> set (bd_consumptions b')"
    "\<forall>resource \<in> {''WORKER_INVOCATION'', ''REQUEST''}. \<exists>c \<in> set (bd_consumptions b').
       bcr_request_id c = Some (ear_request_id a) \<and> bcr_budget_id c = ibr_budget_id issued \<and> bcr_resource_type c = resource"
proof -
  let ?first = "dispatch_charge (new_id ''invocation charge'') ''WORKER_INVOCATION'' 1 a issued now"
  let ?second = "dispatch_charge (new_id ''request charge'') ''REQUEST'' amount a issued now"
  from run obtain b1 where first: "charge ?first b = Inr (Some b1)" and second: "charge ?second b1 = Inr res"
    by (auto simp: record_dispatch_consumption_def bindE_Inr_iff split: option.splits)
  have sel [simp]: "bcr_consumption_id (dispatch_charge i resource n a issued now) = i" "bcr_request_id (dispatch_charge i resource n a issued now) = Some (ear_request_id a)"
    "bcr_budget_id (dispatch_charge i resource n a issued now) = ibr_budget_id issued" "bcr_resource_type (dispatch_charge i resource n a issued now) = resource"
    for i resource n by (simp_all add: dispatch_charge_def)
  have f: "(\<exists>c \<in> set (bd_consumptions b1). same_charge ?first c) \<and> set (bd_consumptions b) \<subseteq> set (bd_consumptions b1) \<and>
      charge_ids b1 \<subseteq> insert (new_id ''invocation charge'') (charge_ids b)"
    using charge_Inr [OF first] by simp
  have "res \<noteq> None"
  proof
    assume "res = None"
    with second have "charge ?second b1 = Inr None" by simp
    from charge_conflict [OF this] f ids show False by auto
  qed
  then obtain b' where res: "res = Some b'" by blast
  with second have "(\<exists>c \<in> set (bd_consumptions b'). same_charge ?second c) \<and> set (bd_consumptions b1) \<subseteq> set (bd_consumptions b')"
    using charge_Inr by simp
  with f show thesis by (intro that [OF res]) (auto simp: same_charge_def)
qed

section \<open>The invocation\<close>

lemma mark_unknown_moved: "mark_unknown x a hyp now d = Inr (outcome, d') \<Longrightarrow> moved d d'"
  by (auto simp: mark_unknown_def bindE_Inr_iff mapErr_Inr_iff dest: set_attempt_state_moved(1))

lemma begin_dispatch_Inr:
  assumes "begin_dispatch new_id now h a x issued requested d = Inr (res, d')"
  obtains outcome where "res = Inl outcome" "d' = d"
  | d1 d2 amount b where "set_attempt_state (ear_attempt_id a) ''DISPATCHING'' (Some now) None d = Inr d1"
    "set_execution_state (xr_experiment_id x) ''RUNNING'' d1 = Inr d2"
    "record_dispatch_consumption new_id a issued now amount (dd_budgets d2) = Inr b"
    "res = Inr (request_with_resolved_secrets (adp_worker_request h) (adp_resolved_secret_values h)
      (if ear_worker_capability a = BROWSER_PAGE_CAPABILITY then Some amount else None))"
    "d' = (case b of None \<Rightarrow> d | Some b \<Rightarrow> d2\<lparr>dd_budgets := b\<rparr>)"
proof -
  let ?charges = "\<lambda>d2. bindE requested (\<lambda>amount.
    bindE (record_dispatch_consumption new_id a issued now amount (dd_budgets d2)) (\<lambda>b. Inr (amount, b)))"
  from assms obtain d1 d2 where d1: "set_attempt_state (ear_attempt_id a) ''DISPATCHING'' (Some now) None d = Inr d1"
    and d2: "set_execution_state (xr_experiment_id x) ''RUNNING'' d1 = Inr d2"
    and rest: "(case ?charges d2 of
       Inl (AppPersistence (BudgetOverspendError _)) \<Rightarrow>
         Inr (Inl ((unsent h DISPATCH_DENIED ''BUDGET_EXHAUSTED'')
           \<lparr>lo_attempt_state := Some ''AUTHORIZED'', lo_core_reason_code := Some RC_BUDGET_EXHAUSTED\<rparr>), d)
     | Inl e \<Rightarrow> Inl e
     | Inr (amount, b) \<Rightarrow>
         Inr (Inr (request_with_resolved_secrets (adp_worker_request h) (adp_resolved_secret_values h)
             (if ear_worker_capability a = BROWSER_PAGE_CAPABILITY then Some amount else None)),
           case b of None \<Rightarrow> d | Some b \<Rightarrow> d2\<lparr>dd_budgets := b\<rparr>)) = Inr (res, d')"
    unfolding begin_dispatch_def bindE_Inr_iff mapErr_Inr_iff by blast
  show thesis
  proof (cases "?charges d2")
    case (Inl e)
    with rest show thesis by (intro that(1)) (auto split: app_error.split_asm persistence_error.split_asm)
  next
    case (Inr charged)
    then obtain amount b where "charged = (amount, b)" "record_dispatch_consumption new_id a issued now amount (dd_budgets d2) = Inr b"
      by (auto simp: bindE_Inr_iff)
    with rest Inr show thesis by (intro that(2) [OF d1 d2, of amount b]) auto
  qed
qed

text \<open>What a dispatch has read when it goes on to send.\<close>

lemma read_for_dispatch_Inr:
  assumes "read_for_dispatch h d = Inr (BeginDispatch a x issued)"
  shows "a \<in> set (attempts d)" "ear_attempt_id a = adp_attempt_id h" "ear_state a = ''AUTHORIZED''"
    "ibr_budget_id issued = ear_budget_id a"
proof -
  from assms have a: "get_attempt (adp_attempt_id h) d = Inr (Some a)" "ear_state a = ''AUTHORIZED''"
    and issued: "get_issued_budget (ear_budget_id a) (dd_budgets d) = Inr (Some issued)"
    by (auto simp: read_for_dispatch_def bindE_Inr_iff mapErr_Inr_iff split: option.split_asm if_split_asm)
  show "a \<in> set (attempts d)" "ear_attempt_id a = adp_attempt_id h" "ear_state a = ''AUTHORIZED''"
    using fetch_one_Some [OF a(1) [unfolded get_attempt_def]] a(2) by simp_all
  show "ibr_budget_id issued = ear_budget_id a"
    using fetch_one_Some [OF issued [unfolded get_issued_budget_def]] by simp
qed

lemma settle_attempt_moved:
  assumes "settle_attempt h attempt_state experiment_state now d = Inr d'" "attempt_state \<noteq> ''AUTHORIZED''"
  shows "moved d d'"
proof -
  from assms(1) obtain d1 where "set_attempt_state (adp_attempt_id h) attempt_state None (Some now) d = Inr d1"
    "set_execution_state (adp_experiment_id h) experiment_state d1 = Inr d'"
    by (auto simp: settle_attempt_def bindE_Inr_iff)
  then show ?thesis using set_attempt_state_moved(1) [OF _ assms(2)] quiet_moved [OF quiet_set_execution_state] moved_trans by blast
qed

lemma classify_invocation_state: "classify_invocation call = (attempt_state, experiment_state, status) \<Longrightarrow> attempt_state \<noteq> ''AUTHORIZED''"
  by (auto simp: classify_invocation_def split: invocation_status.split_asm if_split_asm)

lemma ingest_moved:
  assumes "ingest check fromiso actor clock request call port d = (port', Inr (outcome, d'))"
  shows "moved d d'"
  using assms by (cases rule: ingest_Inr) (auto simp: stores_def quiet_def grown_def intro!: quiet_moved)

definition fresh_charges :: "(string \<Rightarrow> string) \<Rightarrow> dispatch_db \<Rightarrow> bool" where
  "fresh_charges new_id d \<longleftrightarrow> new_id ''invocation charge'' \<noteq> new_id ''request charge'' \<and>
     {new_id ''invocation charge'', new_id ''request charge''} \<inter> charge_ids (dd_budgets d) = {}"

text \<open>Whatever happened since the attempt was read: afterwards it awaits nothing, and is charged.\<close>

lemma begin_dispatch_sent:
  assumes run: "begin_dispatch new_id now h a x issued requested d = Inr (Inr request, d')" and ids: "fresh_charges new_id d"
    and budget: "ibr_budget_id issued = ear_budget_id a"
  shows "moved d d'" "ear_attempt_id a \<notin> awaiting d'" "charged_for a d'"
    "\<exists>allowance. request = request_with_resolved_secrets (adp_worker_request h) (adp_resolved_secret_values h) allowance"
proof -
  from run obtain d1 d2 amount res where d1: "set_attempt_state (ear_attempt_id a) ''DISPATCHING'' (Some now) None d = Inr d1"
    and d2: "set_execution_state (xr_experiment_id x) ''RUNNING'' d1 = Inr d2"
    and charges: "record_dispatch_consumption new_id a issued now amount (dd_budgets d2) = Inr res"
    and request: "request = request_with_resolved_secrets (adp_worker_request h) (adp_resolved_secret_values h)
      (if ear_worker_capability a = BROWSER_PAGE_CAPABILITY then Some amount else None)"
    and d': "d' = (case res of None \<Rightarrow> d | Some b \<Rightarrow> d2\<lparr>dd_budgets := b\<rparr>)"
    by (rule begin_dispatch_Inr) auto
  note m1 = set_attempt_state_moved [OF d1]
  have budgets: "dd_budgets d2 = dd_budgets d" using m1(3) set_execution_state_Inr [OF d2] by auto
  obtain b where b: "res = Some b" "set (bd_consumptions (dd_budgets d)) \<subseteq> set (bd_consumptions b)"
    "\<forall>resource \<in> {''WORKER_INVOCATION'', ''REQUEST''}. \<exists>c \<in> set (bd_consumptions b).
       bcr_request_id c = Some (ear_request_id a) \<and> bcr_budget_id c = ibr_budget_id issued \<and> bcr_resource_type c = resource"
    by (rule record_dispatch_consumption_Inr [OF charges]) (use ids in \<open>auto simp: budgets fresh_charges_def\<close>)
  have m2: "moved d d2" "awaiting d2 = awaiting d1"
    using moved_trans [OF m1(1) quiet_moved [OF quiet_set_execution_state [OF d2]]] set_execution_state_Inr [OF d2]
    by (auto simp: awaiting_def)
  from d' b(1) have after: "d' = d2\<lparr>dd_budgets := b\<rparr>" by simp
  show "moved d d'" using m2(1) b(2) by (simp add: after moved_def awaiting_def grown_def)
  show "charged_for a d'" using b(3) budget by (simp add: after charged_for_def)
  show "ear_attempt_id a \<notin> awaiting d'" using m1(2) m2(2) by (simp add: after awaiting_def)
  show "\<exists>allowance. request = request_with_resolved_secrets (adp_worker_request h) (adp_resolved_secret_values h) allowance"
    using request by blast
qed

section \<open>Claims\<close>

text \<open>
  Authorizations of an experiment, and dispatches of an attempt, follow one pattern.  A transaction reads
  that nothing has been done for a key, and later, without another look, does it.  A key is contested once
  a transaction reads it while another one is under way.  What is not contested is done at most once.
\<close>

definition contest :: "'k \<Rightarrow> 'k list \<Rightarrow> 'k set \<Rightarrow> 'k set" where
  "contest k pending contested = (if k \<in> set pending then insert k contested else contested)"

definition claimed_once :: "'k set \<Rightarrow> 'k list \<Rightarrow> 'k list \<Rightarrow> bool" where
  "claimed_once contested pending taken \<longleftrightarrow> distinct (filter (\<lambda>k. k \<notin> contested) pending) \<and>
     distinct (filter (\<lambda>k. k \<notin> contested) taken) \<and> (\<forall>k \<in> set pending. k \<notin> contested \<longrightarrow> k \<notin> set taken)"

lemma distinct_filter_insert: "distinct (filter (\<lambda>k. k \<notin> C) xs) \<Longrightarrow> distinct (filter (\<lambda>k. k \<notin> insert c C) xs)"
  by (induction xs) (auto split: if_splits)

lemma claimed_once_read:
  assumes "claimed_once C pending taken" "k \<notin> set taken"
  shows "claimed_once (contest k pending C) (k # pending) taken"
proof (cases "k \<in> set pending")
  case True
  then show ?thesis using assms distinct_filter_insert unfolding claimed_once_def contest_def by fastforce
qed (use assms in \<open>auto simp: claimed_once_def contest_def\<close>)

lemma claimed_once_done: "claimed_once C (ks @ k # ks') taken \<Longrightarrow> claimed_once C (ks @ ks') (k # taken)"
  by (auto simp: claimed_once_def split: if_splits)

lemma claimed_once_append: "claimed_once C pending (taken @ [k]) \<longleftrightarrow> claimed_once C pending (k # taken)"
  by (auto simp: claimed_once_def)

lemma claimed_once_dropped: "claimed_once C (ks @ k # ks') taken \<Longrightarrow> claimed_once C (ks @ ks') taken"
  by (auto simp: claimed_once_def split: if_splits)

section \<open>The world of dispatch\<close>

text \<open>
  The database; the authorizations that have read and not yet decided; the handles that were given out;
  the dispatches that have read and not yet sent; the invocations of the worker, by attempt and request;
  and the experiments and attempts that are contested.
\<close>

record dispatch_world =
  wo_db :: dispatch_db
  wo_loaded :: "(execute_command \<times> loaded_authorization) list"
  wo_handles :: "authorized_dispatch list"
  wo_reading :: "(authorized_dispatch \<times> execution_attempt_record \<times> experiment_record \<times> issued_budget_record) list"
  wo_sent :: "(string \<times> payload) list"
  wo_contested_experiments :: "string set"
  wo_contested_attempts :: "string set"

definition loaded_experiment :: "execute_command \<times> loaded_authorization \<Rightarrow> string" where
  "loaded_experiment p = xr_experiment_id (la_experiment (snd p))"

definition read_attempt :: "authorized_dispatch \<times> execution_attempt_record \<times> experiment_record \<times> issued_budget_record \<Rightarrow> string" where
  "read_attempt p = adp_attempt_id (fst p)"

text \<open>
  Reads and decisions follow one another in any order, those of other transactions in between.  A
  transaction may fail at any time; then it leaves nothing.  The requests to reserve are counted in some
  earlier ledger, and a dispatch that found its attempt DISPATCHING marks it whatever it has become.
  \<open>aside\<close>: a transaction that leaves the attempts alone and only adds audit events, charges and plans.
  An invocation is sent with fresh identifiers of its two charges, as \<open>uuid4\<close> gives them.
\<close>

inductive dispatch_step :: "dispatch_world \<Rightarrow> dispatch_world \<Rightarrow> bool" where
  loaded: "read_for_authorization command clock (wo_db w) = Inr (Inr l) \<Longrightarrow>
    dispatch_step w (w\<lparr>wo_loaded := (command, l) # wo_loaded w, wo_contested_experiments :=
      contest (xr_experiment_id (la_experiment l)) (map loaded_experiment (wo_loaded w)) (wo_contested_experiments w)\<rparr>)"
| given_out: "wo_loaded w = ps @ (command, l) # qs \<Longrightarrow> decide_loaded s command new_id clock hook port l (wo_db w) = Inr (Inr h, d') \<Longrightarrow>
    hook_ok hook \<Longrightarrow> dispatch_step w (w\<lparr>wo_db := d', wo_loaded := ps @ qs, wo_handles := h # wo_handles w\<rparr>)"
| refused: "wo_loaded w = ps @ (command, l) # qs \<Longrightarrow> decide_loaded s command new_id clock hook port l (wo_db w) = Inr (Inl outcome, d') \<Longrightarrow>
    hook_ok hook \<Longrightarrow> dispatch_step w (w\<lparr>wo_db := d', wo_loaded := ps @ qs\<rparr>)"
| given_up: "wo_loaded w = ps @ p # qs \<Longrightarrow> dispatch_step w (w\<lparr>wo_loaded := ps @ qs\<rparr>)"
| reading: "h \<in> set (wo_handles w) \<Longrightarrow> read_for_dispatch h (wo_db w) = Inr (BeginDispatch a x issued) \<Longrightarrow>
    dispatch_step w (w\<lparr>wo_reading := (h, a, x, issued) # wo_reading w, wo_contested_attempts :=
      contest (adp_attempt_id h) (map read_attempt (wo_reading w)) (wo_contested_attempts w)\<rparr>)"
| sent: "wo_reading w = ps @ (h, a, x, issued) # qs \<Longrightarrow>
    begin_dispatch new_id now h a x issued (request_consumption_amount a issued b) (wo_db w) = Inr (Inr request, d') \<Longrightarrow>
    fresh_charges new_id (wo_db w) \<Longrightarrow>
    dispatch_step w (w\<lparr>wo_db := d', wo_reading := ps @ qs, wo_sent := (adp_attempt_id h, request) # wo_sent w\<rparr>)"
| not_sent: "wo_reading w = ps @ q # qs \<Longrightarrow> dispatch_step w (w\<lparr>wo_reading := ps @ qs\<rparr>)"
| marked: "mark_unknown x a hyp now (wo_db w) = Inr (outcome, d') \<Longrightarrow> dispatch_step w (w\<lparr>wo_db := d'\<rparr>)"
| settled: "h \<in> set (wo_handles w) \<Longrightarrow> classify_invocation call = (attempt_state, experiment_state, status) \<Longrightarrow>
    settle_attempt h attempt_state experiment_state now (wo_db w) = Inr d' \<Longrightarrow> dispatch_step w (w\<lparr>wo_db := d'\<rparr>)"
| failed: "h \<in> set (wo_handles w) \<Longrightarrow> settle_attempt h ''FAILED'' ''EXECUTION_FAILED'' now (wo_db w) = Inr d' \<Longrightarrow>
    dispatch_step w (w\<lparr>wo_db := d'\<rparr>)"
| answered: "ingest check fromiso actor clock request call port (wo_db w) = (port', Inr (ingestion, d')) \<Longrightarrow>
    dispatch_step w (w\<lparr>wo_db := d'\<rparr>)"
| aside: "quiet (wo_db w) d' \<Longrightarrow> dispatch_step w (w\<lparr>wo_db := d'\<rparr>)"

definition started :: "dispatch_db \<Rightarrow> dispatch_world" where
  "started d = \<lparr>wo_db = d, wo_loaded = [], wo_handles = [], wo_reading = [], wo_sent = [],
     wo_contested_experiments = {}, wo_contested_attempts = {}\<rparr>"

definition dispatch_reachable :: "dispatch_world \<Rightarrow> bool" where
  "dispatch_reachable w \<longleftrightarrow> (\<exists>d. attempts d = [] \<and> distinct (map epr_experiment_id (dd_plans d)) \<and> dispatch_step\<^sup>*\<^sup>* (started d) w)"

text \<open>A dispatch that ends without an invocation leaves the database as it was, or marks the attempt.\<close>

lemma unsent_unchanged: "begin_dispatch new_id now h a x issued requested d = Inr (Inl outcome, d') \<Longrightarrow> d' = d"
  by (auto elim: begin_dispatch_Inr)

text \<open>An authorization or a dispatch that nothing interrupts is a run of these steps.\<close>

lemma authorize_run:
  assumes "authorize s command new_id clock hook port (wo_db w) = Inr (Inr h, d')" "hook_ok hook" "wo_loaded w = []"
  shows "dispatch_step\<^sup>*\<^sup>* w (w\<lparr>wo_db := d', wo_handles := h # wo_handles w\<rparr>)"
proof -
  obtain l where l: "read_for_authorization command clock (wo_db w) = Inr (Inr l)"
    and decided: "decide_loaded s command new_id clock hook port l (wo_db w) = Inr (Inr h, d')"
    using authorize_handle [OF assms(1)] .
  let ?w = "w\<lparr>wo_loaded := [(command, l)]\<rparr>"
  have "dispatch_step w ?w" using loaded [OF l] assms(3) by (simp add: contest_def)
  moreover have "dispatch_step ?w (?w\<lparr>wo_db := d', wo_loaded := [] @ [], wo_handles := h # wo_handles ?w\<rparr>)"
    by (rule given_out) (use decided assms(2) in auto)
  moreover have "?w\<lparr>wo_db := d', wo_loaded := [] @ [], wo_handles := h # wo_handles ?w\<rparr> = w\<lparr>wo_db := d', wo_handles := h # wo_handles w\<rparr>"
    using assms(3) by simp
  ultimately show ?thesis by (metis converse_rtranclp_into_rtranclp rtranclp.rtrancl_refl)
qed

lemma dispatch_transaction_run:
  assumes "dispatch_transaction new_id clock h (wo_db w) = Inr (Inr request, d')" "h \<in> set (wo_handles w)" "wo_reading w = []"
    "fresh_charges new_id (wo_db w)"
  shows "dispatch_step\<^sup>*\<^sup>* w (w\<lparr>wo_db := d', wo_sent := (adp_attempt_id h, request) # wo_sent w\<rparr>)"
proof -
  from assms(1) obtain r where r0: "read_for_dispatch h (wo_db w) = Inr r" and
    rest: "(case r of Reported outcome \<Rightarrow> Inr (Inl outcome, wo_db w)
     | MarkUnknown x a \<Rightarrow>
         bindE (mark_unknown x a (adp_hypothesis_id h) (clock ''unknown'') (wo_db w)) (\<lambda>(outcome, d). Inr (Inl outcome, d))
     | BeginDispatch a x issued \<Rightarrow> begin_dispatch new_id (clock ''dispatch'') h a x issued
         (request_consumption_amount a issued (dd_budgets (wo_db w))) (wo_db w)) = Inr (Inr request, d')"
    unfolding dispatch_transaction_def bindE_Inr_iff by blast
  obtain a x issued where r: "read_for_dispatch h (wo_db w) = Inr (BeginDispatch a x issued)"
    and begins: "begin_dispatch new_id (clock ''dispatch'') h a x issued (request_consumption_amount a issued (dd_budgets (wo_db w)))
      (wo_db w) = Inr (Inr request, d')"
    by (cases r) (use r0 rest in \<open>auto simp: bindE_Inr_iff\<close>)
  let ?w = "w\<lparr>wo_reading := [(h, a, x, issued)]\<rparr>"
  let ?w' = "?w\<lparr>wo_db := d', wo_reading := [] @ [], wo_sent := (adp_attempt_id h, request) # wo_sent ?w\<rparr>"
  have "dispatch_step w ?w" using reading [OF assms(2) r] assms(3) by (simp add: contest_def)
  moreover have "dispatch_step ?w ?w'" by (rule sent) (use begins assms(4) in auto)
  moreover have "?w' = w\<lparr>wo_db := d', wo_sent := (adp_attempt_id h, request) # wo_sent w\<rparr>" using assms(3) by simp
  ultimately show ?thesis by (metis converse_rtranclp_into_rtranclp rtranclp.rtrancl_refl)
qed

text \<open>So is a dispatch that sends nothing, and the first transaction of an execution that finds an earlier one.\<close>

lemma same_db: "w\<lparr>wo_db := wo_db w\<rparr> = w"
  by simp

lemma dispatch_transaction_unsent_run:
  assumes "dispatch_transaction new_id clock h (wo_db w) = Inr (Inl outcome, d')"
  shows "dispatch_step\<^sup>*\<^sup>* w (w\<lparr>wo_db := d'\<rparr>)"
proof -
  from assms obtain r where rest: "(case r of Reported outcome \<Rightarrow> Inr (Inl outcome, wo_db w)
     | MarkUnknown x a \<Rightarrow>
         bindE (mark_unknown x a (adp_hypothesis_id h) (clock ''unknown'') (wo_db w)) (\<lambda>(outcome, d). Inr (Inl outcome, d))
     | BeginDispatch a x issued \<Rightarrow> begin_dispatch new_id (clock ''dispatch'') h a x issued
         (request_consumption_amount a issued (dd_budgets (wo_db w))) (wo_db w)) = Inr (Inl outcome, d')"
    unfolding dispatch_transaction_def bindE_Inr_iff by blast
  show ?thesis
  proof (cases r)
    case (Reported outcome')
    with rest have "d' = wo_db w" by simp
    then show ?thesis using same_db by (metis rtranclp.rtrancl_refl)
  next
    case (MarkUnknown x a)
    with rest have "mark_unknown x a (adp_hypothesis_id h) (clock ''unknown'') (wo_db w) = Inr (outcome, d')" by (auto simp: bindE_Inr_iff)
    then show ?thesis by (intro r_into_rtranclp) (rule marked)
  next
    case (BeginDispatch a x issued)
    with rest have "d' = wo_db w" using unsent_unchanged by simp
    then show ?thesis using same_db by (metis rtranclp.rtrancl_refl)
  qed
qed

lemma fail_closed_existing_run:
  assumes run: "fail_closed_existing i clock (wo_db w) = Inr (outcome, d')"
  shows "dispatch_step\<^sup>*\<^sup>* w (w\<lparr>wo_db := d'\<rparr>)"
proof (cases "d' = wo_db w")
  case True
  then show ?thesis using same_db by (metis rtranclp.rtrancl_refl)
next
  case False
  let ?d = "wo_db w"
  from run False obtain x where x: "get_experiment i (dd_store ?d) = Inr (Some x)"
    by (cases "get_experiment i (dd_store ?d)"; cases "projr (get_experiment i (dd_store ?d))") (auto simp: fail_closed_existing_def)
  with run False obtain a where "mark_unknown x a (xr_hypothesis_id x) (clock ''unknown'') ?d = Inr (the outcome, d')"
    by (cases "list_attempts_for_experiment i (dd_store ?d)"; cases "projr (list_attempts_for_experiment i (dd_store ?d))")
      (auto simp: fail_closed_existing_def bindE_Inr_iff split: if_split_asm)
  then show ?thesis by (intro r_into_rtranclp) (rule marked)
qed

section \<open>The invariant\<close>

text \<open>An attempt of the database, up to its state, with a property.\<close>

definition some_attempt :: "(execution_attempt_record \<Rightarrow> bool) \<Rightarrow> string \<Rightarrow> dispatch_db \<Rightarrow> bool" where
  "some_attempt P i d \<longleftrightarrow> (\<exists>a \<in> set (attempts d). ear_attempt_id a = i \<and> P a)"

text \<open>An attempt and a request that are made out for the stored plan of the attempt's experiment.\<close>

definition planned :: "dispatch_db \<Rightarrow> payload \<Rightarrow> execution_attempt_record \<Rightarrow> bool" where
  "planned d request a \<longleftrightarrow> made_for request a \<and> (\<exists>r \<in> set (dd_plans d). \<exists>plan i. epr_experiment_id r = ear_experiment_id a \<and>
     experiment_plan_from_record r = Inr plan \<and> for_plan plan a \<and> carries plan i request)"

text \<open>The invariant: of the rows, of what an authorization has read, of a handle, of what a dispatch has read, of an invocation.\<close>

definition rows_ok :: "dispatch_db \<Rightarrow> bool" where
  "rows_ok d \<longleftrightarrow> distinct (map ear_attempt_id (attempts d)) \<and> distinct (map epr_experiment_id (dd_plans d)) \<and>
     (\<forall>a \<in> set (attempts d). \<exists>e \<in> set (audit_events d). allowed_by a e)"

definition loaded_ok :: "dispatch_db \<Rightarrow> execute_command \<times> loaded_authorization \<Rightarrow> bool" where
  "loaded_ok d p \<longleftrightarrow> (case snd p of l \<Rightarrow> epr_experiment_id (la_plan_record l) = xr_experiment_id (la_experiment l) \<and>
     experiment_plan_from_record (la_plan_record l) = Inr (la_plan l) \<and> (la_plan_is_new l \<or> la_plan_record l \<in> set (dd_plans d)))"

definition handle_ok :: "dispatch_db \<Rightarrow> authorized_dispatch \<Rightarrow> bool" where
  "handle_ok d h \<longleftrightarrow> some_attempt (planned d (adp_worker_request h)) (adp_attempt_id h) d"

definition reading_ok ::
    "dispatch_db \<Rightarrow> authorized_dispatch \<times> execution_attempt_record \<times> experiment_record \<times> issued_budget_record \<Rightarrow> bool" where
  "reading_ok d p \<longleftrightarrow> (case p of (h, a, x, issued) \<Rightarrow> handle_ok d h \<and> ear_attempt_id a = adp_attempt_id h \<and>
     ibr_budget_id issued = ear_budget_id a \<and> (\<exists>a' \<in> set (attempts d). core_of a' = core_of a))"

definition sent_ok :: "dispatch_db \<Rightarrow> string \<times> payload \<Rightarrow> bool" where
  "sent_ok d s \<longleftrightarrow> fst s \<notin> awaiting d \<and> some_attempt (\<lambda>a. planned d (snd s) a \<and> charged_for a d) (fst s) d"

definition rest_ok :: "dispatch_world \<Rightarrow> bool" where
  "rest_ok w \<longleftrightarrow> rows_ok (wo_db w) \<and> (\<forall>p \<in> set (wo_loaded w). loaded_ok (wo_db w) p) \<and>
     (\<forall>h \<in> set (wo_handles w). handle_ok (wo_db w) h) \<and> (\<forall>p \<in> set (wo_reading w). reading_ok (wo_db w) p) \<and>
     (\<forall>s \<in> set (wo_sent w). sent_ok (wo_db w) s)"

definition claims_ok :: "dispatch_world \<Rightarrow> bool" where
  "claims_ok w \<longleftrightarrow>
     claimed_once (wo_contested_experiments w) (map loaded_experiment (wo_loaded w)) (map ear_experiment_id (attempts (wo_db w))) \<and>
     claimed_once (wo_contested_attempts w) (map read_attempt (wo_reading w)) (map fst (wo_sent w))"

lemma charged_for_mono:
  "set (bd_consumptions (dd_budgets d)) \<subseteq> set (bd_consumptions (dd_budgets d')) \<Longrightarrow> charged_for a d \<Longrightarrow> charged_for a d'"
  unfolding charged_for_def by blast

lemma core_of_set_eq:
  assumes "moved d d'" "a \<in> set (attempts d)"
  obtains a' where "a' \<in> set (attempts d')" "core_of a' = core_of a"
proof -
  have "core_of ` set (attempts d') = core_of ` set (attempts d)"
    using assms(1) by (metis moved_def list.set_map)
  with assms(2) that show thesis by (metis (no_types, lifting) image_iff)
qed

lemma some_attempt_moved:
  assumes "moved d d'" "\<And>a a'. core_of a' = core_of a \<Longrightarrow> P a \<Longrightarrow> Q a'" "some_attempt P i d"
  shows "some_attempt Q i d'"
  using assms(2,3) core_of_set_eq [OF assms(1)] core_of_sel(1) unfolding some_attempt_def by metis

lemma charged_for_core_eq: "core_of a' = core_of a \<Longrightarrow> charged_for a d \<Longrightarrow> charged_for a' d"
  using charged_for_core by metis

lemma allowed_by_core: "core_of a' = core_of a \<Longrightarrow> allowed_by a e \<Longrightarrow> allowed_by a' e"
  using core_of_sel(5) by metis

lemma planned_core: "core_of a' = core_of a \<Longrightarrow> planned d request a \<Longrightarrow> planned d request a'"
  unfolding planned_def using core_of_sel(2,6,7) by metis

lemma planned_mono: "set (dd_plans d) \<subseteq> set (dd_plans d') \<Longrightarrow> planned d request a \<Longrightarrow> planned d' request a"
  unfolding planned_def by blast

lemma planned_secrets: "planned d request a \<Longrightarrow> planned d (request_with_resolved_secrets request secrets allowance) a"
  unfolding planned_def using made_for_secrets carries_secrets by blast

lemma moved_reverse:
  assumes "moved d d'" "a' \<in> set (attempts d')"
  obtains a where "a \<in> set (attempts d)" "core_of a' = core_of a"
proof -
  have "core_of ` set (attempts d') = core_of ` set (attempts d)"
    using assms(1) by (metis moved_def list.set_map)
  with assms(2) that show thesis by (metis (no_types, lifting) image_iff)
qed

text \<open>A move keeps the invariant, whatever it does to the states of the attempts.\<close>

lemma moved_grown: "moved d d' \<Longrightarrow> grown d d'"
  by (simp add: moved_def)

lemma moved_rows_ok:
  assumes "moved d d'" "rows_ok d"
  shows "rows_ok d'"
proof -
  have "\<exists>e \<in> set (audit_events d'). allowed_by a' e" if a': "a' \<in> set (attempts d')" for a'
  proof -
    obtain a where a: "a \<in> set (attempts d)" "core_of a' = core_of a" using moved_reverse [OF assms(1) a'] .
    with assms(2) obtain e where "e \<in> set (audit_events d)" "allowed_by a e" unfolding rows_ok_def by blast
    then show ?thesis using moved_grown [OF assms(1)] allowed_by_core [OF a(2)] unfolding grown_def by blast
  qed
  then show ?thesis using assms(2) moved_ids [OF assms(1)] moved_grown [OF assms(1)] by (simp add: rows_ok_def grown_def)
qed

lemma grown_loaded_ok: "grown d d' \<Longrightarrow> loaded_ok d p \<Longrightarrow> loaded_ok d' p"
  unfolding loaded_ok_def grown_def by (auto split: prod.splits)

lemma moved_handle_ok: "moved d d' \<Longrightarrow> handle_ok d h \<Longrightarrow> handle_ok d' h"
proof -
  assume m: "moved d d'" and h: "handle_ok d h"
  have plans: "set (dd_plans d) \<subseteq> set (dd_plans d')" using moved_grown [OF m] by (simp add: grown_def)
  show ?thesis
    using some_attempt_moved [OF m, where P = "planned d (adp_worker_request h)" and Q = "planned d' (adp_worker_request h)"]
      planned_core planned_mono [OF plans] h unfolding handle_ok_def by blast
qed

lemma moved_reading_ok:
  assumes "moved d d'" "reading_ok d p"
  shows "reading_ok d' p"
proof -
  obtain h a x issued where p: "p = (h, a, x, issued)" by (metis prod.exhaust)
  with assms(2) obtain a0 where a0: "a0 \<in> set (attempts d)" "core_of a0 = core_of a" by (auto simp: reading_ok_def)
  obtain a' where "a' \<in> set (attempts d')" "core_of a' = core_of a0" using core_of_set_eq [OF assms(1) a0(1)] .
  then show ?thesis using assms(2) a0(2) moved_handle_ok [OF assms(1)] p by (auto simp: reading_ok_def)
qed

lemma moved_sent_ok:
  assumes "moved d d'" "sent_ok d s"
  shows "sent_ok d' s"
proof -
  have grows: "set (bd_consumptions (dd_budgets d)) \<subseteq> set (bd_consumptions (dd_budgets d'))" "awaiting d' \<subseteq> awaiting d"
    "set (dd_plans d) \<subseteq> set (dd_plans d')"
    using assms(1) by (simp_all add: moved_def grown_def)
  have "some_attempt (\<lambda>a. planned d' (snd s) a \<and> charged_for a d') (fst s) d'"
  proof (rule some_attempt_moved [OF assms(1)])
    show "some_attempt (\<lambda>a. planned d (snd s) a \<and> charged_for a d) (fst s) d" using assms(2) by (simp add: sent_ok_def)
    fix a a' assume "core_of a' = core_of a" "planned d (snd s) a \<and> charged_for a d"
    then show "planned d' (snd s) a' \<and> charged_for a' d'"
      using planned_core planned_mono [OF grows(3)] charged_for_core_eq charged_for_mono [OF grows(1)] by blast
  qed
  then show ?thesis using assms(2) grows(2) by (auto simp: sent_ok_def)
qed

lemma moved_ok: "moved (wo_db w) d' \<Longrightarrow> rest_ok w \<Longrightarrow> rest_ok (w\<lparr>wo_db := d'\<rparr>)"
  using moved_rows_ok grown_loaded_ok [OF moved_grown] moved_handle_ok moved_reading_ok moved_sent_ok by (simp add: rest_ok_def)

lemma moved_claims: "moved (wo_db w) d' \<Longrightarrow> claims_ok (w\<lparr>wo_db := d'\<rparr>) = claims_ok w"
  by (simp add: claims_ok_def moved_ids(2))

text \<open>An authorization adds one attempt, and its handle.\<close>

lemma some_attempt_added:
  assumes "some_attempt P i d" "attempts d' = attempts d @ [a]" "\<And>a. P a \<Longrightarrow> Q a"
  shows "some_attempt Q i d'"
  using assms by (auto simp: some_attempt_def)

lemma grants_ok:
  assumes g: "grants x issued plan session http d h d'"
    and row: "r \<in> set (dd_plans d')" "epr_experiment_id r = xr_experiment_id x" "experiment_plan_from_record r = Inr plan"
  shows "rows_ok d \<Longrightarrow> rows_ok d'" "handle_ok d' h" "handle_ok d k \<Longrightarrow> handle_ok d' k" "reading_ok d p \<Longrightarrow> reading_ok d' p"
    "sent_ok d s \<Longrightarrow> sent_ok d' s" "map ear_experiment_id (attempts d') = map ear_experiment_id (attempts d) @ [xr_experiment_id x]"
    "grown d d'"
proof -
  from g obtain a e where a0: "attempts d' = attempts d @ [a]" "ear_attempt_id a \<notin> ear_attempt_id ` set (attempts d)"
      "granted_for x issued plan session http a h"
    and e: "e \<in> set (audit_events d')" "allowed_by a e" and grows: "grown d d'"
    unfolding grants_def by blast
  then have a: "attempts d' = attempts d @ [a]" "ear_attempt_id a \<notin> ear_attempt_id ` set (attempts d)"
      "ear_attempt_id a = adp_attempt_id h" "ear_experiment_id a = xr_experiment_id x" "made_for (adp_worker_request h) a" "for_plan plan a"
    and c: "\<exists>i. carries plan i (adp_worker_request h)"
    unfolding granted_for_def by blast+
  show "grown d d'" by (rule grows)
  have events: "set (audit_events d) \<subseteq> set (audit_events d')" and plans: "set (dd_plans d) \<subseteq> set (dd_plans d')"
    and charges: "set (bd_consumptions (dd_budgets d)) \<subseteq> set (bd_consumptions (dd_budgets d'))"
    using grows by (simp_all add: grown_def)
  show "rows_ok d'" if ok: "rows_ok d"
  proof -
    have "\<exists>e \<in> set (audit_events d'). allowed_by x e" if x: "x \<in> set (attempts d')" for x
    proof -
      consider "x = a" | "x \<in> set (attempts d)" using x unfolding a(1) by auto
      then show ?thesis using e ok events unfolding rows_ok_def by cases blast+
    qed
    then show ?thesis using ok a(1,2) grows by (simp add: rows_ok_def grown_def)
  qed
  have "planned d' (adp_worker_request h) a"
    unfolding planned_def using a(5) row(1) by (intro conjI bexI [of _ r]) (use a(4,6) c row(2,3) in auto)
  then show "handle_ok d' h" using a(1,3) by (auto simp: handle_ok_def some_attempt_def)
  show handle: "handle_ok d' k" if "handle_ok d k" for k
    using that some_attempt_added [OF _ a(1)] planned_mono [OF plans] unfolding handle_ok_def by blast
  show "reading_ok d' p" if "reading_ok d p" using that handle a(1) by (auto simp: reading_ok_def)
  show "map ear_experiment_id (attempts d') = map ear_experiment_id (attempts d) @ [xr_experiment_id x]" using a(1,4) by simp
  show "sent_ok d' s" if s: "sent_ok d s"
  proof -
    have "fst s \<in> ear_attempt_id ` set (attempts d)" using s by (auto simp: sent_ok_def some_attempt_def intro: rev_image_eqI)
    then have "fst s \<noteq> ear_attempt_id a" using a(2) by metis
    then have "fst s \<notin> awaiting d'" using s a(1) by (auto simp: sent_ok_def awaiting_def)
    moreover have "some_attempt (\<lambda>a. planned d' (snd s) a \<and> charged_for a d') (fst s) d'"
    proof (rule some_attempt_added [OF _ a(1)])
      show "some_attempt (\<lambda>a. planned d (snd s) a \<and> charged_for a d) (fst s) d" using s by (simp add: sent_ok_def)
    qed (use planned_mono [OF plans] charged_for_mono [OF charges] in blast)
    ultimately show ?thesis by (simp add: sent_ok_def)
  qed
qed

lemma given_out_ok:
  assumes w: "wo_loaded w = ps @ (command, l) # qs"
    and run: "decide_loaded s command new_id clock hook port l (wo_db w) = Inr (Inr h, d')" and hook: "hook_ok hook"
    and ok: "rest_ok w" and claims: "claims_ok w"
  shows "rest_ok (w\<lparr>wo_db := d', wo_loaded := ps @ qs, wo_handles := h # wo_handles w\<rparr>)"
    "claims_ok (w\<lparr>wo_db := d', wo_loaded := ps @ qs, wo_handles := h # wo_handles w\<rparr>)"
proof -
  have l: "loaded_ok (wo_db w) (command, l)" using ok w by (simp add: rest_ok_def)
  then have row: "la_plan_is_new l \<or> la_plan_record l \<in> set (dd_plans (wo_db w))"
    and plan: "epr_experiment_id (la_plan_record l) = xr_experiment_id (la_experiment l)"
      "experiment_plan_from_record (la_plan_record l) = Inr (la_plan l)"
    by (simp_all add: loaded_ok_def)
  from decide_loaded_Inr(2) [OF run hook refl row] obtain http session where
    g: "grants (la_experiment l) (la_issued l) (la_plan l) session http (wo_db w) h d'" and stored: "la_plan_record l \<in> set (dd_plans d')"
    by blast
  note granted = grants_ok [OF g stored plan]
  show "rest_ok (w\<lparr>wo_db := d', wo_loaded := ps @ qs, wo_handles := h # wo_handles w\<rparr>)"
    using ok granted(1-5) grown_loaded_ok [OF granted(7)] w by (simp add: rest_ok_def)
  show "claims_ok (w\<lparr>wo_db := d', wo_loaded := ps @ qs, wo_handles := h # wo_handles w\<rparr>)"
    using claims w granted(6) claimed_once_done by (fastforce simp: claims_ok_def claimed_once_append loaded_experiment_def)
qed

lemma loaded_step_ok:
  assumes run: "read_for_authorization command clock (wo_db w) = Inr (Inr l)" and ok: "rest_ok w" and claims: "claims_ok w"
  shows "rest_ok (w\<lparr>wo_loaded := (command, l) # wo_loaded w, wo_contested_experiments := C\<rparr>)"
    "claims_ok (w\<lparr>wo_loaded := (command, l) # wo_loaded w, wo_contested_experiments :=
      contest (xr_experiment_id (la_experiment l)) (map loaded_experiment (wo_loaded w)) (wo_contested_experiments w)\<rparr>)"
proof -
  note read = read_for_authorization_Inr [OF run]
  have "loaded_ok (wo_db w) (command, l)" using read(3,4,6) by (simp add: loaded_ok_def)
  then show "rest_ok (w\<lparr>wo_loaded := (command, l) # wo_loaded w, wo_contested_experiments := C\<rparr>)" using ok by (simp add: rest_ok_def)
  show "claims_ok (w\<lparr>wo_loaded := (command, l) # wo_loaded w, wo_contested_experiments :=
      contest (xr_experiment_id (la_experiment l)) (map loaded_experiment (wo_loaded w)) (wo_contested_experiments w)\<rparr>)"
    using claims claimed_once_read [of _ _ "map ear_experiment_id (attempts (wo_db w))" "xr_experiment_id (la_experiment l)"] read(2)
    by (simp add: claims_ok_def loaded_experiment_def)
qed

lemma reading_step_ok:
  assumes h: "h \<in> set (wo_handles w)" and run: "read_for_dispatch h (wo_db w) = Inr (BeginDispatch a x issued)"
    and ok: "rest_ok w" and claims: "claims_ok w"
  shows "rest_ok (w\<lparr>wo_reading := (h, a, x, issued) # wo_reading w, wo_contested_attempts := C\<rparr>)"
    "claims_ok (w\<lparr>wo_reading := (h, a, x, issued) # wo_reading w, wo_contested_attempts :=
      contest (adp_attempt_id h) (map read_attempt (wo_reading w)) (wo_contested_attempts w)\<rparr>)"
proof -
  note read = read_for_dispatch_Inr [OF run]
  have "reading_ok (wo_db w) (h, a, x, issued)" using read h ok by (auto simp: reading_ok_def rest_ok_def)
  then show "rest_ok (w\<lparr>wo_reading := (h, a, x, issued) # wo_reading w, wo_contested_attempts := C\<rparr>)" using ok by (simp add: rest_ok_def)
  have "adp_attempt_id h \<in> awaiting (wo_db w)" using read(1-3) unfolding awaiting_def by force
  then have "adp_attempt_id h \<notin> set (map fst (wo_sent w))" using ok by (auto simp: rest_ok_def sent_ok_def)
  then show "claims_ok (w\<lparr>wo_reading := (h, a, x, issued) # wo_reading w, wo_contested_attempts :=
      contest (adp_attempt_id h) (map read_attempt (wo_reading w)) (wo_contested_attempts w)\<rparr>)"
    using claims claimed_once_read by (fastforce simp: claims_ok_def read_attempt_def)
qed

lemma sent_step_ok:
  assumes w: "wo_reading w = ps @ (h, a, x, issued) # qs"
    and run: "begin_dispatch new_id now h a x issued requested (wo_db w) = Inr (Inr request, d')"
    and ids: "fresh_charges new_id (wo_db w)" and ok: "rest_ok w" and claims: "claims_ok w"
  shows "rest_ok (w\<lparr>wo_db := d', wo_reading := ps @ qs, wo_sent := (adp_attempt_id h, request) # wo_sent w\<rparr>)"
    "claims_ok (w\<lparr>wo_db := d', wo_reading := ps @ qs, wo_sent := (adp_attempt_id h, request) # wo_sent w\<rparr>)"
proof -
  let ?d = "wo_db w"
  have "reading_ok ?d (h, a, x, issued)" using ok w by (simp add: rest_ok_def)
  then obtain a1 a2 where id: "ear_attempt_id a = adp_attempt_id h" and budget: "ibr_budget_id issued = ear_budget_id a"
    and a1: "a1 \<in> set (attempts ?d)" "core_of a1 = core_of a"
    and a2: "a2 \<in> set (attempts ?d)" "ear_attempt_id a2 = adp_attempt_id h" "planned ?d (adp_worker_request h) a2"
    by (auto simp: reading_ok_def handle_ok_def some_attempt_def)
  note dispatched = begin_dispatch_sent [OF run ids budget]
  obtain allowance where request: "request = request_with_resolved_secrets (adp_worker_request h) (adp_resolved_secret_values h) allowance"
    using dispatched(4) by blast
  have "inj_on ear_attempt_id (set (attempts ?d))" using ok by (simp add: rest_ok_def rows_ok_def distinct_map)
  moreover have "ear_attempt_id a1 = ear_attempt_id a2" using a1(2) id a2(2) core_of_sel(1) by metis
  ultimately have "a2 = a1" using a1(1) a2(1) by (simp add: inj_on_def)
  with a2(3) a1(2) have "planned ?d request a" using planned_core [of a a1] planned_secrets request by metis
  then have "planned d' request a" using planned_mono moved_grown [OF dispatched(1)] unfolding grown_def by blast
  moreover obtain a' where "a' \<in> set (attempts d')" "core_of a' = core_of a"
    using core_of_set_eq [OF dispatched(1) a1(1)] a1(2) by metis
  moreover have "ear_attempt_id a' = adp_attempt_id h" using calculation(3) id core_of_sel(1) by metis
  moreover have "adp_attempt_id h \<notin> awaiting d'" using dispatched(2) id by simp
  ultimately have "sent_ok d' (adp_attempt_id h, request)"
    using planned_core charged_for_core_eq [OF _ dispatched(3)] unfolding sent_ok_def some_attempt_def fst_conv snd_conv by blast
  with moved_ok [OF dispatched(1) ok] w
  show "rest_ok (w\<lparr>wo_db := d', wo_reading := ps @ qs, wo_sent := (adp_attempt_id h, request) # wo_sent w\<rparr>)"
    by (auto simp: rest_ok_def)
  show "claims_ok (w\<lparr>wo_db := d', wo_reading := ps @ qs, wo_sent := (adp_attempt_id h, request) # wo_sent w\<rparr>)"
    using claims w moved_ids(2) [OF dispatched(1)] claimed_once_done by (fastforce simp: claims_ok_def read_attempt_def)
qed

lemma db_step_ok: "moved (wo_db w) d' \<Longrightarrow> rest_ok w \<and> claims_ok w \<Longrightarrow> rest_ok (w\<lparr>wo_db := d'\<rparr>) \<and> claims_ok (w\<lparr>wo_db := d'\<rparr>)"
  using moved_ok moved_claims by blast

lemma dispatch_step_ok: "dispatch_step w w' \<Longrightarrow> rest_ok w \<and> claims_ok w \<Longrightarrow> rest_ok w' \<and> claims_ok w'"
proof (induction rule: dispatch_step.induct)
  case loaded then show ?case using loaded_step_ok [OF loaded(1)] by blast
next
  case given_out then show ?case using given_out_ok [OF given_out(1-3)] by blast
next
  case (refused w ps command l qs s new_id clock hook port outcome d')
  then have "moved (wo_db w) d'" using decide_loaded_Inr(1) quiet_moved by blast
  from db_step_ok [OF this refused(4)] refused(1) show ?case
    using claimed_once_dropped by (fastforce simp: rest_ok_def claims_ok_def)
next
  case given_up then show ?case using claimed_once_dropped by (fastforce simp: rest_ok_def claims_ok_def)
next
  case reading then show ?case using reading_step_ok [OF reading(1,2)] by blast
next
  case sent then show ?case using sent_step_ok [OF sent(1-3)] by blast
next
  case not_sent then show ?case using claimed_once_dropped by (fastforce simp: rest_ok_def claims_ok_def)
next
  case marked then show ?case using db_step_ok mark_unknown_moved by blast
next
  case settled then show ?case using db_step_ok settle_attempt_moved classify_invocation_state by blast
next
  case (failed h w now d')
  then have "moved (wo_db w) d'" by (auto intro: settle_attempt_moved)
  with failed show ?case using db_step_ok by blast
next
  case answered then show ?case using db_step_ok ingest_moved by blast
next
  case aside then show ?case using db_step_ok quiet_moved by blast
qed

lemma dispatch_reachable_ok: "dispatch_reachable w \<Longrightarrow> rest_ok w \<and> claims_ok w"
proof -
  assume "dispatch_reachable w"
  then obtain d where "attempts d = []" "distinct (map epr_experiment_id (dd_plans d))" and steps: "dispatch_step\<^sup>*\<^sup>* (started d) w"
    by (auto simp: dispatch_reachable_def)
  then have "rest_ok (started d) \<and> claims_ok (started d)"
    by (simp add: started_def rest_ok_def rows_ok_def claims_ok_def claimed_once_def)
  with steps show ?thesis by (induction rule: rtranclp_induct) (use dispatch_step_ok in blast)+
qed

section \<open>Overlapping transactions\<close>

text \<open>
  Two dispatches of one attempt that both read AUTHORIZED both send the request: the update of the state
  has no condition, and the second charge of the same request is taken for a replay of the first.  The
  worker runs twice, one invocation is charged.
\<close>

definition charged_resources :: "dispatch_db \<Rightarrow> string list" where
  "charged_resources d = map bcr_resource_type (bd_consumptions (dd_budgets d))"

definition sends_again ::
    "authorized_dispatch \<Rightarrow> execution_attempt_record \<Rightarrow> experiment_record \<Rightarrow> issued_budget_record \<Rightarrow> app_error + int
     \<Rightarrow> dispatch_db \<Rightarrow> bool" where
  "sends_again h a x issued requested d = (case begin_dispatch id 0 h a x issued requested d of
     Inr (Inr request, d1) \<Rightarrow> (case begin_dispatch (append ''again '') 0 h a x issued requested d1 of
       Inr (Inr request', d2) \<Rightarrow> request' = request \<and> charged_resources d = [] \<and> fresh_charges (append ''again '') d1 \<and>
         charged_resources d2 = [''WORKER_INVOCATION'', ''REQUEST'']
     | _ \<Rightarrow> False)
   | _ \<Rightarrow> False)"

definition overlap_sends_twice :: "(loop_outcome + authorized_dispatch) transaction \<Rightarrow> bool" where
  "overlap_sends_twice t = (case t of
     Inr (Inr h, d) \<Rightarrow> (case read_for_dispatch h d of
       Inr (BeginDispatch a x issued) \<Rightarrow> sends_again h a x issued (request_consumption_amount a issued (dd_budgets d)) d
     | _ \<Rightarrow> False)
   | _ \<Rightarrow> False)"

lemma echo_overlap: "overlap_sends_twice echo_authorized"
  by code_simp

lemma overlap_sends_twice_iff:
  "overlap_sends_twice t \<longleftrightarrow> (\<exists>h d a x issued. t = Inr (Inr h, d) \<and> read_for_dispatch h d = Inr (BeginDispatch a x issued) \<and>
     sends_again h a x issued (request_consumption_amount a issued (dd_budgets d)) d)"
  by (auto simp: overlap_sends_twice_def split: sum.split prod.split dispatch_reading.split)

lemma sends_again_iff:
  "sends_again h a x issued requested d \<longleftrightarrow> (\<exists>request d1 d2. begin_dispatch id 0 h a x issued requested d = Inr (Inr request, d1) \<and>
     begin_dispatch (append ''again '') 0 h a x issued requested d1 = Inr (Inr request, d2) \<and> charged_resources d = [] \<and>
     fresh_charges (append ''again '') d1 \<and> charged_resources d2 = [''WORKER_INVOCATION'', ''REQUEST''])"
  by (auto simp: sends_again_def split: sum.split prod.split)

lemma overlapping_dispatches_invoke_twice:
  "\<exists>w i request. dispatch_reachable w \<and> wo_sent w = [(i, request), (i, request)] \<and> wo_contested_attempts w = {i} \<and>
     charged_resources (wo_db w) = [''WORKER_INVOCATION'', ''REQUEST'']"
proof -
  obtain h d a x issued request d1 d2 where
    run: "authorize echo_services echo_command id (\<lambda>_. 0) no_hook None planned_store = Inr (Inr h, d)"
    and r: "read_for_dispatch h d = Inr (BeginDispatch a x issued)"
    and first: "begin_dispatch id 0 h a x issued (request_consumption_amount a issued (dd_budgets d)) d = Inr (Inr request, d1)"
    and second: "begin_dispatch (append ''again '') 0 h a x issued (request_consumption_amount a issued (dd_budgets d)) d1 =
      Inr (Inr request, d2)"
    and charges: "charged_resources d = []" "fresh_charges (append ''again '') d1"
      "charged_resources d2 = [''WORKER_INVOCATION'', ''REQUEST'']"
    using echo_overlap unfolding overlap_sends_twice_iff sends_again_iff echo_authorized_def by blast
  have fresh: "fresh_charges id d" using charges(1) by (simp add: fresh_charges_def charge_ids_def charged_resources_def)
  let ?w0 = "started planned_store" and ?p = "(h, a, x, issued)"
  let ?w1 = "?w0\<lparr>wo_db := d, wo_handles := [h]\<rparr>"
  let ?w2 = "?w1\<lparr>wo_reading := [?p]\<rparr>"
  let ?w3 = "?w1\<lparr>wo_reading := [?p, ?p], wo_contested_attempts := {adp_attempt_id h}\<rparr>"
  let ?w4 = "?w3\<lparr>wo_db := d1, wo_reading := [?p], wo_sent := [(adp_attempt_id h, request)]\<rparr>"
  let ?w5 = "?w4\<lparr>wo_db := d2, wo_reading := [], wo_sent := [(adp_attempt_id h, request), (adp_attempt_id h, request)]\<rparr>"
  have "dispatch_step\<^sup>*\<^sup>* ?w0 ?w1" using authorize_run [of _ _ _ _ _ _ ?w0, OF _ no_hook_ok] run by (simp add: started_def)
  moreover have "dispatch_step ?w1 ?w2" using reading [of h ?w1 a x issued] r by (simp add: started_def contest_def)
  moreover have "dispatch_step ?w2 ?w3" using reading [of h ?w2 a x issued] r by (simp add: started_def contest_def read_attempt_def)
  moreover have "dispatch_step ?w3 ?w4"
    using sent [of ?w3 "[]" h a x issued "[?p]" id 0 "dd_budgets d" request d1] first fresh by (simp add: started_def)
  moreover have "dispatch_step ?w4 ?w5"
    using sent [of ?w4 "[]" h a x issued "[]" "append ''again ''" 0 "dd_budgets d" request d2] second charges(2) by (simp add: started_def)
  ultimately have "dispatch_step\<^sup>*\<^sup>* ?w0 ?w5" by (meson rtranclp.rtrancl_into_rtrancl)
  then have "dispatch_reachable ?w5"
    unfolding dispatch_reachable_def by (intro exI [of _ planned_store]) (auto simp: planned_store_def echo_store_def empty_db_def)
  then show ?thesis using charges(3) by (intro exI [of _ ?w5] exI [of _ "adp_attempt_id h"] exI [of _ request]) (simp add: started_def)
qed

text \<open>
  Two authorizations of one experiment whose plan is already stored, and that both read that it has no
  attempt, both give out a handle.
\<close>

definition prepared_store :: dispatch_db where
  "prepared_store = planned_store\<lparr>dd_plans := [\<lparr>epr_experiment_id = ''x1'', epr_research_run_id = ''run'', epr_hypothesis_id = ''h'',
     epr_required_capability = ''diagnostic.echo'', epr_action = ''echo'', epr_target_reference = ''t'', epr_side_effect_level = 0,
     epr_arguments = [], epr_requested_budget_id = ''b1'', epr_expected_observation = ''echo'', epr_disconfirming_observation = ''none'',
     epr_evaluation_strategy = ''diagnostic.echo.v1'', epr_created_at = 0, epr_capability_version = Some ''1'',
     epr_capability_definition_fingerprint = Some ''fp''\<rparr>]\<rparr>"

definition grants_again :: "loaded_authorization \<Rightarrow> dispatch_db \<Rightarrow> bool" where
  "grants_again l d = (case decide_loaded echo_services echo_command id (\<lambda>_. 0) no_hook None l d of
     Inr (Inr h, d1) \<Rightarrow> (case decide_loaded echo_services echo_command (append ''again '') (\<lambda>_. 0) no_hook None l d1 of
       Inr (Inr h', d2) \<Rightarrow> adp_attempt_id h' \<noteq> adp_attempt_id h \<and> map ear_experiment_id (attempts d2) = [''x1'', ''x1'']
     | _ \<Rightarrow> False)
   | _ \<Rightarrow> False)"

definition overlap_grants_twice :: "app_error + (loop_outcome + loaded_authorization) \<Rightarrow> bool" where
  "overlap_grants_twice r = (case r of Inr (Inr l) \<Rightarrow> grants_again l prepared_store | _ \<Rightarrow> False)"

lemma overlapping_authorizations_both_granted:
  "overlap_grants_twice (read_for_authorization echo_command (\<lambda>_. 0) prepared_store)"
  by code_simp

section \<open>How an answer is recorded\<close>

text \<open>A result the worker reports as failed counts as a successful execution of the experiment.\<close>

lemma failed_result_recorded_as_success:
  "wio_invocation_status call = INV_COMPLETED \<Longrightarrow> worker_status call = JStr ''EXECUTION_FAILED'' \<Longrightarrow>
     classify_invocation call = (''COMPLETED'', ''EXECUTION_SUCCEEDED'', LOOP_NO_OBSERVATION)"
  by (simp add: classify_invocation_def)

text \<open>The denial reported for an exhausted budget is replaced once the answer has been ingested.\<close>

lemma exhausted_budget_reported_as_no_observation:
  "ingest (ds_contracts s) (ds_timestamps s) (ds_actor s) clock (adp_worker_request h) call port d = (port', Inr (i, d')) \<Longrightarrow>
     ion_status i = NO_OBSERVATION \<Longrightarrow>
     ingest_answer s h call clock ''COMPLETED'' ''BUDGET_EXHAUSTED'' DISPATCH_DENIED port d =
       (port', d', Inr (recorded h call ''COMPLETED'' ''BUDGET_EXHAUSTED'' LOOP_NO_OBSERVATION (Some i)))"
  by (simp add: ingest_answer_def)

section \<open>Property\<close>

text \<open>
  C3. However the reads and the decisions of authorizations and dispatches, interrupted executions,
  answers and other transactions are interleaved, the worker is sent only requests that were authorized
  and charged: the attempt is stored and no longer AUTHORIZED; the request carries the capability, action,
  target, level and arguments of the one plan that is stored for the experiment of the attempt; the ALLOW
  decision of exactly this request is in the audit trail; and the invocation and its requests are in the
  ledger of the attempt's budget.  An attempt of which no dispatch read the state while another one was
  between its read and its commit is sent at most once; an experiment that no two authorizations read in
  this way has at most one attempt.
\<close>

theorem invocations_are_authorized_and_charged:
  assumes "dispatch_reachable w"
  shows "(\<forall>(i, request) \<in> set (wo_sent w). \<exists>a \<in> set (attempts (wo_db w)). ear_attempt_id a = i \<and> ear_state a \<noteq> ''AUTHORIZED'' \<and>
       planned (wo_db w) request a \<and> charged_for a (wo_db w) \<and> (\<exists>e \<in> set (audit_events (wo_db w)). allowed_by a e)) \<and>
     distinct (map epr_experiment_id (dd_plans (wo_db w))) \<and>
     distinct (filter (\<lambda>i. i \<notin> wo_contested_attempts w) (map fst (wo_sent w))) \<and>
     distinct (filter (\<lambda>x. x \<notin> wo_contested_experiments w) (map ear_experiment_id (attempts (wo_db w))))"
proof -
  from assms have ok: "rest_ok w" "claims_ok w" by (simp_all add: dispatch_reachable_ok)
  have "\<exists>a \<in> set (attempts (wo_db w)). ear_attempt_id a = i \<and> ear_state a \<noteq> ''AUTHORIZED'' \<and>
       planned (wo_db w) request a \<and> charged_for a (wo_db w) \<and> (\<exists>e \<in> set (audit_events (wo_db w)). allowed_by a e)"
    if "(i, request) \<in> set (wo_sent w)" for i request
  proof -
    from ok that have "sent_ok (wo_db w) (i, request)" by (auto simp: rest_ok_def)
    then obtain a where a: "a \<in> set (attempts (wo_db w))" "ear_attempt_id a = i" "planned (wo_db w) request a" "charged_for a (wo_db w)"
      and "i \<notin> awaiting (wo_db w)" by (auto simp: sent_ok_def some_attempt_def)
    then have "ear_state a \<noteq> ''AUTHORIZED''" unfolding awaiting_def by blast
    with a ok show ?thesis unfolding rest_ok_def rows_ok_def by blast
  qed
  with ok show ?thesis by (auto simp: rest_ok_def rows_ok_def claims_ok_def claimed_once_def)
qed

theorem invocations_are_authorized_and_charged_witness:
  "\<exists>w request a. dispatch_reachable w \<and> wo_sent w = [(ear_attempt_id a, request)] \<and> wo_contested_attempts w = {} \<and>
     a \<in> set (attempts (wo_db w)) \<and> planned (wo_db w) request a \<and> charged_for a (wo_db w)"
proof (rule echo_dispatched)
  fix h d request d'
  assume run: "authorize echo_services echo_command id (\<lambda>_. 0) no_hook None planned_store = Inr (Inr h, d)"
    "dispatch_transaction id (\<lambda>_. 0) h d = Inr (Inr request, d')" and "bd_consumptions (dd_budgets d) = []"
  then have fresh: "fresh_charges id d" by (simp add: fresh_charges_def charge_ids_def)
  let ?w1 = "(started planned_store)\<lparr>wo_db := d, wo_handles := [h]\<rparr>"
  let ?w2 = "(started planned_store)\<lparr>wo_db := d', wo_handles := [h], wo_sent := [(adp_attempt_id h, request)]\<rparr>"
  have "dispatch_step\<^sup>*\<^sup>* (started planned_store) ?w1"
    using authorize_run [of echo_services echo_command id "\<lambda>_. 0" no_hook None "started planned_store" h d] run(1) no_hook_ok
    by (simp add: started_def)
  moreover have "dispatch_step\<^sup>*\<^sup>* ?w1 ?w2"
    using dispatch_transaction_run [of id "\<lambda>_. 0" h ?w1 request d'] run(2) fresh by (simp add: started_def)
  ultimately have "dispatch_reachable ?w2"
    unfolding dispatch_reachable_def by (intro exI [of _ planned_store]) (auto simp: planned_store_def echo_store_def empty_db_def)
  from invocations_are_authorized_and_charged [OF this] this show ?thesis
    by (intro exI [of _ ?w2] exI [of _ request]) (force simp: started_def)
qed

end
