(* ===== verification/Assessment.thy ===== *)
theory Assessment
  imports Verification Transition_A Dispatch_Store
begin

text \<open>
  The assessment of an executed experiment: the feedback an evaluator sees (\<open>research/feedback.py\<close>), the five
  deterministic evaluators (\<open>research/evaluators/*.py\<close>) and their registry (\<open>research/assessment.py\<close>).
\<close>

section \<open>Feedback\<close>

record observed_fact =
  of_observation_id :: string
  of_observation_kind :: string
  of_payload :: payload

definition post_init_observed_fact :: "observed_fact \<Rightarrow> research_error + observed_fact" where
  "post_init_observed_fact f =
     bindE (keep_text (of_observation_id f) ''observation_id'') (\<lambda>_.
     bindE (keep_text (of_observation_kind f) ''observation_kind'') (\<lambda>_. Inr f))"

record experiment_feedback =
  ef_hypothesis_id :: string
  ef_experiment_id :: string
  ef_research_run_id :: string
  ef_expected_observation :: string
  ef_disconfirming_observation :: string
  ef_evaluation_strategy :: string
  ef_execution_outcome :: string
  ef_observations :: "observed_fact list"
  ef_submitted_value :: "string option"
  ef_invocation_status :: "string option"
  ef_experiment_execution_state :: "string option"
  ef_attempt_state :: "string option"

definition post_init_experiment_feedback :: "experiment_feedback \<Rightarrow> research_error + experiment_feedback" where
  "post_init_experiment_feedback f =
     bindE (keep_text (ef_hypothesis_id f) ''hypothesis_id'') (\<lambda>_.
     bindE (keep_text (ef_experiment_id f) ''experiment_id'') (\<lambda>_.
     bindE (keep_text (ef_research_run_id f) ''research_run_id'') (\<lambda>_.
     bindE (keep_text (ef_expected_observation f) ''expected_observation'') (\<lambda>_.
     bindE (keep_text (ef_disconfirming_observation f) ''disconfirming_observation'') (\<lambda>_.
     bindE (keep_text (ef_evaluation_strategy f) ''evaluation_strategy'') (\<lambda>_.
     bindE (keep_text (ef_execution_outcome f) ''execution_outcome'') (\<lambda>_. Inr f)))))))"

definition ef_observation_ids :: "experiment_feedback \<Rightarrow> string list" where
  "ef_observation_ids f = map of_observation_id (ef_observations f)"

section \<open>What the evaluators share\<close>

datatype evaluator = EchoEvaluator | DifferentialEvaluator | TransitionEvaluator | TransactionEvaluator | AuthenticationEvaluator

fun evaluator_strategy :: "evaluator \<Rightarrow> string" where
  "evaluator_strategy EchoEvaluator = DIAGNOSTIC_ECHO_EVALUATION_STRATEGY"
| "evaluator_strategy DifferentialEvaluator = HTTP_AUTHORIZATION_DIFFERENTIAL_EVALUATION_STRATEGY"
| "evaluator_strategy TransitionEvaluator = HTTP_STATE_TRANSITION_EVALUATION_STRATEGY"
| "evaluator_strategy TransactionEvaluator = ''http.transaction.v1''"
| "evaluator_strategy AuthenticationEvaluator = ''http.authentication.v1''"

fun evaluator_capability :: "evaluator \<Rightarrow> string" where
  "evaluator_capability EchoEvaluator = ''diagnostic.echo''"
| "evaluator_capability DifferentialEvaluator = ''http.authorization.differential''"
| "evaluator_capability TransitionEvaluator = ''http.state_transition''"
| "evaluator_capability TransactionEvaluator = HTTP_TRANSACTION_CAPABILITY"
| "evaluator_capability AuthenticationEvaluator = HTTP_AUTHENTICATION_CAPABILITY"

fun evaluator_observation_kind :: "evaluator \<Rightarrow> string" where
  "evaluator_observation_kind EchoEvaluator = ''diagnostic.echo''"
| "evaluator_observation_kind DifferentialEvaluator = ''HTTP_AUTHORIZATION_DIFFERENTIAL''"
| "evaluator_observation_kind TransitionEvaluator = ''HTTP_STATE_TRANSITION_AUTHORIZATION''"
| "evaluator_observation_kind TransactionEvaluator = ''HTTP_TRANSACTION''"
| "evaluator_observation_kind AuthenticationEvaluator = ''HTTP_AUTHENTICATION''"

definition UNUSABLE_INVOCATIONS :: "string list" where
  "UNUSABLE_INVOCATIONS =
     [''TIMED_OUT'', ''START_FAILED'', ''PROCESS_FAILED'', ''PROTOCOL_ERROR'', ''CONTRACT_INVALID'', ''CANCELLED'']"

text \<open>A value that may be absent, in a set of names.\<close>

definition given_in :: "string option \<Rightarrow> string list \<Rightarrow> bool" where
  "given_in v allowed = (case v of None \<Rightarrow> False | Some s \<Rightarrow> s \<in> set allowed)"

definition unusable :: "experiment_feedback \<Rightarrow> bool" where
  "unusable f = (ef_execution_outcome f \<in> set UNUSABLE_EXECUTION_OUTCOMES \<or> given_in (ef_attempt_state f) UNUSABLE_ATTEMPT_STATES
     \<or> given_in (ef_experiment_execution_state f) UNUSABLE_EXPERIMENT_STATES)"

text \<open>The HTTP transaction and authentication evaluators do not look at the invocation status.\<close>

fun evaluator_unusable :: "evaluator \<Rightarrow> experiment_feedback \<Rightarrow> bool" where
  "evaluator_unusable TransactionEvaluator f = unusable f"
| "evaluator_unusable AuthenticationEvaluator f = unusable f"
| "evaluator_unusable _ f = (unusable f \<or> given_in (ef_invocation_status f) UNUSABLE_INVOCATIONS)"

definition check_evaluation :: "evaluator \<Rightarrow> experiment_plan \<Rightarrow> experiment_feedback \<Rightarrow> research_error + unit" where
  "check_evaluation e plan f =
     (if ep_evaluation_strategy plan \<noteq> evaluator_strategy e
      then Inl (ResearchInputError ''plan evaluation_strategy does not match evaluator'')
      else if ep_required_capability plan \<noteq> evaluator_capability e
      then Inl (ResearchInputError ''evaluator cannot assess other capabilities'')
      else if ef_evaluation_strategy f \<noteq> evaluator_strategy e
      then Inl (ResearchInputError ''feedback evaluation_strategy does not match evaluator'')
      else if ep_hypothesis_id plan \<noteq> ef_hypothesis_id f
      then Inl (ResearchInputError ''plan and feedback hypothesis_id mismatch'')
      else Inr ())"

definition rationale_context :: "experiment_feedback \<Rightarrow> json" where
  "rationale_context f = JObj [(''hypothesis_id'', JStr (ef_hypothesis_id f)), (''experiment_id'', JStr (ef_experiment_id f)),
     (''research_run_id'', JStr (ef_research_run_id f))]"

fun first_rationale :: "evaluator \<Rightarrow> experiment_plan \<Rightarrow> experiment_feedback \<Rightarrow> payload" where
  "first_rationale EchoEvaluator plan f =
     [(''reason_code'', JStr []), (''expected_observation'', JStr (ep_expected_observation plan)),
      (''disconfirming_observation'', JStr (ep_disconfirming_observation plan)),
      (''submitted_value'', json_opt_str (ef_submitted_value f)), (''observed_echoed'', JNull),
      (''execution_outcome'', JStr (ef_execution_outcome f)), (''context'', rationale_context f)]"
| "first_rationale _ plan f =
     [(''reason_code'', JStr []), (''expected_observation'', JStr (ep_expected_observation plan)),
      (''disconfirming_observation'', JStr (ep_disconfirming_observation plan)),
      (''execution_outcome'', JStr (ef_execution_outcome f)), (''facts'', JObj []), (''context'', rationale_context f)]"

type_synonym verdict = "assessment_outcome \<times> payload"

definition judged :: "assessment_outcome \<Rightarrow> string \<Rightarrow> payload \<Rightarrow> verdict" where
  "judged outcome reason rationale = (outcome, dict_set ''reason_code'' (JStr reason) rationale)"

section \<open>The verdicts on an observation\<close>

definition echo_verdict :: "experiment_feedback \<Rightarrow> payload \<Rightarrow> payload \<Rightarrow> verdict" where
  "echo_verdict f observed rationale = (case ef_submitted_value f of
     None \<Rightarrow> judged AO_NEEDS_MORE_CONTEXT ''MISSING_SUBMITTED_VALUE'' rationale
   | Some submitted \<Rightarrow>
       let echoed = jget observed ''echoed''; rationale = dict_set ''observed_echoed'' echoed rationale in
       (case echoed of
          JStr s \<Rightarrow> if s = submitted then judged AO_CONSISTENT_WITH_PREDICTION ''ECHO_MATCHED'' rationale
                    else judged AO_CONTRADICTS_PREDICTION ''ECHO_MISMATCHED'' rationale
        | _ \<Rightarrow> judged AO_NEEDS_MORE_CONTEXT ''MALFORMED_ECHO_PAYLOAD'' rationale))"

definition transaction_verdict :: "payload \<Rightarrow> payload \<Rightarrow> verdict" where
  "transaction_verdict observed rationale = judged AO_CONSISTENT_WITH_PREDICTION ''HTTP_RESPONSE_OBSERVED''
     (dict_set ''facts'' (JObj (map (\<lambda>k. (k, jget observed k)) [''status_class'', ''status_code'', ''method'', ''path''])) rationale)"

definition authentication_verdict :: "payload \<Rightarrow> payload \<Rightarrow> verdict" where
  "authentication_verdict observed rationale = judged AO_CONSISTENT_WITH_PREDICTION ''AUTHENTICATION_RESPONSE_OBSERVED''
     (dict_set ''facts'' (JObj (map (\<lambda>k. (k, jget observed k)) [''status_class'', ''status_code'', ''session_established''])) rationale)"

text \<open>\<open>str(payload.get(k) or arguments.get(k') or "")\<close>, and a list or else the empty one.\<close>

definition text_of :: "payload \<Rightarrow> string \<Rightarrow> payload \<Rightarrow> string \<Rightarrow> string" where
  "text_of observed k arguments k' = py_str (or_json (or_json (jget observed k) (jget arguments k')) (JStr []))"

definition list_of :: "json \<Rightarrow> json list" where
  "list_of j = (case j of JArr xs \<Rightarrow> xs | _ \<Rightarrow> [])"

text \<open>A fact of the rationale, the names of those that do not hold, and whether all of a list do.\<close>

definition holds :: "payload \<Rightarrow> string \<Rightarrow> bool" where
  "holds facts name = truthy (jget facts name)"

definition missing_facts :: "payload \<Rightarrow> json" where
  "missing_facts facts = JArr (map (JStr \<circ> fst) (filter (\<lambda>(k, v). take 5 k = ''fact_'' \<and> \<not> truthy v) facts))"

definition all_facts :: "payload \<Rightarrow> string list \<Rightarrow> bool" where
  "all_facts facts required = list_all (holds facts) required"

definition UNAUTHORIZED_DIFFERENTIAL_FACTS :: "string list" where
  "UNAUTHORIZED_DIFFERENTIAL_FACTS = [''fact_owner_can_read_own'', ''fact_actor_can_read_cross_object'',
     ''fact_returned_object_is_cross_owner'', ''fact_unauthenticated_denied'', ''fact_secure_control_denied'',
     ''fact_shared_origin'', ''fact_not_explicitly_public'', ''fact_not_explicitly_delegated'', ''fact_not_shared_resource'']"

definition owner_proven :: "json \<Rightarrow> string \<Rightarrow> bool" where
  "owner_proven cross_owner cross_object = str_is cross_owner (\<lambda>s. \<not> blank s \<and> s = cross_object)"

text \<open>The dictionary of facts, given whether the unauthenticated control was denied.\<close>

definition differential_fact_list :: "payload \<Rightarrow> payload \<Rightarrow> bool \<Rightarrow> payload" where
  "differential_fact_list observed arguments unauth_denied =
     (let actor = text_of observed ''actor'' arguments ''actor'';
          own_object = text_of observed ''own_object'' arguments ''own_object'';
          cross_object = text_of observed ''cross_object'' arguments ''cross_object'';
          origin = text_of observed ''authorized_origin'' arguments ''authorized_origin'';
          owner_status = jget observed ''owner_request_status'';
          owner_owner = jget observed ''owner_request_object_owner'';
          cross_status = jget observed ''cross_object_request_status'';
          cross_owner = jget observed ''cross_object_request_object_owner'';
          secure_status = jget observed ''secure_control_status'';
          unauth_status = jget observed ''unauthenticated_control_status'';
          cross_visibility = jget observed ''cross_object_request_visibility'';
          cross_kind = jget observed ''cross_object_request_resource_kind'';
          readers = list_of (jget observed ''cross_object_request_authorized_readers'');
          owner_ok = (owner_status = JInt 200 \<and> owner_owner = JStr own_object \<and> own_object = actor);
          proven = owner_proven cross_owner cross_object;
          explicitly_public = str_is cross_visibility (\<lambda>s. py_upper (py_strip s) = ''PUBLIC'');
          explicitly_shared = str_is cross_kind (\<lambda>s. py_upper (py_strip s) = ''SHARED'')
      in [(''actor'', JStr actor), (''own_object'', JStr own_object), (''cross_object'', JStr cross_object),
           (''authorized_origin'', JStr origin), (''owner_request_status'', owner_status),
           (''owner_request_object_owner'', owner_owner), (''cross_object_request_status'', cross_status),
           (''cross_object_request_object_owner'', cross_owner), (''cross_object_request_visibility'', cross_visibility),
           (''cross_object_request_authorized_readers'', JArr readers), (''cross_object_request_resource_kind'', cross_kind),
           (''secure_control_status'', secure_status), (''unauthenticated_control_status'', unauth_status),
           (''fact_owner_can_read_own'', JBool owner_ok),
           (''fact_actor_can_read_cross_object'', JBool (cross_status = JInt 200)),
           (''fact_returned_object_is_cross_owner'', JBool (cross_status = JInt 200 \<and> proven \<and> cross_object \<noteq> actor)),
           (''fact_unauthenticated_denied'', JBool unauth_denied),
           (''fact_secure_control_denied'', JBool (secure_status = JInt 403)),
           (''fact_shared_origin'', JBool (origin \<noteq> [] \<and> jget observed ''authorized_origin'' = JStr origin)),
           (''fact_cross_status_only'', JBool (cross_status = JInt 200 \<and> \<not> proven)),
           (''fact_not_explicitly_public'', JBool (\<not> explicitly_public)),
           (''fact_not_explicitly_delegated'', JBool (JStr actor \<notin> set readers)),
           (''fact_not_shared_resource'', JBool (\<not> explicitly_shared))])"

definition differential_facts :: "payload \<Rightarrow> payload \<Rightarrow> research_error + payload" where
  "differential_facts observed arguments =
     bindE (in_int_set (jget observed ''unauthenticated_control_status'') [401, 403]) (\<lambda>unauth_denied.
     Inr (differential_fact_list observed arguments unauth_denied))"

definition differential_verdict :: "payload \<Rightarrow> payload \<Rightarrow> verdict" where
  "differential_verdict facts rationale =
     (let rationale = dict_set ''facts'' (JObj facts) rationale;
          read_across = (holds facts ''fact_actor_can_read_cross_object'' \<and> holds facts ''fact_returned_object_is_cross_owner'') in
      if holds facts ''fact_cross_status_only''
      then judged AO_NEEDS_MORE_CONTEXT ''STATUS_ALONE_IS_NOT_OBJECT_ACCESS_PROOF'' rationale
      else if read_across \<and> \<not> holds facts ''fact_not_explicitly_public''
      then judged AO_CONTRADICTS_PREDICTION ''LEGITIMATE_PUBLIC_ACCESS'' rationale
      else if read_across \<and> \<not> holds facts ''fact_not_explicitly_delegated''
      then judged AO_CONTRADICTS_PREDICTION ''LEGITIMATE_DELEGATED_ACCESS'' rationale
      else if read_across \<and> \<not> holds facts ''fact_not_shared_resource''
      then judged AO_CONTRADICTS_PREDICTION ''LEGITIMATE_SHARED_ACCESS'' rationale
      else if all_facts facts UNAUTHORIZED_DIFFERENTIAL_FACTS
      then judged AO_CONSISTENT_WITH_PREDICTION ''AUTHORIZATION_DIFFERENTIAL_ESTABLISHED'' rationale
      else if holds facts ''fact_secure_control_denied'' \<and> \<not> holds facts ''fact_actor_can_read_cross_object''
      then judged AO_CONTRADICTS_PREDICTION ''OBJECT_ACCESS_CONTROL_HELD'' (dict_set ''missing_facts'' (missing_facts facts) rationale)
      else judged AO_INCONCLUSIVE ''DIFFERENTIAL_INCOMPLETE'' (dict_set ''missing_facts'' (missing_facts facts) rationale))"

section \<open>State transitions\<close>

definition UNAUTHORIZED_TRANSITION_FACTS :: "string list" where
  "UNAUTHORIZED_TRANSITION_FACTS = [''fact_actor_identity'', ''fact_resource_identity'', ''fact_pre_state'',
     ''fact_requested_transition'', ''fact_post_state'', ''fact_transition_occurred'', ''fact_became_approved'',
     ''fact_actor_is_requester'', ''fact_not_delegated'', ''fact_control_denied'', ''fact_violates_role_or_sequence'']"

text \<open>An approval requested by someone who may not give it, from the state given.\<close>

definition bypass_from :: "string \<Rightarrow> string \<Rightarrow> string \<Rightarrow> bool \<Rightarrow> json \<Rightarrow> json \<Rightarrow> bool \<Rightarrow> bool" where
  "bypass_from from_state transition actor_role delegated pre_state post_state changed =
     (transition = ''approve'' \<and> actor_role = ''requester'' \<and> \<not> delegated \<and> pre_state = JStr from_state
      \<and> post_state = JStr ''APPROVED'' \<and> changed)"

definition transition_fact_list :: "payload \<Rightarrow> payload \<Rightarrow> bool \<Rightarrow> payload" where
  "transition_fact_list observed arguments control_denied =
     (let actor = text_of observed ''actor'' arguments ''actor'';
          resource_id = text_of observed ''resource_id'' arguments ''resource_id'';
          origin = text_of observed ''authorized_origin'' arguments ''authorized_origin'';
          transition = text_of observed ''requested_transition'' arguments ''transition'';
          actor_role = text_of observed ''actor_role'' [] [];
          pre_state = jget observed ''pre_state''; post_state = jget observed ''post_state'';
          response_status = jget observed ''response_status''; control_status = jget observed ''control_status'';
          approved_by = jget observed ''approved_by'';
          readers = list_of (jget observed ''delegated_reviewers'');
          approve_from = list_of (jget observed ''approve_from_states'');
          requires_role = text_of observed ''approve_requires_role'' [] [];
          changed = truthy (jget observed ''state_changed'');
          delegated = (JStr actor \<in> set readers);
          became_approved = (post_state = JStr ''APPROVED'' \<and> approved_by = JStr actor);
          role_bypass = bypass_from ''UNDER_REVIEW'' transition actor_role delegated pre_state post_state changed;
          sequence_skip = bypass_from ''DRAFT'' transition actor_role delegated pre_state post_state changed;
          status_only = (response_status = JInt 200 \<and> \<not> is_str post_state);
          unchanged_success = (response_status = JInt 200 \<and> \<not> changed);
          idempotent = (unchanged_success \<and> pre_state = JStr ''APPROVED'' \<and> post_state = JStr ''APPROVED'');
          stale = (response_status = JInt 409 \<and> \<not> changed);
          invariant_kind = (if sequence_skip then ''SEQUENCE_PRECONDITION'' else if role_bypass then ''ROLE_BOUNDARY''
            else if changed then ''STATE_TRANSITION'' else [])
      in [(''actor'', JStr actor), (''actor_role'', JStr actor_role), (''resource_id'', JStr resource_id),
           (''authorized_origin'', JStr origin), (''requested_transition'', JStr transition), (''pre_state'', pre_state),
           (''post_state'', post_state), (''response_status'', response_status), (''control_status'', control_status),
           (''approved_by'', approved_by), (''delegated_reviewers'', JArr readers), (''approve_from_states'', JArr approve_from),
           (''approve_requires_role'', JStr requires_role), (''invariant_kind'', JStr invariant_kind),
           (''fact_actor_identity'', JBool (actor \<noteq> [])), (''fact_resource_identity'', JBool (resource_id \<noteq> [])),
           (''fact_pre_state'', JBool (str_is pre_state (\<lambda>s. s \<noteq> []))),
           (''fact_requested_transition'', JBool (transition = ''approve'')),
           (''fact_post_state'', JBool (str_is post_state (\<lambda>s. s \<noteq> []))),
           (''fact_transition_occurred'', JBool changed), (''fact_became_approved'', JBool became_approved),
           (''fact_actor_is_requester'', JBool (actor_role = ''requester'')), (''fact_not_delegated'', JBool (\<not> delegated)),
           (''fact_delegated'', JBool (delegated \<and> became_approved)),
           (''fact_legitimate_reviewer'', JBool (changed \<and> post_state = JStr ''APPROVED'' \<and> actor_role \<in> {''reviewer'', ''admin''})),
           (''fact_control_denied'', JBool control_denied),
           (''fact_control_held_unchanged'', JBool (control_denied \<and> \<not> changed)),
           (''fact_violates_role_or_sequence'', JBool (role_bypass \<or> sequence_skip)),
           (''fact_role_bypass'', JBool role_bypass), (''fact_sequence_skip'', JBool sequence_skip),
           (''fact_status_only_or_unchanged'', JBool ((status_only \<or> unchanged_success \<and> \<not> idempotent) \<and> \<not> stale
              \<and> \<not> (control_denied \<and> \<not> changed))),
           (''fact_idempotent_repeat'', JBool idempotent), (''fact_stale_or_conflict'', JBool stale),
           (''fact_shared_origin'', JBool (origin \<noteq> [] \<and> jget observed ''authorized_origin'' = JStr origin)),
           (''transition_ok'', JBool (jget observed ''transition_ok'' = JBool True))])"

definition transition_facts :: "payload \<Rightarrow> payload \<Rightarrow> research_error + payload" where
  "transition_facts observed arguments =
     bindE (in_int_set (jget observed ''control_status'') [401, 403, 409]) (\<lambda>control_denied.
     Inr (transition_fact_list observed arguments control_denied))"

definition with_invariant :: "json \<Rightarrow> payload \<Rightarrow> payload" where
  "with_invariant kind rationale = dict_set ''invariant_kind'' kind rationale"

definition transition_verdict :: "payload \<Rightarrow> payload \<Rightarrow> verdict" where
  "transition_verdict facts rationale =
     (let rationale = dict_set ''facts'' (JObj facts) rationale; missing = dict_set ''missing_facts'' (missing_facts facts) in
      if holds facts ''fact_status_only_or_unchanged''
      then judged AO_NEEDS_MORE_CONTEXT ''STATUS_OR_UNCHANGED_STATE_IS_NOT_PROOF'' rationale
      else if holds facts ''fact_stale_or_conflict'' then judged AO_NEEDS_MORE_CONTEXT ''STALE_OR_CONFLICT'' rationale
      else if holds facts ''fact_delegated''
      then judged AO_CONTRADICTS_PREDICTION ''LEGITIMATE_DELEGATED_REVIEWER'' (with_invariant (JStr ''ROLE_BOUNDARY'') rationale)
      else if holds facts ''fact_legitimate_reviewer''
      then judged AO_CONTRADICTS_PREDICTION ''LEGITIMATE_REVIEWER_APPROVAL'' (with_invariant (JStr ''ROLE_BOUNDARY'') rationale)
      else if holds facts ''fact_idempotent_repeat''
      then judged AO_CONTRADICTS_PREDICTION ''IDEMPOTENT_NO_NEW_TRANSITION'' rationale
      else if all_facts facts UNAUTHORIZED_TRANSITION_FACTS
      then judged AO_CONSISTENT_WITH_PREDICTION ''UNAUTHORIZED_STATE_TRANSITION_ESTABLISHED''
        (with_invariant (jget facts ''invariant_kind'') rationale)
      else if holds facts ''fact_control_held_unchanged''
      then judged AO_CONTRADICTS_PREDICTION ''WORKFLOW_CONTROL_HELD'' (missing rationale)
      else judged AO_INCONCLUSIVE ''STATE_TRANSITION_INCOMPLETE'' (missing rationale))"

section \<open>The evaluation\<close>

fun verdict_on :: "evaluator \<Rightarrow> experiment_plan \<Rightarrow> experiment_feedback \<Rightarrow> payload \<Rightarrow> payload \<Rightarrow> research_error + verdict" where
  "verdict_on EchoEvaluator plan f observed rationale = Inr (echo_verdict f observed rationale)"
| "verdict_on DifferentialEvaluator plan f observed rationale =
     bindE (differential_facts observed (ep_arguments plan)) (\<lambda>facts. Inr (differential_verdict facts rationale))"
| "verdict_on TransitionEvaluator plan f observed rationale =
     bindE (transition_facts observed (ep_arguments plan)) (\<lambda>facts. Inr (transition_verdict facts rationale))"
| "verdict_on TransactionEvaluator plan f observed rationale = Inr (transaction_verdict observed rationale)"
| "verdict_on AuthenticationEvaluator plan f observed rationale = Inr (authentication_verdict observed rationale)"

definition target_observations :: "evaluator \<Rightarrow> experiment_feedback \<Rightarrow> observed_fact list" where
  "target_observations e f = filter (\<lambda>x. of_observation_kind x = evaluator_observation_kind e) (ef_observations f)"

definition verdict_of :: "evaluator \<Rightarrow> experiment_plan \<Rightarrow> experiment_feedback \<Rightarrow> research_error + verdict" where
  "verdict_of e plan f =
     (let rationale = first_rationale e plan f in
      if evaluator_unusable e f then Inr (judged AO_EXECUTION_UNUSABLE ''RUNTIME_UNUSABLE'' rationale)
      else (case target_observations e f of
        [] \<Rightarrow> Inr (judged AO_INCONCLUSIVE ''NO_TARGET_OBSERVATION'' rationale)
      | x # _ \<Rightarrow> verdict_on e plan f (of_payload x) rationale))"

definition assessment_of :: "evaluator \<Rightarrow> experiment_plan \<Rightarrow> experiment_feedback \<Rightarrow> verdict \<Rightarrow> research_error + hypothesis_assessment" where
  "assessment_of e plan f v = post_init_hypothesis_assessment
     \<lparr>ha_outcome = fst v, ha_evaluator_kind = EK_DETERMINISTIC, ha_evaluator_version = evaluator_strategy e,
      ha_rationale = snd v, ha_hypothesis_id = ef_hypothesis_id f, ha_experiment_id = ef_experiment_id f,
      ha_research_run_id = ef_research_run_id f, ha_observation_ids = ef_observation_ids f,
      ha_evaluation_strategy = ep_evaluation_strategy plan\<rparr>"

definition assess :: "evaluator \<Rightarrow> experiment_plan \<Rightarrow> experiment_feedback \<Rightarrow> research_error + hypothesis_assessment" where
  "assess e plan f =
     bindE (check_evaluation e plan f) (\<lambda>_. bindE (verdict_of e plan f) (assessment_of e plan f))"

definition registered_evaluators :: "evaluator list" where
  "registered_evaluators =
     [EchoEvaluator, DifferentialEvaluator, TransitionEvaluator, TransactionEvaluator, AuthenticationEvaluator]"

definition evaluator_for :: "string \<Rightarrow> research_error + evaluator" where
  "evaluator_for strategy = (case find (\<lambda>e. evaluator_strategy e = strategy) registered_evaluators of
     None \<Rightarrow> Inl (ResearchInputError ''no trusted evaluator registered for strategy'') | Some e \<Rightarrow> Inr e)"

text \<open>A browser page has a strategy of its own, and no evaluator is registered for it.\<close>

lemma browser_pages_are_never_assessed: "evaluator_for ''browser.page.v1'' = Inl (ResearchInputError ''no trusted evaluator registered for strategy'')"
  by code_simp

lemma evaluator_for_Inr: "evaluator_for strategy = Inr e \<Longrightarrow> evaluator_strategy e = strategy"
  by (auto simp: evaluator_for_def find_Some_iff split: option.splits)

section \<open>What an assessment says\<close>

text \<open>What each strategy has to see before it confirms the prediction, on the observation itself.\<close>

definition differential_seen :: "payload \<Rightarrow> payload \<Rightarrow> bool" where
  "differential_seen observed arguments \<longleftrightarrow>
     (let actor = text_of observed ''actor'' arguments ''actor'';
          cross_object = text_of observed ''cross_object'' arguments ''cross_object'';
          origin = text_of observed ''authorized_origin'' arguments ''authorized_origin'' in
      jget observed ''owner_request_status'' = JInt 200 \<and> jget observed ''owner_request_object_owner'' = JStr actor \<and>
      text_of observed ''own_object'' arguments ''own_object'' = actor \<and>
      jget observed ''cross_object_request_status'' = JInt 200 \<and>
      jget observed ''cross_object_request_object_owner'' = JStr cross_object \<and> \<not> blank cross_object \<and> cross_object \<noteq> actor \<and>
      jget observed ''unauthenticated_control_status'' \<in> {JInt 401, JInt 403} \<and>
      jget observed ''secure_control_status'' = JInt 403 \<and>
      origin \<noteq> [] \<and> jget observed ''authorized_origin'' = JStr origin \<and>
      \<not> str_is (jget observed ''cross_object_request_visibility'') (\<lambda>s. py_upper (py_strip s) = ''PUBLIC'') \<and>
      JStr actor \<notin> set (list_of (jget observed ''cross_object_request_authorized_readers'')) \<and>
      \<not> str_is (jget observed ''cross_object_request_resource_kind'') (\<lambda>s. py_upper (py_strip s) = ''SHARED''))"

definition transition_seen :: "payload \<Rightarrow> payload \<Rightarrow> bool" where
  "transition_seen observed arguments \<longleftrightarrow>
     (let actor = text_of observed ''actor'' arguments ''actor'' in
      actor \<noteq> [] \<and> text_of observed ''resource_id'' arguments ''resource_id'' \<noteq> [] \<and>
      text_of observed ''requested_transition'' arguments ''transition'' = ''approve'' \<and>
      text_of observed ''actor_role'' [] [] = ''requester'' \<and>
      jget observed ''pre_state'' \<in> {JStr ''DRAFT'', JStr ''UNDER_REVIEW''} \<and> jget observed ''post_state'' = JStr ''APPROVED'' \<and>
      truthy (jget observed ''state_changed'') \<and> jget observed ''approved_by'' = JStr actor \<and>
      JStr actor \<notin> set (list_of (jget observed ''delegated_reviewers'')) \<and>
      jget observed ''control_status'' \<in> {JInt 401, JInt 403, JInt 409})"

fun prediction_seen :: "evaluator \<Rightarrow> experiment_plan \<Rightarrow> experiment_feedback \<Rightarrow> payload \<Rightarrow> bool" where
  "prediction_seen EchoEvaluator plan f observed \<longleftrightarrow> (\<exists>s. ef_submitted_value f = Some s \<and> jget observed ''echoed'' = JStr s)"
| "prediction_seen DifferentialEvaluator plan f observed \<longleftrightarrow> differential_seen observed (ep_arguments plan)"
| "prediction_seen TransitionEvaluator plan f observed \<longleftrightarrow> transition_seen observed (ep_arguments plan)"
| "prediction_seen _ plan f observed \<longleftrightarrow> True"

lemma fst_judged [simp]: "fst (judged outcome reason rationale) = outcome"
  by (simp add: judged_def)

lemma jget_Cons: "jget ((k', v) # kvs) k = (if k' = k then v else jget kvs k)"
  by (simp add: jget_def)

lemma in_int_set_Inr: "in_int_set v ns = Inr b \<Longrightarrow> b \<longleftrightarrow> v \<in> JInt ` set ns"
  by (auto simp: in_int_set_def split: json.splits)

lemma str_is_iff: "str_is j P \<longleftrightarrow> (\<exists>s. j = JStr s \<and> P s)"
  by (auto simp: str_is_def split: json.splits)

lemmas differential_fact_defs = holds_def differential_fact_list_def Let_def jget_Cons

lemma differential_fact_list_holds:
  "all_facts (differential_fact_list observed arguments denied) UNAUTHORIZED_DIFFERENTIAL_FACTS \<longleftrightarrow>
     (let actor = text_of observed ''actor'' arguments ''actor''; own_object = text_of observed ''own_object'' arguments ''own_object'';
          cross_object = text_of observed ''cross_object'' arguments ''cross_object'';
          origin = text_of observed ''authorized_origin'' arguments ''authorized_origin'' in
      (jget observed ''owner_request_status'' = JInt 200 \<and> jget observed ''owner_request_object_owner'' = JStr own_object \<and> own_object = actor) \<and>
      jget observed ''cross_object_request_status'' = JInt 200 \<and>
      (owner_proven (jget observed ''cross_object_request_object_owner'') cross_object \<and> cross_object \<noteq> actor) \<and> denied \<and>
      jget observed ''secure_control_status'' = JInt 403 \<and> (origin \<noteq> [] \<and> jget observed ''authorized_origin'' = JStr origin) \<and>
      \<not> str_is (jget observed ''cross_object_request_visibility'') (\<lambda>s. py_upper (py_strip s) = ''PUBLIC'') \<and>
      JStr actor \<notin> set (list_of (jget observed ''cross_object_request_authorized_readers'')) \<and>
      \<not> str_is (jget observed ''cross_object_request_resource_kind'') (\<lambda>s. py_upper (py_strip s) = ''SHARED''))"
  unfolding all_facts_def UNAUTHORIZED_DIFFERENTIAL_FACTS_def list.pred_inject differential_fact_defs by (simp cong: conj_cong)

lemma status_only_holds:
  "holds (differential_fact_list observed arguments denied) ''fact_cross_status_only'' \<longleftrightarrow>
     jget observed ''cross_object_request_status'' = JInt 200 \<and>
     \<not> owner_proven (jget observed ''cross_object_request_object_owner'') (text_of observed ''cross_object'' arguments ''cross_object'')"
  unfolding differential_fact_defs by simp

lemma differential_verdict_confirms:
  assumes "differential_facts observed arguments = Inr facts"
  shows "fst (differential_verdict facts rationale) = AO_CONSISTENT_WITH_PREDICTION \<longleftrightarrow> differential_seen observed arguments"
proof -
  from assms obtain denied where facts: "facts = differential_fact_list observed arguments denied"
    and denied: "denied \<longleftrightarrow> jget observed ''unauthenticated_control_status'' \<in> {JInt 401, JInt 403}"
    using in_int_set_Inr by (fastforce simp: differential_facts_def bindE_Inr_iff)
  have "all_facts facts UNAUTHORIZED_DIFFERENTIAL_FACTS \<Longrightarrow> \<not> holds facts ''fact_cross_status_only''"
    unfolding facts differential_fact_list_holds status_only_holds Let_def by blast
  moreover have "all_facts facts UNAUTHORIZED_DIFFERENTIAL_FACTS \<Longrightarrow> holds facts ''fact_not_explicitly_public'' \<and>
      holds facts ''fact_not_explicitly_delegated'' \<and> holds facts ''fact_not_shared_resource''"
    by (simp add: all_facts_def UNAUTHORIZED_DIFFERENTIAL_FACTS_def)
  ultimately have "fst (differential_verdict facts rationale) = AO_CONSISTENT_WITH_PREDICTION \<longleftrightarrow>
      all_facts facts UNAUTHORIZED_DIFFERENTIAL_FACTS"
    by (auto simp: differential_verdict_def Let_def)
  also have "\<dots> \<longleftrightarrow> differential_seen observed arguments"
    unfolding facts differential_fact_list_holds differential_seen_def denied owner_proven_def str_is_iff Let_def by auto
  finally show ?thesis .
qed

lemmas transition_fact_defs = holds_def transition_fact_list_def Let_def jget_Cons

lemma transition_fact_list_holds:
  "all_facts (transition_fact_list observed arguments denied) UNAUTHORIZED_TRANSITION_FACTS \<longleftrightarrow>
     (let actor = text_of observed ''actor'' arguments ''actor''; role = text_of observed ''actor_role'' [] [];
          transition = text_of observed ''requested_transition'' arguments ''transition'';
          pre = jget observed ''pre_state''; post = jget observed ''post_state''; changed = truthy (jget observed ''state_changed'');
          delegated = (JStr actor \<in> set (list_of (jget observed ''delegated_reviewers''))) in
      actor \<noteq> [] \<and> text_of observed ''resource_id'' arguments ''resource_id'' \<noteq> [] \<and> str_is pre (\<lambda>s. s \<noteq> []) \<and>
      transition = ''approve'' \<and> str_is post (\<lambda>s. s \<noteq> []) \<and> changed \<and>
      (post = JStr ''APPROVED'' \<and> jget observed ''approved_by'' = JStr actor) \<and> role = ''requester'' \<and> \<not> delegated \<and> denied \<and>
      (bypass_from ''UNDER_REVIEW'' transition role delegated pre post changed \<or>
       bypass_from ''DRAFT'' transition role delegated pre post changed))"
  unfolding all_facts_def UNAUTHORIZED_TRANSITION_FACTS_def list.pred_inject transition_fact_defs by (simp cong: conj_cong)

lemma status_only_transition:
  "holds (transition_fact_list observed arguments denied) ''fact_status_only_or_unchanged'' \<Longrightarrow>
     \<not> truthy (jget observed ''state_changed'') \<or> \<not> is_str (jget observed ''post_state'')"
  unfolding transition_fact_defs by (simp; argo)

lemma stale_transition:
  "holds (transition_fact_list observed arguments denied) ''fact_stale_or_conflict'' \<Longrightarrow> \<not> truthy (jget observed ''state_changed'')"
  unfolding transition_fact_defs by simp

lemma delegated_transition:
  "holds (transition_fact_list observed arguments denied) ''fact_delegated'' \<Longrightarrow>
     JStr (text_of observed ''actor'' arguments ''actor'') \<in> set (list_of (jget observed ''delegated_reviewers''))"
  unfolding transition_fact_defs by simp

lemma reviewer_transition:
  "holds (transition_fact_list observed arguments denied) ''fact_legitimate_reviewer'' \<Longrightarrow>
     text_of observed ''actor_role'' [] [] \<noteq> ''requester''"
  unfolding transition_fact_defs by auto

lemma repeated_transition:
  "holds (transition_fact_list observed arguments denied) ''fact_idempotent_repeat'' \<Longrightarrow> \<not> truthy (jget observed ''state_changed'')"
  unfolding transition_fact_defs by simp

lemmas transition_fact_list_others =
  status_only_transition stale_transition delegated_transition reviewer_transition repeated_transition

lemma is_str_approved: "is_str (JStr ''APPROVED'')"
  by (simp add: is_str_def)

lemma transition_verdict_confirms:
  assumes "transition_facts observed arguments = Inr facts"
  shows "fst (transition_verdict facts rationale) = AO_CONSISTENT_WITH_PREDICTION \<longleftrightarrow> transition_seen observed arguments"
proof -
  from assms obtain denied where facts: "facts = transition_fact_list observed arguments denied"
    and denied: "denied \<longleftrightarrow> jget observed ''control_status'' \<in> {JInt 401, JInt 403, JInt 409}"
    using in_int_set_Inr by (fastforce simp: transition_facts_def bindE_Inr_iff)
  have seen: "all_facts facts UNAUTHORIZED_TRANSITION_FACTS \<longleftrightarrow> transition_seen observed arguments"
    unfolding facts transition_fact_list_holds transition_seen_def denied bypass_from_def str_is_iff Let_def by auto
  have "\<not> holds facts ''fact_status_only_or_unchanged'' \<and> \<not> holds facts ''fact_stale_or_conflict''
      \<and> \<not> holds facts ''fact_delegated'' \<and> \<not> holds facts ''fact_legitimate_reviewer'' \<and> \<not> holds facts ''fact_idempotent_repeat''"
    if "transition_seen observed arguments"
    using that transition_fact_list_others[of observed arguments denied] is_str_approved
    unfolding facts transition_seen_def Let_def by auto
  then show ?thesis
    unfolding seen[symmetric] by (auto simp: transition_verdict_def Let_def)
qed

lemma assess_Inr:
  assumes "assess e plan f = Inr a"
  obtains v where "verdict_of e plan f = Inr v" "ha_outcome a = fst v" "ha_experiment_id a = ef_experiment_id f"
    "ha_hypothesis_id a = ef_hypothesis_id f" "ha_research_run_id a = ef_research_run_id f"
    "ha_observation_ids a = ef_observation_ids f"
  using assms that
  by (auto simp: assess_def bindE_Inr_iff assessment_of_def post_init_hypothesis_assessment_def split: if_splits)

lemma verdict_on_confirms:
  assumes "verdict_on e plan f observed rationale = Inr v"
  shows "fst v = AO_CONSISTENT_WITH_PREDICTION \<longleftrightarrow> prediction_seen e plan f observed"
proof (cases e)
  case EchoEvaluator
  then show ?thesis
    using assms by (auto simp: echo_verdict_def Let_def split: option.splits json.splits if_splits)
next
  case DifferentialEvaluator
  then show ?thesis
    using assms differential_verdict_confirms by (auto simp: bindE_Inr_iff)
next
  case TransitionEvaluator
  then show ?thesis
    using assms transition_verdict_confirms by (auto simp: bindE_Inr_iff)
qed (use assms in \<open>auto simp: transaction_verdict_def authentication_verdict_def\<close>)

text \<open>An assessment confirms the prediction exactly when the first observation of the strategy's kind shows it.\<close>

definition prediction_confirmed :: "evaluator \<Rightarrow> experiment_plan \<Rightarrow> experiment_feedback \<Rightarrow> bool" where
  "prediction_confirmed e plan f \<longleftrightarrow> \<not> evaluator_unusable e f \<and>
     (\<exists>x xs. target_observations e f = x # xs \<and> prediction_seen e plan f (of_payload x))"

lemma assess_confirms:
  assumes "assess e plan f = Inr a"
  shows "ha_outcome a = AO_CONSISTENT_WITH_PREDICTION \<longleftrightarrow> prediction_confirmed e plan f"
proof -
  obtain v where v: "verdict_of e plan f = Inr v" and a: "ha_outcome a = fst v"
    using assms by (rule assess_Inr)
  show ?thesis
  proof (cases "evaluator_unusable e f")
    case True
    then show ?thesis using v by (auto simp: a verdict_of_def prediction_confirmed_def)
  next
    case False
    then show ?thesis using v verdict_on_confirms
      by (auto simp: a verdict_of_def prediction_confirmed_def Let_def split: list.splits)
  qed
qed

end
