(* ===== verification/Evaluate_Feedback.thy ===== *)
theory Evaluate_Feedback
  imports Assessment App_Candidate
begin

text \<open>
  The use case \<open>EvaluateExperimentFeedback\<close> (\<open>application/evaluate_experiment_feedback.py\<close>): the feedback is
  rebuilt from the stored rows of the experiment, evaluated, and the assessment stored.
\<close>

section \<open>Rebuilding the feedback\<close>

text \<open>\<open>a or b\<close> on optional text: the empty text counts as absent.\<close>

definition or_given :: "string option \<Rightarrow> string option \<Rightarrow> string option" where
  "or_given a b = (case a of Some (c # cs) \<Rightarrow> Some (c # cs) | _ \<Rightarrow> b)"

definition derive_execution_outcome :: "string \<Rightarrow> string option \<Rightarrow> observation_record list \<Rightarrow> string" where
  "derive_execution_outcome experiment_state attempt_state observed =
     (if given_in attempt_state [''FAILED'', ''TIMED_OUT'', ''CANCELLED'', ''UNKNOWN_OUTCOME'']
      then (if attempt_state = Some ''UNKNOWN_OUTCOME'' then ''UNKNOWN_OUTCOME'' else ''INVOCATION_FAILED'')
      else if experiment_state = ''BLOCKED'' then ''DISPATCH_DENIED''
      else if experiment_state = ''BUDGET_EXHAUSTED'' then ''DISPATCH_DENIED''
      else if experiment_state = ''EXECUTION_SUCCEEDED''
      then (if observed \<noteq> [] then ''OBSERVATION_PRODUCED'' else ''NO_OBSERVATION'')
      else if experiment_state = ''EXECUTION_FAILED'' then ''INVOCATION_FAILED''
      else experiment_state)"

fun observed_facts :: "observation_record list \<Rightarrow> research_error + observed_fact list" where
  "observed_facts [] = Inr []"
| "observed_facts (r # rs) =
     bindE (post_init_observed_fact \<lparr>of_observation_id = or_observation_id r, of_observation_kind = or_observation_kind r,
       of_payload = or_payload r\<rparr>) (\<lambda>x. bindE (observed_facts rs) (\<lambda>xs. Inr (x # xs)))"

record evaluate_command =
  ec_experiment_id :: string
  ec_execution_outcome :: "string option"
  ec_invocation_status :: "string option"
  ec_attempt_state :: "string option"
  ec_experiment_execution_state :: "string option"

definition reconstruct_experiment_feedback ::
    "experiment_record \<Rightarrow> experiment_plan \<Rightarrow> observation_record list \<Rightarrow> execution_attempt_record option
      \<Rightarrow> worker_result_record option \<Rightarrow> evaluate_command \<Rightarrow> research_error + experiment_feedback" where
  "reconstruct_experiment_feedback experiment plan observed attempt result command =
     (let submitted_value = (case jget (ep_arguments plan) ''message'' of JStr s \<Rightarrow> Some s | _ \<Rightarrow> None);
          derived_attempt_state = map_option ear_state attempt;
          derived_invocation = (case map_option wr_status result of
              None \<Rightarrow> if derived_attempt_state = Some ''TIMED_OUT'' then Some ''TIMED_OUT'' else None
            | Some s \<Rightarrow> Some s);
          derived_execution = (case ec_execution_outcome command of
              Some (c # cs) \<Rightarrow> c # cs
            | _ \<Rightarrow> derive_execution_outcome (xr_execution_state experiment) derived_attempt_state observed) in
      bindE (observed_facts observed) (\<lambda>facts.
      post_init_experiment_feedback
        \<lparr>ef_hypothesis_id = xr_hypothesis_id experiment, ef_experiment_id = xr_experiment_id experiment,
         ef_research_run_id = xr_research_run_id experiment, ef_expected_observation = ep_expected_observation plan,
         ef_disconfirming_observation = ep_disconfirming_observation plan,
         ef_evaluation_strategy = ep_evaluation_strategy plan, ef_execution_outcome = derived_execution,
         ef_observations = facts, ef_submitted_value = submitted_value,
         ef_invocation_status = or_given (ec_invocation_status command) derived_invocation,
         ef_experiment_execution_state =
           or_given (ec_experiment_execution_state command) (Some (xr_execution_state experiment)),
         ef_attempt_state = or_given (ec_attempt_state command) derived_attempt_state\<rparr>))"

section \<open>The use case\<close>

fun assessment_outcome_value :: "assessment_outcome \<Rightarrow> string" where
  "assessment_outcome_value AO_CONSISTENT_WITH_PREDICTION = ''CONSISTENT_WITH_PREDICTION''"
| "assessment_outcome_value AO_CONTRADICTS_PREDICTION = ''CONTRADICTS_PREDICTION''"
| "assessment_outcome_value AO_INCONCLUSIVE = ''INCONCLUSIVE''"
| "assessment_outcome_value AO_EXECUTION_UNUSABLE = ''EXECUTION_UNUSABLE''"
| "assessment_outcome_value AO_NEEDS_MORE_CONTEXT = ''NEEDS_MORE_CONTEXT''"

fun evaluator_kind_value :: "evaluator_kind \<Rightarrow> string" where
  "evaluator_kind_value EK_DETERMINISTIC = ''DETERMINISTIC''"

definition insert_assessment :: "hypothesis_assessment_record \<Rightarrow> dispatch_db \<Rightarrow> persistence_error + dispatch_db" where
  "insert_assessment r d =
     (if has_key har_assessment_id (har_assessment_id r) (db_assessments (dd_store d)) then Inl unique_failed
      else if \<not> has_hypothesis (har_hypothesis_id r) (har_research_run_id r) (dd_store d)
        \<or> \<not> has_experiment (har_experiment_id r) (har_research_run_id r) d then Inl integrity_failed
      else Inr (d\<lparr>dd_store := (dd_store d)\<lparr>db_assessments := db_assessments (dd_store d) @ [r]\<rparr>\<rparr>))"

record research_feedback =
  rf_hypothesis_id :: string
  rf_experiment_id :: string
  rf_assessment_id :: string
  rf_assessment_outcome :: assessment_outcome
  rf_observation_ids :: "string list"
  rf_execution_usable :: bool
  rf_evaluation_strategy :: string
  rf_research_run_id :: string

text \<open>The answer of an assessment that is already stored, and of one just made.\<close>

definition feedback_of_record :: "hypothesis_assessment_record \<Rightarrow> app_error + research_feedback" where
  "feedback_of_record r =
     bindE (from_option (AppValueError ''not a valid AssessmentOutcome'') (assessment_outcome_of (har_assessment_outcome r))) (\<lambda>outcome.
     Inr \<lparr>rf_hypothesis_id = har_hypothesis_id r, rf_experiment_id = har_experiment_id r,
          rf_assessment_id = har_assessment_id r, rf_assessment_outcome = outcome,
          rf_observation_ids = har_observation_ids r, rf_execution_usable = (outcome \<noteq> AO_EXECUTION_UNUSABLE),
          rf_evaluation_strategy = har_evaluation_strategy r, rf_research_run_id = har_research_run_id r\<rparr>)"

definition feedback_of_assessment :: "string \<Rightarrow> hypothesis_assessment \<Rightarrow> research_feedback" where
  "feedback_of_assessment assessment_id a =
     \<lparr>rf_hypothesis_id = ha_hypothesis_id a, rf_experiment_id = ha_experiment_id a, rf_assessment_id = assessment_id,
      rf_assessment_outcome = ha_outcome a, rf_observation_ids = ha_observation_ids a,
      rf_execution_usable = assessment_execution_usable a, rf_evaluation_strategy = ha_evaluation_strategy a,
      rf_research_run_id = ha_research_run_id a\<rparr>"

definition assessment_record_for :: "string \<Rightarrow> int \<Rightarrow> hypothesis_assessment \<Rightarrow> persistence_error + hypothesis_assessment_record" where
  "assessment_record_for assessment_id now a = post_init_hypothesis_assessment_record
     \<lparr>har_assessment_id = assessment_id, har_hypothesis_id = ha_hypothesis_id a, har_experiment_id = ha_experiment_id a,
      har_research_run_id = ha_research_run_id a, har_assessment_outcome = assessment_outcome_value (ha_outcome a),
      har_observation_ids = ha_observation_ids a, har_evaluator_kind = evaluator_kind_value (ha_evaluator_kind a),
      har_evaluator_version = ha_evaluator_version a, har_rationale = ha_rationale a,
      har_evaluation_strategy = ha_evaluation_strategy a, har_created_at = now\<rparr>"

definition first_of :: "'a list \<Rightarrow> 'a option" where
  "first_of xs = (case xs of [] \<Rightarrow> None | x # _ \<Rightarrow> Some x)"

text \<open>The stored rows of an experiment and its plan, from which the feedback is rebuilt.\<close>

definition feedback_for :: "evaluate_command \<Rightarrow> experiment_record \<Rightarrow> experiment_plan \<Rightarrow> execution_attempt_record list
    \<Rightarrow> worker_result_record list \<Rightarrow> observation_record list \<Rightarrow> research_error + experiment_feedback" where
  "feedback_for command experiment plan tries results observed =
     reconstruct_experiment_feedback experiment plan observed (first_of tries) (first_of results) command"

definition evaluate_experiment_feedback ::
    "evaluate_command \<Rightarrow> string \<Rightarrow> int \<Rightarrow> dispatch_db \<Rightarrow> app_error + (research_feedback \<times> dispatch_db)" where
  "evaluate_experiment_feedback command assessment_id now d =
     bindE (stored (get_experiment (ec_experiment_id command) (dd_store d))) (\<lambda>found.
     bindE (from_option (ApplicationError ''experiment not found'') found) (\<lambda>experiment.
     bindE (stored (get_experiment_plan (ec_experiment_id command) d)) (\<lambda>found.
     bindE (from_option (ApplicationError ''durable experiment plan not found'') found) (\<lambda>plan_record.
     bindE (researched (experiment_plan_from_record plan_record)) (\<lambda>plan.
     bindE (stored (list_attempts_for_experiment (xr_experiment_id experiment) (dd_store d))) (\<lambda>tries.
     bindE (stored (list_worker_results_for_experiment (xr_experiment_id experiment) (dd_store d))) (\<lambda>results.
     bindE (stored (list_observations_for_experiment (xr_experiment_id experiment) (dd_store d))) (\<lambda>observed.
     bindE (stored (list_assessments_for_experiment (xr_experiment_id experiment) (dd_store d))) (\<lambda>existing.
     case existing of
       r # _ \<Rightarrow> bindE (feedback_of_record r) (\<lambda>feedback. Inr (feedback, d))
     | [] \<Rightarrow>
         bindE (researched (feedback_for command experiment plan tries results observed)) (\<lambda>feedback.
         bindE (researched (evaluator_for (ep_evaluation_strategy plan))) (\<lambda>e.
         bindE (researched (assess e plan feedback)) (\<lambda>a.
         bindE (stored (assessment_record_for assessment_id now a)) (\<lambda>r.
         bindE (stored (insert_assessment r d)) (\<lambda>d'. Inr (feedback_of_assessment assessment_id a, d')))))))))))))))"

section \<open>What an evaluation stores\<close>

lemma observed_facts_Inr:
  "observed_facts rs = Inr xs \<Longrightarrow> map of_observation_id xs = map or_observation_id rs \<and>
     map (\<lambda>x. (of_observation_kind x, of_payload x)) xs = map (\<lambda>r. (or_observation_kind r, or_payload r)) rs"
  by (induction rs arbitrary: xs) (auto simp: bindE_Inr_iff post_init_observed_fact_def keep_text_def split: if_splits)

lemma feedback_for_Inr:
  assumes "feedback_for command x plan tries results observed = Inr f"
  shows "ef_experiment_id f = xr_experiment_id x" "ef_hypothesis_id f = xr_hypothesis_id x"
    "ef_research_run_id f = xr_research_run_id x" "observed_facts observed = Inr (ef_observations f)"
  using assms by (auto simp: feedback_for_def reconstruct_experiment_feedback_def Let_def bindE_Inr_iff
    post_init_experiment_feedback_def keep_text_def split: if_splits)

lemma insert_assessment_Inr:
  "insert_assessment r d = Inr d' \<Longrightarrow> har_assessment_id r \<notin> har_assessment_id ` set (db_assessments (dd_store d)) \<and>
     d' = d\<lparr>dd_store := (dd_store d)\<lparr>db_assessments := db_assessments (dd_store d) @ [r]\<rparr>\<rparr>"
  by (auto simp: insert_assessment_def has_key_iff split: if_splits)

interpretation assessment_table: keyed_table har_assessment_id "\<lambda>d. db_assessments (dd_store d)" insert_assessment
  by unfold_locales (auto dest!: insert_assessment_Inr)

lemma assessment_record_for_Inr:
  "assessment_record_for aid now a = Inr r \<Longrightarrow>
     har_assessment_id r = aid \<and> har_experiment_id r = ha_experiment_id a \<and> har_hypothesis_id r = ha_hypothesis_id a \<and>
     har_research_run_id r = ha_research_run_id a \<and> har_assessment_outcome r = assessment_outcome_value (ha_outcome a) \<and>
     har_observation_ids r = ha_observation_ids a \<and> har_evaluation_strategy r = ha_evaluation_strategy a"
  by (auto simp: assessment_record_for_def post_init_hypothesis_assessment_record_def raise_first_Inr_iff simp del: raise_first.simps)

lemma assessment_outcome_round_trip: "assessment_outcome_of (assessment_outcome_value v) = Some v"
  by (cases v) (simp_all add: assessment_outcome_of_def)

lemma stored_assessment_answers:
  "assessment_record_for aid now a = Inr r \<Longrightarrow> feedback_of_record r = Inr (feedback_of_assessment aid a)"
  by (drule assessment_record_for_Inr)
    (simp add: feedback_of_record_def feedback_of_assessment_def bindE_Inr_iff assessment_outcome_round_trip assessment_execution_usable_def)

text \<open>The rows an evaluation reads.\<close>

definition evaluated_from ::
    "evaluate_command \<Rightarrow> dispatch_db \<Rightarrow> experiment_record \<Rightarrow> experiment_plan \<Rightarrow> observation_record list \<Rightarrow> experiment_feedback \<Rightarrow> bool" where
  "evaluated_from command d x plan observed f \<longleftrightarrow> get_experiment (ec_experiment_id command) (dd_store d) = Inr (Some x) \<and>
     (\<exists>p. get_experiment_plan (ec_experiment_id command) d = Inr (Some p) \<and> experiment_plan_from_record p = Inr plan) \<and>
     list_observations_for_experiment (xr_experiment_id x) (dd_store d) = Inr observed \<and>
     (\<exists>tries results. list_attempts_for_experiment (xr_experiment_id x) (dd_store d) = Inr tries \<and>
        list_worker_results_for_experiment (xr_experiment_id x) (dd_store d) = Inr results \<and>
        feedback_for command x plan tries results observed = Inr f)"

lemma get_experiment_id: "get_experiment i d = Inr (Some x) \<Longrightarrow> xr_experiment_id x = i"
  unfolding get_experiment_def by (drule fetch_one_Some) simp

lemma evaluation_made:
  assumes "evaluate_experiment_feedback command aid now d = Inr (answer, d')"
    and "list_assessments_for_experiment (ec_experiment_id command) (dd_store d) = Inr []"
  obtains x plan observed f e a r where "evaluated_from command d x plan observed f"
    "evaluator_for (ep_evaluation_strategy plan) = Inr e" "assess e plan f = Inr a"
    "assessment_record_for aid now a = Inr r" "insert_assessment r d = Inr d'" "answer = feedback_of_assessment aid a"
proof -
  from assms(1) obtain x where x: "get_experiment (ec_experiment_id command) (dd_store d) = Inr (Some x)"
    unfolding evaluate_experiment_feedback_def by (auto simp: bindE_Inr_iff)
  with assms(2) have "list_assessments_for_experiment (xr_experiment_id x) (dd_store d) = Inr []"
    using get_experiment_id by simp
  with assms(1) x that show thesis
    unfolding evaluate_experiment_feedback_def evaluated_from_def by (auto simp: bindE_Inr_iff)
qed

lemma evaluation_repeated:
  assumes "get_experiment (ec_experiment_id command) (dd_store d) = Inr (Some x)"
    and "get_experiment_plan (ec_experiment_id command) d = Inr (Some p)" and "experiment_plan_from_record p = Inr plan"
    and "list_assessments_for_experiment (xr_experiment_id x) (dd_store d) = Inr (r # rs)"
    and "feedback_of_record r = Inr answer"
  shows "evaluate_experiment_feedback command aid now d = Inr (answer, d)"
  using assms by (simp add: evaluate_experiment_feedback_def list_assessments_for_experiment_def fetch_list_def
    list_attempts_for_experiment_def list_worker_results_for_experiment_def list_observations_for_experiment_def split: if_splits)

lemma first_observation:
  assumes "map (\<lambda>x. (of_observation_kind x, of_payload x)) xs = map (\<lambda>r. (or_observation_kind r, or_payload r)) rs"
  shows "(\<exists>y ys. filter (\<lambda>x. of_observation_kind x = kind) xs = y # ys \<and> P (of_payload y)) \<longleftrightarrow>
    (\<exists>y ys. filter (\<lambda>r. or_observation_kind r = kind) rs = y # ys \<and> P (or_payload y))"
  using assms
proof (induction rs arbitrary: xs)
  case (Cons r rs)
  then obtain z zs where "xs = z # zs" "of_observation_kind z = or_observation_kind r" "of_payload z = or_payload r"
    and "map (\<lambda>x. (of_observation_kind x, of_payload x)) zs = map (\<lambda>r. (or_observation_kind r, or_payload r)) rs"
    by (cases xs) auto
  with Cons.IH [of zs] show ?case by simp
qed simp

lemma confirmed_by_rows:
  assumes "evaluated_from command d x plan observed f"
  shows "prediction_confirmed e plan f \<longleftrightarrow> \<not> evaluator_unusable e f \<and>
    (\<exists>y ys. filter (\<lambda>r. or_observation_kind r = evaluator_observation_kind e) observed = y # ys \<and>
       prediction_seen e plan f (or_payload y))"
proof -
  from assms have "observed_facts observed = Inr (ef_observations f)"
    unfolding evaluated_from_def using feedback_for_Inr(4) by blast
  then show ?thesis
    using first_observation [of "ef_observations f" observed "evaluator_observation_kind e" "prediction_seen e plan f"]
    unfolding prediction_confirmed_def target_observations_def by (auto dest!: observed_facts_Inr)
qed

text \<open>An echo experiment that has run, with its result and its observation.\<close>

definition assessed_store :: dispatch_db where
  "assessed_store = \<lparr>dd_store = empty_db\<lparr>
       db_hypotheses := [\<lparr>hyr_hypothesis_id = ''h'', hyr_research_run_id = ''run'', hyr_claim = ''it echoes'', hyr_created_at = 0,
         hyr_origin_reference = None, hyr_identity_id = None\<rparr>],
       db_experiments := [\<lparr>xr_experiment_id = ''x1'', xr_research_run_id = ''run'', xr_hypothesis_id = ''h'', xr_budget_id = ''b1'',
         xr_execution_state = ''EXECUTION_SUCCEEDED'', xr_created_at = 0\<rparr>],
       db_worker_results := [\<lparr>wr_worker_result_id = ''wr1'', wr_experiment_id = ''x1'', wr_research_run_id = ''run'',
         wr_request_id = ''q1'', wr_correlation_id = ''c1'', wr_worker_capability = ''diagnostic.echo'', wr_action = ''echo'',
         wr_authorization_decision_reference = ''ae1'', wr_budget_id = ''b1'', wr_side_effect_level = 0, wr_contract_version = ''v1'',
         wr_worker_id = ''w'', wr_status = ''SUCCEEDED'', wr_received_at = 1, wr_started_at = None, wr_completed_at = None,
         wr_parent_request_id = None, wr_raw_result = None, wr_raw_artifact_descriptors = None, wr_diagnostics = None,
         wr_control_signal = None\<rparr>],
       db_observations := [\<lparr>or_observation_id = ''o1'', or_worker_result_id = ''wr1'', or_observation_kind = ''diagnostic.echo'',
         or_payload = [(''echoed'', JStr ''hi'')], or_normalization_version = ''diagnostic.echo.v1'', or_observed_at = 1, or_created_at = 1\<rparr>]\<rparr>,
     dd_budgets = empty_budget_db, dd_programs = \<lparr>pd_programs = [], pd_scope_rules = [], pd_rate_limits = []\<rparr>, dd_sources = [],
     dd_plans = [\<lparr>epr_experiment_id = ''x1'', epr_research_run_id = ''run'', epr_hypothesis_id = ''h'',
       epr_required_capability = ''diagnostic.echo'', epr_action = ''echo'', epr_target_reference = ''t'', epr_side_effect_level = 0,
       epr_arguments = [(''message'', JStr ''hi'')], epr_requested_budget_id = ''b1'', epr_expected_observation = ''echo'',
       epr_disconfirming_observation = ''none'', epr_evaluation_strategy = ''diagnostic.echo.v1'', epr_created_at = 0,
       epr_capability_version = None, epr_capability_definition_fingerprint = None\<rparr>],
     dd_sessions = []\<rparr>"

definition assess_x1 :: evaluate_command where
  "assess_x1 = \<lparr>ec_experiment_id = ''x1'', ec_execution_outcome = None, ec_invocation_status = None, ec_attempt_state = None,
     ec_experiment_execution_state = None\<rparr>"

definition outcome_stored :: "app_error + (research_feedback \<times> dispatch_db) \<Rightarrow> (assessment_outcome \<times> string list) option" where
  "outcome_stored t = (case t of Inl _ \<Rightarrow> None
     | Inr (answer, d) \<Rightarrow> Some (rf_assessment_outcome answer, map har_assessment_outcome (db_assessments (dd_store d))))"

lemma echo_assessed:
  "outcome_stored (evaluate_experiment_feedback assess_x1 ''a1'' 2 assessed_store) =
     Some (AO_CONSISTENT_WITH_PREDICTION, [''CONSISTENT_WITH_PREDICTION''])"
  by code_simp

lemma echo_not_assessed: "list_assessments_for_experiment (ec_experiment_id assess_x1) (dd_store assessed_store) = Inr []"
  by code_simp

text \<open>
  A worker result that reports EXECUTION_FAILED does not make the execution unusable for an evaluator,
  which looks for the statuses of an invocation: the experiment is assessed as INCONCLUSIVE.  Verification
  takes the same result as unusable.
\<close>

definition failed_result_store :: dispatch_db where
  "failed_result_store = assessed_store\<lparr>dd_store := (dd_store assessed_store)\<lparr>db_observations := [],
     db_worker_results := map (\<lambda>r. r\<lparr>wr_status := ''EXECUTION_FAILED''\<rparr>) (db_worker_results (dd_store assessed_store))\<rparr>\<rparr>"

lemma failed_result_is_inconclusive:
  "outcome_stored (evaluate_experiment_feedback assess_x1 ''a1'' 2 failed_result_store) = Some (AO_INCONCLUSIVE, [''INCONCLUSIVE''])"
  by code_simp

lemma failed_result_is_unusable:
  "reproduction_unusable (hd (db_experiments (dd_store failed_result_store))) [] (db_worker_results (dd_store failed_result_store))"
  by code_simp

text \<open>
  An assessment says exactly what was observed: evaluating an experiment that has none returns
  CONSISTENT_WITH_PREDICTION if and only if the execution is usable and the first stored observation of
  the evaluator's kind shows what the strategy asks for (for an authorization differential, an owner's
  object read by another actor while both controls were denied and the access was not public, shared or
  delegated), and it stores one record with that outcome over all observations of the experiment and
  changes nothing else.
\<close>

lemma evaluation_confirms_exactly:
  assumes "evaluate_experiment_feedback command aid now d = Inr (answer, d')"
    and "list_assessments_for_experiment (ec_experiment_id command) (dd_store d) = Inr []"
  shows "\<exists>x plan observed f e r. evaluated_from command d x plan observed f \<and>
    evaluator_for (ep_evaluation_strategy plan) = Inr e \<and>
    (rf_assessment_outcome answer = AO_CONSISTENT_WITH_PREDICTION \<longleftrightarrow> \<not> evaluator_unusable e f \<and>
       (\<exists>y ys. filter (\<lambda>r. or_observation_kind r = evaluator_observation_kind e) observed = y # ys \<and>
          prediction_seen e plan f (or_payload y))) \<and>
    har_assessment_id r = aid \<and> har_experiment_id r = ec_experiment_id command \<and>
    har_assessment_outcome r = assessment_outcome_value (rf_assessment_outcome answer) \<and>
    har_observation_ids r = map or_observation_id observed \<and>
    d' = d\<lparr>dd_store := (dd_store d)\<lparr>db_assessments := db_assessments (dd_store d) @ [r]\<rparr>\<rparr>"
  using assms
proof (rule evaluation_made)
  fix x plan observed f e a r
  assume from_rows: "evaluated_from command d x plan observed f" and e: "evaluator_for (ep_evaluation_strategy plan) = Inr e"
    and a: "assess e plan f = Inr a" and r: "assessment_record_for aid now a = Inr r" and d': "insert_assessment r d = Inr d'"
    and answer: "answer = feedback_of_assessment aid a"
  from from_rows obtain tries results where f: "feedback_for command x plan tries results observed = Inr f"
    and x: "xr_experiment_id x = ec_experiment_id command"
    unfolding evaluated_from_def using get_experiment_id by blast
  have "har_observation_ids r = map or_observation_id observed"
    using r a feedback_for_Inr(4) [OF f] by (auto elim!: assess_Inr dest!: assessment_record_for_Inr observed_facts_Inr simp: ef_observation_ids_def)
  moreover have "har_experiment_id r = ec_experiment_id command"
    using r a feedback_for_Inr(1) [OF f] x by (auto elim!: assess_Inr dest!: assessment_record_for_Inr)
  ultimately show ?thesis
    using from_rows e assess_confirms [OF a] confirmed_by_rows [OF from_rows] assessment_record_for_Inr [OF r]
      insert_assessment_Inr [OF d'] unfolding answer feedback_of_assessment_def by fastforce
qed

lemma evaluation_confirms_exactly_witness:
  "\<exists>answer d' r. evaluate_experiment_feedback assess_x1 ''a1'' 2 assessed_store = Inr (answer, d') \<and>
     rf_assessment_outcome answer = AO_CONSISTENT_WITH_PREDICTION \<and> har_observation_ids r = [''o1''] \<and>
     db_assessments (dd_store d') = [r]"
proof -
  obtain answer d' where run: "evaluate_experiment_feedback assess_x1 ''a1'' 2 assessed_store = Inr (answer, d')"
    and outcome: "rf_assessment_outcome answer = AO_CONSISTENT_WITH_PREDICTION"
    using echo_assessed by (auto simp: outcome_stored_def split: sum.splits prod.splits)
  have rows: "list_observations_for_experiment ''x1'' (dd_store assessed_store) = Inr (db_observations (dd_store assessed_store))"
    "db_assessments (dd_store assessed_store) = []" "map or_observation_id (db_observations (dd_store assessed_store)) = [''o1'']"
    by code_simp+
  from evaluation_confirms_exactly [OF run echo_not_assessed]
  obtain x plan observed f r where from_rows: "evaluated_from assess_x1 assessed_store x plan observed f"
    and r: "har_observation_ids r = map or_observation_id observed"
      "d' = assessed_store\<lparr>dd_store := (dd_store assessed_store)\<lparr>db_assessments := db_assessments (dd_store assessed_store) @ [r]\<rparr>\<rparr>"
    by blast
  from from_rows have "observed = db_observations (dd_store assessed_store)"
    using rows(1) by (auto simp: evaluated_from_def assess_x1_def dest!: get_experiment_id)
  then have "har_observation_ids r = [''o1'']" "db_assessments (dd_store d') = [r]" using r rows(2,3) by simp_all
  then show ?thesis using run outcome by blast
qed

text \<open>
  Evaluation is idempotent: once an experiment has been evaluated, evaluating it again returns the
  stored assessment and writes nothing, whatever the second call says about the execution.
\<close>

lemma evaluation_replays:
  assumes "evaluate_experiment_feedback command aid now d = Inr (answer, d')"
    and "ec_experiment_id command' = ec_experiment_id command"
  shows "evaluate_experiment_feedback command' aid' now' d' = Inr (answer, d')"
proof -
  obtain x p plan existing where x: "get_experiment (ec_experiment_id command) (dd_store d) = Inr (Some x)"
    and p: "get_experiment_plan (ec_experiment_id command) d = Inr (Some p)" "experiment_plan_from_record p = Inr plan"
    and existing: "list_assessments_for_experiment (xr_experiment_id x) (dd_store d) = Inr existing"
    using assms(1) unfolding evaluate_experiment_feedback_def by (auto simp: bindE_Inr_iff)
  show ?thesis
  proof (cases existing)
    case (Cons r rs)
    then have "feedback_of_record r = Inr answer" "d' = d"
      using assms(1) x p existing unfolding evaluate_experiment_feedback_def by (auto simp: bindE_Inr_iff)
    then show ?thesis using x p existing Cons assms(2) by (simp add: evaluation_repeated)
  next
    case Nil
    note none = existing [unfolded Nil get_experiment_id [OF x]]
    from assms(1) none show ?thesis
    proof (rule evaluation_made)
      fix x' plan' observed f e a r
      assume from_rows: "evaluated_from command d x' plan' observed f" and a: "assess e plan' f = Inr a"
        and r: "assessment_record_for aid now a = Inr r" and d': "insert_assessment r d = Inr d'"
        and answer: "answer = feedback_of_assessment aid a"
      from from_rows have "har_experiment_id r = ec_experiment_id command"
        using a assessment_record_for_Inr [OF r] x get_experiment_id [OF x]
        by (auto simp: evaluated_from_def feedback_for_Inr elim!: assess_Inr)
      then have "list_assessments_for_experiment (xr_experiment_id x) (dd_store d') = Inr [r]"
        using none get_experiment_id [OF x] insert_assessment_Inr [OF d']
        by (auto simp: list_assessments_for_experiment_def fetch_list_def sort_key_Nil_iff split: if_splits)
      moreover have "get_experiment (ec_experiment_id command') (dd_store d') = Inr (Some x)"
        "get_experiment_plan (ec_experiment_id command') d' = Inr (Some p)"
        using x p assms(2) insert_assessment_Inr [OF d'] by (auto simp: get_experiment_def get_experiment_plan_def)
      ultimately show ?thesis
        using p(2) stored_assessment_answers [OF r] evaluation_repeated unfolding answer by blast
    qed
  qed
qed

lemma evaluation_replays_witness:
  "\<exists>answer d'. rf_assessment_outcome answer = AO_CONSISTENT_WITH_PREDICTION \<and>
     evaluate_experiment_feedback (assess_x1\<lparr>ec_attempt_state := Some ''UNKNOWN_OUTCOME''\<rparr>) ''a2'' 3 d' = Inr (answer, d')"
proof -
  obtain answer d' where run: "evaluate_experiment_feedback assess_x1 ''a1'' 2 assessed_store = Inr (answer, d')"
    and outcome: "rf_assessment_outcome answer = AO_CONSISTENT_WITH_PREDICTION"
    using echo_assessed by (auto simp: outcome_stored_def split: sum.splits prod.splits)
  have "evaluate_experiment_feedback (assess_x1\<lparr>ec_attempt_state := Some ''UNKNOWN_OUTCOME''\<rparr>) ''a2'' 3 d' = Inr (answer, d')"
    by (rule evaluation_replays [OF run]) simp
  then show ?thesis using outcome by blast
qed

end
