(* ===== verification/Admit_Evidence.thy ===== *)
theory Admit_Evidence
  imports Evaluate_Feedback
begin

text \<open>
  The use case \<open>AdmitDiagnosticEvidence\<close> (\<open>application/admit_diagnostic_evidence.py\<close>): from the stored
  assessment and observations of an experiment to a stored Evidence row and its admission record.
\<close>

section \<open>The tables of Evidence\<close>

text \<open>The tables of dispatch with the admission history and the links from Evidence to observations.\<close>

record evidence_db =
  vd_dispatch :: dispatch_db
  vd_admissions :: "evidence_admission_record list"
  vd_links :: "(string \<times> string) list"

abbreviation store_of :: "evidence_db \<Rightarrow> db" where
  "store_of s \<equiv> dd_store (vd_dispatch s)"

abbreviation evidence_rows :: "evidence_db \<Rightarrow> evidence_record list" where
  "evidence_rows s \<equiv> db_evidence (store_of s)"

fun insert_evidence_links :: "string \<Rightarrow> string list \<Rightarrow> evidence_db \<Rightarrow> persistence_error + evidence_db" where
  "insert_evidence_links e [] s = Inr s"
| "insert_evidence_links e (i # is) s =
     (if (e, i) \<in> set (vd_links s) then Inl unique_failed
      else if \<not> has_key or_observation_id i (db_observations (store_of s)) then Inl integrity_failed
      else insert_evidence_links e is (s\<lparr>vd_links := vd_links s @ [(e, i)]\<rparr>))"

definition insert_evidence :: "evidence_record \<Rightarrow> evidence_db \<Rightarrow> persistence_error + evidence_db" where
  "insert_evidence r s =
     (if has_key er_evidence_id (er_evidence_id r) (evidence_rows s) then Inl unique_failed
      else if \<not> has_run (er_research_run_id r) (store_of s)
        \<or> \<not> has_hypothesis (er_hypothesis_id r) (er_research_run_id r) (store_of s)
        \<or> \<not> has_experiment (er_experiment_id r) (er_research_run_id r) (vd_dispatch s) then Inl integrity_failed
      else insert_evidence_links (er_evidence_id r) (er_observation_ids r)
        (s\<lparr>vd_dispatch := (vd_dispatch s)\<lparr>dd_store := (store_of s)\<lparr>db_evidence := evidence_rows s @ [r]\<rparr>\<rparr>\<rparr>))"

definition insert_evidence_admission :: "evidence_admission_record \<Rightarrow> evidence_db \<Rightarrow> persistence_error + evidence_db" where
  "insert_evidence_admission r s =
     (if has_key evar_admission_record_id (evar_admission_record_id r) (vd_admissions s) then Inl unique_failed
      else if \<not> has_run (evar_research_run_id r) (store_of s)
        \<or> (case evar_admitted_evidence_id r of None \<Rightarrow> False | Some e \<Rightarrow> \<not> has_key er_evidence_id e (evidence_rows s))
      then Inl integrity_failed
      else Inr (s\<lparr>vd_admissions := vd_admissions s @ [r]\<rparr>))"

section \<open>The admission context\<close>

definition EVIDENCE_ADMISSION_POLICY_VERSION :: string where
  "EVIDENCE_ADMISSION_POLICY_VERSION = ''evidence.admission.v1''"

fun evidence_admission_outcome_value :: "evidence_admission_outcome \<Rightarrow> string" where
  "evidence_admission_outcome_value EA_ADMITTED = ''ADMITTED''"
| "evidence_admission_outcome_value EA_REJECTED_INSUFFICIENT_SUPPORT = ''REJECTED_INSUFFICIENT_SUPPORT''"
| "evidence_admission_outcome_value EA_REJECTED_BROKEN_PROVENANCE = ''REJECTED_BROKEN_PROVENANCE''"
| "evidence_admission_outcome_value EA_REJECTED_EXECUTION_UNUSABLE = ''REJECTED_EXECUTION_UNUSABLE''"
| "evidence_admission_outcome_value EA_REJECTED_POLICY_CONFLICT = ''REJECTED_POLICY_CONFLICT''"
| "evidence_admission_outcome_value EA_NEEDS_VERIFICATION = ''NEEDS_VERIFICATION''"

record admit_evidence_command =
  aec_experiment_id :: string
  aec_assessment_id :: "string option"
  aec_proposal :: "evidence_proposal option"

record admit_evidence_result =
  avr_outcome :: evidence_admission_outcome
  avr_admission_record_id :: string
  avr_evidence_id :: "string option"
  avr_reason_codes :: "string list"
  avr_proposal_id :: string

text \<open>The assessment the caller names, and otherwise the last one.\<close>

definition select_assessment ::
    "hypothesis_assessment_record list \<Rightarrow> string option \<Rightarrow> app_error + hypothesis_assessment_record option" where
  "select_assessment assessments assessment_id =
     (if assessments = [] then Inr None
      else case assessment_id of
        None \<Rightarrow> Inr (Some (last assessments))
      | Some i \<Rightarrow> (case find (\<lambda>a. har_assessment_id a = i) assessments of
          None \<Rightarrow> Inl (ApplicationError ''assessment not found'') | Some a \<Rightarrow> Inr (Some a)))"

fun observation_refs :: "string \<Rightarrow> observation_record list \<Rightarrow> research_error + evidence_observation_ref list" where
  "observation_refs run [] = Inr []"
| "observation_refs run (r # rs) =
     bindE (post_init_evidence_observation_ref \<lparr>eor_observation_id = or_observation_id r, eor_research_run_id = run,
       eor_worker_result_id = or_worker_result_id r, eor_observation_kind = or_observation_kind r\<rparr>) (\<lambda>x.
     bindE (observation_refs run rs) (\<lambda>xs. Inr (x # xs)))"

definition assessed_outcome :: "hypothesis_assessment_record option \<Rightarrow> app_error + assessment_outcome option" where
  "assessed_outcome a = (case a of
     None \<Rightarrow> Inr None
   | Some r \<Rightarrow> bindE (from_option (AppValueError ''not a valid AssessmentOutcome'') (assessment_outcome_of (har_assessment_outcome r)))
       (\<lambda>outcome. Inr (Some outcome)))"

definition evidence_context_for ::
    "experiment_record \<Rightarrow> string \<Rightarrow> hypothesis_assessment_record option \<Rightarrow> observation_record list
      \<Rightarrow> execution_attempt_record option \<Rightarrow> worker_result_record option \<Rightarrow> string list \<Rightarrow> app_error + evidence_admission_context" where
  "evidence_context_for experiment strategy assessment observed attempt result requested =
     bindE (researched (observation_refs (xr_research_run_id experiment) observed)) (\<lambda>refs.
     let missing = filter (\<lambda>i. i \<notin> set (map eor_observation_id refs)) requested in
     bindE (assessed_outcome assessment) (\<lambda>outcome.
     researched (post_init_evidence_admission_context
       \<lparr>eac_research_run_id = xr_research_run_id experiment, eac_hypothesis_id = xr_hypothesis_id experiment,
        eac_experiment_id = xr_experiment_id experiment, eac_evaluation_strategy = strategy, eac_observations = refs,
        eac_missing_source_ids = missing, eac_assessment_id = map_option har_assessment_id assessment,
        eac_assessment_outcome = outcome, eac_attempt_state = map_option ear_state attempt,
        eac_worker_status = map_option wr_status result, eac_invocation_status = None, eac_execution_outcome = None,
        eac_experiment_execution_state = Some (xr_execution_state experiment)\<rparr>)))"

section \<open>The proposal\<close>

text \<open>The proposal that records why there is no Evidence.\<close>

definition neutral_proposal ::
    "evidence_admission_context \<Rightarrow> string \<Rightarrow> string \<Rightarrow> payload \<Rightarrow> string \<Rightarrow> research_error + evidence_proposal option" where
  "neutral_proposal c proposal_id claim rationale source =
     bindE (post_init_evidence_proposal
       \<lparr>evp_proposal_id = proposal_id, evp_research_run_id = eac_research_run_id c, evp_hypothesis_id = eac_hypothesis_id c,
        evp_experiment_id = eac_experiment_id c, evp_observation_ids = eac_observation_ids c,
        evp_assessment_ids = (case eac_assessment_id c of None \<Rightarrow> [] | Some i \<Rightarrow> [i]), evp_polarity = EP_NEUTRAL,
        evp_claim_scope = claim, evp_rationale = rationale, evp_provenance = [(''source'', JStr source)]\<rparr>)
     (\<lambda>p. Inr (Some p))"

definition strategy_proposal :: "string \<Rightarrow> evidence_admission_context \<Rightarrow> string \<Rightarrow> research_error + evidence_proposal option" where
  "strategy_proposal strategy c proposal_id =
     (if strategy = HTTP_AUTHORIZATION_DIFFERENTIAL_EVALUATION_STRATEGY then propose_authorization_differential_evidence c proposal_id
      else if strategy = HTTP_STATE_TRANSITION_EVALUATION_STRATEGY then propose_state_transition_evidence c proposal_id
      else propose_diagnostic_echo_evidence c proposal_id)"

definition unusable_proposal :: "evidence_admission_context \<Rightarrow> string \<Rightarrow> research_error + evidence_proposal option" where
  "unusable_proposal c proposal_id =
     (if execution_unusable c
      then neutral_proposal c proposal_id ''diagnostic execution was unusable; no Evidence''
        [(''reason_code'', JStr ''EXECUTION_UNUSABLE''), (''not_vulnerability_evidence'', JBool True)] ''diagnostic.echo.unusable''
      else Inr None)"

definition rejected_proposal :: "string \<Rightarrow> evidence_admission_context \<Rightarrow> string \<Rightarrow> research_error + evidence_proposal option" where
  "rejected_proposal strategy c proposal_id =
     (if strategy = HTTP_AUTHORIZATION_DIFFERENTIAL_EVALUATION_STRATEGY
      then neutral_proposal c proposal_id HTTP_AUTHORIZATION_CONTROL_HELD_CLAIM
        [(''reason_code'', JStr ''DIFFERENTIAL_DOES_NOT_ESTABLISH_MISSING_OBJECT_ACCESS_CONTROL'')]
        ''http.authorization.differential.rejected''
      else if strategy = HTTP_STATE_TRANSITION_EVALUATION_STRATEGY
      then neutral_proposal c proposal_id HTTP_STATE_TRANSITION_CONTROL_HELD_CLAIM
        [(''reason_code'', JStr ''STATE_TRANSITION_DOES_NOT_ESTABLISH_WORKFLOW_BYPASS'')] ''http.state_transition.rejected''
      else Inr None)"

definition evidence_proposal_for ::
    "(string \<Rightarrow> string) \<Rightarrow> string \<Rightarrow> evidence_admission_context \<Rightarrow> evidence_proposal option \<Rightarrow> app_error + evidence_proposal" where
  "evidence_proposal_for new_id strategy c given =
     bindE (researched (or_else (Inr given)
       (or_else (strategy_proposal strategy c (new_id ''proposal''))
       (or_else (unusable_proposal c (new_id ''unusable proposal''))
         (rejected_proposal strategy c (new_id ''rejected proposal'')))))) (\<lambda>found.
     from_option (ApplicationError ''no diagnostic EvidenceProposal can be built from this experiment'') found)"

section \<open>The use case\<close>

definition evidence_admission_record_of ::
    "string \<Rightarrow> string option \<Rightarrow> evidence_admission_decision \<Rightarrow> string \<Rightarrow> int \<Rightarrow> persistence_error + evidence_admission_record" where
  "evidence_admission_record_of admission_record_id evidence_id decision evaluator_version created_at =
     (let proposal = ead_proposal decision in post_init_evidence_admission_record
       \<lparr>evar_admission_record_id = admission_record_id, evar_proposal_id = evp_proposal_id proposal,
        evar_research_run_id = evp_research_run_id proposal, evar_outcome = evidence_admission_outcome_value (ead_outcome decision),
        evar_reason_codes = ead_reason_codes decision, evar_observation_ids = evp_observation_ids proposal,
        evar_assessment_ids = evp_assessment_ids proposal, evar_admission_policy_version = EVIDENCE_ADMISSION_POLICY_VERSION,
        evar_evaluator_version = evaluator_version, evar_created_at = created_at, evar_admitted_evidence_id = evidence_id,
        evar_claim_scope = Some (evp_claim_scope proposal), evar_polarity = Some (evidence_polarity_value (evp_polarity proposal))\<rparr>)"

definition store_evidence :: "string \<Rightarrow> string \<Rightarrow> evidence_proposal \<Rightarrow> int \<Rightarrow> evidence_db \<Rightarrow> persistence_error + evidence_db" where
  "store_evidence evidence_id admission_record_id proposal created_at s =
     bindE (post_init_evidence_record
       \<lparr>er_evidence_id = evidence_id, er_research_run_id = evp_research_run_id proposal, er_hypothesis_id = evp_hypothesis_id proposal,
        er_experiment_id = evp_experiment_id proposal, er_admission_record_id = admission_record_id,
        er_polarity = evidence_polarity_value (evp_polarity proposal), er_claim_scope = evp_claim_scope proposal,
        er_observation_ids = evp_observation_ids proposal, er_assessment_ids = evp_assessment_ids proposal,
        er_created_at = created_at\<rparr>) (\<lambda>r. insert_evidence r s)"

text \<open>The decision on a proposal and the rows it leaves.\<close>

definition record_admission ::
    "(string \<Rightarrow> string) \<Rightarrow> (string \<Rightarrow> int) \<Rightarrow> evidence_proposal \<Rightarrow> evidence_admission_context \<Rightarrow> string \<Rightarrow> evidence_db
      \<Rightarrow> app_error + (admit_evidence_result \<times> evidence_db)" where
  "record_admission new_id clock proposal context evaluator_version s =
     (let decision = admit_evidence proposal context; admission_record_id = new_id ''admission record'';
          evidence_id = (if creates_evidence decision then Some (new_id ''evidence'') else None) in
      bindE (stored (case evidence_id of None \<Rightarrow> Inr s
        | Some e \<Rightarrow> store_evidence e admission_record_id proposal (clock ''evidence'') s)) (\<lambda>s1.
      bindE (stored (evidence_admission_record_of admission_record_id evidence_id decision evaluator_version (clock ''admission''))) (\<lambda>r.
      bindE (stored (insert_evidence_admission r s1)) (\<lambda>s2.
      Inr (\<lparr>avr_outcome = ead_outcome decision, avr_admission_record_id = admission_record_id, avr_evidence_id = evidence_id,
            avr_reason_codes = ead_reason_codes decision, avr_proposal_id = evp_proposal_id proposal\<rparr>, s2)))))"

definition evidence_inputs ::
    "admit_evidence_command \<Rightarrow> evidence_db
      \<Rightarrow> app_error + (experiment_plan_record \<times> hypothesis_assessment_record option \<times> evidence_admission_context)" where
  "evidence_inputs command s =
     bindE (stored (get_experiment (aec_experiment_id command) (store_of s))) (\<lambda>found.
     bindE (from_option (ApplicationError ''experiment not found'') found) (\<lambda>experiment.
     bindE (stored (get_experiment_plan (aec_experiment_id command) (vd_dispatch s))) (\<lambda>found.
     bindE (from_option (ApplicationError ''durable experiment plan not found'') found) (\<lambda>plan.
     if epr_evaluation_strategy plan \<notin> set SUPPORTED_EVIDENCE_STRATEGIES
     then Inl (ApplicationError ''AdmitDiagnosticEvidence has no evaluator for this strategy'')
     else
     bindE (stored (list_assessments_for_experiment (xr_experiment_id experiment) (store_of s))) (\<lambda>assessments.
     bindE (select_assessment assessments (aec_assessment_id command)) (\<lambda>assessment.
     bindE (stored (list_observations_for_experiment (xr_experiment_id experiment) (store_of s))) (\<lambda>observed.
     bindE (stored (list_attempts_for_experiment (xr_experiment_id experiment) (store_of s))) (\<lambda>tries.
     bindE (stored (list_worker_results_for_experiment (xr_experiment_id experiment) (store_of s))) (\<lambda>results.
     bindE (evidence_context_for experiment (epr_evaluation_strategy plan) assessment observed (first_of tries) (first_of results)
       (case aec_proposal command of None \<Rightarrow> [] | Some p \<Rightarrow> evp_observation_ids p)) (\<lambda>context.
     Inr (plan, assessment, context)))))))))))"

definition admit_diagnostic_evidence ::
    "admit_evidence_command \<Rightarrow> (string \<Rightarrow> string) \<Rightarrow> (string \<Rightarrow> int) \<Rightarrow> evidence_db
      \<Rightarrow> app_error + (admit_evidence_result \<times> evidence_db)" where
  "admit_diagnostic_evidence command new_id clock s =
     bindE (evidence_inputs command s) (\<lambda>(plan, assessment, context).
     bindE (evidence_proposal_for new_id (epr_evaluation_strategy plan) context (aec_proposal command)) (\<lambda>proposal.
     record_admission new_id clock proposal context
       (case assessment of None \<Rightarrow> ''none'' | Some a \<Rightarrow> har_evaluator_version a) s))"

end
