(* ===== verification/Evidence_Safety.thy ===== *)
theory Evidence_Safety
  imports Admit_Evidence
begin

text \<open>
  What stored Evidence rests on, in every order of evaluations, admissions and the transactions of other
  use cases: the admission history is complete, and the claim is shown by a stored observation.
\<close>

section \<open>What an admission leaves\<close>

lemma insert_evidence_links_Inr:
  "insert_evidence_links e is s = Inr s' \<Longrightarrow> s' = s\<lparr>vd_links := vd_links s @ map (Pair e) is\<rparr>"
  by (induction e "is" s rule: insert_evidence_links.induct) (auto split: if_splits)

lemma insert_evidence_Inr:
  "insert_evidence r s = Inr s' \<Longrightarrow> er_evidence_id r \<notin> er_evidence_id ` set (evidence_rows s) \<and>
     evidence_rows s' = evidence_rows s @ [r] \<and> vd_admissions s' = vd_admissions s \<and>
     vd_dispatch s' = (vd_dispatch s)\<lparr>dd_store := (store_of s)\<lparr>db_evidence := evidence_rows s @ [r]\<rparr>\<rparr>"
  by (auto simp: insert_evidence_def has_key_iff split: if_splits dest!: insert_evidence_links_Inr)

lemma insert_evidence_admission_Inr:
  "insert_evidence_admission r s = Inr s' \<Longrightarrow> evar_admission_record_id r \<notin> evar_admission_record_id ` set (vd_admissions s) \<and>
     s' = s\<lparr>vd_admissions := vd_admissions s @ [r]\<rparr>"
  by (auto simp: insert_evidence_admission_def has_key_iff split: if_splits)

interpretation evidence_table: keyed_table er_evidence_id evidence_rows insert_evidence
  by unfold_locales (use insert_evidence_Inr in blast)+

interpretation evidence_admission_table: keyed_table evar_admission_record_id vd_admissions insert_evidence_admission
  by unfold_locales (auto dest!: insert_evidence_admission_Inr)

lemma select_assessment_Inr: "select_assessment rs i = Inr (Some a) \<Longrightarrow> a \<in> set rs"
  by (auto simp: select_assessment_def find_Some_iff split: if_splits option.splits)

lemma observation_refs_Inr:
  "observation_refs run rs = Inr refs \<Longrightarrow> map eor_observation_id refs = map (py_strip \<circ> or_observation_id) rs"
  by (induction rs arbitrary: refs) (auto simp: bindE_Inr_iff post_init_evidence_observation_ref_def)

lemma assessed_outcome_Inr:
  "assessed_outcome a = Inr (Some outcome) \<Longrightarrow> \<exists>r. a = Some r \<and> assessment_outcome_of (har_assessment_outcome r) = Some outcome"
  by (auto simp: assessed_outcome_def bindE_Inr_iff split: option.splits)

lemma assessment_outcome_of_value:
  "assessment_outcome_of v = Some outcome \<Longrightarrow> v = assessment_outcome_value outcome"
  by (auto simp: assessment_outcome_of_def split: if_splits)

lemma evidence_context_for_Inr:
  assumes "evidence_context_for x strategy assessment observed attempt result requested = Inr c"
  shows "eac_research_run_id c = py_strip (xr_research_run_id x)" "eac_hypothesis_id c = py_strip (xr_hypothesis_id x)"
    "eac_experiment_id c = py_strip (xr_experiment_id x)" "eac_evaluation_strategy c = py_strip strategy"
    "eac_observation_ids c = map (py_strip \<circ> or_observation_id) observed"
    "eac_assessment_id c = map_option har_assessment_id assessment" "assessed_outcome assessment = Inr (eac_assessment_outcome c)"
  using assms observation_refs_Inr
  by (auto simp: evidence_context_for_def bindE_Inr_iff Let_def post_init_evidence_admission_context_def eac_observation_ids_def)

definition decided :: "evidence_proposal \<Rightarrow> evidence_admission_decision \<Rightarrow> bool" where
  "decided p d \<longleftrightarrow> ead_proposal d = p \<and> (ead_outcome d = EA_ADMITTED \<longleftrightarrow> ead_admitted d)"

lemma decided_if: "decided p x \<Longrightarrow> decided p y \<Longrightarrow> decided p (if b then x else y)"
  by simp

lemma decided_decision: "(outcome = EA_ADMITTED \<longleftrightarrow> flag) \<Longrightarrow> decided p (evidence_decision outcome codes p flag)"
  by (simp add: decided_def)

lemma admission_decided: "decided p (admit_evidence p c)"
  unfolding admit_evidence_def admit_http_authorization_evidence_def admit_state_transition_evidence_def Let_def
  by (intro decided_if; rule decided_decision; simp only: evidence_admission_outcome.distinct simp_thms)

lemma admitted_outcome:
  "ead_proposal (admit_evidence p c) = p" "ead_outcome (admit_evidence p c) = EA_ADMITTED \<longleftrightarrow> creates_evidence (admit_evidence p c)"
  using admission_decided [of p c] by (auto simp: decided_def creates_evidence_def)

lemma admitted_value: "evidence_admission_outcome_value v = ''ADMITTED'' \<longleftrightarrow> v = EA_ADMITTED"
  by (cases v) simp_all

lemma evidence_admission_record_of_Inr:
  "evidence_admission_record_of i e decision version now = Inr v \<Longrightarrow> evar_admission_record_id v = i \<and>
     evar_admitted_evidence_id v = e \<and> evar_outcome v = evidence_admission_outcome_value (ead_outcome decision)"
  by (auto simp: evidence_admission_record_of_def Let_def post_init_evidence_admission_record_def raise_first_Inr_iff
      simp del: raise_first.simps)

text \<open>The row that an admitted proposal becomes.\<close>

definition evidence_row_of :: "string \<Rightarrow> string \<Rightarrow> evidence_proposal \<Rightarrow> evidence_record \<Rightarrow> bool" where
  "evidence_row_of e i p r \<longleftrightarrow> er_evidence_id r = e \<and> er_admission_record_id r = i \<and>
     er_research_run_id r = evp_research_run_id p \<and> er_hypothesis_id r = evp_hypothesis_id p \<and>
     er_experiment_id r = evp_experiment_id p \<and> er_polarity r = evidence_polarity_value (evp_polarity p) \<and>
     er_claim_scope r = evp_claim_scope p \<and> er_observation_ids r = evp_observation_ids p \<and>
     er_assessment_ids r = evp_assessment_ids p"

lemma store_evidence_Inr:
  "store_evidence e i p now s = Inr s' \<Longrightarrow> \<exists>r. evidence_row_of e i p r \<and> insert_evidence r s = Inr s'"
  unfolding store_evidence_def bindE_Inr_iff post_init_evidence_record_def raise_first_Inr_iff evidence_row_of_def
  by (metis evidence_record.select_convs)

lemma Inr_pairE: "Inr (x, y) = Inr (x', y') \<Longrightarrow> (x = x' \<Longrightarrow> y = y' \<Longrightarrow> thesis) \<Longrightarrow> thesis"
  by simp

lemma record_admission_admitted:
  assumes "record_admission new_id clock p c version s = Inr (result, s')" "creates_evidence (admit_evidence p c)"
  shows "\<exists>s1 v. store_evidence (new_id ''evidence'') (new_id ''admission record'') p (clock ''evidence'') s = Inr s1 \<and>
    evidence_admission_record_of (new_id ''admission record'') (Some (new_id ''evidence'')) (admit_evidence p c) version (clock ''admission'') = Inr v \<and>
    insert_evidence_admission v s1 = Inr s' \<and> avr_evidence_id result = Some (new_id ''evidence'')"
  using assms(1)
  unfolding record_admission_def Let_def bindE_Inr_iff mapErr_Inr_iff if_P [OF assms(2)] option.case
  apply (elim exE conjE)
  apply (erule Inr_pairE)
  apply hypsubst
  apply (rule exI, rule exI)
  apply (rule conjI, assumption)+
  apply (rule admit_evidence_result.select_convs)
  done

lemma record_admission_refused:
  assumes "record_admission new_id clock p c version s = Inr (result, s')" "\<not> creates_evidence (admit_evidence p c)"
  shows "\<exists>v. evidence_admission_record_of (new_id ''admission record'') None (admit_evidence p c) version (clock ''admission'') = Inr v \<and>
    insert_evidence_admission v s = Inr s' \<and> avr_evidence_id result = None"
  using assms(1)
  unfolding record_admission_def Let_def bindE_Inr_iff mapErr_Inr_iff if_not_P [OF assms(2)] option.case
  apply (elim exE conjE)
  apply (erule Inr_pairE)
  apply (drule Inr_inject)
  apply hypsubst
  apply (rule exI)
  apply (rule conjI, assumption)+
  apply (rule admit_evidence_result.select_convs)
  done

text \<open>
  The admission history is complete: every admission adds one record of its decision; an admitted proposal
  becomes one Evidence row with the content of the proposal, to which the record points; a refused one adds
  no Evidence.
\<close>

lemma admission_is_recorded:
  assumes "record_admission new_id clock p c version s = Inr (result, s')"
  shows "\<exists>v. vd_admissions s' = vd_admissions s @ [v] \<and>
    evar_outcome v = evidence_admission_outcome_value (ead_outcome (admit_evidence p c)) \<and>
    evar_admitted_evidence_id v = avr_evidence_id result \<and>
    (if creates_evidence (admit_evidence p c)
     then \<exists>r. evidence_rows s' = evidence_rows s @ [r] \<and> avr_evidence_id result = Some (er_evidence_id r) \<and>
       evidence_row_of (new_id ''evidence'') (new_id ''admission record'') p r
     else evidence_rows s' = evidence_rows s \<and> avr_evidence_id result = None)"
proof (cases "creates_evidence (admit_evidence p c)")
  case True
  from record_admission_admitted [OF assms True] obtain s1 v where
    e: "store_evidence (new_id ''evidence'') (new_id ''admission record'') p (clock ''evidence'') s = Inr s1"
    and v: "evidence_admission_record_of (new_id ''admission record'') (Some (new_id ''evidence'')) (admit_evidence p c) version
      (clock ''admission'') = Inr v"
    and ins: "insert_evidence_admission v s1 = Inr s'" and result: "avr_evidence_id result = Some (new_id ''evidence'')" by blast
  from store_evidence_Inr [OF e] obtain r where r: "evidence_row_of (new_id ''evidence'') (new_id ''admission record'') p r"
    "insert_evidence r s = Inr s1" by blast
  have "er_evidence_id r = new_id ''evidence''" using r(1) by (simp add: evidence_row_of_def)
  then show ?thesis
    using r insert_evidence_Inr [OF r(2)] insert_evidence_admission_Inr [OF ins] evidence_admission_record_of_Inr [OF v] result True
    by (intro exI [of _ v]) auto
next
  case False
  from record_admission_refused [OF assms False] obtain v where
    v: "evidence_admission_record_of (new_id ''admission record'') None (admit_evidence p c) version (clock ''admission'') = Inr v"
    and ins: "insert_evidence_admission v s = Inr s'" and result: "avr_evidence_id result = None" by blast
  show ?thesis
    using insert_evidence_admission_Inr [OF ins] evidence_admission_record_of_Inr [OF v] result False
    by (intro exI [of _ v]) auto
qed

text \<open>What an admission decided on is the context of the experiment's rows.\<close>

lemma admit_diagnostic_evidence_Inr:
  assumes "admit_diagnostic_evidence command new_id clock s = Inr (result, s')"
  obtains plan assessment c p where "evidence_inputs command s = Inr (plan, assessment, c)"
    "evidence_proposal_for new_id (epr_evaluation_strategy plan) c (aec_proposal command) = Inr p"
    "record_admission new_id clock p c (case assessment of None \<Rightarrow> ''none'' | Some a \<Rightarrow> har_evaluator_version a) s = Inr (result, s')"
proof -
  from assms obtain inputs where i: "evidence_inputs command s = Inr inputs"
    and rest: "(\<lambda>(plan, assessment, context). bindE (evidence_proposal_for new_id (epr_evaluation_strategy plan) context (aec_proposal command))
       (\<lambda>proposal. record_admission new_id clock proposal context
         (case assessment of None \<Rightarrow> ''none'' | Some a \<Rightarrow> har_evaluator_version a) s)) inputs = Inr (result, s')"
    unfolding admit_diagnostic_evidence_def bindE_Inr_iff by blast
  obtain plan assessment c where triple: "inputs = (plan, assessment, c)" by (rule prod_cases3)
  from rest [unfolded triple prod.case bindE_Inr_iff] i [unfolded triple] that show thesis by blast
qed

text \<open>Evidence and its admission record appear together, for whatever experiment, assessment and proposal.\<close>

lemma evidence_comes_with_its_admission:
  assumes "admit_diagnostic_evidence command new_id clock s = Inr (result, s')"
  shows "\<exists>v. vd_admissions s' = vd_admissions s @ [v] \<and> evar_admitted_evidence_id v = avr_evidence_id result \<and>
    map er_evidence_id (evidence_rows s') = map er_evidence_id (evidence_rows s) @ (case avr_evidence_id result of None \<Rightarrow> [] | Some e \<Rightarrow> [e]) \<and>
    (avr_evidence_id result \<noteq> None \<longleftrightarrow> evar_outcome v = ''ADMITTED'')"
proof (rule admit_diagnostic_evidence_Inr [OF assms])
  fix plan assessment c p
  assume "record_admission new_id clock p c (case assessment of None \<Rightarrow> ''none'' | Some a \<Rightarrow> har_evaluator_version a) s = Inr (result, s')"
  from admission_is_recorded [OF this] show ?thesis
    using admitted_value admitted_outcome(2) by (auto split: if_splits)
qed

end
