(* ===== verification/Spec2Isabelle.thy ===== *)
theory Spec2Isabelle
  imports Core_Execution Core_RateLimit Liveness Submission Model_Budget Session_Binding Capability_Binding Dispatch_Safety
    Evidence_Safety
begin

text \<open>
  A verification development for the control plane of Research OS (Python, \<open>src/research_os\<close>): the
  part that decides what a security-research worker may do, sends it, and turns its answers into
  Observations, Evidence, Candidates and, after a human's decision, Findings.

  \<^bold>\<open>The program.\<close>  A hypothesis becomes an experiment with a plan and a budget.  \<open>ExecutePlannedExperiment\<close>
  authorizes the plan (capability catalog, authorization source, scope, budget, approval, destination,
  rate limit, session), stores an attempt, dispatches it to the worker and has the result ingested.
  Ingestion normalizes a result to factual observations (Transition A).  Deterministic strategies assess
  observations, propose Evidence, propose Candidates from Evidence, verify Candidates by reproduction, and
  propose Findings; a Finding is created by the approval of a human.  Every one of these use cases is a
  transaction over PostgreSQL tables, with an append-only audit trail.  The Core (\<open>core/\<close>) is pure; the
  research layer (\<open>research/\<close>) is pure; the application layer (\<open>application/\<close>) holds the transactions.

  \<^bold>\<open>The theories.\<close>  In the order in which they build on each other:

  \<^item> \<open>Prelude\<close>: errors as the left of a sum (\<open>bindE\<close>, \<open>mapErr\<close>, the collection \<open>result_simps\<close>), the checks of
    frozen dataclasses (\<open>raise_first\<close>), Python's string operations, lists.  \<open>Py_Json\<close>: JSON values, the
    canonical encoder \<open>dumps\<close> and its injectivity up to the order of keys.  \<open>Py_Url\<close>: the part of
    \<open>urllib.parse\<close> the code uses.
  \<^item> Core: \<open>Core_Types\<close> (\<open>core/enums.py\<close>, \<open>core/errors.py\<close>, \<open>core/identity.py\<close>), \<open>Core_Approval\<close>
    (\<open>core/authorization.py\<close>, \<open>core/approval.py\<close>), \<open>Core_Budget\<close> (\<open>core/budget.py\<close>, \<open>core/pricing.py\<close>), \<open>Core_Scope\<close>
    (\<open>core/scope.py\<close>, \<open>core/scope_compiler.py\<close>), \<open>Core_RateLimit\<close> (\<open>core/rate_limit.py\<close>), \<open>Capability\<close>
    (\<open>tools/registry.py\<close>, \<open>core/capability.py\<close>), \<open>Core_Execution\<close> (\<open>core/execution.py\<close>).
  \<^item> Research: \<open>Research_Types\<close>, \<open>Evidence\<close>, \<open>Candidate\<close>, \<open>Verification\<close>, \<open>Finding_Proposal\<close>, \<open>Impact\<close>,
    \<open>Tier_Gate\<close> (the modules of \<open>research/\<close> with these names), \<open>Assessment\<close> (\<open>research/feedback.py\<close>,
    \<open>research/assessment.py\<close> and the five evaluators of \<open>research/evaluators/\<close>).
  \<^item> Persistence: \<open>Safe_Data\<close> (\<open>safe_data.py\<close>), \<open>Records\<close> (\<open>data/records.py\<close>), \<open>Store\<close> (tables and
    repositories of the pipeline), \<open>Budget_Ledger\<close> (\<open>data/budget_ledger.py\<close> and its tables),
    \<open>Dispatch_Store\<close> (the tables that dispatch reads and writes).
  \<^item> Assessment and Evidence: \<open>Evaluate_Feedback\<close> (\<open>application/evaluate_experiment_feedback.py\<close>),
    \<open>Admit_Evidence\<close> and \<open>Evidence_Safety\<close> (\<open>application/admit_diagnostic_evidence.py\<close> and what it leaves).
  \<^item> Pipeline: \<open>App_Candidate\<close>, \<open>App_Finding\<close> (the use cases from Evidence to Finding),
    \<open>Use_Case_Effects\<close> (what each of them leaves), \<open>Discovery\<close> (the use cases as a transition system),
    \<open>Lab_Run\<close> (one concrete run of it), \<open>Liveness\<close>, \<open>Submission\<close>.
  \<^item> Budgets: \<open>Budget_Use_Cases\<close> (\<open>application/budget_consumption.py\<close>, \<open>program_daily_budget.py\<close> and the
    reserving model port), \<open>Budget_Safety\<close> (their interleavings), \<open>Model_Budget\<close>.
  \<^item> Network: \<open>Url_Normalize\<close> (\<open>platform/url_normalize.py\<close>), \<open>Network_Envelope\<close>
    (\<open>application/authorized_network_envelope.py\<close> and the worker's \<open>browser_envelope.py\<close>), \<open>Program_Context\<close>
    (\<open>application/program_research_context.py\<close>), \<open>Argument_Policy\<close> (\<open>tools/*_policy.py\<close>), \<open>Http_Authorization\<close>
    (\<open>application/http_transaction_authorization.py\<close> and the worker's \<open>http_transaction.py\<close> up to the connection).
  \<^item> Sessions: \<open>Secrets\<close> (\<open>platform/secrets.py\<close>, \<open>research/identity_session.py\<close>), \<open>Session_Binding\<close>
    (\<open>application/session_binding.py\<close>, \<open>session_lifecycle.py\<close>).
  \<^item> Dispatch: \<open>Capability_Binding\<close>, \<open>Transition_A\<close> (\<open>application/transition_a/\<close>), \<open>Ingest\<close>
    (\<open>application/ingest_worker_invocation.py\<close>), \<open>Dispatch\<close> (\<open>application/execute_planned_experiment.py\<close>),
    \<open>Dispatch_Gates\<close> and \<open>Dispatch_Safety\<close> (what authorization and dispatch guarantee).

  \<^bold>\<open>How the model corresponds to the code.\<close>  A dataclass is a record with prefixed fields, and its
  \<open>__post_init__\<close> is \<open>post_init_<record>\<close>, which returns the record or the first error raised.  An enum is a
  datatype, with \<open><enum>_value\<close> where the code reads its value.  Exceptions are the left of a sum; the
  message of an error is kept up to interpolated values, and nothing decides on it except where the code
  does.  \<open>isinstance\<close> checks of typed Python values hold by the model's types; those of JSON values are
  written out (\<open>isinstance(x, int)\<close> holds of booleans).  A \<open>str\<close> is a list of characters, so code points
  above 255 are outside the model.  Instants are integers (microseconds in UTC where arithmetic on them
  matters); JSON numbers are integers.  Every identifier (\<open>uuid4\<close>) and instant the code asks for is an
  argument, per place in the code that asks.  SHA-256, IDNA, IPv6 and bracket checks of the URL library,
  \<open>fromisoformat\<close> and JSON Schema validation are parameters: nothing is assumed of them unless a statement
  says so (a collision of the hash is an alternative in the conclusion, not excluded by a hypothesis).

  A table is a list of records in insertion order; an insert checks the primary, unique and foreign keys and
  the 32-bit range of integer columns, and the interface that tables share is the locale \<open>keyed_table\<close> of
  \<open>Store\<close>, interpreted for every table that rests on it; the
  persisted life cycles share the locale \<open>lifecycle\<close> of \<open>Research_Types\<close>.  A use case is a function from the database to an
  error, which leaves the database as it was, or a result and a new database.  An exception swallowed
  inside a transaction after a failed statement leaves it aborted, as PostgreSQL does: the next statement
  fails and a commit discards the transaction.  The database runs at READ COMMITTED, so what a transaction
  read may be stale when it writes.  Where that matters a transaction is split at its locks and others
  commit in between: in the budget ledger between the read and the locked insert (\<open>Budget_Safety\<close>,
  \<open>Model_Budget\<close>); in authorization between what it reads of the experiment, its plan and its attempts
  (\<open>read_for_authorization\<close>) and the rest, which starts with the update of the experiment (\<open>decide_loaded\<close>);
  in dispatch between the read of the attempt (\<open>read_for_dispatch\<close>), the count of the requests to reserve, and
  the rest, which starts with the update of the attempt (\<open>begin_dispatch\<close>).  \<open>authorize\<close> and
  \<open>dispatch_transaction\<close> are these parts run on one database (\<open>authorize_split\<close>, \<open>authorize_run\<close>,
  \<open>dispatch_transaction_run\<close>).  Within a part, and for the other use cases, a transaction is one step:
  between the gates of \<open>decide_loaded\<close> other transactions do not commit in the model.  The secret port is not transactional, and is passed through explicitly.  The
  run table occurs with the pipeline and with the ledger; neither part writes the other's copy.

  \<^bold>\<open>What is shown.\<close>  The properties C1 to C40 stand in the theories of the components they are about:

  \<^item> The pipeline: every Finding of a reachable database has its approved proposal, human review, Core
    approval, validated Candidate with an independent reproduction, and audit trail (C1); it is unique (C8), decisions
    are final (C9), finalizing is idempotent (C5) and an approved proposal does become a Finding (C4); a
    stored proposal has passed its tiers and shows its impact (C6, C10); the decisions of the research layer
    on every branch (C11, C12, C19, C20, C22, C26 to C30, C32).
  \<^item> Dispatch: an authorization needs every gate, and gives out the plan that is stored for the experiment (C2);
    in every interleaving an invocation of the worker is authorized and charged and carries the stored plan,
    and it is made once for an attempt of which no two dispatches overlap (C3); observations are backed by results of stored experiments (C7) and
    ingestion is idempotent (C40); Core's decision implements its policy (C14) with its scope, capability,
    rate-limit and budget parts (C16 to C18, C23 to C25); what a worker sends is what Core allowed (C13, C15,
    C37); sessions and secrets stay bound to their plan (C38); normalized observations are facts (C39).
  \<^item> Budgets: envelopes are never overspent, a replay is charged once, the daily check is exact, model
    calls are bounded (C33 to C36).  Payloads: redaction and rejection of secrets (C21, C31).

  Outside the numbered properties: an assessment confirms the prediction exactly when the first stored
  observation of its kind shows it (\<open>evaluation_confirms_exactly\<close>), evaluating again changes nothing
  (\<open>evaluation_replays\<close>), and Evidence and its admission record appear together
  (\<open>evidence_comes_with_its_admission\<close>).

  Where the code does not do what it says, the deviation is a lemma beside the definition: among others
  \<open>expired_rule_masks_exclusion\<close> (\<open>Core_Scope\<close>), \<open>origin_query_escapes_exclusion\<close> (\<open>Http_Authorization\<close>),
  \<open>pattern_exclusion_not_in_envelope\<close> and \<open>prefix_admits_sibling\<close> (\<open>Network_Envelope\<close>),
  \<open>overlapping_dispatches_invoke_twice\<close> and \<open>overlapping_authorizations_both_granted\<close> (\<open>Dispatch_Safety\<close>),
  \<open>takeover_without_escalation\<close> (\<open>Impact\<close>), \<open>no_policy_continues\<close> (\<open>Model_Budget\<close>),
  \<open>late_login_revives_session\<close> (\<open>Session_Binding\<close>), \<open>failed_result_recorded_as_success\<close> (\<open>Dispatch_Safety\<close>),
  \<open>run_limit_is_per_budget\<close> and \<open>stale_replay_reports_unstored_id\<close> (\<open>Model_Budget\<close>).

  \<^bold>\<open>Bounds and fuel.\<close>  Loops over finite data are structural recursion.  The one search that takes fuel is
  the cycle search of an impact chain; its fuel is the number of nodes, which is enough because a path
  without a repeated node is no longer.  Running out of fuel is an outcome of its own (\<open>search_diverges\<close>), and
  C19 shows that the constructor of a chain never has it; no other result rests on fuel.

  \<^bold>\<open>Not modelled.\<close>  The worker process beyond the preparation of a request and the envelope it enforces
  (sockets, Chromium, process protocol), the adapters of model providers and of the external agent, the
  dashboard and command line, connection handling and row mapping: effects outside the decisions above,
  whose answers the control plane treats as untrusted input.  The benchmarks are offline measurement.  Of
  the research layer, the generation and admission of hypotheses
  from model output, the selection and routing of opportunities, the target model and the discovery graph are
  heuristics that propose work; they reach the worker only through the dispatch modelled here and reach a
  Finding only through the pipeline modelled here.  The controllers that loop over the use cases
  (\<open>autonomous_research_controller.py\<close> and the hunt cycles) are orchestration of them with model calls and are
  not modelled, so nothing is claimed about the order in which they run them: the invariants hold for every order.
\<close>

end
